(* ===== verification/Prelude.thy ===== *)
theory Prelude
  imports Complex_Main "HOL-Library.AList" "HOL-Library.Sublist" "HOL-Library.List_Lexorder"
    "HOL-Library.Char_ord"
begin

text \<open>
  Shared vocabulary of the development: the Python values a JSON document, an alert or a tool
  argument is made of (\<open>val\<close>), dictionaries as association lists in insertion order, the two
  library functions every guard uses (\<open>str.strip\<close> and numeric \<open>==\<close>), exceptions as values,
  and the text of ledger rows. The named collections \<open>frame_simps\<close> and \<open>guard_simps\<close> carry
  the record and guard lemmas that the component proofs share.
\<close>

named_theorems frame_simps \<open>what an operation leaves unchanged\<close>
named_theorems guard_simps \<open>what a guard decides, as an equation\<close>

subsection \<open>Python values\<close>

text \<open>
  The JSON values plus \<open>UUID\<close> objects, which Python callers hand over in an alert. Finite floats
  are rationals: the source only compares them, and comparison of finite floats is exact.
  \<open>VText\<close> is a string the program built with an f-string.

  \<open>summary\<close> is the text of a ledger row. \<open>Reading v\<close> is the compact JSON dump of a parsed tool
  response; \<open>Say head parts\<close> is an f-string, named by its fixed wording and carrying the values
  it interpolates.
\<close>

datatype val =
    VNull
  | VBool bool
  | VInt int
  | VFloat rat
  | VStr string
  | VUuid string
  | VList "val list"
  | VDict "(string \<times> val) list"
  | VText summary
and summary =
    Reading val
  | Word string
  | Count int
  | Frac rat
  | Say string "summary list"

type_synonym dict = "(string \<times> val) list"
type_synonym datetime = int \<comment> \<open>microseconds since the epoch, UTC\<close>

abbreviation get :: "dict \<Rightarrow> string \<Rightarrow> val option" where
  "get d k \<equiv> map_of d k"

abbreviation dict_set :: "string \<Rightarrow> val \<Rightarrow> dict \<Rightarrow> dict" where
  "dict_set \<equiv> AList.update"

abbreviation strs :: "string list \<Rightarrow> val" where
  "strs xs \<equiv> VList (map VStr xs)"

text \<open>\<open>isinstance(value, bool)\<close> and the number a value is, if \<open>==\<close> treats it as one.\<close>

fun py_number :: "val \<Rightarrow> rat option" where
  "py_number (VBool b) = Some (if b then 1 else 0)"
| "py_number (VInt i) = Some (of_int i)"
| "py_number (VFloat q) = Some q"
| "py_number _ = None"

text \<open>Python's \<open>==\<close>: numbers of any type compare by value, and \<open>False == 0\<close>.\<close>

definition py_eq :: "val \<Rightarrow> val \<Rightarrow> bool" where
  "py_eq a b = (case (py_number a, py_number b) of
      (Some x, Some y) \<Rightarrow> x = y
    | (None, None) \<Rightarrow> a = b
    | _ \<Rightarrow> False)"

text \<open>A JSON number that is not a \<open>bool\<close>, as \<open>isinstance(v, (int, float))\<close> after the bool test.\<close>

fun json_number :: "val \<Rightarrow> rat option" where
  "json_number (VInt i) = Some (of_int i)"
| "json_number (VFloat q) = Some q"
| "json_number _ = None"

fun is_str :: "val \<Rightarrow> bool" where
  "is_str (VStr _) = True"
| "is_str (VText _) = True"
| "is_str _ = False"

subsection \<open>str.strip\<close>

text \<open>The ASCII characters \<open>str.isspace\<close> accepts.\<close>

definition is_space :: "char \<Rightarrow> bool" where
  "is_space c = (let n = (of_char c :: nat) in (9 \<le> n \<and> n \<le> 13) \<or> (28 \<le> n \<and> n \<le> 32))"

definition lstrip :: "string \<Rightarrow> string" where
  "lstrip s = dropWhile is_space s"

definition strip :: "string \<Rightarrow> string" where
  "strip s = rev (lstrip (rev (lstrip s)))"

lemma dropWhile_rev_dropWhile:
  "dropWhile P (rev (dropWhile P (rev (dropWhile P s)))) = rev (dropWhile P (rev (dropWhile P s)))"
proof (cases "rev (dropWhile P (rev (dropWhile P s)))")
  case (Cons c cs)
  let ?t = "dropWhile P s"
  have split: "?t = rev (dropWhile P (rev ?t)) @ rev (takeWhile P (rev ?t))"
    by (metis rev_append rev_rev_ident takeWhile_dropWhile_id)
  with Cons have "?t = c # cs @ rev (takeWhile P (rev ?t))"
    by simp
  then have "\<not> P c"
    by (metis dropWhile_eq_Cons_conv)
  with Cons show ?thesis by simp
next
  case Nil
  then show ?thesis by (simp only: dropWhile.simps)
qed

lemma strip_idem [simp]: "strip (strip s) = strip s"
  by (simp add: strip_def lstrip_def dropWhile_rev_dropWhile dropWhile_idem)

lemma strip_Nil [simp]: "strip [] = []"
  by (simp add: strip_def lstrip_def)

subsection \<open>Exceptions as values\<close>

text \<open>
  One constructor per exception the modelled code raises or lets through. \<open>Foreign\<close> stands for
  an exception of a type this code neither raises nor catches.
\<close>

datatype exn =
    KeyError string
  | ValueError string
  | IndexError
  | TerminalStateError string
  | InvalidTransitionError string string
  | NotImplementedError string
  | MaxStepsExceededError nat
  | PolicyCoverageError string
  | IntegrityError
  | Foreign string

type_synonym 'a result = "exn + 'a"

definition bind_result :: "'e + 'a \<Rightarrow> ('a \<Rightarrow> 'e + 'b) \<Rightarrow> 'e + 'b" where
  "bind_result r f = (case r of Inl e \<Rightarrow> Inl e | Inr a \<Rightarrow> f a)"

lemma bind_result_simps [simp]:
  "bind_result (Inl e) f = Inl e"
  "bind_result (Inr a) f = f a"
  by (simp_all add: bind_result_def)

lemma bind_result_Inr_iff: "bind_result r f = Inr b \<longleftrightarrow> (\<exists>a. r = Inr a \<and> f a = Inr b)"
  by (cases r) auto

subsection \<open>Ledger text\<close>

text \<open>
  Every f-string the code writes to the ledger opens with a word, so \<open>json.loads\<close>
  rejects it; \<open>json_loads\<close> is that parse.
\<close>

abbreviation words :: "string list \<Rightarrow> summary" where
  "words xs \<equiv> Say ''list'' (map Word xs)"

fun json_loads :: "summary \<Rightarrow> val option" where
  "json_loads (Reading v) = Some v"
| "json_loads _ = None"

text \<open>\<open>json.loads\<close> followed by the \<open>isinstance(parsed, Mapping)\<close> test the readers share.\<close>

definition parsed_mapping :: "summary \<Rightarrow> dict option" where
  "parsed_mapping t = (case json_loads t of Some (VDict d) \<Rightarrow> Some d | _ \<Rightarrow> None)"

lemma parsed_mapping_simps [simp]:
  "parsed_mapping (Reading (VDict d)) = Some d"
  "parsed_mapping (Word w) = None"
  "parsed_mapping (Say h ps) = None"
  by (simp_all add: parsed_mapping_def)

subsection \<open>Lists\<close>

text \<open>First-occurrence order, as \<open>dict.fromkeys\<close> and the \<open>not in seen\<close> loops keep it.\<close>

fun dedup_onto :: "'a list \<Rightarrow> 'a list \<Rightarrow> 'a list" where
  "dedup_onto seen [] = seen"
| "dedup_onto seen (x # xs) = dedup_onto (if x \<in> set seen then seen else seen @ [x]) xs"

abbreviation dedup :: "'a list \<Rightarrow> 'a list" where
  "dedup xs \<equiv> dedup_onto [] xs"

lemma set_dedup_onto [simp]: "set (dedup_onto seen xs) = set seen \<union> set xs"
  by (induction xs arbitrary: seen) auto

lemma distinct_dedup_onto [simp]: "distinct seen \<Longrightarrow> distinct (dedup_onto seen xs)"
  by (induction xs arbitrary: seen) auto

lemma length_distinct_le:
  "distinct xs \<Longrightarrow> set xs \<subseteq> set ys \<Longrightarrow> length xs \<le> length ys"
  by (metis List.finite_set card_length card_mono distinct_card le_trans)

text \<open>The last element satisfying a test, as a \<open>reversed\<close> search finds it.\<close>

definition find_last :: "('a \<Rightarrow> bool) \<Rightarrow> 'a list \<Rightarrow> 'a option" where
  "find_last P xs = find P (rev xs)"

lemma find_last_Some: "find_last P xs = Some x \<Longrightarrow> x \<in> set xs \<and> P x"
  by (auto simp: find_last_def find_Some_iff) (metis nth_mem set_rev length_rev)

lemma find_last_None: "find_last P xs = None \<longleftrightarrow> (\<forall>x\<in>set xs. \<not> P x)"
  by (auto simp: find_last_def find_None_iff)

lemma find_last_append1 [simp]:
  "find_last P (xs @ [x]) = (if P x then Some x else find_last P xs)"
  by (simp add: find_last_def)

lemma last_filter_append1:
  "filter P (xs @ [x]) = (if P x then filter P xs @ [x] else filter P xs)"
  by simp

text \<open>\<open>max(xs, key=...)\<close>: the first element with the greatest key.\<close>

fun py_max :: "('a \<Rightarrow> 'b::linorder) \<Rightarrow> 'a \<Rightarrow> 'a list \<Rightarrow> 'a" where
  "py_max key best [] = best"
| "py_max key best (x # xs) = py_max key (if key best < key x then x else best) xs"

lemma py_max_in: "py_max key best xs \<in> set (best # xs)"
proof (induction xs arbitrary: best)
  case (Cons x xs)
  show ?case using Cons.IH[of "if key best < key x then x else best"] by (auto split: if_splits)
qed simp

lemma py_max_ge: "y \<in> set (best # xs) \<Longrightarrow> key y \<le> key (py_max key best xs)"
proof (induction xs arbitrary: best y)
  case (Cons x xs)
  let ?b = "if key best < key x then x else best"
  have "key y \<le> key ?b \<or> y \<in> set xs" using Cons.prems by auto
  with Cons.IH[of ?b ?b] Cons.IH[of y ?b] show ?case by (auto intro: order_trans)
qed simp

subsection \<open>Decimal numerals\<close>

text \<open>\<open>str(n)\<close>.\<close>

fun dec :: "nat \<Rightarrow> string" where
  "dec n = (if n < 10 then [char_of (48 + n)] else dec (n div 10) @ [char_of (48 + n mod 10)])"

declare dec.simps [simp del]

subsection \<open>Association lists\<close>

lemma get_dict_set: "get (dict_set k v d) k' = (if k' = k then Some v else get d k')"
  by (simp add: update_conv')

end
