(* ===== verification/Run_State.thy ===== *)
theory Run_State
  imports Prelude
begin

text \<open>
  \<^verbatim>\<open>agent/state.py\<close> and the hypothesis model of \<^verbatim>\<open>agent/hypothesis.py\<close>: the durable record of
  one incident run. Budgets are Python integers (\<open>int\<close>), dollars are exact rationals, wall time
  is kept in microseconds. The frozen Pydantic models are records updated functionally, which is
  what \<open>model_copy(update=...)\<close> does; \<open>evidence_id\<close> is a fresh UUID per row and is replaced by the
  row's position on the append-only ledger.
\<close>

subsection \<open>States of the incident machine\<close>

datatype incident_state =
    TRIAGE | INVESTIGATING | PLANNING | AWAITING_APPROVAL | REMEDIATING | VERIFYING
  | RESOLVED | ESCALATED | FAILED

definition terminal_states :: "incident_state set" where
  "terminal_states = {RESOLVED, ESCALATED, FAILED}"

definition is_terminal :: "incident_state \<Rightarrow> bool" where
  "is_terminal s = (s \<in> terminal_states)"

lemma is_terminal_simps [simp]:
  "is_terminal RESOLVED" "is_terminal ESCALATED" "is_terminal FAILED"
  "\<not> is_terminal TRIAGE" "\<not> is_terminal INVESTIGATING" "\<not> is_terminal PLANNING"
  "\<not> is_terminal AWAITING_APPROVAL" "\<not> is_terminal REMEDIATING" "\<not> is_terminal VERIFYING"
  by (simp_all add: is_terminal_def terminal_states_def)

fun state_value :: "incident_state \<Rightarrow> string" where
  "state_value TRIAGE = ''triage''"
| "state_value INVESTIGATING = ''investigating''"
| "state_value PLANNING = ''planning''"
| "state_value AWAITING_APPROVAL = ''awaiting_approval''"
| "state_value REMEDIATING = ''remediating''"
| "state_value VERIFYING = ''verifying''"
| "state_value RESOLVED = ''resolved''"
| "state_value ESCALATED = ''escalated''"
| "state_value FAILED = ''failed''"

subsection \<open>The budget ledger\<close>

record budget_ledger =
  max_tool_calls :: int
  tool_calls_used :: int
  max_tokens :: int
  tokens_used :: int
  max_wall_seconds :: int
  wall_us_used :: int
  max_usd :: rat
  usd_used :: rat

definition is_exhausted :: "budget_ledger \<Rightarrow> bool" where
  "is_exhausted b =
     (max_tool_calls b \<le> tool_calls_used b
      \<or> max_tokens b \<le> tokens_used b
      \<or> max_wall_seconds b * 1000000 \<le> wall_us_used b
      \<or> max_usd b \<le> usd_used b)"

text \<open>The \<open>Field(ge=0)\<close> constraints of \<open>BudgetLedger\<close>.\<close>

definition budget_wf :: "budget_ledger \<Rightarrow> bool" where
  "budget_wf b =
     (0 \<le> max_tool_calls b \<and> 0 \<le> tool_calls_used b \<and> 0 \<le> max_tokens b \<and> 0 \<le> tokens_used b
      \<and> 0 \<le> max_wall_seconds b \<and> 0 \<le> wall_us_used b \<and> 0 \<le> max_usd b \<and> 0 \<le> usd_used b)"

text \<open>Every meter at least as high, every ceiling the same: how a ledger may move.\<close>

definition budget_le :: "budget_ledger \<Rightarrow> budget_ledger \<Rightarrow> bool" where
  "budget_le b b' =
     (max_tool_calls b' = max_tool_calls b \<and> max_tokens b' = max_tokens b
      \<and> max_wall_seconds b' = max_wall_seconds b \<and> max_usd b' = max_usd b
      \<and> tool_calls_used b \<le> tool_calls_used b' \<and> tokens_used b \<le> tokens_used b'
      \<and> wall_us_used b \<le> wall_us_used b' \<and> usd_used b \<le> usd_used b')"

lemma budget_le_refl [simp, intro]: "budget_le b b"
  by (simp add: budget_le_def)

lemma budget_le_trans [trans]: "budget_le a b \<Longrightarrow> budget_le b c \<Longrightarrow> budget_le a c"
  by (auto simp: budget_le_def)

lemma is_exhausted_mono: "budget_le b b' \<Longrightarrow> is_exhausted b \<Longrightarrow> is_exhausted b'"
  by (auto simp: budget_le_def is_exhausted_def)

lemma budget_wf_mono: "budget_le b b' \<Longrightarrow> budget_wf b \<Longrightarrow> budget_wf b'"
  by (auto simp: budget_le_def budget_wf_def)

definition charge_tool_call :: "budget_ledger \<Rightarrow> budget_ledger" where
  "charge_tool_call b = b\<lparr>tool_calls_used := tool_calls_used b + 1\<rparr>"

lemma charge_tool_call_simps [simp]:
  "tool_calls_used (charge_tool_call b) = tool_calls_used b + 1"
  "max_tool_calls (charge_tool_call b) = max_tool_calls b"
  "tokens_used (charge_tool_call b) = tokens_used b"
  "usd_used (charge_tool_call b) = usd_used b"
  "wall_us_used (charge_tool_call b) = wall_us_used b"
  by (simp_all add: charge_tool_call_def)

lemma budget_le_charge_tool_call [simp, intro]: "budget_le b (charge_tool_call b)"
  by (simp add: budget_le_def charge_tool_call_def)

subsection \<open>Hypotheses\<close>

datatype hypothesis_category =
    CONSUMER_SATURATION | POISON_MESSAGE | STALE_CACHE | RUNAWAY_SAGA
  | TRANSIENT_DEPENDENCY | PERSISTENT_DATA_BUG | DEPLOY_REGRESSION | UNKNOWN
  | NO_FAULT | OUTBOX_STALL | RESOLVER_STALL | SAGA_COORDINATOR_STALL | DB_QUERY_LATENCY
  | DB_POOL_SATURATION | DOWNSTREAM_DEPENDENCY | REDIS_SATURATION | READ_MODEL_DRIFT
  | RESOURCE_EXHAUSTION | DAG_PAUSED

fun category_value :: "hypothesis_category \<Rightarrow> string" where
  "category_value CONSUMER_SATURATION = ''consumer_saturation''"
| "category_value POISON_MESSAGE = ''poison_message''"
| "category_value STALE_CACHE = ''stale_cache''"
| "category_value RUNAWAY_SAGA = ''runaway_saga''"
| "category_value TRANSIENT_DEPENDENCY = ''transient_dependency''"
| "category_value PERSISTENT_DATA_BUG = ''persistent_data_bug''"
| "category_value DEPLOY_REGRESSION = ''deploy_regression''"
| "category_value UNKNOWN = ''unknown''"
| "category_value NO_FAULT = ''no_fault''"
| "category_value OUTBOX_STALL = ''outbox_stall''"
| "category_value RESOLVER_STALL = ''resolver_stall''"
| "category_value SAGA_COORDINATOR_STALL = ''saga_coordinator_stall''"
| "category_value DB_QUERY_LATENCY = ''db_query_latency''"
| "category_value DB_POOL_SATURATION = ''db_pool_saturation''"
| "category_value DOWNSTREAM_DEPENDENCY = ''downstream_dependency''"
| "category_value REDIS_SATURATION = ''redis_saturation''"
| "category_value READ_MODEL_DRIFT = ''read_model_drift''"
| "category_value RESOURCE_EXHAUSTION = ''resource_exhaustion''"
| "category_value DAG_PAUSED = ''dag_paused''"

record hypothesis =
  category :: hypothesis_category
  hyp_name :: string
  confidence :: rat
  reasoning :: string

subsection \<open>Evidence and the run\<close>

record evidence_entry =
  tool_name :: string
  arguments :: dict
  result_summary :: summary
  timestamp :: datetime
  hypothesis_ref :: "string option"

definition entry :: "string \<Rightarrow> dict \<Rightarrow> summary \<Rightarrow> datetime \<Rightarrow> evidence_entry" where
  "entry tool args summary now =
     \<lparr>tool_name = tool, arguments = args, result_summary = summary, timestamp = now,
      hypothesis_ref = None\<rparr>"

lemma entry_simps [simp]:
  "tool_name (entry t a s now) = t"
  "arguments (entry t a s now) = a"
  "result_summary (entry t a s now) = s"
  "timestamp (entry t a s now) = now"
  by (simp_all add: entry_def)

text \<open>Bookkeeping rows carry a leading underscore; every other row is a platform call.\<close>

definition is_marker :: "string \<Rightarrow> bool" where
  "is_marker tool = (case tool of [] \<Rightarrow> False | c # _ \<Rightarrow> c = CHR ''_'')"

lemma is_marker_Cons [simp]: "is_marker (c # cs) = (c = CHR ''_'')"
  by (simp add: is_marker_def)

record run_state =
  schema_version :: int
  incident_id :: string
  state :: incident_state
  alert :: dict
  budget :: budget_ledger
  evidence :: "evidence_entry list"
  hypotheses :: "hypothesis list"
  pending_approval_id :: "string option"
  remediation_plan :: "dict option"
  remediation_attempts :: int
  created_at :: datetime
  updated_at :: datetime

definition with_state :: "run_state \<Rightarrow> incident_state \<Rightarrow> datetime \<Rightarrow> run_state" where
  "with_state rs next_state now = rs\<lparr>state := next_state, updated_at := now\<rparr>"

text \<open>\<open>(*run_state.evidence, entry)\<close>: the ledger only ever grows at its end.\<close>

definition record_row :: "run_state \<Rightarrow> evidence_entry \<Rightarrow> datetime \<Rightarrow> run_state" where
  "record_row rs e now = rs\<lparr>evidence := evidence rs @ [e], updated_at := now\<rparr>"

lemma with_state_simps [simp]:
  "state (with_state rs s now) = s"
  "evidence (with_state rs s now) = evidence rs"
  "budget (with_state rs s now) = budget rs"
  "incident_id (with_state rs s now) = incident_id rs"
  "alert (with_state rs s now) = alert rs"
  "hypotheses (with_state rs s now) = hypotheses rs"
  "remediation_plan (with_state rs s now) = remediation_plan rs"
  "remediation_attempts (with_state rs s now) = remediation_attempts rs"
  "created_at (with_state rs s now) = created_at rs"
  "updated_at (with_state rs s now) = now"
  by (simp_all add: with_state_def)

lemma record_row_simps [simp]:
  "state (record_row rs e now) = state rs"
  "evidence (record_row rs e now) = evidence rs @ [e]"
  "budget (record_row rs e now) = budget rs"
  "incident_id (record_row rs e now) = incident_id rs"
  "alert (record_row rs e now) = alert rs"
  "hypotheses (record_row rs e now) = hypotheses rs"
  "remediation_plan (record_row rs e now) = remediation_plan rs"
  "remediation_attempts (record_row rs e now) = remediation_attempts rs"
  "created_at (record_row rs e now) = created_at rs"
  "updated_at (record_row rs e now) = now"
  by (simp_all add: record_row_def)

subsection \<open>How a run may move\<close>

text \<open>
  The frame every transition keeps: the incident, its alert and its birth never change, the ledger
  is append-only, the meters never run backwards and the attempt counter never drops.
\<close>

definition run_le :: "run_state \<Rightarrow> run_state \<Rightarrow> bool" where
  "run_le rs rs' =
     (incident_id rs' = incident_id rs \<and> alert rs' = alert rs \<and> created_at rs' = created_at rs
      \<and> prefix (evidence rs) (evidence rs') \<and> budget_le (budget rs) (budget rs')
      \<and> remediation_attempts rs \<le> remediation_attempts rs')"

lemma run_le_refl [simp, intro]: "run_le rs rs"
  by (simp add: run_le_def)

lemma run_le_trans [trans]: "run_le a b \<Longrightarrow> run_le b c \<Longrightarrow> run_le a c"
  unfolding run_le_def
  by (metis budget_le_trans order_trans prefix_order.order_trans)

lemma run_le_record_row [simp, intro]: "run_le rs (record_row rs e now)"
  by (simp add: run_le_def)

lemma run_le_with_state [simp, intro]: "run_le rs (with_state rs s now)"
  by (simp add: run_le_def)

lemma run_le_evidence: "run_le rs rs' \<Longrightarrow> set (evidence rs) \<subseteq> set (evidence rs')"
  by (auto simp: run_le_def dest: set_mono_prefix)

lemma run_le_alert: "run_le rs rs' \<Longrightarrow> alert rs' = alert rs"
  by (simp add: run_le_def)

lemma run_le_budget: "run_le rs rs' \<Longrightarrow> budget_le (budget rs) (budget rs')"
  by (simp add: run_le_def)

end
