(* ===== verification/Orchestrator.thy ===== *)
theory Orchestrator
  imports Run_State
begin

text \<open>
  \<^verbatim>\<open>agent/triage.py\<close> and \<^verbatim>\<open>agent/orchestrator.py\<close>: the TRIAGE transition, the table of allowed
  transitions and \<open>dispatch\<close>, which runs one transition and refuses a successor outside the table.
  A transition is a function of the world \<open>'w\<close> it may act on (platform, model, clock), the run and
  the time of the step; it returns the next run or the exception it raised.
\<close>

subsection \<open>Triage\<close>

definition lower_char :: "char \<Rightarrow> char" where
  "lower_char c = (let n = (of_char c :: nat) in if 65 \<le> n \<and> n \<le> 90 then char_of (n + 32) else c)"

definition noise_severities :: "string list" where
  "noise_severities = [''info'', ''low'', ''unknown'']"

definition severity :: "dict \<Rightarrow> string" where
  "severity al = (case get al ''severity'' of Some (VStr raw) \<Rightarrow> map lower_char raw | _ \<Rightarrow> ''unknown'')"

text \<open>
  \<open>str_of\<close> is \<open>str(value)\<close> on the untrusted field and \<open>digest\<close> the 16-byte \<open>blake2b\<close> hex digest.
\<close>

definition dedup_key :: "(val \<Rightarrow> string) \<Rightarrow> (string \<Rightarrow> string) \<Rightarrow> dict \<Rightarrow> string" where
  "dedup_key str_of digest al =
     (let source = str_of (case get al ''source'' of Some v \<Rightarrow> v | None \<Rightarrow> VStr []);
          fingerprint = str_of (case get al ''fingerprint'' of Some v \<Rightarrow> v | None \<Rightarrow> VStr [])
      in digest (source @ ''|'' @ fingerprint))"

definition transition_triage ::
    "(val \<Rightarrow> string) \<Rightarrow> (string \<Rightarrow> string) \<Rightarrow> run_state \<Rightarrow> datetime \<Rightarrow> run_state" where
  "transition_triage str_of digest rs now =
     (let sev = severity (alert rs);
          key = dedup_key str_of digest (alert rs);
          next_state = (if sev \<in> set noise_severities then ESCALATED else INVESTIGATING);
          e = entry ''_triage'' [(''severity'', VStr sev), (''dedup_key'', VStr key)]
                (Say ''severity={} classified as {}'' [Word sev, Word (state_value next_state)]) now
      in rs\<lparr>state := next_state, updated_at := now, evidence := evidence rs @ [e]\<rparr>)"

lemma transition_triage_frame [frame_simps]:
  "run_le rs (transition_triage str_of digest rs now)"
  by (simp add: transition_triage_def Let_def run_le_def)

lemma transition_triage_state:
  "state (transition_triage str_of digest rs now) =
     (if severity (alert rs) \<in> set noise_severities then ESCALATED else INVESTIGATING)"
  by (simp add: transition_triage_def Let_def)

subsection \<open>The table and dispatch\<close>

fun allowed_transitions :: "incident_state \<Rightarrow> incident_state list" where
  "allowed_transitions TRIAGE = [INVESTIGATING, ESCALATED, FAILED]"
| "allowed_transitions INVESTIGATING = [PLANNING, ESCALATED, FAILED]"
| "allowed_transitions PLANNING = [AWAITING_APPROVAL, REMEDIATING, ESCALATED, FAILED]"
| "allowed_transitions AWAITING_APPROVAL = [REMEDIATING, ESCALATED, FAILED]"
| "allowed_transitions REMEDIATING = [VERIFYING, ESCALATED, FAILED]"
| "allowed_transitions VERIFYING = [INVESTIGATING, RESOLVED, ESCALATED, FAILED]"
| "allowed_transitions RESOLVED = []"
| "allowed_transitions ESCALATED = []"
| "allowed_transitions FAILED = []"

lemma terminal_iff_no_successor: "is_terminal s \<longleftrightarrow> allowed_transitions s = []"
  by (cases s) simp_all

lemma escalation_always_allowed: "\<not> is_terminal s \<Longrightarrow> ESCALATED \<in> set (allowed_transitions s)"
  by (cases s) simp_all

type_synonym 'w transition = "'w \<Rightarrow> run_state \<Rightarrow> datetime \<Rightarrow> 'w \<times> run_state result"
type_synonym 'w registry = "incident_state \<Rightarrow> 'w transition option"

definition stub :: "string \<Rightarrow> 'w transition" where
  "stub name w rs now = (w, Inl (NotImplementedError name))"

definition default_transitions :: "(val \<Rightarrow> string) \<Rightarrow> (string \<Rightarrow> string) \<Rightarrow> 'w registry" where
  "default_transitions str_of digest s = (case s of
      TRIAGE \<Rightarrow> Some (\<lambda>w rs now. (w, Inr (transition_triage str_of digest rs now)))
    | INVESTIGATING \<Rightarrow> Some (stub ''investigate'')
    | PLANNING \<Rightarrow> Some (stub ''plan'')
    | AWAITING_APPROVAL \<Rightarrow> Some (stub ''await_approval'')
    | REMEDIATING \<Rightarrow> Some (stub ''remediate'')
    | VERIFYING \<Rightarrow> Some (stub ''verify'')
    | _ \<Rightarrow> None)"

definition dispatch :: "'w registry \<Rightarrow> 'w transition" where
  "dispatch reg w rs now =
     (if is_terminal (state rs) then (w, Inl (TerminalStateError (state_value (state rs))))
      else case reg (state rs) of
        None \<Rightarrow> (w, Inl (KeyError (state_value (state rs))))
      | Some transition \<Rightarrow>
          (case transition w rs now of
             (w', Inl err) \<Rightarrow> (w', Inl err)
           | (w', Inr rs') \<Rightarrow>
               if state rs' \<in> set (allowed_transitions (state rs)) then (w', Inr rs')
               else (w', Inl (InvalidTransitionError (state_value (state rs)) (state_value (state rs'))))))"

lemma dispatch_InrD:
  assumes "dispatch reg w rs now = (w', Inr rs')"
  shows "\<not> is_terminal (state rs)" and "state rs' \<in> set (allowed_transitions (state rs))"
    and "\<exists>t. reg (state rs) = Some t \<and> t w rs now = (w', Inr rs')"
  using assms by (auto simp: dispatch_def split: if_splits option.splits prod.splits sum.splits)

lemma dispatch_terminal:
  "is_terminal (state rs) \<Longrightarrow> dispatch reg w rs now = (w, Inl (TerminalStateError (state_value (state rs))))"
  by (simp add: dispatch_def)

subsection \<open>Lawful registries\<close>

text \<open>
  What \<open>dispatch\<close> and the run loop rely on a transition for: the frame \<open>run_le\<close> and the
  run's identity. \<open>dispatch\<close> itself supplies the rest, whatever the transition does.
\<close>

locale lawful_registry =
  fixes reg :: "'w registry"
  assumes transition_frame: "reg (state rs) = Some t \<Longrightarrow> t w rs now = (w', Inr rs') \<Longrightarrow> run_le rs rs'"
begin

lemma dispatch_run_le: "dispatch reg w rs now = (w', Inr rs') \<Longrightarrow> run_le rs rs'"
  by (drule dispatch_InrD(3)) (auto dest: transition_frame)

end

interpretation default_reg: lawful_registry "default_transitions str_of digest"
  by unfold_locales
    (auto simp: default_transitions_def stub_def frame_simps split: incident_state.splits)

subsection \<open>The machine as a step relation\<close>

text \<open>
  One lawful move of a run and the states a run can reach: the abstract specification that
  \<open>dispatch\<close> and the loop refine.
\<close>

inductive machine_step :: "incident_state \<Rightarrow> incident_state \<Rightarrow> bool" where
  move: "t \<in> set (allowed_transitions s) \<Longrightarrow> machine_step s t"

inductive_simps machine_step_iff: "machine_step s t"
inductive_cases machine_step_from_terminal: "machine_step RESOLVED t"

lemma machine_step_not_terminal: "machine_step s t \<Longrightarrow> \<not> is_terminal s"
  by (cases s) (simp_all add: machine_step_iff)

text \<open>RESOLVED has one door: a run is resolved only out of VERIFYING, entered from REMEDIATING.\<close>

lemma only_verifying_resolves: "machine_step s RESOLVED \<longleftrightarrow> s = VERIFYING"
  by (cases s) (simp_all add: machine_step_iff)

lemma only_remediating_verifies: "machine_step s VERIFYING \<longleftrightarrow> s = REMEDIATING"
  by (cases s) (simp_all add: machine_step_iff)

lemma dispatch_refines_machine:
  "dispatch reg w rs now = (w', Inr rs') \<Longrightarrow> machine_step (state rs) (state rs')"
  by (simp add: machine_step_iff dispatch_InrD(2))

end
