(* ===== verification/Run_Loop.thy ===== *)
theory Run_Loop
  imports Orchestrator
begin

text \<open>
  \<^verbatim>\<open>agent/loop.py\<close>: \<open>run_to_completion\<close> drives a run through \<open>dispatch\<close> until it is terminal,
  charging wall time, escalating on an exhausted budget unless ADR 0006 exempts the step, stamping
  each state with the moment it was entered and checkpointing every state. The loop's bound
  \<open>max_steps\<close> is the structural argument of \<open>run_loop\<close>, so no fuel is invented: running out of it
  is the source's \<open>MaxStepsExceededError\<close>.
\<close>

subsection \<open>Helpers of the loop\<close>

definition escalate :: "run_state \<Rightarrow> string \<Rightarrow> datetime \<Rightarrow> run_state" where
  "escalate rs reason now =
     rs\<lparr>state := ESCALATED, updated_at := now,
        evidence := evidence rs @ [entry ''_escalate'' [(''reason'', VStr reason)]
                                    (Say ''escalated: {}'' [Word reason]) now]\<rparr>"

definition budget_exemption :: "run_state \<Rightarrow> bool \<Rightarrow> string option" where
  "budget_exemption rs resuming =
     (if state rs = VERIFYING then Some ''verify-after-execute''
      else if resuming \<and> state rs = REMEDIATING \<and> remediation_plan rs \<noteq> None
      then Some ''reinvoke-after-crash-resume''
      else None)"

definition accrue_wall_time :: "run_state \<Rightarrow> datetime \<Rightarrow> run_state" where
  "accrue_wall_time rs now =
     (let elapsed = now - created_at rs in
      if elapsed \<le> wall_us_used (budget rs) then rs
      else rs\<lparr>budget := (budget rs)\<lparr>wall_us_used := elapsed\<rparr>\<rparr>)"

definition stamp_entered :: "run_state \<Rightarrow> datetime \<Rightarrow> datetime \<Rightarrow> nat \<Rightarrow> run_state" where
  "stamp_entered rs dispatched_at entered evidence_before =
     (let entries = evidence rs;
          restamped =
            (if evidence_before < length entries \<and> timestamp (last entries) = dispatched_at
                \<and> is_marker (tool_name (last entries))
             then butlast entries @ [(last entries)\<lparr>timestamp := entered\<rparr>]
             else entries)
      in rs\<lparr>updated_at := entered, evidence := restamped\<rparr>)"

lemma escalate_simps [simp]:
  "state (escalate rs reason now) = ESCALATED"
  "budget (escalate rs reason now) = budget rs"
  "remediation_attempts (escalate rs reason now) = remediation_attempts rs"
  by (simp_all add: escalate_def)

lemma escalate_frame [frame_simps]: "run_le rs (escalate rs reason now)"
  by (simp add: escalate_def run_le_def)

lemma accrue_wall_time_simps [simp]:
  "state (accrue_wall_time rs now) = state rs"
  "evidence (accrue_wall_time rs now) = evidence rs"
  "alert (accrue_wall_time rs now) = alert rs"
  "incident_id (accrue_wall_time rs now) = incident_id rs"
  "created_at (accrue_wall_time rs now) = created_at rs"
  "remediation_plan (accrue_wall_time rs now) = remediation_plan rs"
  "remediation_attempts (accrue_wall_time rs now) = remediation_attempts rs"
  "hypotheses (accrue_wall_time rs now) = hypotheses rs"
  "updated_at (accrue_wall_time rs now) = updated_at rs"
  by (simp_all add: accrue_wall_time_def Let_def)

lemma accrue_wall_time_meter:
  "wall_us_used (budget (accrue_wall_time rs now)) = max (wall_us_used (budget rs)) (now - created_at rs)"
  by (simp add: accrue_wall_time_def Let_def max_def)

lemma accrue_wall_time_frame [frame_simps]: "run_le rs (accrue_wall_time rs now)"
  by (simp add: accrue_wall_time_def Let_def run_le_def budget_le_def)

lemma accrue_wall_time_idem [simp]:
  "accrue_wall_time (accrue_wall_time rs now) now = accrue_wall_time rs now"
  by (simp add: accrue_wall_time_def Let_def)

lemma stamp_entered_simps [simp]:
  "state (stamp_entered rs d t n) = state rs"
  "alert (stamp_entered rs d t n) = alert rs"
  "budget (stamp_entered rs d t n) = budget rs"
  "incident_id (stamp_entered rs d t n) = incident_id rs"
  "created_at (stamp_entered rs d t n) = created_at rs"
  "remediation_attempts (stamp_entered rs d t n) = remediation_attempts rs"
  "remediation_plan (stamp_entered rs d t n) = remediation_plan rs"
  "updated_at (stamp_entered rs d t n) = t"
  by (simp_all add: stamp_entered_def Let_def)

text \<open>Restamping never touches a row that was on the ledger before the dispatch.\<close>

lemma stamp_entered_prefix:
  assumes "prefix es (evidence rs)"
  shows "prefix es (evidence (stamp_entered rs d t (length es)))"
proof (cases "length es < length (evidence rs)")
  case True
  with assms have "prefix es (butlast (evidence rs))"
    by (metis butlast_append length_append less_add_same_cancel1 length_greater_0_conv
        prefixE prefixI)
  then show ?thesis using assms by (simp add: stamp_entered_def Let_def)
next
  case False
  with assms show ?thesis by (simp add: stamp_entered_def Let_def)
qed

lemma stamp_entered_length [simp]: "length (evidence (stamp_entered rs d t n)) = length (evidence rs)"
  by (auto simp: stamp_entered_def Let_def)

subsection \<open>The loop\<close>

record 'w run_ports =
  clock :: "'w \<Rightarrow> 'w \<times> datetime"
  checkpoint_write :: "('w \<Rightarrow> run_state \<Rightarrow> 'w \<times> unit result) option"
  registry :: "'w registry"

definition save :: "'w run_ports \<Rightarrow> 'w \<Rightarrow> run_state \<Rightarrow> 'w \<times> run_state result" where
  "save ports w rs = (case checkpoint_write ports of
      None \<Rightarrow> (w, Inr rs)
    | Some put \<Rightarrow> (case put w rs of (w', Inl err) \<Rightarrow> (w', Inl err) | (w', Inr _) \<Rightarrow> (w', Inr rs)))"

text \<open>Steps 3 to 7 of one iteration.\<close>

definition loop_iteration :: "'w run_ports \<Rightarrow> bool \<Rightarrow> 'w \<Rightarrow> run_state \<Rightarrow> 'w \<times> run_state result" where
  "loop_iteration ports resuming w rs =
     (let (w1, now) = clock ports w;
          rs1 = accrue_wall_time rs now;
          exemption = budget_exemption rs1 resuming
      in if is_exhausted (budget rs1) \<and> exemption = None
         then save ports w1 (escalate rs1 ''budget exhausted'' now)
         else case dispatch (registry ports) w1 rs1 now of
             (w2, Inl err) \<Rightarrow>
               (let (w3, t) = clock ports w2 in
                case save ports w3 (accrue_wall_time rs1 t) of
                  (w4, Inl err') \<Rightarrow> (w4, Inl err')
                | (w4, Inr _) \<Rightarrow> (w4, Inl err))
           | (w2, Inr rs2) \<Rightarrow>
               (let (w3, entered) = clock ports w2;
                    rs3 = stamp_entered rs2 now entered (length (evidence rs1))
                in save ports w3 (accrue_wall_time rs3 entered)))"

fun run_loop :: "'w run_ports \<Rightarrow> nat \<Rightarrow> nat \<Rightarrow> bool \<Rightarrow> 'w \<Rightarrow> run_state \<Rightarrow> 'w \<times> run_state result" where
  "run_loop ports max_steps 0 resuming w rs =
     (if is_terminal (state rs) then (w, Inr rs) else (w, Inl (MaxStepsExceededError max_steps)))"
| "run_loop ports max_steps (Suc left) resuming w rs =
     (if is_terminal (state rs) then (w, Inr rs)
      else case loop_iteration ports resuming w rs of
          (w', Inl err) \<Rightarrow> (w', Inl err)
        | (w', Inr rs') \<Rightarrow> run_loop ports max_steps left False w' rs')"

definition run_to_completion :: "'w run_ports \<Rightarrow> nat \<Rightarrow> 'w \<Rightarrow> run_state \<Rightarrow> 'w \<times> run_state result" where
  "run_to_completion ports max_steps w rs =
     (if is_terminal (state rs) then (w, Inl (TerminalStateError (state_value (state rs))))
      else case save ports w rs of
          (w', Inl err) \<Rightarrow> (w', Inl err)
        | (w', Inr _) \<Rightarrow> run_loop ports max_steps max_steps True w' rs)"

subsection \<open>One iteration\<close>

lemma save_InrD: "save ports w rs = (w', Inr rs') \<Longrightarrow> rs' = rs"
  by (auto simp: save_def split: option.splits prod.splits sum.splits)

text \<open>The three ways an iteration can return a run, each with the clock readings it used.\<close>

lemma loop_iteration_cases:
  assumes "loop_iteration ports resuming w rs = (w', Inr rs')"
  obtains (budget) w1 now where "clock ports w = (w1, now)"
      "is_exhausted (budget (accrue_wall_time rs now))"
      "budget_exemption rs resuming = None"
      "rs' = escalate (accrue_wall_time rs now) ''budget exhausted'' now"
      "save ports w1 rs' = (w', Inr rs')"
  | (step) w1 now w2 rs2 w3 entered where "clock ports w = (w1, now)"
      "\<not> is_exhausted (budget (accrue_wall_time rs now)) \<or> budget_exemption rs resuming \<noteq> None"
      "dispatch (registry ports) w1 (accrue_wall_time rs now) now = (w2, Inr rs2)"
      "clock ports w2 = (w3, entered)"
      "rs' = accrue_wall_time (stamp_entered rs2 now entered (length (evidence rs))) entered"
      "save ports w3 rs' = (w', Inr rs')"
proof -
  obtain w1 now where c: "clock ports w = (w1, now)" by fastforce
  let ?rs1 = "accrue_wall_time rs now"
  have ex: "budget_exemption ?rs1 resuming = budget_exemption rs resuming"
    by (simp add: budget_exemption_def)
  show thesis
  proof (cases "is_exhausted (budget ?rs1) \<and> budget_exemption rs resuming = None")
    case True
    with assms c ex have "save ports w1 (escalate ?rs1 ''budget exhausted'' now) = (w', Inr rs')"
      by (simp add: loop_iteration_def)
    with save_InrD[OF this] True c show thesis by (intro budget) auto
  next
    case False
    show thesis
    proof (cases "dispatch (registry ports) w1 ?rs1 now")
      case (Pair w2 r)
      obtain w3 entered where c2: "clock ports w2 = (w3, entered)" by fastforce
      from assms False Pair c c2 ex obtain rs2 where r: "r = Inr rs2"
        by (cases r) (auto simp: loop_iteration_def split: prod.splits sum.splits)
      from assms False Pair c c2 ex r
      have s: "save ports w3 (accrue_wall_time (stamp_entered rs2 now entered (length (evidence rs))) entered)
             = (w', Inr rs')"
        by (auto simp: loop_iteration_def)
      from save_InrD[OF s] s False Pair c c2 r show thesis by (intro step) auto
    qed
  qed
qed

lemma loop_iteration_allowed:
  assumes "loop_iteration ports resuming w rs = (w', Inr rs')" and "\<not> is_terminal (state rs)"
  shows "state rs' \<in> set (allowed_transitions (state rs))"
  using assms(1)
proof (cases rule: loop_iteration_cases)
  case budget
  with escalation_always_allowed[OF assms(2)] show ?thesis by simp
next
  case step
  from dispatch_InrD(2)[OF step(3)] step(5) show ?thesis by simp
qed

subsection \<open>What every loop over a lawful registry keeps\<close>

context lawful_registry
begin

lemma loop_iteration_run_le:
  assumes "registry ports = reg" and "loop_iteration ports resuming w rs = (w', Inr rs')"
  shows "run_le rs rs'"
  using assms(2)
proof (cases rule: loop_iteration_cases)
  case (budget w1 now)
  have "run_le rs (accrue_wall_time rs now)" by (rule accrue_wall_time_frame)
  also have "run_le (accrue_wall_time rs now) rs'" unfolding budget(4) by (rule escalate_frame)
  finally show ?thesis .
next
  case (step w1 now w2 rs2 w3 entered)
  let ?rs1 = "accrue_wall_time rs now"
  let ?rs3 = "stamp_entered rs2 now entered (length (evidence rs))"
  from step(3) assms(1) have d: "run_le ?rs1 rs2" by (simp add: dispatch_run_le)
  then have "prefix (evidence rs) (evidence rs2)" by (simp add: run_le_def)
  then have "prefix (evidence rs) (evidence ?rs3)" by (rule stamp_entered_prefix)
  with d have "run_le ?rs1 ?rs3" by (simp add: run_le_def)
  with accrue_wall_time_frame have "run_le rs ?rs3" by (rule run_le_trans)
  also have "run_le ?rs3 rs'" unfolding step(5) by (rule accrue_wall_time_frame)
  finally show ?thesis .
qed

lemma run_loop_run_le:
  assumes "registry ports = reg"
  shows "run_loop ports m n resuming w rs = (w', Inr rs') \<Longrightarrow> run_le rs rs'"
proof (induction n arbitrary: resuming w rs)
  case 0
  then show ?case by (auto split: if_splits)
next
  case (Suc n)
  show ?case
  proof (cases "is_terminal (state rs)")
    case True
    with Suc.prems show ?thesis by simp
  next
    case False
    with Suc.prems obtain w1 rs1 where it: "loop_iteration ports resuming w rs = (w1, Inr rs1)"
      and rest: "run_loop ports m n False w1 rs1 = (w', Inr rs')"
      by (auto split: prod.splits sum.splits)
    from loop_iteration_run_le[OF assms it] Suc.IH[OF rest] show ?thesis by (rule run_le_trans)
  qed
qed

end

lemma run_loop_terminal:
  "run_loop ports m n resuming w rs = (w', Inr rs') \<Longrightarrow> is_terminal (state rs')"
  by (induction n arbitrary: resuming w rs) (auto split: if_splits prod.splits sum.splits)

subsection \<open>Invariants of a run\<close>

text \<open>
  A registry whose transitions keep \<open>inv\<close>, an invariant that the loop's own bookkeeping (wall
  time, escalation, stamping) keeps too.
\<close>

locale guarded_registry = lawful_registry reg for reg :: "'w registry" +
  fixes inv :: "run_state \<Rightarrow> bool"
  assumes inv_transition: "reg (state rs) = Some t \<Longrightarrow> inv rs \<Longrightarrow> t w rs now = (w', Inr rs') \<Longrightarrow> inv rs'"
    and inv_accrue: "inv rs \<Longrightarrow> inv (accrue_wall_time rs now)"
    and inv_escalate: "inv rs \<Longrightarrow> inv (escalate rs reason now)"
    and inv_stamp: "inv rs \<Longrightarrow> inv (stamp_entered rs d now n)"
begin

lemma dispatch_inv: "dispatch reg w rs now = (w', Inr rs') \<Longrightarrow> inv rs \<Longrightarrow> inv rs'"
  by (drule dispatch_InrD(3)) (auto intro: inv_transition)

lemma loop_iteration_inv:
  assumes "registry ports = reg" and "loop_iteration ports resuming w rs = (w', Inr rs')" and "inv rs"
  shows "inv rs'"
  using assms(2)
proof (cases rule: loop_iteration_cases)
  case (budget w1 now)
  with assms(3) show ?thesis by (simp add: inv_accrue inv_escalate)
next
  case (step w1 now w2 rs2 w3 entered)
  with assms(1,3) have "inv rs2" by (metis dispatch_inv inv_accrue)
  with step(5) show ?thesis by (simp add: inv_accrue inv_stamp)
qed

lemma run_loop_inv:
  assumes "registry ports = reg"
  shows "run_loop ports m n resuming w rs = (w', Inr rs') \<Longrightarrow> inv rs \<Longrightarrow> inv rs'"
proof (induction n arbitrary: resuming w rs)
  case 0
  then show ?case by (auto split: if_splits)
next
  case (Suc n)
  then show ?case
    by (fastforce split: if_splits prod.splits sum.splits dest: loop_iteration_inv[OF assms])
qed

end

subsection \<open>What an iteration that raised left behind\<close>

text \<open>
  A raised transition is checkpointed with its wall time before the exception propagates, unless
  the checkpoint itself fails.
\<close>

lemma loop_iteration_raised:
  assumes "loop_iteration ports resuming w rs = (w', Inl err)"
  obtains w1 now w2 r w3 t w4 rs1 where "clock ports w = (w1, now)"
    and "dispatch (registry ports) w1 (accrue_wall_time rs now) now = (w2, r)"
    and "clock ports w2 = (w3, t)" and "w4 = w1 \<or> w4 = w3"
    and "save ports w4 rs1 = (w', Inl err)
      \<or> rs1 = accrue_wall_time (accrue_wall_time rs now) t \<and> save ports w4 rs1 = (w', Inr rs1)"
proof -
  obtain w1 now where c: "clock ports w = (w1, now)" by fastforce
  let ?rs1 = "accrue_wall_time rs now"
  obtain w2 r where d: "dispatch (registry ports) w1 ?rs1 now = (w2, r)" by fastforce
  obtain w3 t where c2: "clock ports w2 = (w3, t)" by fastforce
  note found = that[OF c d c2]
  show thesis
  proof (cases "is_exhausted (budget ?rs1) \<and> budget_exemption ?rs1 resuming = None")
    case True
    with assms c show thesis
      by (intro found[of w1 "escalate ?rs1 ''budget exhausted'' now"]) (auto simp: loop_iteration_def)
  next
    case False
    note it = assms[unfolded loop_iteration_def c Let_def prod.case]
    show thesis
    proof (cases r)
      case (Inr rs2)
      with it False d c2 show thesis
        by (intro found[of w3 "accrue_wall_time (stamp_entered rs2 now t (length (evidence ?rs1))) t"]) auto
    next
      case (Inl e)
      obtain w4 r4 where s: "save ports w3 (accrue_wall_time ?rs1 t) = (w4, r4)" by fastforce
      with Inl it False d c2 save_InrD[of ports w3 _ w4] show thesis
        by (cases r4) (auto intro!: found[of w3 "accrue_wall_time ?rs1 t"])
    qed
  qed
qed

end
