(* ===== verification/Accounting.thy ===== *)
theory Accounting
  imports Run_State
begin

text \<open>
  What a model call costs and who is charged: \<^verbatim>\<open>llm/pricing.py\<close>, the usage record of
  \<^verbatim>\<open>llm/client.py\<close>, the bounded output repair of \<^verbatim>\<open>llm/repair.py\<close> and
  \<^verbatim>\<open>agent/accounting.py\<close>. Dollars are exact rationals; \<open>quantize\<close> is
  \<open>Decimal.quantize(..., ROUND_HALF_UP)\<close> on the non-negative amounts that occur.
\<close>

subsection \<open>Usage\<close>

text \<open>Token counts are naturals: the Messages API reports none below zero.\<close>

record llm_usage =
  input_tokens :: nat
  output_tokens :: nat
  cache_creation_tokens :: nat
  cache_read_tokens :: nat
  discarded_attempts :: nat
  discarded_max_tokens :: nat

definition discarded_output_tokens :: "llm_usage \<Rightarrow> nat" where
  "discarded_output_tokens u = discarded_attempts u * discarded_max_tokens u"

definition token_volume :: "llm_usage \<Rightarrow> nat" where
  "token_volume u = input_tokens u + output_tokens u + cache_creation_tokens u
     + cache_read_tokens u + discarded_output_tokens u"

subsection \<open>Prices\<close>

record model_pricing =
  input_usd_per_mtok :: rat
  output_usd_per_mtok :: rat
  cache_write_usd_per_mtok :: rat
  cache_read_usd_per_mtok :: rat

definition pricing_table :: "(string \<times> model_pricing) list" where
  "pricing_table =
     [(''claude-sonnet-4-6'',
       \<lparr>input_usd_per_mtok = 3, output_usd_per_mtok = 15,
        cache_write_usd_per_mtok = 15/4, cache_read_usd_per_mtok = 3/10\<rparr>),
      (''claude-haiku-4-5'',
       \<lparr>input_usd_per_mtok = 1, output_usd_per_mtok = 5,
        cache_write_usd_per_mtok = 5/4, cache_read_usd_per_mtok = 1/10\<rparr>)]"

definition class_ceiling :: "(string \<times> model_pricing) list \<Rightarrow> model_pricing result" where
  "class_ceiling table =
     (case map snd table of
        [] \<Rightarrow> Inl (ValueError ''no registered price rows; cannot bound an unknown model'')
      | r # rows \<Rightarrow> Inr
          \<lparr>input_usd_per_mtok = foldl max (input_usd_per_mtok r) (map input_usd_per_mtok rows),
           output_usd_per_mtok = foldl max (output_usd_per_mtok r) (map output_usd_per_mtok rows),
           cache_write_usd_per_mtok = foldl max (cache_write_usd_per_mtok r) (map cache_write_usd_per_mtok rows),
           cache_read_usd_per_mtok = foldl max (cache_read_usd_per_mtok r) (map cache_read_usd_per_mtok rows)\<rparr>)"

definition pricing_for :: "string \<Rightarrow> model_pricing result" where
  "pricing_for model = (case map_of pricing_table model of
      Some row \<Rightarrow> Inr row
    | None \<Rightarrow> class_ceiling pricing_table)"

definition quantize :: "rat \<Rightarrow> rat" where
  "quantize x = of_int \<lfloor>x * 1000000 + 1/2\<rfloor> / 1000000"

definition raw_cost :: "model_pricing \<Rightarrow> llm_usage \<Rightarrow> rat" where
  "raw_cost row u =
     (of_nat (input_tokens u) * input_usd_per_mtok row
      + of_nat (output_tokens u + discarded_output_tokens u) * output_usd_per_mtok row
      + of_nat (cache_creation_tokens u) * cache_write_usd_per_mtok row
      + of_nat (cache_read_tokens u) * cache_read_usd_per_mtok row) / 1000000"

text \<open>
  The shipped table is not empty, so \<open>pricing_for\<close> always answers (\<open>pricing_for_total\<close>); the
  exception branch below is the source's, kept for an edited table.
\<close>

definition cost_of :: "string \<Rightarrow> llm_usage \<Rightarrow> rat" where
  "cost_of model u =
     (if input_tokens u = 0 \<and> output_tokens u = 0 \<and> discarded_output_tokens u = 0
         \<and> cache_creation_tokens u = 0 \<and> cache_read_tokens u = 0
      then 0
      else case pricing_for model of
             Inr row \<Rightarrow> quantize (raw_cost row u)
           | Inl _ \<Rightarrow> 0)"

definition pricing_le :: "model_pricing \<Rightarrow> model_pricing \<Rightarrow> bool" where
  "pricing_le a b = (input_usd_per_mtok a \<le> input_usd_per_mtok b
     \<and> output_usd_per_mtok a \<le> output_usd_per_mtok b
     \<and> cache_write_usd_per_mtok a \<le> cache_write_usd_per_mtok b
     \<and> cache_read_usd_per_mtok a \<le> cache_read_usd_per_mtok b)"

definition pricing_nonneg :: "model_pricing \<Rightarrow> bool" where
  "pricing_nonneg a = (0 \<le> input_usd_per_mtok a \<and> 0 \<le> output_usd_per_mtok a
     \<and> 0 \<le> cache_write_usd_per_mtok a \<and> 0 \<le> cache_read_usd_per_mtok a)"

lemma foldl_max_ge_start: "(a::'a::linorder) \<le> foldl max a xs"
proof (induction xs arbitrary: a)
  case (Cons x xs)
  show ?case using Cons.IH[of "max a x"] by simp
qed simp

lemma foldl_max_ge: "x \<in> set (a # xs) \<Longrightarrow> (x::'a::linorder) \<le> foldl max a xs"
proof (induction xs arbitrary: a)
  case (Cons y ys)
  then consider "x = a \<or> x = y" | "x \<in> set ys" by auto
  then show ?case
    using Cons.IH[of "max a y"] foldl_max_ge_start[of "max a y" ys] by cases auto
qed simp

lemma class_ceiling_bounds:
  "class_ceiling table = Inr c \<Longrightarrow> (m, row) \<in> set table \<Longrightarrow> pricing_le row c"
  by (cases table)
    (force simp: class_ceiling_def pricing_le_def simp del: foldl_Cons intro!: foldl_max_ge)+

lemma pricing_for_total: "\<exists>row. pricing_for model = Inr row \<and> pricing_nonneg row"
  by (auto simp: pricing_for_def pricing_table_def class_ceiling_def pricing_nonneg_def)

lemma quantize_mono: "x \<le> y \<Longrightarrow> quantize x \<le> quantize y"
  by (simp add: quantize_def floor_mono divide_right_mono)

lemma quantize_nonneg: "0 \<le> x \<Longrightarrow> 0 \<le> quantize x"
  by (simp add: quantize_def)

lemma quantize_error: "\<bar>quantize x - x\<bar> \<le> 1/2000000"
  unfolding quantize_def by linarith

lemma raw_cost_mono:
  assumes "pricing_le a b"
  shows "raw_cost a u \<le> raw_cost b u"
  using assms unfolding raw_cost_def pricing_le_def
  by (intro divide_right_mono add_mono mult_left_mono) auto

lemma raw_cost_nonneg:
  assumes "pricing_nonneg a"
  shows "0 \<le> raw_cost a u"
  using assms unfolding raw_cost_def pricing_nonneg_def
  by (intro divide_nonneg_nonneg add_nonneg_nonneg mult_nonneg_nonneg) auto

lemma cost_of_nonneg [simp]: "0 \<le> cost_of model u"
  using pricing_for_total[of model]
  by (auto simp: cost_of_def intro!: quantize_nonneg raw_cost_nonneg)

lemma cost_of_eq:
  assumes "pricing_for model = Inr row"
  shows "cost_of model u = (if input_tokens u = 0 \<and> output_tokens u = 0 \<and> discarded_output_tokens u = 0
         \<and> cache_creation_tokens u = 0 \<and> cache_read_tokens u = 0 then 0 else quantize (raw_cost row u))"
  using assms by (simp add: cost_of_def)

subsection \<open>Adding bills up\<close>

text \<open>\<open>discarded_attempts\<close> are summed, \<open>discarded_max_tokens\<close> is the maximum.\<close>

definition add_usage :: "llm_usage \<Rightarrow> llm_usage \<Rightarrow> llm_usage" where
  "add_usage a b =
     \<lparr>input_tokens = input_tokens a + input_tokens b,
      output_tokens = output_tokens a + output_tokens b,
      cache_creation_tokens = cache_creation_tokens a + cache_creation_tokens b,
      cache_read_tokens = cache_read_tokens a + cache_read_tokens b,
      discarded_attempts = discarded_attempts a + discarded_attempts b,
      discarded_max_tokens = max (discarded_max_tokens a) (discarded_max_tokens b)\<rparr>"

definition sum_usage :: "llm_usage option list \<Rightarrow> llm_usage option" where
  "sum_usage usages =
     (case concat (map (\<lambda>u. case u of Some x \<Rightarrow> [x] | None \<Rightarrow> []) usages) of
        [] \<Rightarrow> None
      | u # us \<Rightarrow> Some (foldl add_usage u us))"

lemma add_usage_sums [simp]:
  "input_tokens (add_usage a b) = input_tokens a + input_tokens b"
  "output_tokens (add_usage a b) = output_tokens a + output_tokens b"
  "cache_creation_tokens (add_usage a b) = cache_creation_tokens a + cache_creation_tokens b"
  "cache_read_tokens (add_usage a b) = cache_read_tokens a + cache_read_tokens b"
  "discarded_attempts (add_usage a b) = discarded_attempts a + discarded_attempts b"
  "discarded_max_tokens (add_usage a b) = max (discarded_max_tokens a) (discarded_max_tokens b)"
  by (simp_all add: add_usage_def)

text \<open>The product of a sum and a maximum covers the sum of the products.\<close>

lemma discarded_add_ge:
  shows "discarded_output_tokens a + discarded_output_tokens b \<le> discarded_output_tokens (add_usage a b)"
proof -
  let ?m = "max (discarded_max_tokens a) (discarded_max_tokens b)"
  have "discarded_attempts a * discarded_max_tokens a \<le> discarded_attempts a * ?m"
    and "discarded_attempts b * discarded_max_tokens b \<le> discarded_attempts b * ?m"
    by (auto intro: mult_left_mono)
  then show ?thesis
    unfolding discarded_output_tokens_def add_usage_sums distrib_right by (rule add_mono)
qed

lemma token_volume_add_ge:
  shows "token_volume a + token_volume b \<le> token_volume (add_usage a b)"
  using discarded_add_ge[of a b] by (simp add: token_volume_def)

lemma raw_cost_add_ge:
  assumes "pricing_nonneg row"
  shows "raw_cost row a + raw_cost row b \<le> raw_cost row (add_usage a b)"
proof -
  have d: "of_nat (discarded_output_tokens a + discarded_output_tokens b) * output_usd_per_mtok row
      \<le> (of_nat (discarded_output_tokens (add_usage a b)) :: rat) * output_usd_per_mtok row"
    using discarded_add_ge[of a b] assms unfolding pricing_nonneg_def
    by (intro mult_right_mono) auto
  have "raw_cost row (add_usage a b) * 1000000 - (raw_cost row a + raw_cost row b) * 1000000
     = of_nat (discarded_output_tokens (add_usage a b)) * output_usd_per_mtok row
       - of_nat (discarded_output_tokens a + discarded_output_tokens b) * output_usd_per_mtok row"
    by (simp add: raw_cost_def algebra_simps add_divide_distrib)
  with d have "0 \<le> (raw_cost row (add_usage a b) - (raw_cost row a + raw_cost row b)) * 1000000"
    by (simp only: left_diff_distrib diff_ge_0_iff_ge)
  then show ?thesis by simp
qed

lemma foldl_add_usage_over:
  assumes "pricing_nonneg row"
  shows "token_volume u + sum_list (map token_volume us) \<le> token_volume (foldl add_usage u us)
     \<and> raw_cost row u + sum_list (map (raw_cost row) us) \<le> raw_cost row (foldl add_usage u us)"
proof (induction us arbitrary: u)
  case (Cons x us)
  with Cons.IH[of "add_usage u x"] token_volume_add_ge[of u x] raw_cost_add_ge[OF assms, of u x]
  show ?case by (auto simp: add.assoc [symmetric] intro: order_trans[OF add_right_mono])
qed simp

subsection \<open>One bounded re-ask\<close>

text \<open>
  What one client call can raise. \<open>Unreadable\<close> is an \<open>LLMOutputError\<close>, \<open>ValidationError\<close> or
  \<open>ValueError\<close>; its flag says whether the output model's \<open>output_refused\<close> calls it a withdrawn
  move. \<open>Unreachable\<close> is any other \<open>LLMError\<close>, \<open>Crashed\<close> anything else.
\<close>

datatype call_failure =
    Unreadable "llm_usage option" bool
  | Unreachable "llm_usage option"
  | Crashed exn

datatype repair_error =
    Output_not_offered "llm_usage option"
  | Output_repair_exhausted "llm_usage option"
  | Transport_error "llm_usage option"
  | Uncaught exn

record 'o repaired_call =
  call_output :: 'o
  call_usage :: llm_usage
  failures :: "llm_usage option list"

type_synonym ('w, 'o) llm_client =
  "'w \<Rightarrow> llm_usage option option \<Rightarrow> 'w \<times> (call_failure + 'o \<times> llm_usage)"

definition max_output_repairs :: nat where
  "max_output_repairs = 1"

text \<open>
  The client is asked with the failure the re-ask quotes, if any (\<open>repair_message\<close> appends only
  the newest failure to the original turn).
\<close>

fun ask_again ::
    "('w, 'o) llm_client \<Rightarrow> nat \<Rightarrow> llm_usage option list \<Rightarrow> 'w \<Rightarrow> llm_usage option option
     \<Rightarrow> 'w \<times> (repair_error + 'o repaired_call)" where
  "ask_again client 0 fs w quoted = (w, Inl (Output_repair_exhausted (sum_usage fs)))"
| "ask_again client (Suc asks) fs w quoted =
     (case client w quoted of
        (w', Inr (out, u)) \<Rightarrow> (w', Inr \<lparr>call_output = out, call_usage = u, failures = fs\<rparr>)
      | (w', Inl (Unreadable u refused)) \<Rightarrow>
          if refused then (w', Inl (Output_not_offered u))
          else ask_again client asks (fs @ [u]) w' (Some u)
      | (w', Inl (Unreachable u)) \<Rightarrow> (w', Inl (Transport_error u))
      | (w', Inl (Crashed err)) \<Rightarrow> (w', Inl (Uncaught err)))"

definition call_with_output_repair ::
    "('w, 'o) llm_client \<Rightarrow> 'w \<Rightarrow> 'w \<times> (repair_error + 'o repaired_call)" where
  "call_with_output_repair client w = ask_again client (max_output_repairs + 1) [] w None"

subsection \<open>Charging the ledger\<close>

definition accrue_llm_usage :: "budget_ledger \<Rightarrow> llm_usage \<Rightarrow> string \<Rightarrow> budget_ledger" where
  "accrue_llm_usage b u model =
     b\<lparr>tokens_used := tokens_used b + int (token_volume u), usd_used := usd_used b + cost_of model u\<rparr>"

definition accrue_llm_error :: "budget_ledger \<Rightarrow> llm_usage option \<Rightarrow> string \<Rightarrow> budget_ledger" where
  "accrue_llm_error b err_usage model =
     (case err_usage of None \<Rightarrow> b | Some u \<Rightarrow> accrue_llm_usage b u model)"

definition accrue_structured_call :: "budget_ledger \<Rightarrow> 'o repaired_call \<Rightarrow> string \<Rightarrow> budget_ledger" where
  "accrue_structured_call b call model =
     accrue_llm_usage (foldl (\<lambda>b u. accrue_llm_error b u model) b (failures call)) (call_usage call) model"

text \<open>The usage a raised failure carries: \<open>accrue_llm_error\<close> reads it off any \<open>LLMError\<close>.\<close>

fun repair_error_usage :: "repair_error \<Rightarrow> llm_usage option" where
  "repair_error_usage (Output_not_offered u) = u"
| "repair_error_usage (Output_repair_exhausted u) = u"
| "repair_error_usage (Transport_error u) = u"
| "repair_error_usage (Uncaught _) = None"

lemma accrue_llm_usage_simps [simp]:
  "tool_calls_used (accrue_llm_usage b u m) = tool_calls_used b"
  "max_tool_calls (accrue_llm_usage b u m) = max_tool_calls b"
  "wall_us_used (accrue_llm_usage b u m) = wall_us_used b"
  "tokens_used (accrue_llm_usage b u m) = tokens_used b + int (token_volume u)"
  "usd_used (accrue_llm_usage b u m) = usd_used b + cost_of m u"
  by (simp_all add: accrue_llm_usage_def)

lemma accrue_llm_error_simps [simp]:
  "tool_calls_used (accrue_llm_error b u m) = tool_calls_used b"
  "max_tool_calls (accrue_llm_error b u m) = max_tool_calls b"
  by (cases u; simp add: accrue_llm_error_def)+

lemma accrue_structured_call_simps [simp]:
  "tool_calls_used (accrue_structured_call b call m) = tool_calls_used b"
  "max_tool_calls (accrue_structured_call b call m) = max_tool_calls b"
proof -
  have "tool_calls_used (foldl (\<lambda>b u. accrue_llm_error b u m) b us) = tool_calls_used b
      \<and> max_tool_calls (foldl (\<lambda>b u. accrue_llm_error b u m) b us) = max_tool_calls b" for us
    by (induction us arbitrary: b) auto
  then show "tool_calls_used (accrue_structured_call b call m) = tool_calls_used b"
    and "max_tool_calls (accrue_structured_call b call m) = max_tool_calls b"
    by (simp_all add: accrue_structured_call_def)
qed

lemma budget_le_accrue_usage [simp, intro]: "budget_le b (accrue_llm_usage b u m)"
  by (simp add: accrue_llm_usage_def budget_le_def)

lemma budget_le_accrue_error [simp, intro]: "budget_le b (accrue_llm_error b u m)"
  by (simp add: accrue_llm_error_def split: option.splits)

lemma budget_le_accrue_errors:
  "budget_le b (foldl (\<lambda>b u. accrue_llm_error b u m) b us)"
proof (induction us arbitrary: b)
  case (Cons u us)
  have "budget_le b (accrue_llm_error b u m)" by simp
  also have "budget_le (accrue_llm_error b u m) (foldl (\<lambda>b u. accrue_llm_error b u m) b (u # us))"
    using Cons by simp
  finally show ?case .
qed simp

lemma budget_le_accrue_call [simp, intro]: "budget_le b (accrue_structured_call b call m)"
  unfolding accrue_structured_call_def
  using budget_le_accrue_errors budget_le_accrue_usage budget_le_trans by blast

subsection \<open>The split of the bill\<close>

record llm_call_accounting =
  role :: string
  charged_to_ledger :: bool
  acc_usage :: llm_usage
  acc_tokens_used :: int
  acc_usd_used :: rat
  elapsed_ms :: int
  failed :: bool

definition call_accounting_of ::
    "string \<Rightarrow> string \<Rightarrow> llm_usage \<Rightarrow> int \<Rightarrow> bool \<Rightarrow> bool \<Rightarrow> llm_call_accounting" where
  "call_accounting_of r model u elapsed charged fail =
     \<lparr>role = r, charged_to_ledger = charged, acc_usage = u, acc_tokens_used = int (token_volume u),
      acc_usd_used = cost_of model u, elapsed_ms = elapsed, failed = fail\<rparr>"

type_synonym run_accounting = "llm_call_accounting list"

text \<open>
  \<open>MeteredLLMClient.call\<close>: a wrapper that records what each call billed under a role, failures
  that carry a usage included, and passes the result or the exception on unchanged.
\<close>

definition failure_usage :: "call_failure \<Rightarrow> llm_usage option" where
  "failure_usage f = (case f of Unreadable u _ \<Rightarrow> u | Unreachable u \<Rightarrow> u | Crashed _ \<Rightarrow> None)"

definition metered_call ::
    "('w, 'o) llm_client \<Rightarrow> string \<Rightarrow> string \<Rightarrow> bool \<Rightarrow> ('w \<times> run_accounting, 'o) llm_client" where
  "metered_call inner r model charged wa quoted =
     (case inner (fst wa) quoted of
        (w', Inr (out, u)) \<Rightarrow>
          ((w', snd wa @ [call_accounting_of r model u 0 charged False]), Inr (out, u))
      | (w', Inl f) \<Rightarrow>
          ((w', case failure_usage f of
                  Some u \<Rightarrow> snd wa @ [call_accounting_of r model u 0 charged True]
                | None \<Rightarrow> snd wa), Inl f))"

definition charged_tokens_used :: "run_accounting \<Rightarrow> int" where
  "charged_tokens_used cs = sum_list (map acc_tokens_used (filter charged_to_ledger cs))"

definition charged_usd_used :: "run_accounting \<Rightarrow> rat" where
  "charged_usd_used cs = sum_list (map acc_usd_used (filter charged_to_ledger cs))"

definition reconciles_with :: "run_accounting \<Rightarrow> budget_ledger \<Rightarrow> bool" where
  "reconciles_with cs b = (charged_tokens_used cs = tokens_used b \<and> charged_usd_used cs = usd_used b)"

record role_totals =
  tot_role :: string
  tot_calls :: nat
  tot_tokens :: int
  tot_usd :: rat

definition totals_of :: "run_accounting \<Rightarrow> string \<Rightarrow> role_totals" where
  "totals_of cs r =
     (let mine = filter (\<lambda>c. role c = r) cs in
      \<lparr>tot_role = r, tot_calls = length mine, tot_tokens = sum_list (map acc_tokens_used mine),
       tot_usd = sum_list (map acc_usd_used mine)\<rparr>)"

definition roles :: "run_accounting \<Rightarrow> role_totals list" where
  "roles cs = map (totals_of cs) (dedup (map role cs))"

definition run_tokens_used :: "run_accounting \<Rightarrow> int" where
  "run_tokens_used cs = sum_list (map acc_tokens_used cs)"

definition run_usd_used :: "run_accounting \<Rightarrow> rat" where
  "run_usd_used cs = sum_list (map acc_usd_used cs)"

lemma sum_list_by_role:
  assumes "distinct rs" and "set (map role cs) \<subseteq> set rs"
  shows "(\<Sum>r\<leftarrow>rs. sum_list (map f (filter (\<lambda>c. role c = r) cs)))
       = (sum_list (map f cs) :: 'a::comm_monoid_add)"
  using assms(2)
proof (induction cs)
  case (Cons c cs)
  have "(\<Sum>r\<leftarrow>rs. sum_list (map f (filter (\<lambda>d. role d = r) (c # cs))))
      = (\<Sum>r\<leftarrow>rs. (if r = role c then f c else 0)) + (\<Sum>r\<leftarrow>rs. sum_list (map f (filter (\<lambda>d. role d = r) cs)))"
    by (simp add: sum_list_addf [symmetric] cong: map_cong if_cong) (rule arg_cong[of _ _ sum_list], auto)
  moreover have "(\<Sum>r\<leftarrow>rs. (if r = role c then f c else 0)) = f c"
    using assms(1) Cons.prems by (simp add: sum_list_distinct_conv_sum_set)
  ultimately show ?case using Cons by simp
qed simp

text \<open>What the ledger and the split hold after one repaired call, leg by leg.\<close>

definition charges :: "string \<Rightarrow> llm_usage option list \<Rightarrow> int \<times> rat" where
  "charges model us =
     (sum_list (map (\<lambda>u. case u of None \<Rightarrow> 0 | Some x \<Rightarrow> int (token_volume x)) us),
      sum_list (map (\<lambda>u. case u of None \<Rightarrow> 0 | Some x \<Rightarrow> cost_of model x) us))"

lemma accrue_errors_charges:
  "tokens_used (foldl (\<lambda>b u. accrue_llm_error b u m) b us) = tokens_used b + fst (charges m us)
   \<and> usd_used (foldl (\<lambda>b u. accrue_llm_error b u m) b us) = usd_used b + snd (charges m us)"
  by (induction us arbitrary: b) (auto simp: charges_def accrue_llm_error_def split: option.splits)

lemma accrue_call_charges:
  "tokens_used (accrue_structured_call b call m)
     = tokens_used b + fst (charges m (failures call @ [Some (call_usage call)]))
   \<and> usd_used (accrue_structured_call b call m)
     = usd_used b + snd (charges m (failures call @ [Some (call_usage call)]))"
  using accrue_errors_charges[of m b "failures call"]
  by (simp add: accrue_structured_call_def charges_def)

lemma metered_ask_again:
  assumes "ask_again (metered_call inner r m True) n fs (w, cs) quoted = ((w', cs'), Inr call)"
    and "reconciles_with cs (foldl (\<lambda>b u. accrue_llm_error b u m) b fs)"
  shows "reconciles_with cs' (accrue_structured_call b call m)"
  using assms
proof (induction n arbitrary: fs w cs quoted)
  case (Suc n)
  show ?case
  proof (cases "inner w quoted")
    case (Pair w1 res)
    show ?thesis
    proof (cases res)
      case (Inr p)
      with Suc.prems Pair show ?thesis
        by (cases p) (auto simp: metered_call_def reconciles_with_def charged_tokens_used_def
            charged_usd_used_def call_accounting_of_def accrue_structured_call_def)
    next
      case (Inl f)
      show ?thesis
      proof (cases f)
        case (Unreadable u refused)
        let ?cs = "case u of Some x \<Rightarrow> cs @ [call_accounting_of r m x 0 True True] | None \<Rightarrow> cs"
        from Suc.prems Pair Inl Unreadable
        have nr: "\<not> refused" and rest: "ask_again (metered_call inner r m True) n (fs @ [u]) (w1, ?cs) (Some u)
            = ((w', cs'), Inr call)"
          by (auto simp: metered_call_def [where wa = "(w, cs)"] failure_usage_def
              split: if_splits cong: option.case_cong)
        have "reconciles_with ?cs (foldl (\<lambda>b u. accrue_llm_error b u m) b (fs @ [u]))"
          using Suc.prems(2)
          by (cases u) (auto simp: reconciles_with_def charged_tokens_used_def charged_usd_used_def
              call_accounting_of_def accrue_llm_error_def)
        with Suc.IH[OF rest] show ?thesis by blast
      qed (use Suc.prems Pair Inl in \<open>auto simp: metered_call_def\<close>)
    qed
  qed
qed simp

end
