(* ===== verification/Config.thy ===== *)
theory Config
  imports Accounting
begin

text \<open>
  \<^verbatim>\<open>config.py\<close>: the settings the modelled code reads, the values derived from them and the three
  validators that refuse to start. \<open>make_settings\<close> is \<open>Settings(...)\<close>: the field bounds first, then the
  validators in the order they are declared. Multipliers are \<open>Decimal\<close>s, kept as exact rationals.
\<close>

datatype model_role = DEVELOPMENT | BENCHMARK

record settings =
  agent_model :: string
  development_model :: string
  benchmark_model :: string
  cfg_judge_model :: string
  budget_max_tool_calls :: int
  budget_max_tokens :: int
  budget_max_seconds :: int
  budget_max_usd :: rat
  token_budget_multiplier :: rat
  usd_budget_multiplier :: rat
  platform_webhook_secret :: string
  platform_chaos_token :: "string option"
  platform_smoke_token :: "string option"
  webhook_max_skew_seconds :: int
  webhook_max_body_bytes :: int
  db_pool_size :: int
  db_max_overflow :: int
  db_ingest_reserved_connections :: int
  agent_max_concurrent_runs :: "int option"
  agent_enabled :: bool
  verify_probe_attempts :: int
  verify_probe_delay_seconds :: rat
  investigate_reprobe_attempts :: int
  cfg_reprobe_delay_seconds :: rat
  max_remediation_attempts :: int

subsection \<open>Derived values\<close>

definition connections_per_run :: int where
  "connections_per_run = 2"

definition polling_window_seconds :: "int \<Rightarrow> rat \<Rightarrow> rat" where
  "polling_window_seconds attempts delay = of_int (max (attempts - 1) 0) * delay"

definition verify_polling_window_seconds :: "settings \<Rightarrow> rat" where
  "verify_polling_window_seconds cfg =
     polling_window_seconds (verify_probe_attempts cfg) (verify_probe_delay_seconds cfg)"

definition investigation_reprobe_window_seconds :: "settings \<Rightarrow> rat" where
  "investigation_reprobe_window_seconds cfg =
     of_int (investigate_reprobe_attempts cfg) * cfg_reprobe_delay_seconds cfg"

definition db_pool_capacity :: "settings \<Rightarrow> int" where
  "db_pool_capacity cfg = db_pool_size cfg + db_max_overflow cfg"

definition max_concurrent_runs :: "settings \<Rightarrow> int" where
  "max_concurrent_runs cfg =
     (let bound = (db_pool_capacity cfg - db_ingest_reserved_connections cfg) div connections_per_run
      in case agent_max_concurrent_runs cfg of None \<Rightarrow> bound | Some n \<Rightarrow> min n bound)"

text \<open>\<open>int(Decimal)\<close> drops the fraction; both factors are non-negative.\<close>

definition seeded_max_tokens :: "settings \<Rightarrow> int" where
  "seeded_max_tokens cfg = \<lfloor>of_int (budget_max_tokens cfg) * token_budget_multiplier cfg\<rfloor>"

definition seeded_max_usd :: "settings \<Rightarrow> rat" where
  "seeded_max_usd cfg = budget_max_usd cfg * usd_budget_multiplier cfg"

definition model_for_role :: "settings \<Rightarrow> model_role \<Rightarrow> string" where
  "model_for_role cfg r = (case r of DEVELOPMENT \<Rightarrow> development_model cfg | BENCHMARK \<Rightarrow> benchmark_model cfg)"

text \<open>The two evaluator tokens: blank counts as not set, and neither falls back to another.\<close>

definition require_token :: "string \<Rightarrow> string option \<Rightarrow> string result" where
  "require_token missing token = (case token of
      Some t \<Rightarrow> if strip t = [] then Inl (ValueError missing) else Inr t
    | None \<Rightarrow> Inl (ValueError missing))"

definition require_chaos_token :: "settings \<Rightarrow> string result" where
  "require_chaos_token cfg = require_token ''ChaosTokenNotConfigured'' (platform_chaos_token cfg)"

definition require_smoke_token :: "settings \<Rightarrow> string result" where
  "require_smoke_token cfg = require_token ''SmokeTokenNotConfigured'' (platform_smoke_token cfg)"

subsection \<open>Validation\<close>

text \<open>The \<open>Field\<close> bounds.\<close>

definition max_remediation_attempts_ceiling :: int where
  "max_remediation_attempts_ceiling = 3"

definition field_bounds :: "settings \<Rightarrow> bool" where
  "field_bounds cfg =
     (cfg_judge_model cfg \<noteq> [] \<and> 1 \<le> budget_max_tool_calls cfg \<and> 1 \<le> budget_max_tokens cfg
      \<and> 1 \<le> budget_max_seconds cfg \<and> 0 < budget_max_usd cfg
      \<and> 0 \<le> token_budget_multiplier cfg \<and> 0 \<le> usd_budget_multiplier cfg
      \<and> 1 \<le> webhook_max_skew_seconds cfg \<and> 1 \<le> webhook_max_body_bytes cfg
      \<and> 1 \<le> db_pool_size cfg \<and> 0 \<le> db_max_overflow cfg \<and> 0 \<le> db_ingest_reserved_connections cfg
      \<and> (case agent_max_concurrent_runs cfg of None \<Rightarrow> True | Some n \<Rightarrow> 1 \<le> n)
      \<and> 1 \<le> verify_probe_attempts cfg \<and> verify_probe_attempts cfg \<le> 10 \<and> 0 \<le> verify_probe_delay_seconds cfg
      \<and> 0 \<le> investigate_reprobe_attempts cfg \<and> investigate_reprobe_attempts cfg \<le> 3
      \<and> 0 \<le> cfg_reprobe_delay_seconds cfg
      \<and> 1 \<le> max_remediation_attempts cfg
      \<and> max_remediation_attempts cfg \<le> max_remediation_attempts_ceiling)"

definition configured_models :: "settings \<Rightarrow> string list" where
  "configured_models cfg = [agent_model cfg, cfg_judge_model cfg, development_model cfg, benchmark_model cfg]"

definition configured_models_are_priced :: "settings \<Rightarrow> unit result" where
  "configured_models_are_priced cfg =
     (if list_all (\<lambda>m. m \<in> set (map fst pricing_table)) (configured_models cfg) then Inr ()
      else Inl (ValueError ''a configured model has no row in MODEL_PRICING''))"

definition run_bound_fits_the_pool :: "settings \<Rightarrow> unit result" where
  "run_bound_fits_the_pool cfg =
     (let for_runs = db_pool_capacity cfg - db_ingest_reserved_connections cfg;
          bound = for_runs div connections_per_run
      in if for_runs < connections_per_run
         then Inl (ValueError ''the pool cannot serve one run'')
         else case agent_max_concurrent_runs cfg of
             None \<Rightarrow> Inr ()
           | Some n \<Rightarrow> if bound < n
                       then Inl (ValueError ''AGENT_MAX_CONCURRENT_RUNS exceeds the runs this pool can serve'')
                       else Inr ())"

definition multipliers_seed_a_budget :: "settings \<Rightarrow> unit result" where
  "multipliers_seed_a_budget cfg =
     (if seeded_max_tokens cfg < 1 \<or> seeded_max_usd cfg \<le> 0
      then Inl (ValueError ''a ledger seeded at zero is born exhausted'') else Inr ())"

definition make_settings :: "settings \<Rightarrow> settings result" where
  "make_settings cfg =
     (if \<not> field_bounds cfg then Inl (ValueError ''field bounds'')
      else bind_result (configured_models_are_priced cfg) (\<lambda>_.
           bind_result (run_bound_fits_the_pool cfg) (\<lambda>_.
           bind_result (multipliers_seed_a_budget cfg) (\<lambda>_. Inr cfg))))"

lemma make_settings_InrD:
  assumes "make_settings cfg = Inr cfg'"
  shows "cfg' = cfg" and "field_bounds cfg"
    and "\<forall>m\<in>set (configured_models cfg). m \<in> set (map fst pricing_table)"
    and "connections_per_run \<le> db_pool_capacity cfg - db_ingest_reserved_connections cfg"
    and "agent_max_concurrent_runs cfg = Some n \<Longrightarrow>
           n \<le> (db_pool_capacity cfg - db_ingest_reserved_connections cfg) div connections_per_run"
    and "1 \<le> seeded_max_tokens cfg" and "0 < seeded_max_usd cfg"
  using assms
  by (auto simp: make_settings_def bind_result_Inr_iff configured_models_are_priced_def
      run_bound_fits_the_pool_def multipliers_seed_a_budget_def Let_def list_all_iff
      split: if_splits option.splits)

text \<open>The runs in flight, at their peak, and the connections kept for ingress fit the pool.\<close>

lemma run_connections_fit_the_pool:
  assumes "make_settings cfg = Inr cfg'"
  shows "1 \<le> max_concurrent_runs cfg"
    and "connections_per_run * max_concurrent_runs cfg + db_ingest_reserved_connections cfg
           \<le> db_pool_capacity cfg"
proof -
  let ?for_runs = "db_pool_capacity cfg - db_ingest_reserved_connections cfg"
  note c = connections_per_run_def
  have bound: "1 \<le> ?for_runs div 2" "2 * (?for_runs div 2) \<le> ?for_runs"
    using make_settings_InrD(4)[OF assms] by (simp_all add: c)
  have mcr: "max_concurrent_runs cfg \<le> ?for_runs div 2"
    by (auto simp: max_concurrent_runs_def c Let_def split: option.splits)
  show "1 \<le> max_concurrent_runs cfg"
    using make_settings_InrD(2)[OF assms] bound(1)
    by (auto simp: max_concurrent_runs_def field_bounds_def c Let_def split: option.splits)
  have "2 * max_concurrent_runs cfg \<le> 2 * (?for_runs div 2)" using mcr by simp
  with bound(2) show "connections_per_run * max_concurrent_runs cfg + db_ingest_reserved_connections cfg
      \<le> db_pool_capacity cfg" by (simp add: c)
qed

end
