(* ===== verification/Checkpoint.thy ===== *)
theory Checkpoint
  imports Run_Loop Config
begin

text \<open>
  Persistence: \<^verbatim>\<open>persistence/memory.py\<close>, \<^verbatim>\<open>persistence/postgres.py\<close>,
  \<^verbatim>\<open>persistence/lease.py\<close>, the run slots of \<^verbatim>\<open>persistence/pool.py\<close>, and
  \<^verbatim>\<open>agent/factory.py\<close>, which derives an incident's identity from what was checkpointed. The
  \<open>checkpointer\<close> locale is the \<open>Checkpointer\<close> protocol with the laws its clients rest on; both
  implementations are interpretations of it.
\<close>

subsection \<open>The protocol\<close>

locale checkpointer =
  fixes load :: "'s \<Rightarrow> string \<Rightarrow> run_state option"
    and write_run :: "'s \<Rightarrow> run_state \<Rightarrow> 's \<times> unit result"
    and history :: "'s \<Rightarrow> string \<Rightarrow> run_state list"
  assumes load_history: "load s i = (if history s i = [] then None else Some (last (history s i)))"
    and history_write: "write_run s rs = (s', Inr u) \<Longrightarrow>
      history s' i = (if i = incident_id rs then history s i @ [rs] else history s i)"
    and history_failed: "write_run s rs = (s', Inl err) \<Longrightarrow> history s' i = history s i"
begin

lemma load_after_write:
  "write_run s rs = (s', Inr u) \<Longrightarrow> load s' i = (if i = incident_id rs then Some rs else load s i)"
  by (simp add: load_history history_write)

lemma history_append_only:
  assumes "write_run s rs = (s', r)" shows "prefix (history s i) (history s' i)"
  using assms by (cases r) (auto simp: history_write history_failed)

lemma load_after_failure: "write_run s rs = (s', Inl err) \<Longrightarrow> load s' i = load s i"
  by (simp add: load_history history_failed)

end

subsection \<open>In memory\<close>

type_synonym mem_store = "string \<Rightarrow> run_state list option"

definition mem_load :: "mem_store \<Rightarrow> string \<Rightarrow> run_state option" where
  "mem_load s i = (case s i of
      Some entries \<Rightarrow> if entries \<noteq> [] then Some (last entries) else None
    | None \<Rightarrow> None)"

definition mem_write :: "mem_store \<Rightarrow> run_state \<Rightarrow> mem_store \<times> unit result" where
  "mem_write s rs =
     (let entries = (case s (incident_id rs) of Some es \<Rightarrow> es | None \<Rightarrow> [])
      in (s(incident_id rs \<mapsto> entries @ [rs]), Inr ()))"

definition mem_history :: "mem_store \<Rightarrow> string \<Rightarrow> run_state list" where
  "mem_history s i = (case s i of Some es \<Rightarrow> es | None \<Rightarrow> [])"

interpretation mem: checkpointer mem_load mem_write mem_history
  by unfold_locales
    (auto simp: mem_load_def mem_write_def mem_history_def Let_def split: option.splits if_splits)

subsection \<open>In Postgres\<close>

text \<open>
  One row per snapshot with \<open>UNIQUE (incident_id, version)\<close>, in insertion order. The payload is
  kept as the \<open>RunState\<close> it was dumped from.
\<close>

record snapshot_row =
  row_incident :: string
  row_version :: int
  row_state :: string
  row_run :: run_state

type_synonym snapshots = "snapshot_row list"

definition rows_of :: "snapshots \<Rightarrow> string \<Rightarrow> snapshot_row list" where
  "rows_of tbl i = sort_key row_version (filter (\<lambda>r. row_incident r = i) tbl)"

definition pg_load :: "snapshots \<Rightarrow> string \<Rightarrow> run_state option" where
  "pg_load tbl i = (case rev (rows_of tbl i) of [] \<Rightarrow> None | r # _ \<Rightarrow> Some (row_run r))"

definition pg_history :: "snapshots \<Rightarrow> string \<Rightarrow> run_state list" where
  "pg_history tbl i = map row_run (rows_of tbl i)"

definition next_version :: "snapshots \<Rightarrow> string \<Rightarrow> int" where
  "next_version tbl i = (case rev (rows_of tbl i) of [] \<Rightarrow> 0 | r # _ \<Rightarrow> row_version r + 1)"

definition pg_insert :: "snapshot_row \<Rightarrow> snapshots \<Rightarrow> snapshots option" where
  "pg_insert r tbl =
     (if \<exists>r' \<in> set tbl. row_incident r' = row_incident r \<and> row_version r' = row_version r
      then None else Some (tbl @ [r]))"

text \<open>
  One try: the version is read in the transaction, other writers may commit rows before the insert
  (\<open>others\<close>, each under the same constraint), and the constraint rejects a taken version.
\<close>

definition commit_others :: "snapshots \<Rightarrow> snapshot_row list \<Rightarrow> snapshots" where
  "commit_others tbl others =
     foldl (\<lambda>t r. case pg_insert r t of Some t' \<Rightarrow> t' | None \<Rightarrow> t) tbl others"

definition pg_try :: "snapshot_row list \<Rightarrow> snapshots \<Rightarrow> run_state \<Rightarrow> snapshots \<times> bool" where
  "pg_try others tbl rs =
     (let r = \<lparr>row_incident = incident_id rs, row_version = next_version tbl (incident_id rs),
               row_state = state_value (state rs), row_run = rs\<rparr>;
          tbl1 = commit_others tbl others
      in case pg_insert r tbl1 of
           Some tbl2 \<Rightarrow> (tbl2, True)
         | None \<Rightarrow> (tbl1, False))"

fun pg_attempts :: "nat \<Rightarrow> (nat \<Rightarrow> snapshot_row list) \<Rightarrow> nat \<Rightarrow> snapshots \<Rightarrow> run_state \<Rightarrow> snapshots \<times> unit result" where
  "pg_attempts 0 others attempt tbl rs = (tbl, Inl IntegrityError)"
| "pg_attempts (Suc left) others attempt tbl rs =
     (case pg_try (others attempt) tbl rs of
        (tbl', True) \<Rightarrow> (tbl', Inr ())
      | (tbl', False) \<Rightarrow> pg_attempts left others (Suc attempt) tbl' rs)"

definition pg_write_racing :: "(nat \<Rightarrow> snapshot_row list) \<Rightarrow> snapshots \<Rightarrow> run_state \<Rightarrow> snapshots \<times> unit result" where
  "pg_write_racing others tbl rs = pg_attempts 3 others 0 tbl rs"

text \<open>A writer alone under the incident's lease.\<close>

definition pg_write :: "snapshots \<Rightarrow> run_state \<Rightarrow> snapshots \<times> unit result" where
  "pg_write tbl rs = pg_write_racing (\<lambda>_. []) tbl rs"

lemma sort_key_snoc_max:
  "\<forall>y\<in>set xs. f y \<le> f x \<Longrightarrow> sort_key f (xs @ [x]) = sort_key f xs @ [x]"
proof (induction xs)
  case (Cons a xs)
  have "f a \<le> f x \<Longrightarrow> insort_key f a (ys @ [x]) = insort_key f a ys @ [x]" for ys
    by (induction ys) auto
  with Cons show ?case by simp
qed simp

lemma rows_of_sorted: "sorted (map row_version (rows_of tbl i))"
  by (simp add: rows_of_def)

lemma set_rows_of: "set (rows_of tbl i) = {r \<in> set tbl. row_incident r = i}"
  by (auto simp: rows_of_def)

lemma next_version_above:
  assumes "r \<in> set tbl" and "row_incident r = i"
  shows "row_version r < next_version tbl i"
proof -
  from assms have r: "r \<in> set (rows_of tbl i)" by (simp add: set_rows_of)
  then obtain z zs where z: "rev (rows_of tbl i) = z # zs"
    by (metis empty_iff list.exhaust list.set(1) set_rev)
  then have eq: "rows_of tbl i = rev zs @ [z]" by (metis rev.simps(2) rev_rev_ident)
  with rows_of_sorted[of tbl i] r have "row_version r \<le> row_version z"
    by (auto simp: sorted_append)
  with z show ?thesis by (simp add: next_version_def)
qed

lemma pg_try_alone:
  "pg_try [] tbl rs =
     (tbl @ [\<lparr>row_incident = incident_id rs, row_version = next_version tbl (incident_id rs),
              row_state = state_value (state rs), row_run = rs\<rparr>], True)"
  by (auto simp: pg_try_def pg_insert_def commit_others_def dest: next_version_above)

lemma rows_of_snoc:
  "row_version r = next_version tbl (row_incident r) \<Longrightarrow>
   rows_of (tbl @ [r]) i = (if row_incident r = i then rows_of tbl i @ [r] else rows_of tbl i)"
  using next_version_above[of _ tbl i]
  by (auto simp: rows_of_def intro!: sort_key_snoc_max less_imp_le)

interpretation pg: checkpointer pg_load pg_write pg_history
proof unfold_locales
  fix s :: snapshots and i
  show "pg_load s i = (if pg_history s i = [] then None else Some (last (pg_history s i)))"
    by (cases "rows_of s i" rule: rev_cases) (auto simp: pg_load_def pg_history_def)
next
  fix s s' :: snapshots and rs i u
  assume "pg_write s rs = (s', Inr u)"
  then show "pg_history s' i = (if i = incident_id rs then pg_history s i @ [rs] else pg_history s i)"
    by (auto simp: pg_write_def pg_write_racing_def eval_nat_numeral pg_try_alone pg_history_def
        rows_of_snoc)
next
  fix s s' :: snapshots and rs i err
  assume "pg_write s rs = (s', Inl err)"
  then show "pg_history s' i = pg_history s i"
    by (simp add: pg_write_def pg_write_racing_def eval_nat_numeral pg_try_alone)
qed

text \<open>The unique constraint, and that a racing write keeps it and never rewrites a row.\<close>

definition unique_versions :: "snapshots \<Rightarrow> bool" where
  "unique_versions tbl = distinct (map (\<lambda>r. (row_incident r, row_version r)) tbl)"

lemma pg_insert_unique: "pg_insert r tbl = Some tbl' \<Longrightarrow> unique_versions tbl \<Longrightarrow> unique_versions tbl'"
  by (fastforce simp: pg_insert_def unique_versions_def split: if_splits)

lemma pg_insert_SomeD: "pg_insert r tbl = Some tbl' \<Longrightarrow> tbl' = tbl @ [r]"
  by (auto simp: pg_insert_def split: if_splits)

lemma commit_others_Cons:
  "commit_others tbl (r # rs) = commit_others (case pg_insert r tbl of Some t' \<Rightarrow> t' | None \<Rightarrow> tbl) rs"
  by (simp add: commit_others_def)

lemma commit_others_unique: "unique_versions tbl \<Longrightarrow> unique_versions (commit_others tbl others)"
proof (induction others arbitrary: tbl)
  case Nil
  then show ?case by (simp add: commit_others_def)
next
  case (Cons r others)
  then show ?case
    by (auto simp: commit_others_Cons split: option.splits intro: pg_insert_unique)
qed

lemma commit_others_rows:
  "\<exists>rows. commit_others tbl others = tbl @ rows \<and> set rows \<subseteq> set others"
proof (induction others arbitrary: tbl)
  case Nil
  then show ?case by (simp add: commit_others_def)
next
  case (Cons r others)
  show ?case
  proof (cases "pg_insert r tbl")
    case None
    with Cons.IH[of tbl] show ?thesis by (auto simp: commit_others_Cons)
  next
    case (Some t)
    with pg_insert_SomeD[OF Some] Cons.IH[of t] show ?thesis by (fastforce simp: commit_others_Cons)
  qed
qed

lemma pg_try_unique: "pg_try others tbl rs = (tbl', b) \<Longrightarrow> unique_versions tbl \<Longrightarrow> unique_versions tbl'"
  by (auto simp: pg_try_def Let_def split: option.splits
      intro: pg_insert_unique commit_others_unique)

lemma pg_try_rows:
  assumes "pg_try others tbl rs = (tbl', b)"
  shows "\<exists>rows. set rows \<subseteq> set others \<and>
     tbl' = tbl @ rows @ (if b then [\<lparr>row_incident = incident_id rs,
                                      row_version = next_version tbl (incident_id rs),
                                      row_state = state_value (state rs), row_run = rs\<rparr>] else [])"
  using assms commit_others_rows[of tbl others]
  by (auto simp: pg_try_def Let_def split: option.splits dest!: pg_insert_SomeD)

lemma pg_attempts_unique:
  "pg_attempts n others k tbl rs = (tbl', r) \<Longrightarrow> unique_versions tbl \<Longrightarrow> unique_versions tbl'"
proof (induction n arbitrary: k tbl)
  case (Suc n)
  obtain tbl1 b where t: "pg_try (others k) tbl rs = (tbl1, b)" by fastforce
  with Suc pg_try_unique[OF t] show ?case by (cases b) auto
qed simp

lemma pg_attempts_rows:
  assumes "pg_attempts n others k tbl rs = (tbl', r)"
  shows "\<exists>rows. set rows \<subseteq> (\<Union>j\<in>{k..<k + n}. set (others j)) \<and>
     (case r of Inl err \<Rightarrow> err = IntegrityError \<and> tbl' = tbl @ rows
      | Inr _ \<Rightarrow> (\<exists>own. row_run own = rs \<and> row_incident own = incident_id rs \<and>
                       tbl' = tbl @ rows @ [own]))"
  using assms
proof (induction n arbitrary: k tbl)
  case 0
  then show ?case by auto
next
  case (Suc n)
  obtain tbl1 b where t: "pg_try (others k) tbl rs = (tbl1, b)" by fastforce
  from pg_try_rows[OF t] obtain rows1 where r1: "set rows1 \<subseteq> set (others k)"
    and tbl1: "tbl1 = tbl @ rows1 @ (if b then [\<lparr>row_incident = incident_id rs,
        row_version = next_version tbl (incident_id rs),
        row_state = state_value (state rs), row_run = rs\<rparr>] else [])"
    by blast
  show ?case
  proof (cases b)
    case True
    from r1 have "set rows1 \<subseteq> (\<Union>j\<in>{k..<k + Suc n}. set (others j))" by fastforce
    with True t Suc.prems tbl1 show ?thesis by (intro exI[of _ rows1]) auto
  next
    case False
    with t Suc.prems have "pg_attempts n others (Suc k) tbl1 rs = (tbl', r)" by simp
    from Suc.IH[OF this] obtain rows2 where
      "set rows2 \<subseteq> (\<Union>j\<in>{Suc k..<Suc k + n}. set (others j))"
      "case r of Inl err \<Rightarrow> err = IntegrityError \<and> tbl' = tbl1 @ rows2
       | Inr _ \<Rightarrow> (\<exists>own. row_run own = rs \<and> row_incident own = incident_id rs \<and>
                        tbl' = tbl1 @ rows2 @ [own])" by blast
    with r1 tbl1 False show ?thesis
      by (intro exI[of _ "rows1 @ rows2"]) (fastforce split: sum.splits)
  qed
qed

subsection \<open>The lease and the run slots\<close>

text \<open>
  \<open>pg_try_advisory_lock\<close> takes a session lock on a 32-bit hash of the incident id if no other
  session holds it. \<open>locks\<close> maps a lock key to the session holding it; \<open>hashtext\<close> is Postgres'.
\<close>

definition lease_acquire ::
    "(string \<Rightarrow> int) \<Rightarrow> nat \<Rightarrow> string \<Rightarrow> (int \<Rightarrow> nat option) \<Rightarrow> (int \<Rightarrow> nat option) \<times> bool" where
  "lease_acquire hashtext session i locks =
     (case locks (hashtext i) of
        None \<Rightarrow> (locks(hashtext i \<mapsto> session), True)
      | Some _ \<Rightarrow> (locks, False))"

definition lease_release ::
    "(string \<Rightarrow> int) \<Rightarrow> string \<Rightarrow> bool \<Rightarrow> (int \<Rightarrow> nat option) \<Rightarrow> (int \<Rightarrow> nat option)" where
  "lease_release hashtext i acquired locks = (if acquired then locks(hashtext i := None) else locks)"

record run_slots =
  ceiling :: nat
  free_slots :: nat

definition make_run_slots :: "int \<Rightarrow> run_slots result" where
  "make_run_slots n =
     (if n < 1 then Inl (ValueError ''RunSlots needs a ceiling of at least 1'')
      else Inr \<lparr>ceiling = nat n, free_slots = nat n\<rparr>)"

definition slot_acquire :: "run_slots \<Rightarrow> run_slots \<times> bool" where
  "slot_acquire s = (if 0 < free_slots s then (s\<lparr>free_slots := free_slots s - 1\<rparr>, True) else (s, False))"

definition slot_release :: "bool \<Rightarrow> run_slots \<Rightarrow> run_slots result" where
  "slot_release admitted s =
     (if \<not> admitted then Inr s
      else if free_slots s < ceiling s then Inr (s\<lparr>free_slots := free_slots s + 1\<rparr>)
      else Inl (ValueError ''Semaphore released too many times''))"

text \<open>
  Interleaved workers: who holds a slot. A worker enters at most once and leaves once.
\<close>

inductive slots_step :: "run_slots \<times> nat set \<Rightarrow> run_slots \<times> nat set \<Rightarrow> bool" where
  enter: "i \<notin> inside \<Longrightarrow> slot_acquire s = (s', True) \<Longrightarrow> slots_step (s, inside) (s', insert i inside)"
| shed: "slot_acquire s = (s', False) \<Longrightarrow> slots_step (s, inside) (s', inside)"
| leave: "i \<in> inside \<Longrightarrow> slot_release True s = Inr s' \<Longrightarrow> slots_step (s, inside) (s', inside - {i})"

inductive slots_reach :: "int \<Rightarrow> run_slots \<times> nat set \<Rightarrow> bool" for n where
  start: "make_run_slots n = Inr s \<Longrightarrow> slots_reach n (s, {})"
| step: "slots_reach n c \<Longrightarrow> slots_step c c' \<Longrightarrow> slots_reach n c'"

definition slots_inv :: "int \<Rightarrow> run_slots \<times> nat set \<Rightarrow> bool" where
  "slots_inv n c = (finite (snd c) \<and> 1 \<le> n \<and> ceiling (fst c) = nat n
      \<and> card (snd c) + free_slots (fst c) = nat n)"

lemma slots_step_inv: "slots_step c c' \<Longrightarrow> slots_inv n c \<Longrightarrow> slots_inv n c'"
proof (induction rule: slots_step.induct)
  case (leave i inside s s')
  then have "0 < card inside" by (auto simp: slots_inv_def card_gt_0_iff)
  with leave show ?case
    by (auto simp: slots_inv_def slot_release_def card_Diff_singleton split: if_splits)
qed (auto simp: slots_inv_def slot_acquire_def split: if_splits)

lemma slots_reach_inv: "slots_reach n c \<Longrightarrow> slots_inv n c"
proof (induction rule: slots_reach.induct)
  case (start s)
  then show ?case by (auto simp: make_run_slots_def slots_inv_def split: if_splits)
qed (auto intro: slots_step_inv)

subsection \<open>Incident identity\<close>

definition max_recurrence_generations :: nat where
  "max_recurrence_generations = 64"

text \<open>\<open>uuid5\<close> is the name-based UUID in the incident namespace, \<open>fresh\<close> what \<open>uuid4\<close> draws.\<close>

definition generation_id :: "(string \<Rightarrow> string) \<Rightarrow> string \<Rightarrow> nat \<Rightarrow> string" where
  "generation_id uuid5 key g = uuid5 (if g = 0 then key else key @ ''|'' @ dec g)"

fun search_generation ::
    "(string \<Rightarrow> string) \<Rightarrow> (string \<Rightarrow> run_state option) \<Rightarrow> string \<Rightarrow> string \<Rightarrow> nat \<Rightarrow> nat \<Rightarrow> string" where
  "search_generation uuid5 load fresh key 0 g = fresh"
| "search_generation uuid5 load fresh key (Suc left) g =
     (let candidate = generation_id uuid5 key g in
      case load candidate of
        None \<Rightarrow> candidate
      | Some latest \<Rightarrow>
          if \<not> is_terminal (state latest) then candidate
          else search_generation uuid5 load fresh key left (Suc g))"

definition derive_incident_id ::
    "(string \<Rightarrow> string) \<Rightarrow> (val \<Rightarrow> string) \<Rightarrow> (string \<Rightarrow> string) \<Rightarrow> dict \<Rightarrow>
     (string \<Rightarrow> run_state option) \<Rightarrow> string \<Rightarrow> string" where
  "derive_incident_id uuid5 str_of digest al load fresh =
     (case get al ''fingerprint'' of
        Some (VStr raw) \<Rightarrow>
          if strip raw = [] then fresh
          else search_generation uuid5 load fresh (dedup_key str_of digest al)
                 max_recurrence_generations 0
      | _ \<Rightarrow> fresh)"

text \<open>\<open>incident\<close> is the id handed in or a fresh one; \<open>calls\<close> overrides the setting unless 0.\<close>

definition start_run :: "dict \<Rightarrow> settings \<Rightarrow> datetime \<Rightarrow> string \<Rightarrow> int option \<Rightarrow> run_state" where
  "start_run al cfg now incident calls =
     \<lparr>schema_version = 3, incident_id = incident, state = TRIAGE, alert = al,
      budget = \<lparr>max_tool_calls = (case calls of
                   Some n \<Rightarrow> if n = 0 then budget_max_tool_calls cfg else n
                 | None \<Rightarrow> budget_max_tool_calls cfg),
                tool_calls_used = 0, max_tokens = seeded_max_tokens cfg, tokens_used = 0,
                max_wall_seconds = budget_max_seconds cfg, wall_us_used = 0,
                max_usd = seeded_max_usd cfg, usd_used = 0\<rparr>,
      evidence = [], hypotheses = [], pending_approval_id = None, remediation_plan = None,
      remediation_attempts = 0, created_at = now, updated_at = now\<rparr>"

text \<open>The generation found is the first whose newest snapshot, if any, is not terminal.\<close>

lemma search_generation_stable:
  assumes "search_generation uuid5 load fresh key n g = i" and "load i = None \<or> \<not> is_terminal (state (the (load i)))"
    and "\<forall>j. j \<noteq> i \<longrightarrow> load' j = load j" and "load' i = Some rs" and "\<not> is_terminal (state rs)"
    and "i \<noteq> fresh"
  shows "search_generation uuid5 load' fresh' key n g = i"
  using assms(1)
proof (induction n arbitrary: g)
  case 0
  with assms(6) show ?case by simp
next
  case (Suc n)
  let ?c = "generation_id uuid5 key g"
  show ?case
  proof (cases "?c = i")
    case True
    with assms(4,5) show ?thesis by simp
  next
    case False
    with Suc.prems have t: "load ?c \<noteq> None" "is_terminal (state (the (load ?c)))"
      by (auto simp: Let_def split: option.splits if_splits)
    with Suc.prems have "search_generation uuid5 load fresh key n (Suc g) = i"
      by (auto simp: Let_def)
    from Suc.IH[OF this] t False assms(3) show ?thesis by (auto simp: Let_def)
  qed
qed

lemma search_generation_found:
  "search_generation uuid5 load fresh key n g = i \<Longrightarrow> i \<noteq> fresh \<Longrightarrow>
     (load i = None \<or> \<not> is_terminal (state (the (load i))))"
  by (induction n arbitrary: g) (auto simp: Let_def split: option.splits if_splits)

end
