(* ===== verification/Durable_Run.thy ===== *)
theory Durable_Run
  imports Checkpoint
begin

text \<open>
  \<open>run_to_completion\<close> of \<^verbatim>\<open>agent/loop.py\<close> with a checkpointer of \<^verbatim>\<open>persistence/\<close> behind it: the
  world is a pair of what the transitions act on and the store, and only \<open>save\<close> touches the store.
  What a run leaves in the store is the abstract specification \<open>trail\<close>: a chain of lawful moves.
\<close>

subsection \<open>The composed ports\<close>

definition lift_registry :: "'w registry \<Rightarrow> ('w \<times> 's) registry" where
  "lift_registry reg st =
     map_option (\<lambda>t (w, s) rs now. case t w rs now of (w', r) \<Rightarrow> ((w', s), r)) (reg st)"

definition durable_ports ::
    "('w \<Rightarrow> 'w \<times> datetime) \<Rightarrow> ('s \<Rightarrow> run_state \<Rightarrow> 's \<times> unit result) \<Rightarrow> 'w registry \<Rightarrow> ('w \<times> 's) run_ports" where
  "durable_ports clk put reg =
     \<lparr>clock = (\<lambda>(w, s). case clk w of (w', t) \<Rightarrow> ((w', s), t)),
      checkpoint_write = Some (\<lambda>(w, s) rs. case put s rs of (s', r) \<Rightarrow> ((w, s'), r)),
      registry = lift_registry reg\<rparr>"

lemma durable_ports_simps [simp]:
  "registry (durable_ports clk put reg) = lift_registry reg"
  "clock (durable_ports clk put reg) (w, s) = (case clk w of (w', t) \<Rightarrow> ((w', s), t))"
  by (simp_all add: durable_ports_def)

lemma lift_registry_store:
  "lift_registry reg st = Some t \<Longrightarrow> t (w, s) rs now = ((w', s'), r) \<Longrightarrow>
     s' = s \<and> (\<exists>t0. reg st = Some t0 \<and> t0 w rs now = (w', r))"
  by (auto simp: lift_registry_def split: prod.splits)

lemma dispatch_store: "dispatch (lift_registry reg) (w, s) rs now = ((w', s'), r) \<Longrightarrow> s' = s"
  by (auto simp: dispatch_def split: if_splits option.splits prod.splits sum.splits
      dest: lift_registry_store)

subsection \<open>Checkpointing is transparent\<close>

text \<open>The same run with no checkpointer, as \<open>run_to_completion(..., checkpointer=None)\<close>.\<close>

definition plain_ports :: "('w \<Rightarrow> 'w \<times> datetime) \<Rightarrow> 'w registry \<Rightarrow> 'w run_ports" where
  "plain_ports clk reg = \<lparr>clock = clk, checkpoint_write = None, registry = reg\<rparr>"

text \<open>A store whose writes never fail.\<close>

definition reliable :: "('s \<Rightarrow> run_state \<Rightarrow> 's \<times> unit result) \<Rightarrow> bool" where
  "reliable put = (\<forall>s rs. snd (put s rs) = Inr ())"

lemma reliableE:
  assumes "reliable put" obtains s' where "put s rs = (s', Inr ())"
  using assms unfolding reliable_def by (metis prod.collapse)

lemma mem_reliable: "reliable mem_write"
  by (simp add: reliable_def mem_write_def Let_def)

lemma pg_reliable: "reliable pg_write"
  by (simp add: reliable_def pg_write_def pg_write_racing_def eval_nat_numeral pg_try_alone)

lemma dispatch_lift:
  "dispatch (lift_registry reg) (w, s) rs now = (case dispatch reg w rs now of (w', r) \<Rightarrow> ((w', s), r))"
  by (auto simp: dispatch_def lift_registry_def split: option.splits prod.splits sum.splits if_splits)

lemma save_plain: "save (plain_ports clk reg) w rs = (w, Inr rs)"
  by (simp add: save_def plain_ports_def)

lemma save_reliable:
  "reliable put \<Longrightarrow> save (durable_ports clk put reg) (w, s) rs = ((w, fst (put s rs)), Inr rs)"
  unfolding reliable_def
  by (drule spec[of _ s], drule spec[of _ rs]) (cases "put s rs"; simp add: save_def durable_ports_def)

lemma iteration_transparent:
  assumes "reliable put"
  shows "map_prod fst id (loop_iteration (durable_ports clk put reg) resuming (w, s) rs)
    = loop_iteration (plain_ports clk reg) resuming w rs"
proof -
  obtain w1 now where c: "clk w = (w1, now)" by fastforce
  obtain w2 r where d: "dispatch reg w1 (accrue_wall_time rs now) now = (w2, r)" by fastforce
  obtain w3 t where c2: "clk w2 = (w3, t)" by fastforce
  have cl: "clock (plain_ports clk reg) = clk" "registry (plain_ports clk reg) = reg"
    by (simp_all add: plain_ports_def)
  show ?thesis
    using d c2
    by (cases r)
      (simp_all add: loop_iteration_def Let_def cl c dispatch_lift save_plain save_reliable[OF assms])
qed

lemma loop_transparent:
  assumes "reliable put"
  shows "map_prod fst id (run_loop (durable_ports clk put reg) m n resuming (w, s) rs)
    = run_loop (plain_ports clk reg) m n resuming w rs"
proof (induction n arbitrary: resuming w s rs)
  case (Suc n)
  obtain w1 s1 r where it: "loop_iteration (durable_ports clk put reg) resuming (w, s) rs = ((w1, s1), r)"
    by (metis surj_pair)
  with iteration_transparent[OF assms, of clk reg resuming w s rs]
  have "loop_iteration (plain_ports clk reg) resuming w rs = (w1, r)" by simp
  with it Suc.IH show ?case by (cases r) simp_all
qed simp

lemma run_transparent:
  assumes "reliable put"
  shows "map_prod fst id (run_to_completion (durable_ports clk put reg) m (w, s) rs)
    = run_to_completion (plain_ports clk reg) m w rs"
  by (simp add: run_to_completion_def save_plain save_reliable[OF assms] loop_transparent[OF assms])

subsection \<open>Trails\<close>

definition run_move :: "run_state \<Rightarrow> run_state \<Rightarrow> bool" where
  "run_move a b = (run_le a b \<and> (state b = state a \<or> machine_step (state a) (state b)))"

abbreviation trail :: "run_state list \<Rightarrow> bool" where
  "trail \<equiv> successively run_move"

lemma run_move_accrue: "run_move rs (accrue_wall_time (accrue_wall_time rs now) t)"
  unfolding run_move_def
  using run_le_trans[OF accrue_wall_time_frame accrue_wall_time_frame] by simp

text \<open>Every later snapshot extends every earlier one.\<close>

lemma trail_run_le: "trail rows \<Longrightarrow> i \<le> j \<Longrightarrow> j < length rows \<Longrightarrow> run_le (rows ! i) (rows ! j)"
proof (induction j)
  case (Suc j)
  show ?case
  proof (cases "i = Suc j")
    case False
    with Suc have "run_le (rows ! i) (rows ! j)" by simp
    moreover have "run_le (rows ! j) (rows ! Suc j)"
      using Suc.prems by (auto simp: successively_conv_nth run_move_def)
    ultimately show ?thesis by (rule run_le_trans)
  qed simp
qed simp

lemma trail_incident:
  assumes "trail rows" and "x \<in> set rows"
  shows "incident_id x = incident_id (hd rows)"
proof -
  from assms(2) obtain j where "j < length rows" "x = rows ! j" by (auto simp: in_set_conv_nth)
  with trail_run_le[OF assms(1), of 0 j] show ?thesis by (cases rows) (auto simp: run_le_def)
qed

subsection \<open>The durable run\<close>

locale durable_run = checkpointer load write_run history + guarded_registry reg inv
  for load :: "'s \<Rightarrow> string \<Rightarrow> run_state option"
    and write_run :: "'s \<Rightarrow> run_state \<Rightarrow> 's \<times> unit result"
    and history :: "'s \<Rightarrow> string \<Rightarrow> run_state list"
    and reg :: "'w registry" and inv :: "run_state \<Rightarrow> bool"

sublocale durable_run \<subseteq> lifted: guarded_registry "lift_registry reg :: ('w \<times> 's) registry" inv
proof unfold_locales
  fix rs t rs' now and w w' :: "'w \<times> 's"
  assume "(lift_registry reg :: ('w \<times> 's) registry) (state rs) = Some t" "t w rs now = (w', Inr rs')"
  then obtain t0 a b where "reg (state rs) = Some t0" "t0 a rs now = (b, Inr rs')"
    by (cases w; cases w') (auto dest: lift_registry_store)
  then show "run_le rs rs'" and "inv rs \<Longrightarrow> inv rs'"
    by (auto intro: transition_frame inv_transition)
qed (auto intro: inv_accrue inv_escalate inv_stamp)

context durable_run
begin

lemma save_durable:
  assumes "save (durable_ports clk write_run reg) (w, s) rs = ((w', s'), r)"
  shows "history s' i = history s i @ (if i = incident_id rs \<and> (\<exists>x. r = Inr x) then [rs] else [])"
  using assms history_write[of s rs] history_failed[of s rs]
  by (auto simp: save_def durable_ports_def split: prod.splits sum.splits)

lemma iteration_durable:
  assumes "loop_iteration (durable_ports clk write_run reg) resuming (w, s) rs = ((w', s'), Inr rs')"
    and "\<not> is_terminal (state rs)"
  shows "history s' i = history s i @ (if i = incident_id rs then [rs'] else [])" and "run_move rs rs'"
proof -
  have le: "run_le rs rs'"
    by (rule lifted.loop_iteration_run_le[OF durable_ports_simps(1) assms(1)])
  with loop_iteration_allowed[OF assms] show "run_move rs rs'"
    by (simp add: run_move_def machine_step_iff)
  from le have id: "incident_id rs' = incident_id rs" by (simp add: run_le_def)
  from assms(1) obtain w1 where "save (durable_ports clk write_run reg) (w1, s) rs' = ((w', s'), Inr rs')"
  proof (cases rule: loop_iteration_cases)
    case (budget w1 now)
    then show thesis by (cases w1) (auto split: prod.splits intro: that)
  next
    case (step w1 now w2 rs2 w3 entered)
    then show thesis
      by (cases w1; cases w2; cases w3) (auto split: prod.splits dest!: dispatch_store intro: that)
  qed
  from save_durable[OF this, of i] id
  show "history s' i = history s i @ (if i = incident_id rs then [rs'] else [])" by simp
qed

lemma iteration_raised_durable:
  assumes "loop_iteration (durable_ports clk write_run reg) resuming (w, s) rs = ((w', s'), Inl err)"
    and "inv rs"
  shows "\<exists>rows. (\<forall>i. history s' i = history s i @ (if i = incident_id rs then rows else []))
    \<and> trail (rs # rows) \<and> list_all inv rows"
proof -
  let ?ports = "durable_ports clk write_run reg"
  from assms(1) obtain w4 now t rs1 where
    "save ?ports (w4, s) rs1 = ((w', s'), Inl err)
      \<or> rs1 = accrue_wall_time (accrue_wall_time rs now) t
        \<and> save ?ports (w4, s) rs1 = ((w', s'), Inr rs1)"
  proof (rule loop_iteration_raised)
    fix w1 w2 w3 w4 :: "'w \<times> 's" and now t r rs1
    assume "clock ?ports (w, s) = (w1, now)"
      "dispatch (registry ?ports) w1 (accrue_wall_time rs now) now = (w2, r)"
      "clock ?ports w2 = (w3, t)" "w4 = w1 \<or> w4 = w3"
    then have "snd w4 = s"
      by (cases w1; cases w2; cases w3) (auto split: prod.splits dest!: dispatch_store)
    moreover assume "save ?ports w4 rs1 = ((w', s'), Inl err)
      \<or> rs1 = accrue_wall_time (accrue_wall_time rs now) t \<and> save ?ports w4 rs1 = ((w', s'), Inr rs1)"
    ultimately show thesis by (cases w4) (auto intro: that)
  qed
  then show ?thesis
  proof
    assume "save ?ports (w4, s) rs1 = ((w', s'), Inl err)"
    from save_durable[OF this] show ?thesis by (intro exI[of _ "[]"]) simp
  next
    assume a: "rs1 = accrue_wall_time (accrue_wall_time rs now) t
        \<and> save ?ports (w4, s) rs1 = ((w', s'), Inr rs1)"
    then have "save ?ports (w4, s) rs1 = ((w', s'), Inr rs1)" by blast
    from save_durable[OF this] a assms(2) run_move_accrue[of rs now t] show ?thesis
      by (intro exI[of _ "[rs1]"]) (simp add: inv_accrue)
  qed
qed

lemma loop_durable:
  assumes "run_loop (durable_ports clk write_run reg) m n resuming (w, s) rs = ((w', s'), r)" and "inv rs"
  shows "\<exists>rows. (\<forall>i. history s' i = history s i @ (if i = incident_id rs then rows else []))
    \<and> trail (rs # rows) \<and> list_all inv rows
    \<and> (\<forall>rs'. r = Inr rs' \<longrightarrow> rs' = last (rs # rows) \<and> is_terminal (state rs'))"
  using assms
proof (induction n arbitrary: resuming w s rs)
  case 0
  then show ?case by (intro exI[of _ "[]"]) (auto split: if_splits)
next
  case (Suc n)
  let ?ports = "durable_ports clk write_run reg"
  show ?case
  proof (cases "is_terminal (state rs)")
    case True
    with Suc.prems show ?thesis by (intro exI[of _ "[]"]) auto
  next
    case False
    obtain w1 s1 r1 where it: "loop_iteration ?ports resuming (w, s) rs = ((w1, s1), r1)"
      by (metis surj_pair)
    show ?thesis
    proof (cases r1)
      case (Inl err)
      with it False Suc.prems(1) have "r = Inl err" "w1 = w'" "s1 = s'" by auto
      with iteration_raised_durable[OF _ Suc.prems(2)] it Inl show ?thesis by fastforce
    next
      case (Inr rs1)
      note step = iteration_durable[OF it[unfolded Inr] False]
      have inv1: "inv rs1"
        using lifted.loop_iteration_inv[OF durable_ports_simps(1) it[unfolded Inr] Suc.prems(2)] .
      have id: "incident_id rs1 = incident_id rs" using step(2) by (simp add: run_move_def run_le_def)
      from it Inr False Suc.prems(1) have "run_loop ?ports m n False (w1, s1) rs1 = ((w', s'), r)" by simp
      from Suc.IH[OF this inv1] obtain rows where
        h: "\<forall>i. history s' i = history s1 i @ (if i = incident_id rs1 then rows else [])"
        and t: "trail (rs1 # rows)" "list_all inv rows"
        and l: "\<forall>rs'. r = Inr rs' \<longrightarrow> rs' = last (rs1 # rows) \<and> is_terminal (state rs')" by blast
      from h step(1) id have "\<forall>i. history s' i = history s i @ (if i = incident_id rs then rs1 # rows else [])"
        by simp
      moreover from t(1) step(2) have "trail (rs # rs1 # rows)" by simp
      ultimately show ?thesis using t(2) inv1 l by (intro exI[of _ "rs1 # rows"]) simp
    qed
  qed
qed

text \<open>
  What a call leaves in the store, whether it returns or raises: the run it was handed, then a
  trail of lawful moves that keeps the invariant; nothing of any other incident.
\<close>

lemma run_durable:
  assumes "run_to_completion (durable_ports clk write_run reg) m (w, s) rs = ((w', s'), r)" and "inv rs"
  shows "\<exists>rows. (\<forall>i. history s' i = history s i @ (if i = incident_id rs then rows else []))
    \<and> trail rows \<and> list_all inv rows \<and> (rows \<noteq> [] \<longrightarrow> hd rows = rs)
    \<and> (\<forall>rs'. r = Inr rs' \<longrightarrow> rows \<noteq> [] \<and> rs' = last rows \<and> is_terminal (state rs'))"
proof (cases "is_terminal (state rs)")
  case True
  with assms show ?thesis by (intro exI[of _ "[]"]) (auto simp: run_to_completion_def)
next
  case False
  let ?ports = "durable_ports clk write_run reg"
  obtain w1 s1 r1 where sv: "save ?ports (w, s) rs = ((w1, s1), r1)" by (metis surj_pair)
  show ?thesis
  proof (cases r1)
    case (Inl err)
    with sv False assms(1) save_durable[OF sv] show ?thesis
      by (intro exI[of _ "[]"]) (auto simp: run_to_completion_def)
  next
    case (Inr x)
    with sv False assms(1) have "run_loop ?ports m m True (w1, s1) rs = ((w', s'), r)"
      by (simp add: run_to_completion_def)
    from loop_durable[OF this assms(2)] obtain rows where
      h: "\<forall>i. history s' i = history s1 i @ (if i = incident_id rs then rows else [])"
      and t: "trail (rs # rows)" "list_all inv rows"
      and l: "\<forall>rs'. r = Inr rs' \<longrightarrow> rs' = last (rs # rows) \<and> is_terminal (state rs')" by blast
    from h save_durable[OF sv] Inr
    have "\<forall>i. history s' i = history s i @ (if i = incident_id rs then rs # rows else [])" by simp
    with t l assms(2) show ?thesis by (intro exI[of _ "rs # rows"]) simp
  qed
qed

text \<open>The run that is returned is the run a later load finds.\<close>

lemma run_durable_load:
  assumes "run_to_completion (durable_ports clk write_run reg) m (w, s) rs = ((w', s'), Inr rs')" and "inv rs"
  shows "load s' (incident_id rs) = Some rs'"
  using run_durable[OF assms] by (auto simp: load_history)

end

end
