(* ===== verification/Tool_Policy.thy ===== *)
theory Tool_Policy
  imports Run_State
begin

text \<open>
  \<^verbatim>\<open>tools/registry.py\<close> (the input models and the registry), \<^verbatim>\<open>tools/wire.py\<close> and
  \<^verbatim>\<open>tools/policies.py\<close>. A Pydantic input model is its list of declared fields; Pydantic's own
  validation and dump of one field is the parameter \<open>coerce\<close> of the library record, which keeps
  the model honest about what it cannot read. Which fields exist, which have defaults and that
  extra keys are forbidden is the source's own declaration and is written out here.
\<close>

subsection \<open>Input models\<close>

datatype ftype =
    FStr nat "nat option" \<comment> \<open>\<open>str\<close> with \<open>min_length\<close> and \<open>max_length\<close>\<close>
  | FUuid
  | FInt int "int option" \<comment> \<open>\<open>int\<close> with \<open>ge\<close> and \<open>le\<close>\<close>
  | FBool
  | FLiteral "string list"
  | FUuidList nat nat \<comment> \<open>\<open>list[UUID]\<close> with its length bounds\<close>
  | FOpt ftype \<comment> \<open>\<open>... | None\<close>\<close>

record field_spec =
  field_name :: string
  field_type :: ftype
  field_default :: "val option"

definition field :: "string \<Rightarrow> ftype \<Rightarrow> val option \<Rightarrow> field_spec" where
  "field n ty d = \<lparr>field_name = n, field_type = ty, field_default = d\<rparr>"

lemma field_simps [simp]:
  "field_name (field n ty d) = n" "field_type (field n ty d) = ty" "field_default (field n ty d) = d"
  by (simp_all add: field_def)

definition get_consumer_lag_input :: "field_spec list" where
  "get_consumer_lag_input =
     [field ''consumer_group'' (FStr 0 None) (Some (VStr ''worker-dispatcher''))]"

definition get_dag_state_input :: "field_spec list" where
  "get_dag_state_input =
     [field ''job_id'' FUuid None]"

definition get_deploy_history_input :: "field_spec list" where
  "get_deploy_history_input =
     [field ''environment'' (FOpt (FStr 0 None)) (Some (VNull)),
      field ''limit'' (FInt 1 (Some 100)) (Some (VInt 20))]"

definition get_incident_input :: "field_spec list" where
  "get_incident_input =
     [field ''id'' FUuid None]"

definition get_trace_input :: "field_spec list" where
  "get_trace_input =
     [field ''trace_id'' (FStr 1 (Some 255)) None,
      field ''include_audit'' FBool (Some (VBool True))]"

definition get_cache_key_info_input :: "field_spec list" where
  "get_cache_key_info_input =
     [field ''key'' (FStr 1 (Some 512)) None]"

definition list_active_alerts_input :: "field_spec list" where
  "list_active_alerts_input =
     [field ''severity'' (FOpt (FStr 0 None)) (Some (VNull)),
      field ''limit'' (FInt 1 (Some 200)) (Some (VInt 50))]"

definition list_audit_events_input :: "field_spec list" where
  "list_audit_events_input =
     [field ''action'' (FOpt (FStr 0 None)) (Some (VNull)),
      field ''action_prefix'' (FOpt (FStr 0 None)) (Some (VNull)),
      field ''principal_type'' (FOpt (FLiteral [''user'', ''service_account''])) (Some (VNull)),
      field ''limit'' (FInt 1 (Some 200)) (Some (VInt 50))]"

definition list_dlq_messages_input :: "field_spec list" where
  "list_dlq_messages_input =
     [field ''job_type'' (FOpt (FStr 0 None)) (Some (VNull)),
      field ''remediation_hint'' (FOpt (FStr 0 None)) (Some (VNull)),
      field ''limit'' (FInt 1 (Some 200)) (Some (VInt 50)),
      field ''offset'' (FInt 0 None) (Some (VInt 0))]"

definition list_incidents_input :: "field_spec list" where
  "list_incidents_input =
     [field ''include_resolved'' FBool (Some (VBool False)),
      field ''severity'' (FOpt (FStr 0 None)) (Some (VNull)),
      field ''source'' (FOpt (FStr 0 None)) (Some (VNull)),
      field ''limit'' (FInt 1 (Some 200)) (Some (VInt 50))]"

definition search_traces_input :: "field_spec list" where
  "search_traces_input =
     [field ''status'' (FOpt (FStr 0 None)) (Some (VNull)),
      field ''job_type'' (FOpt (FStr 0 None)) (Some (VNull)),
      field ''since_hours'' (FOpt (FInt 1 (Some 168))) (Some (VNull)),
      field ''limit'' (FInt 1 (Some 200)) (Some (VInt 50))]"

definition restart_consumer_group_input :: "field_spec list" where
  "restart_consumer_group_input =
     [field ''consumer_group'' (FStr 1 (Some 128)) None,
      field ''idempotency_key'' (FStr 8 (Some 255)) None]"

definition pause_dag_input :: "field_spec list" where
  "pause_dag_input =
     [field ''root_job_id'' FUuid None,
      field ''ttl_seconds'' (FInt 1 (Some 3600)) (Some (VInt 600)),
      field ''idempotency_key'' (FStr 8 (Some 255)) None]"

definition replay_dlq_messages_input :: "field_spec list" where
  "replay_dlq_messages_input =
     [field ''job_type'' (FOpt (FStr 0 None)) (Some (VNull)),
      field ''limit'' (FInt 1 (Some 200)) (Some (VInt 25)),
      field ''include_human_required'' FBool (Some (VBool False)),
      field ''idempotency_key'' (FStr 8 (Some 255)) None]"

definition invalidate_cache_key_input :: "field_spec list" where
  "invalidate_cache_key_input =
     [field ''key'' (FStr 1 (Some 512)) None,
      field ''idempotency_key'' (FStr 8 (Some 255)) None]"

definition replay_dlq_by_ids_input :: "field_spec list" where
  "replay_dlq_by_ids_input =
     [field ''job_ids'' (FUuidList 1 50) None,
      field ''idempotency_key'' (FStr 8 (Some 255)) None,
      field ''delay_seconds'' (FOpt (FInt 1 (Some 3600))) (Some (VNull))]"

definition replay_dlq_by_category_input :: "field_spec list" where
  "replay_dlq_by_category_input =
     [field ''category'' (FStr 0 None) None,
      field ''job_type'' (FOpt (FStr 0 None)) (Some (VNull)),
      field ''max_replays'' (FInt 1 (Some 100)) (Some (VInt 20)),
      field ''idempotency_key'' (FStr 8 (Some 255)) None,
      field ''delay_seconds'' (FOpt (FInt 1 (Some 3600))) (Some (VNull))]"

definition mark_dlq_permanent_input :: "field_spec list" where
  "mark_dlq_permanent_input =
     [field ''job_id'' FUuid None,
      field ''reason'' (FStr 8 (Some 1024)) None,
      field ''idempotency_key'' (FStr 8 (Some 255)) None]"

definition tool_registry :: "(string \<times> field_spec list) list" where
  "tool_registry =
     [(''get_consumer_lag'', get_consumer_lag_input),
      (''get_dag_state'', get_dag_state_input),
      (''get_deploy_history'', get_deploy_history_input),
      (''get_incident'', get_incident_input),
      (''get_outbox_status'', []),
      (''get_circuit_breakers'', []),
      (''get_control_loops'', []),
      (''get_slo_status'', []),
      (''get_postgres_health'', []),
      (''get_redis_health'', []),
      (''get_trace'', get_trace_input),
      (''get_cache_key_info'', get_cache_key_info_input),
      (''list_active_alerts'', list_active_alerts_input),
      (''list_audit_events'', list_audit_events_input),
      (''list_dlq_messages'', list_dlq_messages_input),
      (''list_incidents'', list_incidents_input),
      (''search_traces'', search_traces_input),
      (''restart_consumer_group'', restart_consumer_group_input),
      (''pause_dag'', pause_dag_input),
      (''replay_dlq_messages'', replay_dlq_messages_input),
      (''invalidate_cache_key'', invalidate_cache_key_input),
      (''replay_dlq_by_ids'', replay_dlq_by_ids_input),
      (''replay_dlq_by_category'', replay_dlq_by_category_input),
      (''mark_dlq_permanent'', mark_dlq_permanent_input)]"

definition registered :: "string \<Rightarrow> bool" where
  "registered tool = (tool \<in> set (map fst tool_registry))"

definition input_model :: "string \<Rightarrow> field_spec list" where
  "input_model tool = (case map_of tool_registry tool of Some fs \<Rightarrow> fs | None \<Rightarrow> [])"

text \<open>
  The library the model takes as given: Pydantic's validation and JSON dump of one field value,
  \<open>json.dumps\<close> with sorted keys (the platform's canonical separators or the default ones),
  SHA-256 in hex, and \<open>json.loads\<close> of a text block validated and dumped by a tool's output model.
\<close>

record libs =
  coerce :: "ftype \<Rightarrow> val \<Rightarrow> val option"
  dumps_sorted :: "dict \<Rightarrow> string"
  dumps_canonical :: "dict \<Rightarrow> string"
  sha256_hex :: "string \<Rightarrow> string"
  output_model :: "string \<Rightarrow> string \<Rightarrow> string + val"

text \<open>\<open>None\<close> is Pydantic's \<open>ValidationError\<close>.\<close>

fun validate_fields :: "(ftype \<Rightarrow> val \<Rightarrow> val option) \<Rightarrow> field_spec list \<Rightarrow> dict \<Rightarrow> dict option" where
  "validate_fields co [] raw = Some []"
| "validate_fields co (f # fs) raw =
     (case (case get raw (field_name f) of
              Some v \<Rightarrow> co (field_type f) v
            | None \<Rightarrow> field_default f) of
        None \<Rightarrow> None
      | Some v \<Rightarrow> map_option (\<lambda>d. (field_name f, v) # d) (validate_fields co fs raw))"

definition wire_arguments :: "libs \<Rightarrow> string \<Rightarrow> dict \<Rightarrow> dict option" where
  "wire_arguments L tool raw =
     (if set (map fst raw) \<subseteq> set (map field_name (input_model tool))
      then validate_fields (coerce L) (input_model tool) raw
      else None)"

definition arguments_hash :: "libs \<Rightarrow> dict \<Rightarrow> string" where
  "arguments_hash L args = sha256_hex L (dumps_canonical L args)"

text \<open>
  What the callers rely on Pydantic for: a value it accepted and dumped is accepted again and
  dumped to itself, and the defaults the models declare are values of their fields.
\<close>

definition validator_ok :: "libs \<Rightarrow> bool" where
  "validator_ok L =
     ((\<forall>ty v v'. coerce L ty v = Some v' \<longrightarrow> coerce L ty v' = Some v')
      \<and> (\<forall>(tool, fs)\<in>set tool_registry. \<forall>f\<in>set fs. \<forall>d.
            field_default f = Some d \<longrightarrow> coerce L (field_type f) d = Some d))"

lemma validate_fields_keys:
  "validate_fields co fs raw = Some d \<Longrightarrow> map fst d = map field_name fs"
  by (induction fs arbitrary: d) (auto split: option.splits)

lemma wire_arguments_keys: "wire_arguments L tool raw = Some d \<Longrightarrow> map fst d = map field_name (input_model tool)"
  by (auto simp: wire_arguments_def validate_fields_keys split: if_splits)

lemma validate_fields_get:
  assumes "validate_fields co fs raw = Some d" and "distinct (map field_name fs)" and "f \<in> set fs"
  shows "get d (field_name f) =
     (case get raw (field_name f) of Some v \<Rightarrow> co (field_type f) v | None \<Rightarrow> field_default f)"
  using assms
proof (induction fs arbitrary: d)
  case (Cons g fs)
  from Cons.prems(1) obtain v d' where v: "(case get raw (field_name g) of
        Some v \<Rightarrow> co (field_type g) v | None \<Rightarrow> field_default g) = Some v"
    and d': "validate_fields co fs raw = Some d'" and d: "d = (field_name g, v) # d'"
    by (auto split: option.splits)
  show ?case
  proof (cases "f = g")
    case True
    show ?thesis unfolding True v d by simp
  next
    case False
    with Cons.prems have "field_name f \<noteq> field_name g" by (auto simp: image_iff)
    with Cons.IH[OF d'] Cons.prems False d show ?thesis by simp
  qed
qed simp

lemma validate_fields_cong:
  assumes "\<And>f. f \<in> set fs \<Longrightarrow>
      (case get e (field_name f) of Some x \<Rightarrow> co (field_type f) x | None \<Rightarrow> field_default f)
    = (case get raw (field_name f) of Some x \<Rightarrow> co (field_type f) x | None \<Rightarrow> field_default f)"
  shows "validate_fields co fs e = validate_fields co fs raw"
  using assms by (induction fs) (simp_all cong: option.case_cong)

lemma validate_fields_idem:
  assumes "\<And>ty v v'. co ty v = Some v' \<Longrightarrow> co ty v' = Some v'"
    and "\<forall>f\<in>set fs. \<forall>d. field_default f = Some d \<longrightarrow> co (field_type f) d = Some d"
    and "distinct (map field_name fs)"
    and "validate_fields co fs raw = Some d"
    and "\<forall>f\<in>set fs. get e (field_name f) = get d (field_name f)"
  shows "validate_fields co fs e = Some d"
  using assms(2-)
proof (induction fs arbitrary: d)
  case (Cons g fs)
  from Cons.prems(3) obtain v d' where v: "(case get raw (field_name g) of
        Some v \<Rightarrow> co (field_type g) v | None \<Rightarrow> field_default g) = Some v"
    and d': "validate_fields co fs raw = Some d'" and d: "d = (field_name g, v) # d'"
    by (auto split: option.splits)
  have fixed: "co (field_type g) v = Some v"
    using v Cons.prems(1) assms(1) by (auto split: option.splits)
  have "\<forall>f\<in>set fs. get e (field_name f) = get d' (field_name f)"
  proof
    fix f assume f: "f \<in> set fs"
    with Cons.prems(2) have "field_name f \<noteq> field_name g" by (auto simp: image_iff)
    with f Cons.prems(4) d show "get e (field_name f) = get d' (field_name f)" by simp
  qed
  with Cons.IH[OF _ _ d'] Cons.prems(1,2) have "validate_fields co fs e = Some d'" by simp
  moreover have "get e (field_name g) = Some v" using Cons.prems(4) d by simp
  ultimately show ?case using fixed d by simp
qed simp

subsection \<open>Tiers\<close>

datatype tier = READ | TIER_1 | TIER_2

definition read_tools :: "string list" where
  "read_tools =
     [''get_cache_key_info'', ''get_circuit_breakers'', ''get_consumer_lag'', ''get_control_loops'',
      ''get_dag_state'', ''get_deploy_history'', ''get_incident'', ''get_outbox_status'',
      ''get_postgres_health'', ''get_redis_health'', ''get_slo_status'', ''get_trace'',
      ''list_active_alerts'', ''list_audit_events'', ''list_dlq_messages'', ''list_incidents'',
      ''search_traces'']"

definition tier_1_tools :: "string list" where
  "tier_1_tools =
     [''restart_consumer_group'', ''pause_dag'', ''replay_dlq_messages'', ''invalidate_cache_key'',
      ''replay_dlq_by_ids'', ''replay_dlq_by_category'', ''mark_dlq_permanent'']"

definition tier_2_tools :: "string list" where
  "tier_2_tools = []"

definition tier_of :: "string \<Rightarrow> tier result" where
  "tier_of tool =
     (if \<not> registered tool then Inl (KeyError tool)
      else if tool \<in> set tier_2_tools then Inr TIER_2
      else if tool \<in> set tier_1_tools then Inr TIER_1
      else if tool \<in> set read_tools then Inr READ
      else Inl (PolicyCoverageError tool))"

fun tier_order :: "tier \<Rightarrow> nat" where
  "tier_order READ = 0"
| "tier_order TIER_1 = 1"
| "tier_order TIER_2 = 2"

definition tools_at_or_below :: "tier \<Rightarrow> string list result" where
  "tools_at_or_below max_tier =
     foldr (\<lambda>name acc. bind_result (tier_of name) (\<lambda>t. bind_result acc (\<lambda>ns.
             Inr (if tier_order t \<le> tier_order max_tier then name # ns else ns))))
       (map fst tool_registry) (Inr [])"

definition ensure_covered :: "unit result" where
  "ensure_covered =
     (let registered_names = map fst tool_registry;
          classified = read_tools @ tier_1_tools @ tier_2_tools;
          unclassified = filter (\<lambda>n. n \<notin> set classified) registered_names;
          stale = filter (\<lambda>n. n \<notin> set registered_names) classified;
          overlaps = filter (\<lambda>n. n \<in> set tier_1_tools \<or> n \<in> set tier_2_tools) read_tools
                     @ filter (\<lambda>n. n \<in> set tier_2_tools) tier_1_tools
      in if unclassified = [] \<and> stale = [] \<and> overlaps = [] then Inr ()
         else Inl (PolicyCoverageError ''tier policy does not cover the registry''))"

subsection \<open>Resolution classes\<close>

datatype resolution = RESOLVES | STABILIZES

definition resolution_class :: "(string \<times> resolution) list" where
  "resolution_class =
     [(''pause_dag'', STABILIZES),
      (''restart_consumer_group'', RESOLVES),
      (''invalidate_cache_key'', RESOLVES),
      (''replay_dlq_by_ids'', RESOLVES),
      (''replay_dlq_by_category'', RESOLVES),
      (''replay_dlq_messages'', RESOLVES),
      (''mark_dlq_permanent'', STABILIZES)]"

definition resolution_class_of :: "string \<Rightarrow> resolution result" where
  "resolution_class_of tool =
     (if \<not> registered tool then Inl (KeyError tool)
      else case tier_of tool of
        Inl err \<Rightarrow> Inl err
      | Inr t \<Rightarrow>
          if t \<noteq> TIER_1 then Inl (PolicyCoverageError tool)
          else case map_of resolution_class tool of
                 None \<Rightarrow> Inl (PolicyCoverageError tool)
               | Some r \<Rightarrow> Inr r)"

definition stabilize_only_tools :: "string list" where
  "stabilize_only_tools = map fst (filter (\<lambda>(_, r). r = STABILIZES) resolution_class)"

subsection \<open>Cached reads and resource arguments\<close>

definition cached_read_freshness_seconds :: "string \<Rightarrow> int option" where
  "cached_read_freshness_seconds tool = map_of [(''get_consumer_lag'', 60)] tool"

definition is_cached_read :: "string \<Rightarrow> bool" where
  "is_cached_read tool = (cached_read_freshness_seconds tool \<noteq> None)"

definition resource_arg_table :: "(string \<times> string list) list" where
  "resource_arg_table =
     [(''get_cache_key_info'', [''key'']),
      (''get_circuit_breakers'', []),
      (''get_consumer_lag'', [''consumer_group'']),
      (''get_control_loops'', []),
      (''get_dag_state'', [''job_id'']),
      (''get_deploy_history'', []),
      (''get_incident'', [''id'']),
      (''get_outbox_status'', []),
      (''get_postgres_health'', []),
      (''get_redis_health'', []),
      (''get_slo_status'', []),
      (''get_trace'', [''trace_id'']),
      (''invalidate_cache_key'', [''key'']),
      (''list_active_alerts'', []),
      (''list_audit_events'', []),
      (''list_dlq_messages'', []),
      (''list_incidents'', []),
      (''mark_dlq_permanent'', [''job_id'']),
      (''pause_dag'', [''root_job_id'']),
      (''replay_dlq_by_category'', []),
      (''replay_dlq_by_ids'', [''job_ids'']),
      (''replay_dlq_messages'', []),
      (''restart_consumer_group'', [''consumer_group'']),
      (''search_traces'', [])]"

text \<open>\<open>RESOURCE_ARG_FIELDS.get(tool, frozenset())\<close>, in sorted order.\<close>

definition resource_arg_fields :: "string \<Rightarrow> string list" where
  "resource_arg_fields tool = (case map_of resource_arg_table tool of Some fs \<Rightarrow> fs | None \<Rightarrow> [])"

fun is_uuid_type :: "ftype \<Rightarrow> bool" where
  "is_uuid_type FUuid = True"
| "is_uuid_type (FUuidList _ _) = True"
| "is_uuid_type (FOpt ty) = is_uuid_type ty"
| "is_uuid_type _ = False"

definition uuid_resource_fields :: "string \<Rightarrow> string list" where
  "uuid_resource_fields tool =
     filter (\<lambda>f. \<exists>spec\<in>set (input_model tool). field_name spec = f \<and> is_uuid_type (field_type spec))
       (resource_arg_fields tool)"

lemmas input_model_defs =
  get_consumer_lag_input_def get_dag_state_input_def get_deploy_history_input_def
  get_incident_input_def get_trace_input_def get_cache_key_info_input_def
  list_active_alerts_input_def list_audit_events_input_def list_dlq_messages_input_def
  list_incidents_input_def search_traces_input_def restart_consumer_group_input_def
  pause_dag_input_def replay_dlq_messages_input_def invalidate_cache_key_input_def
  replay_dlq_by_ids_input_def replay_dlq_by_category_input_def mark_dlq_permanent_input_def

lemmas policy_tables =
  tool_registry_def read_tools_def tier_1_tools_def tier_2_tools_def resolution_class_def
  resource_arg_table_def

text \<open>The three classes as equations: what every caller of \<open>tier_of\<close> branches on.\<close>

lemma registered_iff_classified:
  "registered tool \<longleftrightarrow> tool \<in> set read_tools \<or> tool \<in> set tier_1_tools"
  by (auto simp: registered_def policy_tables)

lemma read_tier_1_disjoint: "tool \<in> set read_tools \<Longrightarrow> tool \<in> set tier_1_tools \<Longrightarrow> False"
  by (auto simp: policy_tables)

lemma tier_of_READ_iff [guard_simps]: "tier_of tool = Inr READ \<longleftrightarrow> tool \<in> set read_tools"
  using registered_iff_classified read_tier_1_disjoint
  by (auto simp: tier_of_def tier_2_tools_def)

lemma tier_of_TIER_1_iff [guard_simps]: "tier_of tool = Inr TIER_1 \<longleftrightarrow> tool \<in> set tier_1_tools"
  using registered_iff_classified by (auto simp: tier_of_def tier_2_tools_def)

lemma tier_of_registered: "registered tool \<Longrightarrow> tier_of tool = Inr READ \<or> tier_of tool = Inr TIER_1"
  using registered_iff_classified tier_of_READ_iff tier_of_TIER_1_iff by blast

lemma tier_of_Inr_registered: "tier_of tool = Inr t \<Longrightarrow> registered tool"
  by (auto simp: tier_of_def split: if_splits)

lemma tools_at_or_below_fold:
  "\<forall>n\<in>set names. registered n \<Longrightarrow>
   foldr (\<lambda>name acc. bind_result (tier_of name) (\<lambda>t. bind_result acc (\<lambda>ns.
             Inr (if tier_order t \<le> tier_order m then name # ns else ns)))) names (Inr []) =
     Inr (filter (\<lambda>n. m \<noteq> READ \<or> n \<in> set read_tools) names)"
proof (induction names)
  case (Cons n names)
  then have "tier_of n = Inr READ \<or> tier_of n = Inr TIER_1" by (simp add: tier_of_registered)
  with Cons show ?case
    using tier_of_READ_iff[of n] tier_of_TIER_1_iff[of n] read_tier_1_disjoint[of n]
    by (cases m) auto
qed simp

lemma tools_at_or_below_eq:
  "tools_at_or_below m = Inr (filter (\<lambda>n. m \<noteq> READ \<or> n \<in> set read_tools) (map fst tool_registry))"
  unfolding tools_at_or_below_def by (rule tools_at_or_below_fold) (simp add: registered_def)

lemma resolution_class_of_tier_1:
  "tool \<in> set tier_1_tools \<Longrightarrow>
     resolution_class_of tool = Inr (if tool \<in> set stabilize_only_tools then STABILIZES else RESOLVES)"
  using registered_iff_classified[of tool] tier_of_TIER_1_iff[of tool]
  by (auto simp: resolution_class_of_def stabilize_only_tools_def tier_1_tools_def resolution_class_def)

lemma distinct_input_fields: "distinct (map field_name (input_model tool))"
proof (cases "map_of tool_registry tool")
  case (Some fs)
  have "\<forall>(t, fs)\<in>set tool_registry. distinct (map field_name fs)"
    by (simp add: tool_registry_def input_model_defs)
  with map_of_SomeD[OF Some] Some show ?thesis by (auto simp: input_model_def)
qed (simp add: input_model_def)

text \<open>A wired call wires to itself: the ledger's rows can be compared with new plans.\<close>

lemma wire_arguments_get:
  assumes "wire_arguments L tool raw = Some d" and "f \<in> set (input_model tool)"
  shows "get d (field_name f) =
     (case get raw (field_name f) of Some v \<Rightarrow> coerce L (field_type f) v | None \<Rightarrow> field_default f)"
  using assms validate_fields_get[OF _ distinct_input_fields]
  by (auto simp: wire_arguments_def split: if_splits)

lemma validator_ok_default:
  assumes "validator_ok L" and "f \<in> set (input_model tool)" and "field_default f = Some d"
  shows "coerce L (field_type f) d = Some d"
proof -
  from assms(2) obtain fs where "map_of tool_registry tool = Some fs" and f: "f \<in> set fs"
    by (cases "map_of tool_registry tool") (auto simp: input_model_def)
  then have "(tool, fs) \<in> set tool_registry" by (simp add: map_of_SomeD)
  with assms(1,3) f show ?thesis by (fastforce simp: validator_ok_def)
qed

lemma wire_arguments_idem:
  assumes "validator_ok L" and "wire_arguments L tool raw = Some d"
  shows "wire_arguments L tool d = Some d"
proof -
  have idem: "coerce L ty v' = Some v'" if "coerce L ty v = Some v'" for ty v v'
    using assms(1) that unfolding validator_ok_def by blast
  have raw: "validate_fields (coerce L) (input_model tool) raw = Some d"
    using assms(2) by (simp add: wire_arguments_def split: if_splits)
  have "validate_fields (coerce L) (input_model tool) d = Some d"
    by (rule validate_fields_idem[OF idem _ distinct_input_fields raw])
      (auto intro: validator_ok_default[OF assms(1)])
  with wire_arguments_keys[OF assms(2)] show ?thesis by (simp add: wire_arguments_def del: list.set_map set_map)
qed

end
