(* ===== verification/Alert_Subject.thy ===== *)
theory Alert_Subject
  imports Tool_Policy
begin

text \<open>
  The vocabulary of the investigation's guards: the tables and pure predicates of
  \<^verbatim>\<open>agent/investigation.py\<close> (what a category is fixed with, what an alert is about, which
  ledger rows read it, whether a reading shows the fault and is fresh) and the required reads of
  \<^verbatim>\<open>agent/required_reads.py\<close>. Everything here looks at a ledger and changes nothing; the
  lemmas say that these questions are monotone in the append-only ledger.
\<close>

subsection \<open>Routing tables\<close>

definition remediate_confidence_threshold :: rat where
  "remediate_confidence_threshold = 7/10"

definition fix_map :: "(hypothesis_category \<times> string) list" where
  "fix_map =
     [(CONSUMER_SATURATION, ''restart_consumer_group''),
      (POISON_MESSAGE, ''replay_dlq_by_ids''),
      (STALE_CACHE, ''invalidate_cache_key''),
      (RUNAWAY_SAGA, ''replay_dlq_by_ids''),
      (RESOLVER_STALL, ''restart_consumer_group'')]"

definition fixable :: "hypothesis_category \<Rightarrow> bool" where
  "fixable c = (c \<in> set (map fst fix_map))"

definition hint_routed_categories :: "hypothesis_category list" where
  "hint_routed_categories = [POISON_MESSAGE, RUNAWAY_SAGA]"

definition hint_routed_tools :: "(string \<times> string list) list" where
  "hint_routed_tools =
     [(''replay_safe'', [''replay_dlq_by_ids'', ''replay_dlq_by_category'']),
      (''wait_and_replay'', [''replay_dlq_by_ids'', ''replay_dlq_by_category'']),
      (''human_required'', [''mark_dlq_permanent'']),
      (''unclassified'', [''mark_dlq_permanent''])]"

definition dlq_listing_tool :: string where
  "dlq_listing_tool = ''list_dlq_messages''"

definition dlq_listing_filters :: "string list" where
  "dlq_listing_filters = [''job_type'', ''remediation_hint'']"

definition unnarrowed_reads :: "(string \<times> string list) list" where
  "unnarrowed_reads = [(dlq_listing_tool, dlq_listing_filters)]"

definition dlq_action_tools :: "string list" where
  "dlq_action_tools =
     [''replay_dlq_by_ids'', ''replay_dlq_by_category'', ''replay_dlq_messages'', ''mark_dlq_permanent'']"

definition dlq_acting_categories :: "hypothesis_category list" where
  "dlq_acting_categories =
     (let hint_routed = concat (map snd hint_routed_tools) in
      map fst (filter (\<lambda>(c, mapped_tool).
        let reachable = mapped_tool # (if c \<in> set hint_routed_categories then hint_routed else [])
        in \<exists>t\<in>set reachable. t \<in> set dlq_action_tools) fix_map))"

lemma dlq_acting_categories_eq: "dlq_acting_categories = [POISON_MESSAGE, RUNAWAY_SAGA]"
  by (simp add: dlq_acting_categories_def fix_map_def hint_routed_tools_def
      hint_routed_categories_def dlq_action_tools_def)

text \<open>Every route the map or a row's hint can name ends at a Tier-1 tool.\<close>

lemma fix_map_tier_1: "(c, tool) \<in> set fix_map \<Longrightarrow> tool \<in> set tier_1_tools"
  by (auto simp: fix_map_def tier_1_tools_def)

lemma dlq_action_tools_tier_1: "set dlq_action_tools \<subseteq> set tier_1_tools"
  by (simp add: dlq_action_tools_def tier_1_tools_def)

subsection \<open>What an alert is about\<close>

datatype subject_match = EQUALS | UNFILTERED

record subject_probe =
  probe_tool :: string
  probe_argument :: string
  probe_match :: subject_match
  admissible_values :: "string list option"

definition alert_subject_probes :: "(string \<times> subject_probe) list" where
  "alert_subject_probes =
     (let lag = \<lparr>probe_tool = ''get_consumer_lag'', probe_argument = ''consumer_group'',
                 probe_match = EQUALS, admissible_values = None\<rparr>
      in [(''consumer_group'', lag),
          (''group'', lag),
          (''cache_key'', \<lparr>probe_tool = ''get_cache_key_info'', probe_argument = ''key'',
                           probe_match = EQUALS, admissible_values = None\<rparr>),
          (''job_id'', \<lparr>probe_tool = ''get_dag_state'', probe_argument = ''job_id'',
                        probe_match = EQUALS, admissible_values = None\<rparr>),
          (''trace_id'', \<lparr>probe_tool = ''get_trace'', probe_argument = ''trace_id'',
                          probe_match = EQUALS, admissible_values = None\<rparr>),
          (''remediation_hint'', \<lparr>probe_tool = ''list_dlq_messages'', probe_argument = ''remediation_hint'',
                                  probe_match = EQUALS, admissible_values = None\<rparr>),
          (''dlq_scope'', \<lparr>probe_tool = ''list_dlq_messages'', probe_argument = ''remediation_hint'',
                           probe_match = UNFILTERED, admissible_values = Some [''unclassified'']\<rparr>)])"

record alert_subject =
  alert_field :: string
  subject_tool :: string
  argument_field :: string
  subject_value :: string
  subject_matching :: subject_match

text \<open>\<open>isinstance(raw, (str, UUID))\<close>, and then \<open>str(raw)\<close>.\<close>

fun named_string :: "val option \<Rightarrow> string option" where
  "named_string (Some (VStr s)) = Some s"
| "named_string (Some (VUuid s)) = Some s"
| "named_string _ = None"

fun subject_in :: "(string \<times> subject_probe) list \<Rightarrow> dict \<Rightarrow> alert_subject option" where
  "subject_in [] source = None"
| "subject_in ((f, probe) # rest) source =
     (case named_string (get source f) of
        None \<Rightarrow> subject_in rest source
      | Some raw \<Rightarrow>
          (let value = strip raw in
           if value = [] then subject_in rest source
           else if (case admissible_values probe of None \<Rightarrow> False | Some vs \<Rightarrow> value \<notin> set vs)
           then subject_in rest source
           else Some \<lparr>alert_field = f, subject_tool = probe_tool probe,
                      argument_field = probe_argument probe, subject_value = value,
                      subject_matching = probe_match probe\<rparr>))"

definition alert_subject :: "dict \<Rightarrow> alert_subject option" where
  "alert_subject al =
     (case subject_in alert_subject_probes al of
        Some s \<Rightarrow> Some s
      | None \<Rightarrow> (case get al ''extra_data'' of
                   Some (VDict d) \<Rightarrow> subject_in alert_subject_probes d
                 | _ \<Rightarrow> None))"

text \<open>What a subject owes to the table entry it was read off.\<close>

definition subject_of_entry :: "string \<times> subject_probe \<Rightarrow> alert_subject \<Rightarrow> bool" where
  "subject_of_entry ps s =
     (alert_field s = fst ps \<and> subject_tool s = probe_tool (snd ps)
      \<and> argument_field s = probe_argument (snd ps) \<and> subject_matching s = probe_match (snd ps)
      \<and> subject_value s \<noteq> [] \<and> strip (subject_value s) = subject_value s
      \<and> (case admissible_values (snd ps) of None \<Rightarrow> True | Some vs \<Rightarrow> subject_value s \<in> set vs))"

lemma subject_in_wf:
  "subject_in probes source = Some s \<Longrightarrow> \<exists>ps\<in>set probes. subject_of_entry ps s"
proof (induction probes)
  case (Cons ps rest)
  obtain f probe where ps: "ps = (f, probe)" by fastforce
  show ?case
  proof (cases "subject_in rest source = Some s")
    case True
    with Cons.IH show ?thesis by auto
  next
    case False
    with Cons.prems ps have "subject_of_entry ps s"
      by (auto simp: Let_def subject_of_entry_def split: option.splits if_splits)
    then show ?thesis by simp
  qed
qed simp

lemma alert_subject_wf:
  "alert_subject al = Some s \<Longrightarrow> \<exists>ps\<in>set alert_subject_probes. subject_of_entry ps s"
  unfolding alert_subject_def by (auto split: option.splits val.splits dest: subject_in_wf)

lemma alert_subject_tool_read: "alert_subject al = Some s \<Longrightarrow> subject_tool s \<in> set read_tools"
  by (drule alert_subject_wf) (auto simp: alert_subject_probes_def Let_def read_tools_def subject_of_entry_def)

subsection \<open>Which rows read it\<close>

definition names_the_subject :: "dict \<Rightarrow> alert_subject \<Rightarrow> bool" where
  "names_the_subject args subject =
     (let narrowed = (case named_string (get args (argument_field subject)) of
                        Some s \<Rightarrow> strip s | None \<Rightarrow> [])
      in if subject_matching subject = UNFILTERED then narrowed = []
         else narrowed = subject_value subject)"

definition subject_reads :: "run_state \<Rightarrow> alert_subject \<Rightarrow> evidence_entry list" where
  "subject_reads rs subject =
     filter (\<lambda>e. tool_name e = subject_tool subject \<and> names_the_subject (arguments e) subject) (evidence rs)"

definition alert_subject_probed :: "run_state \<Rightarrow> alert_subject \<Rightarrow> bool" where
  "alert_subject_probed rs subject = (subject_reads rs subject \<noteq> [])"

definition narrowed_on :: "dict \<Rightarrow> string \<Rightarrow> bool" where
  "narrowed_on args f = (case get args f of Some (VStr s) \<Rightarrow> strip s \<noteq> [] | _ \<Rightarrow> False)"

definition whole_queue_listed :: "run_state \<Rightarrow> bool" where
  "whole_queue_listed rs =
     (\<exists>e\<in>set (evidence rs). tool_name e = dlq_listing_tool
        \<and> \<not> (\<exists>f\<in>set dlq_listing_filters. narrowed_on (arguments e) f))"

subsection \<open>What a reading shows\<close>

record fault_present_reading =
  fp_tool :: string
  fp_argument :: string
  fp_field :: string
  recovered_value :: val
  known_field :: "string option"
  why :: string

definition fault_present_reading :: "string \<Rightarrow> fault_present_reading option" where
  "fault_present_reading tool =
     (if tool = ''get_consumer_lag''
      then Some \<lparr>fp_tool = ''get_consumer_lag'', fp_argument = ''consumer_group'', fp_field = ''lag'',
                 recovered_value = VInt 0, known_field = Some ''lag_known'',
                 why = ''a non-zero lag inside its freshness window is the alerted condition happening now''\<rparr>
      else None)"

definition reading_age_field :: string where
  "reading_age_field = ''age_seconds''"

definition same_value :: "val \<Rightarrow> val \<Rightarrow> bool" where
  "same_value v expected = (case expected of VBool _ \<Rightarrow> v = expected | _ \<Rightarrow> py_eq v expected)"

definition parsed_reading :: "evidence_entry \<Rightarrow> dict option" where
  "parsed_reading e = parsed_mapping (result_summary e)"

definition reads_fault_present :: "evidence_entry \<Rightarrow> fault_present_reading \<Rightarrow> bool option" where
  "reads_fault_present e reading =
     (case parsed_reading e of
        None \<Rightarrow> None
      | Some parsed \<Rightarrow>
          (case get parsed (fp_field reading) of
             None \<Rightarrow> None
           | Some v \<Rightarrow>
               if (case known_field reading of
                     None \<Rightarrow> False
                   | Some k \<Rightarrow> get parsed k \<noteq> Some (VBool True))
               then None
               else Some (\<not> same_value v (recovered_value reading))))"

definition reading_is_fresh :: "evidence_entry \<Rightarrow> string \<Rightarrow> bool" where
  "reading_is_fresh e tool =
     (case cached_read_freshness_seconds tool of
        None \<Rightarrow> True
      | Some window \<Rightarrow>
          (case parsed_reading e of
             None \<Rightarrow> False
           | Some parsed \<Rightarrow>
               (case get parsed reading_age_field of
                  None \<Rightarrow> False
                | Some v \<Rightarrow> (case json_number v of
                              None \<Rightarrow> False
                            | Some age \<Rightarrow> 0 \<le> age \<and> age \<le> of_int window))))"

subsection \<open>Required reads\<close>

datatype verdict_condition = WHEN_NO_FAULT | WHEN_STUCK_CHAIN | WHEN_ANY

record required_reading =
  req_tool :: string
  req_when :: verdict_condition
  req_arguments :: "(string \<times> string) list"

text \<open>The validator: a pinned argument the tool does not take, or a blank one, is refused.\<close>

definition required_reading_of ::
    "string \<Rightarrow> verdict_condition \<Rightarrow> (string \<times> string) list \<Rightarrow> required_reading result" where
  "required_reading_of tool when pinned =
     (let accepted = (if registered tool then map field_name (input_model tool) else []);
          unknown = filter (\<lambda>n. n \<notin> set accepted) (map fst pinned);
          blank = filter (\<lambda>(n, v). strip v = []) pinned
      in if tool \<notin> set read_tools then Inl (ValueError ''not a read tool'')
         else if unknown \<noteq> [] then Inl (ValueError ''takes no argument of that name'')
         else if blank \<noteq> [] then Inl (ValueError ''pinned argument is blank'')
         else Inr \<lparr>req_tool = tool, req_when = when, req_arguments = pinned\<rparr>)"

definition rendered :: "required_reading \<Rightarrow> summary" where
  "rendered r =
     (if req_arguments r = [] then Word (req_tool r)
      else Say ''{}({})'' (Word (req_tool r)
             # concat (map (\<lambda>(n, v). [Word n, Word v]) (sort_key fst (req_arguments r)))))"

definition made_with :: "required_reading \<Rightarrow> dict \<Rightarrow> bool" where
  "made_with r args =
     list_all (\<lambda>(n, v). case get args n of Some (VStr seen) \<Rightarrow> strip seen = strip v | _ \<Rightarrow> False)
       (req_arguments r)"

definition chain_read_tool :: string where
  "chain_read_tool = ''get_dag_state''"

definition condition_holds ::
    "verdict_condition \<Rightarrow> hypothesis option \<Rightarrow> alert_subject option \<Rightarrow> bool" where
  "condition_holds when best subject = (case when of
      WHEN_ANY \<Rightarrow> True
    | WHEN_NO_FAULT \<Rightarrow> (case best of Some h \<Rightarrow> category h = NO_FAULT | None \<Rightarrow> False)
    | WHEN_STUCK_CHAIN \<Rightarrow> (case subject of Some s \<Rightarrow> subject_tool s = chain_read_tool | None \<Rightarrow> False))"

definition counts_as :: "required_reading \<Rightarrow> string \<Rightarrow> dict \<Rightarrow> bool" where
  "counts_as r tool args =
     (tool = req_tool r
      \<and> \<not> (\<exists>f\<in>set (case map_of unnarrowed_reads tool of Some fs \<Rightarrow> fs | None \<Rightarrow> []). narrowed_on args f)
      \<and> made_with r args)"

definition required_read_made :: "run_state \<Rightarrow> required_reading \<Rightarrow> bool" where
  "required_read_made rs r = (\<exists>e\<in>set (evidence rs). counts_as r (tool_name e) (arguments e))"

fun collect_missing ::
    "run_state \<Rightarrow> hypothesis option \<Rightarrow> alert_subject option \<Rightarrow> required_reading list
     \<Rightarrow> required_reading list \<Rightarrow> required_reading list" where
  "collect_missing rs best subject missing [] = missing"
| "collect_missing rs best subject missing (r # rest) =
     (if r \<in> set missing \<or> \<not> condition_holds (req_when r) best subject
      then collect_missing rs best subject missing rest
      else if \<not> required_read_made rs r
      then collect_missing rs best subject (missing @ [r]) rest
      else collect_missing rs best subject missing rest)"

definition missing_required_reads ::
    "run_state \<Rightarrow> required_reading list \<Rightarrow> hypothesis list \<Rightarrow> alert_subject option
     \<Rightarrow> required_reading list" where
  "missing_required_reads rs requirements hs subject =
     collect_missing rs (case hs of [] \<Rightarrow> None | h # _ \<Rightarrow> Some h) subject [] requirements"

definition still_owed :: "run_state \<Rightarrow> required_reading list \<Rightarrow> required_reading list" where
  "still_owed rs owed = filter (\<lambda>r. \<not> required_read_made rs r) owed"

definition owed_tools :: "required_reading list \<Rightarrow> string list" where
  "owed_tools owed = dedup (map req_tool owed)"

definition pays_an_owed_read :: "libs \<Rightarrow> string \<Rightarrow> dict \<Rightarrow> required_reading list \<Rightarrow> bool" where
  "pays_an_owed_read L tool raw owed =
     (registered tool \<and> (case wire_arguments L tool raw of
        None \<Rightarrow> False
      | Some args \<Rightarrow> \<exists>r\<in>set owed. counts_as r tool args))"

lemma set_collect_missing:
  "set (collect_missing rs best subject missing reqs) =
     set missing \<union> {r \<in> set reqs. condition_holds (req_when r) best subject \<and> \<not> required_read_made rs r}"
  by (induction reqs arbitrary: missing) auto

lemma distinct_collect_missing:
  "distinct missing \<Longrightarrow> distinct (collect_missing rs best subject missing reqs)"
  by (induction reqs arbitrary: missing) auto

lemma missing_required_reads_empty_iff:
  "missing_required_reads rs reqs hs subject = [] \<longleftrightarrow>
     (\<forall>r\<in>set reqs. condition_holds (req_when r) (case hs of [] \<Rightarrow> None | h # _ \<Rightarrow> Some h) subject
        \<longrightarrow> required_read_made rs r)"
proof -
  have "missing_required_reads rs reqs hs subject = [] \<longleftrightarrow> set (missing_required_reads rs reqs hs subject) = {}"
    by simp
  then show ?thesis by (auto simp: missing_required_reads_def set_collect_missing)
qed

lemma missing_required_reads_length:
  "length (missing_required_reads rs reqs hs subject) \<le> length reqs"
  by (rule length_distinct_le)
    (auto simp: missing_required_reads_def set_collect_missing intro: distinct_collect_missing)

lemma missing_still_owed:
  "still_owed rs (missing_required_reads rs reqs hs subject) = missing_required_reads rs reqs hs subject"
  by (auto simp: still_owed_def filter_id_conv missing_required_reads_def set_collect_missing)

subsection \<open>Monotone in the ledger\<close>

lemma required_read_made_mono:
  "set (evidence rs) \<subseteq> set (evidence rs') \<Longrightarrow> required_read_made rs r \<Longrightarrow> required_read_made rs' r"
  by (auto simp: required_read_made_def)

lemma whole_queue_listed_mono:
  "set (evidence rs) \<subseteq> set (evidence rs') \<Longrightarrow> whole_queue_listed rs \<Longrightarrow> whole_queue_listed rs'"
  unfolding whole_queue_listed_def by blast

lemma alert_subject_probed_mono:
  "set (evidence rs) \<subseteq> set (evidence rs') \<Longrightarrow> alert_subject_probed rs s \<Longrightarrow> alert_subject_probed rs' s"
  by (auto simp: alert_subject_probed_def subject_reads_def filter_empty_conv)

lemma still_owed_mono:
  assumes "set (evidence rs) \<subseteq> set (evidence rs')"
  shows "length (still_owed rs' owed) \<le> length (still_owed rs owed)"
  unfolding still_owed_def
  using required_read_made_mono[OF assms]
  by (induction owed) auto

lemma still_owed_paid:
  assumes "set (evidence rs) \<subseteq> set (evidence rs')" and "r \<in> set (still_owed rs owed)"
    and "required_read_made rs' r"
  shows "length (still_owed rs' owed) < length (still_owed rs owed)"
  using assms(2)
proof (induction owed)
  case (Cons q owed)
  show ?case
  proof (cases "q = r \<and> \<not> required_read_made rs q")
    case True
    with assms(3) still_owed_mono[OF assms(1), of owed] show ?thesis by (auto simp: still_owed_def)
  next
    case False
    with Cons required_read_made_mono[OF assms(1)] show ?thesis
      by (auto simp: still_owed_def split: if_splits)
  qed
qed (simp add: still_owed_def)

end
