(* ===== verification/Attribution.thy ===== *)
theory Attribution
  imports Alert_Subject
begin

text \<open>
  \<^verbatim>\<open>agent/attribution.py\<close> (ADR 0071): what a run may claim about a recovery it read, computed
  from the ledger alone. Positions in the ledger stand for "before" and "after" an action.
\<close>

subsection \<open>Recovered readings\<close>

record recovered_reading =
  rr_tool :: string
  rr_argument :: string
  rr_field :: string
  rr_value :: val
  rr_why :: string

definition cache_key_recovered :: recovered_reading where
  "cache_key_recovered =
     \<lparr>rr_tool = ''get_cache_key_info'', rr_argument = ''key'', rr_field = ''exists'', rr_value = VBool False,
      rr_why = ''exists: false is the state an invalidation leaves and the state an expiry leaves''\<rparr>"

definition recovered_reading_table :: "(string \<times> recovered_reading option) list" where
  "recovered_reading_table =
     [(''get_cache_key_info'', Some cache_key_recovered),
      (''get_consumer_lag'', None),
      (''list_dlq_messages'', None),
      (''get_dag_state'', None),
      (''get_trace'', None)]"

definition declared_readings :: "recovered_reading list" where
  "declared_readings =
     concat (map (\<lambda>(_, r). case r of Some x \<Rightarrow> [x] | None \<Rightarrow> []) recovered_reading_table)"

text \<open>\<open>raw if isinstance(raw, (list, tuple)) else [raw]\<close>, with an absent field as \<open>None\<close>.\<close>

definition as_values :: "val option \<Rightarrow> val list" where
  "as_values raw = (case raw of Some (VList xs) \<Rightarrow> xs | Some v \<Rightarrow> [v] | None \<Rightarrow> [VNull])"

text \<open>\<open>resource_values\<close> here strips and drops empties; the set is kept as its sorted list.\<close>

definition stripped_resource_values :: "string \<Rightarrow> dict \<Rightarrow> string list" where
  "stripped_resource_values tool args =
     sort (remdups (concat (map (\<lambda>f. concat (map (\<lambda>v. case v of
         VStr s \<Rightarrow> if strip s = [] then [] else [strip s] | _ \<Rightarrow> []) (as_values (get args f))))
       (resource_arg_fields tool))))"

definition reads_recovered :: "evidence_entry \<Rightarrow> recovered_reading \<Rightarrow> bool option" where
  "reads_recovered e reading =
     (case parsed_reading e of
        None \<Rightarrow> None
      | Some parsed \<Rightarrow>
          (case get parsed (rr_field reading) of
             None \<Rightarrow> None
           | Some v \<Rightarrow> Some (same_value v (rr_value reading))))"

definition named_resource :: "dict \<Rightarrow> string \<Rightarrow> string option" where
  "named_resource args f =
     (case get args f of Some (VStr s) \<Rightarrow> if strip s = [] then None else Some (strip s) | _ \<Rightarrow> None)"

definition readings_of ::
    "evidence_entry list \<Rightarrow> recovered_reading \<Rightarrow> string \<Rightarrow> (nat \<times> evidence_entry) list" where
  "readings_of es reading resource =
     filter (\<lambda>(_, e). tool_name e = rr_tool reading
               \<and> named_resource (arguments e) (rr_argument reading) = Some resource)
       (enumerate 0 es)"

subsection \<open>Actions on the ledger\<close>

text \<open>A refused Tier-1 call is on the escalation marker under \<open>attempted_tool\<close>.\<close>

definition effective_call :: "evidence_entry \<Rightarrow> string \<times> dict" where
  "effective_call e =
     (case get (arguments e) ''attempted_tool'' of
        Some (VStr attempted) \<Rightarrow>
          (attempted, case get (arguments e) ''attempted_arguments'' of Some (VDict d) \<Rightarrow> d | _ \<Rightarrow> [])
      | _ \<Rightarrow> (tool_name e, arguments e))"

definition is_tier_one :: "string \<Rightarrow> bool" where
  "is_tier_one tool = (registered tool \<and> tier_of tool = Inr TIER_1)"

definition tier_one_calls :: "evidence_entry list \<Rightarrow> (nat \<times> string \<times> dict) list" where
  "tier_one_calls es =
     filter (\<lambda>(_, tool, _). is_tier_one tool)
       (map (\<lambda>(i, e). (i, effective_call e)) (enumerate 0 es))"

definition first_readable ::
    "evidence_entry list \<Rightarrow> string list \<Rightarrow> (string \<times> recovered_reading) option" where
  "first_readable es resources =
     find (\<lambda>(r, reading). readings_of es reading r \<noteq> [])
       (concat (map (\<lambda>r. map (\<lambda>reading. (r, reading)) declared_readings) resources))"

fun newest_readable ::
    "evidence_entry list \<Rightarrow> (nat \<times> string \<times> dict) list
     \<Rightarrow> (nat \<times> string \<times> recovered_reading) option" where
  "newest_readable es [] = None"
| "newest_readable es ((i, tool, args) # rest) =
     (case first_readable es (stripped_resource_values tool args) of
        Some subject \<Rightarrow> Some (i, subject)
      | None \<Rightarrow> newest_readable es rest)"

definition acted_subject :: "evidence_entry list \<Rightarrow> (nat \<times> string \<times> recovered_reading) option" where
  "acted_subject es = newest_readable es (rev (tier_one_calls es))"

definition alerted_subject :: "dict \<Rightarrow> (string \<times> recovered_reading) option" where
  "alerted_subject al =
     (case alert_subject al of
        None \<Rightarrow> None
      | Some s \<Rightarrow> (case map_of recovered_reading_table (subject_tool s) of
            Some (Some reading) \<Rightarrow>
              if rr_argument reading \<noteq> argument_field s then None else Some (subject_value s, reading)
          | _ \<Rightarrow> None))"

subsection \<open>Verdicts\<close>

definition already_recovered ::
    "evidence_entry list \<Rightarrow> string \<Rightarrow> dict \<Rightarrow> (string \<times> recovered_reading) option" where
  "already_recovered es tool args =
     find (\<lambda>(r, reading). let seen = readings_of es reading r in
             seen \<noteq> [] \<and> reads_recovered (snd (last seen)) reading = Some True)
       (concat (map (\<lambda>r. map (\<lambda>reading. (r, reading)) declared_readings)
          (stripped_resource_values tool args)))"

definition render_reading :: "recovered_reading \<Rightarrow> string \<Rightarrow> evidence_entry \<Rightarrow> summary" where
  "render_reading reading resource e =
     Say ''{}({}={}) -> {}''
       [Word (rr_tool reading), Word (rr_argument reading), Word resource, result_summary e]"

datatype attribution_verdict = ATTRIBUTED | CLEARED_ON_ITS_OWN | CANNOT_ATTRIBUTE

record attribution_read =
  attr_verdict :: attribution_verdict
  attr_resource :: string
  attr_probe :: string
  attr_acted :: bool
  attr_detail :: summary

definition verdict_sentence :: "attribution_verdict \<Rightarrow> string" where
  "verdict_sentence v = (case v of
      CLEARED_ON_ITS_OWN \<Rightarrow> ''the issue cleared on its own before I could act''
    | CANNOT_ATTRIBUTE \<Rightarrow> ''recovered, but I cannot confirm my action caused it''
    | ATTRIBUTED \<Rightarrow> [])"

definition acted_verdict ::
    "evidence_entry list \<Rightarrow> nat \<Rightarrow> string \<times> recovered_reading \<Rightarrow> attribution_read option" where
  "acted_verdict es action_index subject =
     (let (r, reading) = subject;
          seen = readings_of es reading r;
          before = map snd (filter (\<lambda>(i, _). i < action_index) seen);
          after = map snd (filter (\<lambda>(i, _). action_index < i) seen)
      in if after = [] \<or> reads_recovered (last after) reading \<noteq> Some True then None
         else let post = render_reading reading r (last after) in
           if before \<noteq> [] \<and> reads_recovered (last before) reading = Some False
           then Some \<lparr>attr_verdict = ATTRIBUTED, attr_resource = r, attr_probe = rr_tool reading, attr_acted = True,
                      attr_detail = Say ''the last reading of {} before the action showed the fault present''
                        [Word r, render_reading reading r (last before), post]\<rparr>
           else Some \<lparr>attr_verdict = CANNOT_ATTRIBUTE, attr_resource = r, attr_probe = rr_tool reading, attr_acted = True,
                      attr_detail = Say ''{}, and the reading after it shows the fault gone''
                        [if before \<noteq> []
                         then Say ''the last reading of {} before the action already showed the fault gone''
                                [Word r, render_reading reading r (last before)]
                         else Say ''no reading of {} precedes the action'' [Word r], post]\<rparr>)"

definition unacted_verdict ::
    "evidence_entry list \<Rightarrow> string \<times> recovered_reading \<Rightarrow> attribution_read option" where
  "unacted_verdict es subject =
     (let (r, reading) = subject;
          seen = map snd (readings_of es reading r)
      in if seen = [] \<or> reads_recovered (last seen) reading \<noteq> Some True then None
         else case find (\<lambda>e. reads_recovered e reading = Some False) seen of
             None \<Rightarrow> None
           | Some present \<Rightarrow>
               Some \<lparr>attr_verdict = CLEARED_ON_ITS_OWN, attr_resource = r, attr_probe = rr_tool reading,
                     attr_acted = False,
                     attr_detail = Say ''{} was read with the fault present and then read again with it gone''
                       [Word r, render_reading reading r present, render_reading reading r (last seen)]\<rparr>)"

definition attribution_of :: "run_state \<Rightarrow> attribution_read option" where
  "attribution_of rs =
     (case acted_subject (evidence rs) of
        Some (i, subject) \<Rightarrow> acted_verdict (evidence rs) i subject
      | None \<Rightarrow>
          if tier_one_calls (evidence rs) \<noteq> [] then None
          else case alerted_subject (alert rs) of
              None \<Rightarrow> None
            | Some subject \<Rightarrow> unacted_verdict (evidence rs) subject)"

subsection \<open>What a verdict rests on\<close>

lemma is_tier_one_iff [guard_simps]: "is_tier_one tool \<longleftrightarrow> tool \<in> set tier_1_tools"
  using registered_iff_classified by (auto simp: is_tier_one_def guard_simps)

lemma readings_of_in:
  "(i, e) \<in> set (readings_of es reading r) \<Longrightarrow>
     i < length es \<and> e = es ! i \<and> tool_name e = rr_tool reading
       \<and> named_resource (arguments e) (rr_argument reading) = Some r"
  by (auto simp: readings_of_def in_set_enumerate_eq)

lemma newest_readable_in:
  "newest_readable es calls = Some (i, r, reading) \<Longrightarrow>
     reading \<in> set declared_readings \<and>
     (\<exists>tool args. (i, tool, args) \<in> set calls \<and> r \<in> set (stripped_resource_values tool args))"
proof (induction calls)
  case (Cons c calls)
  obtain j tool args where c: "c = (j, tool, args)" using prod_cases3 by blast
  show ?case
  proof (cases "first_readable es (stripped_resource_values tool args)")
    case None
    with Cons c show ?thesis by fastforce
  next
    case (Some s)
    with Cons.prems c have s: "s = (r, reading)" "i = j" by auto
    from Some have "s \<in> set (concat (map (\<lambda>r. map (\<lambda>reading. (r, reading)) declared_readings)
        (stripped_resource_values tool args)))"
      unfolding first_readable_def find_Some_iff by (metis nth_mem)
    with s c show ?thesis by auto
  qed
qed simp

lemma acted_subject_call:
  assumes "acted_subject es = Some (i, r, reading)"
  shows "i < length es" and "\<exists>tool args. effective_call (es ! i) = (tool, args)
      \<and> tool \<in> set tier_1_tools \<and> r \<in> set (stripped_resource_values tool args)"
    and "reading \<in> set declared_readings"
  using newest_readable_in[OF assms[unfolded acted_subject_def]]
  by (auto simp: tier_one_calls_def in_set_enumerate_eq guard_simps) (metis prod.collapse)

text \<open>The readings around the action: the pair a credited recovery needs.\<close>

lemma acted_verdict_ATTRIBUTED:
  assumes "acted_verdict es i (r, reading) = Some a" and "attr_verdict a = ATTRIBUTED"
  shows "\<exists>j k. j < i \<and> i < k \<and> k < length es
      \<and> (\<forall>e\<in>{es ! j, es ! k}. tool_name e = rr_tool reading
            \<and> named_resource (arguments e) (rr_argument reading) = Some r)
      \<and> reads_recovered (es ! j) reading = Some False \<and> reads_recovered (es ! k) reading = Some True"
proof -
  let ?seen = "readings_of es reading r"
  let ?b = "filter (\<lambda>(n, _). n < i) ?seen" and ?a = "filter (\<lambda>(n, _). i < n) ?seen"
  from assms have ne: "?b \<noteq> []" "?a \<noteq> []"
    and rb: "reads_recovered (last (map snd ?b)) reading = Some False"
    and ra: "reads_recovered (last (map snd ?a)) reading = Some True"
    by (auto simp: acted_verdict_def Let_def split: if_splits)
  obtain j ej where j: "last ?b = (j, ej)" by fastforce
  obtain k ek where k: "last ?a = (k, ek)" by fastforce
  from last_in_set[OF ne(1)] j have jb: "(j, ej) \<in> set ?seen" "j < i" by auto
  from last_in_set[OF ne(2)] k have ka: "(k, ek) \<in> set ?seen" "i < k" by auto
  from rb ra ne j k have "reads_recovered ej reading = Some False" "reads_recovered ek reading = Some True"
    by (simp_all add: last_map)
  with jb ka readings_of_in[OF jb(1)] readings_of_in[OF ka(1)] show ?thesis by auto
qed

lemma acted_verdict_flags: "acted_verdict es i s = Some a \<Longrightarrow> attr_acted a \<and> attr_verdict a \<noteq> CLEARED_ON_ITS_OWN"
  by (auto simp: acted_verdict_def Let_def split: if_splits prod.splits)

lemma unacted_verdict_flags: "unacted_verdict es s = Some a \<Longrightarrow> \<not> attr_acted a \<and> attr_verdict a = CLEARED_ON_ITS_OWN"
  by (auto simp: unacted_verdict_def Let_def split: if_splits prod.splits option.splits)

lemma already_recovered_Some:
  "already_recovered es tool args = Some (r, reading) \<Longrightarrow>
     r \<in> set (stripped_resource_values tool args) \<and> reading \<in> set declared_readings
     \<and> readings_of es reading r \<noteq> []
     \<and> reads_recovered (snd (last (readings_of es reading r))) reading = Some True"
  unfolding already_recovered_def find_Some_iff Let_def
  by (auto dest!: nth_mem simp del: nth_mem)

end
