(* ===== verification/Plan_Guards.thy ===== *)
theory Plan_Guards
  imports Attribution
begin

text \<open>
  The plan of \<^verbatim>\<open>agent/remediation.py\<close>, its idempotency key and the pure guards PLANNING runs on
  it: the tables that say which read observes, lists or classifies what an action touches, and one
  definition per guard function. Each guard looks at the plan and the ledger and changes nothing;
  the rows a refusal writes are in \<open>Planning\<close>.
\<close>

subsection \<open>The plan\<close>

record remediation_plan =
  target_hypothesis :: string
  action_tool :: string
  action_arguments :: dict
  verify_tool :: string
  verify_arguments :: dict
  verify_expectation :: string
  action_rationale :: "string option"

definition plan_fields :: "string list" where
  "plan_fields =
     [''target_hypothesis'', ''action_tool'', ''action_arguments'', ''verify_tool'', ''verify_arguments'',
      ''verify_expectation'', ''action_rationale'']"

text \<open>The schema's own constraints: non-empty text and the two hand-listed tool enumerations.\<close>

definition valid_plan :: "remediation_plan \<Rightarrow> bool" where
  "valid_plan p =
     (target_hypothesis p \<noteq> [] \<and> action_tool p \<in> set tier_1_tools \<and> verify_tool p \<in> set read_tools
      \<and> verify_expectation p \<noteq> [])"

definition dump_plan :: "remediation_plan \<Rightarrow> dict" where
  "dump_plan p =
     [(''target_hypothesis'', VStr (target_hypothesis p)), (''action_tool'', VStr (action_tool p)),
      (''action_arguments'', VDict (action_arguments p)), (''verify_tool'', VStr (verify_tool p)),
      (''verify_arguments'', VDict (verify_arguments p)),
      (''verify_expectation'', VStr (verify_expectation p)),
      (''action_rationale'', case action_rationale p of Some r \<Rightarrow> VStr r | None \<Rightarrow> VNull)]"

text \<open>\<open>RemediationPlan.model_validate\<close> on a stored dict; \<open>None\<close> is its \<open>ValidationError\<close>.\<close>

definition str_field :: "dict \<Rightarrow> string \<Rightarrow> string option" where
  "str_field d f = (case get d f of Some (VStr s) \<Rightarrow> Some s | _ \<Rightarrow> None)"

definition dict_field :: "dict \<Rightarrow> string \<Rightarrow> dict option" where
  "dict_field d f = (case get d f of None \<Rightarrow> Some [] | Some (VDict x) \<Rightarrow> Some x | _ \<Rightarrow> None)"

definition validate_plan :: "dict \<Rightarrow> remediation_plan option" where
  "validate_plan d =
     (if \<not> set (map fst d) \<subseteq> set plan_fields then None
      else case (str_field d ''target_hypothesis'', str_field d ''action_tool'',
                 dict_field d ''action_arguments'', str_field d ''verify_tool'',
                 dict_field d ''verify_arguments'', str_field d ''verify_expectation'',
                 (case get d ''action_rationale'' of
                    None \<Rightarrow> Some None | Some VNull \<Rightarrow> Some None
                  | Some (VStr r) \<Rightarrow> Some (Some r) | _ \<Rightarrow> None)) of
        (Some h, Some a, Some aa, Some v, Some va, Some e, Some r) \<Rightarrow>
          (let p = \<lparr>target_hypothesis = h, action_tool = a, action_arguments = aa, verify_tool = v,
                    verify_arguments = va, verify_expectation = e, action_rationale = r\<rparr>
           in if valid_plan p then Some p else None)
      | _ \<Rightarrow> None)"

datatype loaded_plan = No_plan | Invalid_plan | Loaded remediation_plan

definition load_plan :: "run_state \<Rightarrow> loaded_plan" where
  "load_plan rs =
     (case remediation_plan rs of
        None \<Rightarrow> No_plan
      | Some raw \<Rightarrow> (case validate_plan raw of None \<Rightarrow> Invalid_plan | Some p \<Rightarrow> Loaded p))"

lemma validate_dump_plan: "valid_plan p \<Longrightarrow> validate_plan (dump_plan p) = Some p"
  by (cases p)
    (auto simp: validate_plan_def dump_plan_def plan_fields_def str_field_def dict_field_def Let_def
      split: option.splits)

lemma validate_plan_valid: "validate_plan d = Some p \<Longrightarrow> valid_plan p"
  by (auto simp: validate_plan_def Let_def split: if_splits option.splits val.splits)

subsection \<open>Identity of a call\<close>

definition without_key :: "dict \<Rightarrow> dict" where
  "without_key args = filter (\<lambda>(k, _). k \<noteq> ''idempotency_key'') args"

definition build_idempotency_key :: "libs \<Rightarrow> string \<Rightarrow> string \<Rightarrow> dict \<Rightarrow> string" where
  "build_idempotency_key L incident tool args =
     take 32 (sha256_hex L (incident @ ''|'' @ tool @ ''|'' @ dumps_sorted L (without_key args)))"

definition wired_call_id :: "libs \<Rightarrow> string \<Rightarrow> dict \<Rightarrow> string option" where
  "wired_call_id L tool args =
     (if \<not> registered tool then None
      else case wire_arguments L tool
                  (dict_set ''idempotency_key'' (VStr (replicate 32 (CHR ''0''))) args) of
          None \<Rightarrow> None
        | Some wired \<Rightarrow> Some (tool @ '':'' @ arguments_hash L (without_key wired)))"

definition attempted_calls :: "libs \<Rightarrow> run_state \<Rightarrow> string list" where
  "attempted_calls L rs =
     concat (map (\<lambda>e. if tool_name e \<in> set tier_1_tools
                      then (case wired_call_id L (tool_name e) (arguments e) of Some i \<Rightarrow> [i] | None \<Rightarrow> [])
                      else []) (evidence rs))"

definition repeated_attempt :: "libs \<Rightarrow> remediation_plan \<Rightarrow> run_state \<Rightarrow> summary option" where
  "repeated_attempt L p rs =
     (case wired_call_id L (action_tool p) (action_arguments p) of
        None \<Rightarrow> None
      | Some candidate \<Rightarrow>
          if candidate \<notin> set (attempted_calls L rs) then None
          else Some (Say ''identical second attempt refused (ADR 0056): {}({}) is the same call this incident already executed''
                 [Word (action_tool p), Reading (VDict (action_arguments p))]))"

subsection \<open>A repeated call is recognised\<close>

text \<open>
  The ledger row of an executed action holds the wired arguments under the key it ran with; its
  identity is the identity of the plan it came from.
\<close>

lemma tier_1_has_key:
  "tool \<in> set tier_1_tools \<Longrightarrow> ''idempotency_key'' \<in> set (map field_name (input_model tool))"
proof -
  have "list_all (\<lambda>t. ''idempotency_key'' \<in> set (map field_name (input_model t))) tier_1_tools"
    by code_simp
  then show "tool \<in> set tier_1_tools \<Longrightarrow> ''idempotency_key'' \<in> set (map field_name (input_model tool))"
    by (simp only: list_all_iff)
qed

lemma rewired:
  assumes "validator_ok L" and "wire_arguments L tool (dict_set k v raw) = Some args"
    and "k \<in> set (map field_name (input_model tool))"
  shows "wire_arguments L tool (dict_set k v' args) = wire_arguments L tool (dict_set k v' raw)"
proof -
  let ?fs = "input_model tool"
  have keys: "set (map fst (dict_set k v' args)) \<subseteq> set (map field_name ?fs)"
    using wire_arguments_keys[OF assms(2)] assms(3) by (auto simp: update_keys dom_update)
  have raw_keys: "set (map fst (dict_set k v' raw)) \<subseteq> set (map field_name ?fs)"
    using assms(2) by (auto simp: wire_arguments_def dom_update split: if_splits)
  have "(case get (dict_set k v' args) (field_name f) of
            Some x \<Rightarrow> coerce L (field_type f) x | None \<Rightarrow> field_default f)
      = (case get (dict_set k v' raw) (field_name f) of
            Some x \<Rightarrow> coerce L (field_type f) x | None \<Rightarrow> field_default f)" if f: "f \<in> set ?fs" for f
  proof (cases "field_name f = k")
    case False
    have "get args (field_name f) = (case get raw (field_name f) of
        Some x \<Rightarrow> coerce L (field_type f) x | None \<Rightarrow> field_default f)"
      using wire_arguments_get[OF assms(2) f] False by (simp add: get_dict_set)
    moreover obtain x where x: "get args (field_name f) = Some x"
      using wire_arguments_keys[OF assms(2)] f by (metis image_eqI list.set_map map_of_eq_None_iff not_Some_eq)
    moreover have idem: "coerce L (field_type f) y = Some x \<Longrightarrow> coerce L (field_type f) x = Some x" for y
      using assms(1) unfolding validator_ok_def by blast
    ultimately show ?thesis
      using False validator_ok_default[OF assms(1) f] by (auto simp: get_dict_set split: option.splits)
  qed (simp add: get_dict_set)
  then have "validate_fields (coerce L) ?fs (dict_set k v' args)
      = validate_fields (coerce L) ?fs (dict_set k v' raw)"
    by (rule validate_fields_cong)
  with keys raw_keys show ?thesis by (simp add: wire_arguments_def)
qed

lemma wired_call_id_of_wired:
  assumes "validator_ok L" and "tool \<in> set tier_1_tools"
    and "wire_arguments L tool (dict_set ''idempotency_key'' key raw) = Some args"
  shows "wired_call_id L tool args = wired_call_id L tool raw"
  using rewired[OF assms(1,3) tier_1_has_key[OF assms(2)]] by (simp add: wired_call_id_def)

lemma repeated_attempt_of_row:
  assumes "validator_ok L" and "action_tool p \<in> set tier_1_tools"
    and "wire_arguments L (action_tool p) (dict_set ''idempotency_key'' key (action_arguments p)) = Some args"
    and "e \<in> set (evidence rs)" and "tool_name e = action_tool p" and "arguments e = args"
    and "wired_call_id L (action_tool p) (action_arguments p) \<noteq> None"
  shows "repeated_attempt L p rs \<noteq> None"
proof -
  obtain i where i: "wired_call_id L (action_tool p) (action_arguments p) = Some i" using assms(7) by blast
  then have "wired_call_id L (tool_name e) (arguments e) = Some i"
    using wired_call_id_of_wired[OF assms(1-3)] assms(5,6) by simp
  then have "i \<in> set (attempted_calls L rs)"
    using assms(2,4,5) unfolding attempted_calls_def by (auto intro!: bexI[of _ e])
  with i show ?thesis by (simp add: repeated_attempt_def)
qed

subsection \<open>Tables\<close>

record verify_probe =
  vp_tool :: string
  vp_argument :: "string option"

definition vprobe :: "string \<Rightarrow> string option \<Rightarrow> verify_probe" where
  "vprobe t a = \<lparr>vp_tool = t, vp_argument = a\<rparr>"

definition verify_probe_table :: "(string \<times> verify_probe list) list" where
  "verify_probe_table =
     [(''invalidate_cache_key'', [vprobe ''get_cache_key_info'' (Some ''key'')]),
      (''restart_consumer_group'', [vprobe ''get_consumer_lag'' (Some ''consumer_group'')]),
      (''pause_dag'', [vprobe ''get_dag_state'' (Some ''job_id'')]),
      (''mark_dlq_permanent'', [vprobe ''list_dlq_messages'' None, vprobe ''get_dag_state'' (Some ''job_id'')]),
      (''replay_dlq_by_ids'', [vprobe ''list_dlq_messages'' None, vprobe ''get_dag_state'' (Some ''job_id'')]),
      (''replay_dlq_by_category'', []),
      (''replay_dlq_messages'', [])]"

record source_row =
  sr_tool :: string
  sr_rows :: string
  sr_id :: string
  sr_decision :: string

definition dlq_row_source :: source_row where
  "dlq_row_source =
     \<lparr>sr_tool = ''list_dlq_messages'', sr_rows = ''items'', sr_id = ''id'', sr_decision = ''remediation_hint''\<rparr>"

definition source_row_table :: "(string \<times> source_row list) list" where
  "source_row_table =
     [(''replay_dlq_by_ids'', [dlq_row_source]),
      (''replay_dlq_by_category'', []),
      (''replay_dlq_messages'', []),
      (''mark_dlq_permanent'', []),
      (''invalidate_cache_key'', []),
      (''restart_consumer_group'', []),
      (''pause_dag'', [])]"

record listing_scope =
  read_field :: string
  action_field :: "string option"

record source_listing =
  sl_tool :: string
  sl_rows :: string
  sl_decision :: string
  sl_scopes :: "listing_scope list"

definition dlq_listing :: "string option \<Rightarrow> source_listing" where
  "dlq_listing category_field =
     \<lparr>sl_tool = ''list_dlq_messages'', sl_rows = ''items'', sl_decision = ''remediation_hint'',
      sl_scopes = [\<lparr>read_field = ''remediation_hint'', action_field = category_field\<rparr>,
                   \<lparr>read_field = ''job_type'', action_field = Some ''job_type''\<rparr>]\<rparr>"

definition source_listing_table :: "(string \<times> source_listing list) list" where
  "source_listing_table =
     [(''replay_dlq_by_category'', [dlq_listing (Some ''category'')]),
      (''replay_dlq_messages'', [dlq_listing None]),
      (''replay_dlq_by_ids'', []),
      (''mark_dlq_permanent'', []),
      (''invalidate_cache_key'', []),
      (''restart_consumer_group'', []),
      (''pause_dag'', [])]"

definition entries_for :: "(string \<times> 'a list) list \<Rightarrow> string \<Rightarrow> 'a list" where
  "entries_for table tool = (case map_of table tool of Some xs \<Rightarrow> xs | None \<Rightarrow> [])"

text \<open>Every Tier-1 tool is a key of each table: no action is left without an answer.\<close>

lemma guard_tables_total:
  "set (map fst verify_probe_table) = set tier_1_tools"
  "set (map fst source_row_table) = set tier_1_tools"
  "set (map fst source_listing_table) = set tier_1_tools"
  by (auto simp: verify_probe_table_def source_row_table_def source_listing_table_def tier_1_tools_def)

subsection \<open>Values the run holds\<close>

fun collect_strings :: "val \<Rightarrow> string list" where
  "collect_strings (VStr s) = [s]"
| "collect_strings (VList xs) = concat (map collect_strings xs)"
| "collect_strings (VDict d) = concat (map (\<lambda>p. collect_strings (snd p)) d)"
| "collect_strings _ = []"

definition evidence_value_corpus :: "run_state \<Rightarrow> string list" where
  "evidence_value_corpus rs =
     collect_strings (VDict (alert rs))
     @ concat (map (\<lambda>e. case json_loads (result_summary e) of
            None \<Rightarrow> []
          | Some parsed \<Rightarrow>
              filter (\<lambda>s. s \<notin> set (collect_strings (VDict (arguments e)))) (collect_strings parsed))
         (evidence rs))"

definition resource_values :: "string \<Rightarrow> dict \<Rightarrow> string list" where
  "resource_values tool args =
     sort (remdups (concat (map (\<lambda>f. concat (map (\<lambda>v. case v of VStr s \<Rightarrow> [s] | _ \<Rightarrow> [])
        (as_values (get args f)))) (resource_arg_fields tool))))"

definition acted_on :: "remediation_plan \<Rightarrow> string list" where
  "acted_on p = resource_values (action_tool p) (action_arguments p)"

definition plan_legs :: "remediation_plan \<Rightarrow> (string \<times> string \<times> dict) list" where
  "plan_legs p =
     [(''action'', action_tool p, action_arguments p), (''verify'', verify_tool p, verify_arguments p)]"

definition absent_resource_args :: "remediation_plan \<Rightarrow> summary list" where
  "absent_resource_args p =
     concat (map (\<lambda>(leg, tool, args).
         map (\<lambda>f. Say ''{} {}.{}'' [Word leg, Word tool, Word f])
           (filter (\<lambda>f. get args f = None) (sort (resource_arg_fields tool))))
       (plan_legs p))"

definition misdirected_verify_args :: "remediation_plan \<Rightarrow> string list" where
  "misdirected_verify_args p =
     (let verify_values = resource_values (verify_tool p) (verify_arguments p)
      in if acted_on p = [] \<or> verify_values = [] then []
         else filter (\<lambda>v. v \<notin> set (acted_on p)) verify_values)"

definition probe_observes :: "remediation_plan \<Rightarrow> verify_probe \<Rightarrow> bool" where
  "probe_observes p probe =
     (verify_tool p = vp_tool probe
      \<and> (case vp_argument probe of
           None \<Rightarrow> True
         | Some f \<Rightarrow> (case get (verify_arguments p) f of
                       Some (VStr observed) \<Rightarrow> observed \<in> set (acted_on p) | _ \<Rightarrow> False)))"

definition unobserved_action_resource :: "remediation_plan \<Rightarrow> verify_probe list" where
  "unobserved_action_resource p =
     (let probes = entries_for verify_probe_table (action_tool p)
      in if probes = [] \<or> acted_on p = [] then []
         else if \<exists>probe\<in>set probes. probe_observes p probe then []
         else probes)"

subsection \<open>Rows and listings the run read\<close>

definition rows_of_reading :: "evidence_entry \<Rightarrow> string \<Rightarrow> dict list" where
  "rows_of_reading e rows_field =
     (case parsed_reading e of
        None \<Rightarrow> []
      | Some parsed \<Rightarrow> (case get parsed rows_field of
            Some (VList rows) \<Rightarrow> concat (map (\<lambda>r. case r of VDict d \<Rightarrow> [d] | _ \<Rightarrow> []) rows)
          | _ \<Rightarrow> []))"

definition stripped :: "dict \<Rightarrow> string \<Rightarrow> string option" where
  "stripped d f = (case get d f of Some (VStr s) \<Rightarrow> if strip s = [] then None else Some (strip s) | _ \<Rightarrow> None)"

definition rows_read_for :: "run_state \<Rightarrow> source_row \<Rightarrow> string list" where
  "rows_read_for rs source =
     concat (map (\<lambda>e. if tool_name e \<noteq> sr_tool source then []
                      else concat (map (\<lambda>row. case stripped row (sr_id source) of Some i \<Rightarrow> [i] | None \<Rightarrow> [])
                             (rows_of_reading e (sr_rows source))))
       (evidence rs))"

definition unread_action_rows :: "remediation_plan \<Rightarrow> run_state \<Rightarrow> (source_row \<times> string list) option" where
  "unread_action_rows p rs =
     (case entries_for source_row_table (action_tool p) of
        [] \<Rightarrow> None
      | source # others \<Rightarrow>
          if acted_on p = [] then None
          else (let seen = concat (map (rows_read_for rs) (source # others));
                    unread = filter (\<lambda>v. v \<notin> set seen) (acted_on p)
                in if unread = [] then None else Some (source, unread)))"

definition scope_value :: "dict \<Rightarrow> string option \<Rightarrow> string option" where
  "scope_value args f = (case f of None \<Rightarrow> None | Some g \<Rightarrow> stripped args g)"

definition is_reading :: "evidence_entry \<Rightarrow> source_listing \<Rightarrow> bool" where
  "is_reading e source =
     (case parsed_reading e of
        None \<Rightarrow> False
      | Some parsed \<Rightarrow> (case get parsed (sl_rows source) of Some (VList _) \<Rightarrow> True | _ \<Rightarrow> False))"

definition listing_covers :: "evidence_entry \<Rightarrow> remediation_plan \<Rightarrow> source_listing \<Rightarrow> bool" where
  "listing_covers e p source =
     list_all (\<lambda>scope. case scope_value (arguments e) (Some (read_field scope)) of
         None \<Rightarrow> True
       | Some v \<Rightarrow> scope_value (action_arguments p) (action_field scope) = Some v)
       (sl_scopes source)"

definition render_scoped_call :: "string \<Rightarrow> (string \<Rightarrow> string option) \<Rightarrow> listing_scope list \<Rightarrow> summary" where
  "render_scoped_call tool value scopes =
     Say ''{}({})'' (Word tool # concat (map (\<lambda>scope. case value (read_field scope) of
         Some v \<Rightarrow> [Word (read_field scope), Word v] | None \<Rightarrow> []) scopes))"

definition readings_in_evidence :: "run_state \<Rightarrow> source_listing \<Rightarrow> summary list" where
  "readings_in_evidence rs source =
     dedup (map (\<lambda>e. render_scoped_call (sl_tool source) (\<lambda>f. scope_value (arguments e) (Some f)) (sl_scopes source))
       (filter (\<lambda>e. tool_name e = sl_tool source \<and> is_reading e source) (evidence rs)))"

definition unlisted_action_scope ::
    "remediation_plan \<Rightarrow> run_state \<Rightarrow> (source_listing \<times> summary list) option" where
  "unlisted_action_scope p rs =
     (case entries_for source_listing_table (action_tool p) of
        [] \<Rightarrow> None
      | source # others \<Rightarrow>
          if \<exists>s\<in>set (source # others). \<exists>e\<in>set (evidence rs).
               tool_name e = sl_tool s \<and> is_reading e s \<and> listing_covers e p s
          then None
          else Some (source, readings_in_evidence rs source))"

subsection \<open>Does the plan act on what the alert is about?\<close>

datatype subject_kind = RESOURCE_SUBJECT | CATEGORY_SUBJECT | UNCLASSIFIED_SUBJECT

fun subject_kind_value :: "subject_kind \<Rightarrow> string" where
  "subject_kind_value RESOURCE_SUBJECT = ''resource''"
| "subject_kind_value CATEGORY_SUBJECT = ''category''"
| "subject_kind_value UNCLASSIFIED_SUBJECT = ''unclassified''"

definition subject_kind_of :: "alert_subject \<Rightarrow> subject_kind" where
  "subject_kind_of s =
     (if subject_matching s = UNFILTERED then UNCLASSIFIED_SUBJECT
      else if argument_field s \<in> set (resource_arg_fields (subject_tool s)) then RESOURCE_SUBJECT
      else CATEGORY_SUBJECT)"

definition row_source_for_subject :: "alert_subject \<Rightarrow> source_row option" where
  "row_source_for_subject s =
     find (\<lambda>source. sr_tool source = subject_tool s \<and> sr_decision source = argument_field s)
       (concat (map snd source_row_table))"

text \<open>A later reading of a row overrides an earlier one; \<open>Some None\<close> is a row read unclassified.\<close>

definition row_decisions :: "evidence_entry list \<Rightarrow> source_row \<Rightarrow> (string \<times> string option) list" where
  "row_decisions es source =
     foldl (\<lambda>d row. case stripped row (sr_id source) of
                None \<Rightarrow> d
              | Some i \<Rightarrow> AList.update i (stripped row (sr_decision source)) d)
       []
       (concat (map (\<lambda>e. if tool_name e = sr_tool source then rows_of_reading e (sr_rows source) else []) es))"

record graph_view =
  gv_tool :: string
  gv_subject :: string
  gv_nodes :: string
  gv_id :: string

definition graph_view_for_subject :: "string \<Rightarrow> graph_view option" where
  "graph_view_for_subject tool =
     map_of [(''get_dag_state'', \<lparr>gv_tool = ''get_dag_state'', gv_subject = ''seed_id'',
                                gv_nodes = ''nodes'', gv_id = ''id''\<rparr>)] tool"

definition graph_nodes_in_evidence :: "evidence_entry list \<Rightarrow> alert_subject \<Rightarrow> string list" where
  "graph_nodes_in_evidence es s =
     (case graph_view_for_subject (subject_tool s) of
        None \<Rightarrow> []
      | Some view \<Rightarrow>
          concat (map (\<lambda>e.
            if tool_name e = gv_tool view
               \<and> (case parsed_reading e of
                    None \<Rightarrow> False
                  | Some parsed \<Rightarrow> (case get parsed (gv_subject view) of
                        Some (VStr seed) \<Rightarrow> strip seed = subject_value s | _ \<Rightarrow> False))
            then concat (map (\<lambda>row. case stripped row (gv_id view) of Some i \<Rightarrow> [i] | None \<Rightarrow> [])
                   (rows_of_reading e (gv_nodes view)))
            else []) es))"

definition chain_resolver_group :: string where
  "chain_resolver_group = ''dependency-resolver''"

record chain_service =
  cs_action_tool :: string
  cs_action_field :: string
  cs_read_tool :: string
  cs_read_field :: string
  cs_value :: string

definition chain_services_for_subject :: "string \<Rightarrow> chain_service list" where
  "chain_services_for_subject tool =
     entries_for [(''get_dag_state'',
        [\<lparr>cs_action_tool = ''restart_consumer_group'', cs_action_field = ''consumer_group'',
          cs_read_tool = ''get_consumer_lag'', cs_read_field = ''consumer_group'',
          cs_value = chain_resolver_group\<rparr>])] tool"

definition service_read :: "run_state \<Rightarrow> chain_service \<Rightarrow> bool" where
  "service_read rs c =
     (\<exists>e\<in>set (evidence rs). tool_name e = cs_read_tool c
        \<and> scope_value (arguments e) (Some (cs_read_field c)) = Some (cs_value c))"

definition chain_services_read :: "remediation_plan \<Rightarrow> run_state \<Rightarrow> alert_subject \<Rightarrow> string list" where
  "chain_services_read p rs s =
     map cs_value (filter (\<lambda>c. action_tool p = cs_action_tool c
         \<and> scope_value (action_arguments p) (Some (cs_action_field c)) = Some (cs_value c)
         \<and> service_read rs c)
       (chain_services_for_subject (subject_tool s)))"

definition declared_services_read :: "run_state \<Rightarrow> string list" where
  "declared_services_read rs =
     (case alert_subject (alert rs) of
        None \<Rightarrow> []
      | Some s \<Rightarrow> map cs_value (filter (service_read rs) (chain_services_for_subject (subject_tool s))))"

definition subject_action_field :: "remediation_plan \<Rightarrow> alert_subject \<Rightarrow> string option" where
  "subject_action_field p s =
     (case find (\<lambda>scope. read_field scope = argument_field s \<and> action_field scope \<noteq> None)
             (concat (map sl_scopes (filter (\<lambda>source. sl_tool source = subject_tool s)
                (entries_for source_listing_table (action_tool p))))) of
        None \<Rightarrow> None
      | Some scope \<Rightarrow> action_field scope)"

record subject_miss =
  miss_subject :: alert_subject
  miss_kind :: subject_kind
  miss_reason :: summary

definition plan_call :: "remediation_plan \<Rightarrow> summary" where
  "plan_call p = Say ''{}({})'' [Word (action_tool p), Reading (VDict (action_arguments p))]"

definition unaddressed_resource :: "remediation_plan \<Rightarrow> run_state \<Rightarrow> alert_subject \<Rightarrow> subject_miss option" where
  "unaddressed_resource p rs s =
     (if subject_value s \<in> set (acted_on p) then None
      else (let nodes = graph_nodes_in_evidence (evidence rs) s;
                services = chain_services_read p rs s;
                off_graph = filter (\<lambda>v. v \<notin> set nodes \<and> v \<notin> set services) (acted_on p)
            in if acted_on p \<noteq> [] \<and> off_graph = [] then None
               else Some \<lparr>miss_subject = s, miss_kind = RESOURCE_SUBJECT,
                      miss_reason = Say ''{} does not act on {}={}, which is what this incident's alert is about''
                        [plan_call p, Word (alert_field s), Word (subject_value s), words (acted_on p),
                         words (sort (remdups nodes)), words off_graph]\<rparr>))"

definition in_slice :: "(string \<times> string option) list \<Rightarrow> string option \<Rightarrow> string list" where
  "in_slice decisions wanted = sort (map fst (filter (\<lambda>(_, hint). hint = wanted) decisions))"

definition unaddressed_slice ::
    "remediation_plan \<Rightarrow> run_state \<Rightarrow> alert_subject \<Rightarrow> subject_kind \<Rightarrow> subject_miss option" where
  "unaddressed_slice p rs s kind =
     (case row_source_for_subject s of
        None \<Rightarrow> None
      | Some source \<Rightarrow>
          (let wanted = (if kind = UNCLASSIFIED_SUBJECT then None else Some (subject_value s));
               inside = in_slice (row_decisions (evidence rs) source) wanted;
               off_slice = filter (\<lambda>v. v \<notin> set inside) (acted_on p);
               field = subject_action_field p s
           in if kind = UNCLASSIFIED_SUBJECT
              then (if acted_on p \<noteq> [] \<and> off_slice = [] then None
                    else Some \<lparr>miss_subject = s, miss_kind = kind,
                           miss_reason = Say ''the alert is about unclassified rows and {} does not act on one''
                             [plan_call p, words off_slice, words inside]\<rparr>)
              else if field \<noteq> None \<and> scope_value (action_arguments p) field = Some (subject_value s) then None
              else if acted_on p \<noteq> [] \<and> off_slice = [] then None
              else Some \<lparr>miss_subject = s, miss_kind = kind,
                     miss_reason = Say ''the alert is about the {} slice and {} does not act on it''
                       [Word (subject_value s), plan_call p, words off_slice, words inside]\<rparr>))"

definition unaddressed_alert_subject :: "remediation_plan \<Rightarrow> run_state \<Rightarrow> subject_miss option" where
  "unaddressed_alert_subject p rs =
     (case alert_subject (alert rs) of
        None \<Rightarrow> None
      | Some s \<Rightarrow>
          if subject_kind_of s = RESOURCE_SUBJECT then unaddressed_resource p rs s
          else unaddressed_slice p rs s (subject_kind_of s))"

subsection \<open>Has the fault already gone?\<close>

record cleared_miss =
  cleared_resource :: string
  cleared_reading :: recovered_reading
  cleared_rendered :: summary
  cleared_reason :: summary

definition cleared_before_action :: "remediation_plan \<Rightarrow> run_state \<Rightarrow> cleared_miss option" where
  "cleared_before_action p rs =
     (case already_recovered (evidence rs) (action_tool p) (action_arguments p) of
        None \<Rightarrow> None
      | Some (r, reading) \<Rightarrow>
          (let shown = render_reading reading r (snd (last (readings_of (evidence rs) reading r)))
           in Some \<lparr>cleared_resource = r, cleared_reading = reading, cleared_rendered = shown,
                    cleared_reason = Say ''NO ACTION TAKEN: {}. {} would act on {}, and this run's own newest reading of it already shows the fault gone''
                      [Word (verdict_sentence CLEARED_ON_ITS_OWN), Word (action_tool p), Word r, shown,
                       Word (rr_why reading)]\<rparr>))"

subsection \<open>Argument provenance\<close>

text \<open>A rejected value, with the tool and field it was written for.\<close>

type_synonym problem = "string \<times> string \<times> string"

definition leg_problems :: "(string \<Rightarrow> string list) \<Rightarrow> (string \<Rightarrow> bool) \<Rightarrow> remediation_plan \<Rightarrow> problem list" where
  "leg_problems arg_fields bad p =
     concat (map (\<lambda>(_, tool, args). concat (map (\<lambda>f.
         if get args f = None then []
         else concat (map (\<lambda>v. case v of VStr s \<Rightarrow> if bad s then [(tool, f, s)] else [] | _ \<Rightarrow> [])
                (as_values (get args f)))) (sort (arg_fields tool)))) (plan_legs p))"

definition unsourced_resource_args :: "remediation_plan \<Rightarrow> string list \<Rightarrow> problem list" where
  "unsourced_resource_args p corpus = leg_problems resource_arg_fields (\<lambda>s. s \<notin> set corpus) p"

definition is_hex :: "char \<Rightarrow> bool" where
  "is_hex c = (let n = (of_char c :: nat) in
     (48 \<le> n \<and> n \<le> 57) \<or> (65 \<le> n \<and> n \<le> 70) \<or> (97 \<le> n \<and> n \<le> 102))"

definition canonical_uuid :: "string \<Rightarrow> bool" where
  "canonical_uuid s =
     (length s = 36 \<and> list_all (\<lambda>i. if i \<in> {8, 13, 18, 23} then s ! i = CHR ''-'' else is_hex (s ! i)) [0..<36])"

definition malformed_resource_args :: "remediation_plan \<Rightarrow> problem list" where
  "malformed_resource_args p = leg_problems uuid_resource_fields (\<lambda>s. \<not> canonical_uuid s) p"

definition row_candidates :: "run_state \<Rightarrow> string \<Rightarrow> string list" where
  "row_candidates rs tool =
     sort (remdups (concat (map (rows_read_for rs) (entries_for source_row_table tool))))"

fun common_prefix :: "string \<Rightarrow> string \<Rightarrow> string" where
  "common_prefix (a # as) (b # bs) = (if a = b then a # common_prefix as bs else [])"
| "common_prefix _ _ = []"

definition did_you_mean :: "string \<Rightarrow> string list \<Rightarrow> string option" where
  "did_you_mean v candidates =
     (case filter (\<lambda>c. c \<noteq> v \<and> 8 \<le> length (common_prefix v c)) candidates of
        [c] \<Rightarrow> Some c
      | _ \<Rightarrow> None)"

text \<open>\<open>rendered.strip\<close> of the quotes \<open>repr\<close> added takes quotes off both ends of the value.\<close>

definition unquote :: "string \<Rightarrow> string" where
  "unquote s = (let is_quote = (\<lambda>c. c = CHR 0x27 \<or> c = CHR 0x22)
                in rev (dropWhile is_quote (rev (dropWhile is_quote s))))"

definition candidate_offer :: "problem list \<Rightarrow> string list \<Rightarrow> summary" where
  "candidate_offer problems candidates =
     (if candidates = []
      then Word ''No listing in this run's evidence carries any id for that tool''
      else Say ''The ids this run actually read are: {}''
             (words candidates # concat (map (\<lambda>(_, _, v).
                case did_you_mean (unquote v) candidates of
                  Some c \<Rightarrow> [Say ''for {}, did you mean {}?'' [Word (unquote v), Word c]] | None \<Rightarrow> [])
              problems)))"

datatype argument_kind = MALFORMED | UNSOURCED

fun argument_kind_value :: "argument_kind \<Rightarrow> string" where
  "argument_kind_value MALFORMED = ''malformed''"
| "argument_kind_value UNSOURCED = ''unsourced''"

record argument_refusal =
  ar_kind :: argument_kind
  ar_tool :: string
  ar_problems :: "problem list"
  ar_candidates :: "string list"
  ar_reason :: summary

definition render_problem :: "problem \<Rightarrow> summary" where
  "render_problem q = (case q of (tool, f, v) \<Rightarrow> Say ''{}.{}={}'' [Word tool, Word f, Word v])"

definition argument_refusal_of ::
    "remediation_plan \<Rightarrow> run_state \<Rightarrow> argument_kind \<Rightarrow> problem list \<Rightarrow> argument_refusal" where
  "argument_refusal_of p rs kind problems =
     (let candidates = row_candidates rs (action_tool p);
          head = (case kind of
              MALFORMED \<Rightarrow> Say ''resource argument(s) are not the id shape the platform's schema declares: {}''
                (map render_problem problems)
            | UNSOURCED \<Rightarrow> Say ''resource argument(s) not evidence-sourced: {}'' (map render_problem problems))
      in \<lparr>ar_kind = kind, ar_tool = action_tool p, ar_problems = problems, ar_candidates = candidates,
          ar_reason = Say ''{}{} Keep the rest of the plan as it is; only the identifier is wrong.''
            [head, candidate_offer problems candidates]\<rparr>)"

end
