(* ===== verification/Planner_Step.thy ===== *)
theory Planner_Step
  imports Accounting Alert_Subject
begin

text \<open>
  One planner step of the investigation: the step schema of \<^verbatim>\<open>agent/hypothesis.py\<close> with its two
  narrowings, the planner call \<open>_plan_next_step\<close> of \<^verbatim>\<open>agent/investigation.py\<close>, and the
  strategy seam of \<^verbatim>\<open>agent/strategies/protocol.py\<close> as the locale \<open>investigation_strategy\<close>, which
  the control group \<open>baseline\<close> interprets.
\<close>

subsection \<open>The step schema\<close>

datatype next_action =
    Probe string dict
  | Remediate string
  | Stop string

fun action_kind :: "next_action \<Rightarrow> string" where
  "action_kind (Probe _ _) = ''probe''"
| "action_kind (Remediate _) = ''remediate''"
| "action_kind (Stop _) = ''stop''"

record investigation_step =
  ranked :: "hypothesis list"
  move :: next_action

text \<open>\<open>sorted(key=confidence, reverse=True)\<close> is stable, and so is \<open>sort_key\<close>.\<close>

definition rank_by_confidence :: "hypothesis list \<Rightarrow> hypothesis list" where
  "rank_by_confidence hs = sort_key (\<lambda>h. - confidence h) hs"

definition valid_hypothesis :: "hypothesis \<Rightarrow> bool" where
  "valid_hypothesis h = (hyp_name h \<noteq> [] \<and> 0 \<le> confidence h \<and> confidence h \<le> 1 \<and> reasoning h \<noteq> [])"

text \<open>What one call offers: the full step, the step without its probe, or only the owed reads.\<close>

datatype offer = Full_step | Settled_step | Reads_required "string list"

definition step_model :: "string list \<Rightarrow> bool \<Rightarrow> offer" where
  "step_model required_probes offer_probe =
     (if required_probes \<noteq> [] then Reads_required (sort (remdups required_probes))
      else if offer_probe then Full_step else Settled_step)"

definition move_refused :: "offer \<Rightarrow> next_action \<Rightarrow> bool" where
  "move_refused what mv = (case (what, mv) of
      (Settled_step, Probe _ _) \<Rightarrow> True
    | (Reads_required _, Remediate _) \<Rightarrow> True
    | (Reads_required _, Stop _) \<Rightarrow> True
    | _ \<Rightarrow> False)"

definition valid_move :: "offer \<Rightarrow> next_action \<Rightarrow> bool" where
  "valid_move what mv = (case mv of
      Probe tool _ \<Rightarrow> (case what of Reads_required names \<Rightarrow> tool \<in> set names
                               | _ \<Rightarrow> tool \<in> set read_tools)
    | Remediate reason \<Rightarrow> reason \<noteq> []
    | Stop reason \<Rightarrow> reason \<noteq> [])"

datatype schema_verdict = Accepted investigation_step | Refused_move | Invalid_output

definition step_schema :: "offer \<Rightarrow> hypothesis list \<Rightarrow> next_action \<Rightarrow> schema_verdict" where
  "step_schema what hs mv =
     (if move_refused what mv then Refused_move
      else if hs \<noteq> [] \<and> list_all valid_hypothesis hs \<and> valid_move what mv
      then Accepted \<lparr>ranked = rank_by_confidence hs, move = mv\<rparr>
      else Invalid_output)"

lemma step_schema_Accepted:
  assumes "step_schema what hs mv = Accepted s"
  shows "ranked s \<noteq> []" and "sorted_wrt (\<lambda>a b. confidence b \<le> confidence a) (ranked s)"
    and "set (ranked s) = set hs" and "move s = mv"
proof -
  from assms have s: "s = \<lparr>ranked = rank_by_confidence hs, move = mv\<rparr>" and ne: "hs \<noteq> []"
    by (auto simp: step_schema_def split: if_splits)
  show set_s: "set (ranked s) = set hs" and "move s = mv" by (simp_all add: s rank_by_confidence_def)
  with ne show "ranked s \<noteq> []" by auto
  have "sorted (map (\<lambda>h. - confidence h) (ranked s))" by (simp add: s rank_by_confidence_def)
  then show "sorted_wrt (\<lambda>a b. confidence b \<le> confidence a) (ranked s)"
    by (simp add: sorted_map)
qed

lemma offered_move:
  assumes "\<not> move_refused what mv" and "valid_move what mv"
  shows "what = Settled_step \<Longrightarrow> mv \<noteq> Probe t a"
    and "what = Reads_required names \<Longrightarrow> \<exists>t a. mv = Probe t a \<and> t \<in> set names"
  using assms by (auto simp: move_refused_def valid_move_def split: next_action.splits)

lemma step_schema_offered:
  "step_schema what hs mv = Accepted s \<Longrightarrow> \<not> move_refused what (move s) \<and> valid_move what (move s)"
  by (auto simp: step_schema_def split: if_splits)

subsection \<open>One planner call\<close>

text \<open>
  What the model port answers, given the run the context is rendered from, the schema offered and
  the failure a re-ask quotes: a reply, one no JSON can be read from, a transport error, or an
  exception of another type.
\<close>

datatype planner_reply =
    Step_reply "hypothesis list" next_action llm_usage
  | Garbled_reply "llm_usage option"
  | Planner_unreachable "llm_usage option"
  | Planner_crash exn

type_synonym 'w planner_port =
  "'w \<Rightarrow> run_state \<Rightarrow> offer \<Rightarrow> llm_usage option option \<Rightarrow> 'w \<times> planner_reply"

definition step_client ::
    "'w planner_port \<Rightarrow> run_state \<Rightarrow> offer \<Rightarrow> ('w, investigation_step) llm_client" where
  "step_client ask rs what w quoted =
     (case ask w rs what quoted of
        (w', Step_reply hs mv u) \<Rightarrow>
          (w', case step_schema what hs mv of
                 Accepted s \<Rightarrow> Inr (s, u)
               | Refused_move \<Rightarrow> Inl (Unreadable (Some u) True)
               | Invalid_output \<Rightarrow> Inl (Unreadable (Some u) False))
      | (w', Garbled_reply u) \<Rightarrow> (w', Inl (Unreadable u False))
      | (w', Planner_unreachable u) \<Rightarrow> (w', Inl (Unreachable u))
      | (w', Planner_crash err) \<Rightarrow> (w', Inl (Crashed err)))"

text \<open>
  What the loop's \<open>except\<close> clause sees: a failure it catches, with the usage it carries and
  whether it is \<open>OutputNotOffered\<close>, or one it lets through.
\<close>

datatype planner_failure =
    Step_failed "llm_usage option" bool
  | Step_crashed exn

fun planner_failure_of :: "repair_error \<Rightarrow> planner_failure" where
  "planner_failure_of (Output_not_offered u) = Step_failed u True"
| "planner_failure_of (Output_repair_exhausted u) = Step_failed u False"
| "planner_failure_of (Transport_error u) = Step_failed u False"
| "planner_failure_of (Uncaught err) = Step_crashed err"

type_synonym 'w strategy =
  "'w \<Rightarrow> run_state \<Rightarrow> datetime \<Rightarrow> offer \<Rightarrow> nat \<Rightarrow> 'w \<times> (planner_failure + run_state \<times> investigation_step)"

definition plan_next_step :: "'w planner_port \<Rightarrow> string \<Rightarrow> 'w strategy" where
  "plan_next_step ask model w rs now what iter =
     (case call_with_output_repair (step_client ask rs what) w of
        (w', Inl err) \<Rightarrow> (w', Inl (planner_failure_of err))
      | (w', Inr call) \<Rightarrow>
          (w', Inr (rs\<lparr>budget := accrue_structured_call (budget rs) call model,
                       hypotheses := ranked (call_output call), updated_at := now\<rparr>,
                    call_output call)))"

text \<open>\<open>BaselineStrategy.plan_next_step\<close>, less its research record.\<close>

definition baseline :: "'w planner_port \<Rightarrow> string \<Rightarrow> 'w strategy" where
  "baseline ask model = plan_next_step ask model"

subsection \<open>How an investigation grows a run\<close>

text \<open>
  Everything the investigation may do to a run: append rows, each a bookkeeping marker or the
  answer of a READ tool; charge at least one tool call per answered read (a search charges the
  reads of the branches it did not take as well); move no meter backwards;
  touch nothing the remediation leg owns.
\<close>

definition grew :: "run_state \<Rightarrow> run_state \<Rightarrow> bool" where
  "grew rs rs' =
     (\<exists>rows. evidence rs' = evidence rs @ rows
        \<and> (\<forall>e\<in>set rows. is_marker (tool_name e) \<or> tool_name e \<in> set read_tools)
        \<and> tool_calls_used (budget rs')
            \<ge> tool_calls_used (budget rs) + int (length (filter (\<lambda>e. \<not> is_marker (tool_name e)) rows))
        \<and> budget_le (budget rs) (budget rs')
        \<and> incident_id rs' = incident_id rs \<and> alert rs' = alert rs \<and> created_at rs' = created_at rs
        \<and> remediation_plan rs' = remediation_plan rs
        \<and> remediation_attempts rs' = remediation_attempts rs)"

lemma grew_refl [simp, intro]: "grew rs rs"
  by (simp add: grew_def)

lemma grew_trans [trans]:
  assumes "grew a b" and "grew b c" shows "grew a c"
proof -
  from assms(1) obtain r1 where 1: "evidence b = evidence a @ r1"
    "\<forall>e\<in>set r1. is_marker (tool_name e) \<or> tool_name e \<in> set read_tools"
    "tool_calls_used (budget b) \<ge> tool_calls_used (budget a)
       + int (length (filter (\<lambda>e. \<not> is_marker (tool_name e)) r1))" "budget_le (budget a) (budget b)"
    "incident_id b = incident_id a" "alert b = alert a" "created_at b = created_at a"
    "remediation_plan b = remediation_plan a" "remediation_attempts b = remediation_attempts a"
    by (auto simp: grew_def)
  from assms(2) obtain r2 where 2: "evidence c = evidence b @ r2"
    "\<forall>e\<in>set r2. is_marker (tool_name e) \<or> tool_name e \<in> set read_tools"
    "tool_calls_used (budget c) \<ge> tool_calls_used (budget b)
       + int (length (filter (\<lambda>e. \<not> is_marker (tool_name e)) r2))" "budget_le (budget b) (budget c)"
    "incident_id c = incident_id b" "alert c = alert b" "created_at c = created_at b"
    "remediation_plan c = remediation_plan b" "remediation_attempts c = remediation_attempts b"
    by (auto simp: grew_def)
  have "budget_le (budget a) (budget c)" by (rule budget_le_trans[OF 1(4) 2(4)])
  with 1 2 show ?thesis unfolding grew_def by (intro exI[of _ "r1 @ r2"]) auto
qed

lemma grew_run_le: "grew rs rs' \<Longrightarrow> run_le rs rs'"
  by (auto simp: grew_def run_le_def)

lemma grew_evidence: "grew rs rs' \<Longrightarrow> set (evidence rs) \<subseteq> set (evidence rs')"
  by (auto simp: grew_def)

lemma grew_alert: "grew rs rs' \<Longrightarrow> alert rs' = alert rs"
  by (auto simp: grew_def)

lemma grew_marker [intro]: "is_marker (tool_name e) \<Longrightarrow> grew rs (record_row rs e now)"
  by (simp add: grew_def record_row_def)

lemma grew_with_state [simp, intro]: "grew rs (with_state rs s now)"
  by (simp add: grew_def with_state_def)

lemma grew_budget:
  "budget_le (budget rs) b \<Longrightarrow> tool_calls_used b = tool_calls_used (budget rs) \<Longrightarrow> grew rs (rs\<lparr>budget := b\<rparr>)"
  by (simp add: grew_def)

subsection \<open>The strategy seam\<close>

text \<open>
  What the loop relies on a strategy for. It may spend tokens and, through the branch prober, add
  read evidence; it returns a non-empty ranking, and that ranking is the run's. A strategy whose
  step comes straight from a planner call also makes no move the loop withdrew.
\<close>

locale investigation_strategy =
  fixes plan :: "'w strategy"
  assumes plan_grows: "plan w rs now what n = (w', Inr (rs', step)) \<Longrightarrow> grew rs rs'"
    and plan_state: "plan w rs now what n = (w', Inr (rs', step)) \<Longrightarrow> state rs' = state rs"
    and plan_ranking: "plan w rs now what n = (w', Inr (rs', step)) \<Longrightarrow>
      hypotheses rs' = ranked step \<and> ranked step \<noteq> []"

locale narrowed_strategy = investigation_strategy plan for plan :: "'w strategy" +
  assumes plan_offered: "plan w rs now what n = (w', Inr (rs', step)) \<Longrightarrow>
      \<not> move_refused what (move step) \<and> valid_move what (move step)"

lemma ask_again_InrD:
  "ask_again client n fs w q = (w', Inr call) \<Longrightarrow>
     \<exists>w1 q1 u. client w1 q1 = (w', Inr (call_output call, u))"
  by (induction n arbitrary: fs w q)
    (fastforce split: prod.splits sum.splits call_failure.splits if_splits)+

lemma step_call_InrD:
  assumes "call_with_output_repair (step_client ask rs what) w = (w', Inr call)"
  shows "\<exists>hs mv. step_schema what hs mv = Accepted (call_output call)"
proof -
  from assms obtain w1 q1 u where "step_client ask rs what w1 q1 = (w', Inr (call_output call, u))"
    unfolding call_with_output_repair_def by (blast dest: ask_again_InrD)
  then show ?thesis
    by (auto simp: step_client_def split: prod.splits planner_reply.splits schema_verdict.splits)
qed

lemma plan_next_step_InrD:
  assumes "plan_next_step ask model w rs now what n = (w', Inr (rs', step))"
  obtains call :: "investigation_step repaired_call" where "rs' = rs\<lparr>budget := accrue_structured_call (budget rs) call model,
        hypotheses := ranked step, updated_at := now\<rparr>"
    and "\<exists>hs mv. step_schema what hs mv = Accepted step"
proof -
  from assms obtain call where c: "call_with_output_repair (step_client ask rs what) w = (w', Inr call)"
    and rs': "rs' = rs\<lparr>budget := accrue_structured_call (budget rs) call model,
        hypotheses := ranked step, updated_at := now\<rparr>" and out: "call_output call = step"
    by (auto simp: plan_next_step_def split: prod.splits sum.splits)
  have "\<exists>hs mv. step_schema what hs mv = Accepted step" using step_call_InrD[OF c] by (simp add: out)
  with rs' show thesis by (rule that)
qed

lemma plan_next_step_grows:
  assumes "plan_next_step ask model w rs now what n = (w', Inr (rs', step))"
  shows "grew rs rs'"
  using assms by (rule plan_next_step_InrD) (simp add: grew_def)

interpretation baseline_arm: narrowed_strategy "baseline ask model"
  unfolding baseline_def
proof unfold_locales
  fix w :: 'a and rs now what n w' rs' step
  assume s: "plan_next_step ask model w rs now what n = (w', Inr (rs', step))"
  then show "grew rs rs'" by (rule plan_next_step_grows)
  from s show "state rs' = state rs" by (rule plan_next_step_InrD) simp
  from s show "hypotheses rs' = ranked step \<and> ranked step \<noteq> []"
    by (rule plan_next_step_InrD) (auto dest: step_schema_Accepted(1))
  from s show "\<not> move_refused what (move step) \<and> valid_move what (move step)"
    by (rule plan_next_step_InrD) (auto dest: step_schema_offered)
qed

end
