(* ===== verification/Investigation.thy ===== *)
theory Investigation
  imports Planner_Step Orchestrator
begin

text \<open>
  The INVESTIGATING transition of \<^verbatim>\<open>agent/investigation.py\<close>: the loop that asks the strategy for
  a step, runs the READ probe it names and refuses, steers or escalates on the guards of ADR 0009,
  0032, 0041, 0073, 0074 and 0078. One pass of the source's \<open>while True\<close> is \<open>one_step\<close>, assembled
  from one definition per numbered block of the source; \<open>investigate_loop\<close> runs it on fuel, and
  \<open>Investigation_Facts\<close> shows that \<open>step_bound\<close> passes are always enough.
\<close>

subsection \<open>What the loop is bound to\<close>

datatype mcp_reply =
    Mcp_error string
  | Mcp_crash exn
  | Mcp_result bool "dict list"

datatype planner_note =
    Ranking string "hypothesis list" string "string option" "string option"
  | Refusal "hypothesis list" summary "summary list" summary

record 'w investigator =
  inv_libs :: libs
  call_tool :: "'w \<Rightarrow> string \<Rightarrow> dict \<Rightarrow> 'w \<times> mcp_reply"
  sleep :: "'w \<Rightarrow> rat \<Rightarrow> 'w"
  planner_log :: "('w \<Rightarrow> planner_note \<Rightarrow> 'w) option"
  strategy :: "'w strategy"
  planner_model :: string
  thinking_tool :: string
  max_iterations :: nat
  reprobe_attempts :: nat
  reprobe_delay_seconds :: rat
  required_before_verdict :: "required_reading list"

text \<open>The variables \<open>transition_llm_investigate\<close> carries across iterations.\<close>

record loop_vars =
  last_probe :: "(string \<times> dict) option"
  reprobes_spent :: "string \<Rightarrow> nat"
  refusals_spent :: nat
  whole_queue_refusals_spent :: nat
  confirming_refusals_spent :: nat
  settled_steps :: nat
  owed :: "required_reading list"
  verdict_refusals_spent :: nat
  limit_refused :: bool
  free_steps :: nat
  iteration :: nat

definition initial_vars :: loop_vars where
  "initial_vars =
     \<lparr>last_probe = None, reprobes_spent = (\<lambda>_. 0), refusals_spent = 0, whole_queue_refusals_spent = 0,
      confirming_refusals_spent = 0, settled_steps = 0, owed = [], verdict_refusals_spent = 0,
      limit_refused = False, free_steps = 0, iteration = 0\<rparr>"

text \<open>How one pass ends: with \<open>continue\<close>, with \<open>return\<close>, or with an exception it lets through.\<close>

datatype outcome = Again run_state loop_vars | Finished run_state | Raised exn

definition max_subject_probe_refusals :: nat where "max_subject_probe_refusals = 2"
definition max_whole_queue_refusals :: nat where "max_whole_queue_refusals = 1"
definition confirming_reads_allowed :: nat where "confirming_reads_allowed = 2"
definition settled_ranking_steps :: nat where "settled_ranking_steps = 2"
definition max_confirming_read_refusals :: nat where "max_confirming_read_refusals = 2"
definition max_verdict_refusals :: nat where "max_verdict_refusals = 2"

lemmas allowances =
  max_subject_probe_refusals_def max_whole_queue_refusals_def max_confirming_read_refusals_def
  max_verdict_refusals_def

subsection \<open>Ledger rows the loop writes\<close>

definition mark :: "run_state \<Rightarrow> datetime \<Rightarrow> string \<Rightarrow> dict \<Rightarrow> summary \<Rightarrow> run_state" where
  "mark rs now marker args reason = record_row rs (entry marker args reason now) now"

definition finalize :: "run_state \<Rightarrow> datetime \<Rightarrow> summary \<Rightarrow> run_state" where
  "finalize rs now reason =
     with_state (mark rs now ''_planner_stop'' [(''reason'', VText reason)]
                   (Say ''planner stop: {}'' [reason])) ESCALATED now"

definition escalate_investigation :: "run_state \<Rightarrow> datetime \<Rightarrow> summary \<Rightarrow> run_state" where
  "escalate_investigation rs now reason =
     with_state (mark rs now ''_planner_escalate'' [(''reason'', VText reason)] reason) ESCALATED now"

definition handoff_to_planning :: "run_state \<Rightarrow> datetime \<Rightarrow> summary \<Rightarrow> run_state" where
  "handoff_to_planning rs now reason =
     with_state (mark rs now ''_planner_remediate'' [(''reason'', VText reason)]
                   (Say ''planner handoff to PLANNING: {}'' [reason])) PLANNING now"

text \<open>\<open>_escalate\<close> of the Phase 0 transition.\<close>

definition escalate_probe_leg :: "run_state \<Rightarrow> datetime \<Rightarrow> summary \<Rightarrow> dict \<Rightarrow> run_state" where
  "escalate_probe_leg rs now reason args =
     with_state (mark rs now ''_investigate_escalate'' args reason) ESCALATED now"

definition refuse_handoff :: "run_state \<Rightarrow> datetime \<Rightarrow> alert_subject \<Rightarrow> run_state" where
  "refuse_handoff rs now subject =
     (let instruction =
            (if subject_matching subject = UNFILTERED
             then Say ''Call {} with NO {} filter before remediating''
                    [Word (subject_tool subject), Word (argument_field subject)]
             else Say ''Call {} with {}={} before remediating''
                    [Word (subject_tool subject), Word (argument_field subject),
                     Word (subject_value subject)])
      in mark rs now ''_handoff_refused''
           [(''alert_field'', VStr (alert_field subject)), (''required_tool'', VStr (subject_tool subject)),
            (''required_argument'', VStr (argument_field subject)),
            (''required_value'', VStr (subject_value subject))]
           (Say ''handoff refused: this incident's alert names {}={}, and no probe in the evidence trail has read it''
              [Word (alert_field subject), Word (subject_value subject), instruction]))"

definition refuse_whole_queue_handoff ::
    "run_state \<Rightarrow> datetime \<Rightarrow> hypothesis_category \<Rightarrow> run_state" where
  "refuse_whole_queue_handoff rs now c =
     mark rs now ''_handoff_refused_unlisted_queue''
       [(''category'', VStr (category_value c)), (''required_tool'', VStr dlq_listing_tool),
        (''required_unfiltered_arguments'', strs (sort dlq_listing_filters))]
       (Say ''handoff refused: nothing in the evidence trail has read the dead-letter queue unfiltered''
          [Word (category_value c), Word dlq_listing_tool, words (sort dlq_listing_filters)])"

definition record_verdict_refusal ::
    "'w investigator \<Rightarrow> 'w \<Rightarrow> run_state \<Rightarrow> datetime \<Rightarrow> summary \<Rightarrow> required_reading list \<Rightarrow> nat
     \<Rightarrow> 'w \<times> run_state" where
  "record_verdict_refusal P w rs now refused missing spent =
     (let whole = map (\<lambda>r. Say ''{} counts only with no {} filter''
                            [Word (req_tool r),
                             words (sort (the (map_of unnarrowed_reads (req_tool r))))])
                    (filter (\<lambda>r. map_of unnarrowed_reads (req_tool r) \<noteq> None) missing);
          pinned = map (\<lambda>r. Say ''{} counts only with exactly the pinned arguments'' [rendered r])
                     (filter (\<lambda>r. req_arguments r \<noteq> []) missing);
          reason = Say ''{} refused: this incident's alert requires these reads before that verdict''
                     (refused # map rendered missing @ whole @ pinned);
          rs' = mark rs now ''_verdict_refused_missing_reads''
                  [(''refused'', VText refused), (''missing_reads'', VList (map (VText \<circ> rendered) missing)),
                   (''offered'', strs [''probe'']), (''refusals_spent'', VInt (int spent))] reason
      in (case planner_log P of
            None \<Rightarrow> w
          | Some emit \<Rightarrow> emit w (Refusal (hypotheses rs) refused (map rendered missing) reason), rs'))"

subsection \<open>The readable reasons\<close>

definition ranks_an_actionable_answer :: "hypothesis list \<Rightarrow> bool" where
  "ranks_an_actionable_answer hs = (case hs of
      [] \<Rightarrow> False
    | h # _ \<Rightarrow> fixable (category h) \<and> remediate_confidence_threshold \<le> confidence h)"

definition ranking_sentence :: "run_state \<Rightarrow> summary" where
  "ranking_sentence rs = (case hypotheses rs of
      [] \<Rightarrow> Word ''this run produced no ranking, so it names no cause''
    | h # _ \<Rightarrow> Say ''the top hypothesis was {} / {} at confidence {}, which is {}''
        [Word (category_value (category h)), Word (hyp_name h), Frac (confidence h),
         if ranks_an_actionable_answer (hypotheses rs)
         then Say ''at or above the {} remediate threshold in a category with a Tier-1 fix''
                [Frac remediate_confidence_threshold]
         else Word ''not an answer this run could have acted on autonomously''])"

definition reads_taken_sentence :: "evidence_entry list \<Rightarrow> summary" where
  "reads_taken_sentence es =
     (let tools = map tool_name (filter (\<lambda>e. \<not> is_marker (tool_name e)) es) in
      if tools = [] then Word ''no read was taken''
      else Say ''the reads it took were {}''
             (map (\<lambda>t. let n = length (filter ((=) t) tools) in
                       if 1 < n then Say ''{} x{}'' [Word t, Count (int n)] else Word t)
                (sort (remdups tools))))"

definition refusals_exhausted_reason :: "run_state \<Rightarrow> alert_subject \<Rightarrow> nat \<Rightarrow> summary" where
  "refusals_exhausted_reason rs subject spent =
     Say ''planner asked to re-read {}={} {} times after being refused: {}, and {}''
       [Word (alert_field subject), Word (subject_value subject), Count (int spent + 1),
        ranking_sentence rs, reads_taken_sentence (evidence rs)]"

definition iterations_exhausted_reason :: "run_state \<Rightarrow> nat \<Rightarrow> summary" where
  "iterations_exhausted_reason rs n =
     Say ''max iterations ({}) exceeded with no action taken: {}, and {}''
       [Count (int n), ranking_sentence rs, reads_taken_sentence (evidence rs)]"

definition verdict_refusals_exhausted_reason :: "required_reading list \<Rightarrow> nat \<Rightarrow> summary" where
  "verdict_refusals_exhausted_reason missing spent =
     Say ''planner concluded or probed elsewhere {} times without making the reads this alert requires''
       (Count (int spent + 1) # map rendered missing)"

definition reads_unaffordable_reason ::
    "string \<Rightarrow> required_reading list \<Rightarrow> int \<Rightarrow> summary" where
  "reads_unaffordable_reason refused missing remaining =
     Say ''{} refused and not recoverable: this alert requires {} before a verdict''
       (Word refused # map rendered missing @ [Count (int (length missing)), Count (max remaining 0)])"

subsection \<open>Running one read\<close>

definition py_text :: "val option \<Rightarrow> string option" where
  "py_text v = (case v of Some (VStr s) \<Rightarrow> Some s | _ \<Rightarrow> None)"

text \<open>\<open>_parse_output\<close>: the first text block, through the tool's output model.\<close>

fun parse_output :: "libs \<Rightarrow> string \<Rightarrow> dict list \<Rightarrow> string + val" where
  "parse_output L tool [] = Inl ''no text content block in tool result''"
| "parse_output L tool (block # rest) =
     (if get block ''type'' = Some (VStr ''text'')
      then (case py_text (get block ''text'') of
              Some payload \<Rightarrow> output_model L tool payload
            | None \<Rightarrow> parse_output L tool rest)
      else parse_output L tool rest)"

definition record_reading :: "run_state \<Rightarrow> datetime \<Rightarrow> string \<Rightarrow> dict \<Rightarrow> val \<Rightarrow> run_state" where
  "record_reading rs now tool args v =
     (record_row rs (entry tool args (Reading v) now) now)\<lparr>budget := charge_tool_call (budget rs)\<rparr>"

definition execute_probe ::
    "'w investigator \<Rightarrow> 'w \<Rightarrow> run_state \<Rightarrow> datetime \<Rightarrow> string \<Rightarrow> dict \<Rightarrow> 'w \<times> run_state result" where
  "execute_probe P w rs now tool raw =
     (case tier_of tool of
        Inl err \<Rightarrow> (w, Inl err)
      | Inr t \<Rightarrow>
          if t \<noteq> READ
          then (w, Inr (escalate_investigation rs now
                 (Say ''planner proposed non-read tool as probe: {}'' [Word tool])))
          else case wire_arguments (inv_libs P) tool raw of
              None \<Rightarrow> (w, Inr (escalate_investigation rs now
                        (Say ''probe arguments invalid for {}'' [Word tool])))
            | Some args \<Rightarrow>
                (case call_tool P w tool args of
                   (w', Mcp_crash err) \<Rightarrow> (w', Inl err)
                 | (w', Mcp_error err) \<Rightarrow>
                     (w', Inr (escalate_investigation rs now (Say ''tool error ({}): {}'' [Word tool, Word err])))
                 | (w', Mcp_result is_error content) \<Rightarrow>
                     (w', Inr (if is_error
                        then escalate_investigation rs now
                               (Say ''tool reported is_error=True ({})'' [Word tool])
                        else case parse_output (inv_libs P) tool content of
                            Inl err \<Rightarrow> escalate_investigation rs now
                                       (Say ''output parse failed ({}): {}'' [Word tool, Word err])
                          | Inr v \<Rightarrow> record_reading rs now tool args v))))"

text \<open>
  The branch prober: the same read for a search branch, refusing instead of escalating. The row is
  stamped with the run's own \<open>updated_at\<close>, and the run's clock does not move.
\<close>

definition branch_probe ::
    "'w investigator \<Rightarrow> 'w \<Rightarrow> run_state \<Rightarrow> string \<Rightarrow> dict
     \<Rightarrow> 'w \<times> (run_state \<times> summary option) result" where
  "branch_probe P w rs tool raw =
     (if \<not> registered tool then (w, Inr (rs, Some (Word ''not in the tool registry'')))
      else case tier_of tool of
        Inl err \<Rightarrow> (w, Inl err)
      | Inr t \<Rightarrow>
          if t \<noteq> READ then (w, Inr (rs, Some (Say ''not a read tool: {}'' [Word tool])))
          else case wire_arguments (inv_libs P) tool raw of
              None \<Rightarrow> (w, Inr (rs, Some (Word ''arguments invalid'')))
            | Some args \<Rightarrow>
                (case call_tool P w tool args of
                   (w', Mcp_crash err) \<Rightarrow> (w', Inl err)
                 | (w', Mcp_error err) \<Rightarrow> (w', Inr (rs, Some (Say ''tool error: {}'' [Word err])))
                 | (w', Mcp_result is_error content) \<Rightarrow>
                     (w', Inr (if is_error then (rs, Some (Word ''tool error: is_error=True''))
                        else case parse_output (inv_libs P) tool content of
                            Inl err \<Rightarrow> (rs, Some (Say ''output parse failed: {}'' [Word err]))
                          | Inr v \<Rightarrow>
                              (rs\<lparr>evidence := evidence rs
                                     @ [entry tool args (Reading v) (updated_at rs)],
                                   budget := charge_tool_call (budget rs)\<rparr>, None)))))"

text \<open>The Phase 0 transition: one lag read, then ESCALATED whatever it says.\<close>

fun truthy :: "val option \<Rightarrow> bool" where
  "truthy (Some (VStr s)) = (s \<noteq> [])"
| "truthy (Some (VInt i)) = (i \<noteq> 0)"
| "truthy (Some (VBool b)) = b"
| "truthy (Some (VFloat q)) = (q \<noteq> 0)"
| "truthy (Some (VList xs)) = (xs \<noteq> [])"
| "truthy (Some (VDict d)) = (d \<noteq> [])"
| "truthy (Some VNull) = False"
| "truthy (Some (VUuid _)) = True"
| "truthy (Some (VText _)) = True"
| "truthy None = False"

definition transition_investigate ::
    "(val \<Rightarrow> string) \<Rightarrow> 'w investigator \<Rightarrow> 'w transition" where
  "transition_investigate str_of P w rs now =
     (let tool = ''get_consumer_lag'';
          raw = (if truthy (get (alert rs) ''consumer_group'') then get (alert rs) ''consumer_group''
                 else get (alert rs) ''group'')
      in case wire_arguments (inv_libs P) tool
                (case raw of
                   Some v \<Rightarrow> if truthy raw then [(''consumer_group'', VStr (str_of v))] else []
                 | None \<Rightarrow> []) of
           None \<Rightarrow> (w, Inl (ValueError ''get_consumer_lag arguments''))
         | Some args \<Rightarrow>
             (case call_tool P w tool args of
                (w', Mcp_crash err) \<Rightarrow> (w', Inl err)
              | (w', Mcp_error err) \<Rightarrow>
                  (w', Inr (escalate_probe_leg rs now (Say ''tool error: {}'' [Word err]) args))
              | (w', Mcp_result is_error content) \<Rightarrow>
                  (w', Inr (if is_error
                     then escalate_probe_leg rs now (Word ''tool reported is_error=True'') args
                     else case parse_output (inv_libs P) tool content of
                         Inl err \<Rightarrow> escalate_probe_leg rs now (Say ''output parse failed: {}'' [Word err]) args
                       | Inr v \<Rightarrow> with_state (record_reading rs now tool args v) ESCALATED now))))"

subsection \<open>Guards on further reads\<close>

definition cached_probe_contradiction ::
    "hypothesis list \<Rightarrow> hypothesis list \<Rightarrow> (string \<times> dict) option \<Rightarrow> hypothesis option" where
  "cached_probe_contradiction prior updated probed =
     (case probed of
        None \<Rightarrow> None
      | Some (tool, _) \<Rightarrow>
          if \<not> is_cached_read tool then None
          else case prior of
              [] \<Rightarrow> None
            | best # _ \<Rightarrow>
                if \<not> fixable (category best) then None
                else if confidence best < remediate_confidence_threshold then None
                else (let alive = map confidence (filter (\<lambda>h. category h = category best) updated) in
                      if remediate_confidence_threshold \<le> (if alive = [] then 0 else Max (set alive))
                      then None else Some best))"

definition note_freshness_reprobe ::
    "run_state \<Rightarrow> datetime \<Rightarrow> string \<Rightarrow> hypothesis \<Rightarrow> rat \<Rightarrow> run_state" where
  "note_freshness_reprobe rs now tool killed delay =
     mark rs now ''_freshness_reprobe'' [(''tool'', VStr tool), (''delay_seconds'', VFloat delay)]
       (Say ''cached read {} contradicted actionable hypothesis {} ({} >= {}); re-probing after {}s''
          [Word tool, Word (category_value (category killed)), Frac (confidence killed),
           Frac remediate_confidence_threshold, Frac delay])"

definition probe_would_read_the_subject :: "libs \<Rightarrow> string \<Rightarrow> dict \<Rightarrow> alert_subject \<Rightarrow> bool" where
  "probe_would_read_the_subject L tool raw subject =
     (tool = subject_tool subject \<and> registered tool
      \<and> (case wire_arguments L tool raw of None \<Rightarrow> False | Some args \<Rightarrow> names_the_subject args subject))"

definition probe_withdrawn ::
    "run_state \<Rightarrow> alert_subject \<Rightarrow> nat \<Rightarrow> (evidence_entry \<times> fault_present_reading) option" where
  "probe_withdrawn rs subject settled =
     (if settled < settled_ranking_steps then None
      else case fault_present_reading (subject_tool subject) of
          None \<Rightarrow> None
        | Some reading \<Rightarrow>
            if fp_argument reading \<noteq> argument_field subject then None
            else (let reads = subject_reads rs subject in
                  if reads = [] then None
                  else if reads_fault_present (last reads) reading \<noteq> Some True then None
                  else if \<not> reading_is_fresh (last reads) (subject_tool subject) then None
                  else Some (last reads, reading)))"

definition confirming_read_exhausted ::
    "libs \<Rightarrow> run_state \<Rightarrow> alert_subject \<Rightarrow> string \<Rightarrow> dict \<Rightarrow> nat
     \<Rightarrow> (evidence_entry \<times> fault_present_reading) option" where
  "confirming_read_exhausted L rs subject tool raw settled =
     (case probe_withdrawn rs subject settled of
        None \<Rightarrow> None
      | Some withdrawn \<Rightarrow>
          if \<not> probe_would_read_the_subject L tool raw subject then None
          else if length (subject_reads rs subject) < confirming_reads_allowed then None
          else Some withdrawn)"

definition refuse_confirming_read ::
    "run_state \<Rightarrow> datetime \<Rightarrow> alert_subject \<Rightarrow> evidence_entry \<times> fault_present_reading \<Rightarrow> nat
     \<Rightarrow> run_state result" where
  "refuse_confirming_read rs now subject nr settled =
     (case hypotheses rs of
        [] \<Rightarrow> Inl IndexError
      | best # _ \<Rightarrow>
          (let taken = length (subject_reads rs subject);
               age = (case parsed_reading (fst nr) of
                        None \<Rightarrow> None | Some d \<Rightarrow> get d reading_age_field);
               measured = (case age of
                   Some v \<Rightarrow> (case py_number v of Some q \<Rightarrow> [Say ''measured {}s ago'' [Frac q]] | None \<Rightarrow> [])
                 | None \<Rightarrow> [])
           in Inr (mark rs now ''_probe_refused_confirming_read''
                [(''alert_field'', VStr (alert_field subject)), (''refused_tool'', VStr (subject_tool subject)),
                 (''refused_value'', VStr (subject_value subject)), (''reads_already_taken'', VInt (int taken)),
                 (''settled_steps'', VInt (int settled)),
                 (''remaining_decisions'', strs [''remediate'', ''stop''])]
                (Say ''probe refused: this run has already read {}={} {} times''
                   ([Word (alert_field subject), Word (subject_value subject), Count (int taken),
                     Word (category_value (category best)), Frac remediate_confidence_threshold,
                     Count (int settled), Word (fp_tool (snd nr)), Word (fp_argument (snd nr)),
                     result_summary (fst nr)] @ measured @ [Word (why (snd nr))])))))"

subsection \<open>One pass of the loop\<close>

text \<open>
  Step 2: count this pass, unless it only pays owed reads; running out of counted steps is an
  escalation, so it owes the required reads too, once. The flag is the source's \<open>break\<close>.
\<close>

definition count_step ::
    "'w investigator \<Rightarrow> 'w \<Rightarrow> run_state \<Rightarrow> datetime \<Rightarrow> alert_subject option \<Rightarrow> loop_vars
     \<Rightarrow> 'w \<times> run_state \<times> loop_vars \<times> bool" where
  "count_step P w rs now subject v =
     (let still = still_owed rs (owed v) in
      if still = [] \<and> max_iterations P \<le> free_steps v
      then (let missing = (if limit_refused v then []
                           else missing_required_reads rs (required_before_verdict P) (hypotheses rs) subject);
                remaining = max_tool_calls (budget rs) - tool_calls_used (budget rs)
            in if missing = [] \<or> remaining < int (length missing)
               then (w, rs, v\<lparr>owed := still\<rparr>, True)
               else (let (w', rs') = record_verdict_refusal P w rs now
                                       (Word ''escalation at the step limit'') missing
                                       (verdict_refusals_spent v)
                     in (w', rs', v\<lparr>owed := missing, limit_refused := True, iteration := iteration v + 1\<rparr>,
                         False)))
      else (w, rs, v\<lparr>owed := still, iteration := iteration v + 1,
                     free_steps := (if still = [] then free_steps v + 1 else free_steps v)\<rparr>, False))"

text \<open>Step 3: the reading that makes any further probe pointless, if there is one.\<close>

definition withdraw_probe ::
    "run_state \<Rightarrow> alert_subject option \<Rightarrow> loop_vars \<Rightarrow> (evidence_entry \<times> fault_present_reading) option" where
  "withdraw_probe rs subject v =
     (case subject of
        None \<Rightarrow> None
      | Some s \<Rightarrow> if owed v \<noteq> [] then None else probe_withdrawn rs s (settled_steps v))"

text \<open>Steps 5 and 6: charge the failed call, then steer or escalate.\<close>

definition plan_failed ::
    "'w investigator \<Rightarrow> 'w \<Rightarrow> run_state \<Rightarrow> datetime \<Rightarrow> alert_subject option
     \<Rightarrow> (evidence_entry \<times> fault_present_reading) option \<Rightarrow> loop_vars \<Rightarrow> planner_failure
     \<Rightarrow> 'w \<times> outcome" where
  "plan_failed P w rs now subject withdrawn v failure =
     (case failure of
        Step_crashed err \<Rightarrow> (w, Raised err)
      | Step_failed u not_offered \<Rightarrow>
          (let rs1 = rs\<lparr>budget := accrue_llm_error (budget rs) u (planner_model P)\<rparr> in
           if not_offered \<and> owed v \<noteq> []
           then (if max_verdict_refusals \<le> verdict_refusals_spent v
                 then (w, Finished (finalize rs1 now
                        (verdict_refusals_exhausted_reason (owed v) (verdict_refusals_spent v))))
                 else (let v1 = v\<lparr>verdict_refusals_spent := verdict_refusals_spent v + 1\<rparr>;
                           (w1, rs2) = record_verdict_refusal P w rs1 now (Word ''a verdict'') (owed v)
                                         (verdict_refusals_spent v1)
                       in (w1, Again rs2 v1)))
           else case (if not_offered \<and> withdrawn \<noteq> None then subject else None) of
               Some s \<Rightarrow>
                 (if max_confirming_read_refusals \<le> confirming_refusals_spent v
                  then (w, Finished (finalize rs1 now
                         (refusals_exhausted_reason rs1 s (confirming_refusals_spent v))))
                  else (w, Again rs1 (v\<lparr>confirming_refusals_spent := confirming_refusals_spent v + 1\<rparr>)))
             | None \<Rightarrow>
                 (w, Finished (escalate_investigation rs1 now (Word ''planner output invalid'')))))"

text \<open>Step 9: re-read the cached resource whose reading dropped an actionable diagnosis.\<close>

definition freshness_reprobe ::
    "'w investigator \<Rightarrow> 'w \<Rightarrow> run_state \<Rightarrow> datetime \<Rightarrow> loop_vars \<Rightarrow> string \<Rightarrow> dict \<Rightarrow> hypothesis
     \<Rightarrow> 'w \<times> outcome" where
  "freshness_reprobe P w rs now v tool raw killed =
     (let v1 = v\<lparr>reprobes_spent := (reprobes_spent v)(tool := reprobes_spent v tool + 1)\<rparr>;
          rs1 = note_freshness_reprobe rs now tool killed (reprobe_delay_seconds P);
          w1 = sleep P w (reprobe_delay_seconds P)
      in if is_exhausted (budget rs1)
         then (w1, Finished (escalate_investigation rs1 now
                (Word ''budget exhausted before freshness re-probe'')))
         else (case execute_probe P w1 rs1 now tool raw of
             (w2, Inl err) \<Rightarrow> (w2, Raised err)
           | (w2, Inr rs2) \<Rightarrow> (w2, if state rs2 = ESCALATED then Finished rs2 else Again rs2 v1)))"

text \<open>Step 10: a verdict while a required read is missing. \<open>None\<close> lets the verdict stand.\<close>

definition refuse_unproven_verdict ::
    "'w investigator \<Rightarrow> 'w \<Rightarrow> run_state \<Rightarrow> datetime \<Rightarrow> alert_subject option \<Rightarrow> loop_vars
     \<Rightarrow> investigation_step \<Rightarrow> ('w \<times> outcome) option" where
  "refuse_unproven_verdict P w rs now subject v step =
     (let missing = missing_required_reads rs (required_before_verdict P) (ranked step) subject;
          remaining = max_tool_calls (budget rs) - tool_calls_used (budget rs);
          kind = action_kind (move step)
      in if missing = [] then None
         else if max_verdict_refusals \<le> verdict_refusals_spent v
         then Some (w, Finished (finalize rs now
                (verdict_refusals_exhausted_reason missing (verdict_refusals_spent v))))
         else if remaining < int (length missing)
         then Some (w, Finished (finalize rs now (reads_unaffordable_reason kind missing remaining)))
         else (let v1 = v\<lparr>verdict_refusals_spent := verdict_refusals_spent v + 1, owed := missing\<rparr>;
                   (w1, rs1) = record_verdict_refusal P w rs now (Word kind) missing
                                 (verdict_refusals_spent v1)
               in Some (w1, Again rs1 v1)))"

text \<open>Step 12: the four gates in front of PLANNING.\<close>

definition remediate_gates ::
    "run_state \<Rightarrow> datetime \<Rightarrow> alert_subject option \<Rightarrow> loop_vars \<Rightarrow> hypothesis list \<Rightarrow> string \<Rightarrow> outcome" where
  "remediate_gates rs now subject v hs reason =
     (case hs of
        [] \<Rightarrow> Raised IndexError
      | best # _ \<Rightarrow>
          if \<not> fixable (category best)
          then Finished (finalize rs now
                 (Say ''planner emitted remediate for category {} which has no Tier-1 fix; escalating''
                    [Word (category_value (category best))]))
          else if confidence best < remediate_confidence_threshold
          then Finished (finalize rs now
                 (Say ''planner emitted remediate but top confidence {} is below threshold {}; escalating''
                    [Frac (confidence best), Frac remediate_confidence_threshold]))
          else (case (case subject of
                        Some s \<Rightarrow> if alert_subject_probed rs s then None else Some s
                      | None \<Rightarrow> None) of
              Some s \<Rightarrow>
                if max_subject_probe_refusals \<le> refusals_spent v
                then Finished (finalize rs now
                       (Say ''planner emitted remediate {} times without ever probing the alert's subject ({}={})''
                          [Count (int (refusals_spent v) + 1), Word (alert_field s), Word (subject_value s)]))
                else Again (refuse_handoff rs now s) (v\<lparr>refusals_spent := refusals_spent v + 1\<rparr>)
            | None \<Rightarrow>
                if category best \<in> set dlq_acting_categories \<and> \<not> whole_queue_listed rs
                then (if max_whole_queue_refusals \<le> whole_queue_refusals_spent v
                      then Finished (finalize rs now
                             (Say ''planner emitted remediate {} times for {} without ever reading the dead-letter queue unfiltered''
                                [Count (int (whole_queue_refusals_spent v) + 1),
                                 Word (category_value (category best))]))
                      else Again (refuse_whole_queue_handoff rs now (category best))
                             (v\<lparr>whole_queue_refusals_spent := whole_queue_refusals_spent v + 1\<rparr>))
                else Finished (handoff_to_planning rs now (Word reason))))"

text \<open>Steps 13 to 16: the planner chose to probe.\<close>

definition probe_step ::
    "'w investigator \<Rightarrow> 'w \<Rightarrow> run_state \<Rightarrow> datetime \<Rightarrow> alert_subject option
     \<Rightarrow> (evidence_entry \<times> fault_present_reading) option \<Rightarrow> loop_vars \<Rightarrow> string \<Rightarrow> dict \<Rightarrow> 'w \<times> outcome" where
  "probe_step P w rs now subject withdrawn v tool raw =
     (if \<not> registered tool
      then (w, Finished (escalate_investigation rs now (Say ''planner proposed unknown tool: {}'' [Word tool])))
      else if owed v \<noteq> [] \<and> \<not> pays_an_owed_read (inv_libs P) tool raw (owed v)
      then (if max_verdict_refusals \<le> verdict_refusals_spent v
            then (w, Finished (finalize rs now
                   (verdict_refusals_exhausted_reason (owed v) (verdict_refusals_spent v))))
            else (let v1 = v\<lparr>verdict_refusals_spent := verdict_refusals_spent v + 1\<rparr>;
                      (w1, rs1) = record_verdict_refusal P w rs now (Say ''probe of {}'' [Word tool]) (owed v)
                                    (verdict_refusals_spent v1)
                  in (w1, Again rs1 v1)))
      else (case (case subject of
                    None \<Rightarrow> None
                  | Some s \<Rightarrow>
                      map_option (\<lambda>nr. (s, nr))
                        (case withdrawn of
                           Some nr \<Rightarrow> Some nr
                         | None \<Rightarrow> confirming_read_exhausted (inv_libs P) rs s tool raw (settled_steps v))) of
          Some (s, nr) \<Rightarrow>
            if max_confirming_read_refusals \<le> confirming_refusals_spent v
            then (w, Finished (finalize rs now
                   (refusals_exhausted_reason rs s (confirming_refusals_spent v))))
            else (let v1 = v\<lparr>confirming_refusals_spent := confirming_refusals_spent v + 1\<rparr> in
                  if withdrawn = None
                  then (case refuse_confirming_read rs now s nr (settled_steps v) of
                          Inl err \<Rightarrow> (w, Raised err)
                        | Inr rs1 \<Rightarrow> (w, Again rs1 v1))
                  else (w, Again rs v1))
        | None \<Rightarrow>
            if is_exhausted (budget rs)
            then (w, Finished (escalate_investigation rs now (Word ''budget exhausted before probe'')))
            else (case execute_probe P w rs now tool raw of
                (w1, Inl err) \<Rightarrow> (w1, Raised err)
              | (w1, Inr rs1) \<Rightarrow>
                  (w1, if state rs1 = ESCALATED then Finished rs1
                       else Again rs1 (v\<lparr>last_probe := Some (tool, raw)\<rparr>)))))"

text \<open>Steps 7 to 16: an accepted step. \<open>prior\<close> is the ranking the run held before it.\<close>

definition log_ranking :: "'w investigator \<Rightarrow> 'w \<Rightarrow> investigation_step \<Rightarrow> 'w" where
  "log_ranking P w step =
     (case planner_log P of
        None \<Rightarrow> w
      | Some emit \<Rightarrow> emit w (Ranking (thinking_tool P) (ranked step) (action_kind (move step))
          (case move step of Probe tool _ \<Rightarrow> Some tool | _ \<Rightarrow> None)
          (case move step of Probe _ _ \<Rightarrow> None | Remediate r \<Rightarrow> Some r | Stop r \<Rightarrow> Some r)))"

definition act_on_step ::
    "'w investigator \<Rightarrow> 'w \<Rightarrow> run_state \<Rightarrow> datetime \<Rightarrow> alert_subject option
     \<Rightarrow> (evidence_entry \<times> fault_present_reading) option \<Rightarrow> loop_vars \<Rightarrow> investigation_step \<Rightarrow> 'w \<times> outcome" where
  "act_on_step P w rs now subject withdrawn v step =
     (case move step of
        Probe tool raw \<Rightarrow> probe_step P w rs now subject withdrawn v tool raw
      | Stop reason \<Rightarrow>
          (case refuse_unproven_verdict P w rs now subject v step of
             Some out \<Rightarrow> out
           | None \<Rightarrow> (w, Finished (finalize rs now (Word reason))))
      | Remediate reason \<Rightarrow>
          (case refuse_unproven_verdict P w rs now subject v step of
             Some out \<Rightarrow> out
           | None \<Rightarrow> (w, remediate_gates rs now subject v (ranked step) reason)))"

definition step_accepted ::
    "'w investigator \<Rightarrow> 'w \<Rightarrow> run_state \<Rightarrow> datetime \<Rightarrow> alert_subject option
     \<Rightarrow> (evidence_entry \<times> fault_present_reading) option \<Rightarrow> loop_vars \<Rightarrow> hypothesis list
     \<Rightarrow> investigation_step \<Rightarrow> 'w \<times> outcome" where
  "step_accepted P w rs now subject withdrawn v prior step =
     (let w1 = log_ranking P w step;
          v1 = v\<lparr>settled_steps :=
                   (if ranks_an_actionable_answer (ranked step) then settled_steps v + 1 else 0)\<rparr>
      in case (cached_probe_contradiction prior (ranked step) (last_probe v1), last_probe v1) of
           (Some killed, Some (tool, raw)) \<Rightarrow>
             if reprobes_spent v1 tool < reprobe_attempts P
             then freshness_reprobe P w1 rs now v1 tool raw killed
             else act_on_step P w1 rs now subject withdrawn v1 step
         | _ \<Rightarrow> act_on_step P w1 rs now subject withdrawn v1 step)"

text \<open>One pass of \<open>while True\<close>.\<close>

definition one_step ::
    "'w investigator \<Rightarrow> 'w \<Rightarrow> run_state \<Rightarrow> datetime \<Rightarrow> alert_subject option \<Rightarrow> loop_vars \<Rightarrow> 'w \<times> outcome" where
  "one_step P w rs now subject v =
     (let (w1, rs1, v1, stopped) = count_step P w rs now subject v in
      if stopped
      then (w1, Finished (escalate_investigation rs1 now (iterations_exhausted_reason rs1 (max_iterations P))))
      else if is_exhausted (budget rs1)
      then (w1, Finished (escalate_investigation rs1 now (Word ''budget exhausted mid-investigation'')))
      else
        (let withdrawn = withdraw_probe rs1 subject v1 in
         case (case (withdrawn, subject) of
                 (Some nr, Some s) \<Rightarrow> refuse_confirming_read rs1 now s nr (settled_steps v1)
               | _ \<Rightarrow> Inr rs1) of
           Inl err \<Rightarrow> (w1, Raised err)
         | Inr rs2 \<Rightarrow>
             (case strategy P w1 rs2 now (step_model (owed_tools (owed v1)) (withdrawn = None)) (iteration v1 - 1) of
                (w2, Inl failure) \<Rightarrow> plan_failed P w2 rs2 now subject withdrawn v1 failure
              | (w2, Inr (rs3, step)) \<Rightarrow>
                  step_accepted P w2 rs3 now subject withdrawn v1 (hypotheses rs2) step)))"

fun investigate_loop ::
    "'w investigator \<Rightarrow> nat \<Rightarrow> 'w \<Rightarrow> run_state \<Rightarrow> datetime \<Rightarrow> alert_subject option \<Rightarrow> loop_vars
     \<Rightarrow> ('w \<times> run_state result) option" where
  "investigate_loop P 0 w rs now subject v = None"
| "investigate_loop P (Suc n) w rs now subject v =
     (case one_step P w rs now subject v of
        (w', Raised err) \<Rightarrow> Some (w', Inl err)
      | (w', Finished rs') \<Rightarrow> Some (w', Inr rs')
      | (w', Again rs' v') \<Rightarrow> investigate_loop P n w' rs' now subject v')"

text \<open>
  Every pass that continues spends one of the counters below or pays one owed read, so this many
  passes are enough.
\<close>

definition step_bound :: "'w investigator \<Rightarrow> nat" where
  "step_bound P =
     (max_iterations P + reprobe_attempts P + 8) * (length (required_before_verdict P) + 1) + 1"

definition transition_llm_investigate :: "'w investigator \<Rightarrow> 'w transition" where
  "transition_llm_investigate P w rs now =
     (case investigate_loop P (step_bound P) w rs now (alert_subject (alert rs)) initial_vars of
        Some r \<Rightarrow> r
      | None \<Rightarrow> (w, Inl (Foreign ''still investigating'')))"

end
