(* ===== verification/Planning.thy ===== *)
theory Planning
  imports Plan_Guards Investigation
begin

text \<open>
  The PLANNING transition of \<^verbatim>\<open>agent/remediation.py\<close>: preconditions, one planner call with the
  checks on its own output (\<open>plan_once\<close>), the plan-shape guards in the source's order
  (\<open>judge_plan\<close>), one refusal allowance per guard, and the loop that re-asks. Each allowance is
  one, so six planner calls are the most a transition makes.
\<close>

subsection \<open>What the remediation leg is bound to\<close>

datatype plan_reply =
    Plan_reply dict llm_usage
  | Garbled_plan "llm_usage option"
  | Plan_unreachable "llm_usage option"
  | Plan_crash exn

datatype judge_verdict = VERIFIED | NOT_VERIFIED

fun judge_word :: "judge_verdict \<Rightarrow> string" where
  "judge_word VERIFIED = ''verified''"
| "judge_word NOT_VERIFIED = ''not_verified''"

datatype judge_reply =
    Judge_reply judge_verdict string llm_usage
  | Garbled_judgment "llm_usage option"
  | Judge_unreachable "llm_usage option"
  | Judge_crash exn

text \<open>
  What the judge is shown: the plan, the reading, what the action itself reported and the two
  times \<open>format_verify_context\<close> renders.
\<close>

record judge_context =
  jc_plan :: remediation_plan
  jc_reading :: val
  jc_action :: "summary option"
  jc_action_at :: "datetime option"
  jc_read_at :: datetime

record 'w remediator =
  rem_libs :: libs
  rem_call_tool :: "'w \<Rightarrow> string \<Rightarrow> dict \<Rightarrow> 'w \<times> mcp_reply"
  ask_plan :: "'w \<Rightarrow> run_state \<Rightarrow> string \<Rightarrow> llm_usage option option \<Rightarrow> 'w \<times> plan_reply"
  ask_judge :: "'w \<Rightarrow> judge_context \<Rightarrow> llm_usage option option \<Rightarrow> 'w \<times> judge_reply"
  rem_model :: string
  judge_model :: string
  rem_sleep :: "'w \<Rightarrow> rat \<Rightarrow> 'w"
  verify_clock :: "('w \<Rightarrow> 'w \<times> datetime) option"
  max_attempts :: int
  probe_attempts :: nat
  probe_delay_seconds :: rat
  iso_datetime :: "string \<Rightarrow> datetime option"
  verdict_log :: "('w \<Rightarrow> hypothesis list \<Rightarrow> string \<Rightarrow> summary \<Rightarrow> nat \<Rightarrow> 'w) option"

subsection \<open>Rows\<close>

definition escalate_remediation ::
    "run_state \<Rightarrow> datetime \<Rightarrow> summary \<Rightarrow> (string \<times> dict) option \<Rightarrow> bool \<Rightarrow> run_state" where
  "escalate_remediation rs now reason attempted executed =
     (let args = [(''from_state'', VStr (state_value (state rs))), (''reason'', VText reason)]
                 @ (case attempted of
                      Some (tool, raw) \<Rightarrow> [(''attempted_tool'', VStr tool), (''attempted_arguments'', VDict raw)]
                    | None \<Rightarrow> []);
          rs1 = with_state (mark rs now ''_remediation_escalate'' args reason) ESCALATED now
      in if executed
         then rs1\<lparr>budget := charge_tool_call (budget rs),
                  remediation_attempts := remediation_attempts rs + 1\<rparr>
         else rs1)"

abbreviation escalate_plan :: "run_state \<Rightarrow> datetime \<Rightarrow> summary \<Rightarrow> run_state" where
  "escalate_plan rs now reason \<equiv> escalate_remediation rs now reason None False"

definition refused_before :: "summary \<Rightarrow> summary" where
  "refused_before reason = Say ''plan refused before execution: {}'' [reason]"

definition plan_args :: "remediation_plan \<Rightarrow> dict" where
  "plan_args p = [(''action_tool'', VStr (action_tool p)), (''action_arguments'', VDict (action_arguments p))]"

definition refuse_arguments :: "run_state \<Rightarrow> datetime \<Rightarrow> argument_refusal \<Rightarrow> run_state" where
  "refuse_arguments rs now r =
     mark rs now ''_plan_refused_argument''
       [(''action_tool'', VStr (ar_tool r)), (''kind'', VStr (argument_kind_value (ar_kind r))),
        (''rejected'', VList (map (VText \<circ> render_problem) (ar_problems r))),
        (''candidates'', strs (ar_candidates r))]
       (refused_before (ar_reason r))"

definition refuse_subject_target :: "run_state \<Rightarrow> datetime \<Rightarrow> remediation_plan \<Rightarrow> subject_miss \<Rightarrow> run_state" where
  "refuse_subject_target rs now p miss =
     mark rs now ''_plan_refused_subject_target''
       (plan_args p @ [(''alert_field'', VStr (alert_field (miss_subject miss))),
                       (''subject_value'', VStr (subject_value (miss_subject miss))),
                       (''subject_kind'', VStr (subject_kind_value (miss_kind miss)))])
       (refused_before (miss_reason miss))"

definition refuse_cleared_before_action ::
    "run_state \<Rightarrow> datetime \<Rightarrow> remediation_plan \<Rightarrow> cleared_miss \<Rightarrow> run_state" where
  "refuse_cleared_before_action rs now p miss =
     escalate_plan
       (mark rs now ''_plan_refused_cleared_before_action''
          (plan_args p @ [(''resource'', VStr (cleared_resource miss)),
                          (''probe_tool'', VStr (rr_tool (cleared_reading miss))),
                          (''reading'', VText (cleared_rendered miss))])
          (refused_before (cleared_reason miss)))
       now (cleared_reason miss)"

definition unread_row_reason :: "source_row \<Rightarrow> string list \<Rightarrow> remediation_plan \<Rightarrow> summary" where
  "unread_row_reason source unread p =
     Say ''{} would act on {}, and no {} reading in this run's evidence carries a row for it''
       [Word (action_tool p), words unread, Word (sr_tool source), Word (sr_decision source)]"

definition refuse_unread_rows ::
    "run_state \<Rightarrow> datetime \<Rightarrow> remediation_plan \<Rightarrow> source_row \<Rightarrow> string list \<Rightarrow> run_state" where
  "refuse_unread_rows rs now p source unread =
     mark rs now ''_plan_refused_unread_row''
       [(''action_tool'', VStr (action_tool p)), (''unread_ids'', strs unread),
        (''required_tool'', VStr (sr_tool source)), (''required_field'', VStr (sr_decision source))]
       (refused_before (unread_row_reason source unread p))"

definition unlisted_category_reason :: "source_listing \<Rightarrow> summary list \<Rightarrow> remediation_plan \<Rightarrow> summary" where
  "unlisted_category_reason source readings p =
     (let required = Say ''{}({})'' (Word (sl_tool source) # concat (map (\<lambda>scope.
            case scope_value (action_arguments p) (action_field scope) of
              Some v \<Rightarrow> [Word (read_field scope), Word v] | None \<Rightarrow> []) (sl_scopes source)))
      in Say ''{} names a FILTER, not rows'' ([plan_call p, required] @ readings))"

definition refuse_unlisted_category ::
    "run_state \<Rightarrow> datetime \<Rightarrow> remediation_plan \<Rightarrow> source_listing \<Rightarrow> summary list \<Rightarrow> run_state" where
  "refuse_unlisted_category rs now p source readings =
     mark rs now ''_plan_refused_unlisted_category''
       (plan_args p @ [(''required_tool'', VStr (sl_tool source)), (''required_field'', VStr (sl_decision source)),
                       (''readings_in_evidence'', VList (map VText readings))])
       (refused_before (unlisted_category_reason source readings p))"

definition probe_options :: "verify_probe list \<Rightarrow> remediation_plan \<Rightarrow> summary" where
  "probe_options probes p =
     Say '' or '' (map (\<lambda>probe. case vp_argument probe of
         None \<Rightarrow> Say ''{}()'' [Word (vp_tool probe)]
       | Some f \<Rightarrow> (case acted_on p of
             v # _ \<Rightarrow> Say ''{}({}={})'' [Word (vp_tool probe), Word f, Word v]
           | [] \<Rightarrow> Say ''{}({}=...)'' [Word (vp_tool probe), Word f])) probes)"

definition refuse_plan :: "run_state \<Rightarrow> datetime \<Rightarrow> remediation_plan \<Rightarrow> verify_probe list \<Rightarrow> run_state" where
  "refuse_plan rs now p probes =
     mark rs now ''_plan_refused''
       [(''rejected_verify_tool'', VStr (verify_tool p)),
        (''required_verify_tools'', strs (map vp_tool probes)), (''action_tool'', VStr (action_tool p))]
       (refused_before (Say ''{}({}) cannot observe the resource {} changes; re-plan with verify_tool={}''
          [Word (verify_tool p), Reading (VDict (verify_arguments p)), Word (action_tool p),
           probe_options probes p]))"

definition record_plan :: "run_state \<Rightarrow> datetime \<Rightarrow> remediation_plan \<Rightarrow> run_state" where
  "record_plan rs now p =
     (with_state (mark rs now ''_planner_plan'' [(''target_hypothesis'', VStr (target_hypothesis p))]
        (Say ''plan: {} then verify via {}'' [plan_call p, Word (verify_tool p)])) REMEDIATING now)
       \<lparr>remediation_plan := Some (dump_plan p)\<rparr>"

subsection \<open>One planner call\<close>

definition plan_client ::
    "'w remediator \<Rightarrow> run_state \<Rightarrow> string \<Rightarrow> ('w, remediation_plan) llm_client" where
  "plan_client P rs target w quoted =
     (case ask_plan P w rs target quoted of
        (w', Plan_reply d u) \<Rightarrow>
          (w', case validate_plan d of Some p \<Rightarrow> Inr (p, u) | None \<Rightarrow> Inl (Unreadable (Some u) False))
      | (w', Garbled_plan u) \<Rightarrow> (w', Inl (Unreadable u False))
      | (w', Plan_unreachable u) \<Rightarrow> (w', Inl (Unreachable u))
      | (w', Plan_crash err) \<Rightarrow> (w', Inl (Crashed err)))"

datatype plan_outcome =
    Plan_stands remediation_plan
  | Plan_escalates run_state
  | Plan_arguments argument_refusal
  | Plan_raises exn

text \<open>Steps 3 to 6: the checks on the planner's own output.\<close>

definition check_output :: "libs \<Rightarrow> run_state \<Rightarrow> datetime \<Rightarrow> remediation_plan \<Rightarrow> plan_outcome" where
  "check_output L rs now p =
     (if \<not> registered (action_tool p)
      then Plan_escalates (escalate_plan rs now
             (Say ''planner picked unknown action tool: {}'' [Word (action_tool p)]))
      else if tier_of (action_tool p) \<noteq> Inr TIER_1
      then Plan_escalates (escalate_plan rs now
             (Say ''planner picked non-Tier-1 action: {}'' [Word (action_tool p)]))
      else if \<not> registered (verify_tool p)
      then Plan_escalates (escalate_plan rs now
             (Say ''planner picked unknown verify tool: {}'' [Word (verify_tool p)]))
      else if tier_of (verify_tool p) \<noteq> Inr READ
      then Plan_escalates (escalate_plan rs now (Word ''verify tool must be read-only''))
      else if absent_resource_args p \<noteq> []
      then Plan_escalates (escalate_plan rs now
             (Say ''plan rejected before execution: resource argument(s) not named by the plan: {}''
                (absent_resource_args p)))
      else if malformed_resource_args p \<noteq> []
      then Plan_arguments (argument_refusal_of p rs MALFORMED (malformed_resource_args p))
      else (let unsourced = unsourced_resource_args p (evidence_value_corpus rs @ declared_services_read rs)
            in if unsourced \<noteq> [] then Plan_arguments (argument_refusal_of p rs UNSOURCED unsourced)
               else if misdirected_verify_args p \<noteq> []
               then Plan_escalates (escalate_plan rs now
                      (Say ''plan rejected before execution: verify probe targets resource(s) the action does not: {}''
                         [words (misdirected_verify_args p), Word (action_tool p), words (acted_on p),
                          Word (verify_tool p)]))
               else Plan_stands p))"

definition plan_once ::
    "'w remediator \<Rightarrow> 'w \<Rightarrow> run_state \<Rightarrow> datetime \<Rightarrow> string \<Rightarrow> 'w \<times> run_state \<times> plan_outcome" where
  "plan_once P w rs now target =
     (case call_with_output_repair (plan_client P rs target) w of
        (w', Inl err) \<Rightarrow>
          (case err of
             Uncaught e \<Rightarrow> (w', rs, Plan_raises e)
           | _ \<Rightarrow> (let rs1 = rs\<lparr>budget := accrue_llm_error (budget rs) (repair_error_usage err) (rem_model P)\<rparr>
                   in (w', rs1, Plan_escalates (escalate_plan rs1 now (Word ''planner LLM invalid'')))))
      | (w', Inr call) \<Rightarrow>
          (let rs1 = rs\<lparr>budget := accrue_structured_call (budget rs) call (rem_model P)\<rparr>
           in (w', rs1, check_output (rem_libs P) rs1 now (call_output call))))"

subsection \<open>The loop\<close>

record plan_vars =
  verify_refusals :: nat
  unread_refusals :: nat
  unlisted_refusals :: nat
  argument_refusals :: nat
  subject_refusals :: nat

definition initial_plan_vars :: plan_vars where
  "initial_plan_vars =
     \<lparr>verify_refusals = 0, unread_refusals = 0, unlisted_refusals = 0, argument_refusals = 0,
      subject_refusals = 0\<rparr>"

datatype plan_step =
    Ask_again run_state plan_vars
  | Planned run_state remediation_plan
  | Plan_over run_state
  | Plan_threw exn

text \<open>The tail every refusal shares: escalate if the budget cannot pay for another ask.\<close>

definition ask_again_or_stop :: "run_state \<Rightarrow> datetime \<Rightarrow> string \<Rightarrow> plan_vars \<Rightarrow> plan_step" where
  "ask_again_or_stop rs now what v =
     (if is_exhausted (budget rs)
      then Plan_over (escalate_plan rs now
             (Say ''budget exhausted before the plan could be re-asked {}; nothing was executed'' [Word what]))
      else Ask_again rs v)"

text \<open>Step 5.\<close>

definition argument_step :: "run_state \<Rightarrow> datetime \<Rightarrow> argument_refusal \<Rightarrow> plan_vars \<Rightarrow> plan_step" where
  "argument_step rs now r v =
     (if 1 \<le> argument_refusals v
      then Plan_over (escalate_plan rs now
             (Say ''planner {}, {} times: {} The action was NOT executed''
                [Word (case ar_kind r of
                   MALFORMED \<Rightarrow> ''wrote a resource identifier that is not the shape the platform declares''
                 | UNSOURCED \<Rightarrow> ''named a resource that is not one this run read''),
                 Count (int (argument_refusals v) + 1), ar_reason r]))
      else ask_again_or_stop (refuse_arguments rs now r) now ''with an evidence-sourced resource id''
             (v\<lparr>argument_refusals := argument_refusals v + 1\<rparr>))"

text \<open>Steps 7 to 12: the plan-shape guards, in the source's order.\<close>

definition judge_plan ::
    "libs \<Rightarrow> run_state \<Rightarrow> datetime \<Rightarrow> remediation_plan \<Rightarrow> plan_vars \<Rightarrow> plan_step" where
  "judge_plan L rs now p v =
     (case repeated_attempt L p rs of
        Some reason \<Rightarrow> Plan_over (escalate_plan rs now reason)
      | None \<Rightarrow>
     (case unaddressed_alert_subject p rs of
        Some miss \<Rightarrow>
          if 1 \<le> subject_refusals v
          then Plan_over (escalate_plan rs now
                 (Say ''planner proposed an action that does not address the alert's own subject, {} times: {}''
                    [Count (int (subject_refusals v) + 1), miss_reason miss]))
          else ask_again_or_stop (refuse_subject_target rs now p miss) now
                 ''with an action aimed at the alert's subject''
                 (v\<lparr>subject_refusals := subject_refusals v + 1\<rparr>)
      | None \<Rightarrow>
     (case cleared_before_action p rs of
        Some miss \<Rightarrow> Plan_over (refuse_cleared_before_action rs now p miss)
      | None \<Rightarrow>
     (case unread_action_rows p rs of
        Some (source, unread) \<Rightarrow>
          if 1 \<le> unread_refusals v
          then Plan_over (escalate_plan rs now
                 (Say ''planner proposed replaying a dead-lettered job whose own dead-letter row this run never read, {} times: {}''
                    [Count (int (unread_refusals v) + 1), unread_row_reason source unread p]))
          else ask_again_or_stop (refuse_unread_rows rs now p source unread) now
                 ''without an unread dead-letter row'' (v\<lparr>unread_refusals := unread_refusals v + 1\<rparr>)
      | None \<Rightarrow>
     (case unlisted_action_scope p rs of
        Some (source, readings) \<Rightarrow>
          if 1 \<le> unlisted_refusals v
          then Plan_over (escalate_plan rs now
                 (Say ''planner proposed a bulk replay over a slice of the dead-letter queue this run never listed, {} times: {}''
                    [Count (int (unlisted_refusals v) + 1), unlisted_category_reason source readings p]))
          else ask_again_or_stop (refuse_unlisted_category rs now p source readings) now
                 ''without an unlisted replay category'' (v\<lparr>unlisted_refusals := unlisted_refusals v + 1\<rparr>)
      | None \<Rightarrow>
          (let unobserved = unobserved_action_resource p in
           if unobserved = [] then Planned rs p
           else if 1 \<le> verify_refusals v
           then Plan_over (escalate_plan rs now
                  (Say ''planner proposed a verify leg that cannot observe the remediated resource {} times: {} changes {} but {} does not read it. Required: {}''
                     [Count (int (verify_refusals v) + 1), Word (action_tool p), words (acted_on p),
                      Word (verify_tool p), probe_options unobserved p]))
           else ask_again_or_stop (refuse_plan rs now p unobserved) now ''with an observable verify leg''
                  (v\<lparr>verify_refusals := verify_refusals v + 1\<rparr>)))))))"

definition plan_pass ::
    "'w remediator \<Rightarrow> 'w \<Rightarrow> run_state \<Rightarrow> datetime \<Rightarrow> string \<Rightarrow> plan_vars \<Rightarrow> 'w \<times> plan_step" where
  "plan_pass P w rs now target v =
     (case plan_once P w rs now target of
        (w', rs1, Plan_raises err) \<Rightarrow> (w', Plan_threw err)
      | (w', rs1, Plan_arguments r) \<Rightarrow> (w', argument_step rs1 now r v)
      | (w', rs1, Plan_escalates rs2) \<Rightarrow> (w', Plan_over rs2)
      | (w', rs1, Plan_stands p) \<Rightarrow> (w', judge_plan (rem_libs P) rs1 now p v))"

fun plan_loop ::
    "'w remediator \<Rightarrow> nat \<Rightarrow> 'w \<Rightarrow> run_state \<Rightarrow> datetime \<Rightarrow> string \<Rightarrow> plan_vars
     \<Rightarrow> ('w \<times> run_state result) option" where
  "plan_loop P 0 w rs now target v = None"
| "plan_loop P (Suc n) w rs now target v =
     (case plan_pass P w rs now target v of
        (w', Plan_threw err) \<Rightarrow> Some (w', Inl err)
      | (w', Plan_over rs') \<Rightarrow> Some (w', Inr rs')
      | (w', Planned rs' p) \<Rightarrow> Some (w', Inr (record_plan rs' now p))
      | (w', Ask_again rs' v') \<Rightarrow> plan_loop P n w' rs' now target v')"

definition max_plan_calls :: nat where
  "max_plan_calls = 6"

definition transition_plan :: "'w remediator \<Rightarrow> 'w transition" where
  "transition_plan P w rs now =
     (case hypotheses rs of
        [] \<Rightarrow> (w, Inr (escalate_plan rs now (Word ''planning entered with no hypotheses on RunState'')))
      | best # _ \<Rightarrow>
          (let remaining_calls = max_tool_calls (budget rs) - tool_calls_used (budget rs) in
           if max_attempts P \<le> remediation_attempts rs
           then (w, Inr (escalate_plan rs now
                  (Say ''remediation attempt cap reached (ADR 0056): PLANNING entered with remediation_attempts={} of max_attempts={}''
                     [Count (remediation_attempts rs), Count (max_attempts P)])))
           else if remaining_calls < 2
           then (w, Inr (escalate_plan rs now
                  (Say ''insufficient tool-call budget for action+verify (remaining={}); escalating without executing''
                     [Count remaining_calls])))
           else (case plan_loop P max_plan_calls w rs now (hyp_name best) initial_plan_vars of
                   Some r \<Rightarrow> r
                 | None \<Rightarrow> (w, Inl (Foreign ''still planning'')))))"

end
