(* ===== verification/Investigation_Facts.thy ===== *)
theory Investigation_Facts
  imports Investigation
begin

text \<open>
  What the investigation loop guarantees: every pass grows the run lawfully, PLANNING is entered
  only through the gates, and the loop ends within \<open>step_bound\<close> passes, all for any lawful
  strategy and then for the control group.
\<close>

subsection \<open>Frames of the rows\<close>

lemma mark_grows [simp, intro]: "is_marker marker \<Longrightarrow> grew rs (mark rs now marker args reason)"
  unfolding mark_def by (rule grew_marker) simp

lemma mark_simps [simp]:
  "state (mark rs now m args r) = state rs"
  "hypotheses (mark rs now m args r) = hypotheses rs"
  "budget (mark rs now m args r) = budget rs"
  "alert (mark rs now m args r) = alert rs"
  "evidence (mark rs now m args r) = evidence rs @ [entry m args r now]"
  by (simp_all add: mark_def)

lemma grew_mark_with_state [simp, intro]:
  "is_marker m \<Longrightarrow> grew rs (with_state (mark rs now m args r) s now)"
  by (rule grew_trans[OF mark_grows grew_with_state])

lemma terminal_rows [simp]:
  "grew rs (finalize rs now r)" "state (finalize rs now r) = ESCALATED"
  "grew rs (escalate_investigation rs now r)" "state (escalate_investigation rs now r) = ESCALATED"
  "grew rs (handoff_to_planning rs now r)" "state (handoff_to_planning rs now r) = PLANNING"
  "hypotheses (handoff_to_planning rs now r) = hypotheses rs"
  "set (evidence rs) \<subseteq> set (evidence (handoff_to_planning rs now r))"
  "alert (handoff_to_planning rs now r) = alert rs"
  by (simp_all add: finalize_def escalate_investigation_def handoff_to_planning_def subset_insertI)

lemma steering_rows [simp]:
  "grew rs (refuse_handoff rs now s)" "state (refuse_handoff rs now s) = state rs"
  "grew rs (refuse_whole_queue_handoff rs now c)" "state (refuse_whole_queue_handoff rs now c) = state rs"
  "grew rs (note_freshness_reprobe rs now t h d)" "state (note_freshness_reprobe rs now t h d) = state rs"
  by (simp_all add: refuse_handoff_def refuse_whole_queue_handoff_def note_freshness_reprobe_def Let_def)

lemma record_verdict_refusal_frame:
  "record_verdict_refusal P w rs now refused missing n = (w', rs') \<Longrightarrow>
     grew rs rs' \<and> state rs' = state rs \<and> hypotheses rs' = hypotheses rs"
  by (auto simp: record_verdict_refusal_def Let_def)

lemma refuse_confirming_read_frame:
  "refuse_confirming_read rs now s nr n = Inr rs' \<Longrightarrow>
     grew rs rs' \<and> state rs' = state rs \<and> hypotheses rs' = hypotheses rs"
  by (auto simp: refuse_confirming_read_def Let_def split: list.splits)

lemma record_reading_grows:
  "tool \<in> set read_tools \<Longrightarrow> \<not> is_marker tool \<Longrightarrow> grew rs (record_reading rs now tool args v)"
  by (simp add: record_reading_def grew_def record_row_def)

lemma read_tools_not_markers: "tool \<in> set read_tools \<Longrightarrow> \<not> is_marker tool"
  by (auto simp: read_tools_def)

lemma record_reading_simps [simp]:
  "state (record_reading rs now tool args v) = state rs"
  "hypotheses (record_reading rs now tool args v) = hypotheses rs"
  "evidence (record_reading rs now tool args v) = evidence rs @ [entry tool args (Reading v) now]"
  by (simp_all add: record_reading_def)

subsection \<open>Probes\<close>

text \<open>A probe either escalates the run or appends the one reading it took.\<close>

lemma execute_probe_cases:
  assumes "execute_probe P w rs now tool raw = (w', Inr rs')"
  obtains (escalated) r where "rs' = escalate_investigation rs now r"
  | (reading) args v where "tool \<in> set read_tools" "wire_arguments (inv_libs P) tool raw = Some args"
      "rs' = record_reading rs now tool args v"
proof -
  from assms obtain t where t: "tier_of tool = Inr t" by (auto simp: execute_probe_def split: sum.splits)
  show thesis
  proof (cases "t = READ")
    case False
    with t assms show thesis by (intro escalated) (auto simp: execute_probe_def)
  next
    case True
    with t have read: "tool \<in> set read_tools" by (simp add: guard_simps)
    show thesis
    proof (cases "wire_arguments (inv_libs P) tool raw")
      case None
      with t True assms show thesis by (intro escalated) (auto simp: execute_probe_def)
    next
      case (Some args)
      with t True assms have
        "(\<exists>r. rs' = escalate_investigation rs now r) \<or> (\<exists>v. rs' = record_reading rs now tool args v)"
        by (auto simp: execute_probe_def split: prod.splits mcp_reply.splits sum.splits if_splits)
      with escalated reading read Some show thesis by blast
    qed
  qed
qed

lemma execute_probe_frame:
  assumes "execute_probe P w rs now tool raw = (w', Inr rs')"
  shows "grew rs rs'" and "state rs' = ESCALATED \<or> state rs' = state rs"
  using assms
  by (cases rule: execute_probe_cases; simp add: record_reading_grows read_tools_not_markers)+

lemma branch_probe_grows:
  assumes "branch_probe P w rs tool raw = (w', Inr (rs', refused))"
  shows "grew rs rs'" and "state rs' = state rs" and "refused \<noteq> None \<longleftrightarrow> rs' = rs"
proof -
  have "rs' = rs \<and> refused \<noteq> None \<or> (refused = None \<and> tool \<in> set read_tools
      \<and> (\<exists>args v. rs' = rs\<lparr>evidence := evidence rs @ [entry tool args (Reading v) (updated_at rs)],
                            budget := charge_tool_call (budget rs)\<rparr>))"
    using assms
    by (auto simp: branch_probe_def guard_simps
        split: if_splits sum.splits option.splits prod.splits mcp_reply.splits)
  then show "grew rs rs'" and "state rs' = state rs" and "refused \<noteq> None \<longleftrightarrow> rs' = rs"
    by (auto simp: grew_def dest: read_tools_not_markers) (auto dest!: arg_cong[where f = evidence])
qed

subsection \<open>One pass\<close>

text \<open>Everything a run handed to PLANNING has established, read off the run itself.\<close>

definition planning_gate :: "required_reading list \<Rightarrow> run_state \<Rightarrow> bool" where
  "planning_gate required rs =
     (case hypotheses rs of
        [] \<Rightarrow> False
      | best # _ \<Rightarrow>
          fixable (category best) \<and> remediate_confidence_threshold \<le> confidence best
          \<and> (case alert_subject (alert rs) of None \<Rightarrow> True | Some s \<Rightarrow> alert_subject_probed rs s)
          \<and> (category best \<in> set dlq_acting_categories \<longrightarrow> whole_queue_listed rs)
          \<and> (\<forall>r\<in>set required. condition_holds (req_when r) (Some best) (alert_subject (alert rs))
               \<longrightarrow> required_read_made rs r))"

definition outcome_ok :: "required_reading list \<Rightarrow> run_state \<Rightarrow> outcome \<Rightarrow> bool" where
  "outcome_ok required rs out =
     (case out of
        Again rs' _ \<Rightarrow> grew rs rs' \<and> state rs' = state rs
      | Finished rs' \<Rightarrow> grew rs rs'
          \<and> (state rs' = ESCALATED \<or> state rs' = PLANNING \<and> planning_gate required rs')
      | Raised _ \<Rightarrow> True)"

lemma outcome_ok_trans: "grew rs rs1 \<Longrightarrow> state rs1 = state rs \<Longrightarrow> outcome_ok q rs1 out \<Longrightarrow> outcome_ok q rs out"
  by (cases out) (auto simp: outcome_ok_def intro: grew_trans)

lemma outcome_ok_simps [simp]:
  "outcome_ok q rs (Finished (finalize rs now r))"
  "outcome_ok q rs (Finished (escalate_investigation rs now r))"
  "outcome_ok q rs (Raised err)"
  "outcome_ok q rs (Again (refuse_handoff rs now s) v)"
  "outcome_ok q rs (Again (refuse_whole_queue_handoff rs now c) v)"
  "outcome_ok q rs (Again rs v)"
  by (simp_all add: outcome_ok_def)

lemma record_verdict_refusal_ok:
  "record_verdict_refusal P w rs now refused missing n = (w', rs') \<Longrightarrow> outcome_ok q rs (Again rs' v)"
  by (simp add: outcome_ok_def record_verdict_refusal_frame)

lemma handoff_ok:
  assumes "hypotheses rs = best # rest"
    and "fixable (category best)" and "\<not> confidence best < remediate_confidence_threshold"
    and "\<And>s. alert_subject (alert rs) = Some s \<Longrightarrow> alert_subject_probed rs s"
    and "category best \<in> set dlq_acting_categories \<Longrightarrow> whole_queue_listed rs"
    and "missing_required_reads rs q (hypotheses rs) (alert_subject (alert rs)) = []"
  shows "outcome_ok q rs (Finished (handoff_to_planning rs now reason))"
proof -
  let ?handoff = "handoff_to_planning rs now reason"
  have sub: "set (evidence rs) \<subseteq> set (evidence ?handoff)" by simp
  have "planning_gate q ?handoff"
    using assms alert_subject_probed_mono[OF sub] whole_queue_listed_mono[OF sub]
      required_read_made_mono[OF sub]
    by (auto simp: planning_gate_def missing_required_reads_empty_iff split: option.splits)
  then show ?thesis by (simp add: outcome_ok_def)
qed

lemma remediate_gates_ok:
  assumes "missing_required_reads rs q hs (alert_subject (alert rs)) = []" and "hs = hypotheses rs"
  shows "outcome_ok q rs (remediate_gates rs now (alert_subject (alert rs)) v hs reason)"
  using assms
  by (auto simp: remediate_gates_def split: list.splits option.splits intro!: handoff_ok)

lemma refuse_unproven_verdict_ok:
  "refuse_unproven_verdict P w rs now subject v step = Some (w', out) \<Longrightarrow> outcome_ok q rs out"
  by (auto simp: refuse_unproven_verdict_def Let_def
      split: if_splits prod.splits intro: record_verdict_refusal_ok)

lemma refuse_unproven_verdict_None:
  "refuse_unproven_verdict P w rs now subject v step = None \<Longrightarrow>
     missing_required_reads rs (required_before_verdict P) (ranked step) subject = []"
  by (auto simp: refuse_unproven_verdict_def Let_def split: if_splits prod.splits)

lemma execute_probe_ok:
  assumes "execute_probe P w rs now tool raw = (w', Inr rs')"
  shows "outcome_ok q rs (if state rs' = ESCALATED then Finished rs' else Again rs' v)"
  using execute_probe_frame[OF assms] by (auto simp: outcome_ok_def)

lemma probe_step_ok:
  assumes "probe_step P w rs now subject withdrawn v tool raw = (w', out)"
  shows "outcome_ok q rs out"
  using assms
  by (auto simp: probe_step_def Let_def record_verdict_refusal_ok execute_probe_ok
      split: if_splits option.splits prod.splits sum.splits
      dest!: refuse_confirming_read_frame)
    (auto simp: outcome_ok_def dest: execute_probe_frame)

lemma plan_failed_ok:
  assumes "plan_failed P w rs now subject withdrawn v failure = (w', out)"
  shows "outcome_ok q rs out"
proof (cases failure)
  case (Step_failed u not_offered)
  let ?rs1 = "rs\<lparr>budget := accrue_llm_error (budget rs) u (planner_model P)\<rparr>"
  have g: "grew rs ?rs1" by (rule grew_budget) simp_all
  have "outcome_ok q ?rs1 out"
    using assms Step_failed
    by (auto simp: plan_failed_def Let_def record_verdict_refusal_ok
        split: if_splits option.splits prod.splits)
  with g show ?thesis by (auto intro: outcome_ok_trans)
qed (use assms in \<open>auto simp: plan_failed_def\<close>)

lemma freshness_reprobe_ok:
  assumes "freshness_reprobe P w rs now v tool raw killed = (w', out)"
  shows "outcome_ok q rs out"
proof -
  let ?rs1 = "note_freshness_reprobe rs now tool killed (reprobe_delay_seconds P)"
  have "outcome_ok q ?rs1 out"
    using assms
    by (auto simp: freshness_reprobe_def Let_def split: if_splits prod.splits sum.splits)
      (auto simp: outcome_ok_def dest: execute_probe_frame)
  then show ?thesis by (auto intro: outcome_ok_trans[of rs ?rs1])
qed

lemma act_on_step_ok:
  assumes "act_on_step P w rs now (alert_subject (alert rs)) withdrawn v step = (w', out)"
    and "hypotheses rs = ranked step"
  shows "outcome_ok (required_before_verdict P) rs out"
  using assms
  by (auto simp: act_on_step_def probe_step_ok
      split: next_action.splits option.splits
      intro!: remediate_gates_ok
      dest: refuse_unproven_verdict_ok refuse_unproven_verdict_None)

lemma step_accepted_cases:
  assumes "step_accepted P w rs now subject withdrawn v prior step = (w', out)"
  obtains (act) v1 where "act_on_step P (log_ranking P w step) rs now subject withdrawn v1 step = (w', out)"
      "v1 = v\<lparr>settled_steps := settled_steps v1\<rparr>"
  | (reprobe) v1 tool raw killed where
      "freshness_reprobe P (log_ranking P w step) rs now v1 tool raw killed = (w', out)"
      "v1 = v\<lparr>settled_steps := settled_steps v1\<rparr>"
      "is_cached_read tool" "reprobes_spent v tool < reprobe_attempts P"
proof -
  let ?v1 = "v\<lparr>settled_steps :=
    (if ranks_an_actionable_answer (ranked step) then settled_steps v + 1 else 0)\<rparr>"
  show thesis
  proof (cases "cached_probe_contradiction prior (ranked step) (last_probe v)")
    case None
    with assms act[of ?v1] show thesis by (simp add: step_accepted_def Let_def)
  next
    case (Some killed)
    then obtain tool raw where l: "last_probe v = Some (tool, raw)" and c: "is_cached_read tool"
      by (auto simp: cached_probe_contradiction_def split: option.splits if_splits)
    show thesis
    proof (cases "reprobes_spent v tool < reprobe_attempts P")
      case True
      with assms Some l c reprobe[of ?v1] show thesis by (simp add: step_accepted_def Let_def)
    next
      case False
      with assms Some l act[of ?v1] show thesis by (simp add: step_accepted_def Let_def)
    qed
  qed
qed

lemma step_accepted_ok:
  assumes "step_accepted P w rs now (alert_subject (alert rs)) withdrawn v prior step = (w', out)"
    and "hypotheses rs = ranked step"
  shows "outcome_ok (required_before_verdict P) rs out"
  using assms(1)
proof (cases rule: step_accepted_cases)
  case act
  from act_on_step_ok[OF act(1) assms(2)] show ?thesis .
next
  case reprobe
  from freshness_reprobe_ok[OF reprobe(1)] show ?thesis .
qed

lemma count_step_frame:
  "count_step P w rs now subject v = (w', rs', v', b) \<Longrightarrow> grew rs rs' \<and> state rs' = state rs"
  by (auto simp: count_step_def Let_def split: if_splits prod.splits
      dest: record_verdict_refusal_frame)

text \<open>The three ways a pass can go on, with the runs in between.\<close>

lemma one_step_cases:
  assumes "one_step P w rs now subject v = (w', out)"
  obtains (ended) rs1 reason where "grew rs rs1" "state rs1 = state rs"
      "out = Finished (escalate_investigation rs1 now reason)"
  | (failed) err where "out = Raised err"
  | (planned) w1 rs1 v1 rs2 w2 answer where
      "count_step P w rs now subject v = (w1, rs1, v1, False)"
      "grew rs1 rs2 \<and> state rs2 = state rs1"
      "hypotheses rs2 = hypotheses rs1"
      "set (evidence rs1) \<subseteq> set (evidence rs2)"
      "strategy P w1 rs2 now (step_model (owed_tools (owed v1)) (withdraw_probe rs1 subject v1 = None))
         (iteration v1 - 1) = (w2, answer)"
      "(w', out) = (case answer of
          Inl failure \<Rightarrow> plan_failed P w2 rs2 now subject (withdraw_probe rs1 subject v1) v1 failure
        | Inr (rs3, step) \<Rightarrow>
            step_accepted P w2 rs3 now subject (withdraw_probe rs1 subject v1) v1 (hypotheses rs2) step)"
proof -
  obtain w1 rs1 v1 b where c: "count_step P w rs now subject v = (w1, rs1, v1, b)"
    by (metis prod_cases4)
  note frame = count_step_frame[OF c]
  show thesis
  proof (cases "b \<or> is_exhausted (budget rs1)")
    case True
    with assms c have "\<exists>reason. out = Finished (escalate_investigation rs1 now reason)"
      by (auto simp: one_step_def split: if_splits)
    with frame ended show thesis by blast
  next
    case False
    let ?wd = "withdraw_probe rs1 subject v1"
    let ?r = "case (?wd, subject) of (Some nr, Some s) \<Rightarrow> refuse_confirming_read rs1 now s nr (settled_steps v1)
              | _ \<Rightarrow> Inr rs1"
    show thesis
    proof (cases ?r)
      case (Inl err)
      with False c assms have "out = Raised err" by (simp add: one_step_def Let_def)
      then show thesis by (rule failed)
    next
      case (Inr rs2)
      then have g: "grew rs1 rs2 \<and> state rs2 = state rs1 \<and> hypotheses rs2 = hypotheses rs1"
        by (auto split: option.splits dest: refuse_confirming_read_frame)
      obtain w2 answer where s: "strategy P w1 rs2 now (step_model (owed_tools (owed v1)) (?wd = None))
          (iteration v1 - 1) = (w2, answer)" by fastforce
      from assms c False Inr s have "(w', out) = (case answer of
          Inl failure \<Rightarrow> plan_failed P w2 rs2 now subject ?wd v1 failure
        | Inr (rs3, step) \<Rightarrow> step_accepted P w2 rs3 now subject ?wd v1 (hypotheses rs2) step)"
        by (simp add: one_step_def Let_def split: sum.splits)
      with c False g s grew_evidence[of rs1 rs2] show thesis by (intro planned) auto
    qed
  qed
qed

context investigation_strategy
begin

lemma one_step_ok:
  assumes P: "strategy P = plan" and "one_step P w rs now (alert_subject (alert rs)) v = (w', out)"
  shows "outcome_ok (required_before_verdict P) rs out"
  using assms(2)
proof (cases rule: one_step_cases)
  case (ended rs1 reason)
  then show ?thesis
    by (auto simp: outcome_ok_def intro: grew_trans[of rs rs1])
next
  case failed
  then show ?thesis by simp
next
  case (planned w1 rs1 v1 rs2 w2 answer)
  have g: "grew rs rs2" "state rs2 = state rs"
    using count_step_frame[OF planned(1)] planned(2) grew_trans by auto
  show ?thesis
  proof (cases answer)
    case (Inl failure)
    with planned(6) have "plan_failed P w2 rs2 now (alert_subject (alert rs))
        (withdraw_probe rs1 (alert_subject (alert rs)) v1) v1 failure = (w', out)" by simp
    from outcome_ok_trans[OF g plan_failed_ok[OF this]] show ?thesis .
  next
    case (Inr p)
    obtain rs3 step where p: "p = (rs3, step)" by fastforce
    with Inr planned(5) P have s: "plan w1 rs2 now (step_model (owed_tools (owed v1))
        (withdraw_probe rs1 (alert_subject (alert rs)) v1 = None)) (iteration v1 - 1)
        = (w2, Inr (rs3, step))" by simp
    have g3: "grew rs rs3" using g(1) plan_grows[OF s] by (rule grew_trans)
    have "state rs3 = state rs" using plan_state[OF s] g by simp
    moreover from Inr p planned(6) grew_alert[OF g3]
    have "step_accepted P w2 rs3 now (alert_subject (alert rs3))
        (withdraw_probe rs1 (alert_subject (alert rs)) v1) v1 (hypotheses rs2) step = (w', out)" by simp
    then have "outcome_ok (required_before_verdict P) rs3 out"
      by (rule step_accepted_ok) (simp add: plan_ranking[OF s])
    ultimately show ?thesis using outcome_ok_trans[OF g3] by blast
  qed
qed

lemma investigate_loop_ok:
  assumes P: "strategy P = plan"
  shows "investigate_loop P n w rs now (alert_subject (alert rs)) v = Some (w', Inr rs') \<Longrightarrow>
    state rs = INVESTIGATING \<Longrightarrow> outcome_ok (required_before_verdict P) rs (Finished rs')"
proof (induction n arbitrary: w rs v)
  case (Suc n)
  show ?case
  proof (cases "one_step P w rs now (alert_subject (alert rs)) v")
    case (Pair w1 out)
    note ok = one_step_ok[OF P Pair]
    show ?thesis
    proof (cases out)
      case (Again rs1 v1)
      with ok have g: "grew rs rs1" "state rs1 = state rs" by (simp_all add: outcome_ok_def)
      with Suc.prems Pair Again have "investigate_loop P n w1 rs1 now (alert_subject (alert rs1)) v1
          = Some (w', Inr rs')" by (simp add: grew_alert)
      with Suc.IH[OF this] Suc.prems g outcome_ok_trans[OF g] show ?thesis by simp
    qed (use Suc.prems Pair ok in auto)
  qed
qed simp

end

subsection \<open>The loop ends\<close>

definition counters_left :: "'w investigator \<Rightarrow> loop_vars \<Rightarrow> nat" where
  "counters_left P v =
     (max_iterations P - free_steps v) + (if limit_refused v then 0 else 1)
     + (max_verdict_refusals - verdict_refusals_spent v)
     + (max_subject_probe_refusals - refusals_spent v)
     + (max_whole_queue_refusals - whole_queue_refusals_spent v)
     + (max_confirming_read_refusals - confirming_refusals_spent v)
     + (reprobe_attempts P - reprobes_spent v ''get_consumer_lag'')"

lemma counters_left_unspent [simp]:
  "counters_left P (v\<lparr>owed := o1\<rparr>) = counters_left P v"
  "counters_left P (v\<lparr>settled_steps := n\<rparr>) = counters_left P v"
  "counters_left P (v\<lparr>last_probe := p\<rparr>) = counters_left P v"
  "counters_left P (v\<lparr>iteration := n\<rparr>) = counters_left P v"
  by (simp_all add: counters_left_def)

lemma spend_one: "k < m \<Longrightarrow> a + (m - Suc k) + b < a + (m - k) + (b::nat)"
  by simp

lemma counters_left_spent:
  "verdict_refusals_spent v < max_verdict_refusals \<Longrightarrow>
     counters_left P (v\<lparr>verdict_refusals_spent := Suc (verdict_refusals_spent v)\<rparr>) < counters_left P v"
  "verdict_refusals_spent v < max_verdict_refusals \<Longrightarrow>
     counters_left P (v\<lparr>verdict_refusals_spent := Suc (verdict_refusals_spent v), owed := o1\<rparr>) < counters_left P v"
  "refusals_spent v < max_subject_probe_refusals \<Longrightarrow>
     counters_left P (v\<lparr>refusals_spent := Suc (refusals_spent v)\<rparr>) < counters_left P v"
  "whole_queue_refusals_spent v < max_whole_queue_refusals \<Longrightarrow>
     counters_left P (v\<lparr>whole_queue_refusals_spent := Suc (whole_queue_refusals_spent v)\<rparr>) < counters_left P v"
  "confirming_refusals_spent v < max_confirming_read_refusals \<Longrightarrow>
     counters_left P (v\<lparr>confirming_refusals_spent := Suc (confirming_refusals_spent v)\<rparr>) < counters_left P v"
  "reprobes_spent v t < reprobe_attempts P \<Longrightarrow> t = ''get_consumer_lag'' \<Longrightarrow>
     counters_left P (v\<lparr>reprobes_spent := (reprobes_spent v)(t := Suc (reprobes_spent v t))\<rparr>) < counters_left P v"
  "\<not> max_iterations P \<le> free_steps v \<Longrightarrow>
     counters_left P (v\<lparr>owed := o1, iteration := n, free_steps := Suc (free_steps v)\<rparr>) < counters_left P v"
  "\<not> limit_refused v \<Longrightarrow>
     counters_left P (v\<lparr>owed := o1, limit_refused := True\<rparr>) < counters_left P v"
  by (simp_all add: counters_left_def diff_less_mono2 add_less_mono add_le_less_mono add_less_le_mono del: diff_is_0_eq)

text \<open>
  What a pass that started from the reads \<open>base\<close> still owes must show if it continues: no counter
  went up, the owed list is one the requirements can produce, and while reads are owed either a
  counter went down or a read was paid.
\<close>

definition progress :: "'w investigator \<Rightarrow> run_state \<Rightarrow> loop_vars \<Rightarrow> outcome \<Rightarrow> bool" where
  "progress P base v out =
     (case out of
        Again rs' v' \<Rightarrow> counters_left P v' \<le> counters_left P v
          \<and> length (owed v') \<le> length (required_before_verdict P)
          \<and> (owed v \<noteq> [] \<longrightarrow> counters_left P v' < counters_left P v
               \<or> length (still_owed rs' (owed v')) < length (still_owed base (owed v)))
      | _ \<Rightarrow> True)"

lemma progress_spends:
  "counters_left P v' < counters_left P v \<Longrightarrow> length (owed v') \<le> length (required_before_verdict P)
     \<Longrightarrow> progress P base v (Again rs' v')"
  by (simp add: progress_def)

lemma progress_ends [simp]: "progress P base v (Finished rs')" "progress P base v (Raised err)"
  by (simp_all add: progress_def)

lemma progress_cong:
  "counters_left P v1 = counters_left P v \<Longrightarrow> owed v1 = owed v \<Longrightarrow>
     progress P base v1 out = progress P base v out"
  by (simp add: progress_def split: outcome.split)

lemma plan_failed_progress:
  assumes "plan_failed P w rs now subject withdrawn v failure = (w', out)"
    and "length (owed v) \<le> length (required_before_verdict P)"
  shows "progress P base v out"
  using assms
  by (auto simp: plan_failed_def Let_def split: planner_failure.splits if_splits option.splits prod.splits
      intro!: progress_spends counters_left_spent)

lemma remediate_gates_progress:
  assumes "length (owed v) \<le> length (required_before_verdict P)"
  shows "progress P base v (remediate_gates rs now subject v hs reason)"
  using assms
  by (auto simp: remediate_gates_def split: list.splits if_splits option.splits intro!: progress_spends counters_left_spent)

lemma refuse_unproven_verdict_progress:
  assumes "refuse_unproven_verdict P w rs now subject v step = Some (w', out)"
  shows "progress P base v out"
  using assms missing_required_reads_length
  by (auto simp: refuse_unproven_verdict_def Let_def split: if_splits prod.splits intro!: progress_spends counters_left_spent)

lemma cached_read_iff: "is_cached_read tool \<longleftrightarrow> tool = ''get_consumer_lag''"
  by (simp add: is_cached_read_def cached_read_freshness_seconds_def)

lemma freshness_reprobe_progress:
  assumes "freshness_reprobe P w rs now v tool raw killed = (w', out)"
    and "is_cached_read tool" and "reprobes_spent v tool < reprobe_attempts P"
    and "length (owed v) \<le> length (required_before_verdict P)"
  shows "progress P base v out"
  using assms
  by (auto simp: freshness_reprobe_def Let_def cached_read_iff split: if_splits prod.splits sum.splits
      intro!: progress_spends counters_left_spent)

lemma paid_read:
  assumes "execute_probe P w rs now tool raw = (w', Inr rs')" and "state rs' \<noteq> ESCALATED"
    and "pays_an_owed_read (inv_libs P) tool raw rds"
  shows "\<exists>r\<in>set rds. required_read_made rs' r"
  using assms(1)
proof (cases rule: execute_probe_cases)
  case (escalated r)
  with assms(2) show ?thesis by simp
next
  case (reading args v)
  with assms(3) obtain r where "r \<in> set rds" "counts_as r tool args"
    by (auto simp: pays_an_owed_read_def)
  with reading(3) show ?thesis by (auto simp: required_read_made_def)
qed

lemma probe_step_progress:
  assumes "probe_step P w rs now subject withdrawn v tool raw = (w', out)"
    and "grew base rs" and "still_owed base (owed v) = owed v"
    and "length (owed v) \<le> length (required_before_verdict P)"
  shows "progress P base v out"
proof -
  have done_or_spent: "progress P base v out" if "\<nexists>rs1 w1. out = Again rs1 (v\<lparr>last_probe := Some (tool, raw)\<rparr>)
      \<and> execute_probe P w rs now tool raw = (w1, Inr rs1) \<and> state rs1 \<noteq> ESCALATED
      \<and> (owed v \<noteq> [] \<longrightarrow> pays_an_owed_read (inv_libs P) tool raw (owed v))"
    using assms(1,4) that
    by (auto simp: probe_step_def Let_def split: if_splits option.splits prod.splits sum.splits
        intro!: progress_spends counters_left_spent)
  moreover have "progress P base v out" if "\<exists>rs1 w1. out = Again rs1 (v\<lparr>last_probe := Some (tool, raw)\<rparr>)
      \<and> execute_probe P w rs now tool raw = (w1, Inr rs1) \<and> state rs1 \<noteq> ESCALATED
      \<and> (owed v \<noteq> [] \<longrightarrow> pays_an_owed_read (inv_libs P) tool raw (owed v))"
  proof -
    from that obtain rs1 w1 where out: "out = Again rs1 (v\<lparr>last_probe := Some (tool, raw)\<rparr>)"
      and ex: "execute_probe P w rs now tool raw = (w1, Inr rs1)" "state rs1 \<noteq> ESCALATED"
      and pays: "owed v \<noteq> [] \<Longrightarrow> pays_an_owed_read (inv_libs P) tool raw (owed v)" by blast
    have sub: "set (evidence base) \<subseteq> set (evidence rs1)"
      using grew_trans[OF assms(2) execute_probe_frame(1)[OF ex(1)]] by (rule grew_evidence)
    have "length (still_owed rs1 (owed v)) < length (still_owed base (owed v))" if "owed v \<noteq> []"
    proof -
      from paid_read[OF ex pays[OF that]] assms(3) obtain r
        where "r \<in> set (still_owed base (owed v))" "required_read_made rs1 r" by auto
      then show ?thesis by (rule still_owed_paid[OF sub])
    qed
    then show ?thesis using out assms(4) by (auto simp: progress_def counters_left_def)
  qed
  ultimately show ?thesis by blast
qed

lemma act_on_step_progress:
  assumes "act_on_step P w rs now subject withdrawn v step = (w', out)"
    and "grew base rs" and "still_owed base (owed v) = owed v"
    and "length (owed v) \<le> length (required_before_verdict P)"
  shows "progress P base v out"
  using assms
  by (auto simp: act_on_step_def remediate_gates_progress split: next_action.splits option.splits
      dest: refuse_unproven_verdict_progress probe_step_progress)

lemma step_accepted_progress:
  assumes "step_accepted P w rs now subject withdrawn v prior step = (w', out)"
    and "grew base rs" and "still_owed base (owed v) = owed v"
    and "length (owed v) \<le> length (required_before_verdict P)"
  shows "progress P base v out"
  using assms(1)
proof (cases rule: step_accepted_cases)
  case (act v1)
  obtain n where v1: "v1 = v\<lparr>settled_steps := n\<rparr>" using act(2) by blast
  with act(1) assms(2-) have "progress P base v1 out" by (intro act_on_step_progress) simp_all
  moreover have "progress P base v1 out = progress P base v out"
    by (rule progress_cong) (simp_all add: v1)
  ultimately show ?thesis by simp
next
  case (reprobe v1 tool raw killed)
  obtain n where v1: "v1 = v\<lparr>settled_steps := n\<rparr>" using reprobe(2) by blast
  with reprobe assms(4) have "progress P base v1 out" by (intro freshness_reprobe_progress) simp_all
  moreover have "progress P base v1 out = progress P base v out"
    by (rule progress_cong) (simp_all add: v1)
  ultimately show ?thesis by simp
qed

text \<open>Counting the pass: a counted pass spends a counter, an uncounted one has reads to pay.\<close>

lemma count_step_progress:
  assumes "count_step P w rs now subject v = (w1, rs1, v1, False)"
    and "length (owed v) \<le> length (required_before_verdict P)"
  shows "length (owed v1) \<le> length (required_before_verdict P)"
    and "still_owed rs (owed v1) = owed v1"
    and "counters_left P v1 < counters_left P v
      \<or> (counters_left P v1 = counters_left P v \<and> owed v1 \<noteq> [] \<and> owed v1 = still_owed rs (owed v))"
proof -
  have still: "length (still_owed rs (owed v)) \<le> length (required_before_verdict P)"
    using assms(2) length_filter_le unfolding still_owed_def by (rule le_trans [rotated])
  show "length (owed v1) \<le> length (required_before_verdict P)"
    using assms still missing_required_reads_length
    by (auto simp: count_step_def Let_def split: if_splits prod.splits)
  show "still_owed rs (owed v1) = owed v1"
    using assms missing_still_owed
    by (auto simp: count_step_def Let_def still_owed_def split: if_splits prod.splits)
  show "counters_left P v1 < counters_left P v
      \<or> (counters_left P v1 = counters_left P v \<and> owed v1 \<noteq> [] \<and> owed v1 = still_owed rs (owed v))"
    using assms
    by (auto simp: count_step_def Let_def counters_left_spent split: if_splits prod.splits)
qed

text \<open>The potential of a pass: the counters first, then the reads still to pay.\<close>

definition potential :: "'w investigator \<Rightarrow> run_state \<Rightarrow> loop_vars \<Rightarrow> nat" where
  "potential P rs v =
     counters_left P v * (length (required_before_verdict P) + 1) + length (still_owed rs (owed v))"

lemma potential_decreases:
  assumes "progress P rs v1 (Again rs' v')"
    and "counters_left P v1 < counters_left P v
      \<or> (counters_left P v1 = counters_left P v \<and> owed v1 \<noteq> [] \<and> owed v1 = still_owed rs (owed v))"
    and "still_owed rs (owed v1) = owed v1"
  shows "potential P rs' v' < potential P rs v"
proof -
  let ?n = "length (required_before_verdict P)"
  have "length (owed v') \<le> ?n" using assms(1) by (simp add: progress_def)
  then have few: "length (still_owed rs' (owed v')) \<le> ?n"
    unfolding still_owed_def by (rule le_trans[OF length_filter_le])
  have down: "potential P rs' v' < potential P rs v" if "counters_left P v' < counters_left P v"
  proof -
    from that have "Suc (counters_left P v') * (?n + 1) \<le> counters_left P v * (?n + 1)"
      by (intro mult_le_mono1) simp
    with few show ?thesis by (simp add: potential_def)
  qed
  show ?thesis
  proof (cases "counters_left P v' < counters_left P v")
    case True
    then show ?thesis by (rule down)
  next
    case False
    with assms show ?thesis by (auto simp: progress_def potential_def)
  qed
qed

context investigation_strategy
begin

lemma one_step_progress:
  assumes P: "strategy P = plan" and "one_step P w rs now subject v = (w', Again rs' v')"
    and few: "length (owed v) \<le> length (required_before_verdict P)"
  shows "potential P rs' v' < potential P rs v" and "length (owed v') \<le> length (required_before_verdict P)"
proof -
  from assms(2) obtain v1 where pr: "progress P rs v1 (Again rs' v')"
    and c: "counters_left P v1 < counters_left P v
      \<or> (counters_left P v1 = counters_left P v \<and> owed v1 \<noteq> [] \<and> owed v1 = still_owed rs (owed v))"
    and o: "still_owed rs (owed v1) = owed v1"
  proof (cases rule: one_step_cases)
    case (planned w1 rs1 v1 rs2 w2 answer)
    note c = count_step_progress[OF planned(1) few]
    have g: "grew rs rs2" using count_step_frame[OF planned(1)] planned(2) grew_trans by auto
    have "progress P rs v1 (Again rs' v')"
    proof (cases answer)
      case (Inl failure)
      with planned(6) have "plan_failed P w2 rs2 now subject (withdraw_probe rs1 subject v1) v1 failure
          = (w', Again rs' v')" by simp
      then show ?thesis using c(1) by (rule plan_failed_progress)
    next
      case (Inr p)
      obtain rs3 step where p: "p = (rs3, step)" by fastforce
      with Inr planned(5) P have s: "plan w1 rs2 now (step_model (owed_tools (owed v1))
          (withdraw_probe rs1 subject v1 = None)) (iteration v1 - 1) = (w2, Inr (rs3, step))" by simp
      have "grew rs rs3" using g plan_grows[OF s] by (rule grew_trans)
      moreover from Inr p planned(6) have "step_accepted P w2 rs3 now subject (withdraw_probe rs1 subject v1) v1
          (hypotheses rs2) step = (w', Again rs' v')" by simp
      ultimately show ?thesis using c(1,2) by (intro step_accepted_progress)
    qed
    with c(2,3) that show thesis by blast
  qed (use that in auto)
  from potential_decreases[OF pr c o] show "potential P rs' v' < potential P rs v" .
  from pr show "length (owed v') \<le> length (required_before_verdict P)" by (simp add: progress_def)
qed

lemma investigate_loop_ends:
  assumes P: "strategy P = plan"
  shows "potential P rs v < n \<Longrightarrow> length (owed v) \<le> length (required_before_verdict P) \<Longrightarrow>
    investigate_loop P n w rs now subject v \<noteq> None"
proof (induction n arbitrary: w rs v)
  case (Suc n)
  show ?case
  proof (cases "one_step P w rs now subject v")
    case (Pair w1 out)
    show ?thesis
    proof (cases out)
      case (Again rs1 v1)
      with one_step_progress[OF P _ Suc.prems(2)] Pair Suc.prems(1)
      have "potential P rs1 v1 < n" "length (owed v1) \<le> length (required_before_verdict P)"
        by fastforce+
      with Suc.IH Pair Again show ?thesis by auto
    qed (use Pair in auto)
  qed
qed simp

lemma step_bound_enough:
  assumes "strategy P = plan"
  shows "investigate_loop P (step_bound P) w rs now subject initial_vars \<noteq> None"
  by (rule investigate_loop_ends[OF assms])
    (simp_all add: potential_def counters_left_def initial_vars_def step_bound_def still_owed_def
      allowances algebra_simps)

lemma transition_llm_investigate_loop:
  assumes "strategy P = plan"
  shows "investigate_loop P (step_bound P) w rs now (alert_subject (alert rs)) initial_vars
    = Some (transition_llm_investigate P w rs now)"
  using step_bound_enough[OF assms, of w rs now "alert_subject (alert rs)"]
  by (auto simp: transition_llm_investigate_def)

lemma transition_llm_investigate_ok:
  assumes "strategy P = plan" and "transition_llm_investigate P w rs now = (w', Inr rs')"
    and "state rs = INVESTIGATING"
  shows "grew rs rs'" and "state rs' = ESCALATED \<or> state rs' = PLANNING"
    and "state rs' = PLANNING \<Longrightarrow> planning_gate (required_before_verdict P) rs'"
proof -
  have "investigate_loop P (step_bound P) w rs now (alert_subject (alert rs)) initial_vars
      = Some (w', Inr rs')"
    using transition_llm_investigate_loop[OF assms(1)] assms(2) by simp
  from investigate_loop_ok[OF assms(1) this assms(3)]
  show "grew rs rs'" and "state rs' = ESCALATED \<or> state rs' = PLANNING"
    and "state rs' = PLANNING \<Longrightarrow> planning_gate (required_before_verdict P) rs'"
    by (auto simp: outcome_ok_def)
qed

end

subsection \<open>Only READ tools are called\<close>

text \<open>
  Two platforms that answer READ tools alike cannot be told apart by an investigation: no other
  tool is ever called, whatever the model answers.
\<close>

definition agree_on_reads ::
    "('w \<Rightarrow> string \<Rightarrow> dict \<Rightarrow> 'w \<times> mcp_reply) \<Rightarrow> ('w \<Rightarrow> string \<Rightarrow> dict \<Rightarrow> 'w \<times> mcp_reply) \<Rightarrow> bool" where
  "agree_on_reads c c' = (\<forall>w args. \<forall>tool\<in>set read_tools. c w tool args = c' w tool args)"

lemma call_tool_update:
  "call_tool (P\<lparr>call_tool := c\<rparr>) = c" "inv_libs (P\<lparr>call_tool := c\<rparr>) = inv_libs P"
  "sleep (P\<lparr>call_tool := c\<rparr>) = sleep P" "planner_log (P\<lparr>call_tool := c\<rparr>) = planner_log P"
  "strategy (P\<lparr>call_tool := c\<rparr>) = strategy P" "planner_model (P\<lparr>call_tool := c\<rparr>) = planner_model P"
  "thinking_tool (P\<lparr>call_tool := c\<rparr>) = thinking_tool P"
  "max_iterations (P\<lparr>call_tool := c\<rparr>) = max_iterations P"
  "reprobe_attempts (P\<lparr>call_tool := c\<rparr>) = reprobe_attempts P"
  "reprobe_delay_seconds (P\<lparr>call_tool := c\<rparr>) = reprobe_delay_seconds P"
  "required_before_verdict (P\<lparr>call_tool := c\<rparr>) = required_before_verdict P"
  by simp_all

lemma execute_probe_reads:
  assumes "agree_on_reads c c'"
  shows "execute_probe (P\<lparr>call_tool := c\<rparr>) w rs now tool raw = execute_probe (P\<lparr>call_tool := c'\<rparr>) w rs now tool raw"
proof (cases "tier_of tool = Inr READ")
  case True
  with assms have same: "c w tool = c' w tool"
    by (auto simp: agree_on_reads_def tier_of_READ_iff)
  show ?thesis unfolding execute_probe_def call_tool_update same ..
next
  case False
  then show ?thesis by (cases "tier_of tool") (simp_all add: execute_probe_def)
qed

lemma one_step_reads:
  assumes "agree_on_reads c c'"
  shows "one_step (P\<lparr>call_tool := c\<rparr>) = one_step (P\<lparr>call_tool := c'\<rparr>)"
proof -
  let ?P = "P\<lparr>call_tool := c\<rparr>" and ?Q = "P\<lparr>call_tool := c'\<rparr>"
  have probe: "execute_probe ?P = execute_probe ?Q"
    by (intro ext execute_probe_reads[OF assms])
  have verdict: "record_verdict_refusal ?P = record_verdict_refusal ?Q"
    by (intro ext) (unfold record_verdict_refusal_def call_tool_update, rule refl)
  have failed: "plan_failed ?P = plan_failed ?Q"
    by (intro ext) (unfold plan_failed_def call_tool_update verdict, rule refl)
  have reprobe: "freshness_reprobe ?P = freshness_reprobe ?Q"
    by (intro ext) (unfold freshness_reprobe_def call_tool_update probe, rule refl)
  have unproven: "refuse_unproven_verdict ?P = refuse_unproven_verdict ?Q"
    by (intro ext) (unfold refuse_unproven_verdict_def call_tool_update verdict, rule refl)
  have step: "probe_step ?P = probe_step ?Q"
    by (intro ext) (unfold probe_step_def call_tool_update probe verdict, rule refl)
  have act: "act_on_step ?P = act_on_step ?Q"
    by (intro ext) (unfold act_on_step_def step unproven, rule refl)
  have accepted: "step_accepted ?P = step_accepted ?Q"
    by (intro ext) (unfold step_accepted_def log_ranking_def call_tool_update act reprobe, rule refl)
  have count: "count_step ?P = count_step ?Q"
    by (intro ext) (unfold count_step_def call_tool_update verdict, rule refl)
  show ?thesis
    by (intro ext) (unfold one_step_def call_tool_update count failed accepted, rule refl)
qed

lemma investigation_reads:
  assumes "agree_on_reads c c'"
  shows "transition_llm_investigate (P\<lparr>call_tool := c\<rparr>) = transition_llm_investigate (P\<lparr>call_tool := c'\<rparr>)"
proof -
  have "investigate_loop (P\<lparr>call_tool := c\<rparr>) n w rs now subject v
      = investigate_loop (P\<lparr>call_tool := c'\<rparr>) n w rs now subject v" for n w rs now subject v
    by (induction n arbitrary: w rs v)
      (simp_all add: one_step_reads[OF assms] split: prod.split outcome.split)
  then show ?thesis
    by (intro ext) (unfold transition_llm_investigate_def step_bound_def call_tool_update, simp)
qed

end
