(* ===== verification/Planning_Facts.thy ===== *)
theory Planning_Facts
  imports Planning Investigation_Facts
begin

text \<open>
  What PLANNING guarantees: it ends within six planner calls, it only appends bookkeeping rows,
  and a run it hands to REMEDIATING carries a stored plan that every guard admits on the very
  ledger it leaves.
\<close>

subsection \<open>The contract\<close>

definition plan_admissible :: "libs \<Rightarrow> remediation_plan \<Rightarrow> run_state \<Rightarrow> bool" where
  "plan_admissible L p rs =
     (action_tool p \<in> set tier_1_tools \<and> verify_tool p \<in> set read_tools
      \<and> absent_resource_args p = [] \<and> malformed_resource_args p = []
      \<and> unsourced_resource_args p (evidence_value_corpus rs @ declared_services_read rs) = []
      \<and> misdirected_verify_args p = []
      \<and> repeated_attempt L p rs = None
      \<and> unaddressed_alert_subject p rs = None
      \<and> cleared_before_action p rs = None
      \<and> unread_action_rows p rs = None
      \<and> unlisted_action_scope p rs = None
      \<and> unobserved_action_resource p = [])"

text \<open>A bookkeeping row leaves every guard's answer unchanged.\<close>

definition bookkeeping :: "evidence_entry \<Rightarrow> bool" where
  "bookkeeping e = (is_marker (tool_name e) \<and> json_loads (result_summary e) = None)"

lemma bookkeeping_tools:
  "bookkeeping e \<Longrightarrow> tool_name e \<notin> set tier_1_tools" "bookkeeping e \<Longrightarrow> tool_name e \<notin> set read_tools"
  by (auto simp: bookkeeping_def tier_1_tools_def read_tools_def)

lemma bookkeeping_parsed [simp]: "bookkeeping e \<Longrightarrow> parsed_reading e = None"
  by (simp add: bookkeeping_def parsed_reading_def parsed_mapping_def)

lemma bookkeeping_rows [simp]: "bookkeeping e \<Longrightarrow> rows_of_reading e f = []"
  by (simp add: rows_of_reading_def)

lemma bookkeeping_readings:
  assumes "bookkeeping e" and "reading \<in> set declared_readings"
  shows "readings_of (es @ [e]) reading r = readings_of es reading r"
proof -
  have "rr_tool reading \<in> set read_tools"
    using assms(2) by (auto simp: declared_readings_def recovered_reading_table_def cache_key_recovered_def
        read_tools_def)
  with bookkeeping_tools(2)[OF assms(1)] show ?thesis
    by (auto simp: readings_of_def enumerate_append_eq)
qed

lemma guards_ignore_bookkeeping:
  assumes "bookkeeping e" and "evidence rs' = evidence rs @ [e]" and "alert rs' = alert rs"
  shows "plan_admissible L p rs' = plan_admissible L p rs"
proof -
  note [simp] = bookkeeping_tools[OF assms(1)] assms(2,3)
  from assms(1) have json [simp]: "json_loads (result_summary e) = None" by (simp add: bookkeeping_def)
  have tools: "''list_dlq_messages'' \<noteq> tool_name e" "''get_dag_state'' \<noteq> tool_name e"
      "''get_consumer_lag'' \<noteq> tool_name e"
    using bookkeeping_tools(2)[OF assms(1)] by (auto simp: read_tools_def)
  have corpus: "evidence_value_corpus rs' = evidence_value_corpus rs"
    by (simp add: evidence_value_corpus_def)
  have svc: "service_read rs' c = service_read rs c" if "c \<in> set (chain_services_for_subject t)" for c t
    using that tools by (auto simp: service_read_def chain_services_for_subject_def entries_for_def
        split: option.splits if_splits)
  have declared: "declared_services_read rs' = declared_services_read rs"
    using svc by (auto simp: declared_services_read_def split: option.splits intro!: arg_cong[where f = "map cs_value"] filter_cong)
  have "attempted_calls L rs' = attempted_calls L rs"
    by (simp add: attempted_calls_def)
  then have repeated: "repeated_attempt L p rs' = repeated_attempt L p rs"
    by (simp only: repeated_attempt_def)
  have nodes: "graph_nodes_in_evidence (evidence rs') s = graph_nodes_in_evidence (evidence rs) s" for s
    using tools assms(1) by (auto simp: graph_nodes_in_evidence_def split: option.splits)
  have chain: "chain_services_read p rs' s = chain_services_read p rs s" for s
    using svc by (auto simp: chain_services_read_def intro!: arg_cong[where f = "map cs_value"] filter_cong)
  have decisions: "row_decisions (evidence rs') s = row_decisions (evidence rs) s" for s
    using assms(1) by (simp add: row_decisions_def)
  have subject: "unaddressed_alert_subject p rs' = unaddressed_alert_subject p rs"
    unfolding unaddressed_alert_subject_def unaddressed_resource_def unaddressed_slice_def
      nodes chain decisions using assms(3) by simp
  have "find (\<lambda>(r, reading). let seen = readings_of (evidence rs') reading r in
             seen \<noteq> [] \<and> reads_recovered (snd (last seen)) reading = Some True) xs
      = find (\<lambda>(r, reading). let seen = readings_of (evidence rs) reading r in
             seen \<noteq> [] \<and> reads_recovered (snd (last seen)) reading = Some True) xs"
    if "snd ` set xs \<subseteq> set declared_readings" for xs
    using that by (induction xs) (auto simp: bookkeeping_readings[OF assms(1)])
  then have "already_recovered (evidence rs') t a = already_recovered (evidence rs) t a" for t a
    by (simp add: already_recovered_def image_UN image_image)
  then have cleared: "cleared_before_action p rs' = None \<longleftrightarrow> cleared_before_action p rs = None"
    by (simp add: cleared_before_action_def Let_def split: option.splits)
  have rows: "rows_read_for rs' s = rows_read_for rs s" for s
    using assms(1) by (simp add: rows_read_for_def)
  have unread: "unread_action_rows p rs' = unread_action_rows p rs"
    unfolding unread_action_rows_def rows[abs_def] by simp
  have "is_reading e s = False" for s
    using assms(1) by (simp add: is_reading_def)
  then have unlisted: "unlisted_action_scope p rs' = None \<longleftrightarrow> unlisted_action_scope p rs = None"
    by (auto simp: unlisted_action_scope_def split: list.splits if_splits)
  show ?thesis
    by (simp only: plan_admissible_def corpus declared repeated subject cleared unread unlisted)
qed

subsection \<open>One pass\<close>

lemma refusal_rows [simp]:
  "grew rs (refuse_arguments rs now r)" "state (refuse_arguments rs now r) = state rs"
  "grew rs (refuse_subject_target rs now p m)" "state (refuse_subject_target rs now p m) = state rs"
  "grew rs (refuse_unread_rows rs now p s u)" "state (refuse_unread_rows rs now p s u) = state rs"
  "grew rs (refuse_unlisted_category rs now p l x)" "state (refuse_unlisted_category rs now p l x) = state rs"
  "grew rs (refuse_plan rs now p ps)" "state (refuse_plan rs now p ps) = state rs"
  by (simp_all add: refuse_arguments_def refuse_subject_target_def refuse_unread_rows_def
      refuse_unlisted_category_def refuse_plan_def)

lemma escalate_plan_simps [simp]:
  "grew rs (escalate_plan rs now r)" "state (escalate_plan rs now r) = ESCALATED"
  by (simp_all add: escalate_remediation_def Let_def)

lemma escalate_remediation_state [simp]: "state (escalate_remediation rs now r a x) = ESCALATED"
  by (simp add: escalate_remediation_def Let_def)

lemma refuse_cleared_simps [simp]:
  "grew rs (refuse_cleared_before_action rs now p m)"
  "state (refuse_cleared_before_action rs now p m) = ESCALATED"
  unfolding refuse_cleared_before_action_def
  by (auto simp: escalate_remediation_def Let_def intro: grew_trans[OF mark_grows grew_mark_with_state])

definition plan_step_ok :: "libs \<Rightarrow> run_state \<Rightarrow> plan_step \<Rightarrow> bool" where
  "plan_step_ok L rs out =
     (case out of
        Ask_again rs' _ \<Rightarrow> grew rs rs' \<and> state rs' = state rs
      | Planned rs' p \<Rightarrow> grew rs rs' \<and> plan_admissible L p rs' \<and> valid_plan p
      | Plan_over rs' \<Rightarrow> grew rs rs' \<and> state rs' = ESCALATED
      | Plan_threw _ \<Rightarrow> True)"

lemma plan_step_ok_trans:
  "grew rs rs1 \<Longrightarrow> state rs1 = state rs \<Longrightarrow> plan_step_ok L rs1 out \<Longrightarrow> plan_step_ok L rs out"
  by (cases out) (auto simp: plan_step_ok_def intro: grew_trans)

lemma ask_again_or_stop_ok:
  "grew rs rs' \<Longrightarrow> state rs' = state rs \<Longrightarrow> plan_step_ok L rs (ask_again_or_stop rs' now what v)"
  by (auto simp: plan_step_ok_def ask_again_or_stop_def intro: grew_trans)

lemma check_output_stands:
  "check_output L rs now p = Plan_stands q \<Longrightarrow> q = p
     \<and> action_tool p \<in> set tier_1_tools \<and> verify_tool p \<in> set read_tools
     \<and> absent_resource_args p = [] \<and> malformed_resource_args p = []
     \<and> unsourced_resource_args p (evidence_value_corpus rs @ declared_services_read rs) = []
     \<and> misdirected_verify_args p = []"
  by (auto simp: check_output_def Let_def guard_simps split: if_splits)

lemma check_output_escalates:
  "check_output L rs now p = Plan_escalates rs' \<Longrightarrow> grew rs rs' \<and> state rs' = ESCALATED"
  by (auto simp: check_output_def Let_def split: if_splits)

lemma judge_plan_ok:
  assumes "check_output L rs now p = Plan_stands p" and "valid_plan p"
  shows "plan_step_ok L rs (judge_plan L rs now p v)"
proof -
  have over: "plan_step_ok L rs (Plan_over (escalate_plan rs now r))"
    "plan_step_ok L rs (Plan_over (refuse_cleared_before_action rs now p m))" for r m
    by (simp_all add: plan_step_ok_def)
  have ok: "plan_step_ok L rs (Planned rs p)"
    if "repeated_attempt L p rs = None" "unaddressed_alert_subject p rs = None"
      "cleared_before_action p rs = None" "unread_action_rows p rs = None"
      "unlisted_action_scope p rs = None" "unobserved_action_resource p = []"
    using that check_output_stands[OF assms(1)] assms(2)
    by (simp add: plan_step_ok_def plan_admissible_def)
  show ?thesis
    unfolding judge_plan_def Let_def
    by (simp add: over ok ask_again_or_stop_ok split: option.split prod.split)
qed

lemma plan_client_valid: "plan_client P rs target w q = (w', Inr (p, u)) \<Longrightarrow> valid_plan p"
  by (auto simp: plan_client_def split: prod.splits plan_reply.splits option.splits
      dest: validate_plan_valid)

text \<open>Charging the planner's bill moves no guard: guards read the ledger and the alert only.\<close>

lemma plan_once_cases:
  assumes "plan_once P w rs now target = (w', rs1, out)"
  shows "grew rs rs1 \<and> state rs1 = state rs
    \<and> (case out of
         Plan_stands p \<Rightarrow> valid_plan p \<and> check_output (rem_libs P) rs1 now p = Plan_stands p
       | Plan_escalates rs2 \<Rightarrow> grew rs1 rs2 \<and> state rs2 = ESCALATED
       | _ \<Rightarrow> True)"
proof (cases "call_with_output_repair (plan_client P rs target) w")
  case (Pair w1 res)
  show ?thesis
  proof (cases res)
    case (Inl err)
    with Pair assms show ?thesis
      by (cases err) (auto simp: plan_once_def Let_def intro!: grew_budget)
  next
    case (Inr call)
    from Pair Inr obtain w0 q u where "plan_client P rs target w0 q = (w1, Inr (call_output call, u))"
      unfolding call_with_output_repair_def by (blast dest: ask_again_InrD)
    then have v: "valid_plan (call_output call)" by (rule plan_client_valid)
    let ?rs1 = "rs\<lparr>budget := accrue_structured_call (budget rs) call (rem_model P)\<rparr>"
    have g: "grew rs ?rs1" by (rule grew_budget) simp_all
    from Pair Inr assms have "rs1 = ?rs1"
      and out: "out = check_output (rem_libs P) ?rs1 now (call_output call)"
      by (auto simp: plan_once_def Let_def)
    with g v show ?thesis
      by (auto split: plan_outcome.split dest: check_output_escalates check_output_stands)
  qed
qed

lemma plan_pass_ok:
  assumes "plan_pass P w rs now target v = (w', out)"
  shows "plan_step_ok (rem_libs P) rs out"
proof -
  obtain w1 rs1 o1 where once: "plan_once P w rs now target = (w1, rs1, o1)"
    by (metis prod_cases3)
  note c = plan_once_cases[OF once]
  from c have g: "grew rs rs1" "state rs1 = state rs" by auto
  show ?thesis
  proof (cases o1)
    case (Plan_stands p)
    with c have "plan_step_ok (rem_libs P) rs1 (judge_plan (rem_libs P) rs1 now p v)"
      by (auto intro: judge_plan_ok)
    with Plan_stands once assms plan_step_ok_trans[OF g] show ?thesis by (auto simp: plan_pass_def)
  next
    case (Plan_escalates rs2)
    with c once assms g show ?thesis by (auto simp: plan_pass_def plan_step_ok_def intro: grew_trans)
  next
    case (Plan_arguments r)
    have "plan_step_ok (rem_libs P) rs1 (argument_step rs1 now r v)"
      by (auto simp: argument_step_def intro!: ask_again_or_stop_ok) (auto simp: plan_step_ok_def)
    with Plan_arguments once assms plan_step_ok_trans[OF g] show ?thesis by (auto simp: plan_pass_def)
  next
    case (Plan_raises err)
    with once assms show ?thesis by (auto simp: plan_pass_def plan_step_ok_def)
  qed
qed

subsection \<open>The loop ends, and how\<close>

definition allowance_left :: "plan_vars \<Rightarrow> nat" where
  "allowance_left v =
     (1 - verify_refusals v) + (1 - unread_refusals v) + (1 - unlisted_refusals v)
     + (1 - argument_refusals v) + (1 - subject_refusals v)"

lemma ask_again_or_stop_vars: "ask_again_or_stop rs now what v = Ask_again rs' v' \<Longrightarrow> v' = v"
  by (simp add: ask_again_or_stop_def split: if_splits)

lemma judge_plan_spends:
  "judge_plan L rs now p v = Ask_again rs' v' \<Longrightarrow> allowance_left v' < allowance_left v"
  by (auto simp: judge_plan_def Let_def allowance_left_def split: option.splits prod.splits if_splits
      dest!: ask_again_or_stop_vars)

lemma plan_pass_spends:
  "plan_pass P w rs now target v = (w', Ask_again rs' v') \<Longrightarrow> allowance_left v' < allowance_left v"
  by (auto simp: plan_pass_def argument_step_def split: prod.splits plan_outcome.splits if_splits
      dest: judge_plan_spends dest!: ask_again_or_stop_vars)
    (simp add: allowance_left_def)

lemma plan_loop_ends: "allowance_left v < n \<Longrightarrow> plan_loop P n w rs now target v \<noteq> None"
proof (induction n arbitrary: w rs v)
  case (Suc n)
  show ?case
  proof (cases "plan_pass P w rs now target v")
    case (Pair w1 out)
    show ?thesis
    proof (cases out)
      case (Ask_again rs1 v1)
      with Pair have "allowance_left v1 < allowance_left v" by (simp add: plan_pass_spends)
      with Suc.prems have "allowance_left v1 < n" by simp
      from Suc.IH[OF this] Pair Ask_again show ?thesis by simp
    qed (use Pair in simp_all)
  qed
qed simp

lemma plan_calls_enough: "plan_loop P max_plan_calls w rs now target initial_plan_vars \<noteq> None"
  by (rule plan_loop_ends) (simp add: allowance_left_def initial_plan_vars_def max_plan_calls_def)

lemma plan_loop_ok:
  "plan_loop P n w rs now target v = Some (w', Inr rs') \<Longrightarrow>
     (grew rs rs' \<and> state rs' = ESCALATED)
     \<or> (\<exists>rs1 p. grew rs rs1 \<and> valid_plan p \<and> plan_admissible (rem_libs P) p rs1 \<and> rs' = record_plan rs1 now p)"
proof (induction n arbitrary: w rs v)
  case (Suc n)
  show ?case
  proof (cases "plan_pass P w rs now target v")
    case (Pair w1 out)
    note ok = plan_pass_ok[OF Pair]
    show ?thesis
    proof (cases out)
      case (Ask_again rs1 v1)
      with ok have g: "grew rs rs1" by (simp add: plan_step_ok_def)
      from Ask_again Pair Suc.prems have "plan_loop P n w1 rs1 now target v1 = Some (w', Inr rs')" by simp
      from Suc.IH[OF this] show ?thesis
      proof (elim disjE exE conjE)
        assume "grew rs1 rs'" "state rs' = ESCALATED"
        with grew_trans[OF g] show ?thesis by simp
      next
        fix rs2 p
        assume "grew rs1 rs2" "valid_plan p" "plan_admissible (rem_libs P) p rs2" "rs' = record_plan rs2 now p"
        with grew_trans[OF g] show ?thesis by blast
      qed
    qed (use Suc.prems Pair ok in \<open>auto simp: plan_step_ok_def\<close>)
  qed
qed simp

lemma record_plan_simps [simp]:
  "state (record_plan rs now p) = REMEDIATING"
  "budget (record_plan rs now p) = budget rs"
  "remediation_attempts (record_plan rs now p) = remediation_attempts rs"
  "remediation_plan (record_plan rs now p) = Some (dump_plan p)"
  "alert (record_plan rs now p) = alert rs"
  by (simp_all add: record_plan_def mark_def with_state_def record_row_def)

lemma record_plan_run_le: "run_le rs (record_plan rs now p)"
  by (simp add: record_plan_def run_le_def mark_def)

lemma record_plan_admissible: "plan_admissible L q (record_plan rs now p) = plan_admissible L q rs"
  by (rule guards_ignore_bookkeeping) (auto simp: record_plan_def bookkeeping_def)

text \<open>A run leaves PLANNING escalated, or with an admissible stored plan and the means to run it.\<close>

lemma transition_plan_cases:
  assumes "transition_plan P w rs now = (w', Inr rs')"
  shows "(grew rs rs' \<and> state rs' = ESCALATED)
    \<or> (state rs' = REMEDIATING \<and> run_le rs rs' \<and> remediation_attempts rs' = remediation_attempts rs
       \<and> remediation_attempts rs < max_attempts P
       \<and> (\<exists>rs1 q. grew rs rs1 \<and> rs' = record_plan rs1 now q)
       \<and> (\<exists>p. load_plan rs' = Loaded p \<and> plan_admissible (rem_libs P) p rs'))"
proof -
  let ?n = "max_plan_calls"
  have "(grew rs rs' \<and> state rs' = ESCALATED) \<or> (remediation_attempts rs < max_attempts P
      \<and> (\<exists>target. plan_loop P ?n w rs now target initial_plan_vars = Some (w', Inr rs')))"
    using assms plan_calls_enough[of P w rs now]
    by (auto simp: transition_plan_def Let_def split: list.splits if_splits option.splits)
  then show ?thesis
  proof
    assume r: "remediation_attempts rs < max_attempts P
      \<and> (\<exists>target. plan_loop P ?n w rs now target initial_plan_vars = Some (w', Inr rs'))"
    then obtain target where "plan_loop P ?n w rs now target initial_plan_vars = Some (w', Inr rs')" by blast
    from plan_loop_ok[OF this] show ?thesis
    proof
      assume "\<exists>rs1 p. grew rs rs1 \<and> valid_plan p \<and> plan_admissible (rem_libs P) p rs1 \<and> rs' = record_plan rs1 now p"
      then obtain rs1 p where p: "grew rs rs1" "valid_plan p" "plan_admissible (rem_libs P) p rs1"
        and rs': "rs' = record_plan rs1 now p" by blast
      have "load_plan rs' = Loaded p" using p(2) by (simp add: load_plan_def rs' validate_dump_plan)
      moreover have "plan_admissible (rem_libs P) p rs'" using p(3) by (simp add: rs' record_plan_admissible)
      moreover have "run_le rs rs'"
        unfolding rs' using grew_run_le[OF p(1)] record_plan_run_le by (rule run_le_trans)
      moreover have "remediation_attempts rs' = remediation_attempts rs" using p(1) by (auto simp: rs' grew_def)
      moreover have "\<exists>rs1 q. grew rs rs1 \<and> rs' = record_plan rs1 now q" using p(1) rs' by blast
      moreover have "state rs' = REMEDIATING" by (simp add: rs')
      ultimately show ?thesis using r by blast
    qed blast
  qed blast
qed

end
