(* ===== verification/Post_Action.thy ===== *)
theory Post_Action
  imports Attribution
begin

text \<open>
  \<^verbatim>\<open>agent/post_action.py\<close> (ADR 0077): a metric-shaped alert resolves only on a reading of the
  alerted subject that was measured after the action and is below the alert's threshold. \<open>parse_iso\<close> is
  \<open>datetime.fromisoformat\<close>, \<open>None\<close> where it raises or the time has no zone. Evidence ids are the
  rows' positions.
\<close>

record metric_reading =
  mr_tool :: string
  value_field :: string
  mr_known_field :: "string option"
  measured_at_field :: string
  age_field :: string
  samples_field :: string

definition metric_reading_for :: "string \<Rightarrow> metric_reading option" where
  "metric_reading_for tool =
     (if tool = ''get_consumer_lag''
      then Some \<lparr>mr_tool = ''get_consumer_lag'', value_field = ''lag'', mr_known_field = Some ''lag_known'',
                 measured_at_field = ''measured_at'', age_field = ''age_seconds'',
                 samples_field = ''recent_samples''\<rparr>
      else None)"

datatype gate_verdict = STALE_READING | ABOVE_THRESHOLD | WITHOUT_A_READING

fun gate_word :: "gate_verdict \<Rightarrow> string" where
  "gate_word STALE_READING = ''verified_on_stale_reading''"
| "gate_word ABOVE_THRESHOLD = ''verified_above_threshold''"
| "gate_word WITHOUT_A_READING = ''verified_without_a_reading''"

record metric_expectation =
  me_subject :: alert_subject
  me_reading :: metric_reading
  me_threshold :: rat

record reading_check =
  check_value :: "val option"
  check_measured_at :: "datetime option"
  check_action_at :: datetime
  after_action :: bool
  inside_threshold :: bool

definition number_of :: "val option \<Rightarrow> rat option" where
  "number_of v = (case v of Some x \<Rightarrow> json_number x | None \<Rightarrow> None)"

definition timestamp_of :: "(string \<Rightarrow> datetime option) \<Rightarrow> val option \<Rightarrow> datetime option" where
  "timestamp_of parse_iso v = (case v of Some (VStr s) \<Rightarrow> parse_iso s | _ \<Rightarrow> None)"

definition metric_expectation :: "dict \<Rightarrow> metric_expectation option" where
  "metric_expectation al =
     (case alert_subject al of
        None \<Rightarrow> None
      | Some s \<Rightarrow> (case metric_reading_for (subject_tool s) of
            None \<Rightarrow> None
          | Some reading \<Rightarrow>
              (let raw = (case get al ''threshold'' of
                     Some v \<Rightarrow> if v = VNull
                       then (case get al ''extra_data'' of Some (VDict d) \<Rightarrow> get d ''threshold'' | _ \<Rightarrow> None)
                       else Some v
                   | None \<Rightarrow> (case get al ''extra_data'' of Some (VDict d) \<Rightarrow> get d ''threshold'' | _ \<Rightarrow> None))
               in case number_of raw of
                    None \<Rightarrow> None
                  | Some q \<Rightarrow> Some \<lparr>me_subject = s, me_reading = reading, me_threshold = q\<rparr>)))"

text \<open>Microseconds; \<open>timedelta(seconds=age)\<close> rounds half to even, which \<open>round\<close> differs from only at ties.\<close>

definition platform_offset ::
    "(string \<Rightarrow> datetime option) \<Rightarrow> dict \<Rightarrow> metric_reading \<Rightarrow> datetime \<Rightarrow> int" where
  "platform_offset parse_iso parsed reading read_at =
     (case (timestamp_of parse_iso (get parsed (measured_at_field reading)),
            number_of (get parsed (age_field reading))) of
        (Some measured, Some age) \<Rightarrow> measured + round (age * 1000000) - read_at
      | _ \<Rightarrow> 0)"

definition check_reading ::
    "(string \<Rightarrow> datetime option) \<Rightarrow> evidence_entry \<Rightarrow> metric_expectation \<Rightarrow> datetime \<Rightarrow> reading_check" where
  "check_reading parse_iso e expectation action_at =
     (let reading = me_reading expectation;
          parsed = (case parsed_reading e of Some d \<Rightarrow> d | None \<Rightarrow> []);
          on_platform = action_at + platform_offset parse_iso parsed reading (timestamp e);
          measured = timestamp_of parse_iso (get parsed (measured_at_field reading));
          v = get parsed (value_field reading);
          known = (case mr_known_field reading of None \<Rightarrow> True | Some k \<Rightarrow> get parsed k = Some (VBool True));
          number = (if known then number_of v else None)
      in \<lparr>check_value = v, check_measured_at = measured, check_action_at = on_platform,
          after_action = (case measured of Some m \<Rightarrow> on_platform < m | None \<Rightarrow> False),
          inside_threshold = (case number of Some q \<Rightarrow> q < me_threshold expectation | None \<Rightarrow> False)\<rparr>)"

text \<open>The newest row of a kind, with its position.\<close>

definition newest :: "(evidence_entry \<Rightarrow> bool) \<Rightarrow> evidence_entry list \<Rightarrow> (nat \<times> evidence_entry) option" where
  "newest P es = find (\<lambda>(_, e). P e) (rev (enumerate 0 es))"

definition action_entry :: "evidence_entry list \<Rightarrow> (nat \<times> evidence_entry) option" where
  "action_entry es = newest (\<lambda>e. is_tier_one (tool_name e)) es"

definition last_subject_reading :: "run_state \<Rightarrow> alert_subject \<Rightarrow> (nat \<times> evidence_entry) option" where
  "last_subject_reading rs s =
     newest (\<lambda>e. tool_name e = subject_tool s \<and> names_the_subject (arguments e) s) (evidence rs)"

definition gate_miss ::
    "(string \<Rightarrow> datetime option) \<Rightarrow> run_state \<Rightarrow> metric_expectation \<Rightarrow> (gate_verdict \<times> summary) option" where
  "gate_miss parse_iso rs expectation =
     (case action_entry (evidence rs) of
        None \<Rightarrow> None
      | Some (i, action) \<Rightarrow>
          (let s = me_subject expectation;
               named = Say ''{}({}={})'' [Word (subject_tool s), Word (argument_field s), Word (subject_value s)]
           in case last_subject_reading rs s of
                None \<Rightarrow> Some (WITHOUT_A_READING, Say ''no reading of {} was taken after {} ran'' [named, Word (tool_name action)])
              | Some (j, reading) \<Rightarrow>
                  if j < i
                  then Some (WITHOUT_A_READING, Say ''no reading of {} was taken after {} ran'' [named, Word (tool_name action)])
                  else (let c = check_reading parse_iso reading expectation (timestamp action) in
                        if \<not> after_action c
                        then Some (STALE_READING, Say ''the last reading of {} was measured before {} ran''
                               (named # Word (tool_name action)
                                # (if inside_threshold c then [] else [Frac (me_threshold expectation)])))
                        else if \<not> inside_threshold c
                        then Some (ABOVE_THRESHOLD, Say ''the last reading of {} is not below the alert's threshold {}''
                               [named, Frac (me_threshold expectation)])
                        else None)))"

subsection \<open>What passing the gate means\<close>

lemma newest_Some:
  "newest P es = Some (i, e) \<Longrightarrow> i < length es \<and> e = es ! i \<and> P e \<and> (\<forall>j<length es. i < j \<longrightarrow> \<not> P (es ! j))"
proof -
  assume a: "newest P es = Some (i, e)"
  let ?xs = "rev (enumerate 0 es)"
  from a obtain k where k: "k < length ?xs" "?xs ! k = (i, e)" "P e"
    and before: "\<forall>m<k. \<not> (case ?xs ! m of (_, x) \<Rightarrow> P x)"
    by (auto simp: newest_def find_Some_iff)
  have at: "?xs ! m = (length es - Suc m, es ! (length es - Suc m))" if "m < length es" for m
    using that by (simp add: rev_nth nth_enumerate_eq)
  from k at[of k] have i: "i = length es - Suc k" "e = es ! i" by auto
  have "\<not> P (es ! j)" if "j < length es" "i < j" for j
  proof -
    from that i k have m: "length es - Suc j < k" "length es - Suc j < length es" by simp_all
    with before at[OF m(2)] that show ?thesis by auto
  qed
  with i k show ?thesis by simp
qed

lemma newest_None: "newest P es = None \<longleftrightarrow> (\<forall>e\<in>set es. \<not> P e)"
proof -
  have "newest P es = None \<longleftrightarrow> (\<forall>e\<in>set (map snd (enumerate 0 es)). \<not> P e)"
    by (auto simp: newest_def find_None_iff simp del: map_snd_enumerate)
  then show ?thesis by simp
qed

lemma gate_miss_cong:
  assumes "action_entry (evidence rs') = action_entry (evidence rs)"
    and "last_subject_reading rs' (me_subject x) = last_subject_reading rs (me_subject x)"
  shows "gate_miss i rs' x = gate_miss i rs x"
  unfolding gate_miss_def Let_def assms ..

lemma gate_miss_None:
  assumes "gate_miss parse_iso rs x = None" and "action_entry (evidence rs) = Some (i, action)"
  shows "\<exists>j reading. last_subject_reading rs (me_subject x) = Some (j, reading) \<and> i \<le> j
    \<and> after_action (check_reading parse_iso reading x (timestamp action))
    \<and> inside_threshold (check_reading parse_iso reading x (timestamp action))"
  using assms by (auto simp: gate_miss_def Let_def split: option.splits if_splits)

end
