(* ===== verification/Remediation.thy ===== *)
theory Remediation
  imports Planning_Facts Post_Action
begin

text \<open>
  REMEDIATING and VERIFYING of \<^verbatim>\<open>agent/remediation.py\<close>: the one Tier-1 call under its
  deterministic key, the verify polls with their judge, the ADR 0077 gate, the ADR 0026 stabilizer
  rule, the two questions in front of RESOLVED (ADR 0059), and the hand-back to INVESTIGATING
  (ADR 0056).
\<close>

subsection \<open>Executing the plan\<close>

definition transition_remediate :: "'w remediator \<Rightarrow> 'w transition" where
  "transition_remediate P w rs now =
     (case load_plan rs of
        Invalid_plan \<Rightarrow> (w, Inr (escalate_plan rs now (Word ''stored plan invalid'')))
      | No_plan \<Rightarrow> (w, Inr (escalate_plan rs now (Word ''REMEDIATING entered with no remediation_plan'')))
      | Loaded p \<Rightarrow>
          if \<not> registered (action_tool p) then (w, Inl (KeyError (action_tool p)))
          else (let L = rem_libs P;
                    key = build_idempotency_key L (incident_id rs) (action_tool p) (action_arguments p)
                in case wire_arguments L (action_tool p)
                          (dict_set ''idempotency_key'' (VStr key) (action_arguments p)) of
                     None \<Rightarrow> (w, Inr (escalate_plan rs now
                               (Say ''remediation args invalid for {}'' [Word (action_tool p)])))
                   | Some args \<Rightarrow>
                       (let attempted = Some (action_tool p, args) in
                        case rem_call_tool P w (action_tool p) args of
                          (w', Mcp_crash err) \<Rightarrow> (w', Inl err)
                        | (w', Mcp_error err) \<Rightarrow>
                            (w', Inr (escalate_remediation rs now
                               (Say ''remediation tool error ({}): {}'' [Word (action_tool p), Word err])
                               attempted False))
                        | (w', Mcp_result is_error content) \<Rightarrow>
                            (w', Inr (if is_error
                               then escalate_remediation rs now
                                      (Say ''remediation tool reported is_error=True ({})'' [Word (action_tool p)])
                                      attempted False
                               else case parse_output L (action_tool p) content of
                                   Inl err \<Rightarrow> escalate_remediation rs now
                                     (Say ''remediation output parse failed ({}): {}'' [Word (action_tool p), Word err])
                                     attempted True
                                 | Inr v \<Rightarrow>
                                     (with_state (record_reading rs now (action_tool p) args v) VERIFYING now)
                                       \<lparr>remediation_attempts := remediation_attempts rs + 1\<rparr>)))))"

subsection \<open>After a verdict\<close>

datatype declined_kind = CAP | NO_ALTERNATIVE | NO_BUDGET

definition alternative_targets :: "run_state \<Rightarrow> remediation_plan \<Rightarrow> string list" where
  "alternative_targets rs p =
     map hyp_name (filter (\<lambda>h. hyp_name h \<noteq> target_hypothesis p \<and> fixable (category h)) (hypotheses rs))"

definition retry_declined ::
    "run_state \<Rightarrow> remediation_plan \<Rightarrow> int \<Rightarrow> string \<Rightarrow> (declined_kind \<times> summary) option" where
  "retry_declined rs p cap verdict =
     (let remaining = max_tool_calls (budget rs) - tool_calls_used (budget rs) in
      if cap \<le> remediation_attempts rs
      then Some (CAP, Say ''no fix converged after {} Tier-1 attempts (cap MAX_REMEDIATION_ATTEMPTS={}, ADR 0056)''
             [Count (remediation_attempts rs), Count cap, Word (action_tool p), Word verdict])
      else if is_exhausted (budget rs) \<or> remaining < 2
      then Some (NO_BUDGET, Say ''budget cannot fund a second attempt (remaining tool calls={})''
             [Count remaining, Word verdict, Word (action_tool p)])
      else if alternative_targets rs p = []
      then Some (NO_ALTERNATIVE, Say ''no second attempt is available: every ranked hypothesis other than {} has no Tier-1 fix''
             [Word (target_hypothesis p), Word (action_tool p)])
      else None)"

definition attempt_failed_marker :: string where
  "attempt_failed_marker = ''_remediation_attempt_failed''"

definition attempt_failed_entry ::
    "run_state \<Rightarrow> datetime \<Rightarrow> remediation_plan \<Rightarrow> int \<Rightarrow> string \<Rightarrow> summary \<Rightarrow> summary \<Rightarrow> evidence_entry" where
  "attempt_failed_entry rs now p cap verdict reading reason =
     entry attempt_failed_marker
       [(''attempt'', VInt (remediation_attempts rs)), (''of'', VInt cap),
        (''target_hypothesis'', VStr (target_hypothesis p)), (''action_tool'', VStr (action_tool p)),
        (''action_arguments'', VDict (action_arguments p)), (''verify_tool'', VStr (verify_tool p)),
        (''verify_arguments'', VDict (verify_arguments p)), (''verdict'', VStr verdict)]
       (Say ''attempt {} of {}: {} executed, then {}({}) read {} - verdict {}. {} Do not propose this call again''
          [Count (remediation_attempts rs), Count cap, plan_call p, Word (verify_tool p),
           Reading (VDict (verify_arguments p)), reading, Word verdict, reason])
       now"

definition reinvestigate :: "run_state \<Rightarrow> datetime \<Rightarrow> evidence_entry \<Rightarrow> run_state" where
  "reinvestigate rs now e =
     (with_state (record_row rs e now) INVESTIGATING now)\<lparr>remediation_plan := None\<rparr>"

definition find_action_entry :: "run_state \<Rightarrow> remediation_plan \<Rightarrow> evidence_entry option" where
  "find_action_entry rs p = find_last (\<lambda>e. tool_name e = action_tool p) (evidence rs)"

definition stabilized_reason :: "remediation_plan \<Rightarrow> summary" where
  "stabilized_reason p =
     Say ''STABILIZED, NOT RESOLVED. {} executed successfully and {} confirmed it landed on {}''
       [Word (action_tool p), Word (verify_tool p),
        if acted_on p = [] then Word ''the affected resource'' else words (acted_on p)]"

subsection \<open>Is the incident over?\<close>

definition dead_letter_actions :: "string list" where
  "dead_letter_actions =
     map fst (filter (\<lambda>(_, rows). \<exists>r\<in>set rows. sr_tool r = sr_tool dlq_row_source) source_row_table)
     @ map fst (filter (\<lambda>(_, ls). \<exists>l\<in>set ls. sl_tool l = sr_tool dlq_row_source) source_listing_table)
     @ concat (map snd hint_routed_tools)"

definition dlq_listing_scopes :: "string list" where
  "dlq_listing_scopes =
     remdups (concat (map (\<lambda>(_, ls). concat (map (\<lambda>l. if sl_tool l = sr_tool dlq_row_source
         then map read_field (sl_scopes l) else []) ls)) source_listing_table))"

record condition_miss =
  unaddressed :: "(string \<times> string option) list"
  cond_reason :: summary

definition stabilized_earlier :: "run_state \<Rightarrow> summary option" where
  "stabilized_earlier rs =
     map_option result_summary
       (find (\<lambda>e. tool_name e = attempt_failed_marker
                \<and> get (arguments e) ''verdict'' = Some (VStr ''verified_stabilizer'')) (evidence rs))"

definition attempted_targets :: "run_state \<Rightarrow> remediation_plan \<Rightarrow> string list" where
  "attempted_targets rs p =
     concat (map (\<lambda>e. if tool_name e \<noteq> attempt_failed_marker then []
                      else case str_field (arguments e) ''target_hypothesis'' of Some t \<Rightarrow> [t] | None \<Rightarrow> [])
       (evidence rs)) @ [target_hypothesis p]"

definition is_attempted :: "hypothesis \<Rightarrow> string list \<Rightarrow> bool" where
  "is_attempted h attempted = (hyp_name h \<in> set attempted \<or> category_value (category h) \<in> set attempted)"

definition standing_causes :: "run_state \<Rightarrow> remediation_plan \<Rightarrow> hypothesis list" where
  "standing_causes rs p =
     filter (\<lambda>h. \<not> is_attempted h (attempted_targets rs p) \<and> remediate_confidence_threshold \<le> confidence h)
       (hypotheses rs)"

definition unaddressed_second_cause :: "remediation_plan \<Rightarrow> run_state \<Rightarrow> condition_miss option" where
  "unaddressed_second_cause p rs =
     (case stabilized_earlier rs of
        Some earlier \<Rightarrow>
          Some \<lparr>unaddressed = [],
                cond_reason = Say ''STABILIZED, NOT RESOLVED. an earlier attempt in this same incident only stabilized what it addressed: {}''
                  [Word (action_tool p), Word (verify_tool p), earlier]\<rparr>
      | None \<Rightarrow>
          (let standing = standing_causes rs p in
           if standing = [] then None
           else Some \<lparr>unaddressed = [],
                  cond_reason = Say ''STABILIZED, NOT RESOLVED. This run still ranks {} other cause(s) of this incident at or above the bar it acts on''
                    (Count (int (length standing)) # map (\<lambda>h. Say ''{} ({}, confidence {})''
                       [Word (hyp_name h), Word (category_value (category h)), Frac (confidence h)]) standing)\<rparr>))"

definition evidence_before :: "evidence_entry list \<Rightarrow> string \<Rightarrow> evidence_entry list option" where
  "evidence_before es tool =
     (if \<exists>e\<in>set es. tool_name e = tool then Some (takeWhile (\<lambda>e. tool_name e \<noteq> tool) es) else None)"

definition whole_queue_readings :: "evidence_entry list \<Rightarrow> source_row \<Rightarrow> evidence_entry list" where
  "whole_queue_readings es source =
     filter (\<lambda>e. tool_name e = sr_tool source
         \<and> \<not> (\<exists>f\<in>set dlq_listing_scopes. scope_value (arguments e) (Some f) \<noteq> None)
         \<and> (case parsed_reading e of
              None \<Rightarrow> False
            | Some parsed \<Rightarrow> (case get parsed (sr_rows source) of
                  Some (VList rows) \<Rightarrow>
                    (case get parsed ''total'' of Some (VInt n) \<Rightarrow> n = int (length rows) | _ \<Rightarrow> True)
                | _ \<Rightarrow> False)))
       es"

definition rows_addressed_by :: "remediation_plan \<Rightarrow> (string \<times> string option) list \<Rightarrow> string list" where
  "rows_addressed_by p decisions =
     filter (\<lambda>v. v \<in> set (map fst decisions)) (acted_on p)
     @ concat (map (\<lambda>source.
         case find (\<lambda>s. read_field s = sr_decision dlq_row_source) (sl_scopes source) of
           None \<Rightarrow> []
         | Some hint_scope \<Rightarrow>
             if \<exists>s\<in>set (sl_scopes source). s \<noteq> hint_scope
                  \<and> scope_value (action_arguments p) (action_field s) \<noteq> None
             then []
             else (case action_field hint_scope of
                 None \<Rightarrow> map fst decisions
               | Some f \<Rightarrow> (case scope_value (action_arguments p) (Some f) of
                     None \<Rightarrow> []
                   | Some wanted \<Rightarrow> map fst (filter (\<lambda>(_, hint). hint = Some wanted) decisions))))
       (filter (\<lambda>source. sl_tool source = sr_tool dlq_row_source)
          (entries_for source_listing_table (action_tool p))))"

definition row_disposition :: "(string \<times> string) list" where
  "row_disposition =
     [(''replay_safe'', ''an immediate replay''),
      (''wait_and_replay'', ''a delayed replay, once the dependency its error names answers''),
      (''human_required'', ''a human decision, behind a fence so no later bulk replay re-runs it''),
      (''unclassified'', ''a human decision'')]"

definition row_needs :: "string \<times> string option \<Rightarrow> summary" where
  "row_needs row =
     (let (job, hint) = row;
          slice_word = (case hint of Some h \<Rightarrow> h | None \<Rightarrow> ''unclassified'')
      in Say ''{} [{}] needs {}''
           [Word job, Word (case hint of Some h \<Rightarrow> h | None \<Rightarrow> ''no hint''),
            Word (case map_of row_disposition slice_word of Some d \<Rightarrow> d
                  | None \<Rightarrow> ''a decision this agent has no routing for''),
            words (sort (entries_for hint_routed_tools slice_word))])"

definition uncleared_condition_reason ::
    "remediation_plan \<Rightarrow> (string \<times> string option) list \<Rightarrow> nat \<Rightarrow> summary" where
  "uncleared_condition_reason p rows read_count =
     (if rows = []
      then Say ''STABILIZED, NOT RESOLVED. {}: no reading in this run's evidence shows what that queue held before the action''
             [Word (action_tool p), Word (verify_tool p)]
      else Say ''STABILIZED, NOT RESOLVED. {} addressed {} of its {} rows; still dead-lettered: {}''
             ([Word (action_tool p), Count (int read_count - int (length rows)), Count (int read_count),
               Count (int (length rows))] @ map row_needs rows))"

definition uncleared_alert_condition :: "remediation_plan \<Rightarrow> run_state \<Rightarrow> condition_miss option" where
  "uncleared_alert_condition p rs =
     (if alert_subject (alert rs) \<noteq> None \<or> action_tool p \<notin> set dead_letter_actions then None
      else case evidence_before (evidence rs) (action_tool p) of
          None \<Rightarrow> None
        | Some before \<Rightarrow>
            if \<not> (\<exists>e\<in>set before. tool_name e = sr_tool dlq_row_source) then None
            else (let readings = whole_queue_readings before dlq_row_source in
                  if readings = []
                  then Some \<lparr>unaddressed = [], cond_reason = uncleared_condition_reason p [] 0\<rparr>
                  else (let decisions = row_decisions readings dlq_row_source;
                            addressed = rows_addressed_by p decisions;
                            rows = filter (\<lambda>(i, _). i \<notin> set addressed) (sort_key fst decisions)
                        in if rows = [] then None
                           else Some \<lparr>unaddressed = rows,
                                  cond_reason = uncleared_condition_reason p rows (length decisions)\<rparr>)))"

subsection \<open>Verifying\<close>

definition judge_client :: "'w remediator \<Rightarrow> judge_context \<Rightarrow> ('w, judge_verdict \<times> string) llm_client" where
  "judge_client P ctx w quoted =
     (case ask_judge P w ctx quoted of
        (w', Judge_reply v why_text u) \<Rightarrow>
          (w', if why_text = [] then Inl (Unreadable (Some u) False) else Inr ((v, why_text), u))
      | (w', Garbled_judgment u) \<Rightarrow> (w', Inl (Unreadable u False))
      | (w', Judge_unreachable u) \<Rightarrow> (w', Inl (Unreachable u))
      | (w', Judge_crash err) \<Rightarrow> (w', Inl (Crashed err)))"

definition judge_verification ::
    "'w remediator \<Rightarrow> 'w \<Rightarrow> judge_context \<Rightarrow> 'w \<times> (repair_error + (judge_verdict \<times> string) repaired_call)" where
  "judge_verification P w ctx = call_with_output_repair (judge_client P ctx) w"

text \<open>Steps 9 to 11: the judge said verified and no gate refused it.\<close>

definition hand_back_or_off ::
    "'w remediator \<Rightarrow> run_state \<Rightarrow> datetime \<Rightarrow> remediation_plan \<Rightarrow> string \<Rightarrow> summary \<Rightarrow> summary \<Rightarrow> run_state" where
  "hand_back_or_off P rs now p verdict reading reason =
     (case retry_declined rs p (max_attempts P) verdict of
        None \<Rightarrow> reinvestigate rs now (attempt_failed_entry rs now p (max_attempts P) verdict reading reason)
      | Some _ \<Rightarrow> escalate_remediation rs now reason (Some (action_tool p, action_arguments p)) False)"

definition conclude_verified ::
    "'w remediator \<Rightarrow> run_state \<Rightarrow> datetime \<Rightarrow> remediation_plan \<Rightarrow> summary \<Rightarrow> run_state result" where
  "conclude_verified P rs now p reading =
     (case resolution_class_of (action_tool p) of
        Inl (PolicyCoverageError msg) \<Rightarrow> Inr (escalate_plan rs now (Word msg))
      | Inl err \<Rightarrow> Inl err
      | Inr STABILIZES \<Rightarrow> Inr (hand_back_or_off P rs now p ''verified_stabilizer'' reading (stabilized_reason p))
      | Inr RESOLVES \<Rightarrow>
          (case (case uncleared_alert_condition p rs of
                   Some c \<Rightarrow> Some c | None \<Rightarrow> unaddressed_second_cause p rs) of
             Some c \<Rightarrow> Inr (hand_back_or_off P rs now p ''verified_unresolved'' reading (cond_reason c))
           | None \<Rightarrow> Inr (with_state rs RESOLVED now)))"

text \<open>
  Steps 6 and 7: one judged reading goes on the ledger, and a \<open>verified\<close> the gate refuses goes
  on it too.
\<close>

definition record_poll ::
    "'w remediator \<Rightarrow> run_state \<Rightarrow> datetime \<Rightarrow> remediation_plan \<Rightarrow> dict \<Rightarrow> nat \<Rightarrow> val
     \<Rightarrow> (judge_verdict \<times> string) repaired_call \<Rightarrow> run_state" where
  "record_poll P rs now p args attempt v call =
     (let ordinal = [(''attempt'', VInt (int attempt + 1)), (''of'', VInt (int (probe_attempts P)))];
          (judged, why_text) = call_output call
      in rs\<lparr>budget := (accrue_structured_call (budget rs) call (judge_model P))
                        \<lparr>tool_calls_used := tool_calls_used (budget rs) + 1\<rparr>,
            evidence := evidence rs
              @ [entry (verify_tool p) (foldl (\<lambda>d (k, x). dict_set k x d) args ordinal) (Reading v) now,
                 entry ''_verify_judge'' ((''expectation'', VStr (verify_expectation p)) # ordinal)
                   (Say ''{}: {}'' [Word (judge_word judged), Word why_text]) now],
            updated_at := now\<rparr>)"

definition gate_poll ::
    "'w remediator \<Rightarrow> run_state \<Rightarrow> judge_verdict \<Rightarrow> (gate_verdict \<times> summary) option" where
  "gate_poll P rs judged =
     (case metric_expectation (alert rs) of
        None \<Rightarrow> None
      | Some x \<Rightarrow> if judged = VERIFIED then gate_miss (iso_datetime P) rs x else None)"

definition record_gate ::
    "'w remediator \<Rightarrow> run_state \<Rightarrow> datetime \<Rightarrow> nat \<Rightarrow> gate_verdict \<times> summary \<Rightarrow> run_state" where
  "record_gate P rs now attempt g =
     rs\<lparr>evidence := evidence rs @ [entry ''_verify_reading_gate''
          [(''verdict'', VStr (gate_word (fst g))), (''attempt'', VInt (int attempt + 1)),
           (''of'', VInt (int (probe_attempts P)))]
          (Say ''{}: {}'' [Word (gate_word (fst g)), snd g]) now]\<rparr>"

datatype poll_end =
    Poll_over run_state
  | Poll_raised exn
  | Poll_again run_state datetime val string "(gate_verdict \<times> summary) option"

text \<open>Steps 4 to 11 of one poll, at the time \<open>now\<close>.\<close>

definition verify_poll ::
    "'w remediator \<Rightarrow> 'w \<Rightarrow> run_state \<Rightarrow> datetime \<Rightarrow> remediation_plan \<Rightarrow> dict \<Rightarrow> evidence_entry option \<Rightarrow> nat
     \<Rightarrow> 'w \<times> poll_end" where
  "verify_poll P w rs now p args action attempt =
     (case rem_call_tool P w (verify_tool p) args of
        (w1, Mcp_crash err) \<Rightarrow> (w1, Poll_raised err)
      | (w1, Mcp_error err) \<Rightarrow>
          (w1, Poll_over (escalate_plan rs now (Say ''verify tool error ({}): {}'' [Word (verify_tool p), Word err])))
      | (w1, Mcp_result is_error content) \<Rightarrow>
          if is_error
          then (w1, Poll_over (escalate_plan rs now
                 (Say ''verify tool reported is_error=True ({})'' [Word (verify_tool p)])))
          else (case parse_output (rem_libs P) (verify_tool p) content of
              Inl err \<Rightarrow> (w1, Poll_over (escalate_plan rs now
                          (Say ''verify output parse failed ({}): {}'' [Word (verify_tool p), Word err])))
            | Inr v \<Rightarrow>
                (case judge_verification P w1
                        \<lparr>jc_plan = p, jc_reading = v, jc_action = map_option result_summary action,
                         jc_action_at = map_option timestamp action, jc_read_at = now\<rparr> of
                   (w2, Inl (Uncaught err)) \<Rightarrow> (w2, Poll_raised err)
                 | (w2, Inl err) \<Rightarrow>
                     (w2, Poll_over (escalate_plan
                        (rs\<lparr>budget := accrue_llm_error (budget rs) (repair_error_usage err) (judge_model P)\<rparr>)
                        now (Word ''verify judge LLM invalid'')))
                 | (w2, Inr call) \<Rightarrow>
                     (let (judged, why_text) = call_output call;
                          rs1 = record_poll P rs now p args attempt v call;
                          gate = gate_poll P rs1 judged;
                          rs2 = (case gate of Some g \<Rightarrow> record_gate P rs1 now attempt g | None \<Rightarrow> rs1);
                          w3 = (case verdict_log P of
                                  None \<Rightarrow> w2
                                | Some emit \<Rightarrow> emit w2 (hypotheses rs2)
                                    (case gate of Some g \<Rightarrow> gate_word (fst g) | None \<Rightarrow> judge_word judged)
                                    (case gate of Some g \<Rightarrow> snd g | None \<Rightarrow> Word why_text) (attempt + 1))
                      in if gate \<noteq> None \<or> judged = NOT_VERIFIED
                         then (w3, Poll_again rs2 now v why_text gate)
                         else (case conclude_verified P rs2 now p (Reading v) of
                             Inl err \<Rightarrow> (w3, Poll_raised err)
                           | Inr rs3 \<Rightarrow> (w3, Poll_over rs3))))))"

text \<open>Step 3 and the loop over \<open>range(probe_attempts)\<close>.\<close>

fun verify_polls ::
    "'w remediator \<Rightarrow> nat \<Rightarrow> nat \<Rightarrow> 'w \<Rightarrow> run_state \<Rightarrow> datetime \<Rightarrow> datetime \<Rightarrow> remediation_plan \<Rightarrow> dict
     \<Rightarrow> evidence_entry option \<Rightarrow> summary \<Rightarrow> string \<Rightarrow> (gate_verdict \<times> summary) option \<Rightarrow> 'w \<times> run_state result" where
  "verify_polls P 0 attempt w rs now last_at p args action reading why_text gate =
     (w, Inr (case gate of
        Some g \<Rightarrow> escalate_remediation rs last_at
          (Say ''{} ran and the judge said verified, but RESOLVED needs a reading taken after the action that is below the alert's threshold (ADR 0077)''
             [Word (action_tool p), Count (int (probe_attempts P)), snd g])
          (Some (action_tool p, action_arguments p)) False
      | None \<Rightarrow>
          (case retry_declined rs p (max_attempts P) ''not_verified'' of
             None \<Rightarrow> reinvestigate rs last_at
               (attempt_failed_entry rs last_at p (max_attempts P) ''not_verified'' reading (Word why_text))
           | Some declined \<Rightarrow>
               if 1 < remediation_attempts rs
               then escalate_remediation rs last_at (snd declined)
                      (Some (action_tool p, action_arguments p)) False
               else with_state rs ESCALATED last_at)))"
| "verify_polls P (Suc left) attempt w rs now last_at p args action reading why_text gate =
     (if 0 < attempt \<and> is_exhausted (budget rs)
      then (w, Inr (escalate_plan rs last_at
             (Say ''budget exhausted after verify attempt {}/{}; Tier-1 action already executed, verification incomplete''
                [Count (int attempt), Count (int (probe_attempts P))])))
      else (let w1 = (if 0 < attempt then rem_sleep P w (probe_delay_seconds P) else w);
                (w2, poll_at) = (case verify_clock P of Some tick \<Rightarrow> tick w1 | None \<Rightarrow> (w1, now))
            in case verify_poll P w2 rs poll_at p args action attempt of
                 (w3, Poll_raised err) \<Rightarrow> (w3, Inl err)
               | (w3, Poll_over rs') \<Rightarrow> (w3, Inr rs')
               | (w3, Poll_again rs' at' v why' gate') \<Rightarrow>
                   verify_polls P left (attempt + 1) w3 rs' now at' p args action (Reading v) why' gate'))"

definition transition_verify :: "'w remediator \<Rightarrow> 'w transition" where
  "transition_verify P w rs now =
     (case load_plan rs of
        Invalid_plan \<Rightarrow> (w, Inr (escalate_plan rs now (Word ''stored plan invalid'')))
      | No_plan \<Rightarrow> (w, Inr (escalate_plan rs now (Word ''VERIFYING entered with no remediation_plan'')))
      | Loaded p \<Rightarrow>
          if \<not> registered (verify_tool p) then (w, Inl (KeyError (verify_tool p)))
          else (case wire_arguments (rem_libs P) (verify_tool p) (verify_arguments p) of
              None \<Rightarrow> (w, Inr (escalate_plan rs now (Say ''verify args invalid for {}'' [Word (verify_tool p)])))
            | Some args \<Rightarrow>
                verify_polls P (probe_attempts P) 0 w rs now now p args (find_action_entry rs p)
                  (Word []) [] None))"

text \<open>
  The transitions of one live run (\<^verbatim>\<open>evals/runner.py\<close>): the shipped table with the four model
  driven transitions bound in; AWAITING_APPROVAL keeps its stub.
\<close>

definition live_transitions ::
    "(val \<Rightarrow> string) \<Rightarrow> (string \<Rightarrow> string) \<Rightarrow> 'w investigator \<Rightarrow> 'w remediator \<Rightarrow> 'w registry" where
  "live_transitions str_of digest I P =
     (default_transitions str_of digest)
       (INVESTIGATING := Some (transition_llm_investigate I),
        PLANNING := Some (transition_plan P),
        REMEDIATING := Some (transition_remediate P),
        VERIFYING := Some (transition_verify P))"

text \<open>The webhook service (\<^verbatim>\<open>api/app.py\<close>) binds only the one-probe investigation.\<close>

definition service_transitions ::
    "(val \<Rightarrow> string) \<Rightarrow> (string \<Rightarrow> string) \<Rightarrow> 'w investigator \<Rightarrow> 'w registry" where
  "service_transitions str_of digest I =
     (default_transitions str_of digest)(INVESTIGATING := Some (transition_investigate str_of I))"

end
