(* ===== verification/Remediation_Facts.thy ===== *)
theory Remediation_Facts
  imports Remediation
begin

text \<open>
  What executing and verifying guarantee: the frame of both transitions, the one way to RESOLVED,
  and the bound on Tier-1 actions that the attempt counter keeps over every transition.
\<close>

subsection \<open>The ledger counts actions\<close>

definition tier_1_rows :: "evidence_entry list \<Rightarrow> evidence_entry list" where
  "tier_1_rows es = filter (\<lambda>e. tool_name e \<in> set tier_1_tools) es"

lemma tier_1_rows_append [simp]: "tier_1_rows (xs @ ys) = tier_1_rows xs @ tier_1_rows ys"
  by (simp add: tier_1_rows_def)

lemma marker_not_tier_1: "is_marker tool \<Longrightarrow> tool \<notin> set tier_1_tools"
  by (auto simp: tier_1_tools_def)

lemma tier_1_not_marker: "tool \<in> set tier_1_tools \<Longrightarrow> \<not> is_marker tool"
  by (auto simp: tier_1_tools_def)

lemma grew_tier_1_rows: "grew rs rs' \<Longrightarrow> tier_1_rows (evidence rs') = tier_1_rows (evidence rs)"
proof -
  assume "grew rs rs'"
  then obtain rows where rows: "evidence rs' = evidence rs @ rows"
    and reads: "\<forall>e\<in>set rows. is_marker (tool_name e) \<or> tool_name e \<in> set read_tools"
    by (auto simp: grew_def)
  from reads have "\<forall>e\<in>set rows. tool_name e \<notin> set tier_1_tools"
    using read_tier_1_disjoint marker_not_tier_1 by blast
  then have "tier_1_rows rows = []" by (simp add: tier_1_rows_def)
  with rows show ?thesis by simp
qed

subsection \<open>Executing\<close>

lemma escalate_remediation_run_le: "run_le rs (escalate_remediation rs now r a x)"
proof -
  have "run_le rs (with_state (mark rs now ''_remediation_escalate'' args r) ESCALATED now)" for args
    by (rule grew_run_le) simp
  then show ?thesis
    by (auto simp: escalate_remediation_def Let_def run_le_def)
qed

lemma escalate_remediation_simps [simp]:
  "tier_1_rows (evidence (escalate_remediation rs now r a x)) = tier_1_rows (evidence rs)"
  "remediation_attempts (escalate_remediation rs now r a x) = remediation_attempts rs + (if x then 1 else 0)"
  by (simp_all add: escalate_remediation_def Let_def tier_1_rows_def mark_def tier_1_tools_def)

definition executed :: "run_state \<Rightarrow> datetime \<Rightarrow> string \<Rightarrow> dict \<Rightarrow> val \<Rightarrow> run_state" where
  "executed rs now tool args v =
     (with_state (record_reading rs now tool args v) VERIFYING now)
       \<lparr>remediation_attempts := remediation_attempts rs + 1\<rparr>"

lemma executed_simps [simp]:
  "state (executed rs now tool args v) = VERIFYING"
  "remediation_attempts (executed rs now tool args v) = remediation_attempts rs + 1"
  "evidence (executed rs now tool args v) = evidence rs @ [entry tool args (Reading v) now]"
  "run_le rs (executed rs now tool args v)"
  by (simp_all add: executed_def record_reading_def run_le_def)

text \<open>
  The two ends of REMEDIATING: escalated without a row for the action, or the stored plan's own
  call on the ledger under the deterministic key.
\<close>

lemma transition_remediate_cases:
  assumes "transition_remediate P w rs now = (w', Inr rs')"
  shows "(\<exists>r a x. rs' = escalate_remediation rs now r a x)
    \<or> (\<exists>p args v. load_plan rs = Loaded p
         \<and> wire_arguments (rem_libs P) (action_tool p)
             (dict_set ''idempotency_key''
                (VStr (build_idempotency_key (rem_libs P) (incident_id rs) (action_tool p) (action_arguments p)))
                (action_arguments p)) = Some args
         \<and> rs' = executed rs now (action_tool p) args v)"
  using assms
  by (auto simp: transition_remediate_def Let_def executed_def
      split: loaded_plan.splits if_splits option.splits prod.splits mcp_reply.splits sum.splits)

lemma load_plan_valid: "load_plan rs = Loaded p \<Longrightarrow> valid_plan p"
  by (auto simp: load_plan_def split: option.splits dest: validate_plan_valid)

lemma executed_tier_1_rows:
  "length (tier_1_rows (evidence (executed rs now tool args v))) \<le> length (tier_1_rows (evidence rs)) + 1"
  by (simp add: tier_1_rows_def)

lemma transition_remediate_frame:
  assumes "transition_remediate P w rs now = (w', Inr rs')"
  shows "run_le rs rs'" and "state rs' = VERIFYING \<or> state rs' = ESCALATED"
    and "remediation_attempts rs' \<le> remediation_attempts rs + 1"
    and "int (length (tier_1_rows (evidence rs'))) - int (length (tier_1_rows (evidence rs)))
      \<le> remediation_attempts rs' - remediation_attempts rs"
proof -
  consider (off) r a x where "rs' = escalate_remediation rs now r a x"
    | (ran) tool args v where "rs' = executed rs now tool args v"
    using transition_remediate_cases[OF assms] by blast
  then have all: "run_le rs rs' \<and> (state rs' = VERIFYING \<or> state rs' = ESCALATED)
    \<and> remediation_attempts rs' \<le> remediation_attempts rs + 1
    \<and> int (length (tier_1_rows (evidence rs'))) - int (length (tier_1_rows (evidence rs)))
        \<le> remediation_attempts rs' - remediation_attempts rs"
  proof cases
    case off
    then show ?thesis by (simp add: escalate_remediation_run_le)
  next
    case (ran tool args v)
    with executed_tier_1_rows[of rs now tool args v] show ?thesis
      by (simp del: tier_1_rows_append)
  qed
  then show "run_le rs rs'" and "state rs' = VERIFYING \<or> state rs' = ESCALATED"
    and "remediation_attempts rs' \<le> remediation_attempts rs + 1"
    and "int (length (tier_1_rows (evidence rs'))) - int (length (tier_1_rows (evidence rs)))
      \<le> remediation_attempts rs' - remediation_attempts rs"
    by blast+
qed

subsection \<open>Verifying\<close>

text \<open>What a verify transition may do to a run.\<close>

definition verify_frame :: "run_state \<Rightarrow> run_state \<Rightarrow> bool" where
  "verify_frame rs rs' =
     (run_le rs rs' \<and> remediation_attempts rs' = remediation_attempts rs
      \<and> tier_1_rows (evidence rs') = tier_1_rows (evidence rs)
      \<and> hypotheses rs' = hypotheses rs)"

lemma verify_frame_refl [simp, intro]: "verify_frame rs rs"
  by (simp add: verify_frame_def)

lemma verify_frame_trans: "verify_frame a b \<Longrightarrow> verify_frame b c \<Longrightarrow> verify_frame a c"
  unfolding verify_frame_def by (auto intro: run_le_trans)

lemma escalate_remediation_verify_frame [simp]:
  "verify_frame rs (escalate_remediation rs now r a False)"
  by (simp add: verify_frame_def escalate_remediation_run_le)
    (simp add: escalate_remediation_def Let_def mark_def)

lemma with_state_verify_frame [simp]: "verify_frame rs (with_state rs s now)"
  by (simp add: verify_frame_def)

lemma reinvestigate_verify_frame [simp]:
  "verify_frame rs (reinvestigate rs now (attempt_failed_entry rs now p cap verdict reading reason))"
  by (simp add: verify_frame_def reinvestigate_def run_le_def tier_1_rows_def attempt_failed_entry_def
      attempt_failed_marker_def tier_1_tools_def with_state_def record_row_def)

lemma reinvestigate_state [simp]: "state (reinvestigate rs now e) = INVESTIGATING"
  by (simp add: reinvestigate_def)

lemma budget_verify_frame:
  "budget_le (budget rs) b \<Longrightarrow> verify_frame rs (rs\<lparr>budget := b\<rparr>)"
  by (simp add: verify_frame_def run_le_def)

lemma record_poll_verify_frame:
  assumes "valid_plan p"
  shows "verify_frame rs (record_poll P rs now p args attempt v call)"
proof -
  have "verify_tool p \<notin> set tier_1_tools"
    using assms read_tier_1_disjoint by (auto simp: valid_plan_def)
  moreover have "budget_le (budget rs) ((accrue_structured_call (budget rs) call (judge_model P))
      \<lparr>tool_calls_used := tool_calls_used (budget rs) + 1\<rparr>)"
    using budget_le_accrue_call[of "budget rs" call "judge_model P"] by (simp add: budget_le_def)
  ultimately show ?thesis
    by (simp add: verify_frame_def record_poll_def Let_def run_le_def tier_1_rows_def tier_1_tools_def
        split: prod.split)
qed

lemma record_gate_verify_frame: "verify_frame rs (record_gate P rs now attempt g)"
  by (simp add: verify_frame_def record_gate_def run_le_def tier_1_rows_def tier_1_tools_def)

lemma record_poll_state [simp]:
  "state (record_poll P rs now p args attempt v call) = state rs"
  "remediation_plan (record_poll P rs now p args attempt v call) = remediation_plan rs"
  "state (record_gate P rs now attempt g) = state rs"
  "remediation_plan (record_gate P rs now attempt g) = remediation_plan rs"
  by (simp_all add: record_poll_def record_gate_def Let_def split: prod.split)

text \<open>Everything a RESOLVED run shows, on the ledger it was resolved with.\<close>

definition resolution_shown :: "'w remediator \<Rightarrow> run_state \<Rightarrow> bool" where
  "resolution_shown P rs =
     (\<exists>p older probe judge.
        load_plan rs = Loaded p
        \<and> resolution_class_of (action_tool p) = Inr RESOLVES
        \<and> evidence rs = older @ [probe, judge]
        \<and> tool_name probe = verify_tool p
        \<and> tool_name judge = ''_verify_judge''
        \<and> (\<exists>why_text. result_summary judge = Say ''{}: {}'' [Word ''verified'', Word why_text])
        \<and> uncleared_alert_condition p rs = None
        \<and> stabilized_earlier rs = None
        \<and> standing_causes rs p = []
        \<and> (case metric_expectation (alert rs) of
             None \<Rightarrow> True | Some x \<Rightarrow> gate_miss (iso_datetime P) rs x = None))"

definition poll_ok :: "'w remediator \<Rightarrow> run_state \<Rightarrow> poll_end \<Rightarrow> bool" where
  "poll_ok P rs out =
     (case out of
        Poll_over rs' \<Rightarrow> verify_frame rs rs'
          \<and> (state rs' = ESCALATED \<or> state rs' = RESOLVED \<and> resolution_shown P rs' \<and> remediation_plan rs' = remediation_plan rs
             \<or> state rs' = INVESTIGATING \<and> remediation_attempts rs < max_attempts P)
      | Poll_again rs' _ _ _ _ \<Rightarrow> verify_frame rs rs' \<and> state rs' = state rs
          \<and> remediation_plan rs' = remediation_plan rs
      | Poll_raised _ \<Rightarrow> True)"

lemma retry_declined_None:
  "retry_declined rs p cap verdict = None \<Longrightarrow>
     remediation_attempts rs < cap \<and> \<not> is_exhausted (budget rs)
     \<and> 2 \<le> max_tool_calls (budget rs) - tool_calls_used (budget rs) \<and> alternative_targets rs p \<noteq> []"
  by (auto simp: retry_declined_def Let_def split: if_splits)

lemma hand_back_or_off_ok:
  "verify_frame rs (hand_back_or_off P rs now p verdict reading reason)
   \<and> (state (hand_back_or_off P rs now p verdict reading reason) = ESCALATED
      \<or> state (hand_back_or_off P rs now p verdict reading reason) = INVESTIGATING
        \<and> remediation_attempts rs < max_attempts P)"
  by (auto simp: hand_back_or_off_def split: option.splits dest: retry_declined_None)

lemma last_subject_reading_with_state [simp]:
  "last_subject_reading (with_state rs s now) = last_subject_reading rs"
  by (intro ext) (simp add: last_subject_reading_def)

lemma gate_miss_with_state [simp]: "gate_miss i (with_state rs s now) x = gate_miss i rs x"
  by (rule gate_miss_cong) simp_all

lemma stand_on_with_state [simp]:
  "uncleared_alert_condition p (with_state rs s now) = uncleared_alert_condition p rs"
  "stabilized_earlier (with_state rs s now) = stabilized_earlier rs"
  "standing_causes (with_state rs s now) q = standing_causes rs q"
  "load_plan (with_state rs s now) = load_plan rs"
  by (simp_all add: uncleared_alert_condition_def stabilized_earlier_def standing_causes_def
      attempted_targets_def load_plan_def)

lemma unaddressed_second_cause_None:
  "unaddressed_second_cause p rs = None \<Longrightarrow> stabilized_earlier rs = None \<and> standing_causes rs p = []"
  by (auto simp: unaddressed_second_cause_def Let_def split: option.splits if_splits)

lemma conclude_verified_ok:
  assumes "conclude_verified P rs now p reading = Inr rs'"
    and "load_plan rs = Loaded p"
    and "evidence rs = older @ [probe, judge]" and "tool_name probe = verify_tool p"
    and "tool_name judge = ''_verify_judge''"
    and "result_summary judge = Say ''{}: {}'' [Word ''verified'', Word why_text]"
    and "case metric_expectation (alert rs) of
           None \<Rightarrow> True | Some x \<Rightarrow> gate_miss (iso_datetime P) rs x = None"
  shows "poll_ok P rs (Poll_over rs')"
proof (cases "resolution_class_of (action_tool p)")
  case (Inl err)
  with assms(1) have "\<exists>r. rs' = escalate_plan rs now r"
    by (cases err) (auto simp: conclude_verified_def)
  then show ?thesis by (auto simp: poll_ok_def)
next
  case (Inr c)
  have "(\<exists>verdict reason. rs' = hand_back_or_off P rs now p verdict reading reason)
      \<or> (c = RESOLVES \<and> uncleared_alert_condition p rs = None \<and> unaddressed_second_cause p rs = None
         \<and> rs' = with_state rs RESOLVED now)"
    using assms(1) Inr by (auto simp: conclude_verified_def split: resolution.splits option.splits)
  then show ?thesis
  proof
    assume "\<exists>verdict reason. rs' = hand_back_or_off P rs now p verdict reading reason"
    with hand_back_or_off_ok show ?thesis unfolding poll_ok_def by fastforce
  next
    assume r: "c = RESOLVES \<and> uncleared_alert_condition p rs = None
      \<and> unaddressed_second_cause p rs = None \<and> rs' = with_state rs RESOLVED now"
    then have "resolution_shown P rs'"
      using assms(2-) Inr unaddressed_second_cause_None[of p rs]
      unfolding resolution_shown_def
      by - (rule exI[of _ p], rule exI[of _ older], rule exI[of _ probe], rule exI[of _ judge],
        cases "metric_expectation (alert rs)", simp_all)
    with r show ?thesis by (simp add: poll_ok_def)
  qed
qed

lemma poll_ok_over_trans:
  "verify_frame rs rs1 \<Longrightarrow> remediation_plan rs1 = remediation_plan rs \<Longrightarrow> poll_ok P rs1 (Poll_over rs') \<Longrightarrow> poll_ok P rs (Poll_over rs')"
  by (auto simp: poll_ok_def verify_frame_def intro: run_le_trans)

lemma escalate_poll_ok [simp]: "poll_ok P rs (Poll_over (escalate_remediation rs now r a False))"
  by (simp add: poll_ok_def)

text \<open>How one poll can end.\<close>

lemma verify_poll_cases:
  assumes "verify_poll P w rs now p args action attempt = (w', out)"
  obtains (raised) "\<exists>err. out = Poll_raised err"
    | (over) "\<exists>r. out = Poll_over (escalate_plan rs now r)"
    | (judge_failed) "\<exists>u r. out = Poll_over (escalate_plan
          (rs\<lparr>budget := accrue_llm_error (budget rs) u (judge_model P)\<rparr>) now r)"
    | (judged) v :: val and call :: "(judge_verdict \<times> string) repaired_call"
        and rs1 :: run_state and gate :: "(gate_verdict \<times> summary) option" and rs2 :: run_state where
        "rs1 = record_poll P rs now p args attempt v call"
        "gate = gate_poll P rs1 (fst (call_output call))"
        "rs2 = (case gate of Some g \<Rightarrow> record_gate P rs1 now attempt g | None \<Rightarrow> rs1)"
        "(out = Poll_again rs2 now v (snd (call_output call)) gate
         \<or> gate = None \<and> fst (call_output call) = VERIFIED
           \<and> (\<exists>err. conclude_verified P rs2 now p (Reading v) = err
                \<and> out = (case err of Inl e \<Rightarrow> Poll_raised e | Inr rs3 \<Rightarrow> Poll_over rs3)))"
proof (cases "rem_call_tool P w (verify_tool p) args")
  case (Pair w1 reply)
  show thesis
  proof (cases reply)
    case (Mcp_crash err)
    with Pair assms show thesis by (intro raised) (auto simp: verify_poll_def)
  next
    case (Mcp_error err)
    with Pair assms show thesis by (intro over) (auto simp: verify_poll_def)
  next
    case (Mcp_result bad content)
    show thesis
    proof (cases "bad \<or> (\<exists>err. parse_output (rem_libs P) (verify_tool p) content = Inl err)")
      case True
      with Pair Mcp_result assms show thesis by (intro over) (auto simp: verify_poll_def split: if_splits)
    next
      case False
      then obtain v where ok: "\<not> bad" "parse_output (rem_libs P) (verify_tool p) content = Inr v"
        by (metis sum.exhaust)
      obtain w2 res where j: "judge_verification P w1
          \<lparr>jc_plan = p, jc_reading = v, jc_action = map_option result_summary action,
           jc_action_at = map_option timestamp action, jc_read_at = now\<rparr> = (w2, res)" by fastforce
      show thesis
      proof (cases res)
        case (Inl err)
        show thesis
        proof (cases "\<exists>e. err = Uncaught e")
          case True
          with Inl assms Pair Mcp_result ok j show thesis
            by (intro raised) (auto simp: verify_poll_def)
        next
          case False
          with Inl assms Pair Mcp_result ok j show thesis
            by (intro judge_failed) (cases err; auto simp: verify_poll_def)
        qed
      next
        case (Inr call)
        obtain verdict why where call: "call_output call = (verdict, why)" by fastforce
        let ?rs1 = "record_poll P rs now p args attempt v call"
        note known = Pair Mcp_result ok j Inr call
        show thesis
        proof (cases "gate_poll P ?rs1 verdict = None \<and> verdict = VERIFIED")
          case True
          then have t: "gate_poll P ?rs1 VERIFIED = None" "verdict = VERIFIED" by auto
          with assms known show thesis
            by (intro judged[OF refl[of ?rs1] refl refl])
              (cases "conclude_verified P ?rs1 now p (Reading v)"; simp add: verify_poll_def Let_def)
        next
          case False
          then have "gate_poll P ?rs1 verdict \<noteq> None \<or> verdict = NOT_VERIFIED"
            by (cases verdict) simp_all
          with assms known show thesis
            by (intro judged[OF refl[of ?rs1] refl refl]) (simp add: verify_poll_def Let_def)
        qed
      qed
    qed
  qed
qed

lemma verify_poll_ok:
  assumes "verify_poll P w rs now p args action attempt = (w', out)" and "load_plan rs = Loaded p"
  shows "poll_ok P rs out"
proof -
  have vp: "valid_plan p" using assms(2) by (rule load_plan_valid)
  from assms(1) show ?thesis
  proof (cases rule: verify_poll_cases)
    case raised then show ?thesis by (auto simp: poll_ok_def)
  next
    case over then show ?thesis by auto
  next
    case judge_failed
    have "verify_frame rs (rs\<lparr>budget := accrue_llm_error (budget rs) u (judge_model P)\<rparr>)"
      for u by (rule budget_verify_frame) simp
    from poll_ok_over_trans[OF this _ escalate_poll_ok] judge_failed show ?thesis by auto
  next
    case (judged v call rs1 gate rs2)
    have f1: "verify_frame rs rs1" unfolding judged(1) by (rule record_poll_verify_frame[OF vp])
    have f2: "verify_frame rs rs2" and s2: "state rs2 = state rs"
      and p2: "remediation_plan rs2 = remediation_plan rs"
      using f1 verify_frame_trans[OF f1 record_gate_verify_frame] judged(1,3)
      by (auto split: option.splits)
    from judged(4) show ?thesis
    proof (elim disjE conjE exE)
      assume "out = Poll_again rs2 now v (snd (call_output call)) gate"
      with f2 s2 p2 show ?thesis by (simp add: poll_ok_def)
    next
      fix res
      assume g: "gate = None" and v: "fst (call_output call) = VERIFIED"
        and c: "conclude_verified P rs2 now p (Reading v) = res"
        and out: "out = (case res of Inl e \<Rightarrow> Poll_raised e | Inr rs3 \<Rightarrow> Poll_over rs3)"
      show ?thesis
      proof (cases res)
        case (Inl e)
        with out show ?thesis by (simp add: poll_ok_def)
      next
        case (Inr rs3)
        have rs2: "rs2 = rs1" using judged(3) g by simp
        obtain probe judge why where ev: "evidence rs1 = evidence rs @ [probe, judge]"
          "tool_name probe = verify_tool p" "tool_name judge = ''_verify_judge''"
          "result_summary judge = Say ''{}: {}'' [Word ''verified'', Word why]"
          using v unfolding judged(1) record_poll_def Let_def
          by (cases "call_output call") auto
        have "case metric_expectation (alert rs1) of
            None \<Rightarrow> True | Some x \<Rightarrow> gate_miss (iso_datetime P) rs1 x = None"
          using judged(2) g v by (auto simp: gate_poll_def split: option.splits)
        with c Inr ev assms(2) have "poll_ok P rs1 (Poll_over rs3)"
          unfolding rs2
          by (intro conclude_verified_ok) (auto simp: judged(1) load_plan_def)
        from poll_ok_over_trans[OF f1 _ this] p2 rs2 out Inr show ?thesis by simp
      qed
    qed
  qed
qed

lemma verify_polls_ok:
  "verify_polls P n attempt w rs now last_at p args action reading why_text gate = (w', Inr rs')
   \<Longrightarrow> load_plan rs = Loaded p \<Longrightarrow> poll_ok P rs (Poll_over rs')"
proof (induction n arbitrary: attempt w rs last_at reading why_text gate)
  case 0
  then show ?case
    by (auto simp: poll_ok_def split: option.splits if_splits dest: retry_declined_None)
next
  case (Suc n)
  show ?case
  proof (cases "0 < attempt \<and> is_exhausted (budget rs)")
    case True
    with Suc.prems show ?thesis by auto
  next
    case False
    from False Suc.prems(1) obtain w2 poll_at w3 out where
      poll: "verify_poll P w2 rs poll_at p args action attempt = (w3, out)"
      and rest: "(case (w3, out) of
                 (w3, Poll_raised err) \<Rightarrow> (w3, Inl err)
               | (w3, Poll_over rs') \<Rightarrow> (w3, Inr rs')
               | (w3, Poll_again rs' at' v why' gate') \<Rightarrow>
                   verify_polls P n (attempt + 1) w3 rs' now at' p args action (Reading v) why' gate')
              = (w', Inr rs')"
      by (auto simp: Let_def split: prod.splits poll_end.splits)
    note ok = verify_poll_ok[OF poll Suc.prems(2)]
    show ?thesis
    proof (cases out)
      case (Poll_again rs1 at1 v1 why1 gate1)
      with ok have f: "verify_frame rs rs1" and p: "remediation_plan rs1 = remediation_plan rs"
        by (simp_all add: poll_ok_def)
      from p Suc.prems(2) have "load_plan rs1 = Loaded p" by (simp add: load_plan_def)
      with Poll_again rest Suc.IH have "poll_ok P rs1 (Poll_over rs')" by simp
      from poll_ok_over_trans[OF f p this] show ?thesis .
    qed (use rest ok in simp_all)
  qed
qed

text \<open>The three ways out of VERIFYING.\<close>

lemma transition_verify_ok:
  assumes "transition_verify P w rs now = (w', Inr rs')"
  shows "poll_ok P rs (Poll_over rs')"
  using assms
  by (auto simp: transition_verify_def split: loaded_plan.splits if_splits option.splits
      dest: verify_polls_ok)

lemma transition_verify_frame: "transition_verify P w rs now = (w', Inr rs') \<Longrightarrow> verify_frame rs rs'"
  by (drule transition_verify_ok) (simp add: poll_ok_def)

lemma transition_verify_resolved:
  "transition_verify P w rs now = (w', Inr rs') \<Longrightarrow> state rs' = RESOLVED \<Longrightarrow> resolution_shown P rs'"
  by (drule transition_verify_ok) (auto simp: poll_ok_def)

lemma transition_verify_plan:
  "transition_verify P w rs now = (w', Inr rs') \<Longrightarrow> state rs' = RESOLVED \<Longrightarrow> remediation_plan rs' = remediation_plan rs"
  by (drule transition_verify_ok) (auto simp: poll_ok_def)

lemma transition_verify_reinvestigates:
  "transition_verify P w rs now = (w', Inr rs') \<Longrightarrow> state rs' = INVESTIGATING \<Longrightarrow>
     remediation_attempts rs' < max_attempts P"
  by (drule transition_verify_ok) (auto simp: poll_ok_def verify_frame_def)

subsection \<open>What a verification may cost\<close>

text \<open>One charged read per poll.\<close>

lemma reinvestigate_budget [simp]: "budget (reinvestigate rs now e) = budget rs"
  by (simp add: reinvestigate_def)

lemma escalate_remediation_budget [simp]: "budget (escalate_remediation rs now r a False) = budget rs"
  by (simp add: escalate_remediation_def Let_def mark_def)

lemma conclude_verified_budget: "conclude_verified P rs now p reading = Inr rs' \<Longrightarrow> budget rs' = budget rs"
  by (auto simp: conclude_verified_def hand_back_or_off_def split: sum.splits exn.splits resolution.splits option.splits)

lemma record_poll_calls [simp]:
  "tool_calls_used (budget (record_poll P rs now p args attempt v call)) = tool_calls_used (budget rs) + 1"
  "budget (record_gate P rs now attempt g) = budget rs"
  by (simp_all add: record_poll_def record_gate_def Let_def split: prod.split)

lemma verify_poll_calls:
  assumes "verify_poll P w rs now p args action attempt = (w', out)"
  shows "case out of
      Poll_over rs' \<Rightarrow> tool_calls_used (budget rs') \<le> tool_calls_used (budget rs) + 1
    | Poll_again rs' _ _ _ _ \<Rightarrow> tool_calls_used (budget rs') = tool_calls_used (budget rs) + 1
    | Poll_raised _ \<Rightarrow> True"
  using assms
proof (cases rule: verify_poll_cases)
  case (judged v call rs1 gate rs2)
  then have "tool_calls_used (budget rs2) = tool_calls_used (budget rs) + 1"
    by (auto split: option.splits)
  with judged(4) show ?thesis
    by (auto split: sum.splits dest: conclude_verified_budget)
qed auto

lemma verify_polls_calls:
  "verify_polls P n attempt w rs now last_at p args action reading why_text gate = (w', Inr rs')
   \<Longrightarrow> tool_calls_used (budget rs') \<le> tool_calls_used (budget rs) + int n"
proof (induction n arbitrary: attempt w rs last_at reading why_text gate)
  case 0
  then show ?case by (auto split: option.splits if_splits)
next
  case (Suc n)
  show ?case
  proof (cases "0 < attempt \<and> is_exhausted (budget rs)")
    case True
    with Suc.prems show ?thesis by auto
  next
    case False
    from False Suc.prems obtain w2 poll_at w3 out where
      poll: "verify_poll P w2 rs poll_at p args action attempt = (w3, out)"
      and rest: "(case (w3, out) of
                 (w3, Poll_raised err) \<Rightarrow> (w3, Inl err)
               | (w3, Poll_over rs') \<Rightarrow> (w3, Inr rs')
               | (w3, Poll_again rs' at' v why' gate') \<Rightarrow>
                   verify_polls P n (attempt + 1) w3 rs' now at' p args action (Reading v) why' gate')
              = (w', Inr rs')"
      by (auto simp: Let_def split: prod.splits poll_end.splits)
    note c = verify_poll_calls[OF poll]
    show ?thesis
    proof (cases out)
      case (Poll_again rs1 at1 v1 why1 gate1)
      with rest Suc.IH have "tool_calls_used (budget rs') \<le> tool_calls_used (budget rs1) + int n" by simp
      with c Poll_again show ?thesis by simp
    qed (use rest c in simp_all)
  qed
qed

lemma transition_verify_calls:
  "transition_verify P w rs now = (w', Inr rs')
   \<Longrightarrow> tool_calls_used (budget rs') \<le> tool_calls_used (budget rs) + int (probe_attempts P)"
  by (auto simp: transition_verify_def split: loaded_plan.splits if_splits option.splits
      dest: verify_polls_calls)

end
