(* ===== verification/Live_Run.thy ===== *)
theory Live_Run
  imports Durable_Run Remediation_Facts
begin

text \<open>
  The live wiring of \<^verbatim>\<open>evals/runner.py\<close> (\<open>live_transitions\<close>) and the webhook wiring of
  \<^verbatim>\<open>api/app.py\<close> (\<open>service_transitions\<close>) as interpretations of \<open>guarded_registry\<close> and, over both
  stores, of \<open>durable_run\<close>. The invariant of a live run is what every checkpoint of it shows: the
  attempt counter bounds its Tier-1 actions, a run in REMEDIATING holds an admissible plan, and a
  RESOLVED run shows why.
\<close>

subsection \<open>The loop's bookkeeping leaves the guards' answers alone\<close>

lemma stamp_entered_rows:
  obtains "evidence (stamp_entered rs d t n) = evidence rs"
  | es e where "evidence rs = es @ [e]" "is_marker (tool_name e)"
      "evidence (stamp_entered rs d t n) = es @ [e\<lparr>timestamp := t\<rparr>]"
proof (cases "n < length (evidence rs) \<and> timestamp (last (evidence rs)) = d
    \<and> is_marker (tool_name (last (evidence rs)))")
  case True
  then have "evidence rs = butlast (evidence rs) @ [last (evidence rs)]"
    by (cases "evidence rs" rule: rev_cases) auto
  with True show thesis
    by (intro that(2)[of "butlast (evidence rs)" "last (evidence rs)"]) (auto simp: stamp_entered_def Let_def)
next
  case False
  then show thesis by (intro that(1)) (auto simp: stamp_entered_def Let_def)
qed

lemma stamp_entered_tier_1 [simp]:
  "length (tier_1_rows (evidence (stamp_entered rs d t n))) = length (tier_1_rows (evidence rs))"
  by (rule stamp_entered_rows[of rs d t n]) (auto simp: tier_1_rows_def marker_not_tier_1)

lemma stamp_entered_hypotheses [simp]: "hypotheses (stamp_entered rs d t n) = hypotheses rs"
  by (simp add: stamp_entered_def Let_def)

lemma escalate_tier_1 [simp]: "tier_1_rows (evidence (escalate rs r now)) = tier_1_rows (evidence rs)"
  by (simp add: escalate_def tier_1_rows_def tier_1_tools_def)

lemma plan_admissible_last_row:
  assumes "bookkeeping e" and "bookkeeping e'" and "evidence rs = es @ [e]" and "evidence rs' = es @ [e']"
    and "alert rs' = alert rs"
  shows "plan_admissible L p rs' = plan_admissible L p rs"
  using guards_ignore_bookkeeping[OF assms(1), of rs "rs\<lparr>evidence := es\<rparr>" L p]
    guards_ignore_bookkeeping[OF assms(2), of rs' "rs\<lparr>evidence := es\<rparr>" L p] assms(3-)
  by simp

text \<open>A run on its way to its action.\<close>

definition ready_to_act :: "libs \<Rightarrow> run_state \<Rightarrow> bool" where
  "ready_to_act L rs =
     (\<exists>p es e. load_plan rs = Loaded p \<and> plan_admissible L p rs \<and> evidence rs = es @ [e] \<and> bookkeeping e)"

lemma bookkeeping_restamped [simp]: "bookkeeping (e\<lparr>timestamp := t\<rparr>) = bookkeeping e"
  by (simp add: bookkeeping_def)

lemma load_plan_cong: "remediation_plan rs' = remediation_plan rs \<Longrightarrow> load_plan rs' = load_plan rs"
  by (simp add: load_plan_def)

lemma ready_to_act_step:
  assumes "ready_to_act L rs" and "remediation_plan rs' = remediation_plan rs" and "alert rs' = alert rs"
    and "evidence rs' = evidence rs
      \<or> (\<exists>es e t. evidence rs = es @ [e] \<and> evidence rs' = es @ [e\<lparr>timestamp := t\<rparr>])"
  shows "ready_to_act L rs'"
proof -
  from assms(1) obtain p es e where p: "load_plan rs = Loaded p" "plan_admissible L p rs"
    and e: "evidence rs = es @ [e]" "bookkeeping e" by (auto simp: ready_to_act_def)
  from assms(4) e obtain e' where e': "evidence rs' = es @ [e']" "bookkeeping e'" by auto
  from plan_admissible_last_row[OF e(2) e'(2) e(1) e'(1) assms(3)] p e' load_plan_cong[OF assms(2)]
  show ?thesis by (auto simp: ready_to_act_def)
qed

lemma find_snoc: "\<not> Q x \<Longrightarrow> find Q (xs @ [x]) = find Q xs"
  by (induction xs) auto

lemma newest_snoc: "\<not> Q x \<Longrightarrow> newest Q (xs @ [x]) = newest Q xs"
  by (simp add: newest_def enumerate_append_eq)

lemma evidence_before_snoc: "tool_name x \<noteq> t \<Longrightarrow> evidence_before (xs @ [x]) t = evidence_before xs t"
  by (auto simp: evidence_before_def takeWhile_append)

text \<open>The judge's own row is read by none of the questions in front of RESOLVED.\<close>

lemma judge_row_unread:
  assumes "tool_name j = ''_verify_judge''" and "evidence rs = xs @ [j]"
  shows "action_tool p \<in> set tier_1_tools \<Longrightarrow>
      uncleared_alert_condition p rs = uncleared_alert_condition p (rs\<lparr>evidence := xs\<rparr>)"
    and "stabilized_earlier rs = stabilized_earlier (rs\<lparr>evidence := xs\<rparr>)"
    and "standing_causes rs p = standing_causes (rs\<lparr>evidence := xs\<rparr>) p"
    and "metric_expectation (alert rs) = Some x \<Longrightarrow> gate_miss i rs x = gate_miss i (rs\<lparr>evidence := xs\<rparr>) x"
proof -
  have j: "tool_name j \<noteq> attempt_failed_marker" by (simp add: assms(1) attempt_failed_marker_def)
  show "uncleared_alert_condition p rs = uncleared_alert_condition p (rs\<lparr>evidence := xs\<rparr>)"
    if "action_tool p \<in> set tier_1_tools"
  proof -
    have "tool_name j \<noteq> action_tool p" 
      using that assms(1) by (metis is_marker_Cons tier_1_not_marker)
    from evidence_before_snoc[OF this] assms(2) show ?thesis by (simp add: uncleared_alert_condition_def)
  qed
  show "stabilized_earlier rs = stabilized_earlier (rs\<lparr>evidence := xs\<rparr>)"
    using j assms(2) by (simp add: stabilized_earlier_def find_snoc)
  show "standing_causes rs p = standing_causes (rs\<lparr>evidence := xs\<rparr>) p"
    using j assms(2) by (simp add: standing_causes_def attempted_targets_def)
  have "action_entry (xs @ [j]) = action_entry xs"
    using assms(1)
    by (auto simp: action_entry_def is_tier_one_def tier_of_TIER_1_iff tier_1_tools_def intro!: newest_snoc)
  moreover assume x: "metric_expectation (alert rs) = Some x"
  then have "subject_tool (me_subject x) \<in> set read_tools"
    by (intro alert_subject_tool_read[of "alert rs"])
      (auto simp: metric_expectation_def Let_def split: option.splits)
  then have "subject_tool (me_subject x) \<noteq> tool_name j" using assms(1) by (auto simp: read_tools_def)
  then have "last_subject_reading rs (me_subject x) = last_subject_reading (rs\<lparr>evidence := xs\<rparr>) (me_subject x)"
    using assms(2) by (auto simp: last_subject_reading_def intro!: newest_snoc)
  ultimately show "gate_miss i rs x = gate_miss i (rs\<lparr>evidence := xs\<rparr>) x"
    using assms(2) by (intro gate_miss_cong) simp_all
qed

lemma judge_row_step:
  assumes "resolution_shown P rs" and "remediation_plan rs' = remediation_plan rs"
    and "alert rs' = alert rs" and "hypotheses rs' = hypotheses rs"
    and "evidence rs' = evidence rs
      \<or> (\<exists>es e t. evidence rs = es @ [e] \<and> evidence rs' = es @ [e\<lparr>timestamp := t\<rparr>])"
  shows "resolution_shown P rs'"
proof -
  from assms(1) obtain p older probe judge why where p: "load_plan rs = Loaded p"
    "resolution_class_of (action_tool p) = Inr RESOLVES"
    and ev: "evidence rs = older @ [probe, judge]" "tool_name probe = verify_tool p"
    and judge: "tool_name judge = ''_verify_judge''"
      "result_summary judge = Say ''{}: {}'' [Word ''verified'', Word why]"
    and stands: "uncleared_alert_condition p rs = None" "stabilized_earlier rs = None"
      "standing_causes rs p = []"
      "case metric_expectation (alert rs) of None \<Rightarrow> True | Some x \<Rightarrow> gate_miss (iso_datetime P) rs x = None"
    by (auto simp: resolution_shown_def)
  let ?xs = "older @ [probe]"
  from assms(5) ev judge obtain judge' where ev': "evidence rs' = ?xs @ [judge']"
    and judge': "tool_name judge' = ''_verify_judge''"
      "result_summary judge' = Say ''{}: {}'' [Word ''verified'', Word why]" by auto
  have tier: "action_tool p \<in> set tier_1_tools"
    using load_plan_valid[OF p(1)] by (simp add: valid_plan_def)
  from ev have ev0: "evidence rs = ?xs @ [judge]" by simp
  have base: "uncleared_alert_condition p (rs'\<lparr>evidence := ?xs\<rparr>) = uncleared_alert_condition p (rs\<lparr>evidence := ?xs\<rparr>)"
    "stabilized_earlier (rs'\<lparr>evidence := ?xs\<rparr>) = stabilized_earlier (rs\<lparr>evidence := ?xs\<rparr>)"
    "standing_causes (rs'\<lparr>evidence := ?xs\<rparr>) p = standing_causes (rs\<lparr>evidence := ?xs\<rparr>) p"
    "last_subject_reading (rs'\<lparr>evidence := ?xs\<rparr>) s = last_subject_reading (rs\<lparr>evidence := ?xs\<rparr>) s" for s
    using assms(3,4)
    by (simp_all add: uncleared_alert_condition_def stabilized_earlier_def standing_causes_def
        attempted_targets_def last_subject_reading_def)
  have gate: "gate_miss i (rs'\<lparr>evidence := ?xs\<rparr>) x = gate_miss i (rs\<lparr>evidence := ?xs\<rparr>) x" for i x
    by (rule gate_miss_cong) (simp_all add: base(4))
  note new = judge_row_unread[OF judge'(1) ev'] and old = judge_row_unread[OF judge(1) ev0]
  have "case metric_expectation (alert rs') of None \<Rightarrow> True | Some x \<Rightarrow> gate_miss (iso_datetime P) rs' x = None"
    using stands(4) assms(3) new(4) old(4) gate by (auto split: option.splits)
  moreover have "uncleared_alert_condition p rs' = None" "stabilized_earlier rs' = None" "standing_causes rs' p = []"
    using stands new(1)[OF tier] new(2,3) old(1)[OF tier] old(2,3) base by simp_all
  ultimately show ?thesis
    using p load_plan_cong[OF assms(2)] ev(2) ev' judge' unfolding resolution_shown_def by fastforce
qed

subsection \<open>The invariant of a live run\<close>

definition live_inv :: "'w remediator \<Rightarrow> run_state \<Rightarrow> bool" where
  "live_inv P rs =
     (int (length (tier_1_rows (evidence rs))) \<le> remediation_attempts rs
      \<and> remediation_attempts rs \<le> max_attempts P
      \<and> (state rs = REMEDIATING \<longrightarrow> remediation_attempts rs < max_attempts P \<and> ready_to_act (rem_libs P) rs)
      \<and> (state rs = RESOLVED \<longrightarrow> resolution_shown P rs))"

lemma live_inv_other:
  "live_inv P rs \<Longrightarrow> remediation_attempts rs' = remediation_attempts rs
   \<Longrightarrow> tier_1_rows (evidence rs') = tier_1_rows (evidence rs)
   \<Longrightarrow> state rs' \<noteq> REMEDIATING \<Longrightarrow> state rs' \<noteq> RESOLVED \<Longrightarrow> live_inv P rs'"
  by (simp add: live_inv_def)

lemma live_inv_bookkeeping:
  assumes "live_inv P rs" and "state rs' = state rs" and "alert rs' = alert rs"
    and "hypotheses rs' = hypotheses rs" and "remediation_plan rs' = remediation_plan rs"
    and "remediation_attempts rs' = remediation_attempts rs"
    and "length (tier_1_rows (evidence rs')) = length (tier_1_rows (evidence rs))"
    and "evidence rs' = evidence rs
      \<or> (\<exists>es e t. evidence rs = es @ [e] \<and> evidence rs' = es @ [e\<lparr>timestamp := t\<rparr>])"
  shows "live_inv P rs'"
  using assms(1,2,6,7) ready_to_act_step[OF _ assms(5,3,8)] judge_row_step[OF _ assms(5,3,4,8)]
  by (auto simp: live_inv_def)

lemma live_inv_accrue: "live_inv P rs \<Longrightarrow> live_inv P (accrue_wall_time rs now)"
  by (erule live_inv_bookkeeping) simp_all

lemma live_inv_escalate: "live_inv P rs \<Longrightarrow> live_inv P (escalate rs r now)"
  by (erule live_inv_other) simp_all

lemma live_inv_stamp: "live_inv P rs \<Longrightarrow> live_inv P (stamp_entered rs d t n)"
  by (erule live_inv_bookkeeping, simp_all) (rule stamp_entered_rows[of rs d t n], auto)

lemma grew_live_inv:
  "grew rs rs' \<Longrightarrow> live_inv P rs \<Longrightarrow> state rs' \<noteq> REMEDIATING \<Longrightarrow> state rs' \<noteq> RESOLVED \<Longrightarrow> live_inv P rs'"
  using grew_tier_1_rows[of rs rs'] by (auto simp: grew_def elim!: live_inv_other)

lemma transition_plan_live_inv:
  assumes "transition_plan P w rs now = (w', Inr rs')" and "live_inv P rs"
  shows "live_inv P rs'"
  using transition_plan_cases[OF assms(1)]
proof
  assume "grew rs rs' \<and> state rs' = ESCALATED"
  with assms(2) show ?thesis by (auto intro: grew_live_inv)
next
  assume p: "state rs' = REMEDIATING \<and> run_le rs rs' \<and> remediation_attempts rs' = remediation_attempts rs
       \<and> remediation_attempts rs < max_attempts P
       \<and> (\<exists>rs1 q. grew rs rs1 \<and> rs' = record_plan rs1 now q)
       \<and> (\<exists>p. load_plan rs' = Loaded p \<and> plan_admissible (rem_libs P) p rs')"
  then obtain rs1 q p where g: "grew rs rs1" and rs': "rs' = record_plan rs1 now q"
    and l: "load_plan rs' = Loaded p" "plan_admissible (rem_libs P) p rs'" by blast
  obtain e where e: "evidence rs' = evidence rs1 @ [e]" "bookkeeping e"
    unfolding rs' record_plan_def by (simp add: bookkeeping_def mark_def)
  from e have "tier_1_rows (evidence rs') = tier_1_rows (evidence rs1)"
    by (simp add: tier_1_rows_def bookkeeping_tools)
  moreover have "ready_to_act (rem_libs P) rs'" using l e by (auto simp: ready_to_act_def)
  ultimately show ?thesis using p assms(2) grew_tier_1_rows[OF g] by (simp add: live_inv_def)
qed

lemma transition_remediate_live_inv:
  assumes "transition_remediate P w rs now = (w', Inr rs')" and "live_inv P rs" and "state rs = REMEDIATING"
  shows "live_inv P rs'"
  using transition_remediate_frame[OF assms(1)] assms(2,3) by (auto simp: live_inv_def)

lemma transition_verify_live_inv:
  assumes "transition_verify P w rs now = (w', Inr rs')" and "live_inv P rs"
  shows "live_inv P rs'"
  using transition_verify_ok[OF assms(1)] assms(2)
  by (auto simp: poll_ok_def verify_frame_def live_inv_def)

lemma transition_triage_live_inv:
  "live_inv P rs \<Longrightarrow> live_inv P (transition_triage str_of digest rs now)"
  by (erule live_inv_other) (auto simp: transition_triage_def Let_def tier_1_rows_def tier_1_tools_def)

lemma live_inv_start: "0 \<le> max_attempts P \<Longrightarrow> live_inv P (start_run al cfg now i calls)"
  by (simp add: live_inv_def start_run_def tier_1_rows_def)

subsection \<open>The live registry\<close>

abbreviation live_registry ::
    "(val \<Rightarrow> string) \<Rightarrow> (string \<Rightarrow> string) \<Rightarrow> 'w investigator \<Rightarrow> 'w planner_port \<Rightarrow> string
     \<Rightarrow> 'w remediator \<Rightarrow> 'w registry" where
  "live_registry str_of digest I ask model P \<equiv>
     live_transitions str_of digest (I\<lparr>strategy := baseline ask model\<rparr>) P"

lemma live_registry_cases:
  assumes "live_registry str_of digest I ask model P (state rs) = Some t" and "t w rs now = (w', Inr rs')"
  obtains "state rs = TRIAGE" "rs' = transition_triage str_of digest rs now"
  | "state rs = INVESTIGATING"
    "transition_llm_investigate (I\<lparr>strategy := baseline ask model\<rparr>) w rs now = (w', Inr rs')"
  | "state rs = PLANNING" "transition_plan P w rs now = (w', Inr rs')"
  | "state rs = REMEDIATING" "transition_remediate P w rs now = (w', Inr rs')"
  | "state rs = VERIFYING" "transition_verify P w rs now = (w', Inr rs')"
  using assms
  by (cases "state rs") (auto simp: live_transitions_def default_transitions_def stub_def)

lemma live_investigation:
  assumes "transition_llm_investigate (I\<lparr>strategy := baseline ask model\<rparr>) w rs now = (w', Inr rs')"
    and "state rs = INVESTIGATING"
  shows "grew rs rs'" and "state rs' = ESCALATED \<or> state rs' = PLANNING"
    and "state rs' = PLANNING \<Longrightarrow> planning_gate (required_before_verdict I) rs'"
  using baseline_arm.transition_llm_investigate_ok[OF _ assms] by auto

interpretation live: guarded_registry "live_registry str_of digest I ask model P" "live_inv P"
proof unfold_locales
  fix rs t w now w' rs'
  assume a: "live_registry str_of digest I ask model P (state rs) = Some t" "t w rs now = (w', Inr rs')"
  show "run_le rs rs'"
    using a
    by (cases rule: live_registry_cases)
      (auto simp: frame_simps verify_frame_def intro: grew_run_le
        dest: live_investigation(1) transition_plan_cases transition_remediate_frame(1) transition_verify_frame)
  show "live_inv P rs'" if "live_inv P rs"
    using a
  proof (cases rule: live_registry_cases)
    case 2
    from live_investigation(1,2)[OF 2(2,1)] that show ?thesis by (auto intro: grew_live_inv)
  qed (use that in \<open>auto intro: transition_triage_live_inv transition_plan_live_inv
      transition_remediate_live_inv transition_verify_live_inv\<close>)
qed (auto intro: live_inv_accrue live_inv_escalate live_inv_stamp)

interpretation live_mem: durable_run mem_load mem_write mem_history
  "live_registry str_of digest I ask model P" "live_inv P" ..

interpretation live_pg: durable_run pg_load pg_write pg_history
  "live_registry str_of digest I ask model P" "live_inv P" ..

text \<open>What holds of a run from any state, invariant or not.\<close>

interpretation live_any: guarded_registry "live_registry str_of digest I ask model P" "\<lambda>_. True"
  by unfold_locales (auto intro: live.transition_frame)

interpretation live_any_pg: durable_run pg_load pg_write pg_history
  "live_registry str_of digest I ask model P" "\<lambda>_. True" ..

subsection \<open>The webhook service\<close>

text \<open>The one-probe run of the service reads and escalates; it never acts.\<close>

definition service_inv :: "run_state \<Rightarrow> bool" where
  "service_inv rs =
     (tier_1_rows (evidence rs) = [] \<and> state rs \<in> {TRIAGE, INVESTIGATING, ESCALATED})"

lemma escalate_probe_leg_grows [simp]:
  "grew rs (escalate_probe_leg rs now r args)" "state (escalate_probe_leg rs now r args) = ESCALATED"
  by (simp_all add: escalate_probe_leg_def)

lemma transition_investigate_ok:
  assumes "transition_investigate str_of I w rs now = (w', Inr rs')"
  shows "grew rs rs'" and "state rs' = ESCALATED"
proof -
  have g: "grew rs (with_state (record_reading rs now ''get_consumer_lag'' args v) ESCALATED now)" for args v
    by (rule grew_trans[OF record_reading_grows grew_with_state]) (simp_all add: read_tools_def)
  have "grew rs rs' \<and> state rs' = ESCALATED"
    using assms
    by (auto simp: transition_investigate_def Let_def g
        split: option.splits prod.splits mcp_reply.splits if_splits sum.splits)
  then show "grew rs rs'" and "state rs' = ESCALATED" by simp_all
qed

interpretation service: guarded_registry "service_transitions str_of digest I" service_inv
proof unfold_locales
  fix rs t w now w' rs'
  assume a: "service_transitions str_of digest I (state rs) = Some t" "t w rs now = (w', Inr rs')"
  then have "(state rs = TRIAGE \<and> rs' = transition_triage str_of digest rs now)
      \<or> transition_investigate str_of I w rs now = (w', Inr rs')"
    by (cases "state rs") (auto simp: service_transitions_def default_transitions_def stub_def)
  then have both: "run_le rs rs' \<and> (service_inv rs \<longrightarrow> service_inv rs')"
  proof (elim disjE conjE)
    assume "rs' = transition_triage str_of digest rs now"
    then show ?thesis
      by (simp add: frame_simps)
        (auto simp: transition_triage_def Let_def service_inv_def tier_1_rows_def tier_1_tools_def)
  next
    assume "transition_investigate str_of I w rs now = (w', Inr rs')"
    from transition_investigate_ok[OF this] show ?thesis
      by (auto simp: service_inv_def grew_tier_1_rows intro: grew_run_le)
  qed
  show "run_le rs rs'" using both by blast
  show "service_inv rs'" if "service_inv rs" using both that by blast
next
  fix rs d now n assume "service_inv rs"
  then show "service_inv (stamp_entered rs d now n)"
    using stamp_entered_tier_1[of rs d now n] by (simp add: service_inv_def del: stamp_entered_tier_1)
qed (auto simp: service_inv_def)

interpretation service_pg: durable_run pg_load pg_write pg_history
  "service_transitions str_of digest I" service_inv ..

end
