(* ===== verification/Sample_Run.thy ===== *)
theory Sample_Run
  imports Live_Run
begin

text \<open>
  One concrete live run for the witnesses of the properties: a stale cache key, a platform whose key
  is gone once it was invalidated, a planner that reads the key and then hands over, and a judge that
  says verified. The world is whether the action ran. Nothing here models code.
\<close>

definition show_str :: "val \<Rightarrow> string" where
  "show_str v = (case v of VStr s \<Rightarrow> s | _ \<Rightarrow> ''?'')"

definition show_dict :: "dict \<Rightarrow> string" where
  "show_dict d = concat (map (\<lambda>(k, v). k @ ''='' @ show_str v @ '';'') d)"

text \<open>Every value is accepted as it is; a key is its own digest, cut where the code cuts it.\<close>

definition sample_libs :: libs where
  "sample_libs =
     \<lparr>coerce = (\<lambda>ty v. Some v), dumps_sorted = show_dict, dumps_canonical = show_dict,
      sha256_hex = (\<lambda>s. s),
      output_model = (\<lambda>tool payload. Inr (VDict [(''exists'', VBool (payload = ''stale''))]))\<rparr>"

definition sample_call_tool :: "bool \<Rightarrow> string \<Rightarrow> dict \<Rightarrow> bool \<times> mcp_reply" where
  "sample_call_tool acted tool args =
     (let acts = (tool = ''invalidate_cache_key'') in
      (acted \<or> acts, Mcp_result False [[(''type'', VStr ''text''),
         (''text'', VStr (if acted \<or> acts then ''gone'' else ''stale''))]]))"

definition sample_usage :: llm_usage where
  "sample_usage =
     \<lparr>input_tokens = 100, output_tokens = 20, cache_creation_tokens = 0, cache_read_tokens = 0,
      discarded_attempts = 0, discarded_max_tokens = 0\<rparr>"

definition sample_hypothesis :: hypothesis where
  "sample_hypothesis =
     \<lparr>category = STALE_CACHE, hyp_name = ''stale key'', confidence = 9/10, reasoning = ''the key outlived its data''\<rparr>"

definition sample_key_args :: dict where
  "sample_key_args = [(''key'', VStr ''user:1'')]"

definition sample_planner :: "bool planner_port" where
  "sample_planner w rs what quoted =
     (w, Step_reply [sample_hypothesis]
           (if evidence rs \<noteq> [] \<and> tool_name (last (evidence rs)) = ''get_cache_key_info''
            then Remediate ''invalidate it'' else Probe ''get_cache_key_info'' sample_key_args)
           sample_usage)"

definition sample_plan :: remediation_plan where
  "sample_plan =
     \<lparr>target_hypothesis = ''stale key'', action_tool = ''invalidate_cache_key'', action_arguments = sample_key_args,
      verify_tool = ''get_cache_key_info'', verify_arguments = sample_key_args,
      verify_expectation = ''exists is false'', action_rationale = None\<rparr>"

definition sample_investigator :: "bool investigator" where
  "sample_investigator =
     \<lparr>inv_libs = sample_libs, call_tool = sample_call_tool, sleep = (\<lambda>w _. w), planner_log = None,
      strategy = baseline sample_planner ''claude-sonnet-4-6'', planner_model = ''claude-sonnet-4-6'',
      thinking_tool = ''think'', max_iterations = 5, reprobe_attempts = 0, reprobe_delay_seconds = 0,
      required_before_verdict = []\<rparr>"

definition sample_remediator :: "bool remediator" where
  "sample_remediator =
     \<lparr>rem_libs = sample_libs, rem_call_tool = sample_call_tool,
      ask_plan = (\<lambda>w rs target quoted. (w, Plan_reply (dump_plan sample_plan) sample_usage)),
      ask_judge = (\<lambda>w ctx quoted. (w, Judge_reply VERIFIED ''the key is gone'' sample_usage)),
      rem_model = ''claude-sonnet-4-6'', judge_model = ''claude-haiku-4-5'', rem_sleep = (\<lambda>w _. w),
      verify_clock = None, max_attempts = 2, probe_attempts = 1, probe_delay_seconds = 0,
      iso_datetime = (\<lambda>_. None), verdict_log = None\<rparr>"

definition sample_alert :: dict where
  "sample_alert = [(''severity'', VStr ''critical''), (''cache_key'', VStr ''user:1'')]"

definition sample_settings :: settings where
  "sample_settings =
     \<lparr>agent_model = ''claude-sonnet-4-6'', development_model = ''claude-sonnet-4-6'',
      benchmark_model = ''claude-sonnet-4-6'', cfg_judge_model = ''claude-haiku-4-5'',
      budget_max_tool_calls = 10, budget_max_tokens = 100000, budget_max_seconds = 600, budget_max_usd = 1,
      token_budget_multiplier = 1, usd_budget_multiplier = 1,
      platform_webhook_secret = ''s'', platform_chaos_token = None, platform_smoke_token = None,
      webhook_max_skew_seconds = 300, webhook_max_body_bytes = 1048576,
      db_pool_size = 10, db_max_overflow = 10, db_ingest_reserved_connections = 4,
      agent_max_concurrent_runs = None, agent_enabled = True,
      verify_probe_attempts = 1, verify_probe_delay_seconds = 15,
      investigate_reprobe_attempts = 0, cfg_reprobe_delay_seconds = 20, max_remediation_attempts = 2\<rparr>"

definition sample_start :: run_state where
  "sample_start = start_run sample_alert sample_settings 0 ''i'' None"

definition sample_registry :: "bool registry" where
  "sample_registry =
     live_transitions show_str (\<lambda>s. s)
       (sample_investigator\<lparr>strategy := baseline sample_planner ''claude-sonnet-4-6''\<rparr>) sample_remediator"

abbreviation sample_clock :: "bool \<Rightarrow> bool \<times> datetime" where
  "sample_clock \<equiv> \<lambda>w. (w, 1000)"

subsection \<open>The run, step by step\<close>

definition triage_row :: evidence_entry where
  "triage_row = entry ''_triage'' [(''severity'', VStr ''critical''), (''dedup_key'', VStr ''|'')]
     (Say ''severity={} classified as {}'' [Word ''critical'', Word ''investigating'']) 1000"

definition key_row :: "bool \<Rightarrow> dict \<Rightarrow> evidence_entry" where
  "key_row present more_args = entry ''get_cache_key_info'' (sample_key_args @ more_args)
     (Reading (VDict [(''exists'', VBool present)])) 1000"

definition handoff_row :: evidence_entry where
  "handoff_row = entry ''_planner_remediate'' [(''reason'', VText (Word ''invalidate it''))]
     (Say ''planner handoff to PLANNING: {}'' [Word ''invalidate it'']) 1000"

definition sample_at ::
    "incident_state \<Rightarrow> int \<Rightarrow> int \<Rightarrow> rat \<Rightarrow> evidence_entry list \<Rightarrow> dict option \<Rightarrow> int \<Rightarrow> run_state" where
  "sample_at st calls toks usd rows plan attempts =
     \<lparr>schema_version = 3, incident_id = ''i'', state = st, alert = sample_alert,
      budget = \<lparr>max_tool_calls = 10, tool_calls_used = calls, max_tokens = 100000, tokens_used = toks,
                max_wall_seconds = 600, wall_us_used = 1000, max_usd = 1, usd_used = usd\<rparr>,
      evidence = rows, hypotheses = (if toks = 0 then [] else [sample_hypothesis]),
      pending_approval_id = None, remediation_plan = plan, remediation_attempts = attempts,
      created_at = 0, updated_at = 1000\<rparr>"

definition sample_investigating :: run_state where
  "sample_investigating = sample_at INVESTIGATING 0 0 0 [triage_row] None 0"

definition sample_planning :: run_state where
  "sample_planning = sample_at PLANNING 1 240 (1200/1000000) [triage_row, key_row True [], handoff_row] None 0"

definition plan_row :: evidence_entry where
  "plan_row = entry ''_planner_plan'' [(''target_hypothesis'', VStr ''stale key'')]
     (Say ''plan: {} then verify via {}'' [plan_call sample_plan, Word ''get_cache_key_info'']) 1000"

definition planned_rows :: "evidence_entry list" where
  "planned_rows = [triage_row, key_row True [], handoff_row, plan_row]"

definition sample_remediating :: run_state where
  "sample_remediating =
     sample_at REMEDIATING 1 360 (1800/1000000) planned_rows (Some (dump_plan sample_plan)) 0"

definition sample_plain :: "bool run_ports" where
  "sample_plain = plain_ports sample_clock sample_registry"

lemma sample_triaged:
  "loop_iteration sample_plain True False sample_start = (False, Inr sample_investigating)"
  by code_simp

lemma sample_investigated:
  "loop_iteration sample_plain False False sample_investigating = (False, Inr sample_planning)"
  by code_simp

lemma sample_planned:
  "loop_iteration sample_plain False False sample_planning = (False, Inr sample_remediating)"
  by code_simp

definition action_row :: evidence_entry where
  "action_row = entry ''invalidate_cache_key''
     (sample_key_args @ [(''idempotency_key'', VStr ''i|invalidate_cache_key|key=user:'')])
     (Reading (VDict [(''exists'', VBool False)])) 1000"

definition sample_verifying :: run_state where
  "sample_verifying =
     sample_at VERIFYING 2 360 (1800/1000000) (planned_rows @ [action_row]) (Some (dump_plan sample_plan)) 1"

definition judge_row :: evidence_entry where
  "judge_row = entry ''_verify_judge''
     [(''expectation'', VStr ''exists is false''), (''attempt'', VInt 1), (''of'', VInt 1)]
     (Say ''{}: {}'' [Word ''verified'', Word ''the key is gone'']) 1000"

definition sample_resolved :: run_state where
  "sample_resolved =
     sample_at RESOLVED 3 480 (2000/1000000)
       (planned_rows @ [action_row, key_row False [(''attempt'', VInt 1), (''of'', VInt 1)], judge_row])
       (Some (dump_plan sample_plan)) 1"

lemma sample_remediated:
  "loop_iteration sample_plain False False sample_remediating = (True, Inr sample_verifying)"
  by code_simp

lemma sample_verified:
  "loop_iteration sample_plain False True sample_verifying = (True, Inr sample_resolved)"
  by code_simp

text \<open>The same steps as transitions.\<close>

lemma sample_transitions:
  "transition_llm_investigate (sample_investigator\<lparr>strategy := baseline sample_planner ''claude-sonnet-4-6''\<rparr>)
     False sample_investigating 1000 = (False, Inr sample_planning)"
  "transition_plan sample_remediator False sample_planning 1000 = (False, Inr sample_remediating)"
  "transition_remediate sample_remediator False sample_remediating 1000 = (True, Inr sample_verifying)"
  "transition_verify sample_remediator True sample_verifying 1000 = (True, Inr sample_resolved)"
  by code_simp+

lemma sample_validator_ok: "validator_ok sample_libs"
  by (auto simp: validator_ok_def sample_libs_def)

lemma sample_states [simp]:
  "state sample_start = TRIAGE" "state sample_investigating = INVESTIGATING"
  "state sample_planning = PLANNING" "state sample_remediating = REMEDIATING"
  "state sample_verifying = VERIFYING" "state sample_resolved = RESOLVED"
  "incident_id sample_start = ''i''"
  by (simp_all add: sample_start_def start_run_def sample_investigating_def sample_planning_def
      sample_remediating_def sample_verifying_def sample_resolved_def sample_at_def)

lemma sample_ids [simp]:
  "incident_id sample_investigating = ''i''" "incident_id sample_planning = ''i''"
  "incident_id sample_remediating = ''i''" "incident_id sample_verifying = ''i''"
  "incident_id sample_resolved = ''i''"
  by (simp_all add: sample_investigating_def sample_planning_def
      sample_remediating_def sample_verifying_def sample_resolved_def sample_at_def)

text \<open>The whole run over Postgres, with the snapshots it leaves.\<close>

abbreviation sample_pg :: "(bool \<times> snapshots) run_ports" where
  "sample_pg \<equiv> durable_ports sample_clock pg_write
     (live_registry show_str (\<lambda>s. s) sample_investigator sample_planner ''claude-sonnet-4-6'' sample_remediator)"

lemma sample_iteration:
  assumes "loop_iteration sample_plain b w rs = (w', Inr rs')" and "\<not> is_terminal (state rs)"
    and "incident_id rs = ''i''"
  shows "\<exists>s'. loop_iteration sample_pg b (w, s) rs = ((w', s'), Inr rs')
    \<and> pg_history s' ''i'' = pg_history s ''i'' @ [rs']"
proof -
  have "map_prod fst id (loop_iteration sample_pg b (w, s) rs) = (w', Inr rs')"
    using iteration_transparent[OF pg_reliable, of sample_clock sample_registry b w s rs] assms(1)
    by (simp add: sample_plain_def sample_registry_def)
  then obtain s' where it: "loop_iteration sample_pg b (w, s) rs = ((w', s'), Inr rs')"
    by (cases "loop_iteration sample_pg b (w, s) rs") auto
  with live_pg.iteration_durable(1)[OF it assms(2), of "''i''"] assms(3) show ?thesis by simp
qed

lemma sample_run:
  "\<exists>s'. run_to_completion sample_pg 12 (False, []) sample_start = ((True, s'), Inr sample_resolved)
    \<and> pg_history s' ''i'' = [sample_start, sample_investigating, sample_planning, sample_remediating,
         sample_verifying, sample_resolved]"
proof -
  obtain s0 where s0: "save sample_pg (False, []) sample_start = ((False, s0), Inr sample_start)"
    by (rule that, rule save_reliable[OF pg_reliable])
  have h0: "pg_history s0 ''i'' = [sample_start]"
    using live_pg.save_durable[OF s0, of "''i''"] by (simp add: pg_history_def rows_of_def)
  note ex = sample_iteration[OF sample_triaged, of s0] sample_iteration[OF sample_investigated]
    sample_iteration[OF sample_planned] sample_iteration[OF sample_remediated] sample_iteration[OF sample_verified]
  from ex(1) obtain s1 where 1: "loop_iteration sample_pg True (False, s0) sample_start = ((False, s1), Inr sample_investigating)"
    "pg_history s1 ''i'' = pg_history s0 ''i'' @ [sample_investigating]" by auto
  from ex(2)[of s1] obtain s2 where 2: "loop_iteration sample_pg False (False, s1) sample_investigating = ((False, s2), Inr sample_planning)"
    "pg_history s2 ''i'' = pg_history s1 ''i'' @ [sample_planning]" by auto
  from ex(3)[of s2] obtain s3 where 3: "loop_iteration sample_pg False (False, s2) sample_planning = ((False, s3), Inr sample_remediating)"
    "pg_history s3 ''i'' = pg_history s2 ''i'' @ [sample_remediating]" by auto
  from ex(4)[of s3] obtain s4 where 4: "loop_iteration sample_pg False (False, s3) sample_remediating = ((True, s4), Inr sample_verifying)"
    "pg_history s4 ''i'' = pg_history s3 ''i'' @ [sample_verifying]" by auto
  from ex(5)[of s4] obtain s5 where 5: "loop_iteration sample_pg False (True, s4) sample_verifying = ((True, s5), Inr sample_resolved)"
    "pg_history s5 ''i'' = pg_history s4 ''i'' @ [sample_resolved]" by auto
  have "run_to_completion sample_pg 12 (False, []) sample_start = ((True, s5), Inr sample_resolved)"
    by (simp add: run_to_completion_def s0 eval_nat_numeral 1(1) 2(1) 3(1) 4(1) 5(1))
  with h0 1(2) 2(2) 3(2) 4(2) 5(2) show ?thesis by simp
qed

lemma sample_empty_history: "pg_history [] i = []"
  by (simp add: pg_history_def rows_of_def)

end
