(* ===== verification/Ingress.thy ===== *)
theory Ingress
  imports Checkpoint
begin

text \<open>
  The webhook of \<^verbatim>\<open>api/app.py\<close> up to the background task it adds, with the signature checks of
  \<^verbatim>\<open>api/hmac_verify.py\<close> and the payload of \<^verbatim>\<open>api/schemas.py\<close>. A character is a byte; headers are
  decoded as Latin-1, so a header character above 127 is two bytes once encoded as UTF-8.
  HMAC-SHA256 and the JSON parser are arguments. The replay caches are dictionaries in insertion
  order; \<open>time.time()\<close> is a rational number of seconds.
\<close>

subsection \<open>Signatures\<close>

definition ascii :: "string \<Rightarrow> bool" where
  "ascii s = list_all (\<lambda>c. (of_char c :: nat) < 128) s"

definition utf8 :: "string \<Rightarrow> string" where
  "utf8 s = concat (map (\<lambda>c. let n = (of_char c :: nat) in
       if n < 128 then [c] else [char_of (192 + n div 64), char_of (128 + n mod 64)]) s)"

definition signature_prefix :: string where
  "signature_prefix = ''sha256=''"

text \<open>\<open>hmac.compare_digest\<close> on \<open>str\<close> accepts ASCII only and raises \<open>TypeError\<close> otherwise.\<close>

definition compare_digest :: "string \<Rightarrow> string \<Rightarrow> bool result" where
  "compare_digest a b = (if ascii a \<and> ascii b then Inr (a = b) else Inl (Foreign ''TypeError''))"

type_synonym hmac = "string \<Rightarrow> string \<Rightarrow> string"

definition signature_matches :: "hmac \<Rightarrow> string \<Rightarrow> string \<Rightarrow> string \<Rightarrow> bool result" where
  "signature_matches hmac header material secret =
     (if \<not> prefix signature_prefix header then Inr False
      else (let provided = drop (length signature_prefix) header;
                expected = hmac (utf8 secret) material
            in if length provided \<noteq> length expected then Inr False
               else compare_digest provided expected))"

definition sign :: "hmac \<Rightarrow> string \<Rightarrow> string \<Rightarrow> string" where
  "sign hmac body secret = signature_prefix @ hmac (utf8 secret) body"

definition verify :: "hmac \<Rightarrow> string \<Rightarrow> string \<Rightarrow> string \<Rightarrow> bool result" where
  "verify hmac body header secret = signature_matches hmac header body secret"

definition signed_material :: "string \<Rightarrow> string \<Rightarrow> string \<Rightarrow> string" where
  "signed_material time_stamp nonce body = utf8 (time_stamp @ ''.'' @ nonce @ ''.'') @ body"

definition sign_delivery :: "hmac \<Rightarrow> string \<Rightarrow> string \<Rightarrow> string \<Rightarrow> string \<Rightarrow> string" where
  "sign_delivery hmac secret time_stamp nonce body =
     signature_prefix @ hmac (utf8 secret) (signed_material time_stamp nonce body)"

definition verify_delivery :: "hmac \<Rightarrow> string \<Rightarrow> string \<Rightarrow> string \<Rightarrow> string \<Rightarrow> string \<Rightarrow> bool result" where
  "verify_delivery hmac body time_stamp nonce header secret =
     signature_matches hmac header (signed_material time_stamp nonce body) secret"

lemma signature_matches_True:
  "signature_matches hmac header material secret = Inr True
     \<longleftrightarrow> header = signature_prefix @ hmac (utf8 secret) material \<and> ascii (hmac (utf8 secret) material)"
  by (auto simp: signature_matches_def compare_digest_def Let_def prefix_def split: if_splits)

subsection \<open>Timestamps\<close>

text \<open>\<open>int(str)\<close>: surrounding space, a sign, digits with single underscores between, at most 4300 digits.\<close>

definition is_digit :: "char \<Rightarrow> bool" where
  "is_digit c = (let n = (of_char c :: nat) in 48 \<le> n \<and> n \<le> 57)"

fun int_digits :: "nat \<Rightarrow> bool \<Rightarrow> string \<Rightarrow> nat option" where
  "int_digits acc after_digit [] = (if after_digit then Some acc else None)"
| "int_digits acc after_digit (c # cs) =
     (if is_digit c then int_digits (10 * acc + (of_char c - 48)) True cs
      else if c = CHR ''_'' \<and> after_digit then int_digits acc False cs
      else None)"

definition py_int :: "string \<Rightarrow> int option" where
  "py_int s =
     (if 4300 < length (filter is_digit s) then None
      else case strip s of
          [] \<Rightarrow> None
        | c # cs \<Rightarrow>
            if c = CHR ''-'' then map_option (\<lambda>n. - int n) (int_digits 0 False cs)
            else if c = CHR ''+'' then map_option int (int_digits 0 False cs)
            else map_option int (int_digits 0 False (c # cs)))"

text \<open>\<open>_reject_unless_within_skew\<close>: the 401 it answers, if any.\<close>

definition skew_refusal :: "string \<Rightarrow> rat \<Rightarrow> int \<Rightarrow> string option" where
  "skew_refusal header now max_skew_seconds =
     (case py_int header of
        None \<Rightarrow> Some ''unusable X-Alert-Timestamp''
      | Some timestamp_ms \<Rightarrow>
          if max_skew_seconds * 1000 < \<bar>\<lfloor>now * 1000\<rfloor> - timestamp_ms\<bar>
          then Some ''X-Alert-Timestamp outside the accepted skew window''
          else None)"

subsection \<open>The replay caches\<close>

type_synonym seen_cache = "(string \<times> rat) list"

definition replay_cache_max_entries :: nat where
  "replay_cache_max_entries = 1024"

text \<open>\<open>min(cache, key=cache.__getitem__)\<close>: the first key with the least time.\<close>

fun oldest_key :: "seen_cache \<Rightarrow> string option" where
  "oldest_key [] = None"
| "oldest_key ((k, t) # rest) =
     (if \<forall>(k', t')\<in>set rest. t \<le> t' then Some k else oldest_key rest)"

definition is_replay :: "seen_cache \<Rightarrow> string \<Rightarrow> rat \<Rightarrow> rat \<Rightarrow> seen_cache \<times> bool" where
  "is_replay cache key now window =
     (let live = filter (\<lambda>(_, seen). \<not> window < now - seen) cache in
      if key \<in> set (map fst live) then (live, True)
      else (let room = (if replay_cache_max_entries \<le> length live
                        then filter (\<lambda>(k, _). Some k \<noteq> oldest_key live) live else live)
            in (room @ [(key, now)], False)))"

subsection \<open>The alert payload\<close>

text \<open>\<open>AlertPayload.model_validate\<close> and \<open>model_dump\<close>: typed fields in order, everything else kept.\<close>

definition optional_string :: "dict \<Rightarrow> string \<Rightarrow> val option" where
  "optional_string d f = (case get d f of
      None \<Rightarrow> Some VNull
    | Some VNull \<Rightarrow> Some VNull
    | Some (VStr s) \<Rightarrow> Some (VStr s)
    | Some _ \<Rightarrow> None)"

definition alert_optional_fields :: "string list" where
  "alert_optional_fields = [''fingerprint'', ''group'', ''remediation_hint'', ''dlq_scope'']"

definition alert_payload :: "val \<Rightarrow> dict option" where
  "alert_payload v = (case v of
      VDict d \<Rightarrow>
        (case (get d ''source'', get d ''severity'') of
           (Some (VStr src), sev) \<Rightarrow>
             (case (case sev of None \<Rightarrow> Some ''unknown'' | Some (VStr s) \<Rightarrow> Some s | Some _ \<Rightarrow> None) of
                None \<Rightarrow> None
              | Some sev' \<Rightarrow>
                  if list_all (\<lambda>f. optional_string d f \<noteq> None) alert_optional_fields
                  then Some ([(''source'', VStr src), (''severity'', VStr sev')]
                    @ map (\<lambda>f. (f, the (optional_string d f))) alert_optional_fields
                    @ filter (\<lambda>(f, _). f \<notin> set ([''source'', ''severity''] @ alert_optional_fields)) d)
                  else None)
         | _ \<Rightarrow> None)
    | _ \<Rightarrow> None)"

subsection \<open>The service\<close>

text \<open>What the app is bound to, the state it keeps, and one request with the clocks it reads.\<close>

record 's service =
  svc_settings :: settings
  svc_hmac :: hmac
  svc_parse :: "string \<Rightarrow> val option"
  svc_uuid5 :: "string \<Rightarrow> string"
  svc_str_of :: "val \<Rightarrow> string"
  svc_digest :: "string \<Rightarrow> string"
  svc_load :: "'s \<Rightarrow> string \<Rightarrow> run_state option result"
  svc_write :: "'s \<Rightarrow> run_state \<Rightarrow> 's \<times> unit result"

record 's ingress =
  replay_cache :: seen_cache
  nonce_cache :: seen_cache
  run_store :: 's
  background_tasks :: "run_state list"

record request =
  req_chunks :: "string list"
  req_headers :: "(string \<times> string) list"
  req_time :: rat
  req_utc :: datetime
  req_uuid :: string

datatype answer =
    Answered string
  | Http_error nat string
  | Server_error exn

definition header :: "request \<Rightarrow> string \<Rightarrow> string option" where
  "header r name = map_of (req_headers r) name"

definition request_body :: "request \<Rightarrow> string" where
  "request_body r = concat (req_chunks r)"

definition signature_header :: "request \<Rightarrow> string" where
  "signature_header r = (case header r ''x-alert-signature'' of
      Some (c # cs) \<Rightarrow> c # cs
    | _ \<Rightarrow> (case header r ''x-signature-256'' of Some s \<Rightarrow> s | None \<Rightarrow> []))"

text \<open>Steps 3 and 4: \<open>None\<close> lets the delivery on.\<close>

definition authenticate_nonce ::
    "'s service \<Rightarrow> 's ingress \<Rightarrow> request \<Rightarrow> string \<Rightarrow> 's ingress \<times> answer option" where
  "authenticate_nonce A st r nonce =
     (case header r ''x-alert-timestamp'' of
        None \<Rightarrow> (st, Some (Http_error 401 ''X-Alert-Nonce present without X-Alert-Timestamp''))
      | Some ts \<Rightarrow>
          (case verify_delivery (svc_hmac A) (request_body r) ts nonce (signature_header r)
                  (platform_webhook_secret (svc_settings A)) of
             Inl err \<Rightarrow> (st, Some (Server_error err))
           | Inr ok \<Rightarrow>
               if \<not> ok then (st, Some (Http_error 401 ''invalid or missing signature''))
               else (case skew_refusal ts (req_time r) (webhook_max_skew_seconds (svc_settings A)) of
                   Some detail \<Rightarrow> (st, Some (Http_error 401 detail))
                 | None \<Rightarrow>
                     (case is_replay (nonce_cache st) nonce (req_time r)
                             (of_int (webhook_max_skew_seconds (svc_settings A)) * 2) of
                        (cache, replayed) \<Rightarrow>
                          (st\<lparr>nonce_cache := cache\<rparr>,
                           if replayed then Some (Http_error 401 ''replayed delivery: nonce already seen'')
                           else None)))))"

definition authenticate_legacy ::
    "'s service \<Rightarrow> 's ingress \<Rightarrow> request \<Rightarrow> 's ingress \<times> answer option" where
  "authenticate_legacy A st r =
     (case verify (svc_hmac A) (request_body r) (signature_header r)
             (platform_webhook_secret (svc_settings A)) of
        Inl err \<Rightarrow> (st, Some (Server_error err))
      | Inr ok \<Rightarrow>
          if \<not> ok then (st, Some (Http_error 401 ''invalid or missing signature''))
          else (case (case header r ''x-alert-timestamp'' of
                        None \<Rightarrow> None
                      | Some ts \<Rightarrow> skew_refusal ts (req_time r) (webhook_max_skew_seconds (svc_settings A))) of
              Some detail \<Rightarrow> (st, Some (Http_error 401 detail))
            | None \<Rightarrow>
                (case is_replay (replay_cache st) (drop (length signature_prefix) (signature_header r))
                        (req_time r) (of_int (webhook_max_skew_seconds (svc_settings A))) of
                   (cache, replayed) \<Rightarrow>
                     (st\<lparr>replay_cache := cache\<rparr>,
                      if replayed then Some (Answered (req_uuid r)) else None))))"

definition authenticate :: "'s service \<Rightarrow> 's ingress \<Rightarrow> request \<Rightarrow> 's ingress \<times> answer option" where
  "authenticate A st r = (case header r ''x-alert-nonce'' of
      Some nonce \<Rightarrow> authenticate_nonce A st r nonce
    | None \<Rightarrow> authenticate_legacy A st r)"

text \<open>
  Step 6: \<open>derive_incident_id\<close> on a store whose reads may fail; any failure falls back to a fresh id.
\<close>

fun search_store ::
    "(string \<Rightarrow> string) \<Rightarrow> (string \<Rightarrow> run_state option result) \<Rightarrow> string \<Rightarrow> string \<Rightarrow> nat \<Rightarrow> nat \<Rightarrow> string result" where
  "search_store uuid5 load fresh key 0 g = Inr fresh"
| "search_store uuid5 load fresh key (Suc left) g =
     (let candidate = generation_id uuid5 key g in
      case load candidate of
        Inl err \<Rightarrow> Inl err
      | Inr None \<Rightarrow> Inr candidate
      | Inr (Some latest) \<Rightarrow>
          if \<not> is_terminal (state latest) then Inr candidate
          else search_store uuid5 load fresh key left (Suc g))"

definition incident_for :: "'s service \<Rightarrow> 's \<Rightarrow> dict \<Rightarrow> string \<Rightarrow> string" where
  "incident_for A s al fresh =
     (case (case get al ''fingerprint'' of
              Some (VStr raw) \<Rightarrow>
                if strip raw = [] then Inr fresh
                else search_store (svc_uuid5 A) (svc_load A s) fresh
                       (dedup_key (svc_str_of A) (svc_digest A) al) max_recurrence_generations 0
            | _ \<Rightarrow> Inr fresh) of
        Inr i \<Rightarrow> i
      | Inl _ \<Rightarrow> fresh)"

text \<open>Step 7: \<open>_write_ingress_checkpoint\<close>, whose failure is logged and swallowed.\<close>

definition write_ingress_checkpoint :: "'s service \<Rightarrow> 's \<Rightarrow> run_state \<Rightarrow> 's \<times> unit result" where
  "write_ingress_checkpoint A s run =
     (case svc_load A s (incident_id run) of
        Inl err \<Rightarrow> (s, Inl err)
      | Inr (Some _) \<Rightarrow> (s, Inr ())
      | Inr None \<Rightarrow> svc_write A s run)"

definition ingest_alert :: "'s service \<Rightarrow> 's ingress \<Rightarrow> request \<Rightarrow> 's ingress \<times> answer" where
  "ingest_alert A st r =
     (case authenticate A st r of
        (st1, Some refused) \<Rightarrow> (st1, refused)
      | (st1, None) \<Rightarrow>
          (case Option.bind (svc_parse A (request_body r)) alert_payload of
             None \<Rightarrow> (st1, Http_error 422 ''malformed alert payload'')
           | Some al \<Rightarrow>
               (let run = start_run al (svc_settings A) (req_utc r)
                            (incident_for A (run_store st1) al (req_uuid r)) None;
                    st2 = st1\<lparr>run_store := fst (write_ingress_checkpoint A (run_store st1) run)\<rparr>
                in (if agent_enabled (svc_settings A)
                    then st2\<lparr>background_tasks := background_tasks st2 @ [run]\<rparr> else st2,
                    Answered (incident_id run)))))"

subsection \<open>The body cap\<close>

text \<open>
  \<open>BodySizeLimitMiddleware\<close> around the route: the declared length first, then the bytes as they
  stream in. \<open>Inl\<close> carries the size the 413 is logged with.
\<close>

fun counted_body :: "int \<Rightarrow> int \<Rightarrow> string list \<Rightarrow> int + int" where
  "counted_body max_bytes received [] = Inr received"
| "counted_body max_bytes received (chunk # chunks) =
     (let total = received + int (length chunk)
      in if max_bytes < total then Inl total else counted_body max_bytes total chunks)"

definition limit_body :: "int \<Rightarrow> request \<Rightarrow> int + int" where
  "limit_body max_bytes r =
     (case Option.bind (header r ''content-length'') py_int of
        Some declared \<Rightarrow> if max_bytes < declared then Inl declared else counted_body max_bytes 0 (req_chunks r)
      | None \<Rightarrow> counted_body max_bytes 0 (req_chunks r))"

definition serve_alert :: "'s service \<Rightarrow> 's ingress \<Rightarrow> request \<Rightarrow> 's ingress \<times> answer" where
  "serve_alert A st r =
     (case limit_body (webhook_max_body_bytes (svc_settings A)) r of
        Inl _ \<Rightarrow> (st, Http_error 413 ''request body exceeds the cap'')
      | Inr _ \<Rightarrow> ingest_alert A st r)"

subsection \<open>Health\<close>

text \<open>The probe of the run store: no answer in time, an exception, or an answer whatever it found.\<close>

datatype probe_outcome = Probe_timed_out | Probe_answered "run_state option result"

definition health :: "(exn \<Rightarrow> string) \<Rightarrow> probe_outcome \<Rightarrow> nat \<times> string \<times> string" where
  "health exn_name out = (case out of
      Probe_timed_out \<Rightarrow> (503, ''degraded'', ''no answer in time'')
    | Probe_answered (Inl err) \<Rightarrow> (503, ''degraded'', ''probe failed: '' @ exn_name err)
    | Probe_answered (Inr _) \<Rightarrow> (200, ''ok'', ''ok''))"

subsection \<open>The caches stay bounded and remember\<close>

text \<open>Under a clock that does not step back the dictionary is in order of time.\<close>

definition cache_ok :: "seen_cache \<Rightarrow> rat \<Rightarrow> bool" where
  "cache_ok c now = (sorted (map snd c) \<and> (\<forall>(k, t)\<in>set c. t \<le> now) \<and> distinct (map fst c)
     \<and> length c \<le> replay_cache_max_entries)"

definition remembered :: "string \<Rightarrow> rat \<Rightarrow> nat \<Rightarrow> seen_cache \<Rightarrow> bool" where
  "remembered k t n c = (\<exists>older newer. c = older @ (k, t) # newer \<and> length newer \<le> n)"

lemma oldest_key_sorted: "sorted (map snd ((k, t) # c)) \<Longrightarrow> oldest_key ((k, t) # c) = Some k"
  by auto

lemma drop_oldest:
  assumes "sorted (map snd (e # c))" and "distinct (map fst (e # c))"
  shows "filter (\<lambda>(k, _). Some k \<noteq> oldest_key (e # c)) (e # c) = c"
proof -
  obtain k t where e: "e = (k, t)" by fastforce
  with assms have "oldest_key (e # c) = Some k" using oldest_key_sorted by simp
  moreover have "filter (\<lambda>(k', _). k' \<noteq> k) c = c" using assms e by (force simp: filter_id_conv)
  ultimately show ?thesis by (simp add: e)
qed

lemma is_replay_live:
  assumes "cache_ok c now" and "now \<le> now'"
  shows "cache_ok (filter (\<lambda>(_, seen). \<not> window < now' - seen) c) now'"
  using assms by (fastforce simp: cache_ok_def sorted_filter distinct_map_filter intro: order_trans[OF length_filter_le])

lemma is_replay_cases:
  assumes "cache_ok c now" and "now \<le> now'"
  obtains (seen) live where "live = filter (\<lambda>(_, seen). \<not> window < now' - seen) c" "cache_ok live now'"
      "key \<in> set (map fst live)" "is_replay c key now' window = (live, True)"
  | (recorded) live room where "live = filter (\<lambda>(_, seen). \<not> window < now' - seen) c" "cache_ok live now'"
      "key \<notin> set (map fst live)" "is_replay c key now' window = (room @ [(key, now')], False)"
      "room = live \<and> length live < replay_cache_max_entries
        \<or> (\<exists>e. live = e # room) \<and> length live = replay_cache_max_entries"
proof -
  let ?live = "filter (\<lambda>(_, seen). \<not> window < now' - seen) c"
  have ok: "cache_ok ?live now'" by (rule is_replay_live[OF assms])
  show thesis
  proof (cases "key \<in> set (map fst ?live)")
    case True
    with ok show thesis by (intro seen) (auto simp: is_replay_def)
  next
    case False
    show thesis
    proof (cases "replay_cache_max_entries \<le> length ?live")
      case True
      then obtain e room where live: "?live = e # room"
        by (cases ?live) (auto simp: replay_cache_max_entries_def)
      from ok live have "sorted (map snd (e # room))" "distinct (map fst (e # room))"
        by (simp_all add: cache_ok_def)
      from drop_oldest[OF this] live
      have "filter (\<lambda>(k, _). Some k \<noteq> oldest_key ?live) ?live = room" by simp
      moreover from True ok have "length ?live = replay_cache_max_entries" by (simp add: cache_ok_def)
      ultimately show thesis using ok False live True
        by (intro recorded[OF refl ok]) (auto simp: is_replay_def Let_def)
    next
      case small: False
      with ok False show thesis by (intro recorded[OF refl ok]) (auto simp: is_replay_def Let_def)
    qed
  qed
qed

lemma is_replay_ok:
  assumes "cache_ok c now" and "now \<le> now'"
  shows "cache_ok (fst (is_replay c key now' window)) now'"
  using assms
proof (cases rule: is_replay_cases[where key = key and window = window])
  case (recorded live room)
  from recorded(5) have sub: "set room \<subseteq> set live" and "length room < replay_cache_max_entries"
    by (auto simp: replay_cache_max_entries_def)
  moreover from recorded(2,5) have "sorted (map snd room)" "distinct (map fst room)"
    by (auto simp: cache_ok_def)
  ultimately show ?thesis
    using recorded(2-4) by (fastforce simp: cache_ok_def sorted_append)
qed simp

lemma is_replay_remembers:
  assumes "cache_ok c now" and "now \<le> now'" and "remembered k t n c" and "now' - t \<le> window"
    and "n + 1 < replay_cache_max_entries"
  shows "(key = k \<longrightarrow> snd (is_replay c key now' window))
    \<and> remembered k t (n + 1) (fst (is_replay c key now' window))"
proof -
  let ?keep = "\<lambda>(_ :: string, seen). \<not> window < now' - seen"
  from assms(3) obtain older newer where c: "c = older @ (k, t) # newer" "length newer \<le> n"
    by (auto simp: remembered_def)
  from assms(4) c(1) have live: "filter ?keep c = filter ?keep older @ (k, t) # filter ?keep newer"
    by simp
  have len: "length (filter ?keep newer) \<le> n" using c(2) length_filter_le le_trans by blast
  show ?thesis
    using assms(1,2)
  proof (cases rule: is_replay_cases[where key = key and window = window])
    case (seen l)
    with live len show ?thesis unfolding remembered_def by fastforce
  next
    case (recorded l room)
    from recorded(1,3) live have ne: "key \<noteq> k" by auto
    from recorded(5) show ?thesis
    proof
      assume "room = l \<and> length l < replay_cache_max_entries"
      with recorded live len have "room @ [(key, now')] = filter ?keep older @ (k, t) # (filter ?keep newer @ [(key, now')])"
        by simp
      with recorded ne len show ?thesis unfolding remembered_def by fastforce
    next
      assume "(\<exists>e. l = e # room) \<and> length l = replay_cache_max_entries"
      then obtain e where e: "l = e # room" "length l = replay_cache_max_entries" by blast
      with recorded(1) live len assms(5) obtain x older' where "filter ?keep older = x # older'"
        by (cases "filter ?keep older") auto
      with e recorded(1) live have "room @ [(key, now')] = older' @ (k, t) # (filter ?keep newer @ [(key, now')])"
        by simp
      with recorded ne len show ?thesis unfolding remembered_def by fastforce
    qed
  qed
qed

lemma is_replay_first:
  assumes "is_replay c key now window = (c', False)"
  shows "remembered key now 0 c'"
  using assms unfolding is_replay_def remembered_def Let_def by (auto split: if_splits)

end
