(* ===== verification/Ingress_Facts.thy ===== *)
theory Ingress_Facts
  imports Ingress Durable_Run
begin

text \<open>
  What the webhook of \<^verbatim>\<open>api/app.py\<close> guarantees: a delivery whose signature does not verify
  changes nothing, a signed delivery is accepted once, an accepted alert is on the store before it
  is answered, and no stored run is overwritten. \<open>deliveries\<close> is the service's state after a
  sequence of requests.
\<close>

definition deliveries :: "'s service \<Rightarrow> 's ingress \<Rightarrow> request list \<Rightarrow> 's ingress" where
  "deliveries A st rs = foldl (\<lambda>st r. fst (serve_alert A st r)) st rs"

lemma deliveries_simps [simp]:
  "deliveries A st [] = st"
  "deliveries A st (r # rs) = deliveries A (fst (serve_alert A st r)) rs"
  by (simp_all add: deliveries_def)

subsection \<open>Authentication\<close>

text \<open>Whether the signature header verifies under the scheme the headers choose.\<close>

definition signature_ok :: "'s service \<Rightarrow> request \<Rightarrow> bool" where
  "signature_ok A r =
     (let secret = platform_webhook_secret (svc_settings A) in
      case (header r ''x-alert-nonce'', header r ''x-alert-timestamp'') of
        (Some nonce, Some ts) \<Rightarrow> verify_delivery (svc_hmac A) (request_body r) ts nonce (signature_header r) secret = Inr True
      | (Some _, None) \<Rightarrow> False
      | (None, _) \<Rightarrow> verify (svc_hmac A) (request_body r) (signature_header r) secret = Inr True)"

lemma unsigned_refused:
  assumes "\<not> signature_ok A r"
  shows "\<exists>refusal. authenticate A st r = (st, Some refusal)
    \<and> ((\<exists>d. refusal = Http_error 401 d) \<or> (\<exists>err. refusal = Server_error err))"
  using assms
  by (auto simp: signature_ok_def authenticate_def authenticate_nonce_def authenticate_legacy_def Let_def
      split: option.splits sum.splits)

lemma authenticate_frame:
  assumes "authenticate A st r = (st1, out)"
  shows "run_store st1 = run_store st" and "background_tasks st1 = background_tasks st"
  using assms
  by (auto simp: authenticate_def authenticate_nonce_def authenticate_legacy_def
      split: option.splits sum.splits if_splits prod.splits)

lemma authenticate_nonce_cache:
  assumes "authenticate A st r = (st1, out)"
  shows "nonce_cache st1 = nonce_cache st \<or>
    (\<exists>key. nonce_cache st1 = fst (is_replay (nonce_cache st) key (req_time r)
       (of_int (webhook_max_skew_seconds (svc_settings A)) * 2)))"
  using assms
  by (auto simp: authenticate_def authenticate_nonce_def authenticate_legacy_def
      split: option.splits sum.splits if_splits prod.splits) (metis fst_conv)+

lemma authenticate_passed:
  assumes "authenticate A st r = (st1, None)" and "header r ''x-alert-nonce'' = Some k"
  obtains ts c where "header r ''x-alert-timestamp'' = Some ts"
    "verify_delivery (svc_hmac A) (request_body r) ts k (signature_header r)
       (platform_webhook_secret (svc_settings A)) = Inr True"
    "skew_refusal ts (req_time r) (webhook_max_skew_seconds (svc_settings A)) = None"
    "is_replay (nonce_cache st) k (req_time r) (of_int (webhook_max_skew_seconds (svc_settings A)) * 2) = (c, False)"
    "st1 = st\<lparr>nonce_cache := c\<rparr>"
  using assms
  by (auto simp: authenticate_def authenticate_nonce_def
      split: option.splits sum.splits if_splits prod.splits)

text \<open>A nonce in the cache, or a stale timestamp, stops a delivery before the store is reached.\<close>

lemma spent_nonce_refused:
  assumes "header r ''x-alert-nonce'' = Some k"
    and "snd (is_replay (nonce_cache st) k (req_time r) (of_int (webhook_max_skew_seconds (svc_settings A)) * 2))
      \<or> (\<forall>ts. header r ''x-alert-timestamp'' = Some ts \<longrightarrow>
            skew_refusal ts (req_time r) (webhook_max_skew_seconds (svc_settings A)) \<noteq> None)"
  shows "\<exists>st1 refusal. authenticate A st r = (st1, Some refusal) \<and> (\<forall>i. refusal \<noteq> Answered i)"
  using assms
  by (auto simp: authenticate_def authenticate_nonce_def
      split: option.splits sum.splits if_splits prod.splits)

lemma ingest_refused:
  "authenticate A st r = (st1, Some refusal) \<Longrightarrow> ingest_alert A st r = (st1, refusal)"
  by (simp add: ingest_alert_def)

lemma ingest_nonce_cache:
  "nonce_cache (fst (ingest_alert A st r)) = nonce_cache (fst (authenticate A st r))"
  by (auto simp: ingest_alert_def Let_def split: prod.splits option.splits)

lemma serve_cases:
  "serve_alert A st r = ingest_alert A st r \<or> (\<exists>d. serve_alert A st r = (st, Http_error 413 d))"
  by (auto simp: serve_alert_def split: sum.splits)

lemma serve_nonce_cache:
  "nonce_cache (fst (serve_alert A st r)) = nonce_cache st \<or>
    (\<exists>key. nonce_cache (fst (serve_alert A st r)) = fst (is_replay (nonce_cache st) key (req_time r)
       (of_int (webhook_max_skew_seconds (svc_settings A)) * 2)))"
  using serve_cases[of A st r] authenticate_nonce_cache[of A st r]
  by (cases "authenticate A st r") (auto simp: ingest_nonce_cache)

subsection \<open>A nonce is remembered\<close>

lemma cache_ok_later: "cache_ok c now \<Longrightarrow> now \<le> now' \<Longrightarrow> cache_ok c now'"
  by (fastforce simp: cache_ok_def)

lemma remembered_more: "remembered k t n c \<Longrightarrow> n \<le> m \<Longrightarrow> remembered k t m c"
  unfolding remembered_def using le_trans by blast

lemma deliveries_remember:
  assumes "cache_ok (nonce_cache st) now" and "sorted (now # map req_time rs)"
    and "remembered k t n (nonce_cache st)" and "n + length rs < replay_cache_max_entries"
    and "\<forall>r\<in>set rs. req_time r - t \<le> of_int (webhook_max_skew_seconds (svc_settings A)) * 2"
  shows "cache_ok (nonce_cache (deliveries A st rs)) (last (now # map req_time rs))
    \<and> remembered k t (n + length rs) (nonce_cache (deliveries A st rs))"
  using assms
proof (induction rs arbitrary: st now n)
  case (Cons r rs)
  let ?st = "fst (serve_alert A st r)"
  have le: "now \<le> req_time r" using Cons.prems(2) by simp
  have "cache_ok (nonce_cache ?st) (req_time r) \<and> remembered k t (n + 1) (nonce_cache ?st)"
    using serve_nonce_cache[of A st r]
  proof (elim disjE exE)
    assume "nonce_cache ?st = nonce_cache st"
    with Cons.prems(1,3) le show ?thesis by (auto intro: cache_ok_later remembered_more)
  next
    fix key assume "nonce_cache ?st = fst (is_replay (nonce_cache st) key (req_time r)
       (of_int (webhook_max_skew_seconds (svc_settings A)) * 2))"
    with is_replay_ok[OF Cons.prems(1) le] is_replay_remembers[OF Cons.prems(1) le Cons.prems(3)] Cons.prems(4,5)
    show ?thesis by simp
  qed
  with Cons.IH[of ?st "req_time r" "n + 1"] Cons.prems(2,4,5) show ?case by simp
qed simp

text \<open>
  The skew check of a signed delivery: it was accepted no earlier than \<open>skew\<close> before its
  timestamp, so a full window and a millisecond later the timestamp is stale.
\<close>

lemma skew_ends:
  assumes "skew_refusal ts now w = None" and "now + 2 * of_int w + 1/1000 \<le> now'"
  shows "skew_refusal ts now' w \<noteq> None"
proof -
  from assms(1) obtain t where t: "py_int ts = Some t" and a: "\<bar>\<lfloor>now * 1000\<rfloor> - t\<bar> \<le> w * 1000"
    by (auto simp: skew_refusal_def split: option.splits if_splits)
  from assms(2) have "now * 1000 + of_int (2 * w * 1000 + 1) \<le> now' * 1000" by simp
  then have "\<lfloor>now * 1000\<rfloor> + (2 * w * 1000 + 1) \<le> \<lfloor>now' * 1000\<rfloor>"
    by (metis floor_add_int floor_mono)
  with a t show ?thesis by (simp add: skew_refusal_def)
qed

lemma accepted_delivery_is_spent:
  assumes "authenticate A st r = (st1, None)" and "header r ''x-alert-nonce'' = Some k"
    and "cache_ok (nonce_cache st) (req_time r)" and "nonce_cache st2 = nonce_cache st1"
    and "sorted (map req_time (r # rs @ [r']))" and "length rs + 1 < replay_cache_max_entries"
    and "header r' ''x-alert-nonce'' = Some k"
    and "header r' ''x-alert-timestamp'' = header r ''x-alert-timestamp''"
    and "req_time r' \<le> req_time r + 2 * of_int (webhook_max_skew_seconds (svc_settings A))
      \<or> req_time r + 2 * of_int (webhook_max_skew_seconds (svc_settings A)) + 1/1000 \<le> req_time r'"
  shows "\<exists>st3 refusal. authenticate A (deliveries A st2 rs) r' = (st3, Some refusal) \<and> (\<forall>i. refusal \<noteq> Answered i)"
proof -
  let ?w = "webhook_max_skew_seconds (svc_settings A)"
  from assms(1,2) obtain ts c where ts: "header r ''x-alert-timestamp'' = Some ts"
    and skew: "skew_refusal ts (req_time r) ?w = None"
    and c: "is_replay (nonce_cache st) k (req_time r) (of_int ?w * 2) = (c, False)" "st1 = st\<lparr>nonce_cache := c\<rparr>"
    by (rule authenticate_passed)
  show ?thesis
  proof (rule spent_nonce_refused[OF assms(7)])
    show "snd (is_replay (nonce_cache (deliveries A st2 rs)) k (req_time r') (of_int ?w * 2))
      \<or> (\<forall>ts. header r' ''x-alert-timestamp'' = Some ts \<longrightarrow> skew_refusal ts (req_time r') ?w \<noteq> None)"
      using assms(9)
    proof
      assume inside: "req_time r' \<le> req_time r + 2 * of_int ?w"
      have sorted: "sorted (req_time r # map req_time rs)" "\<forall>q\<in>set (r # rs). req_time q \<le> req_time r'"
        using assms(5) by (auto simp: sorted_append)
      have c2: "cache_ok (nonce_cache st2) (req_time r)" "remembered k (req_time r) 0 (nonce_cache st2)"
        using is_replay_ok[OF assms(3) order_refl, of k "of_int ?w * 2"] is_replay_first[OF c(1)] c assms(4)
        by simp_all
      have old: "\<forall>q\<in>set rs. req_time q - req_time r \<le> of_int ?w * 2"
      proof
        fix q assume "q \<in> set rs"
        with sorted(2) have "req_time q \<le> req_time r'" by simp
        with inside show "req_time q - req_time r \<le> of_int ?w * 2" by linarith
      qed
      from deliveries_remember[OF c2(1) sorted(1) c2(2) _ old] assms(6)
      have d: "cache_ok (nonce_cache (deliveries A st2 rs)) (last (req_time r # map req_time rs))"
        "remembered k (req_time r) (length rs) (nonce_cache (deliveries A st2 rs))" by auto
      have "last (req_time r # map req_time rs) = req_time (last (r # rs))"
        by (simp add: last_map)
      then have "last (req_time r # map req_time rs) \<le> req_time r'"
        using sorted(2) last_in_set[of "r # rs"] by fastforce
      from is_replay_remembers[OF d(1) this d(2), of "of_int ?w * 2" k] inside assms(6) show ?thesis by auto
    next
      assume "req_time r + 2 * of_int ?w + 1/1000 \<le> req_time r'"
      from skew_ends[OF skew this] assms(8) ts show ?thesis by simp
    qed
  qed
qed

subsection \<open>An accepted alert is on the store\<close>

lemma search_store_pure:
  "search_store uuid5 (\<lambda>i. Inr (l i)) fresh key n g = Inr (search_generation uuid5 l fresh key n g)"
  by (induction n arbitrary: g) (auto simp: Let_def split: option.splits)

text \<open>The service over a checkpointer whose reads and writes do not fail.\<close>

locale recording_service = checkpointer load write_run history
  for load :: "'s \<Rightarrow> string \<Rightarrow> run_state option"
    and write_run :: "'s \<Rightarrow> run_state \<Rightarrow> 's \<times> unit result"
    and history :: "'s \<Rightarrow> string \<Rightarrow> run_state list" +
  fixes A :: "'s service"
  assumes loads: "svc_load A s i = Inr (load s i)"
    and writes: "svc_write A = write_run"
    and write_works: "reliable write_run"
begin

lemma incident_for_derives:
  "incident_for A s al fresh = derive_incident_id (svc_uuid5 A) (svc_str_of A) (svc_digest A) al (load s) fresh"
proof -
  have "svc_load A s = (\<lambda>i. Inr (load s i))" by (rule ext) (simp add: loads)
  then show ?thesis
    by (auto simp: incident_for_def derive_incident_id_def search_store_pure split: option.splits val.splits)
qed

lemma ingress_checkpoint_written:
  assumes "write_ingress_checkpoint A s run = (s', out)"
  shows "out = Inr ()"
    and "history s' j = history s j @ (if j = incident_id run \<and> load s j = None then [run] else [])"
proof -
  have w: "\<exists>s2. write_run s run = (s2, Inr ())"
    using write_works by (rule reliableE) blast
  then show "out = Inr ()"
    using assms by (auto simp: write_ingress_checkpoint_def loads writes split: option.splits)
  from w assms show "history s' j = history s j @ (if j = incident_id run \<and> load s j = None then [run] else [])"
    using history_write[of s run]
    by (auto simp: write_ingress_checkpoint_def loads writes split: option.splits)
qed

lemma accepted_alert_recorded:
  assumes "authenticate A st r = (st1, None)" and "ingest_alert A st r = (st', Answered i)"
  shows "\<exists>al. Option.bind (svc_parse A (request_body r)) alert_payload = Some al
    \<and> i = derive_incident_id (svc_uuid5 A) (svc_str_of A) (svc_digest A) al (load (run_store st)) (req_uuid r)
    \<and> (let run = start_run al (svc_settings A) (req_utc r) i None in
        (\<forall>j. history (run_store st') j = history (run_store st) j
             @ (if j = i \<and> load (run_store st) i = None then [run] else []))
        \<and> background_tasks st' = background_tasks st @ (if agent_enabled (svc_settings A) then [run] else []))"
proof -
  note frame = authenticate_frame[OF assms(1)]
  from assms obtain al where al: "Option.bind (svc_parse A (request_body r)) alert_payload = Some al"
    by (auto simp: ingest_alert_def split: option.splits)
  let ?i = "incident_for A (run_store st1) al (req_uuid r)"
  let ?run = "start_run al (svc_settings A) (req_utc r) ?i None"
  have id: "incident_id ?run = ?i" by (simp add: start_run_def)
  from assms al have i: "i = ?i"
    and st': "run_store st' = fst (write_ingress_checkpoint A (run_store st1) ?run)"
      "background_tasks st' = background_tasks st1 @ (if agent_enabled (svc_settings A) then [?run] else [])"
    by (auto simp: ingest_alert_def Let_def id split: if_splits)
  obtain s2 out where w: "write_ingress_checkpoint A (run_store st1) ?run = (s2, out)" by fastforce
  from ingress_checkpoint_written(2)[OF w] st'(1) w frame(1) id i
  have "history (run_store st') j = history (run_store st) j
      @ (if j = i \<and> load (run_store st) i = None then [?run] else [])" for j
    by simp
  with al i st'(2) frame show ?thesis by (auto simp: incident_for_derives Let_def)
qed

end

abbreviation over_postgres :: "snapshots service \<Rightarrow> snapshots service" where
  "over_postgres A \<equiv> A\<lparr>svc_load := (\<lambda>s i. Inr (pg_load s i)), svc_write := pg_write\<rparr>"

interpretation desk_pg: recording_service pg_load pg_write pg_history "over_postgres A"
  by unfold_locales (simp_all add: pg_reliable)

abbreviation over_memory :: "mem_store service \<Rightarrow> mem_store service" where
  "over_memory A \<equiv> A\<lparr>svc_load := (\<lambda>s i. Inr (mem_load s i)), svc_write := mem_write\<rparr>"

interpretation desk_mem: recording_service mem_load mem_write mem_history "over_memory A"
  by unfold_locales (simp_all add: mem_reliable)

end
