(* ===== verification/Worker.thy ===== *)
theory Worker
  imports Ingress_Facts Live_Run
begin

text \<open>
  The background task of \<^verbatim>\<open>api/app.py\<close>: admission (a run slot, then the incident's lease), where a
  run resumes from, the run itself over the service's transitions, and the crash rail that leaves a
  FAILED record. \<open>workers_step\<close> interleaves the workers of one process with the sessions of others.
\<close>

subsection \<open>One worker\<close>

datatype admission = Admitted | At_capacity | Lease_lost

text \<open>
  Everything one task is bound to. \<open>wk_admission\<close> is what \<open>_admission\<close> yields, or the exception
  taking the slot or the lease raised; \<open>wk_connect\<close> opens the platform client.
\<close>

record ('w, 's) worker =
  wk_clock :: "'w \<Rightarrow> 'w \<times> datetime"
  wk_connect :: "'w \<Rightarrow> 'w \<times> unit result"
  wk_registry :: "'w registry"
  wk_max_steps :: nat
  wk_load :: "'s \<Rightarrow> string \<Rightarrow> run_state option result"
  wk_write :: "'s \<Rightarrow> run_state \<Rightarrow> 's \<times> unit result"
  wk_exn_name :: "exn \<Rightarrow> string"
  wk_exn_text :: "exn \<Rightarrow> string"

datatype task_end =
    Shed_at_capacity
  | Owned_elsewhere
  | Already_terminal run_state
  | Awaiting_human run_state
  | Ran run_state
  | Task_crashed exn

text \<open>Steps 5 to 8: the state to drive, or why there is nothing to drive.\<close>

definition resume_from :: "run_state option \<Rightarrow> run_state \<Rightarrow> task_end + run_state" where
  "resume_from latest run = (case latest of
      None \<Rightarrow> Inr run
    | Some l \<Rightarrow> if is_terminal (state l) then Inl (Already_terminal l)
                else if state l = AWAITING_APPROVAL then Inl (Awaiting_human l)
                else Inr l)"

definition run_failure :: "('w, 's) worker \<Rightarrow> run_state \<Rightarrow> exn \<Rightarrow> datetime \<Rightarrow> run_state" where
  "run_failure K latest err now =
     latest\<lparr>state := FAILED, updated_at := now,
       evidence := evidence latest @ [entry ''_run_failure''
         [(''error_type'', VStr (wk_exn_name K err))] (Word (take 500 (wk_exn_text K err))) now]\<rparr>"

text \<open>\<open>_record_run_failure\<close>: its own failures are logged and swallowed.\<close>

definition record_run_failure ::
    "('w, 's) worker \<Rightarrow> bool \<Rightarrow> 'w \<times> 's \<Rightarrow> run_state \<Rightarrow> exn \<Rightarrow> 'w \<times> 's" where
  "record_run_failure K held_lease ws run err =
     (if \<not> held_lease then ws
      else case ws of (w, s) \<Rightarrow>
        (case wk_load K s (incident_id run) of
           Inl _ \<Rightarrow> (w, s)
         | Inr found \<Rightarrow>
             (let latest = (case found of Some l \<Rightarrow> l | None \<Rightarrow> run) in
              if is_terminal (state latest) then (w, s)
              else (let (w', now) = wk_clock K w in (w', fst (wk_write K s (run_failure K latest err now)))))))"

text \<open>Steps 5 to 9, under the lease.\<close>

definition drive :: "('w, 's) worker \<Rightarrow> 'w \<times> 's \<Rightarrow> run_state \<Rightarrow> ('w \<times> 's) \<times> task_end" where
  "drive K ws run =
     (case ws of (w, s) \<Rightarrow>
       (case wk_load K s (incident_id run) of
          Inl err \<Rightarrow> ((w, s), Task_crashed err)
        | Inr latest \<Rightarrow>
            (case resume_from latest run of
               Inl e \<Rightarrow> ((w, s), e)
             | Inr resuming \<Rightarrow>
                 (case wk_connect K w of
                    (w1, Inl err) \<Rightarrow> ((w1, s), Task_crashed err)
                  | (w1, Inr _) \<Rightarrow>
                      (case run_to_completion (durable_ports (wk_clock K) (wk_write K) (wk_registry K))
                              (wk_max_steps K) (w1, s) resuming of
                         (ws', Inl err) \<Rightarrow> (ws', Task_crashed err)
                       | (ws', Inr final) \<Rightarrow> (ws', Ran final))))))"

definition run_investigation ::
    "('w, 's) worker \<Rightarrow> admission result \<Rightarrow> 'w \<times> 's \<Rightarrow> run_state \<Rightarrow> ('w \<times> 's) \<times> task_end" where
  "run_investigation K verdict ws run =
     (case verdict of
        Inl err \<Rightarrow> (record_run_failure K False ws run err, Task_crashed err)
      | Inr At_capacity \<Rightarrow> (ws, Shed_at_capacity)
      | Inr Lease_lost \<Rightarrow> (ws, Owned_elsewhere)
      | Inr Admitted \<Rightarrow>
          (case drive K ws run of
             (ws', Task_crashed err) \<Rightarrow> (record_run_failure K True ws' run err, Task_crashed err)
           | (ws', e) \<Rightarrow> (ws', e)))"

lemma not_admitted_touches_nothing:
  "verdict \<noteq> Inr Admitted \<Longrightarrow> fst (run_investigation K verdict ws run) = ws"
  by (auto simp: run_investigation_def record_run_failure_def split: sum.splits admission.splits)

text \<open>
  The whole task over a checkpointer that does not fail, for any lawful registry. \<open>own_rows\<close> says
  the newest snapshot of an incident is that incident's, which every write keeps.
\<close>

definition own_rows :: "('s \<Rightarrow> string \<Rightarrow> run_state option) \<Rightarrow> 's \<Rightarrow> string \<Rightarrow> bool" where
  "own_rows load s i = (\<forall>l. load s i = Some l \<longrightarrow> incident_id l = i)"

definition settled :: "run_state \<Rightarrow> bool" where
  "settled rs = (is_terminal (state rs) \<or> state rs = AWAITING_APPROVAL)"

locale task_host = durable_run load write_run history reg "\<lambda>_. True"
  for load :: "'s \<Rightarrow> string \<Rightarrow> run_state option"
    and write_run :: "'s \<Rightarrow> run_state \<Rightarrow> 's \<times> unit result"
    and history :: "'s \<Rightarrow> string \<Rightarrow> run_state list"
    and reg :: "'w registry" +
  fixes K :: "('w, 's) worker"
  assumes k_loads: "wk_load K s i = Inr (load s i)" and k_writes: "wk_write K = write_run"
    and k_reg: "wk_registry K = reg" and k_works: "reliable write_run"
begin

lemma resume_from_cases:
  assumes "own_rows load s (incident_id run)"
  shows "(\<exists>l. load s (incident_id run) = Some l \<and> settled l
        \<and> resume_from (load s (incident_id run)) run = Inl (if is_terminal (state l) then Already_terminal l else Awaiting_human l))
    \<or> (\<exists>rs. resume_from (load s (incident_id run)) run = Inr rs \<and> incident_id rs = incident_id run
        \<and> (\<forall>l. load s (incident_id run) = Some l \<longrightarrow> rs = l \<and> \<not> settled l))"
  using assms by (cases "load s (incident_id run)") (auto simp: resume_from_def own_rows_def settled_def)

text \<open>A drive touches its own incident only, ends where it says, and leaves settled ones alone.\<close>

lemma drive_history:
  assumes "drive K (w, s) run = ((w', s'), e)" and "own_rows load s (incident_id run)"
  shows "\<exists>rows. (\<forall>j. history s' j = history s j @ (if j = incident_id run then rows else []))
    \<and> (\<forall>l. load s (incident_id run) = Some l \<and> settled l \<longrightarrow> rows = [] \<and> (e = Already_terminal l \<or> e = Awaiting_human l))
    \<and> ((\<exists>err. e = Task_crashed err) \<or> (\<exists>l. load s' (incident_id run) = Some l \<and> settled l))
    \<and> own_rows load s' (incident_id run)"
  using resume_from_cases[OF assms(2)]
proof (elim disjE exE conjE)
  fix l assume l: "load s (incident_id run) = Some l" "settled l"
    "resume_from (load s (incident_id run)) run = Inl (if is_terminal (state l) then Already_terminal l else Awaiting_human l)"
  with assms(1) have "s' = s" "e = (if is_terminal (state l) then Already_terminal l else Awaiting_human l)"
    by (auto simp: drive_def k_loads)
  with l assms(2) show ?thesis by (intro exI[of _ "[]"]) auto
next
  fix rs assume rs: "resume_from (load s (incident_id run)) run = Inr rs" "incident_id rs = incident_id run"
    "\<forall>l. load s (incident_id run) = Some l \<longrightarrow> rs = l \<and> \<not> settled l"
  obtain w1 c where c: "wk_connect K w = (w1, c)" by fastforce
  show ?thesis
  proof (cases c)
    case (Inl err)
    with assms(1) rs c have "s' = s" "e = Task_crashed err" by (auto simp: drive_def k_loads)
    with rs(3) assms(2) show ?thesis by (intro exI[of _ "[]"]) auto
  next
    case (Inr u)
    obtain ws r where run: "run_to_completion (durable_ports (wk_clock K) write_run reg) (wk_max_steps K) (w1, s) rs
        = (ws, r)" by fastforce
    obtain w2 s2 where ws: "ws = (w2, s2)" by fastforce
    from assms(1) rs c Inr run ws have e: "s' = s2" "e = (case r of Inl err \<Rightarrow> Task_crashed err | Inr final \<Rightarrow> Ran final)"
      by (auto simp: drive_def k_loads k_writes k_reg split: sum.splits)
    from run_durable[OF run[unfolded ws] TrueI] obtain rows where
      h: "\<forall>i. history s2 i = history s i @ (if i = incident_id rs then rows else [])"
      and t: "trail rows" "rows \<noteq> [] \<longrightarrow> hd rows = rs"
      and f: "\<forall>rs'. r = Inr rs' \<longrightarrow> rows \<noteq> [] \<and> rs' = last rows \<and> is_terminal (state rs')" by blast
    have own: "own_rows load s2 (incident_id run)"
    proof (cases "rows = []")
      case True
      with h have "history s2 (incident_id run) = history s (incident_id run)" by simp
      then have "load s2 (incident_id run) = load s (incident_id run)" by (simp only: load_history)
      with assms(2) show ?thesis by (simp add: own_rows_def)
    next
      case False
      from h False rs(2) have "load s2 (incident_id run) = Some (last rows)" by (simp add: load_history)
      moreover from trail_incident[OF t(1) last_in_set[OF False]] t(2) rs(2) False
      have "incident_id (last rows) = incident_id run" by simp
      ultimately show ?thesis by (simp add: own_rows_def)
    qed
    have "(\<exists>err. e = Task_crashed err) \<or> (\<exists>l. load s' (incident_id run) = Some l \<and> settled l)"
    proof (cases r)
      case (Inr final)
      with h f rs(2) e(1) have "load s' (incident_id run) = Some final" by (simp add: load_history)
      moreover from f Inr have "is_terminal (state final)" by blast
      ultimately show ?thesis by (auto simp: settled_def)
    qed (simp add: e)
    with h rs(2,3) e(1) own show ?thesis by (intro exI[of _ rows]) auto
  qed
qed

text \<open>The crash rail closes the incident with a FAILED row, unless an outcome is already there.\<close>

lemma crash_rail:
  assumes "record_run_failure K True (w, s) run err = (w', s')" and "own_rows load s (incident_id run)"
    and "\<not> is_terminal (state run)"
  shows "\<exists>l rows. load s' (incident_id run) = Some l \<and> is_terminal (state l)
    \<and> (\<forall>j. history s' j = history s j @ (if j = incident_id run then rows else []))
    \<and> (rows = [] \<or> rows = [l] \<and> state l = FAILED)"
proof -
  define latest where "latest = (case load s (incident_id run) of Some l \<Rightarrow> l | None \<Rightarrow> run)"
  show ?thesis
  proof (cases "is_terminal (state latest)")
    case True
    with assms(1) have "s' = s" by (auto simp: record_run_failure_def k_loads latest_def)
    moreover from True assms(3) have "load s (incident_id run) = Some latest"
      by (auto simp: latest_def split: option.splits)
    ultimately show ?thesis using True by (intro exI[of _ latest] exI[of _ "[]"]) simp
  next
    case False
    obtain w2 now where c: "wk_clock K w = (w2, now)" by fastforce
    let ?f = "run_failure K latest err now"
    have id: "incident_id ?f = incident_id run"
      using assms(2) by (auto simp: run_failure_def latest_def own_rows_def split: option.splits)
    obtain s2 where w: "write_run s ?f = (s2, Inr ())" using k_works by (rule reliableE)
    with assms(1) False c have "s' = s2"
      by (auto simp: record_run_failure_def k_loads k_writes latest_def)
    with load_after_write[OF w] history_write[OF w] id show ?thesis
      by (intro exI[of _ ?f] exI[of _ "[?f]"]) (simp add: run_failure_def)
  qed
qed

text \<open>
  The whole task: an admitted worker leaves its incident settled, touches no other, and leaves a
  settled one as it found it; any other worker leaves the store as it found it.
\<close>

lemma admitted_settles:
  assumes "run_investigation K (Inr Admitted) (w, s) run = ((w', s'), e)"
    and "own_rows load s (incident_id run)" and "\<not> is_terminal (state run)"
  shows "\<exists>l rows. load s' (incident_id run) = Some l \<and> settled l
    \<and> (\<forall>j. history s' j = history s j @ (if j = incident_id run then rows else []))
    \<and> (\<forall>l0. load s (incident_id run) = Some l0 \<and> settled l0 \<longrightarrow> rows = [])"
proof -
  obtain w1 s1 e1 where d: "drive K (w, s) run = ((w1, s1), e1)" by (metis surj_pair)
  from drive_history[OF d assms(2)] obtain rows where
    h: "\<forall>j. history s1 j = history s j @ (if j = incident_id run then rows else [])"
    and old: "\<forall>l. load s (incident_id run) = Some l \<and> settled l
        \<longrightarrow> rows = [] \<and> (e1 = Already_terminal l \<or> e1 = Awaiting_human l)"
    and fin: "(\<exists>err. e1 = Task_crashed err) \<or> (\<exists>l. load s1 (incident_id run) = Some l \<and> settled l)"
    and own: "own_rows load s1 (incident_id run)" by blast
  show ?thesis
  proof (cases "\<exists>err. e1 = Task_crashed err")
    case False
    with assms(1) d have "s' = s1" by (cases e1) (auto simp: run_investigation_def)
    with h old fin False show ?thesis by blast
  next
    case True
    then obtain err where err: "e1 = Task_crashed err" ..
    with assms(1) d have r: "record_run_failure K True (w1, s1) run err = (w', s')"
      by (auto simp: run_investigation_def)
    from crash_rail[OF r own assms(3)] obtain l rows' where
      l: "load s' (incident_id run) = Some l" "is_terminal (state l)"
      and h': "\<forall>j. history s' j = history s1 j @ (if j = incident_id run then rows' else [])" by blast
    from old err have "\<forall>l0. load s (incident_id run) = Some l0 \<and> settled l0 \<longrightarrow> rows @ rows' = []" by auto
    moreover from h h' have "\<forall>j. history s' j = history s j @ (if j = incident_id run then rows @ rows' else [])"
      by simp
    moreover from l have "settled l" by (simp add: settled_def)
    ultimately show ?thesis using l(1) by (intro exI[of _ l] exI[of _ "rows @ rows'"]) blast
  qed
qed

end

text \<open>The service's own transitions over Postgres.\<close>

interpretation service_any: guarded_registry "service_transitions str_of digest I" "\<lambda>_. True"
  by unfold_locales (auto intro: service.transition_frame)

abbreviation service_worker ::
    "('w, snapshots) worker \<Rightarrow> 'w registry \<Rightarrow> ('w, snapshots) worker" where
  "service_worker K reg \<equiv>
     K\<lparr>wk_registry := reg, wk_load := (\<lambda>s i. Inr (pg_load s i)), wk_write := pg_write\<rparr>"

interpretation service_task: task_host pg_load pg_write pg_history "service_transitions str_of digest I"
    "service_worker K (service_transitions str_of digest I)"
  by unfold_locales (simp_all add: pg_reliable)

subsection \<open>Many workers\<close>

text \<open>
  One process: its slots, the database's advisory locks by key, and the incident each of its
  sessions is running. \<open>ours\<close> are the sessions this process opens; the others belong to its
  replicas. The two context managers of \<open>_admission\<close> exit lease first, slot last.
\<close>

record host =
  pool_slots :: run_slots
  lease_locks :: "int \<Rightarrow> nat option"
  active :: "nat \<Rightarrow> string option"

inductive workers_step :: "(string \<Rightarrow> int) \<Rightarrow> nat set \<Rightarrow> host \<Rightarrow> host \<Rightarrow> bool" for hashtext ours where
  admitted: "n \<in> ours \<Longrightarrow> active h n = None \<Longrightarrow> slot_acquire (pool_slots h) = (s', True)
    \<Longrightarrow> lease_acquire hashtext n i (lease_locks h) = (l', True)
    \<Longrightarrow> workers_step hashtext ours h
          (h\<lparr>pool_slots := s', lease_locks := l', active := (active h)(n \<mapsto> i)\<rparr>)"
| lease_lost: "n \<in> ours \<Longrightarrow> active h n = None \<Longrightarrow> slot_acquire (pool_slots h) = (s', True)
    \<Longrightarrow> lease_acquire hashtext n i (lease_locks h) = (l', False) \<Longrightarrow> slot_release True s' = Inr s''
    \<Longrightarrow> workers_step hashtext ours h
          (h\<lparr>pool_slots := s'', lease_locks := lease_release hashtext i False l'\<rparr>)"
| at_capacity: "slot_acquire (pool_slots h) = (s', False)
    \<Longrightarrow> workers_step hashtext ours h (h\<lparr>pool_slots := s'\<rparr>)"
| finished: "active h n = Some i \<Longrightarrow> slot_release True (pool_slots h) = Inr s'
    \<Longrightarrow> workers_step hashtext ours h
          (h\<lparr>pool_slots := s', lease_locks := lease_release hashtext i True (lease_locks h),
             active := (active h)(n := None)\<rparr>)"
| foreign_lock: "m \<notin> ours \<Longrightarrow> lease_locks h k = None
    \<Longrightarrow> workers_step hashtext ours h (h\<lparr>lease_locks := (lease_locks h)(k \<mapsto> m)\<rparr>)"
| foreign_unlock: "m \<notin> ours \<Longrightarrow> lease_locks h k = Some m
    \<Longrightarrow> workers_step hashtext ours h (h\<lparr>lease_locks := (lease_locks h)(k := None)\<rparr>)"

inductive workers_reach :: "(string \<Rightarrow> int) \<Rightarrow> nat set \<Rightarrow> int \<Rightarrow> host \<Rightarrow> bool" for hashtext ours n where
  boot: "make_run_slots n = Inr s \<Longrightarrow> \<forall>k m. locks k = Some m \<longrightarrow> m \<notin> ours
    \<Longrightarrow> workers_reach hashtext ours n \<lparr>pool_slots = s, lease_locks = locks, active = (\<lambda>_. None)\<rparr>"
| step: "workers_reach hashtext ours n h \<Longrightarrow> workers_step hashtext ours h h'
    \<Longrightarrow> workers_reach hashtext ours n h'"

text \<open>The slots see an admission and a finish, and nothing else: the slot machine simulates.\<close>

definition slots_of :: "host \<Rightarrow> run_slots \<times> nat set" where
  "slots_of h = (pool_slots h, dom (active h))"

lemma workers_step_slots:
  assumes "workers_step hashtext ours h h'"
  shows "slots_of h' = slots_of h \<or> slots_step (slots_of h) (slots_of h')"
  using assms
proof cases
  case (admitted n s' i l')
  then have "slots_step (pool_slots h, dom (active h)) (s', insert n (dom (active h)))"
    by (intro slots_step.enter) (auto simp: domIff)
  with admitted show ?thesis by (simp add: slots_of_def)
next
  case (lease_lost n s' i l' s'')
  then have "s'' = pool_slots h" by (auto simp: slot_acquire_def slot_release_def split: if_splits)
  with lease_lost show ?thesis by (simp add: slots_of_def)
next
  case (at_capacity s')
  then show ?thesis by (auto simp: slots_of_def slot_acquire_def split: if_splits)
next
  case (finished n i s')
  then have "slots_step (pool_slots h, dom (active h)) (s', dom (active h) - {n})"
    by (intro slots_step.leave) auto
  with finished show ?thesis by (simp add: slots_of_def)
qed (simp_all add: slots_of_def)

lemma workers_reach_slots: "workers_reach hashtext ours n h \<Longrightarrow> slots_reach n (slots_of h)"
proof (induction rule: workers_reach.induct)
  case (boot s locks)
  then show ?case by (simp add: slots_of_def slots_reach.start)
next
  case (step h h')
  from workers_step_slots[OF step(2)] step(3) show ?case by (metis slots_reach.step)
qed

text \<open>The leases held by this process are those of its active sessions, one incident key each.\<close>

definition leases_inv :: "(string \<Rightarrow> int) \<Rightarrow> nat set \<Rightarrow> host \<Rightarrow> bool" where
  "leases_inv hashtext ours h =
     (dom (active h) \<subseteq> ours
      \<and> (\<forall>n i. active h n = Some i \<longrightarrow> lease_locks h (hashtext i) = Some n)
      \<and> (\<forall>k. \<forall>n\<in>ours. lease_locks h k = Some n \<longrightarrow> (\<exists>i. active h n = Some i \<and> hashtext i = k)))"

lemma workers_step_leases:
  assumes "workers_step hashtext ours h h'" and "leases_inv hashtext ours h"
  shows "leases_inv hashtext ours h'"
  using assms
proof cases
  case (admitted n s' i l')
  then have l': "lease_locks h (hashtext i) = None" "l' = (lease_locks h)(hashtext i \<mapsto> n)"
    by (auto simp: lease_acquire_def split: option.splits)
  with admitted assms(2) show ?thesis unfolding leases_inv_def by (auto split: if_splits) (metis option.distinct(1))+
next
  case (lease_lost n s' i l' s'')
  then have "l' = lease_locks h" by (auto simp: lease_acquire_def split: option.splits)
  with lease_lost assms(2) show ?thesis by (simp add: leases_inv_def lease_release_def)
next
  case (finished n i s')
  with assms(2) show ?thesis unfolding leases_inv_def lease_release_def
    by (auto split: if_splits) (metis option.inject)+
next
  case (foreign_lock m k)
  with assms(2) show ?thesis unfolding leases_inv_def by (auto split: if_splits)
next
  case (foreign_unlock m k)
  with assms(2) show ?thesis unfolding leases_inv_def by (auto split: if_splits)
qed (simp add: leases_inv_def)

lemma workers_reach_leases: "workers_reach hashtext ours n h \<Longrightarrow> leases_inv hashtext ours h"
proof (induction rule: workers_reach.induct)
  case (boot s locks)
  then show ?case by (auto simp: leases_inv_def)
qed (rule workers_step_leases)

end
