(* ===== verification/Webhook_Claims.thy ===== *)
theory Webhook_Claims
  imports Worker Sample_Run
begin

text \<open>
  The properties of the long-running service: what a webhook delivery can do to it, that a signed
  delivery is accepted once (and the gap in that), that an accepted alert is recorded and driven to
  a settled state, and that the workers in flight stay within their slots, leases and connections.
  The witnesses run on a service whose HMAC is a constant, whose JSON parser knows one alert and whose skew window is one second.
\<close>

definition sample_service :: "snapshots service" where
  "sample_service = over_postgres
     \<lparr>svc_settings = sample_settings\<lparr>webhook_max_skew_seconds := 1\<rparr>, svc_hmac = (\<lambda>key msg. ''00''),
      svc_parse = (\<lambda>body. Some (VDict [(''source'', VStr ''grafana''), (''severity'', VStr ''critical'')])),
      svc_uuid5 = (\<lambda>s. s), svc_str_of = show_str, svc_digest = (\<lambda>s. s),
      svc_load = (\<lambda>s i. Inr None), svc_write = pg_write\<rparr>"

definition sample_ingress :: "snapshots ingress" where
  "sample_ingress = \<lparr>replay_cache = [], nonce_cache = [], run_store = [], background_tasks = []\<rparr>"

definition sample_delivery :: "rat \<Rightarrow> string \<Rightarrow> request" where
  "sample_delivery t sent_at =
     \<lparr>req_chunks = [''{}''],
      req_headers = [(''x-alert-nonce'', ''n1''), (''x-alert-timestamp'', sent_at),
                     (''x-alert-signature'', ''sha256=00'')],
      req_time = t, req_utc = 0, req_uuid = ''i1''\<rparr>"

lemma sample_delivery_headers [simp]:
  "header (sample_delivery t sent_at) ''x-alert-nonce'' = Some ''n1''"
  "header (sample_delivery t sent_at) ''x-alert-timestamp'' = Some sent_at"
  by (simp_all add: sample_delivery_def header_def)

lemma sample_delivery_time [simp]:
  "req_time (sample_delivery t sent_at) = t"
  "(sample_delivery t sent_at)\<lparr>req_time := t'\<rparr> = sample_delivery t' sent_at"
  by (simp_all add: sample_delivery_def)

lemma sample_nonces [simp]: "nonce_cache sample_ingress = []"
  by (simp add: sample_ingress_def)

lemma sample_skew [simp]: "webhook_max_skew_seconds (svc_settings sample_service) = 1"
  by (simp add: sample_service_def sample_settings_def)

lemma sample_empty_store: "pg_load [] i = None" "pg_history [] i = []"
  by (simp_all add: pg_load_def pg_history_def rows_of_def)

lemma cache_ok_Nil: "cache_ok [] t"
  by (simp add: cache_ok_def)

lemma sample_sent_at: "py_int ''1000'' = Some 1000"
  by code_simp

subsection \<open>Deliveries\<close>

text \<open>C19: a delivery that does not carry the signature of its own body, and of its timestamp and nonce
  where it has one, is refused, and leaves the replay caches, the run store and the background tasks
  as they were.\<close>

theorem forged_delivery_changes_nothing:
  assumes "case header r ''x-alert-nonce'' of
      None \<Rightarrow> signature_header r \<noteq> sign (svc_hmac A) (request_body r) (platform_webhook_secret (svc_settings A))
    | Some nonce \<Rightarrow> \<forall>sent_at. header r ''x-alert-timestamp'' = Some sent_at \<longrightarrow>
        signature_header r \<noteq> sign_delivery (svc_hmac A) (platform_webhook_secret (svc_settings A)) sent_at nonce
          (request_body r)"
  shows "\<exists>ans. serve_alert A st r = (st, ans) \<and> (\<forall>i. ans \<noteq> Answered i)"
proof -
  from assms have "\<not> signature_ok A r"
    by (auto simp: signature_ok_def Let_def verify_def verify_delivery_def signature_matches_True sign_def
        sign_delivery_def split: option.splits)
  from unsigned_refused[OF this] obtain ans where "authenticate A st r = (st, Some ans)" "\<forall>i. ans \<noteq> Answered i"
    by blast
  with serve_cases[of A st r] show ?thesis by (auto simp: ingest_refused)
qed

theorem forged_delivery_changes_nothing_witness:
  "\<exists>ans. serve_alert (sample_service\<lparr>svc_hmac := (\<lambda>key msg. ''11'')\<rparr>) sample_ingress (sample_delivery 1 ''1000'')
     = (sample_ingress, ans) \<and> (\<forall>i. ans \<noteq> Answered i)"
  by (rule forged_delivery_changes_nothing)
    (simp add: sample_delivery_def header_def sign_delivery_def signature_prefix_def sample_service_def signature_header_def)

text \<open>C20: a delivery with a nonce is accepted once: after it was accepted, and fewer than 1023 further
  requests of any kind, the same timestamp and nonce are refused, whenever they come, except in the
  millisecond that follows twice the skew window (the gap below).\<close>

theorem signed_delivery_is_accepted_once:
  assumes "serve_alert A st r = (st1, Answered i)" and "header r ''x-alert-nonce'' = Some k"
    and "header r' ''x-alert-nonce'' = Some k"
    and "header r' ''x-alert-timestamp'' = header r ''x-alert-timestamp''"
    and "cache_ok (nonce_cache st) (req_time r)"
    and "sorted (map req_time (r # rs @ [r']))" and "length rs + 1 < 1024"
    and "req_time r' \<le> req_time r + 2 * of_int (webhook_max_skew_seconds (svc_settings A))
      \<or> req_time r + 2 * of_int (webhook_max_skew_seconds (svc_settings A)) + 1/1000 \<le> req_time r'"
  shows "snd (serve_alert A (deliveries A st1 rs) r') \<noteq> Answered j"
proof -
  from assms(1) serve_cases[of A st r] have ingest: "ingest_alert A st r = (st1, Answered i)" by auto
  obtain st0 out where a: "authenticate A st r = (st0, out)" by fastforce
  have "out = None"
  proof (rule ccontr)
    assume "out \<noteq> None"
    with a ingest assms(2) show False
      by (auto simp: ingest_refused authenticate_def authenticate_nonce_def
          split: option.splits sum.splits if_splits prod.splits)
  qed
  with a have passed: "authenticate A st r = (st0, None)" by simp
  from ingest_nonce_cache[of A st r] ingest passed have same: "nonce_cache st1 = nonce_cache st0" by simp
  from accepted_delivery_is_spent[OF passed assms(2,5) same assms(6) _ assms(3,4,8)] assms(7)
  obtain st3 refusal where "authenticate A (deliveries A st1 rs) r' = (st3, Some refusal)" "\<forall>i. refusal \<noteq> Answered i"
    by (auto simp: replay_cache_max_entries_def)
  with serve_cases[of A "deliveries A st1 rs" r'] show ?thesis by (auto simp: ingest_refused)
qed

theorem signed_delivery_is_accepted_once_witness:
  "snd (serve_alert sample_service (fst (serve_alert sample_service sample_ingress (sample_delivery 1 ''1000'')))
     (sample_delivery 2 ''1000'')) \<noteq> Answered ''i1''"
proof -
  have "serve_alert sample_service sample_ingress (sample_delivery 1 ''1000'')
      = (fst (serve_alert sample_service sample_ingress (sample_delivery 1 ''1000'')), Answered ''i1'')"
    by (simp add: prod_eq_iff) code_simp
  from signed_delivery_is_accepted_once[OF this, of "''n1''" "sample_delivery 2 ''1000''" "[]" "''i1''"]
  show ?thesis
    by (simp add: cache_ok_Nil)
qed

text \<open>The replay gap: a delivery accepted in the first millisecond its timestamp allows is accepted
  again once its nonce is more than twice the skew window old, as long as the timestamp's last
  millisecond has not ended: the nonce is forgotten by seconds, the timestamp judged by whole
  milliseconds.\<close>

theorem replay_gap_accepts_twice:
  assumes "authenticate A st r = (st1, None)"
    and "header r ''x-alert-nonce'' = Some k" and "header r ''x-alert-timestamp'' = Some sent_at"
    and "py_int sent_at = Some t"
    and "req_time r + 2 * of_int (webhook_max_skew_seconds (svc_settings A)) < now'"
    and "\<lfloor>now' * 1000\<rfloor> = t + webhook_max_skew_seconds (svc_settings A) * 1000"
    and "0 \<le> webhook_max_skew_seconds (svc_settings A)"
    and "cache_ok (nonce_cache st) (req_time r)"
  shows "\<exists>st2. authenticate A st1 (r\<lparr>req_time := now'\<rparr>) = (st2, None)"
proof -
  let ?w = "webhook_max_skew_seconds (svc_settings A)"
  from assms(1,2) obtain ts c where ts: "header r ''x-alert-timestamp'' = Some ts"
    and ok: "verify_delivery (svc_hmac A) (request_body r) ts k (signature_header r)
       (platform_webhook_secret (svc_settings A)) = Inr True"
    and c: "is_replay (nonce_cache st) k (req_time r) (of_int ?w * 2) = (c, False)" "st1 = st\<lparr>nonce_cache := c\<rparr>"
    by (rule authenticate_passed)
  have same: "header (r\<lparr>req_time := now'\<rparr>) = header r" "request_body (r\<lparr>req_time := now'\<rparr>) = request_body r"
    "signature_header (r\<lparr>req_time := now'\<rparr>) = signature_header r"
    by (simp_all add: header_def request_body_def signature_header_def fun_eq_iff cong: option.case_cong list.case_cong)
  have skew: "skew_refusal sent_at now' ?w = None" using assms(4,6,7) by (simp add: skew_refusal_def)
  have "seen \<le> req_time r" if "(q, seen) \<in> set c" for q seen
    using is_replay_ok[OF assms(8) order_refl, of k "of_int ?w * 2"] c(1) that by (auto simp: cache_ok_def)
  then have "filter (\<lambda>(_, seen). \<not> of_int ?w * 2 < now' - seen) c = []"
    using assms(5) by (fastforce simp: filter_empty_conv)
  then have "is_replay c k now' (of_int ?w * 2) = ([(k, now')], False)"
    by (simp add: is_replay_def replay_cache_max_entries_def)
  with assms(2,3) ts ok skew c(2) show ?thesis
    by (simp add: authenticate_def authenticate_nonce_def same)
qed

theorem replay_gap_accepts_twice_witness:
  "\<exists>st2. authenticate sample_service (fst (authenticate sample_service sample_ingress (sample_delivery (1/2000) ''1000'')))
     (sample_delivery (20006/10000) ''1000'') = (st2, None)"
proof -
  let ?r = "sample_delivery (1/2000) ''1000''"
  have "authenticate sample_service sample_ingress ?r = (fst (authenticate sample_service sample_ingress ?r), None)"
    by (simp add: prod_eq_iff) code_simp
  from replay_gap_accepts_twice[OF this, of "''n1''" "''1000''" 1000 "20006/10000"]
  show ?thesis
    by (simp add: sample_sent_at cache_ok_Nil floor_eq_iff)
qed

text \<open>An alert that is accepted is recorded: under the incident derived for it a fresh run is stored
  if, and only if, that incident had none; no stored snapshot is rewritten, no other incident is
  touched, and exactly one background task is added when the agent is enabled.\<close>

theorem accepted_alert_is_recorded:
  assumes "authenticate (over_postgres A) st r = (st1, None)"
    and "ingest_alert (over_postgres A) st r = (st', Answered i)"
  shows "\<exists>al. Option.bind (svc_parse A (request_body r)) alert_payload = Some al
    \<and> i = derive_incident_id (svc_uuid5 A) (svc_str_of A) (svc_digest A) al (pg_load (run_store st)) (req_uuid r)
    \<and> (let run = start_run al (svc_settings A) (req_utc r) i None in
        (\<forall>j. pg_history (run_store st') j = pg_history (run_store st) j
             @ (if j = i \<and> pg_load (run_store st) i = None then [run] else []))
        \<and> background_tasks st' = background_tasks st @ (if agent_enabled (svc_settings A) then [run] else []))"
  using desk_pg.accepted_alert_recorded[OF assms] by simp

theorem accepted_alert_is_recorded_witness:
  "\<exists>run. pg_history (run_store (fst (ingest_alert sample_service sample_ingress (sample_delivery 1 ''1000'')))) ''i1'' = [run]"
proof -
  let ?r = "sample_delivery 1 ''1000''"
  have "authenticate sample_service sample_ingress ?r = (fst (authenticate sample_service sample_ingress ?r), None)"
    and "ingest_alert sample_service sample_ingress ?r
      = (fst (ingest_alert sample_service sample_ingress ?r), Answered ''i1'')"
    by (simp add: prod_eq_iff, code_simp)+
  from accepted_alert_is_recorded[OF this[unfolded sample_service_def], folded sample_service_def]
  show ?thesis by (auto simp: sample_ingress_def Let_def sample_empty_store)
qed

subsection \<open>Workers\<close>




text \<open>C13: single flight: however the workers of a process and the sessions of its replicas interleave, no
  two active sessions of this process run one incident, each active one holds its incident's lease,
  no idle one holds any, at most \<open>max_concurrent_runs\<close> are active, and no slot leaks.\<close>

theorem workers_are_single_flight:
  assumes "workers_reach hashtext ours (max_concurrent_runs cfg) h"
  shows "(\<forall>n m i. active h n = Some i \<and> active h m = Some i \<longrightarrow> n = m)
    \<and> (\<forall>n i. active h n = Some i \<longrightarrow> lease_locks h (hashtext i) = Some n)
    \<and> (\<forall>n\<in>ours. active h n = None \<longrightarrow> (\<forall>k. lease_locks h k \<noteq> Some n))
    \<and> finite (dom (active h)) \<and> card (dom (active h)) \<le> nat (max_concurrent_runs cfg)
    \<and> free_slots (pool_slots h) = nat (max_concurrent_runs cfg) - card (dom (active h))"
proof -
  have leases: "leases_inv hashtext ours h" by (rule workers_reach_leases[OF assms])
  have held: "active h n = Some i \<Longrightarrow> lease_locks h (hashtext i) = Some n" for n i
    using leases by (auto simp: leases_inv_def)
  have idle: "n \<in> ours \<Longrightarrow> active h n = None \<Longrightarrow> lease_locks h k \<noteq> Some n" for n k
    using leases by (fastforce simp: leases_inv_def)
  have "n = m" if "active h n = Some i" "active h m = Some i" for n m i
    using held[OF that(1)] held[OF that(2)] by simp
  moreover from slots_reach_inv[OF workers_reach_slots[OF assms]]
  have "finite (dom (active h))" "card (dom (active h)) \<le> nat (max_concurrent_runs cfg)"
    "free_slots (pool_slots h) = nat (max_concurrent_runs cfg) - card (dom (active h))"
    by (auto simp: slots_inv_def slots_of_def)
  ultimately show ?thesis using held idle by blast
qed

text \<open>Validated settings cannot oversubscribe the pool: the connections of every run in flight and
  those reserved for ingress fit \<open>db_pool_size + db_max_overflow\<close>, at every reachable moment.\<close>

theorem connections_fit_the_pool:
  assumes "make_settings cfg = Inr cfg'" and "workers_reach hashtext ours (max_concurrent_runs cfg') h"
  shows "connections_per_run * int (card (dom (active h))) + db_ingest_reserved_connections cfg'
    \<le> db_pool_size cfg' + db_max_overflow cfg'"
proof -
  have cfg: "cfg' = cfg" by (rule make_settings_InrD(1)[OF assms(1)])
  note fit = run_connections_fit_the_pool[OF assms(1)]
  from slots_reach_inv[OF workers_reach_slots[OF assms(2)]]
  have "int (card (dom (active h))) \<le> max_concurrent_runs cfg"
    by (auto simp: slots_inv_def slots_of_def cfg)
  then have "connections_per_run * int (card (dom (active h))) \<le> connections_per_run * max_concurrent_runs cfg"
    by (simp add: connections_per_run_def)
  with fit(2) show ?thesis by (simp add: cfg db_pool_capacity_def)
qed

text \<open>One worker is admitted on a free host.\<close>

definition sample_host :: host where
  "sample_host = \<lparr>pool_slots = \<lparr>ceiling = 8, free_slots = 7\<rparr>, lease_locks = [3 \<mapsto> 7], active = [7 \<mapsto> ''i'']\<rparr>"

lemma sample_host_reached: "workers_reach (\<lambda>i. 3) {7} (max_concurrent_runs sample_settings) sample_host"
proof -
  have n: "max_concurrent_runs sample_settings = 8"
    by (simp add: max_concurrent_runs_def db_pool_capacity_def connections_per_run_def sample_settings_def)
  let ?h = "\<lparr>pool_slots = \<lparr>ceiling = 8, free_slots = 8\<rparr>, lease_locks = Map.empty, active = Map.empty\<rparr>"
  have "workers_reach (\<lambda>i. 3) {7} 8 ?h" by (rule workers_reach.boot) (simp_all add: make_run_slots_def)
  moreover have "workers_step (\<lambda>i. 3) {7} ?h sample_host"
    using workers_step.admitted[of 7 "{7}" ?h "\<lparr>ceiling = 8, free_slots = 7\<rparr>" "\<lambda>i. 3" "''i''" "[3 \<mapsto> 7]"]
    by (simp add: sample_host_def slot_acquire_def lease_acquire_def)
  ultimately show ?thesis unfolding n by (rule workers_reach.step)
qed

theorem workers_are_single_flight_witness: "lease_locks sample_host 3 = Some 7 \<and> free_slots (pool_slots sample_host) = 7"
proof -
  have "active sample_host 7 = Some ''i''" "dom (active sample_host) = {7}" by (simp_all add: sample_host_def)
  moreover have "max_concurrent_runs sample_settings = 8"
    by (simp add: max_concurrent_runs_def db_pool_capacity_def connections_per_run_def sample_settings_def)
  ultimately show ?thesis using workers_are_single_flight[OF sample_host_reached] by simp
qed

theorem connections_fit_the_pool_witness:
  "connections_per_run * int (card (dom (active sample_host))) + 4 \<le> 10 + 10"
proof -
  have "make_settings sample_settings = Inr sample_settings" by code_simp
  from connections_fit_the_pool[OF this sample_host_reached] show ?thesis by (simp add: sample_settings_def)
qed

end
