(* ===== verification/Candidates.thy ===== *)
theory Candidates
  imports Planner_Step
begin

text \<open>
  Candidate diagnoses and the selection between them: the validators of \<^verbatim>\<open>agent/candidates.py\<close> and
  \<^verbatim>\<open>agent/selection.py\<close>, and \<open>step_for_selection\<close> of \<^verbatim>\<open>strategies/candidate_selector.py\<close>. An
  evidence id is a position on the run's ledger, so \<open>grounded_in\<close> binds the number of its rows; the
  ids a selection may name are those of the set it was shown. A list of pairs stands for a JSON
  object whose keys are distinct.
\<close>

subsection \<open>Structured calls of the other roles\<close>

text \<open>What a role answers, and what its schema makes of it; the planner's own call is \<open>step_client\<close>.\<close>

datatype 'p reply =
    Replied 'p llm_usage
  | No_json "llm_usage option"
  | No_answer "llm_usage option"
  | Port_broke exn

datatype 'o parsed = Parsed 'o | Move_refused | Not_parsed

definition role_client ::
    "('p \<Rightarrow> 'o parsed) \<Rightarrow> ('w \<Rightarrow> llm_usage option option \<Rightarrow> 'w \<times> 'p reply) \<Rightarrow> ('w, 'o) llm_client" where
  "role_client schema ask w quoted =
     (case ask w quoted of
        (w', Replied p u) \<Rightarrow>
          (w', case schema p of
                 Parsed out \<Rightarrow> Inr (out, u)
               | Move_refused \<Rightarrow> Inl (Unreadable (Some u) True)
               | Not_parsed \<Rightarrow> Inl (Unreadable (Some u) False))
      | (w', No_json u) \<Rightarrow> (w', Inl (Unreadable u False))
      | (w', No_answer u) \<Rightarrow> (w', Inl (Unreachable u))
      | (w', Port_broke err) \<Rightarrow> (w', Inl (Crashed err)))"

lemma role_call_InrD:
  assumes "call_with_output_repair (role_client schema ask) w = (w', Inr call)"
  shows "\<exists>p. schema p = Parsed (call_output call)"
proof -
  from assms obtain w1 q1 u where "role_client schema ask w1 q1 = (w', Inr (call_output call, u))"
    unfolding call_with_output_repair_def by (blast dest: ask_again_InrD)
  then show ?thesis
    by (auto simp: role_client_def split: prod.splits reply.splits parsed.splits)
qed

text \<open>Everything one call billed: the leg that parsed, and each repair leg before it.\<close>

definition billed_usage :: "'o repaired_call \<Rightarrow> llm_usage option" where
  "billed_usage call = sum_usage (failures call @ [Some (call_usage call)])"

subsection \<open>Candidates\<close>

record diagnosis_candidate =
  candidate_id :: string
  cand_category :: hypothesis_category
  cand_name :: string
  cand_confidence :: rat
  evidence_for :: "nat list"
  evidence_against :: "nat list"
  next_probe :: "(string \<times> dict) option"

definition readable_probe :: "(string \<times> dict) option \<Rightarrow> bool" where
  "readable_probe p = (case p of None \<Rightarrow> True | Some (tool, _) \<Rightarrow> tool \<in> set read_tools)"

definition grounded :: "nat \<Rightarrow> nat list \<Rightarrow> bool" where
  "grounded ledger refs = list_all (\<lambda>k. k < ledger) refs"

definition valid_candidate :: "nat \<Rightarrow> diagnosis_candidate \<Rightarrow> bool" where
  "valid_candidate ledger c =
     (candidate_id c \<noteq> [] \<and> cand_name c \<noteq> [] \<and> 0 \<le> cand_confidence c \<and> cand_confidence c \<le> 1
      \<and> grounded ledger (evidence_for c) \<and> grounded ledger (evidence_against c)
      \<and> readable_probe (next_probe c))"

abbreviation candidate_label :: "diagnosis_candidate \<Rightarrow> hypothesis_category \<times> string" where
  "candidate_label c \<equiv> (cand_category c, cand_name c)"

definition one_candidate_each :: "diagnosis_candidate list \<Rightarrow> diagnosis_candidate list option" where
  "one_candidate_each cs =
     (if distinct (map candidate_id cs) \<and> distinct (map candidate_label cs)
      then Some (sort_key (\<lambda>c. - cand_confidence c) cs) else None)"

text \<open>\<open>CandidateStep\<close> bound to exactly \<open>n\<close> candidates, under the move narrowing of the step.\<close>

definition candidate_step_schema ::
    "nat \<Rightarrow> nat \<Rightarrow> offer \<Rightarrow> diagnosis_candidate list \<times> next_action
     \<Rightarrow> (diagnosis_candidate list \<times> next_action) parsed" where
  "candidate_step_schema n ledger what payload =
     (case payload of (cs, mv) \<Rightarrow>
        if move_refused what mv then Move_refused
        else if length cs = n \<and> n \<noteq> 0 \<and> list_all (valid_candidate ledger) cs \<and> valid_move what mv
        then (case one_candidate_each cs of Some ordered \<Rightarrow> Parsed (ordered, mv) | None \<Rightarrow> Not_parsed)
        else Not_parsed)"

lemma candidate_step_schema_Parsed:
  assumes "candidate_step_schema n ledger what payload = Parsed (cs, mv)"
  shows "length cs = n" and "cs \<noteq> []" and "list_all (valid_candidate ledger) cs"
    and "distinct (map candidate_id cs)" and "distinct (map candidate_label cs)"
    and "sorted_wrt (\<lambda>a b. cand_confidence b \<le> cand_confidence a) cs"
    and "\<not> move_refused what mv" and "valid_move what mv"
proof -
  from assms obtain raw where raw: "length raw = n" "n \<noteq> 0" "list_all (valid_candidate ledger) raw"
      "distinct (map candidate_id raw)" "distinct (map candidate_label raw)"
    and cs: "cs = sort_key (\<lambda>c. - cand_confidence c) raw"
    and "\<not> move_refused what mv" "valid_move what mv"
    by (auto simp: candidate_step_schema_def one_candidate_each_def split: prod.splits if_splits option.splits)
  then show "\<not> move_refused what mv" and "valid_move what mv" by blast+
  show "length cs = n" using raw(1) by (simp add: cs)
  then show "cs \<noteq> []" using raw(2) by auto
  show "list_all (valid_candidate ledger) cs" using raw(3) by (simp add: cs list_all_iff)
  show "distinct (map candidate_id cs)" "distinct (map candidate_label cs)"
    using raw(4,5) by (simp_all add: cs distinct_map)
  have "sorted (map (\<lambda>c. - cand_confidence c) cs)" by (simp add: cs)
  then show "sorted_wrt (\<lambda>a b. cand_confidence b \<le> cand_confidence a) cs" by (simp add: sorted_map)
qed

subsection \<open>Selections\<close>

datatype selection_decision = Select | Probe_more | Escalate

fun decision_value :: "selection_decision \<Rightarrow> string" where
  "decision_value Select = ''select''"
| "decision_value Probe_more = ''probe_more''"
| "decision_value Escalate = ''escalate''"

record selection_result =
  decision :: selection_decision
  selected_candidate_id :: "string option"
  scores :: "(string \<times> rat) list"
  uncertainty :: rat
  sel_reasoning :: string

definition scores_cover_the_set :: "string list \<Rightarrow> (string \<times> rat) list \<Rightarrow> bool" where
  "scores_cover_the_set known sc =
     (distinct (map fst sc) \<and> list_all (\<lambda>i. i \<in> set known) (map fst sc)
      \<and> list_all (\<lambda>i. i \<in> set (map fst sc)) known \<and> list_all (\<lambda>(_, x). 0 \<le> x \<and> x \<le> 1) sc)"

definition selection_stated :: "string list \<Rightarrow> selection_result \<Rightarrow> bool" where
  "selection_stated known s =
     (if decision s = Select
      then (case selected_candidate_id s of None \<Rightarrow> False | Some i \<Rightarrow> i \<in> set known)
      else selected_candidate_id s = None)"

definition selection_schema :: "string list \<Rightarrow> selection_result \<Rightarrow> selection_result parsed" where
  "selection_schema known s =
     (if scores_cover_the_set known (scores s) \<and> 0 \<le> uncertainty s \<and> uncertainty s \<le> 1
         \<and> sel_reasoning s \<noteq> [] \<and> selection_stated known s
      then Parsed s else Not_parsed)"

definition chosen_candidate_id :: "selection_result \<Rightarrow> string option" where
  "chosen_candidate_id s = (case decision s of
      Select \<Rightarrow> selected_candidate_id s
    | Probe_more \<Rightarrow> (case scores s of [] \<Rightarrow> None | x # xs \<Rightarrow> Some (fst (py_max snd x xs)))
    | Escalate \<Rightarrow> None)"

definition chosen_candidate ::
    "selection_result \<Rightarrow> diagnosis_candidate list \<Rightarrow> diagnosis_candidate option" where
  "chosen_candidate s cs = (case chosen_candidate_id s of
      None \<Rightarrow> None
    | Some i \<Rightarrow> find (\<lambda>c. candidate_id c = i) cs)"

definition probe_more_without_a_probe :: string where
  "probe_more_without_a_probe = ''selector asked for another probe and the candidate it points at proposes none''"

text \<open>\<open>str_float\<close> renders a Python float inside an f-string.\<close>

definition selected_hypothesis ::
    "(rat \<Rightarrow> string) \<Rightarrow> diagnosis_candidate \<Rightarrow> selection_result \<Rightarrow> hypothesis" where
  "selected_hypothesis str_float c s =
     \<lparr>category = cand_category c, hyp_name = cand_name c, confidence = cand_confidence c,
      reasoning = ''candidate '' @ candidate_id c @ '' ('' @ decision_value (decision s) @ '', ''
        @ (case map_of (scores s) (candidate_id c) of None \<Rightarrow> ''unscored'' | Some x \<Rightarrow> ''score '' @ str_float x)
        @ '', selector uncertainty '' @ str_float (uncertainty s) @ ''); '' @ sel_reasoning s\<rparr>"

text \<open>\<open>select_candidate\<close> refuses an empty set, so the set has a first element here.\<close>

definition step_for_selection ::
    "(rat \<Rightarrow> string) \<Rightarrow> selection_result \<Rightarrow> diagnosis_candidate list \<Rightarrow> next_action \<Rightarrow> investigation_step" where
  "step_for_selection str_float s cs committed =
     (let chosen = chosen_candidate s cs;
          step = (\<lambda>c mv. \<lparr>ranked = [selected_hypothesis str_float c s], move = mv\<rparr>)
      in if decision s = Escalate then step (hd cs) (Stop (''selector escalated: '' @ sel_reasoning s))
         else case chosen of
             None \<Rightarrow> step (hd cs) (Stop probe_more_without_a_probe)
           | Some c \<Rightarrow>
               if decision s = Select then step c committed
               else case next_probe c of
                   None \<Rightarrow> step c (Stop (probe_more_without_a_probe @ '' ('' @ candidate_id c @ '')''))
                 | Some (tool, args) \<Rightarrow> step c (Probe tool args))"

lemma step_for_selection_ranked [simp]: "ranked (step_for_selection f s cs mv) \<noteq> []"
  by (auto simp: step_for_selection_def Let_def split: option.splits)

text \<open>A valid selection that does not escalate points at a candidate of the set it was shown.\<close>

lemma valid_selection_chosen:
  assumes "selection_schema (map candidate_id cs) p = Parsed s" and "cs \<noteq> []" and "decision s \<noteq> Escalate"
  shows "\<exists>c\<in>set cs. chosen_candidate s cs = Some c \<and> chosen_candidate_id s = Some (candidate_id c)"
proof -
  from assms(1) have ok: "scores_cover_the_set (map candidate_id cs) (scores s)" "selection_stated (map candidate_id cs) s"
    by (auto simp: selection_schema_def split: if_splits)
  have "\<exists>i. chosen_candidate_id s = Some i \<and> i \<in> set (map candidate_id cs)"
  proof (cases "decision s")
    case Select
    with ok(2) show ?thesis by (auto simp: selection_stated_def chosen_candidate_id_def split: option.splits)
  next
    case Probe_more
    from ok(1) assms(2) obtain x xs where sc: "scores s = x # xs"
      by (cases cs; cases "scores s") (auto simp: scores_cover_the_set_def)
    have "py_max snd x xs \<in> set (scores s)" using py_max_in[of snd x xs] by (simp only: sc)
    then have "fst (py_max snd x xs) \<in> set (map fst (scores s))" by simp
    with ok(1) have "fst (py_max snd x xs) \<in> set (map candidate_id cs)"
      unfolding scores_cover_the_set_def list_all_iff by blast
    with Probe_more sc show ?thesis by (simp add: chosen_candidate_id_def)
  qed (use assms(3) in blast)
  then obtain i where i: "chosen_candidate_id s = Some i" "i \<in> set (map candidate_id cs)" by blast
  then obtain c where "find (\<lambda>c. candidate_id c = i) cs = Some c"
    by (cases "find (\<lambda>c. candidate_id c = i) cs") (auto simp: find_None_iff)
  with i show ?thesis by (auto simp: chosen_candidate_def find_Some_iff)
qed

text \<open>What a selection makes the loop do: the committed move, a candidate's own read, or a stop.\<close>

lemma step_for_selection_move:
  "move (step_for_selection f s cs mv) = mv
   \<or> (\<exists>r. move (step_for_selection f s cs mv) = Stop r)
   \<or> (decision s = Probe_more \<and> (\<exists>c\<in>set cs. \<exists>tool args. chosen_candidate s cs = Some c
        \<and> next_probe c = Some (tool, args) \<and> move (step_for_selection f s cs mv) = Probe tool args))"
proof (cases "chosen_candidate s cs")
  case (Some c)
  then have "c \<in> set cs" by (auto simp: chosen_candidate_def find_Some_iff split: option.splits)
  with Some show ?thesis
    by (cases "decision s") (auto simp: step_for_selection_def Let_def split: option.splits)
qed (auto simp: step_for_selection_def)

end
