(* ===== verification/Strategy_Arms.thy ===== *)
theory Strategy_Arms
  imports Candidates
begin

text \<open>
  The strategies of \<^verbatim>\<open>agent/strategies/\<close> that make more than one decision per step: the two
  generators \<^verbatim>\<open>best_of_n_enumerated.py\<close> and \<^verbatim>\<open>best_of_n_sampled.py\<close>, the selector over either
  (\<^verbatim>\<open>candidate_selector.py\<close>) and the one critique and revision of \<^verbatim>\<open>reflection.py\<close>. A generator is
  the locale \<open>candidate_generator\<close>; every arm interprets \<open>investigation_strategy\<close>. The research
  records the arms write are not modelled: the loop ignores them.
\<close>

subsection \<open>The critique\<close>

datatype revision_verdict = Keep | Revise

record step_critique =
  unsupported_assumptions :: "string list"
  contradictions :: "(nat \<times> string) list"
  unexplained_symptoms :: "string list"
  missing_probe :: "string option"
  verdict :: revision_verdict
  critique_reasoning :: string

definition findings :: "(nat \<Rightarrow> string) \<Rightarrow> step_critique \<Rightarrow> string list" where
  "findings str_ref c =
     map (\<lambda>s. ''unsupported_assumption: '' @ s) (unsupported_assumptions c)
     @ map (\<lambda>(k, s). ''contradiction: '' @ s @ '' (evidence '' @ str_ref k @ '')'') (contradictions c)
     @ map (\<lambda>s. ''unexplained_symptom: '' @ s) (unexplained_symptoms c)
     @ (case missing_probe c of None \<Rightarrow> [] | Some p \<Rightarrow> [''missing_probe: '' @ p])"

definition verdict_follows_findings :: "(nat \<Rightarrow> string) \<Rightarrow> step_critique \<Rightarrow> bool" where
  "verdict_follows_findings str_ref c = ((verdict c = Keep) = (findings str_ref c = []))"

definition critique_schema :: "(nat \<Rightarrow> string) \<Rightarrow> nat \<Rightarrow> step_critique \<Rightarrow> step_critique parsed" where
  "critique_schema str_ref ledger c =
     (if grounded ledger (map fst (contradictions c)) \<and> list_all (\<lambda>(_, s). s \<noteq> []) (contradictions c)
         \<and> (case missing_probe c of None \<Rightarrow> True | Some p \<Rightarrow> p \<in> set read_tools)
         \<and> critique_reasoning c \<noteq> [] \<and> verdict_follows_findings str_ref c
      then Parsed c else Not_parsed)"

record revision_pass =
  passes_allowed :: nat
  passes_spent :: nat

definition max_revision_passes :: nat where "max_revision_passes = 1"

definition revision_budget :: revision_pass where
  "revision_budget = \<lparr>passes_allowed = max_revision_passes, passes_spent = 0\<rparr>"

definition spend_pass :: "revision_pass \<Rightarrow> revision_pass result" where
  "spend_pass b = (if passes_allowed b \<le> passes_spent b then Inl (Foreign ''ReflectionCapExceeded'')
                   else Inr (b\<lparr>passes_spent := passes_spent b + 1\<rparr>))"

subsection \<open>What an arm is bound to\<close>

text \<open>
  The model ports of \<open>StrategyContext\<close>, one per role, each with the failure a re-ask quotes; a role
  without a client is \<open>None\<close>. \<open>str_float\<close>, \<open>str_fixed2\<close> and \<open>str_ref\<close> render a float, a float to
  two places, and an evidence id.
\<close>

record 'w arm_ports =
  arm_libs :: libs
  str_float :: "rat \<Rightarrow> string"
  str_fixed2 :: "rat \<Rightarrow> string"
  str_ref :: "nat \<Rightarrow> string"
  arm_model :: string
  ask_step :: "'w planner_port"
  ask_sample :: "rat \<Rightarrow> 'w planner_port"
  ask_candidates :: "'w \<Rightarrow> run_state \<Rightarrow> nat \<Rightarrow> offer \<Rightarrow> llm_usage option option
    \<Rightarrow> 'w \<times> (diagnosis_candidate list \<times> next_action) reply"
  ask_selector :: "('w \<Rightarrow> run_state \<Rightarrow> diagnosis_candidate list \<Rightarrow> llm_usage option option
    \<Rightarrow> 'w \<times> selection_result reply) option"
  ask_critic :: "('w \<Rightarrow> run_state \<Rightarrow> investigation_step \<Rightarrow> llm_usage option option
    \<Rightarrow> 'w \<times> step_critique reply) option"
  ask_revision :: "'w \<Rightarrow> run_state \<Rightarrow> investigation_step \<Rightarrow> step_critique \<Rightarrow> offer
    \<Rightarrow> llm_usage option option \<Rightarrow> 'w \<times> planner_reply"
  branch_prober :: "('w \<Rightarrow> run_state \<Rightarrow> string \<Rightarrow> dict \<Rightarrow> 'w \<times> (run_state \<times> summary option) result) option"

text \<open>
  A failed call above the first, wrapped by the arm's own \<open>LLMError\<close>: it carries every leg the step
  billed, and it is no longer an \<open>OutputNotOffered\<close>.
\<close>

definition arm_failed :: "llm_usage option list \<Rightarrow> llm_usage option \<Rightarrow> planner_failure" where
  "arm_failed billed u = Step_failed (sum_usage (billed @ [u])) False"

text \<open>A \<open>ValueError\<close> raised before any call: the loop's \<open>except\<close> clause catches it too.\<close>

abbreviation arm_refused :: planner_failure where
  "arm_refused \<equiv> Step_failed None False"

subsection \<open>Generators\<close>

record generation =
  gen_run :: run_state
  gen_candidates :: "diagnosis_candidate list"
  proposed_step :: investigation_step
  gen_billed :: "llm_usage option"

type_synonym 'w generator =
  "'w \<Rightarrow> run_state \<Rightarrow> datetime \<Rightarrow> offer \<Rightarrow> 'w \<times> (planner_failure + generation)"

fun join_comma :: "string list \<Rightarrow> string" where
  "join_comma [] = []"
| "join_comma [x] = x"
| "join_comma (x # xs) = x @ '', '' @ join_comma xs"

definition cited :: "(nat \<Rightarrow> string) \<Rightarrow> nat list \<Rightarrow> string" where
  "cited ref ks = (let s = join_comma (map ref ks) in if s = [] then ''none'' else s)"

definition citation_reasoning :: "(nat \<Rightarrow> string) \<Rightarrow> diagnosis_candidate \<Rightarrow> string" where
  "citation_reasoning ref c =
     ''candidate '' @ candidate_id c @ '' (enumerated); evidence_for: '' @ cited ref (evidence_for c)
     @ ''; evidence_against: '' @ cited ref (evidence_against c)"

definition enumerated_hypothesis :: "(nat \<Rightarrow> string) \<Rightarrow> diagnosis_candidate \<Rightarrow> hypothesis" where
  "enumerated_hypothesis ref c =
     \<lparr>category = cand_category c, hyp_name = cand_name c, confidence = cand_confidence c,
      reasoning = citation_reasoning ref c\<rparr>"

definition enumerate_candidates :: "'w arm_ports \<Rightarrow> nat \<Rightarrow> 'w generator" where
  "enumerate_candidates A n w rs now what =
     (case call_with_output_repair (role_client (candidate_step_schema n (length (evidence rs)) what)
              (\<lambda>w quoted. ask_candidates A w rs n what quoted)) w of
        (w', Inl err) \<Rightarrow> (w', Inl (planner_failure_of err))
      | (w', Inr call) \<Rightarrow>
          (let cs = fst (call_output call);
               step = \<lparr>ranked = rank_by_confidence (map (enumerated_hypothesis (str_ref A)) cs),
                       move = snd (call_output call)\<rparr>
           in (w', Inr \<lparr>gen_run = rs\<lparr>budget := accrue_structured_call (budget rs) call (arm_model A),
                                      hypotheses := ranked step, updated_at := now\<rparr>,
                        gen_candidates = cs, proposed_step = step, gen_billed = billed_usage call\<rparr>)))"

subsection \<open>Sampling\<close>

definition billed_legs :: "'o repaired_call list \<Rightarrow> llm_usage option list" where
  "billed_legs calls = concat (map (\<lambda>c. failures c @ [Some (call_usage c)]) calls)"

fun draw_samples ::
    "'w arm_ports \<Rightarrow> rat \<Rightarrow> nat \<Rightarrow> 'w \<Rightarrow> run_state \<Rightarrow> offer \<Rightarrow> investigation_step repaired_call list
     \<Rightarrow> 'w \<times> (planner_failure + investigation_step repaired_call list)" where
  "draw_samples A temp 0 w rs what drawn = (w, Inr drawn)"
| "draw_samples A temp (Suc left) w rs what drawn =
     (case call_with_output_repair (step_client (ask_sample A temp) rs what) w of
        (w', Inl err) \<Rightarrow> (w', Inl (arm_failed (billed_legs drawn) (repair_error_usage err)))
      | (w', Inr call) \<Rightarrow> draw_samples A temp left w' rs what (drawn @ [call]))"

definition top_of :: "investigation_step repaired_call \<Rightarrow> hypothesis" where
  "top_of call = hd (ranked (call_output call))"

definition sampled_candidate :: "nat \<Rightarrow> investigation_step repaired_call \<Rightarrow> diagnosis_candidate" where
  "sampled_candidate k call =
     \<lparr>candidate_id = ''sample-'' @ dec k, cand_category = category (top_of call),
      cand_name = hyp_name (top_of call), cand_confidence = confidence (top_of call),
      evidence_for = [], evidence_against = [],
      next_probe = (case move (call_output call) of Probe tool args \<Rightarrow> Some (tool, args) | _ \<Rightarrow> None)\<rparr>"

fun union_onto ::
    "nat \<Rightarrow> diagnosis_candidate list \<Rightarrow> investigation_step repaired_call list \<Rightarrow> diagnosis_candidate list" where
  "union_onto k seen [] = seen"
| "union_onto k seen (call # calls) =
     union_onto (Suc k)
       (if (category (top_of call), hyp_name (top_of call)) \<in> set (map candidate_label seen)
        then seen else seen @ [sampled_candidate k call]) calls"

definition union_of_tops :: "investigation_step repaired_call list \<Rightarrow> diagnosis_candidate list" where
  "union_of_tops calls = sort_key (\<lambda>c. - cand_confidence c) (union_onto 1 [] calls)"

text \<open>\<open>max\<close> of no samples raises \<open>ValueError\<close>.\<close>

definition sample_candidates :: "'w arm_ports \<Rightarrow> nat \<Rightarrow> rat \<Rightarrow> 'w generator" where
  "sample_candidates A n temp w rs now what =
     (case draw_samples A temp n w rs what [] of
        (w', Inl failure) \<Rightarrow> (w', Inl failure)
      | (w', Inr []) \<Rightarrow> (w', Inl arm_refused)
      | (w', Inr (c # cs)) \<Rightarrow>
          (let step = call_output (py_max (\<lambda>c. confidence (top_of c)) c cs) in
           (w', Inr \<lparr>gen_run = rs\<lparr>budget := foldl (\<lambda>b c. accrue_structured_call b c (arm_model A)) (budget rs) (c # cs),
                                      hypotheses := ranked step, updated_at := now\<rparr>,
                     gen_candidates = union_of_tops (c # cs), proposed_step = step,
                     gen_billed = sum_usage (billed_legs (c # cs))\<rparr>)))"

text \<open>A generator running alone: the step it proposes is the step.\<close>

definition generator_alone :: "'w generator \<Rightarrow> 'w strategy" where
  "generator_alone gen w rs now what iter =
     (case gen w rs now what of
        (w', Inl failure) \<Rightarrow> (w', Inl failure)
      | (w', Inr g) \<Rightarrow> (w', Inr (gen_run g, proposed_step g)))"

subsection \<open>Selecting\<close>

definition select_candidate ::
    "'w arm_ports \<Rightarrow> ('w \<Rightarrow> run_state \<Rightarrow> diagnosis_candidate list \<Rightarrow> llm_usage option option \<Rightarrow> 'w \<times> selection_result reply)
     \<Rightarrow> 'w \<Rightarrow> run_state \<Rightarrow> diagnosis_candidate list \<Rightarrow> 'w \<times> (llm_usage option + selection_result repaired_call)" where
  "select_candidate A ask w rs cs =
     (if cs = [] then (w, Inl None)
      else case call_with_output_repair (role_client (selection_schema (map candidate_id cs)) (\<lambda>w quoted. ask w rs cs quoted)) w of
          (w', Inl err) \<Rightarrow> (w', Inl (repair_error_usage err))
        | (w', Inr call) \<Rightarrow> (w', Inr call))"

definition candidate_selector :: "'w arm_ports \<Rightarrow> 'w generator \<Rightarrow> 'w strategy" where
  "candidate_selector A gen w rs now what iter =
     (case ask_selector A of
        None \<Rightarrow> (w, Inl arm_refused)
      | Some ask \<Rightarrow>
          (case gen w rs now what of
             (w1, Inl failure) \<Rightarrow> (w1, Inl failure)
           | (w1, Inr g) \<Rightarrow>
               (case select_candidate A ask w1 (gen_run g) (gen_candidates g) of
                  (w2, Inl u) \<Rightarrow> (w2, Inl (arm_failed [gen_billed g] u))
                | (w2, Inr call) \<Rightarrow>
                    (let step = step_for_selection (str_float A) (call_output call) (gen_candidates g)
                                  (move (proposed_step g))
                     in (w2, Inr ((gen_run g)\<lparr>budget := accrue_structured_call (budget (gen_run g)) call (arm_model A),
                                    hypotheses := ranked step, updated_at := now\<rparr>, step))))))"

subsection \<open>Reflecting\<close>

definition reflection :: "'w arm_ports \<Rightarrow> 'w strategy" where
  "reflection A w rs now what iter =
     (case ask_critic A of
        None \<Rightarrow> (w, Inl arm_refused)
      | Some critic \<Rightarrow>
          (case call_with_output_repair (step_client (ask_step A) rs what) w of
             (w1, Inl err) \<Rightarrow> (w1, Inl (planner_failure_of err))
           | (w1, Inr planner) \<Rightarrow>
               (let initial = call_output planner;
                    planned = rs\<lparr>budget := accrue_structured_call (budget rs) planner (arm_model A),
                                 hypotheses := ranked initial, updated_at := now\<rparr>
                in case call_with_output_repair
                         (role_client (critique_schema (str_ref A) (length (evidence rs)))
                            (\<lambda>w quoted. critic w rs initial quoted)) w1 of
                     (w2, Inl err) \<Rightarrow> (w2, Inl (arm_failed [billed_usage planner] (repair_error_usage err)))
                   | (w2, Inr critique) \<Rightarrow>
                       (let after_critic = planned\<lparr>budget := accrue_structured_call (budget planned) critique (arm_model A),
                                                   updated_at := now\<rparr>
                        in if verdict (call_output critique) = Keep then (w2, Inr (after_critic, initial))
                        else case spend_pass revision_budget of
                            Inl err \<Rightarrow> (w2, Inl (Step_crashed err))
                          | Inr _ \<Rightarrow>
                              (case call_with_output_repair
                                      (step_client (\<lambda>w rs what quoted.
                                          ask_revision A w rs initial (call_output critique) what quoted) rs what) w2 of
                                 (w3, Inl err) \<Rightarrow>
                                   (w3, Inl (arm_failed [billed_usage planner, billed_usage critique] (repair_error_usage err)))
                               | (w3, Inr revision) \<Rightarrow>
                                   (w3, Inr (after_critic\<lparr>
                                        budget := accrue_structured_call (budget after_critic) revision (arm_model A),
                                        hypotheses := ranked (call_output revision), updated_at := now\<rparr>,
                                      call_output revision)))))))"

end
