(* ===== verification/Search_Arm.thy ===== *)
theory Search_Arm
  imports Strategy_Arms
begin

text \<open>
  The bounded walk of \<^verbatim>\<open>agent/search.py\<close> and \<^verbatim>\<open>strategies/search.py\<close>: the caps as objects that
  raise, the shared ledger, the score of a node, and one planner step's walk. \<open>walk_state\<close> is what
  \<open>_Walk\<close> carries; node ids and the records written for a trace are left out. Scores are exact
  rationals where the code has floats.
\<close>

subsection \<open>Caps\<close>

definition max_search_depth :: nat where "max_search_depth = 2"
definition max_branch_factor :: nat where "max_branch_factor = 3"
definition branch_probe_tool_calls :: int where "branch_probe_tool_calls = 1"
definition chosen_path_tool_reserve :: int where "chosen_path_tool_reserve = 1"

record branch_allowance =
  branches_allowed :: nat
  branches_spent :: nat

definition spend_branch :: "branch_allowance \<Rightarrow> branch_allowance result" where
  "spend_branch a = (if branches_allowed a \<le> branches_spent a then Inl (Foreign ''SearchCapExceeded'')
                     else Inr (a\<lparr>branches_spent := branches_spent a + 1\<rparr>))"

record search_walk =
  depth_allowed :: nat
  branch_allowed :: nat
  depth_spent :: nat

definition make_walk :: "nat \<Rightarrow> nat \<Rightarrow> search_walk result" where
  "make_walk depth branch =
     (if max_search_depth < depth \<or> depth < 1 then Inl (Foreign ''SearchCapExceeded'')
      else if max_branch_factor < branch \<or> branch < 1 then Inl (Foreign ''SearchCapExceeded'')
      else Inr \<lparr>depth_allowed = depth, branch_allowed = branch, depth_spent = 0\<rparr>)"

definition descend :: "search_walk \<Rightarrow> search_walk result" where
  "descend s = (if depth_allowed s \<le> depth_spent s then Inl (Foreign ''SearchCapExceeded'')
                else Inr (s\<lparr>depth_spent := depth_spent s + 1\<rparr>))"

definition branches :: "search_walk \<Rightarrow> branch_allowance" where
  "branches s = \<lparr>branches_allowed = branch_allowed s, branches_spent = 0\<rparr>"

subsection \<open>Costs and scores\<close>

record node_cost =
  nc_tool_calls :: int
  nc_tokens :: int
  nc_usd :: rat

definition no_cost :: node_cost where
  "no_cost = \<lparr>nc_tool_calls = 0, nc_tokens = 0, nc_usd = 0\<rparr>"

definition plus_cost :: "node_cost \<Rightarrow> node_cost \<Rightarrow> node_cost" where
  "plus_cost a b = \<lparr>nc_tool_calls = nc_tool_calls a + nc_tool_calls b, nc_tokens = nc_tokens a + nc_tokens b,
                    nc_usd = nc_usd a + nc_usd b\<rparr>"

definition cost_between :: "budget_ledger \<Rightarrow> budget_ledger \<Rightarrow> node_cost" where
  "cost_between before after =
     \<lparr>nc_tool_calls = tool_calls_used after - tool_calls_used before,
      nc_tokens = tokens_used after - tokens_used before, nc_usd = usd_used after - usd_used before\<rparr>"

definition tool_cost_weight :: rat where "tool_cost_weight = 1/4"
definition token_cost_weight :: rat where "token_cost_weight = 1/4"
definition safety_risk_weight :: rat where "safety_risk_weight = 1/2"

record node_score =
  selector_confidence :: rat
  tool_cost :: rat
  token_cost :: rat
  safety_risk :: rat

definition score_total :: "node_score \<Rightarrow> rat" where
  "score_total s = selector_confidence s - tool_cost s - token_cost s - safety_risk s"

definition fraction :: "int \<Rightarrow> int \<Rightarrow> rat" where
  "fraction used limit = (if limit \<le> 0 then 1 else min (of_int used / of_int limit) 1)"

definition score_node :: "rat \<Rightarrow> rat \<Rightarrow> bool \<Rightarrow> node_cost \<Rightarrow> budget_ledger \<Rightarrow> node_score" where
  "score_node conf unc commits cost limits =
     \<lparr>selector_confidence = conf,
      tool_cost = tool_cost_weight * fraction (nc_tool_calls cost) (max_tool_calls limits),
      token_cost = token_cost_weight * fraction (nc_tokens cost) (max_tokens limits),
      safety_risk = (if commits then safety_risk_weight * unc else 0)\<rparr>"

definition room_for_a_branch :: "budget_ledger \<Rightarrow> int \<Rightarrow> string option" where
  "room_for_a_branch b token_reserve =
     (if is_exhausted b then Some ''ledger exhausted''
      else if max_tool_calls b < tool_calls_used b + branch_probe_tool_calls + chosen_path_tool_reserve
      then Some ''tool-call ceiling reserved for the chosen path''
      else if max_tokens b < tokens_used b + token_reserve
      then Some ''token ceiling reserved for the chosen path''
      else None)"

definition selection_confidence :: "selection_result \<Rightarrow> rat" where
  "selection_confidence s = (case chosen_candidate_id s of
      None \<Rightarrow> 0
    | Some i \<Rightarrow> (case map_of (scores s) i of None \<Rightarrow> 0 | Some x \<Rightarrow> x))"

definition probe_fingerprint :: "libs \<Rightarrow> string \<Rightarrow> dict \<Rightarrow> string" where
  "probe_fingerprint L tool args = tool @ ''('' @ dumps_sorted L args @ '')''"

subsection \<open>The walk\<close>

record search_path =
  path_run :: run_state
  path_candidates :: "diagnosis_candidate list"
  path_step :: investigation_step
  committed_action :: next_action
  path_depth :: nat
  path_score :: node_score
  path_cost :: node_cost

record walk_state =
  walk_ledger :: budget_ledger
  token_reserve :: int
  walk_billed :: "llm_usage option list"
  branches_taken :: nat
  branches_refused :: nat
  pruned_by_ledger :: nat

type_synonym ('w, 'a) walked = "('w \<times> walk_state) \<times> (planner_failure + 'a)"

definition with_ledger :: "run_state \<Rightarrow> budget_ledger \<Rightarrow> run_state" where
  "with_ledger rs b = rs\<lparr>budget := b\<rparr>"

definition charge_walk :: "walk_state \<Rightarrow> budget_ledger \<Rightarrow> llm_usage option \<Rightarrow> walk_state" where
  "charge_walk st after bill =
     st\<lparr>walk_ledger := after,
        token_reserve := max (token_reserve st) (tokens_used after - tokens_used (walk_ledger st)),
        walk_billed := walk_billed st @ [bill]\<rparr>"

definition failure_bill :: "planner_failure \<Rightarrow> llm_usage option" where
  "failure_bill f = (case f of Step_failed u _ \<Rightarrow> u | Step_crashed _ \<Rightarrow> None)"

definition walk_generate ::
    "'w generator \<Rightarrow> datetime \<Rightarrow> offer \<Rightarrow> 'w \<times> walk_state \<Rightarrow> run_state \<Rightarrow> ('w, generation) walked" where
  "walk_generate gen now what ws rs =
     (case ws of (w, st) \<Rightarrow>
        (case gen w (with_ledger rs (walk_ledger st)) now what of
           (w', Inl failure) \<Rightarrow> ((w', st), Inl (arm_failed (walk_billed st) (failure_bill failure)))
         | (w', Inr g) \<Rightarrow> ((w', charge_walk st (budget (gen_run g)) (gen_billed g)), Inr g)))"

text \<open>One node: the selector over its set, then the score of the whole path to it.\<close>

definition scored ::
    "'w arm_ports \<Rightarrow> ('w \<Rightarrow> run_state \<Rightarrow> diagnosis_candidate list \<Rightarrow> llm_usage option option \<Rightarrow> 'w \<times> selection_result reply)
     \<Rightarrow> datetime \<Rightarrow> 'w \<times> walk_state \<Rightarrow> run_state \<Rightarrow> nat \<Rightarrow> diagnosis_candidate list \<Rightarrow> next_action
     \<Rightarrow> budget_ledger \<Rightarrow> node_cost \<Rightarrow> ('w, search_path) walked" where
  "scored A ask now ws rs depth cs committed cost_from cost_so_far =
     (case ws of (w, st) \<Rightarrow>
        (let before = with_ledger rs (walk_ledger st) in
         case select_candidate A ask w before cs of
           (w', Inl u) \<Rightarrow> ((w', st), Inl (arm_failed (walk_billed st) u))
         | (w', Inr call) \<Rightarrow>
             (let s = call_output call;
                  after = before\<lparr>budget := accrue_structured_call (budget before) call (arm_model A), updated_at := now\<rparr>;
                  cost = plus_cost cost_so_far (cost_between cost_from (budget after))
              in ((w', charge_walk st (budget after) (billed_usage call)),
                  Inr \<lparr>path_run = after, path_candidates = cs,
                       path_step = step_for_selection (str_float A) s cs committed,
                       committed_action = committed, path_depth = depth,
                       path_score = score_node (selection_confidence s) (uncertainty s) (decision s = Select) cost (budget after),
                       path_cost = cost\<rparr>))))"

text \<open>What a raise that is no arm failure looks like to the loop: \<open>ValueError\<close> is caught, others are not.\<close>

definition escaped :: "exn \<Rightarrow> planner_failure" where
  "escaped err = (case err of ValueError _ \<Rightarrow> arm_refused | _ \<Rightarrow> Step_crashed err)"

fun branch_out ::
    "'w arm_ports \<Rightarrow> ('w \<Rightarrow> run_state \<Rightarrow> diagnosis_candidate list \<Rightarrow> llm_usage option option \<Rightarrow> 'w \<times> selection_result reply)
     \<Rightarrow> ('w \<Rightarrow> run_state \<Rightarrow> string \<Rightarrow> dict \<Rightarrow> 'w \<times> (run_state \<times> summary option) result)
     \<Rightarrow> datetime \<Rightarrow> search_path \<Rightarrow> branch_allowance \<Rightarrow> string list \<Rightarrow> search_path list
     \<Rightarrow> 'w \<times> walk_state \<Rightarrow> diagnosis_candidate list \<Rightarrow> ('w, search_path list) walked" where
  "branch_out A ask prober now parent allowance taken children ws [] = (ws, Inr children)"
| "branch_out A ask prober now parent allowance taken children (w, st) (c # cs) =
     (if branches_allowed allowance \<le> branches_spent allowance then ((w, st), Inr children)
      else case next_probe c of
        None \<Rightarrow> branch_out A ask prober now parent allowance taken children (w, st) cs
      | Some (tool, args) \<Rightarrow>
          (let fingerprint = probe_fingerprint (arm_libs A) tool args in
           if fingerprint \<in> set taken
           then branch_out A ask prober now parent allowance taken children
                  (w, st\<lparr>branches_refused := branches_refused st + 1\<rparr>) cs
           else if room_for_a_branch (walk_ledger st) (token_reserve st) \<noteq> None
           then ((w, st\<lparr>branches_refused := branches_refused st + 1, pruned_by_ledger := pruned_by_ledger st + 1\<rparr>),
                 Inr children)
           else case spend_branch allowance of
             Inl err \<Rightarrow> ((w, st), Inl (Step_crashed err))
           | Inr allowance' \<Rightarrow>
               (case prober w (with_ledger (path_run parent) (walk_ledger st)) tool args of
                  (w1, Inl err) \<Rightarrow> ((w1, st), Inl (escaped err))
                | (w1, Inr (rs1, refused)) \<Rightarrow>
                    (let st1 = st\<lparr>walk_ledger := budget rs1\<rparr> in
                     if refused \<noteq> None
                     then branch_out A ask prober now parent allowance' (fingerprint # taken) children
                            (w1, st1\<lparr>branches_refused := branches_refused st1 + 1\<rparr>) cs
                     else case scored A ask now (w1, st1\<lparr>branches_taken := branches_taken st1 + 1\<rparr>) rs1
                                 (path_depth parent + 1) (path_candidates parent) (committed_action parent)
                                 (walk_ledger st) (path_cost parent) of
                         (ws2, Inl failure) \<Rightarrow> (ws2, Inl failure)
                       | (ws2, Inr child) \<Rightarrow>
                           branch_out A ask prober now parent allowance' (fingerprint # taken)
                             (children @ [child]) ws2 cs))))"

definition best_of :: "search_path \<Rightarrow> search_path list \<Rightarrow> search_path" where
  "best_of p ps = py_max (\<lambda>p. score_total (path_score p)) p ps"

text \<open>\<open>_regrow\<close>: fresh candidates over the evidence this level gathered, if a branch is affordable.\<close>

definition regrow ::
    "'w generator \<Rightarrow> datetime \<Rightarrow> offer \<Rightarrow> 'w \<times> walk_state \<Rightarrow> search_path \<Rightarrow> ('w, search_path option) walked" where
  "regrow gen now what ws p =
     (case ws of (w, st) \<Rightarrow>
        if room_for_a_branch (walk_ledger st) (token_reserve st) \<noteq> None
        then ((w, st\<lparr>pruned_by_ledger := pruned_by_ledger st + 1\<rparr>), Inr None)
        else (case walk_generate gen now what (w, st) (path_run p) of
            (ws', Inl failure) \<Rightarrow> (ws', Inl failure)
          | (ws', Inr g) \<Rightarrow>
              (ws', Inr (Some (p\<lparr>path_run := gen_run g, path_candidates := gen_candidates g,
                                committed_action := move (proposed_step g)\<rparr>)))))"

text \<open>The levels that are left, from the best node so far and the frontier to branch from.\<close>

fun walk_levels ::
    "'w arm_ports \<Rightarrow> 'w generator \<Rightarrow> ('w \<Rightarrow> run_state \<Rightarrow> diagnosis_candidate list \<Rightarrow> llm_usage option option \<Rightarrow> 'w \<times> selection_result reply)
     \<Rightarrow> ('w \<Rightarrow> run_state \<Rightarrow> string \<Rightarrow> dict \<Rightarrow> 'w \<times> (run_state \<times> summary option) result)
     \<Rightarrow> datetime \<Rightarrow> offer \<Rightarrow> nat \<Rightarrow> search_walk \<Rightarrow> 'w \<times> walk_state \<Rightarrow> search_path \<Rightarrow> search_path
     \<Rightarrow> ('w, search_path) walked" where
  "walk_levels A gen ask prober now what 0 walk ws best frontier = (ws, Inr best)"
| "walk_levels A gen ask prober now what (Suc levels) walk ws best frontier =
     (case descend walk of
        Inl err \<Rightarrow> (ws, Inl (Step_crashed err))
      | Inr walk' \<Rightarrow>
          (case branch_out A ask prober now frontier (branches walk') [] [] ws (path_candidates frontier) of
             (ws1, Inl failure) \<Rightarrow> (ws1, Inl failure)
           | (ws1, Inr []) \<Rightarrow> (ws1, Inr best)
           | (ws1, Inr (c # cs)) \<Rightarrow>
               (let frontier' = best_of c cs;
                    best' = best_of best [frontier']
                in if levels = 0 then (ws1, Inr best')
                   else case regrow gen now what ws1 frontier' of
                       (ws2, Inl failure) \<Rightarrow> (ws2, Inl failure)
                     | (ws2, Inr None) \<Rightarrow> (ws2, Inr best')
                     | (ws2, Inr (Some grown)) \<Rightarrow>
                         walk_levels A gen ask prober now what levels walk' ws2 best' grown)))"

definition search_step :: "'w arm_ports \<Rightarrow> 'w generator \<Rightarrow> nat \<Rightarrow> nat \<Rightarrow> 'w strategy" where
  "search_step A gen depth branch w rs now what iter =
     (case (branch_prober A, ask_selector A, make_walk depth branch) of
        (None, _, _) \<Rightarrow> (w, Inl arm_refused)
      | (Some _, None, _) \<Rightarrow> (w, Inl arm_refused)
      | (Some _, Some _, Inl err) \<Rightarrow> (w, Inl (Step_crashed err))
      | (Some prober, Some ask, Inr walk) \<Rightarrow>
          (let st = \<lparr>walk_ledger = budget rs, token_reserve = 0, walk_billed = [], branches_taken = 0,
                     branches_refused = 0, pruned_by_ledger = 0\<rparr>
           in case walk_generate gen now what (w, st) rs of
                ((w1, _), Inl failure) \<Rightarrow> (w1, Inl failure)
              | ((w1, st1), Inr g) \<Rightarrow>
                  (case scored A ask now (w1, st1) (gen_run g) 0 (gen_candidates g) (move (proposed_step g))
                          (budget rs) no_cost of
                     ((w2, _), Inl failure) \<Rightarrow> (w2, Inl failure)
                   | (ws2, Inr root_path) \<Rightarrow>
                       (case walk_levels A gen ask prober now what (depth_allowed walk) walk ws2 root_path root_path of
                          ((w3, _), Inl failure) \<Rightarrow> (w3, Inl failure)
                        | ((w3, st3), Inr best) \<Rightarrow>
                            (w3, Inr ((path_run best)\<lparr>budget := walk_ledger st3,
                                        hypotheses := ranked (path_step best), updated_at := now\<rparr>,
                                      path_step best))))))"

end
