(* ===== verification/Uncertainty.thy ===== *)
theory Uncertainty
  imports Candidates
begin

text \<open>
  \<^verbatim>\<open>strategies/policy.py\<close>: the thresholds with their provenance, what an arm measured, and which
  signals a step fires. A declared default names the data split it was set on, and one set on the
  holdout is refused. Floats are exact rationals.
\<close>

datatype escalation_signal =
    TOP1_CONFIDENCE_LOW | TOP1_TOP2_MARGIN_NARROW | SELECTOR_UNCERTAINTY_HIGH
  | CANDIDATE_DISAGREEMENT_HIGH | CONTRADICTORY_EVIDENCE | REMEDIATION_ATTEMPT_FAILED
  | CONFIDENCE_LOW_AFTER_K_PROBES

fun signal_value :: "escalation_signal \<Rightarrow> string" where
  "signal_value TOP1_CONFIDENCE_LOW = ''top1_confidence_low''"
| "signal_value TOP1_TOP2_MARGIN_NARROW = ''top1_top2_margin_narrow''"
| "signal_value SELECTOR_UNCERTAINTY_HIGH = ''selector_uncertainty_high''"
| "signal_value CANDIDATE_DISAGREEMENT_HIGH = ''candidate_disagreement_high''"
| "signal_value CONTRADICTORY_EVIDENCE = ''contradictory_evidence''"
| "signal_value REMEDIATION_ATTEMPT_FAILED = ''remediation_attempt_failed''"
| "signal_value CONFIDENCE_LOW_AFTER_K_PROBES = ''confidence_low_after_k_probes''"

datatype threshold_name =
    TOP1_CONFIDENCE_FLOOR | TOP1_TOP2_MARGIN_FLOOR | SELECTOR_UNCERTAINTY_CEILING
  | CANDIDATE_DISAGREEMENT_CEILING | CONTRADICTORY_EVIDENCE_COUNT | FAILED_ATTEMPT_COUNT
  | PROBE_COUNT_BEFORE_CONFIDENCE_CHECK | CONFIDENCE_FLOOR_AFTER_PROBES

datatype threshold_split = DEV | VALIDATION | HOLDOUT | UNTUNED

definition tunable_splits :: "threshold_split list" where
  "tunable_splits = [DEV, VALIDATION, UNTUNED]"

definition assert_tuning_split_allowed :: "threshold_split \<Rightarrow> unit result" where
  "assert_tuning_split_allowed split =
     (if split \<in> set tunable_splits then Inr () else Inl (ValueError ''HoldoutTunedThresholdError''))"

record threshold_default =
  td_name :: threshold_name
  td_signal :: escalation_signal
  td_value :: rat
  td_split :: threshold_split

text \<open>\<open>ThresholdDefault(...)\<close>: construction refuses a holdout split.\<close>

definition make_threshold_default ::
    "threshold_name \<Rightarrow> escalation_signal \<Rightarrow> rat \<Rightarrow> threshold_split \<Rightarrow> threshold_default result" where
  "make_threshold_default name signal value split =
     bind_result (assert_tuning_split_allowed split)
       (\<lambda>_. Inr \<lparr>td_name = name, td_signal = signal, td_value = value, td_split = split\<rparr>)"

definition declared_thresholds :: "threshold_default list" where
  "declared_thresholds =
     [\<lparr>td_name = TOP1_CONFIDENCE_FLOOR, td_signal = TOP1_CONFIDENCE_LOW, td_value = 3/4, td_split = UNTUNED\<rparr>,
      \<lparr>td_name = TOP1_TOP2_MARGIN_FLOOR, td_signal = TOP1_TOP2_MARGIN_NARROW, td_value = 3/20, td_split = UNTUNED\<rparr>,
      \<lparr>td_name = SELECTOR_UNCERTAINTY_CEILING, td_signal = SELECTOR_UNCERTAINTY_HIGH, td_value = 2/5, td_split = UNTUNED\<rparr>,
      \<lparr>td_name = CANDIDATE_DISAGREEMENT_CEILING, td_signal = CANDIDATE_DISAGREEMENT_HIGH, td_value = 1/2, td_split = UNTUNED\<rparr>,
      \<lparr>td_name = CONTRADICTORY_EVIDENCE_COUNT, td_signal = CONTRADICTORY_EVIDENCE, td_value = 1, td_split = UNTUNED\<rparr>,
      \<lparr>td_name = FAILED_ATTEMPT_COUNT, td_signal = REMEDIATION_ATTEMPT_FAILED, td_value = 1, td_split = UNTUNED\<rparr>,
      \<lparr>td_name = PROBE_COUNT_BEFORE_CONFIDENCE_CHECK, td_signal = CONFIDENCE_LOW_AFTER_K_PROBES, td_value = 3, td_split = UNTUNED\<rparr>,
      \<lparr>td_name = CONFIDENCE_FLOOR_AFTER_PROBES, td_signal = CONFIDENCE_LOW_AFTER_K_PROBES, td_value = 17/20, td_split = UNTUNED\<rparr>]"

definition declared_default :: "threshold_name \<Rightarrow> rat" where
  "declared_default name = (case find (\<lambda>d. td_name d = name) declared_thresholds of
      Some d \<Rightarrow> td_value d | None \<Rightarrow> 0)"

definition signals_served :: "escalation_signal \<Rightarrow> threshold_name list" where
  "signals_served s = map td_name (filter (\<lambda>d. td_signal d = s) declared_thresholds)"

text \<open>The operating point: overrides where an operator set one, declared defaults elsewhere.\<close>

record uncertainty_thresholds =
  top1_confidence_floor :: rat
  top1_top2_margin_floor :: rat
  selector_uncertainty_ceiling :: rat
  candidate_disagreement_ceiling :: rat
  contradictory_evidence_count :: int
  failed_attempt_count :: int
  probe_count_before_confidence_check :: int
  confidence_floor_after_probes :: rat

definition or_declared :: "'a option \<Rightarrow> 'a \<Rightarrow> 'a" where
  "or_declared override declared = (case override of None \<Rightarrow> declared | Some x \<Rightarrow> x)"

text \<open>\<open>float(...)\<close> of each field, in \<open>ThresholdName\<close> order.\<close>

fun value_of :: "uncertainty_thresholds \<Rightarrow> threshold_name \<Rightarrow> rat" where
  "value_of T TOP1_CONFIDENCE_FLOOR = top1_confidence_floor T"
| "value_of T TOP1_TOP2_MARGIN_FLOOR = top1_top2_margin_floor T"
| "value_of T SELECTOR_UNCERTAINTY_CEILING = selector_uncertainty_ceiling T"
| "value_of T CANDIDATE_DISAGREEMENT_CEILING = candidate_disagreement_ceiling T"
| "value_of T CONTRADICTORY_EVIDENCE_COUNT = of_int (contradictory_evidence_count T)"
| "value_of T FAILED_ATTEMPT_COUNT = of_int (failed_attempt_count T)"
| "value_of T PROBE_COUNT_BEFORE_CONFIDENCE_CHECK = of_int (probe_count_before_confidence_check T)"
| "value_of T CONFIDENCE_FLOOR_AFTER_PROBES = confidence_floor_after_probes T"

text \<open>\<open>UncertaintyThresholds.resolve\<close> over the overrides of the strategy's knobs.\<close>

record threshold_overrides =
  o_top1_confidence_floor :: "rat option"
  o_top1_top2_margin_floor :: "rat option"
  o_selector_uncertainty_ceiling :: "rat option"
  o_candidate_disagreement_ceiling :: "rat option"
  o_contradictory_evidence_count :: "int option"
  o_failed_attempt_count :: "int option"
  o_probe_count_before_confidence_check :: "int option"
  o_confidence_floor_after_probes :: "rat option"

definition resolve :: "threshold_overrides \<Rightarrow> uncertainty_thresholds" where
  "resolve k =
     \<lparr>top1_confidence_floor = or_declared (o_top1_confidence_floor k) (declared_default TOP1_CONFIDENCE_FLOOR),
      top1_top2_margin_floor = or_declared (o_top1_top2_margin_floor k) (declared_default TOP1_TOP2_MARGIN_FLOOR),
      selector_uncertainty_ceiling =
        or_declared (o_selector_uncertainty_ceiling k) (declared_default SELECTOR_UNCERTAINTY_CEILING),
      candidate_disagreement_ceiling =
        or_declared (o_candidate_disagreement_ceiling k) (declared_default CANDIDATE_DISAGREEMENT_CEILING),
      contradictory_evidence_count =
        or_declared (o_contradictory_evidence_count k) \<lfloor>declared_default CONTRADICTORY_EVIDENCE_COUNT\<rfloor>,
      failed_attempt_count = or_declared (o_failed_attempt_count k) \<lfloor>declared_default FAILED_ATTEMPT_COUNT\<rfloor>,
      probe_count_before_confidence_check =
        or_declared (o_probe_count_before_confidence_check k) \<lfloor>declared_default PROBE_COUNT_BEFORE_CONFIDENCE_CHECK\<rfloor>,
      confidence_floor_after_probes =
        or_declared (o_confidence_floor_after_probes k) (declared_default CONFIDENCE_FLOOR_AFTER_PROBES)\<rparr>"

text \<open>The provenance of a live value: its split only while it is the declared default.\<close>

definition live_value_split :: "uncertainty_thresholds \<Rightarrow> threshold_default \<Rightarrow> threshold_split option" where
  "live_value_split T d = (if value_of T (td_name d) = td_value d then Some (td_split d) else None)"

subsection \<open>Readings\<close>

record uncertainty_reading =
  read_selector_uncertainty :: "rat option"
  read_disagreement :: "rat option"
  read_contradictory :: "int option"

definition failed_attempts :: "run_state \<Rightarrow> int" where
  "failed_attempts rs =
     int (length (filter (\<lambda>e. tool_name e = ''_remediation_attempt_failed'') (evidence rs)))"

definition leader :: "diagnosis_candidate \<Rightarrow> diagnosis_candidate list \<Rightarrow> diagnosis_candidate" where
  "leader c cs = py_max cand_confidence c cs"

definition candidate_disagreement :: "diagnosis_candidate \<Rightarrow> diagnosis_candidate list \<Rightarrow> rat" where
  "candidate_disagreement c cs =
     of_nat (length (filter (\<lambda>d. cand_category d \<noteq> cand_category (leader c cs)) (c # cs)))
       / of_nat (length (c # cs))"

definition contradicting_evidence :: "diagnosis_candidate \<Rightarrow> diagnosis_candidate list \<Rightarrow> int" where
  "contradicting_evidence c cs = int (length (evidence_against (leader c cs)))"

definition reading_of :: "diagnosis_candidate list \<Rightarrow> rat option \<Rightarrow> uncertainty_reading" where
  "reading_of cs sel = (case cs of
      [] \<Rightarrow> \<lparr>read_selector_uncertainty = sel, read_disagreement = None, read_contradictory = None\<rparr>
    | c # rest \<Rightarrow> \<lparr>read_selector_uncertainty = sel, read_disagreement = Some (candidate_disagreement c rest),
                   read_contradictory = Some (contradicting_evidence c rest)\<rparr>)"

subsection \<open>Evaluation\<close>

text \<open>
  Each signal measured as fired with its reason, as quiet, or not at all. \<open>f2\<close> is the format
  \<open>.2f\<close>, \<open>f\<close> the plain rendering of a float; an integer prints as \<open>di\<close>.
\<close>

datatype measured = Fires escalation_signal string | Quiet | Unmeasured escalation_signal

record fired_signals =
  fired :: "escalation_signal list"
  reasons :: "string list"
  unmeasured :: "escalation_signal list"

definition di :: "int \<Rightarrow> string" where
  "di n = (if n < 0 then ''-'' @ dec (nat (- n)) else dec (nat n))"

definition fire :: "escalation_signal \<Rightarrow> string \<Rightarrow> measured" where
  "fire s reason = Fires s (signal_value s @ '': '' @ reason)"

definition confidence_reason :: "(rat \<Rightarrow> string) \<Rightarrow> (rat \<Rightarrow> string) \<Rightarrow> rat \<Rightarrow> rat \<Rightarrow> string" where
  "confidence_reason f f2 c bar = ''top-1 confidence '' @ f2 c @ '' is below the '' @ f bar @ '' floor''"

definition margin_reason :: "(rat \<Rightarrow> string) \<Rightarrow> (rat \<Rightarrow> string) \<Rightarrow> rat \<Rightarrow> rat \<Rightarrow> string" where
  "margin_reason f f2 m bar = ''top-1 leads top-2 by '' @ f2 m @ '', under the '' @ f bar @ '' floor''"

definition after_probes_reason :: "(rat \<Rightarrow> string) \<Rightarrow> (rat \<Rightarrow> string) \<Rightarrow> int \<Rightarrow> rat \<Rightarrow> rat \<Rightarrow> string" where
  "after_probes_reason f f2 n c bar =
     di n @ '' probes spent and top-1 confidence '' @ f2 c @ '' is below the '' @ f bar @ '' floor''"

definition selector_reason :: "(rat \<Rightarrow> string) \<Rightarrow> (rat \<Rightarrow> string) \<Rightarrow> rat \<Rightarrow> rat \<Rightarrow> string" where
  "selector_reason f f2 u bar =
     ''the selector reported uncertainty '' @ f2 u @ '', over the '' @ f bar @ '' ceiling''"

definition disagreement_reason :: "(rat \<Rightarrow> string) \<Rightarrow> (rat \<Rightarrow> string) \<Rightarrow> rat \<Rightarrow> rat \<Rightarrow> string" where
  "disagreement_reason f f2 d bar =
     f2 d @ '' of the candidate set disagrees with the leader, over the '' @ f bar @ '' ceiling''"

definition contradiction_reason :: "int \<Rightarrow> int \<Rightarrow> string" where
  "contradiction_reason n bar =
     ''the leading candidate cites '' @ di n @ '' piece(s) of evidence against itself, at or over the ''
     @ di bar @ '' that fires''"

definition attempts_reason :: "int \<Rightarrow> int \<Rightarrow> string" where
  "attempts_reason n bar =
     di n @ '' remediation attempt(s) on this run did not end the incident (ADR 0056), at or over the ''
     @ di bar @ '' that fires''"

definition measure_ranking ::
    "(rat \<Rightarrow> string) \<Rightarrow> (rat \<Rightarrow> string) \<Rightarrow> uncertainty_thresholds \<Rightarrow> run_state \<Rightarrow> measured list" where
  "measure_ranking f f2 T rs =
     (let probes = tool_calls_used (budget rs) in
      case hypotheses rs of
        [] \<Rightarrow> map Unmeasured [TOP1_CONFIDENCE_LOW, TOP1_TOP2_MARGIN_NARROW, CONFIDENCE_LOW_AFTER_K_PROBES]
      | t # rest \<Rightarrow>
          [if confidence t < top1_confidence_floor T
           then fire TOP1_CONFIDENCE_LOW (confidence_reason f f2 (confidence t) (top1_confidence_floor T))
           else Quiet,
           case rest of
             [] \<Rightarrow> Unmeasured TOP1_TOP2_MARGIN_NARROW
           | s # _ \<Rightarrow> (let margin = confidence t - confidence s in
                       if margin < top1_top2_margin_floor T
                       then fire TOP1_TOP2_MARGIN_NARROW (margin_reason f f2 margin (top1_top2_margin_floor T))
                       else Quiet),
           if probe_count_before_confidence_check T \<le> probes \<and> confidence t < confidence_floor_after_probes T
           then fire CONFIDENCE_LOW_AFTER_K_PROBES
                  (after_probes_reason f f2 probes (confidence t) (confidence_floor_after_probes T))
           else Quiet])"

definition measure_reading ::
    "(rat \<Rightarrow> string) \<Rightarrow> (rat \<Rightarrow> string) \<Rightarrow> uncertainty_thresholds \<Rightarrow> uncertainty_reading \<Rightarrow> measured list" where
  "measure_reading f f2 T r =
     [case read_selector_uncertainty r of
        None \<Rightarrow> Unmeasured SELECTOR_UNCERTAINTY_HIGH
      | Some u \<Rightarrow> if selector_uncertainty_ceiling T < u
                  then fire SELECTOR_UNCERTAINTY_HIGH (selector_reason f f2 u (selector_uncertainty_ceiling T))
                  else Quiet,
      case read_disagreement r of
        None \<Rightarrow> Unmeasured CANDIDATE_DISAGREEMENT_HIGH
      | Some d \<Rightarrow> if candidate_disagreement_ceiling T < d
                  then fire CANDIDATE_DISAGREEMENT_HIGH (disagreement_reason f f2 d (candidate_disagreement_ceiling T))
                  else Quiet,
      case read_contradictory r of
        None \<Rightarrow> Unmeasured CONTRADICTORY_EVIDENCE
      | Some n \<Rightarrow> if contradictory_evidence_count T \<le> n
                  then fire CONTRADICTORY_EVIDENCE (contradiction_reason n (contradictory_evidence_count T))
                  else Quiet]"

definition measure_attempts :: "uncertainty_thresholds \<Rightarrow> run_state \<Rightarrow> measured list" where
  "measure_attempts T rs =
     [if failed_attempt_count T \<le> failed_attempts rs
      then fire REMEDIATION_ATTEMPT_FAILED (attempts_reason (failed_attempts rs) (failed_attempt_count T))
      else Quiet]"

definition evaluate ::
    "(rat \<Rightarrow> string) \<Rightarrow> (rat \<Rightarrow> string) \<Rightarrow> uncertainty_thresholds \<Rightarrow> run_state \<Rightarrow> uncertainty_reading \<Rightarrow> fired_signals" where
  "evaluate f f2 T rs r =
     (let ms = measure_ranking f f2 T rs @ measure_reading f f2 T r @ measure_attempts T rs in
      \<lparr>fired = concat (map (\<lambda>m. case m of Fires s _ \<Rightarrow> [s] | _ \<Rightarrow> []) ms),
       reasons = concat (map (\<lambda>m. case m of Fires _ w \<Rightarrow> [w] | _ \<Rightarrow> []) ms),
       unmeasured = concat (map (\<lambda>m. case m of Unmeasured s \<Rightarrow> [s] | _ \<Rightarrow> []) ms)\<rparr>)"

text \<open>When each signal fires, and when it was not measured.\<close>

lemma fire_simps [simp]:
  "Fires s w = fire s' reason \<longleftrightarrow> s = s' \<and> w = signal_value s' @ '': '' @ reason"
  "fire s' reason \<noteq> Quiet" "Quiet \<noteq> fire s' reason"
  "fire s' reason \<noteq> Unmeasured s" "Unmeasured s \<noteq> fire s' reason"
  by (auto simp: fire_def)

abbreviation measurements ::
    "(rat \<Rightarrow> string) \<Rightarrow> (rat \<Rightarrow> string) \<Rightarrow> uncertainty_thresholds \<Rightarrow> run_state \<Rightarrow> uncertainty_reading \<Rightarrow> measured list" where
  "measurements f f2 T rs r \<equiv> measure_ranking f f2 T rs @ measure_reading f f2 T r @ measure_attempts T rs"

lemma evaluate_fired: "s \<in> set (fired (evaluate f f2 T rs r)) \<longleftrightarrow> (\<exists>w. Fires s w \<in> set (measurements f f2 T rs r))"
proof -
  have "s \<in> set (concat (map (\<lambda>m. case m of Fires s _ \<Rightarrow> [s] | _ \<Rightarrow> []) ms)) \<longleftrightarrow> (\<exists>w. Fires s w \<in> set ms)" for ms
    by (induction ms) (auto split: measured.splits)
  then show ?thesis unfolding evaluate_def Let_def fired_signals.simps .
qed

lemma evaluate_unmeasured:
  "s \<in> set (unmeasured (evaluate f f2 T rs r)) \<longleftrightarrow> Unmeasured s \<in> set (measurements f f2 T rs r)"
proof -
  have "s \<in> set (concat (map (\<lambda>m. case m of Unmeasured s \<Rightarrow> [s] | _ \<Rightarrow> []) ms)) \<longleftrightarrow> Unmeasured s \<in> set ms" for ms
    by (induction ms) (auto split: measured.splits)
  then show ?thesis unfolding evaluate_def Let_def fired_signals.simps .
qed

lemma measure_ranking_fires:
  "(\<exists>w. Fires s w \<in> set (measure_ranking f f2 T rs)) \<longleftrightarrow>
     (\<exists>t rest. hypotheses rs = t # rest \<and>
        (s = TOP1_CONFIDENCE_LOW \<and> confidence t < top1_confidence_floor T
         \<or> s = TOP1_TOP2_MARGIN_NARROW \<and> rest \<noteq> [] \<and> confidence t - confidence (hd rest) < top1_top2_margin_floor T
         \<or> s = CONFIDENCE_LOW_AFTER_K_PROBES \<and> confidence t < confidence_floor_after_probes T
             \<and> probe_count_before_confidence_check T \<le> tool_calls_used (budget rs)))"
proof (cases "hypotheses rs")
  case (Cons t rest)
  then show ?thesis
    by (cases rest; cases s) (auto simp: measure_ranking_def Let_def ex_disj_distrib)
qed (auto simp: measure_ranking_def)

lemma measure_reading_fires:
  "(\<exists>w. Fires s w \<in> set (measure_reading f f2 T r)) \<longleftrightarrow>
     (s = SELECTOR_UNCERTAINTY_HIGH \<and> (\<exists>u. read_selector_uncertainty r = Some u \<and> selector_uncertainty_ceiling T < u)
      \<or> s = CANDIDATE_DISAGREEMENT_HIGH \<and> (\<exists>d. read_disagreement r = Some d \<and> candidate_disagreement_ceiling T < d)
      \<or> s = CONTRADICTORY_EVIDENCE \<and> (\<exists>n. read_contradictory r = Some n \<and> contradictory_evidence_count T \<le> n))"
  by (cases "read_selector_uncertainty r"; cases "read_disagreement r"; cases "read_contradictory r"; cases s)
    (auto simp: measure_reading_def ex_disj_distrib)

lemma measure_attempts_fires:
  "(\<exists>w. Fires s w \<in> set (measure_attempts T rs)) \<longleftrightarrow>
     s = REMEDIATION_ATTEMPT_FAILED \<and> failed_attempt_count T \<le> failed_attempts rs"
  by (auto simp: measure_attempts_def)

lemma fired_iff:
  "s \<in> set (fired (evaluate f f2 T rs r)) \<longleftrightarrow>
     (\<exists>w. Fires s w \<in> set (measure_ranking f f2 T rs)) \<or> (\<exists>w. Fires s w \<in> set (measure_reading f f2 T r))
     \<or> (\<exists>w. Fires s w \<in> set (measure_attempts T rs))"
  by (auto simp: evaluate_fired ex_disj_distrib)

lemmas fired_simps = fired_iff measure_ranking_fires measure_reading_fires measure_attempts_fires

text \<open>A signal nothing measured is never among the fired ones.\<close>

lemma unmeasured_not_fired:
  assumes "s \<in> set (unmeasured (evaluate f f2 T rs r))"
  shows "s \<notin> set (fired (evaluate f f2 T rs r))"
proof -
  from assms consider "Unmeasured s \<in> set (measure_ranking f f2 T rs)" | "Unmeasured s \<in> set (measure_reading f f2 T r)"
    by (auto simp: evaluate_unmeasured measure_attempts_def split: if_splits)
  then show ?thesis
  proof cases
    case 1
    then show ?thesis
      by (cases "hypotheses rs"; cases "tl (hypotheses rs)")
        (auto simp: fired_simps measure_ranking_def Let_def split: if_splits)
  next
    case 2
    then show ?thesis
      by (cases "read_selector_uncertainty r"; cases "read_disagreement r"; cases "read_contradictory r")
        (auto simp: fired_simps measure_reading_def split: if_splits)
  qed
qed

lemma candidate_disagreement_bounds: "0 \<le> candidate_disagreement c cs \<and> candidate_disagreement c cs < 1"
proof -
  let ?d = "filter (\<lambda>d. cand_category d \<noteq> cand_category (leader c cs)) (c # cs)"
  have "leader c cs \<in> set (c # cs)" unfolding leader_def by (rule py_max_in)
  then have "length ?d < length (c # cs)" by (rule length_filter_less) simp
  then have "(of_nat (length ?d) :: rat) < of_nat (length (c # cs))" by (simp only: of_nat_less_iff)
  then show ?thesis by (simp add: candidate_disagreement_def divide_less_eq)
qed

text \<open>The declared table: no row on the holdout, one row per threshold, a threshold per signal.\<close>

lemma declared_thresholds_lawful:
  "list_all (\<lambda>d. make_threshold_default (td_name d) (td_signal d) (td_value d) (td_split d) = Inr d) declared_thresholds"
  "distinct (map td_name declared_thresholds)"
  by (simp_all add: declared_thresholds_def make_threshold_default_def assert_tuning_split_allowed_def
      tunable_splits_def bind_result_def)

lemma signals_served_nonempty: "signals_served s \<noteq> []"
  by (cases s) (simp_all add: signals_served_def declared_thresholds_def)

end
