(* ===== verification/Adaptive_Arm.thy ===== *)
theory Adaptive_Arm
  imports Search_Arm Uncertainty
begin

text \<open>
  The ladder of \<^verbatim>\<open>strategies/adaptive.py\<close> and the registry that builds every arm from its knobs
  (\<^verbatim>\<open>strategies/registry.py\<close>, \<^verbatim>\<open>strategies/knobs.py\<close>). The rung records written for a trace
  are left out.
\<close>

subsection \<open>The ladder\<close>

definition ladder_n :: nat where "ladder_n = 4"

definition unclearable :: "escalation_signal list" where
  "unclearable = [REMEDIATION_ATTEMPT_FAILED]"

definition ladder_exhausted :: string where
  "ladder_exhausted = ''adaptive escalated: every rung of the ladder ran and the step is still uncertain''"

definition search_rung_unavailable :: string where
  "search_rung_unavailable =
     ''the search rung reads the world and runs in recorded mode only (ADR 0060); this run has no ''
     @ ''branch prober, so the ladder ends one rung short''"

fun join_semicolon :: "string list \<Rightarrow> string" where
  "join_semicolon [] = []"
| "join_semicolon [x] = x"
| "join_semicolon (x # xs) = x @ ''; '' @ join_semicolon xs"

definition escalated_step :: "investigation_step \<Rightarrow> fired_signals \<Rightarrow> investigation_step" where
  "escalated_step step s =
     \<lparr>ranked = ranked step,
      move = Stop (join_semicolon (ladder_exhausted # reasons s @ [search_rung_unavailable]))\<rparr>"

text \<open>The signals after one rung, against the arm's own thresholds.\<close>

definition rung_signals ::
    "'w arm_ports \<Rightarrow> uncertainty_thresholds \<Rightarrow> run_state \<Rightarrow> uncertainty_reading \<Rightarrow> fired_signals" where
  "rung_signals A T rs r = evaluate (str_float A) (str_fixed2 A) T rs r"

definition no_reading :: uncertainty_reading where
  "no_reading = \<lparr>read_selector_uncertainty = None, read_disagreement = None, read_contradictory = None\<rparr>"

text \<open>Rungs three and four, over the set rung two already paid for.\<close>

definition selector_rung ::
    "'w arm_ports \<Rightarrow> uncertainty_thresholds \<Rightarrow> 'w strategy
     \<Rightarrow> ('w \<Rightarrow> run_state \<Rightarrow> diagnosis_candidate list \<Rightarrow> llm_usage option option \<Rightarrow> 'w \<times> selection_result reply)
     \<Rightarrow> llm_usage option list \<Rightarrow> 'w \<Rightarrow> generation \<Rightarrow> datetime \<Rightarrow> offer \<Rightarrow> nat
     \<Rightarrow> 'w \<times> (planner_failure + run_state \<times> investigation_step)" where
  "selector_rung A T walk ask billed w g now what iter =
     (case select_candidate A ask w (gen_run g) (gen_candidates g) of
        (w1, Inl u) \<Rightarrow> (w1, Inl (arm_failed billed u))
      | (w1, Inr call) \<Rightarrow>
          (let s = call_output call;
               step = step_for_selection (str_float A) s (gen_candidates g) (move (proposed_step g));
               selected = (gen_run g)\<lparr>budget := accrue_structured_call (budget (gen_run g)) call (arm_model A),
                                      hypotheses := ranked step, updated_at := now\<rparr>;
               signals = rung_signals A T selected (reading_of (gen_candidates g) (Some (uncertainty s)))
           in if list_all (\<lambda>x. x \<in> set unclearable) (fired signals) then (w1, Inr (selected, step))
              else case branch_prober A of
                  None \<Rightarrow> (w1, Inr (selected, escalated_step step signals))
                | Some _ \<Rightarrow>
                    (case walk w1 selected now what iter of
                       (w2, Inl failure) \<Rightarrow> (w2, Inl (arm_failed (billed @ [billed_usage call]) (failure_bill failure)))
                     | (w2, Inr walked) \<Rightarrow> (w2, Inr walked))))"

definition adaptive :: "'w arm_ports \<Rightarrow> uncertainty_thresholds \<Rightarrow> 'w generator \<Rightarrow> 'w strategy \<Rightarrow> 'w strategy" where
  "adaptive A T gen walk w rs now what iter =
     (case ask_selector A of
        None \<Rightarrow> (w, Inl arm_refused)
      | Some ask \<Rightarrow>
          (case call_with_output_repair (step_client (ask_step A) rs what) w of
             (w1, Inl err) \<Rightarrow> (w1, Inl (planner_failure_of err))
           | (w1, Inr call) \<Rightarrow>
               (let step = call_output call;
                    planned = rs\<lparr>budget := accrue_structured_call (budget rs) call (arm_model A),
                                 hypotheses := ranked step, updated_at := now\<rparr>
                in if fired (rung_signals A T planned no_reading) = [] then (w1, Inr (planned, step))
                   else case gen w1 planned now what of
                       (w2, Inl failure) \<Rightarrow> (w2, Inl (arm_failed [billed_usage call] (failure_bill failure)))
                     | (w2, Inr g) \<Rightarrow>
                         if fired (rung_signals A T (gen_run g) (reading_of (gen_candidates g) None)) = []
                         then (w2, Inr (gen_run g, proposed_step g))
                         else selector_rung A T walk ask [billed_usage call, gen_billed g] w2 g now what iter)))"

subsection \<open>The registry\<close>

record strategy_knobs =
  knob_n :: int
  sample_temperature :: "rat option"
  selector_generator :: string
  search_depth :: int
  search_branch :: int
  knob_thresholds :: threshold_overrides

definition default_sample_temperature :: rat where "default_sample_temperature = 1"

definition strategy_names :: "string list" where
  "strategy_names =
     [''baseline'', ''best_of_n_enumerated'', ''best_of_n_sampled'', ''candidate_selector'', ''reflection'',
      ''search'', ''adaptive'']"

text \<open>\<open>isinstance(built, CandidateGenerator)\<close>: only the two best-of-N arms can be asked for a set.\<close>

datatype 'w arm = Fixed_arm "'w strategy" | Generating_arm "'w generator"

fun arm_strategy :: "'w arm \<Rightarrow> 'w strategy" where
  "arm_strategy (Fixed_arm s) = s"
| "arm_strategy (Generating_arm gen) = generator_alone gen"

definition as_generator :: "'w arm result \<Rightarrow> 'w generator result" where
  "as_generator built = bind_result built (\<lambda>a. case a of
      Generating_arm gen \<Rightarrow> Inr gen
    | Fixed_arm _ \<Rightarrow> Inl (ValueError ''cannot supply a candidate set''))"

text \<open>\<open>candidate_step_model(n)\<close> refuses an empty set when the arm is built.\<close>

definition build_enumerated :: "'w arm_ports \<Rightarrow> int \<Rightarrow> 'w arm result" where
  "build_enumerated A n =
     (if n < 1 then Inl (ValueError ''a candidate set holds at least one candidate'')
      else Inr (Generating_arm (enumerate_candidates A (nat n))))"

definition build_sampled :: "'w arm_ports \<Rightarrow> strategy_knobs \<Rightarrow> 'w arm result" where
  "build_sampled A K = Inr (Generating_arm (sample_candidates A (nat (knob_n K))
     (case sample_temperature K of None \<Rightarrow> default_sample_temperature | Some t \<Rightarrow> t)))"

text \<open>
  \<open>STRATEGIES.create\<close>. The composed arms call it again from their constructors, so the fuel is the
  interpreter's stack: \<open>RecursionError\<close> when it runs out.
\<close>

fun create_strategy :: "nat \<Rightarrow> 'w arm_ports \<Rightarrow> strategy_knobs \<Rightarrow> string \<Rightarrow> 'w arm result" where
  "create_strategy 0 A K name = Inl (Foreign ''RecursionError'')"
| "create_strategy (Suc stack) A K name =
     (if name = ''baseline'' then Inr (Fixed_arm (baseline (ask_step A) (arm_model A)))
      else if name = ''best_of_n_enumerated'' then build_enumerated A (knob_n K)
      else if name = ''best_of_n_sampled'' then build_sampled A K
      else if name = ''candidate_selector'' then
        bind_result (as_generator (create_strategy stack A K (selector_generator K)))
          (\<lambda>gen. Inr (Fixed_arm (candidate_selector A gen)))
      else if name = ''reflection'' then Inr (Fixed_arm (reflection A))
      else if name = ''search'' then
        bind_result (make_walk (nat (search_depth K)) (nat (search_branch K))) (\<lambda>_.
          bind_result (as_generator (create_strategy stack A (K\<lparr>knob_n := search_branch K\<rparr>) (selector_generator K)))
            (\<lambda>gen. Inr (Fixed_arm (search_step A gen (nat (search_depth K)) (nat (search_branch K))))))
      else if name = ''adaptive'' then
        bind_result (as_generator (create_strategy stack A (K\<lparr>knob_n := int ladder_n\<rparr>) ''best_of_n_enumerated''))
          (\<lambda>gen. bind_result (create_strategy stack A K ''search'')
            (\<lambda>walk. Inr (Fixed_arm (adaptive A (resolve (knob_thresholds K)) gen (arm_strategy walk)))))
      else Inl (ValueError (''unknown inference strategy '' @ name)))"

end
