(* ===== verification/Strategy_Facts.thy ===== *)
theory Strategy_Facts
  imports Adaptive_Arm Investigation_Facts
begin

text \<open>
  Every arm keeps the contract the investigation rests on: a generator is \<open>candidate_generator\<close>, the
  read a search branch makes is \<open>branch_reader\<close>, and each composed arm is an
  \<open>investigation_strategy\<close> by \<open>sublocale\<close>. The walk of the search arm stays within its caps and
  leaves the chosen path its reserve.
\<close>

subsection \<open>One charged call\<close>

text \<open>Every arm charges a call and takes over its ranking in the same update.\<close>

abbreviation charged_step ::
    "run_state \<Rightarrow> budget_ledger \<Rightarrow> hypothesis list \<Rightarrow> datetime \<Rightarrow> run_state" where
  "charged_step rs b hs now \<equiv> rs\<lparr>budget := b, hypotheses := hs, updated_at := now\<rparr>"

lemma grew_charged:
  assumes "grew rs rs'" and "budget_le (budget rs') b"
  shows "grew rs (charged_step rs' b hs now)" and "grew rs (rs'\<lparr>budget := b, updated_at := now\<rparr>)"
    and "grew rs (rs'\<lparr>budget := b\<rparr>)"
  using assms by (auto simp: grew_def budget_le_def)

lemma grew_budget_le: "grew rs rs' \<Longrightarrow> budget_le (budget rs) (budget rs')"
  by (auto simp: grew_def)

lemma accrue_calls_le:
  "budget_le b (foldl (\<lambda>b c. accrue_structured_call b c m) b cs)"
  "tool_calls_used (foldl (\<lambda>b c. accrue_structured_call b c m) b cs) = tool_calls_used b"
proof (induction cs arbitrary: b)
  case (Cons c cs)
  { case 1 from Cons.IH(1)[of "accrue_structured_call b c m"] show ?case
      by (auto intro: budget_le_trans[OF budget_le_accrue_call]) }
  { case 2 from Cons.IH(2) show ?case by simp }
qed simp_all

subsection \<open>Generators\<close>

locale candidate_generator =
  fixes gen :: "'w generator"
  assumes gen_grows: "gen w rs now what = (w', Inr g) \<Longrightarrow> grew rs (gen_run g)"
    and gen_state: "gen w rs now what = (w', Inr g) \<Longrightarrow> state (gen_run g) = state rs"
    and gen_ranking: "gen w rs now what = (w', Inr g) \<Longrightarrow>
      hypotheses (gen_run g) = ranked (proposed_step g) \<and> ranked (proposed_step g) \<noteq> []"
    and gen_reads: "gen w rs now what = (w', Inr g) \<Longrightarrow>
      tool_calls_used (budget (gen_run g)) = tool_calls_used (budget rs)"
    and gen_offered: "gen w rs now what = (w', Inr g) \<Longrightarrow>
      \<not> move_refused what (move (proposed_step g)) \<and> valid_move what (move (proposed_step g))"

sublocale candidate_generator \<subseteq> alone: narrowed_strategy "generator_alone gen"
  by unfold_locales
    (auto simp: generator_alone_def split: prod.splits sum.splits
      dest: gen_grows gen_state gen_ranking gen_offered)

lemma enumerate_candidates_InrD:
  assumes "enumerate_candidates A n w rs now what = (w', Inr g)"
  shows "grew rs (gen_run g)" and "state (gen_run g) = state rs"
    and "hypotheses (gen_run g) = ranked (proposed_step g)" and "ranked (proposed_step g) \<noteq> []"
    and "tool_calls_used (budget (gen_run g)) = tool_calls_used (budget rs)"
    and "\<exists>raw. candidate_step_schema n (length (evidence rs)) what raw = Parsed (gen_candidates g, move (proposed_step g))"
proof -
  from assms obtain call where c: "call_with_output_repair (role_client (candidate_step_schema n (length (evidence rs)) what)
        (\<lambda>w quoted. ask_candidates A w rs n what quoted)) w = (w', Inr call)"
    and g: "gen_run g = charged_step rs (accrue_structured_call (budget rs) call (arm_model A)) (ranked (proposed_step g)) now"
      "ranked (proposed_step g) = rank_by_confidence (map (enumerated_hypothesis (str_ref A)) (gen_candidates g))"
      "call_output call = (gen_candidates g, move (proposed_step g))"
    by (auto simp: enumerate_candidates_def Let_def prod_eq_iff split: prod.splits sum.splits)
  from role_call_InrD[OF c] g(3)
  show schema: "\<exists>raw. candidate_step_schema n (length (evidence rs)) what raw = Parsed (gen_candidates g, move (proposed_step g))"
    by simp
  then have "gen_candidates g \<noteq> []" by (auto dest: candidate_step_schema_Parsed(2))
  then have "set (ranked (proposed_step g)) \<noteq> {}" by (simp add: g(2) rank_by_confidence_def)
  then show "ranked (proposed_step g) \<noteq> []" by auto
  show "grew rs (gen_run g)" by (simp add: g(1) grew_charged)
  show "state (gen_run g) = state rs" "hypotheses (gen_run g) = ranked (proposed_step g)"
    "tool_calls_used (budget (gen_run g)) = tool_calls_used (budget rs)"
    by (simp_all add: g(1))
qed

interpretation enumerated: candidate_generator "enumerate_candidates A n"
  by unfold_locales
    (blast dest: enumerate_candidates_InrD candidate_step_schema_Parsed(7,8))+

text \<open>Each sample is an accepted step, and the best one is among them.\<close>

lemma draw_samples_InrD:
  assumes "draw_samples A temp n w rs what drawn = (w', Inr calls)"
    and "\<forall>c\<in>set drawn. \<exists>hs mv. step_schema what hs mv = Accepted (call_output c)"
  shows "length calls = length drawn + n"
    and "\<forall>c\<in>set calls. \<exists>hs mv. step_schema what hs mv = Accepted (call_output c)"
  using assms
proof (induction n arbitrary: w drawn)
  case (Suc n)
  { case 1
    then obtain w1 call where c: "call_with_output_repair (step_client (ask_sample A temp) rs what) w = (w1, Inr call)"
      and rest: "draw_samples A temp n w1 rs what (drawn @ [call]) = (w', Inr calls)"
      by (auto split: prod.splits sum.splits)
    from step_call_InrD[OF c] 1(2) show ?case by (subst Suc.IH(1)[OF rest]) auto }
  { case 2
    then obtain w1 call where c: "call_with_output_repair (step_client (ask_sample A temp) rs what) w = (w1, Inr call)"
      and rest: "draw_samples A temp n w1 rs what (drawn @ [call]) = (w', Inr calls)"
      by (auto split: prod.splits sum.splits)
    from step_call_InrD[OF c] 2(2) show ?case by (intro Suc.IH(2)[OF rest]) auto }
qed auto

lemma sample_candidates_InrD:
  assumes "sample_candidates A n temp w rs now what = (w', Inr g)"
  shows "grew rs (gen_run g)" and "state (gen_run g) = state rs"
    and "hypotheses (gen_run g) = ranked (proposed_step g)"
    and "tool_calls_used (budget (gen_run g)) = tool_calls_used (budget rs)"
    and "\<exists>hs mv. step_schema what hs mv = Accepted (proposed_step g)"
proof -
  from assms obtain c cs where d: "draw_samples A temp n w rs what [] = (w', Inr (c # cs))"
    and g: "gen_run g = charged_step rs (foldl (\<lambda>b c. accrue_structured_call b c (arm_model A)) (budget rs) (c # cs))
        (ranked (proposed_step g)) now"
      "proposed_step g = call_output (py_max (\<lambda>c. confidence (top_of c)) c cs)"
    by (auto simp: sample_candidates_def Let_def split: prod.splits sum.splits list.splits)
  have "\<forall>c\<in>set (c # cs). \<exists>hs mv. step_schema what hs mv = Accepted (call_output c)"
    by (rule draw_samples_InrD(2)[OF d]) simp
  with py_max_in[of "\<lambda>c. confidence (top_of c)" c cs]
  show "\<exists>hs mv. step_schema what hs mv = Accepted (proposed_step g)" unfolding g(2) by blast
  show "grew rs (gen_run g)" unfolding g(1) by (intro grew_charged accrue_calls_le) simp
  show "state (gen_run g) = state rs" "hypotheses (gen_run g) = ranked (proposed_step g)"
    by (simp_all add: g(1))
  show "tool_calls_used (budget (gen_run g)) = tool_calls_used (budget rs)"
    by (simp add: g(1) accrue_calls_le(2))
qed

interpretation sampled: candidate_generator "sample_candidates A n temp"
  by unfold_locales
    (blast dest: sample_candidates_InrD step_schema_Accepted(1) step_schema_offered)+

subsection \<open>Selecting and reflecting\<close>

locale selecting_arm = candidate_generator gen for gen :: "'w generator" +
  fixes A :: "'w arm_ports"

sublocale selecting_arm \<subseteq> selecting: investigation_strategy "candidate_selector A gen"
proof unfold_locales
  fix w rs now what n w' rs' step
  assume "candidate_selector A gen w rs now what n = (w', Inr (rs', step))"
  then obtain w1 g call where g: "gen w rs now what = (w1, Inr g)"
    and step: "step = step_for_selection (str_float A) (call_output call) (gen_candidates g) (move (proposed_step g))"
    and rs': "rs' = charged_step (gen_run g) (accrue_structured_call (budget (gen_run g)) call (arm_model A)) (ranked step) now"
    by (auto simp: candidate_selector_def Let_def split: option.splits prod.splits sum.splits)
  show "grew rs rs'" unfolding rs' by (rule grew_charged(1)[OF gen_grows[OF g]]) simp
  show "state rs' = state rs" "hypotheses rs' = ranked step \<and> ranked step \<noteq> []"
    by (simp_all add: rs' gen_state[OF g] step)
qed

lemma reflection_InrD:
  assumes "reflection A w rs now what n = (w', Inr (rs', step))"
  shows "grew rs rs'" and "state rs' = state rs" and "hypotheses rs' = ranked step"
    and "\<exists>hs mv. step_schema what hs mv = Accepted step"
proof -
  from assms obtain w1 planner w2 critique where
    p: "call_with_output_repair (step_client (ask_step A) rs what) w = (w1, Inr planner)"
    and cases: "step = call_output planner \<and> rs' = rs\<lparr>hypotheses := ranked step,
          budget := accrue_structured_call (accrue_structured_call (budget rs) planner (arm_model A))
            (critique :: step_critique repaired_call) (arm_model A), updated_at := now\<rparr>
      \<or> (\<exists>revision. call_with_output_repair (step_client (\<lambda>w rs what quoted.
             ask_revision A w rs (call_output planner) (call_output critique) what quoted) rs what) w2 = (w', Inr revision)
          \<and> step = call_output revision
          \<and> rs' = charged_step rs (accrue_structured_call (accrue_structured_call
              (accrue_structured_call (budget rs) planner (arm_model A)) critique (arm_model A)) revision (arm_model A))
              (ranked step) now)"
    by (auto simp: reflection_def Let_def split: option.splits prod.splits sum.splits if_splits)
  have le: "budget_le b (accrue_structured_call (accrue_structured_call b planner m) critique m)" for b m
    by (rule budget_le_trans[OF budget_le_accrue_call budget_le_accrue_call])
  then have le3: "budget_le b (accrue_structured_call (accrue_structured_call (accrue_structured_call b planner m) critique m) r m)"
    for b m and r :: "investigation_step repaired_call"
    by (rule budget_le_trans[OF _ budget_le_accrue_call])
  from cases show "grew rs rs'" by (auto simp: grew_def le le3)
  from cases show "state rs' = state rs" "hypotheses rs' = ranked step" by auto
  from cases show "\<exists>hs mv. step_schema what hs mv = Accepted step"
    by (auto intro: step_call_InrD[OF p] dest: step_call_InrD)
qed

interpretation reflecting: narrowed_strategy "reflection A"
  by unfold_locales (blast dest: reflection_InrD step_schema_Accepted(1) step_schema_offered)+

subsection \<open>The walk of a search step\<close>

text \<open>
  What a search branch may read through: the run grows by that read alone, and its one tool call is
  charged unless the read was refused.
\<close>

locale branch_reader =
  fixes prober :: "'w \<Rightarrow> run_state \<Rightarrow> string \<Rightarrow> dict \<Rightarrow> 'w \<times> (run_state \<times> summary option) result"
  assumes read_grows: "prober w rs tool raw = (w', Inr (rs', refused)) \<Longrightarrow> grew rs rs'"
    and read_state: "prober w rs tool raw = (w', Inr (rs', refused)) \<Longrightarrow> state rs' = state rs"
    and read_charge: "prober w rs tool raw = (w', Inr (rs', refused)) \<Longrightarrow>
      tool_calls_used (budget rs') = tool_calls_used (budget rs) + (if refused = None then branch_probe_tool_calls else 0)"

interpretation platform_reads: branch_reader "branch_probe P"
proof unfold_locales
  fix w :: 'a and rs tool raw w' rs' refused
  assume r: "branch_probe P w rs tool raw = (w', Inr (rs', refused))"
  show "grew rs rs'" "state rs' = state rs" by (rule branch_probe_grows[OF r])+
  show "tool_calls_used (budget rs') = tool_calls_used (budget rs) + (if refused = None then branch_probe_tool_calls else 0)"
    using r by (auto simp: branch_probe_def branch_probe_tool_calls_def
        split: if_splits sum.splits option.splits prod.splits mcp_reply.splits)
qed

text \<open>What a walk spends from one point to the next, at most \<open>k\<close> branches on.\<close>

definition walk_le :: "nat \<Rightarrow> walk_state \<Rightarrow> walk_state \<Rightarrow> bool" where
  "walk_le k st st' =
     (budget_le (walk_ledger st) (walk_ledger st')
      \<and> branches_taken st \<le> branches_taken st' \<and> branches_taken st' \<le> branches_taken st + k
      \<and> tool_calls_used (walk_ledger st') = tool_calls_used (walk_ledger st)
          + int (branches_taken st' - branches_taken st) * branch_probe_tool_calls
      \<and> (branches_taken st' = branches_taken st
          \<or> tool_calls_used (walk_ledger st') + chosen_path_tool_reserve \<le> max_tool_calls (walk_ledger st)))"

lemma walk_le_same:
  "budget_le (walk_ledger st) (walk_ledger st') \<Longrightarrow> branches_taken st' = branches_taken st
   \<Longrightarrow> tool_calls_used (walk_ledger st') = tool_calls_used (walk_ledger st) \<Longrightarrow> walk_le k st st'"
  by (simp add: walk_le_def)

lemma walk_le_refl [simp, intro]: "walk_le k st st"
  by (simp add: walk_le_same)

lemma walk_le_trans:
  assumes "walk_le j a b" and "walk_le k b c" and "j + k \<le> n"
  shows "walk_le n a c"
  using assms budget_le_trans[of "walk_ledger a" "walk_ledger b" "walk_ledger c"]
  by (auto simp: walk_le_def budget_le_def branch_probe_tool_calls_def)

text \<open>A path stands on the walk's shared ledger.\<close>

definition path_ok :: "run_state \<Rightarrow> walk_state \<Rightarrow> search_path \<Rightarrow> bool" where
  "path_ok rs st p =
     (grew rs (with_ledger (path_run p) (walk_ledger st)) \<and> state (path_run p) = state rs
      \<and> ranked (path_step p) \<noteq> [])"

lemma path_ok_later: "path_ok rs st p \<Longrightarrow> walk_le k st st' \<Longrightarrow> path_ok rs st' p"
  by (auto simp: path_ok_def walk_le_def with_ledger_def grew_def budget_le_def)

lemma scored_InrD:
  assumes "scored A ask now (w, st) rs depth cs mv from spent = ((w', st'), Inr p)"
  shows "walk_le 0 st st'" and "grew r (with_ledger rs (walk_ledger st)) \<Longrightarrow> state rs = state r \<Longrightarrow> path_ok r st' p"
    and "path_depth p = depth"
proof -
  from assms obtain call where st': "st' = charge_walk st (accrue_structured_call (walk_ledger st) call (arm_model A)) (billed_usage call)"
    and p: "path_run p = rs\<lparr>budget := accrue_structured_call (walk_ledger st) call (arm_model A), updated_at := now\<rparr>"
      "path_step p = step_for_selection (str_float A) (call_output call) cs mv" "path_depth p = depth"
    by (auto simp: scored_def Let_def with_ledger_def split: prod.splits sum.splits)
  show "walk_le 0 st st'" by (simp add: st' charge_walk_def walk_le_same)
  show "path_depth p = depth" by (fact p(3))
  assume "grew r (with_ledger rs (walk_ledger st))" "state rs = state r"
  then show "path_ok r st' p"
    using budget_le_accrue_call[of "walk_ledger st" call "arm_model A"]
    by (auto simp: path_ok_def p st' charge_walk_def with_ledger_def grew_def budget_le_def)
qed

lemma room_for_a_branch_None:
  "room_for_a_branch b reserve = None \<Longrightarrow>
     tool_calls_used b + branch_probe_tool_calls + chosen_path_tool_reserve \<le> max_tool_calls b"
  by (simp add: room_for_a_branch_def split: if_splits)

lemma spend_branch_InrD:
  "spend_branch a = Inr a' \<Longrightarrow> branches_allowed a' = branches_allowed a \<and> branches_spent a' = branches_spent a + 1
     \<and> branches_spent a < branches_allowed a"
  by (auto simp: spend_branch_def split: if_splits)

locale searching_arm = selecting_arm gen A + branch_reader prober
  for gen :: "'w generator" and A :: "'w arm_ports"
    and prober :: "'w \<Rightarrow> run_state \<Rightarrow> string \<Rightarrow> dict \<Rightarrow> 'w \<times> (run_state \<times> summary option) result" +
  assumes arm_prober: "branch_prober A = None \<or> branch_prober A = Some prober"
begin

lemma walk_generate_InrD:
  assumes "walk_generate gen now what (w, st) rs = ((w', st'), Inr g)"
  shows "walk_le 0 st st'" and "grew (with_ledger rs (walk_ledger st)) (with_ledger (gen_run g) (walk_ledger st'))"
    and "state (gen_run g) = state rs"
proof -
  from assms have g: "gen w (with_ledger rs (walk_ledger st)) now what = (w', Inr g)"
    and st': "st' = charge_walk st (budget (gen_run g)) (gen_billed g)"
    by (auto simp: walk_generate_def split: prod.splits sum.splits)
  have ledger: "walk_ledger st' = budget (gen_run g)" by (simp add: st' charge_walk_def)
  then show grown: "grew (with_ledger rs (walk_ledger st)) (with_ledger (gen_run g) (walk_ledger st'))"
    using gen_grows[OF g] by (simp add: with_ledger_def)
  show "state (gen_run g) = state rs" using gen_state[OF g] by (simp add: with_ledger_def)
  from grew_budget_le[OF grown] have "budget_le (walk_ledger st) (walk_ledger st')" by (simp add: with_ledger_def)
  then show "walk_le 0 st st'"
    using gen_reads[OF g] by (intro walk_le_same) (simp_all add: ledger, simp_all add: st' charge_walk_def with_ledger_def)
qed

text \<open>One branch: its read, then its selector call.\<close>

lemma branch_InrD:
  assumes parent: "path_ok r st parent" and room: "room_for_a_branch (walk_ledger st) (token_reserve st) = None"
    and read: "prober w (with_ledger (path_run parent) (walk_ledger st)) tool args = (w1, Inr (rs1, None))"
    and sc: "scored A ask now (w1, st\<lparr>walk_ledger := budget rs1, branches_taken := branches_taken st + 1\<rparr>) rs1 d cs mv from spent
      = ((w2, st2), Inr child)"
  shows "walk_le 1 st st2" and "path_ok r st2 child"
proof -
  let ?st1 = "st\<lparr>walk_ledger := budget rs1, branches_taken := branches_taken st + 1\<rparr>"
  from parent read_grows[OF read] have g: "grew r rs1" "state rs1 = state r"
    using read_state[OF read] by (auto simp: path_ok_def with_ledger_def intro: grew_trans)
  have "budget_le (walk_ledger st) (budget rs1)" using grew_budget_le[OF read_grows[OF read]] by (simp add: with_ledger_def)
  then have "walk_le 1 st ?st1"
    using read_charge[OF read] room_for_a_branch_None[OF room]
    by (simp add: walk_le_def with_ledger_def budget_le_def branch_probe_tool_calls_def)
  with scored_InrD(1)[OF sc] show "walk_le 1 st st2" by (auto elim: walk_le_trans)
  show "path_ok r st2 child"
    by (rule scored_InrD(2)[OF sc]) (simp_all add: g with_ledger_def)
qed

text \<open>What the walk does with one candidate: stop, pass over it, have its read refused, or take it.\<close>

lemma branch_out_ConsE:
  assumes "branch_out A ask prober now parent allowance taken children (w, st) (c # cs) = ((w', st'), Inr out)"
  obtains (stops) "walk_ledger st' = walk_ledger st" "branches_taken st' = branches_taken st" "out = children"
  | (skipped) st1 where "walk_ledger st1 = walk_ledger st" "branches_taken st1 = branches_taken st"
      "branch_out A ask prober now parent allowance taken children (w, st1) cs = ((w', st'), Inr out)"
  | (refused) al1 w1 rs1 why tool args seen where "spend_branch allowance = Inr al1"
      "prober w (with_ledger (path_run parent) (walk_ledger st)) tool args = (w1, Inr (rs1, Some why))"
      "branch_out A ask prober now parent al1 seen children
        (w1, st\<lparr>walk_ledger := budget rs1, branches_refused := branches_refused st + 1\<rparr>) cs = ((w', st'), Inr out)"
  | (opened) al1 w1 rs1 w2 st2 child tool args seen where "spend_branch allowance = Inr al1"
      "room_for_a_branch (walk_ledger st) (token_reserve st) = None"
      "prober w (with_ledger (path_run parent) (walk_ledger st)) tool args = (w1, Inr (rs1, None))"
      "scored A ask now (w1, st\<lparr>walk_ledger := budget rs1, branches_taken := branches_taken st + 1\<rparr>) rs1
        (path_depth parent + 1) (path_candidates parent) (committed_action parent) (walk_ledger st) (path_cost parent)
        = ((w2, st2), Inr child)"
      "branch_out A ask prober now parent al1 seen (children @ [child]) (w2, st2) cs = ((w', st'), Inr out)"
  using assms that(2)[of "st\<lparr>branches_refused := branches_refused st + 1\<rparr>"]
  by (auto simp: Let_def split: if_splits option.splits sum.splits prod.splits)

lemma branch_out_InrD:
  assumes "branch_out A ask prober now parent allowance taken children (w, st) cs = ((w', st'), Inr out)"
    and "path_ok r st parent" and "\<forall>c\<in>set children. path_ok r st c"
  shows "walk_le (branches_allowed allowance - branches_spent allowance) st st' \<and> (\<forall>c\<in>set out. path_ok r st' c)"
  using assms
proof (induction cs arbitrary: allowance taken children w st)
  case (Cons c cs)
  note here = Cons.prems(2,3)
  have later: "walk_le n st st1 \<Longrightarrow> path_ok r st1 parent \<and> (\<forall>c\<in>set children. path_ok r st1 c)" for n st1
    using here path_ok_later by blast
  from Cons.prems(1) show ?case
  proof (cases rule: branch_out_ConsE)
    case stops
    then have "walk_le 0 st st'" by (simp add: walk_le_same)
    with stops later show ?thesis by (auto elim: walk_le_trans)
  next
    case (skipped st1)
    then have "walk_le 0 st st1" by (simp add: walk_le_same)
    with Cons.IH[OF skipped(3)] later show ?thesis by (auto elim: walk_le_trans)
  next
    case (refused al1 w1 rs1 why tool args seen)
    let ?st1 = "st\<lparr>walk_ledger := budget rs1, branches_refused := branches_refused st + 1\<rparr>"
    have "budget_le (walk_ledger st) (budget rs1)"
      using grew_budget_le[OF read_grows[OF refused(2)]] by (simp add: with_ledger_def)
    then have "walk_le 0 st ?st1"
      using read_charge[OF refused(2)] by (intro walk_le_same) (simp_all add: with_ledger_def)
    with Cons.IH[OF refused(3)] later spend_branch_InrD[OF refused(1)] show ?thesis
      by (auto elim: walk_le_trans)
  next
    case (opened al1 w1 rs1 w2 st2 child tool args seen)
    note child = branch_InrD[OF here(1) opened(2,3,4)]
    from Cons.IH[OF opened(5)] later[OF child(1)] child(2)
    have "walk_le (branches_allowed al1 - branches_spent al1) st2 st' \<and> (\<forall>c\<in>set out. path_ok r st' c)" by auto
    with child(1) spend_branch_InrD[OF opened(1)] show ?thesis by (auto elim: walk_le_trans)
  qed
qed auto

text \<open>The levels below: at most one allowance of branches each.\<close>

lemma best_of_in: "best_of p ps \<in> set (p # ps)"
  unfolding best_of_def by (rule py_max_in)

lemma walk_levels_InrD:
  assumes "walk_levels A gen ask prober now what levels walk (w, st) best frontier = ((w', st'), Inr p)"
    and "path_ok r st best" and "path_ok r st frontier"
  shows "walk_le (levels * branch_allowed walk) st st' \<and> path_ok r st' p"
  using assms
proof (induction levels arbitrary: walk w st best frontier)
  case (Suc levels)
  from Suc.prems(1) obtain walk1 w1 st1 out where d: "descend walk = Inr walk1"
    and b: "branch_out A ask prober now frontier (branches walk1) [] [] (w, st) (path_candidates frontier) = ((w1, st1), Inr out)"
    by (auto split: sum.splits prod.splits)
  from d have same: "branch_allowed walk1 = branch_allowed walk" by (auto simp: descend_def split: if_splits)
  from branch_out_InrD[OF b Suc.prems(3)] have le1: "walk_le (branch_allowed walk) st st1"
    and ok1: "\<forall>c\<in>set out. path_ok r st1 c" by (auto simp: branches_def same)
  have best1: "path_ok r st1 best" by (rule path_ok_later[OF Suc.prems(2) le1])
  show ?case
  proof (cases out)
    case Nil
    with Suc.prems(1) d b have "st' = st1" "p = best" by auto
    with le1 best1 show ?thesis by (auto elim: walk_le_trans)
  next
    case (Cons c cs)
    let ?f = "best_of c cs" and ?b = "best_of best [best_of c cs]"
    from ok1 Cons best_of_in[of c cs] have f: "path_ok r st1 ?f" by auto
    with best1 best_of_in[of best "[?f]"] have b': "path_ok r st1 ?b" by auto
    show ?thesis
    proof (cases "levels = 0 \<or> room_for_a_branch (walk_ledger st1) (token_reserve st1) \<noteq> None")
      case True
      with Suc.prems(1) d b Cons have "p = ?b" "walk_ledger st' = walk_ledger st1" "branches_taken st' = branches_taken st1"
        by (auto simp: Let_def regrow_def split: if_splits)
      moreover from this have "walk_le 0 st1 st'" by (simp add: walk_le_same)
      ultimately show ?thesis using le1 b' path_ok_later by (auto elim: walk_le_trans)
    next
      case False
      with Suc.prems(1) d b Cons obtain w2 st2 g where g: "walk_generate gen now what (w1, st1) (path_run ?f) = ((w2, st2), Inr g)"
        and rest: "walk_levels A gen ask prober now what levels walk1 (w2, st2) ?b
          (?f\<lparr>path_run := gen_run g, path_candidates := gen_candidates g, committed_action := move (proposed_step g)\<rparr>)
          = ((w', st'), Inr p)"
        by (auto simp: Let_def regrow_def split: if_splits prod.splits sum.splits)
      have "path_ok r st2 (?f\<lparr>path_run := gen_run g, path_candidates := gen_candidates g,
          committed_action := move (proposed_step g)\<rparr>)"
        using f walk_generate_InrD(2,3)[OF g] by (auto simp: path_ok_def intro: grew_trans)
      from Suc.IH[OF rest path_ok_later[OF b' walk_generate_InrD(1)[OF g]] this]
      have le2: "walk_le (levels * branch_allowed walk) st2 st'" and p: "path_ok r st' p" by (simp_all add: same)
      from walk_le_trans[OF le1 walk_generate_InrD(1)[OF g] order_refl] le2 p
      show ?thesis by (auto elim: walk_le_trans)
    qed
  qed
qed auto

text \<open>The whole step.\<close>

lemma search_step_InrD:
  assumes "search_step A gen depth branch w rs now what n = (w', Inr (rs', step))"
  shows "grew rs rs'" and "state rs' = state rs" and "hypotheses rs' = ranked step" and "ranked step \<noteq> []"
    and "tool_calls_used (budget rs') \<le> tool_calls_used (budget rs) + int (depth * branch) * branch_probe_tool_calls"
    and "tool_calls_used (budget rs') = tool_calls_used (budget rs)
      \<or> tool_calls_used (budget rs') + chosen_path_tool_reserve \<le> max_tool_calls (budget rs)"
    and "depth \<le> max_search_depth" and "branch \<le> max_branch_factor"
proof -
  let ?st = "\<lparr>walk_ledger = budget rs, token_reserve = 0, walk_billed = [], branches_taken = 0,
     branches_refused = 0, pruned_by_ledger = 0\<rparr>"
  from assms arm_prober obtain ask walk w1 st1 g w2 st2 root_path st3 best where
    mk: "make_walk depth branch = Inr walk"
    and g: "walk_generate gen now what (w, ?st) rs = ((w1, st1), Inr g)"
    and sc: "scored A ask now (w1, st1) (gen_run g) 0 (gen_candidates g) (move (proposed_step g)) (budget rs) no_cost
        = ((w2, st2), Inr root_path)"
    and lv: "walk_levels A gen ask prober now what (depth_allowed walk) walk (w2, st2) root_path root_path = ((w', st3), Inr best)"
    and rs': "rs' = (path_run best)\<lparr>budget := walk_ledger st3, hypotheses := ranked step, updated_at := now\<rparr>"
    and step: "step = path_step best"
    by (auto simp: search_step_def Let_def split: option.splits sum.splits prod.splits)
  from mk have walk: "depth_allowed walk = depth" "branch_allowed walk = branch"
    and caps: "depth \<le> max_search_depth" "branch \<le> max_branch_factor"
    by (auto simp: make_walk_def split: if_splits)
  show "depth \<le> max_search_depth" "branch \<le> max_branch_factor" by (fact caps)+
  have gen: "grew rs (with_ledger (gen_run g) (walk_ledger st1))" "state (gen_run g) = state rs"
    using walk_generate_InrD(2,3)[OF g] by (simp_all add: with_ledger_def)
  have "path_ok rs st2 root_path" by (rule scored_InrD(2)[OF sc gen])
  from walk_levels_InrD[OF lv this this] have le: "walk_le (depth * branch) st2 st3" and best: "path_ok rs st3 best"
    by (simp_all add: walk)
  have "walk_le (depth * branch) ?st st3"
    using walk_le_trans[OF walk_generate_InrD(1)[OF g] scored_InrD(1)[OF sc] order_refl] le
    by (auto elim: walk_le_trans)
  then show "tool_calls_used (budget rs') \<le> tool_calls_used (budget rs) + int (depth * branch) * branch_probe_tool_calls"
    "tool_calls_used (budget rs') = tool_calls_used (budget rs)
      \<or> tool_calls_used (budget rs') + chosen_path_tool_reserve \<le> max_tool_calls (budget rs)"
    by (auto simp: walk_le_def rs' branch_probe_tool_calls_def simp del: of_nat_mult)
  from best have "grew rs ((path_run best)\<lparr>budget := walk_ledger st3\<rparr>)" by (simp add: path_ok_def with_ledger_def)
  from grew_charged(1)[OF this, where b = "walk_ledger st3" and hs = "ranked step" and now = now]
  show "grew rs rs'" by (simp add: rs')
  from best show "state rs' = state rs" "ranked step \<noteq> []" "hypotheses rs' = ranked step"
    by (simp_all add: path_ok_def rs' step)
qed

end

sublocale searching_arm \<subseteq> searching: investigation_strategy "search_step A gen depth branch"
  by unfold_locales (blast dest: search_step_InrD)+

subsection \<open>The ladder\<close>

locale laddering_arm = candidate_generator gen + walking: investigation_strategy walk
  for gen :: "'w generator" and walk :: "'w strategy" +
  fixes A :: "'w arm_ports"
begin

lemma selector_rung_InrD:
  assumes "selector_rung A T walk ask billed w g now what n = (w', Inr (rs', step))"
  shows "grew (gen_run g) rs'" and "state rs' = state (gen_run g)" and "hypotheses rs' = ranked step \<and> ranked step \<noteq> []"
proof -
  from assms obtain w1 call where c: "select_candidate A ask w (gen_run g) (gen_candidates g) = (w1, Inr call)"
    by (auto simp: selector_rung_def split: prod.splits sum.splits)
  define sel_step where
    "sel_step = step_for_selection (str_float A) (call_output call) (gen_candidates g) (move (proposed_step g))"
  then have ne: "ranked sel_step \<noteq> []" by simp
  from assms c have cases: "rs' = charged_step (gen_run g) (accrue_structured_call (budget (gen_run g)) call
        (arm_model A)) (ranked sel_step) now \<and> ranked step = ranked sel_step
      \<or> walk w1 (charged_step (gen_run g) (accrue_structured_call (budget (gen_run g)) call (arm_model A)) (ranked sel_step) now)
          now what n = (w', Inr (rs', step))"
    by (auto simp: selector_rung_def Let_def escalated_step_def sel_step_def [symmetric]
        split: prod.splits sum.splits if_splits option.splits)
  have sel: "grew (gen_run g) (charged_step (gen_run g) (accrue_structured_call (budget (gen_run g)) call (arm_model A)) (ranked sel_step) now)"
    by (rule grew_charged(1)) auto
  from cases sel show "grew (gen_run g) rs'" by (auto dest: walking.plan_grows intro: grew_trans)
  from cases show "state rs' = state (gen_run g)" by (auto dest: walking.plan_state)
  from cases ne show "hypotheses rs' = ranked step \<and> ranked step \<noteq> []" by (auto dest: walking.plan_ranking)
qed

lemma adaptive_InrD:
  assumes "adaptive A T gen walk w rs now what n = (w', Inr (rs', step))"
  shows "grew rs rs'" and "state rs' = state rs" and "hypotheses rs' = ranked step \<and> ranked step \<noteq> []"
proof -
  from assms obtain ask w1 call where ask: "ask_selector A = Some ask"
    and c: "call_with_output_repair (step_client (ask_step A) rs what) w = (w1, Inr call)"
    by (auto simp: adaptive_def split: option.splits prod.splits sum.splits)
  define planned where
    "planned = charged_step rs (accrue_structured_call (budget rs) call (arm_model A)) (ranked (call_output call)) now"
  have planned: "grew rs planned" unfolding planned_def by (rule grew_charged(1)) auto
  have p: "state planned = state rs" "hypotheses planned = ranked (call_output call)" by (simp_all add: planned_def)
  from step_call_InrD[OF c] have ne: "ranked (call_output call) \<noteq> []" by (auto dest: step_schema_Accepted(1))
  from assms have "(if fired (rung_signals A T planned no_reading) = [] then (w1, Inr (planned, call_output call))
      else case gen w1 planned now what of
          (w2, Inl failure) \<Rightarrow> (w2, Inl (arm_failed [billed_usage call] (failure_bill failure)))
        | (w2, Inr g) \<Rightarrow>
            if fired (rung_signals A T (gen_run g) (reading_of (gen_candidates g) None)) = []
            then (w2, Inr (gen_run g, proposed_step g))
            else selector_rung A T walk ask [billed_usage call, gen_billed g] w2 g now what n) = (w', Inr (rs', step))"
    unfolding adaptive_def ask option.case c prod.case sum.case Let_def planned_def [symmetric] .
  then consider "rs' = planned" "step = call_output call"
    | w2 g where "gen w1 planned now what = (w2, Inr g)" "rs' = gen_run g" "step = proposed_step g"
    | w2 g where "gen w1 planned now what = (w2, Inr g)"
        "selector_rung A T walk ask [billed_usage call, gen_billed g] w2 g now what n = (w', Inr (rs', step))"
    by (auto split: sum.splits prod.splits if_splits)
  then have "grew rs rs' \<and> state rs' = state rs \<and> hypotheses rs' = ranked step \<and> ranked step \<noteq> []"
  proof cases
    case 1
    with planned p ne show ?thesis by simp
  next
    case (2 w2 g)
    with grew_trans[OF planned gen_grows[OF 2(1)]] gen_state[OF 2(1)] p(1) gen_ranking[OF 2(1)] show ?thesis by simp
  next
    case (3 w2 g)
    from grew_trans[OF planned gen_grows[OF 3(1)]] gen_state[OF 3(1)] p(1) selector_rung_InrD[OF 3(2)]
    show ?thesis by (auto intro: grew_trans)
  qed
  then show "grew rs rs'" "state rs' = state rs" "hypotheses rs' = ranked step \<and> ranked step \<noteq> []" by blast+
qed

end

sublocale laddering_arm \<subseteq> laddering: investigation_strategy "adaptive A T gen walk"
  by unfold_locales (blast dest: adaptive_InrD)+

subsection \<open>What the registry builds\<close>

text \<open>The composed arms as closed facts, for the arms built at run time.\<close>

context candidate_generator
begin

lemma generating_strategy: "narrowed_strategy (generator_alone gen)"
  by unfold_locales

end

context selecting_arm
begin

lemma selecting_strategy: "investigation_strategy (candidate_selector A gen)"
  by unfold_locales

end

context searching_arm
begin

lemma searching_strategy: "investigation_strategy (search_step A gen depth branch)"
  by unfold_locales

end

context laddering_arm
begin

lemma laddering_strategy: "investigation_strategy (adaptive A T gen walk)"
  by unfold_locales

end

lemma as_generator_InrD: "as_generator built = Inr gen \<Longrightarrow> built = Inr (Generating_arm gen)"
  by (cases built) (auto simp: as_generator_def split: arm.splits)

lemma create_generating:
  assumes "create_strategy stack A K name = Inr (Generating_arm gen)"
  shows "candidate_generator gen" and "name \<in> {''best_of_n_enumerated'', ''best_of_n_sampled''}"
proof (atomize (full), cases stack)
  case (Suc m)
  with assms show "candidate_generator gen \<and> name \<in> {''best_of_n_enumerated'', ''best_of_n_sampled''}"
    using enumerated.candidate_generator_axioms sampled.candidate_generator_axioms
    by (auto simp: build_enumerated_def build_sampled_def bind_result_Inr_iff split: if_splits)
qed (use assms in simp)

lemmas built_generator = create_generating(1)[OF as_generator_InrD]

lemma built_search:
  assumes "create_strategy stack A K ''search'' = Inr a" and "branch_prober A = None \<or> branch_prober A = Some prober"
    and "branch_reader prober"
  shows "investigation_strategy (arm_strategy a)"
proof (cases stack)
  case (Suc m)
  with assms(1) obtain K' gen where gen: "as_generator (create_strategy m A K' (selector_generator K)) = Inr gen"
    and a: "a = Fixed_arm (search_step A gen (nat (search_depth K)) (nat (search_branch K)))"
    by (auto simp: bind_result_Inr_iff split: if_splits)
  have "searching_arm gen A prober"
    by (intro searching_arm.intro selecting_arm.intro searching_arm_axioms.intro built_generator[OF gen] assms)
  then show ?thesis unfolding a arm_strategy.simps by (rule searching_arm.searching_strategy)
qed (use assms in simp)

lemma built_arm_is_a_strategy:
  assumes "create_strategy stack A K name = Inr a" and "branch_prober A = None \<or> branch_prober A = Some prober"
    and "branch_reader prober"
  shows "investigation_strategy (arm_strategy a)"
proof (cases a)
  case (Generating_arm gen)
  with assms(1) have "candidate_generator gen" by (auto dest: create_generating(1))
  then show ?thesis unfolding Generating_arm arm_strategy.simps
    by (rule narrowed_strategy.axioms(1)[OF candidate_generator.generating_strategy])
next
  case (Fixed_arm s)
  from assms(1) obtain m where m: "stack = Suc m" by (cases stack) auto
  with assms(1) Fixed_arm consider "s = baseline (ask_step A) (arm_model A)"
    | gen where "as_generator (create_strategy m A K (selector_generator K)) = Inr gen" "s = candidate_selector A gen"
    | "s = reflection A" | "name = ''search''"
    | gen walk K' where "as_generator (create_strategy m A K' ''best_of_n_enumerated'') = Inr gen"
        "create_strategy m A K ''search'' = Inr walk" "s = adaptive A (resolve (knob_thresholds K)) gen (arm_strategy walk)"
    by (auto simp: bind_result_Inr_iff build_enumerated_def build_sampled_def split: if_splits)
  then have "investigation_strategy s"
  proof cases
    case 1
    then show ?thesis using baseline_arm.investigation_strategy_axioms by simp
  next
    case (2 gen)
    then show ?thesis using selecting_arm.selecting_strategy[OF selecting_arm.intro[OF built_generator[OF 2(1)]]] by simp
  next
    case 3
    then show ?thesis using reflecting.investigation_strategy_axioms by simp
  next
    case 4
    with built_search[OF _ assms(2,3)] assms(1) Fixed_arm show ?thesis by force
  next
    case (5 gen walk K')
    have "laddering_arm gen (arm_strategy walk)"
      by (rule laddering_arm.intro[OF built_generator[OF 5(1)] built_search[OF 5(2) assms(2,3)]])
    then show ?thesis unfolding 5(3) by (rule laddering_arm.laddering_strategy)
  qed
  then show ?thesis by (simp add: Fixed_arm)
qed

subsection \<open>An easy step\<close>

lemma adaptive_quiet:
  assumes "ask_selector A \<noteq> None" and "baseline (ask_step A) (arm_model A) w rs now what n = (w', r)"
    and "\<forall>rs' step. r = Inr (rs', step) \<longrightarrow> fired (rung_signals A T rs' no_reading) = []"
  shows "adaptive A T gen walk w rs now what n = (w', r)"
proof (cases "call_with_output_repair (step_client (ask_step A) rs what) w")
  case (Pair w1 out)
  with assms show ?thesis
    by (cases out) (auto simp: adaptive_def baseline_def plan_next_step_def Let_def)
qed

end
