(* ===== verification/Strategy_Claims.thy ===== *)
theory Strategy_Claims
  imports Strategy_Facts Sample_Run
begin

text \<open>
  The properties of the inference arms, each over what \<open>create_strategy\<close> builds, and the sample arm
  their witnesses run: the sample planner behind every role, and a platform that branches may read.
\<close>

subsection \<open>A sample arm\<close>

definition sample_candidate :: "string \<Rightarrow> diagnosis_candidate" where
  "sample_candidate i =
     \<lparr>candidate_id = i, cand_category = STALE_CACHE, cand_name = i, cand_confidence = 9/10,
      evidence_for = [], evidence_against = [], next_probe = Some (''get_cache_key_info'', sample_key_args)\<rparr>"

definition sample_arms :: "bool arm_ports" where
  "sample_arms =
     \<lparr>arm_libs = sample_libs, str_float = (\<lambda>_. ''f''), str_fixed2 = (\<lambda>_. ''f''), str_ref = (\<lambda>_. ''e''),
      arm_model = ''claude-sonnet-4-6'', ask_step = sample_planner, ask_sample = (\<lambda>_. sample_planner),
      ask_candidates = (\<lambda>w rs n what quoted.
        (w, Replied (map (\<lambda>k. sample_candidate (replicate (Suc k) CHR ''c'')) [0..<n], Stop ''no move'') sample_usage)),
      ask_selector = Some (\<lambda>w rs cs quoted. (w, Replied
        \<lparr>decision = Select, selected_candidate_id = Some (candidate_id (hd cs)),
         scores = map (\<lambda>c. (candidate_id c, 9/10)) cs, uncertainty = 0, sel_reasoning = ''first''\<rparr> sample_usage)),
      ask_critic = None, ask_revision = (\<lambda>w rs step c what quoted. (w, Garbled_reply None)),
      branch_prober = Some (branch_probe sample_investigator)\<rparr>"

definition no_overrides :: threshold_overrides where
  "no_overrides =
     \<lparr>o_top1_confidence_floor = None, o_top1_top2_margin_floor = None, o_selector_uncertainty_ceiling = None,
      o_candidate_disagreement_ceiling = None, o_contradictory_evidence_count = None,
      o_failed_attempt_count = None, o_probe_count_before_confidence_check = None,
      o_confidence_floor_after_probes = None\<rparr>"

definition default_knobs :: strategy_knobs where
  "default_knobs =
     \<lparr>knob_n = 1, sample_temperature = None, selector_generator = ''best_of_n_enumerated'',
      search_depth = 2, search_branch = 3, knob_thresholds = no_overrides\<rparr>"

definition sample_search :: "bool strategy" where
  "sample_search = search_step sample_arms (enumerate_candidates sample_arms 3) 2 3"

definition sample_ladder :: "bool strategy" where
  "sample_ladder = adaptive sample_arms (resolve no_overrides) (enumerate_candidates sample_arms 4) sample_search"

lemma sample_create:
  "create_strategy 3 sample_arms default_knobs ''search'' = Inr (Fixed_arm sample_search)"
  "create_strategy 3 sample_arms default_knobs ''adaptive'' = Inr (Fixed_arm sample_ladder)"
  by (simp_all add: eval_nat_numeral default_knobs_def as_generator_def build_enumerated_def make_walk_def
      max_search_depth_def max_branch_factor_def ladder_n_def sample_search_def sample_ladder_def)

lemma sample_arms_prober [simp]: "branch_prober sample_arms = Some (branch_probe sample_investigator)"
  by (simp add: sample_arms_def)

lemma sample_searched:
  "\<exists>rs' step. sample_search False sample_investigating 1000 Full_step 0 = (False, Inr (rs', step))
     \<and> tool_calls_used (budget rs') = 2"
proof -
  have "(case sample_search False sample_investigating 1000 Full_step 0 of
      (w, Inr (rs', step)) \<Rightarrow> \<not> w \<and> tool_calls_used (budget rs') = 2 | _ \<Rightarrow> False)" by code_simp
  then show ?thesis by (auto split: prod.splits sum.splits)
qed

lemma sample_easy:
  "case baseline sample_planner ''claude-sonnet-4-6'' False sample_investigating 1000 Full_step 0 of
     (w, Inr (rs', step)) \<Rightarrow> fired (rung_signals sample_arms (resolve no_overrides) rs' no_reading) = [] | _ \<Rightarrow> True"
  by code_simp

subsection \<open>The properties\<close>

text \<open>C22: every arm the registry builds can drive the investigation: the loop ends within its
  stated number of passes with that arm plugged in, and a run it hands to PLANNING has passed the
  same gates as one the control group hands over, whatever the arm's models answer.\<close>

theorem every_arm_meets_the_gates:
  assumes "create_strategy stack A K name = Inr a"
    and "branch_prober A = None \<or> branch_prober A = Some (branch_probe Q)"
  shows "\<exists>out. transition_llm_investigate (I\<lparr>strategy := arm_strategy a\<rparr>) w rs now = out
    \<and> investigate_loop (I\<lparr>strategy := arm_strategy a\<rparr>) (step_bound I) w rs now (alert_subject (alert rs)) initial_vars = Some out
    \<and> (\<forall>w' rs'. out = (w', Inr rs') \<and> state rs = INVESTIGATING \<longrightarrow>
         grew rs rs' \<and> (state rs' = ESCALATED \<or> state rs' = PLANNING \<and> planning_gate (required_before_verdict I) rs'))"
proof -
  let ?I = "I\<lparr>strategy := arm_strategy a\<rparr>"
  have arm: "investigation_strategy (arm_strategy a)"
    by (rule built_arm_is_a_strategy[OF assms platform_reads.branch_reader_axioms])
  have "step_bound ?I = step_bound I" by (simp add: step_bound_def)
  moreover note investigation_strategy.transition_llm_investigate_loop[OF arm, of ?I w rs now]
  moreover have "grew rs rs' \<and> (state rs' = ESCALATED \<or> state rs' = PLANNING \<and> planning_gate (required_before_verdict I) rs')"
    if "transition_llm_investigate ?I w rs now = (w', Inr rs')" and "state rs = INVESTIGATING" for w' rs'
    using investigation_strategy.transition_llm_investigate_ok[OF arm _ that] by auto
  ultimately show ?thesis by simp
qed

theorem every_arm_meets_the_gates_witness:
  "\<exists>out. transition_llm_investigate (sample_investigator\<lparr>strategy := sample_ladder\<rparr>) False sample_investigating 1000 = out
    \<and> investigate_loop (sample_investigator\<lparr>strategy := sample_ladder\<rparr>) (step_bound sample_investigator) False
        sample_investigating 1000 (alert_subject (alert sample_investigating)) initial_vars = Some out
    \<and> (\<forall>w' rs'. out = (w', Inr rs') \<and> state sample_investigating = INVESTIGATING \<longrightarrow>
         grew sample_investigating rs' \<and> (state rs' = ESCALATED \<or> state rs' = PLANNING
           \<and> planning_gate (required_before_verdict sample_investigator) rs'))"
  using every_arm_meets_the_gates[OF sample_create(2), of sample_investigator sample_investigator False sample_investigating 1000]
  unfolding arm_strategy.simps by simp

text \<open>A search step reads at most one branch per level and branch allowed, six in all, charges
  one tool call for each, and every read leaves a tool call for the path it chooses.\<close>

theorem search_stays_within_its_caps:
  assumes "create_strategy stack A K ''search'' = Inr a"
    and "branch_prober A = None \<or> branch_prober A = Some (branch_probe Q)"
    and "arm_strategy a w rs now what n = (w', Inr (rs', step))"
  shows "tool_calls_used (budget rs') \<le> tool_calls_used (budget rs) + search_depth K * search_branch K
    \<and> search_depth K * search_branch K \<le> 6
    \<and> (tool_calls_used (budget rs') = tool_calls_used (budget rs)
       \<or> tool_calls_used (budget rs') + chosen_path_tool_reserve \<le> max_tool_calls (budget rs))"
proof -
  let ?d = "search_depth K" and ?b = "search_branch K"
  from assms(1) obtain m K' gen walk where gen: "as_generator (create_strategy m A K' (selector_generator K)) = Inr gen"
    and a: "arm_strategy a = search_step A gen (nat ?d) (nat ?b)" and mk: "make_walk (nat ?d) (nat ?b) = Inr walk"
    by (cases stack) (auto simp: bind_result_Inr_iff split: if_splits)
  have arm: "searching_arm gen A (branch_probe Q)"
    by (intro searching_arm.intro selecting_arm.intro searching_arm_axioms.intro built_generator[OF gen]
        platform_reads.branch_reader_axioms assms(2))
  from mk have pos: "1 \<le> ?d" "1 \<le> ?b" and cap: "?d \<le> 2" "?b \<le> 3"
    by (auto simp: make_walk_def max_search_depth_def max_branch_factor_def split: if_splits)
  have "?d * ?b \<le> 2 * 3" by (rule mult_mono) (use pos cap in auto)
  moreover have "int (nat ?d * nat ?b) = ?d * ?b" using pos by simp
  ultimately show ?thesis
    using searching_arm.search_step_InrD(5,6)[OF arm assms(3)[unfolded a]]
    by (simp add: branch_probe_tool_calls_def del: of_nat_mult)
qed

text \<open>An easy step costs what the control group's costs: where the first rung's ranking fires no
  signal, or its call fails, the ladder returns exactly what \<open>baseline\<close> returns.\<close>

theorem easy_step_is_the_baseline_step:
  assumes "ask_selector A \<noteq> None" and "baseline (ask_step A) (arm_model A) w rs now what n = (w', r)"
    and "\<forall>rs' step. r = Inr (rs', step) \<longrightarrow> fired (rung_signals A T rs' no_reading) = []"
  shows "adaptive A T gen walk w rs now what n = (w', r)"
  using assms by (rule adaptive_quiet)

theorem search_stays_within_its_caps_witness:
  "\<exists>rs' :: run_state. tool_calls_used (budget rs') = tool_calls_used (budget sample_investigating) + 2
     \<and> tool_calls_used (budget rs') \<le> tool_calls_used (budget sample_investigating) + 2 * 3
     \<and> tool_calls_used (budget rs') + chosen_path_tool_reserve \<le> max_tool_calls (budget sample_investigating)"
proof -
  from sample_searched obtain rs' step
    where s: "arm_strategy (Fixed_arm sample_search) False sample_investigating 1000 Full_step 0 = (False, Inr (rs', step))"
    and two: "tool_calls_used (budget rs') = 2" by auto
  have none: "tool_calls_used (budget sample_investigating) = 0" by (simp add: sample_investigating_def sample_at_def)
  from search_stays_within_its_caps[OF sample_create(1) _ s, of sample_investigator] two
  have "tool_calls_used (budget rs') + chosen_path_tool_reserve \<le> max_tool_calls (budget sample_investigating)"
    by (simp add: none)
  with two show ?thesis by (intro exI[of _ rs']) (simp add: none)
qed

theorem easy_step_is_the_baseline_step_witness:
  "sample_ladder False sample_investigating 1000 Full_step 0
     = baseline sample_planner ''claude-sonnet-4-6'' False sample_investigating 1000 Full_step 0"
proof (cases "baseline sample_planner ''claude-sonnet-4-6'' False sample_investigating 1000 Full_step 0")
  case (Pair w' r)
  have "ask_selector sample_arms \<noteq> None" "ask_step sample_arms = sample_planner" "arm_model sample_arms = ''claude-sonnet-4-6''"
    by (simp_all add: sample_arms_def)
  with easy_step_is_the_baseline_step[of sample_arms False sample_investigating 1000 Full_step 0 w' r] sample_easy Pair
  show ?thesis unfolding sample_ladder_def by (auto split: sum.splits)
qed

text \<open>Under knobs the settings accept, the registry builds an arm for exactly the seven strategy
  names, except that an arm composed over a generator is built only over one of the two best-of-N
  arms.\<close>

theorem registry_builds_its_names:
  assumes "1 \<le> knob_n K" and "1 \<le> search_depth K" and "search_depth K \<le> 2"
    and "1 \<le> search_branch K" and "search_branch K \<le> 3"
  shows "(\<exists>a. create_strategy (stack + 3) A K name = Inr a) \<longleftrightarrow>
    name \<in> set strategy_names
    \<and> (name \<in> {''candidate_selector'', ''search'', ''adaptive''} \<longrightarrow>
         selector_generator K \<in> {''best_of_n_enumerated'', ''best_of_n_sampled''})"
    (is "?built \<longleftrightarrow> ?named")
proof
  have walk: "\<exists>walk. make_walk (nat (search_depth K)) (nat (search_branch K)) = Inr walk"
    using assms by (auto simp: make_walk_def max_search_depth_def max_branch_factor_def nat_le_iff)
  have gen_ok: "\<exists>gen. as_generator (create_strategy (Suc m) A K' sg) = Inr gen"
    if "sg \<in> {''best_of_n_enumerated'', ''best_of_n_sampled''}" "1 \<le> knob_n K'" for m K' sg
    using that by (auto simp: as_generator_def build_enumerated_def build_sampled_def)
  assume named: ?named
  have search_ok: "\<exists>a. create_strategy (Suc (Suc m)) A K ''search'' = Inr a"
    if "selector_generator K \<in> {''best_of_n_enumerated'', ''best_of_n_sampled''}" for m
    using walk gen_ok[OF that, of "K\<lparr>knob_n := search_branch K\<rparr>" m] assms(4)
    by (subst create_strategy.simps(2)) (auto simp del: create_strategy.simps)
  show ?built
  proof (cases "name \<in> {''candidate_selector'', ''search'', ''adaptive''}")
    case True
    with named have sg: "selector_generator K \<in> {''best_of_n_enumerated'', ''best_of_n_sampled''}" by blast
    have "\<exists>gen. as_generator (create_strategy (Suc (Suc stack)) A (K\<lparr>knob_n := int ladder_n\<rparr>)
        ''best_of_n_enumerated'') = Inr gen"
      by (rule gen_ok) (simp_all add: ladder_n_def)
    then obtain four where four: "as_generator (create_strategy (Suc (Suc stack)) A (K\<lparr>knob_n := int ladder_n\<rparr>)
        ''best_of_n_enumerated'') = Inr four" by blast
    obtain gen where gen: "as_generator (create_strategy (Suc (Suc stack)) A K (selector_generator K)) = Inr gen"
      using gen_ok[OF sg assms(1)] by blast
    from search_ok[OF sg] obtain s1 s2 where "create_strategy (Suc (Suc (Suc stack))) A K ''search'' = Inr s1"
      "create_strategy (Suc (Suc stack)) A K ''search'' = Inr s2" by blast
    with True gen four show ?thesis unfolding numeral_3_eq_3 add_Suc_right add_0_right
      by (elim insertE emptyE; simp add: create_strategy.simps(2)[of "Suc (Suc stack)"] del: create_strategy.simps)
  next
    case False
    with named assms(1) show ?thesis
      by (auto simp: strategy_names_def numeral_3_eq_3 build_enumerated_def build_sampled_def)
  qed
next
  assume ?built
  then obtain a where a: "create_strategy (stack + 3) A K name = Inr a" by blast
  have gen: "selector_generator K \<in> {''best_of_n_enumerated'', ''best_of_n_sampled''}"
    if "as_generator (create_strategy m A K' (selector_generator K)) = Inr gen" for m K' gen
    using create_generating(2)[OF as_generator_InrD[OF that]] .
  from a have once: "create_strategy (Suc (Suc (Suc stack))) A K name = Inr a" by (simp add: numeral_3_eq_3)
  have searched: "selector_generator K \<in> {''best_of_n_enumerated'', ''best_of_n_sampled''}"
    if "create_strategy (Suc m) A K ''search'' = Inr b" for m b
    using that gen unfolding create_strategy.simps(2) by (auto simp: bind_result_Inr_iff simp del: create_strategy.simps)
  have "selector_generator K \<in> {''best_of_n_enumerated'', ''best_of_n_sampled''}"
    if "name \<in> {''candidate_selector'', ''search'', ''adaptive''}"
    using that once gen searched[of "Suc stack"] searched[of "Suc (Suc stack)"]
    by (subst (asm) create_strategy.simps(2)) (auto simp: bind_result_Inr_iff simp del: create_strategy.simps)
  moreover have "name \<in> set strategy_names"
    using once unfolding create_strategy.simps(2) by (auto simp: strategy_names_def simp del: create_strategy.simps split: if_splits)
  ultimately show ?named by blast
qed

theorem registry_builds_its_names_witness:
  "(\<exists>a. create_strategy (0 + 3) sample_arms default_knobs ''adaptive'' = Inr a) \<longleftrightarrow>
    ''adaptive'' \<in> set strategy_names
    \<and> (''adaptive'' \<in> {''candidate_selector'', ''search'', ''adaptive''} \<longrightarrow>
         selector_generator default_knobs \<in> {''best_of_n_enumerated'', ''best_of_n_sampled''})"
  by (rule registry_builds_its_names) (simp_all add: default_knobs_def)

subsection \<open>What the findings rest on\<close>

text \<open>An arm composed over a composed generator never finishes building: its constructor calls itself.\<close>

lemma composed_generator_overflows:
  assumes "name \<in> {''candidate_selector'', ''search'', ''adaptive''}"
    and "selector_generator K \<in> {''candidate_selector'', ''search'', ''adaptive''}"
    and "make_walk (nat (search_depth K)) (nat (search_branch K)) = Inr walk"
  shows "create_strategy stack A K name = Inl (Foreign ''RecursionError'')"
  using assms
proof (induction stack arbitrary: name K)
  case (Suc m)
  have IH: "create_strategy m A K (selector_generator K) = Inl (Foreign ''RecursionError'')"
    "create_strategy m A (K\<lparr>knob_n := n\<rparr>) (selector_generator K) = Inl (Foreign ''RecursionError'')"
    "create_strategy m A K ''search'' = Inl (Foreign ''RecursionError'')" for n
    using Suc.prems by (intro Suc.IH; simp)+
  have "as_generator (create_strategy m A (K\<lparr>knob_n := int ladder_n\<rparr>) ''best_of_n_enumerated'')
      = Inl (Foreign ''RecursionError'') \<or>
    (\<exists>gen. as_generator (create_strategy m A (K\<lparr>knob_n := int ladder_n\<rparr>) ''best_of_n_enumerated'') = Inr gen)"
    by (cases m) (auto simp: as_generator_def build_enumerated_def ladder_n_def)
  with Suc.prems IH show ?case by (auto simp: as_generator_def simp del: create_strategy.simps(1))
qed simp

text \<open>A move the loop withdrew: \<open>baseline\<close> reports it as one, a sample's wrapper does not.\<close>

lemma sampled_withdrawn_move_is_not_reported:
  assumes "ask w rs what None = (w', Step_reply hs mv u)" and "move_refused what mv"
  shows "baseline ask model w rs now what n = (w', Inl (Step_failed (Some u) True))"
    and "ask_sample A temp = ask \<Longrightarrow>
      generator_alone (sample_candidates A (Suc k) temp) w rs now what n = (w', Inl (Step_failed (Some u) False))"
  using assms
  by (simp_all add: baseline_def plan_next_step_def call_with_output_repair_def max_output_repairs_def step_client_def
      step_schema_def generator_alone_def sample_candidates_def arm_failed_def billed_legs_def sum_usage_def)

text \<open>
  A walk whose second selector call cannot be read: the platform answered one read, and the run that
  escalates has charged none. The world counts the reads.
\<close>

definition counting_investigator :: "nat investigator" where
  "counting_investigator =
     \<lparr>inv_libs = sample_libs,
      call_tool = (\<lambda>w tool args. (Suc w, Mcp_result False [[(''type'', VStr ''text''), (''text'', VStr ''stale'')]])),
      sleep = (\<lambda>w _. w), planner_log = None, strategy = baseline (\<lambda>w rs what q. (w, Garbled_reply None)) [],
      planner_model = ''claude-sonnet-4-6'', thinking_tool = ''think'', max_iterations = 5, reprobe_attempts = 0,
      reprobe_delay_seconds = 0, required_before_verdict = []\<rparr>"

definition failing_arms :: "nat arm_ports" where
  "failing_arms =
     \<lparr>arm_libs = sample_libs, str_float = (\<lambda>_. ''f''), str_fixed2 = (\<lambda>_. ''f''), str_ref = (\<lambda>_. ''e''),
      arm_model = ''claude-sonnet-4-6'', ask_step = (\<lambda>w rs what q. (w, Garbled_reply None)),
      ask_sample = (\<lambda>_ w rs what q. (w, Garbled_reply None)),
      ask_candidates = (\<lambda>w rs n what quoted.
        (w, Replied (map (\<lambda>k. sample_candidate (replicate (Suc k) CHR ''c'')) [0..<n], Stop ''no move'') sample_usage)),
      ask_selector = Some (\<lambda>w rs cs quoted. (w, if w = 0 then Replied
        \<lparr>decision = Select, selected_candidate_id = Some (candidate_id (hd cs)),
         scores = map (\<lambda>c. (candidate_id c, 9/10)) cs, uncertainty = 0, sel_reasoning = ''first''\<rparr> sample_usage
        else No_json (Some sample_usage))),
      ask_critic = None, ask_revision = (\<lambda>w rs step c what quoted. (w, Garbled_reply None)),
      branch_prober = Some (branch_probe counting_investigator)\<rparr>"

lemma failed_walk_forgets_its_reads:
  "case transition_llm_investigate
      (counting_investigator\<lparr>strategy := search_step failing_arms (enumerate_candidates failing_arms 3) 2 3\<rparr>)
      0 sample_investigating 1000 of
     (reads, Inr rs') \<Rightarrow> reads = 1 \<and> state rs' = ESCALATED \<and> tool_calls_used (budget rs') = 0
   | _ \<Rightarrow> False"
  by code_simp

end
