(* ===== verification/Root_Cause.thy ===== *)
theory Root_Cause
  imports Alert_Subject
begin

text \<open>
  Which causes a run named and which it left standing (\<^verbatim>\<open>agent/incidents.py\<close>, with the bar
  \<^verbatim>\<open>agent/briefing.py\<close> applies), and how a diagnosis is scored against a ground truth
  (\<^verbatim>\<open>evals/graders/root_cause.py\<close>). Rates are exact rationals.
\<close>

subsection \<open>Incident slots\<close>

record incident_slot =
  slot_category :: hypothesis_category
  slot_name :: string
  slot_confidence :: rat
  addressed :: bool

record incident_slots =
  primary :: "incident_slot option"
  secondary :: "incident_slot list"
  unresolved_extra :: "incident_slot list"

definition asserted :: "incident_slots \<Rightarrow> incident_slot list" where
  "asserted s = (case primary s of None \<Rightarrow> [] | Some p \<Rightarrow> [p]) @ secondary s"

definition addressed_any :: "incident_slots \<Rightarrow> bool" where
  "addressed_any s = list_ex addressed (asserted s)"

definition sorted_categories :: "hypothesis_category list \<Rightarrow> hypothesis_category list" where
  "sorted_categories cs = sort_key category_value (remdups cs)"

definition slot_categories :: "incident_slots \<Rightarrow> hypothesis_category list" where
  "slot_categories s = sorted_categories (map slot_category (asserted s))"

text \<open>\<open>str_of\<close> is Python's \<open>str\<close> on an argument value.\<close>

definition addressed_targets :: "(val \<Rightarrow> string) \<Rightarrow> evidence_entry list \<Rightarrow> string list" where
  "addressed_targets str_of rows =
     concat (map (\<lambda>e. if tool_name e \<in> {''_planner_plan'', ''_remediation_attempt_failed''}
                      then (case get (arguments e) ''target_hypothesis'' of None \<Rightarrow> [] | Some v \<Rightarrow> [str_of v])
                      else []) rows)"

definition is_addressed :: "hypothesis \<Rightarrow> string list \<Rightarrow> bool" where
  "is_addressed h targets = (hyp_name h \<in> set targets \<or> category_value (category h) \<in> set targets)"

definition slot_of :: "string list \<Rightarrow> hypothesis \<Rightarrow> incident_slot" where
  "slot_of targets h =
     \<lparr>slot_category = category h, slot_name = hyp_name h, slot_confidence = confidence h,
      addressed = is_addressed h targets\<rparr>"

definition incident_slots_of ::
    "(val \<Rightarrow> string) \<Rightarrow> hypothesis list \<Rightarrow> evidence_entry list \<Rightarrow> rat \<Rightarrow> incident_slots" where
  "incident_slots_of str_of hs rows bar =
     (case hs of
        [] \<Rightarrow> \<lparr>primary = None, secondary = [], unresolved_extra = []\<rparr>
      | h # rest \<Rightarrow>
          (let targets = addressed_targets str_of rows;
               top_slot = slot_of targets h;
               others = map (slot_of targets) (filter (\<lambda>h. bar \<le> confidence h) rest)
           in \<lparr>primary = Some top_slot, secondary = others,
               unresolved_extra = filter (\<lambda>s. \<not> addressed s) (top_slot # others)\<rparr>))"

definition incidents_of :: "(val \<Rightarrow> string) \<Rightarrow> run_state \<Rightarrow> incident_slots" where
  "incidents_of str_of rs = incident_slots_of str_of (hypotheses rs) (evidence rs) remediate_confidence_threshold"

lemma unresolved_extra_eq:
  "unresolved_extra (incident_slots_of str_of hs rows bar)
     = filter (\<lambda>s. \<not> addressed s) (asserted (incident_slots_of str_of hs rows bar))"
  by (cases hs) (simp_all add: incident_slots_of_def asserted_def Let_def)

text \<open>No cause the run asserts is dropped: each is addressed or stands in the remainder.\<close>

lemma asserted_split:
  "set (asserted (incident_slots_of str_of hs rows bar))
     = set (filter addressed (asserted (incident_slots_of str_of hs rows bar)))
       \<union> set (unresolved_extra (incident_slots_of str_of hs rows bar))"
  by (cases hs) (auto simp: incident_slots_of_def asserted_def Let_def)

lemma asserted_of_run:
  "s \<in> set (asserted (incidents_of str_of rs)) \<longleftrightarrow>
     (\<exists>h\<in>set (hypotheses rs). s = slot_of (addressed_targets str_of (evidence rs)) h
        \<and> (h = hd (hypotheses rs) \<or> remediate_confidence_threshold \<le> confidence h
             \<and> h \<in> set (tl (hypotheses rs))))"
  by (cases "hypotheses rs") (auto simp: incidents_of_def incident_slots_of_def asserted_def Let_def)

subsection \<open>Scoring a diagnosis\<close>

definition label_describes_this_world :: "bool \<Rightarrow> bool \<Rightarrow> bool" where
  "label_describes_this_world live_mcp chaos_seeded = (\<not> live_mcp \<or> chaos_seeded)"

definition diagnosis_set :: "(val \<Rightarrow> string) \<Rightarrow> run_state \<Rightarrow> hypothesis_category list" where
  "diagnosis_set str_of rs = slot_categories (incidents_of str_of rs)"

definition final_diagnosis :: "run_state \<Rightarrow> hypothesis option" where
  "final_diagnosis rs = (case hypotheses rs of [] \<Rightarrow> None | h # _ \<Rightarrow> Some h)"

record root_cause_score =
  predicted :: "hypothesis_category list"
  expected :: "hypothesis_category list"
  matched :: "hypothesis_category list"
  exact_set :: bool
  precision :: rat
  recall :: rat
  f1 :: rat

definition score_root_cause :: "hypothesis_category list \<Rightarrow> hypothesis_category list \<Rightarrow> root_cause_score" where
  "score_root_cause pred expct =
     (let ps = remdups pred; es = remdups expct; ms = filter (\<lambda>c. c \<in> set es) ps;
          prec = (if ps = [] then 0 else of_nat (length ms) / of_nat (length ps));
          rec = (if es = [] then 0 else of_nat (length ms) / of_nat (length es))
      in \<lparr>predicted = sorted_categories pred, expected = sorted_categories expct, matched = sorted_categories ms,
          exact_set = (set ps = set es), precision = prec, recall = rec,
          f1 = (if prec + rec = 0 then 0 else 2 * prec * rec / (prec + rec))\<rparr>)"

record root_cause_coverage =
  total_scenarios :: nat
  graded_scenarios :: nat
  correct_scenarios :: nat
  not_graded_world :: nat

definition accuracy :: "root_cause_coverage \<Rightarrow> rat option" where
  "accuracy c = (if graded_scenarios c = 0 then None
                 else Some (of_nat (correct_scenarios c) / of_nat (graded_scenarios c)))"

definition coverage_over :: "(bool \<times> bool) list \<Rightarrow> nat \<Rightarrow> nat \<Rightarrow> root_cause_coverage" where
  "coverage_over verdicts n mismatch =
     (let passes = map snd (filter fst verdicts) in
      \<lparr>total_scenarios = n, graded_scenarios = length passes, correct_scenarios = length (filter id passes),
       not_graded_world = mismatch\<rparr>)"

lemma set_sorted_categories [simp]: "set (sorted_categories cs) = set cs"
  by (simp add: sorted_categories_def)

text \<open>The score is a proportion, full marks exactly for the declared set.\<close>

lemma harmonic_bounds:
  assumes "0 \<le> p" and "p \<le> 1" and "0 \<le> r" and "r \<le> (1::rat)"
  shows "0 \<le> 2 * p * r / (p + r)" and "2 * p * r / (p + r) \<le> 1"
    and "p + r \<noteq> 0 \<Longrightarrow> 2 * p * r / (p + r) = 1 \<longleftrightarrow> p = 1 \<and> r = 1"
proof -
  show "0 \<le> 2 * p * r / (p + r)" using assms by simp
  have le: "2 * p * r \<le> p + r"
  proof -
    have "p * r \<le> p * 1" "p * r \<le> 1 * r" by (rule mult_mono; use assms in simp)+
    moreover have "2 * p * r = p * r + p * r" by simp
    ultimately show ?thesis by linarith
  qed
  then show "2 * p * r / (p + r) \<le> 1" using assms by (simp add: divide_le_eq)
  show "2 * p * r / (p + r) = 1 \<longleftrightarrow> p = 1 \<and> r = 1" if "p + r \<noteq> 0"
  proof
    assume "2 * p * r / (p + r) = 1"
    then have "p + r = 2 * p * r" using that by (simp add: field_simps)
    then have "p * (1 - r) + r * (1 - p) = 0" by (simp add: algebra_simps)
    moreover have "0 \<le> p * (1 - r)" "0 \<le> r * (1 - p)" using assms by simp_all
    ultimately have "p * (1 - r) = 0" "r * (1 - p) = 0" by linarith+
    then show "p = 1 \<and> r = 1" using that by auto
  qed simp
qed

lemma score_rates:
  fixes pred expct
  defines "s \<equiv> score_root_cause pred expct"
  shows "0 \<le> precision s \<and> precision s \<le> 1" and "0 \<le> recall s \<and> recall s \<le> 1"
proof -
  let ?ps = "remdups pred" and ?es = "remdups expct"
  let ?ms = "filter (\<lambda>c. c \<in> set ?es) ?ps"
  have "length ?ms \<le> length ?ps" by (rule length_filter_le)
  then have p: "(of_nat (length ?ms) :: rat) \<le> of_nat (length ?ps)" by (simp only: of_nat_le_iff)
  have "length ?ms \<le> length ?es" by (rule length_distinct_le) auto
  then have e: "(of_nat (length ?ms) :: rat) \<le> of_nat (length ?es)" by (simp only: of_nat_le_iff)
  from p show "0 \<le> precision s \<and> precision s \<le> 1"
    by (cases "?ps = []") (simp_all add: s_def score_root_cause_def Let_def divide_le_eq)
  from e show "0 \<le> recall s \<and> recall s \<le> 1"
    by (cases "?es = []") (simp_all add: s_def score_root_cause_def Let_def divide_le_eq)
qed

lemma score_f1:
  "f1 (score_root_cause pred expct) =
     (let s = score_root_cause pred expct in
      if precision s + recall s = 0 then 0 else 2 * precision s * recall s / (precision s + recall s))"
  by (simp add: score_root_cause_def Let_def)

lemma score_f1_bounds: "0 \<le> f1 (score_root_cause pred expct) \<and> f1 (score_root_cause pred expct) \<le> 1"
  unfolding score_f1 Let_def
  using score_rates[of pred expct]
    harmonic_bounds[of "precision (score_root_cause pred expct)" "recall (score_root_cause pred expct)"]
  by auto

lemma score_exact:
  assumes "expct \<noteq> []"
  shows "exact_set (score_root_cause pred expct) \<longleftrightarrow> f1 (score_root_cause pred expct) = 1"
proof -
  let ?s = "score_root_cause pred expct"
  let ?ps = "remdups pred" and ?es = "remdups expct"
  let ?ms = "filter (\<lambda>c. c \<in> set ?es) ?ps"
  have es: "?es \<noteq> []" using assms by simp
  have rec: "recall ?s = of_nat (length ?ms) / of_nat (length ?es)"
    using es by (simp add: score_root_cause_def Let_def)
  have prec: "precision ?s = (if ?ps = [] then 0 else of_nat (length ?ms) / of_nat (length ?ps))"
    by (simp add: score_root_cause_def Let_def)
  have one: "f1 ?s = 1 \<longleftrightarrow> precision ?s = 1 \<and> recall ?s = 1"
    unfolding score_f1 Let_def using score_rates[of pred expct] harmonic_bounds(3)[of "precision ?s" "recall ?s"] by auto
  have ms: "set ?ms = set pred \<inter> set expct" by auto
  have sub: "length xs = length ys \<Longrightarrow> distinct xs \<Longrightarrow> distinct ys \<Longrightarrow> set xs \<subseteq> set ys \<Longrightarrow> set xs = set ys"
    for xs ys :: "hypothesis_category list"
    by (metis List.finite_set card_subset_eq distinct_card)
  have "precision ?s = 1 \<and> recall ?s = 1 \<longleftrightarrow> ?ps \<noteq> [] \<and> length ?ms = length ?ps \<and> length ?ms = length ?es"
    using es by (auto simp: prec rec divide_eq_1_iff)
  also have "\<dots> \<longleftrightarrow> set pred = set expct"
  proof
    assume "?ps \<noteq> [] \<and> length ?ms = length ?ps \<and> length ?ms = length ?es"
    then have "set ?ms = set ?ps" "set ?ms = set ?es" by (intro sub; auto)+
    then show "set pred = set expct" by simp
  next
    assume same: "set pred = set expct"
    then have "?ms = ?ps" by (simp add: filter_id_conv)
    moreover have "length ?ps = length ?es" using same by (simp add: length_remdups_card_conv)
    ultimately show "?ps \<noteq> [] \<and> length ?ms = length ?ps \<and> length ?ms = length ?es" using es same assms by auto
  qed
  finally show ?thesis using one by (simp add: score_root_cause_def Let_def)
qed

end
