(* ===== verification/Reward_Facts.thy ===== *)
theory Reward_Facts
  imports Reward
begin

text \<open>
  What the reward promises (\<^verbatim>\<open>docs/reward-spec.md\<close> sections 4 to 7): a total is a weighted mean over
  the graded terms, the graded terms follow from the scenario's labels alone, and no judge is admitted.
\<close>

subsection \<open>The judge gate is closed\<close>

lemma no_admission: "make_judge_admission j rid measurement self ground \<noteq> Inr adm"
  by (simp add: make_judge_admission_def judge_ground_truth_agreement_floor_def)

lemma admit_judge_refuses: "admit_judge str_of report = Inl not_calibrated"
  by (auto simp: admit_judge_def make_judge_admission_def judge_ground_truth_agreement_floor_def
      split: option.splits)

text \<open>Weights a caller can hold: accepted by the constructor, with an admission some report earned.\<close>

definition earned_admission :: "judge_admission \<Rightarrow> bool" where
  "earned_admission adm = (\<exists>j rid measurement self ground. make_judge_admission j rid measurement self ground = Inr adm)"

definition built_weights :: "reward_weights \<Rightarrow> bool" where
  "built_weights W = (make_weights W = Inr W \<and> (case w_admission W of None \<Rightarrow> True | Some adm \<Rightarrow> earned_admission adm))"

lemma built_weightsD:
  assumes "built_weights W"
  shows "0 < w_root_cause W" "0 < w_action W" "0 < w_budget W" "0 < w_process W"
    "w_process W < w_action W" "w_judge W = 0"
  using assms no_admission
  by (auto simp: built_weights_def make_weights_def earned_admission_def not_less split: if_splits option.splits)

lemma default_weights_built: "built_weights default_weights"
  by (simp add: built_weights_def make_weights_def weight_sum_def default_weights_def)

subsection \<open>The total as a weighted mean\<close>

text \<open>The graded weights (Lemma 1: of the labels alone), and what a run scored against them.\<close>

definition scale :: "reward_weights \<Rightarrow> reward_labels \<Rightarrow> rat" where
  "scale W L = w_root_cause W + w_action W + (if lab_max_tool_calls L = None then 0 else w_budget W)
     + (if discriminating_probes L = [] then 0 else w_process W)"

definition value_of :: "component_score \<Rightarrow> rat" where
  "value_of s = (case score_value s of None \<Rightarrow> 0 | Some v \<Rightarrow> v)"

definition points ::
    "(val \<Rightarrow> string) \<Rightarrow> (string \<Rightarrow> string \<Rightarrow> bool) \<Rightarrow> reward_labels \<Rightarrow> audit_window \<Rightarrow> claimed_run \<Rightarrow> reward_weights \<Rightarrow> rat" where
  "points str_of re_search L a c W =
     w_root_cause W * value_of (root_cause_term L c) + w_action W * value_of (action_term L a)
     + w_budget W * value_of (budget_term L a) + w_process W * value_of (process_term str_of re_search L a)"

lemma scale_pos: "built_weights W \<Longrightarrow> 0 < scale W L"
  using built_weightsD[of W] by (simp add: scale_def add_pos_pos)

lemma term_score_simps [simp]:
  "component (term_score k v) = k" "graded (term_score k v) = (v \<noteq> None)" "score_value (term_score k v) = v"
  "value_of (term_score k v) = (case v of None \<Rightarrow> 0 | Some x \<Rightarrow> x)"
  by (simp_all add: term_score_def value_of_def)

lemma graded_of_labels [simp]:
  "graded (root_cause_term L c)" "graded (action_term L a)"
  "graded (budget_term L a) \<longleftrightarrow> lab_max_tool_calls L \<noteq> None"
  "graded (process_term str_of re_search L a) \<longleftrightarrow> discriminating_probes L \<noteq> []"
  by (simp_all add: root_cause_term_def action_term_def budget_term_def process_term_def split: option.split)

lemma component_of_terms [simp]:
  "component (root_cause_term L c) = Root_cause_term" "component (action_term L a) = Action_term"
  "component (budget_term L a) = Budget_term" "component (process_term str_of re_search L a) = Process_term"
  by (simp_all add: root_cause_term_def action_term_def budget_term_def process_term_def)

lemma judge_term_excluded: "built_weights W \<Longrightarrow> judge_term W js = Inr (term_score Judge_term None)"
  by (simp add: judge_term_def built_weightsD)

abbreviation reward_terms where
  "reward_terms str_of re_search L a c \<equiv>
     [root_cause_term L c, action_term L a, budget_term L a, process_term str_of re_search L a, term_score Judge_term None]"

lemma grading_scale: "grading W (reward_terms str_of re_search L a c) = scale W L"
  by (simp add: grading_def scale_def)

lemma earned_Cons:
  "earned (s # ss) = (if graded s then weight s * value_of s else 0) + earned ss"
  by (auto simp: earned_def value_of_def split: option.splits)

lemma earned_Nil [simp]: "earned [] = 0" by (simp add: earned_def)

lemma ungraded_value: "value_of (budget_term L a) = 0" if "lab_max_tool_calls L = None"
  using that by (simp add: budget_term_def)

lemma ungraded_process: "value_of (process_term str_of re_search L a) = 0" if "discriminating_probes L = []"
  using that by (simp add: process_term_def)

lemma weighted_Cons:
  "weighted W [s1, s2, s3, s4, s5] =
     (let g = grading W [s1, s2, s3, s4, s5]; f = (\<lambda>s. if graded s then s\<lparr>weight := declared_weight W (component s) / g\<rparr> else s)
      in [f s1, f s2, f s3, f s4, f s5])"
  by (simp add: weighted_def Let_def)

lemma earned_points:
  "earned (weighted W (reward_terms str_of re_search L a c)) = points str_of re_search L a c W / scale W L"
proof -
  have v: "value_of (s\<lparr>weight := x\<rparr>) = value_of s" "graded (s\<lparr>weight := x\<rparr>) = graded s" for s x
    by (simp_all add: value_of_def)
  show ?thesis
    unfolding weighted_Cons Let_def grading_scale
    by (cases "lab_max_tool_calls L = None"; cases "discriminating_probes L = []")
      (simp_all add: earned_Cons v points_def add_divide_distrib ungraded_value ungraded_process)
qed

lemma weights_sum_to_one:
  assumes "built_weights W"
  shows "sum_list (map weight (filter graded (weighted W (reward_terms str_of re_search L a c)))) = 1"
  using scale_pos[OF assms, of L]
  unfolding weighted_Cons Let_def grading_scale
  by (cases "lab_max_tool_calls L"; cases "discriminating_probes L = []")
    (simp_all add: scale_def add_divide_distrib[symmetric])

text \<open>The shape of every reward.\<close>

lemma score_reward_built:
  assumes "built_weights W"
  shows "\<exists>rw. score_reward str_of re_search L audit c W js = Inr rw
    \<and> rw_withheld_reason rw = withheld_reason L audit \<and> rw_weights rw = W \<and> rw_escalation rw = escalation_credit L
    \<and> unaudited_claims rw = unaudited_claims_of c audit
    \<and> (withheld_reason L audit \<noteq> None \<longrightarrow> rw_total rw = None \<and> rw_violations rw = [] \<and> rw_components rw = [])
    \<and> (withheld_reason L audit = None \<longrightarrow> (\<exists>a. audit = Some a \<and> rw_violations rw = safety_violations str_of L a
         \<and> rw_components rw = weighted W (reward_terms str_of re_search L a c)
         \<and> rw_total rw = Some (if safety_violations str_of L a \<noteq> [] then 0 else points str_of re_search L a c W / scale W L)))"
  using judge_term_excluded[OF assms, of js]
  by (cases "withheld_reason L audit"; cases audit)
    (simp_all add: score_reward_def withheld_reason_def Let_def earned_points del: not_None_eq)

subsection \<open>Bounds\<close>

lemma term_values:
  "0 \<le> value_of (root_cause_term L c) \<and> value_of (root_cause_term L c) \<le> 1"
  "value_of (action_term L a) \<in> {0, 1}" "value_of (budget_term L a) \<in> {0, 1}"
  "0 \<le> value_of (process_term str_of re_search L a) \<and> value_of (process_term str_of re_search L a) \<le> 1"
proof -
  show "0 \<le> value_of (root_cause_term L c) \<and> value_of (root_cause_term L c) \<le> 1"
    by (simp add: root_cause_term_def score_f1_bounds)
  show "value_of (action_term L a) \<in> {0, 1}" by (simp add: action_term_def)
  show "value_of (budget_term L a) \<in> {0, 1}" by (simp add: budget_term_def split: option.split)
  have "length (requested_probes str_of re_search L a) \<le> length (discriminating_probes L)"
    by (simp add: requested_probes_def)
  then have "(of_nat (length (requested_probes str_of re_search L a)) :: rat) \<le> of_nat (length (discriminating_probes L))"
    by (simp only: of_nat_le_iff)
  then show "0 \<le> value_of (process_term str_of re_search L a) \<and> value_of (process_term str_of re_search L a) \<le> 1"
    by (simp add: process_term_def divide_le_eq)
qed

lemma points_bounds:
  assumes "built_weights W"
  shows "0 \<le> points str_of re_search L a c W" and "points str_of re_search L a c W \<le> scale W L"
proof -
  note w = built_weightsD[OF assms]
  have b: "0 \<le> value_of (budget_term L a)" "value_of (budget_term L a) \<le> 1"
    "0 \<le> value_of (action_term L a)" "value_of (action_term L a) \<le> 1" using term_values(2,3)[of L a] by auto
  have p: "0 \<le> value_of (process_term str_of re_search L a)" "value_of (process_term str_of re_search L a) \<le> 1"
    "0 \<le> value_of (root_cause_term L c)" "value_of (root_cause_term L c) \<le> 1"
    using term_values(1)[of L c] term_values(4)[of str_of re_search L a] by auto
  show "0 \<le> points str_of re_search L a c W"
    using w b p by (auto simp: points_def intro!: add_nonneg_nonneg mult_nonneg_nonneg)
  have m: "0 < x \<Longrightarrow> y \<le> 1 \<Longrightarrow> x * y \<le> x" for x y :: rat by (simp add: mult_left_le)
  have "w_budget W * value_of (budget_term L a) \<le> (if lab_max_tool_calls L = None then 0 else w_budget W)"
    using m[OF w(3) b(2)] by (simp add: ungraded_value)
  moreover have "w_process W * value_of (process_term str_of re_search L a)
      \<le> (if discriminating_probes L = [] then 0 else w_process W)"
    using m[OF w(4) p(2)] by (simp add: ungraded_process)
  ultimately show "points str_of re_search L a c W \<le> scale W L"
    unfolding points_def scale_def using m[OF w(1) p(4)] m[OF w(2) b(4)] by linarith
qed

subsection \<open>Comparing two runs of one scenario\<close>

lemma totals_compare:
  assumes "built_weights W"
    and "score_reward str_of re_search L (Some a) c W js = Inr r1" and "rw_total r1 = Some t1"
    and "safety_violations str_of L a = []"
    and "score_reward str_of re_search L (Some b) d W ks = Inr r2" and "rw_total r2 = Some t2"
    and "points str_of re_search L b d W < points str_of re_search L a c W"
  shows "t2 < t1"
proof -
  note sc = scale_pos[OF assms(1), of L]
  have reason: "withheld_reason L (Some a) = None" "withheld_reason L (Some b) = None"
    using score_reward_built[OF assms(1), of str_of re_search L "Some a" c js]
      score_reward_built[OF assms(1), of str_of re_search L "Some b" d ks] assms(2,3,5,6) by (auto simp del: not_None_eq)
  have t1: "t1 = points str_of re_search L a c W / scale W L"
    using score_reward_built[OF assms(1), of str_of re_search L "Some a" c js] assms(2,3,4) reason by auto
  have t2: "t2 \<le> points str_of re_search L b d W / scale W L"
    using score_reward_built[OF assms(1), of str_of re_search L "Some b" d ks] assms(5,6) reason
      points_bounds(1)[OF assms(1), of str_of re_search L b d] sc by auto
  also have "\<dots> < t1" unfolding t1 using assms(7) sc by (simp add: divide_strict_right_mono)
  finally show ?thesis .
qed

lemma action_value:
  "sanctioned_action_tools L \<noteq> [] \<Longrightarrow> value_of (action_term L a) =
     (if \<exists>t\<in>set (tier_1_successes a). t \<in> set (sanctioned_action_tools L) then 1 else 0)"
  by (auto simp: action_term_def list_ex_iff)

text \<open>P1: the margin between a fix that probes nothing and an escalation that probes everything.\<close>

lemma fix_margin:
  assumes "built_weights W" and "sanctioned_action_tools L \<noteq> []"
    and "\<exists>t\<in>set (tier_1_successes a). t \<in> set (sanctioned_action_tools L)"
    and "\<not> (\<exists>t\<in>set (tier_1_successes b). t \<in> set (sanctioned_action_tools L))"
    and "value_of (root_cause_term L d) \<le> value_of (root_cause_term L c)"
    and "w_budget W * value_of (budget_term L b) - w_budget W * value_of (budget_term L a) < w_action W - w_process W"
  shows "points str_of re_search L b d W < points str_of re_search L a c W"
proof -
  note w = built_weightsD[OF assms(1)]
  have "w_process W * value_of (process_term str_of re_search L b) \<le> w_process W"
    using w(4) term_values(4)[of str_of re_search L b] by (simp add: mult_left_le)
  moreover have "0 \<le> w_process W * value_of (process_term str_of re_search L a)"
    using w(4) term_values(4)[of str_of re_search L a] by simp
  moreover have "w_root_cause W * value_of (root_cause_term L d) \<le> w_root_cause W * value_of (root_cause_term L c)"
    using w(1) assms(5) by simp
  ultimately show ?thesis unfolding points_def action_value[OF assms(2)] using assms(3,4,6) by simp
qed

end
