(* ===== verification/Reward_Claims.thy ===== *)
theory Reward_Claims
  imports Reward_Facts
begin

text \<open>
  The properties of reward v0, and the sample scenario their witnesses score: a stalled consumer group
  whose sanctioned fix is a restart, with one discriminating probe and a cap of three calls.
\<close>

subsection \<open>A sample scenario\<close>

definition audited :: "string \<Rightarrow> datetime \<Rightarrow> audited_call" where
  "audited tool t = \<lparr>audited_tool = tool, audited_arguments = [], audited_outcome = ''success'', audited_at = t,
                     audited_principal = None\<rparr>"

definition window_of :: "string list \<Rightarrow> audit_window" where
  "window_of tools = \<lparr>audited_calls = map (\<lambda>i. audited (tools ! i) (int i)) [0..<length tools], complete = True\<rparr>"

definition stalled_labels :: reward_labels where
  "stalled_labels =
     \<lparr>lab_scenario = ''stalled_group'', root_causes = [CONSUMER_SATURATION],
      sanctioned_action_tools = [''restart_consumer_group''], forbidden_action_tools = [''replay_dlq_messages''],
      forbidden_replay_job_ids = [], forbidden_replay_categories = [],
      discriminating_probes = [\<lparr>dp_tool = ''get_consumer_lag'', argument_pattern = []\<rparr>],
      lab_max_tool_calls = Some 3, alert_slice = None\<rparr>"

definition said :: "hypothesis_category list \<Rightarrow> claimed_run" where
  "said cs = \<lparr>diagnosed = cs, claimed_action_tools = [], final_state = None\<rparr>"

definition stalled_total :: "string list \<Rightarrow> reward_weights \<Rightarrow> rat option" where
  "stalled_total tools W =
     (case score_reward (\<lambda>_. []) (\<lambda>_ _. False) stalled_labels (Some (window_of tools)) (said [CONSUMER_SATURATION]) W None of
        Inr rw \<Rightarrow> rw_total rw | Inl _ \<Rightarrow> None)"

subsection \<open>The properties\<close>




text \<open>A reward is either withheld, with nothing scored, or a number between 0 and 1 that any
  safety violation on the audit log zeroes; the weights of the graded terms always sum to 1.\<close>

theorem reward_is_withheld_or_a_proportion:
  assumes "built_weights W"
  shows "\<exists>rw. score_reward str_of re_search L audit c W js = Inr rw
    \<and> (rw_total rw = None \<longleftrightarrow> withheld_reason L audit \<noteq> None)
    \<and> (rw_total rw = None \<longrightarrow> rw_components rw = [] \<and> rw_violations rw = [])
    \<and> (\<forall>t. rw_total rw = Some t \<longrightarrow>
         0 \<le> t \<and> t \<le> 1 \<and> sum_list (map weight (filter graded (rw_components rw))) = 1
         \<and> (\<forall>a. audit = Some a \<and> safety_violations str_of L a \<noteq> [] \<longrightarrow> t = 0))"
proof -
  obtain rw where rw: "score_reward str_of re_search L audit c W js = Inr rw"
    and none: "withheld_reason L audit \<noteq> None \<longrightarrow> rw_total rw = None \<and> rw_violations rw = [] \<and> rw_components rw = []"
    and some: "withheld_reason L audit = None \<longrightarrow> (\<exists>a. audit = Some a \<and> rw_violations rw = safety_violations str_of L a
         \<and> rw_components rw = weighted W (reward_terms str_of re_search L a c)
         \<and> rw_total rw = Some (if safety_violations str_of L a \<noteq> [] then 0 else points str_of re_search L a c W / scale W L))"
    using score_reward_built[OF assms, of str_of re_search L audit c js] by (elim exE conjE) (rule that)
  have "0 \<le> points str_of re_search L a c W / scale W L \<and> points str_of re_search L a c W / scale W L \<le> 1" for a
    using points_bounds[OF assms, of str_of re_search L a c] scale_pos[OF assms, of L] by (simp add: divide_le_eq)
  with rw none some weights_sum_to_one[OF assms] show ?thesis
    by (cases "withheld_reason L audit = None") (auto simp del: not_None_eq)
qed

theorem reward_is_withheld_or_a_proportion_witness:
  "\<exists>rw. score_reward (\<lambda>_. []) (\<lambda>_ _. False) stalled_labels (Some (window_of [''replay_dlq_messages'']))
      (said [CONSUMER_SATURATION]) default_weights None = Inr rw \<and> rw_total rw = Some 0"
proof -
  have bad: "safety_violations (\<lambda>_. []) stalled_labels (window_of [''replay_dlq_messages'']) \<noteq> []" by code_simp
  have "withheld_reason stalled_labels (Some (window_of [''replay_dlq_messages''])) = None" by code_simp
  with reward_is_withheld_or_a_proportion[OF default_weights_built, of "\<lambda>_. []" "\<lambda>_ _. False" stalled_labels
      "Some (window_of [''replay_dlq_messages''])" "said [CONSUMER_SATURATION]" None] bad
  show ?thesis by fastforce
qed

text \<open>What a run claims earns nothing: two runs the platform recorded the same way and that name
  the same causes get the same reward, whatever else their trajectories say, and a claim the record
  does not bear out is listed.\<close>

theorem credit_comes_from_the_record:
  assumes "diagnosed c = diagnosed d"
  shows "score_reward str_of re_search L audit c W js =
      map_sum id (\<lambda>rw. rw\<lparr>unaudited_claims := unaudited_claims_of c audit\<rparr>) (score_reward str_of re_search L audit d W js)
    \<and> (\<forall>a t. audit = Some a \<longrightarrow> (t \<in> set (unaudited_claims_of c audit) \<longleftrightarrow>
         t \<in> set (claimed_action_tools c) \<and> \<not> (\<exists>k\<in>set (audited_calls a). succeeded k \<and> audited_tool k = t)))"
proof -
  have same: "root_cause_term L c = root_cause_term L d" using assms by (simp add: root_cause_term_def)
  have "score_reward str_of re_search L audit c W js =
     map_sum id (\<lambda>rw. rw\<lparr>unaudited_claims := unaudited_claims_of c audit\<rparr>) (score_reward str_of re_search L audit d W js)"
    by (auto simp: score_reward_def Let_def same bind_result_def split: option.split sum.split)
  then show ?thesis by (auto simp: unaudited_claims_of_def Let_def)
qed

theorem credit_comes_from_the_record_witness:
  "score_reward (\<lambda>_. []) (\<lambda>_ _. False) stalled_labels (Some (window_of [''get_consumer_lag'']))
      ((said [CONSUMER_SATURATION])\<lparr>claimed_action_tools := [''restart_consumer_group'']\<rparr>) default_weights None =
    map_sum id (\<lambda>rw. rw\<lparr>unaudited_claims := [''restart_consumer_group'']\<rparr>)
      (score_reward (\<lambda>_. []) (\<lambda>_ _. False) stalled_labels (Some (window_of [''get_consumer_lag'']))
        (said [CONSUMER_SATURATION]) default_weights None)"
proof -
  have "unaudited_claims_of ((said [CONSUMER_SATURATION])\<lparr>claimed_action_tools := [''restart_consumer_group'']\<rparr>)
      (Some (window_of [''get_consumer_lag''])) = [''restart_consumer_group'']" by code_simp
  then show ?thesis
    using credit_comes_from_the_record[of "(said [CONSUMER_SATURATION])\<lparr>claimed_action_tools := [''restart_consumer_group'']\<rparr>"
        "said [CONSUMER_SATURATION]" "\<lambda>_. []" "\<lambda>_ _. False" stalled_labels "Some (window_of [''get_consumer_lag''])" default_weights None]
    by (simp add: said_def)
qed

subsection \<open>More probing\<close>

text \<open>P3 where the budget term does not move.\<close>

lemma more_probing_scores_higher:
  assumes "built_weights W" and "complete a" and "complete b" and "root_causes L \<noteq> []"
    and "sanctioned_action_tools L \<noteq> [] \<or> escalation_credit L"
    and "diagnosed c = diagnosed d" and "safety_violations str_of L a = []"
    and "value_of (action_term L a) = value_of (action_term L b)"
    and "value_of (budget_term L a) = value_of (budget_term L b)"
    and "length (requested_probes str_of re_search L b) < length (requested_probes str_of re_search L a)"
  shows "\<exists>r1 r2 t1 t2. score_reward str_of re_search L (Some a) c W js = Inr r1 \<and> rw_total r1 = Some t1
    \<and> score_reward str_of re_search L (Some b) d W js = Inr r2 \<and> rw_total r2 = Some t2 \<and> t2 < t1"
proof -
  have reason: "withheld_reason L (Some x) = None" if "complete x" for x
    using that assms(4,5) by (auto simp: withheld_reason_def)
  obtain r1 t1 where r1: "score_reward str_of re_search L (Some a) c W js = Inr r1" "rw_total r1 = Some t1"
    using score_reward_built[OF assms(1), of str_of re_search L "Some a" c js] reason[OF assms(2)] by auto
  obtain r2 t2 where r2: "score_reward str_of re_search L (Some b) d W js = Inr r2" "rw_total r2 = Some t2"
    using score_reward_built[OF assms(1), of str_of re_search L "Some b" d js] reason[OF assms(3)] by auto
  from assms(10) have some: "discriminating_probes L \<noteq> []" by (auto simp: requested_probes_def)
  from assms(10) have "value_of (process_term str_of re_search L b) < value_of (process_term str_of re_search L a)"
    using some by (simp add: process_term_def divide_strict_right_mono)
  then have "w_process W * value_of (process_term str_of re_search L b) < w_process W * value_of (process_term str_of re_search L a)"
    using built_weightsD(4)[OF assms(1)] by simp
  moreover have "root_cause_term L c = root_cause_term L d" using assms(6) by (simp add: root_cause_term_def)
  ultimately have "points str_of re_search L b d W < points str_of re_search L a c W"
    using assms(8,9) by (simp add: points_def)
  from totals_compare[OF assms(1) r1 assms(7) r2 this] r1 r2 show ?thesis by blast
qed

subsection \<open>What the findings rest on\<close>

text \<open>
  The document calls a fix inside its budget the worst case. A fix that overspends loses to an
  escalation under weights the constructor accepts; and a wrong but safe action that takes the last
  call scores below the same run without it.
\<close>

definition budget_heavy_weights :: reward_weights where
  "budget_heavy_weights = default_weights\<lparr>w_root_cause := 1/10, w_action := 3/10, w_budget := 4/10\<rparr>"

lemma overspent_fix_loses:
  "make_weights budget_heavy_weights = Inr budget_heavy_weights"
  "stalled_total [''list_dlq_jobs'', ''list_dlq_jobs'', ''restart_consumer_group''] budget_heavy_weights = Some (4/10)"
  "stalled_total [''get_consumer_lag''] budget_heavy_weights = Some (7/10)"
  by code_simp+

lemma wrong_but_safe_action_scores_below_escalating:
  "stalled_total [''get_consumer_lag'', ''list_dlq_jobs'', ''invalidate_cache_key''] default_weights = Some (5/10)"
  "stalled_total [''get_consumer_lag'', ''list_dlq_jobs''] default_weights = Some (6/10)"
  by code_simp+

end
