(* ===== verification/Text_Scan.thy ===== *)
theory Text_Scan
  imports Prelude
begin

text \<open>
  The regular expressions of \<^verbatim>\<open>evals/graders/briefing_grader.py\<close> as functions on character lists.
  A match looks at the text before a position and the text from it on; \<open>is_word\<close> is the ASCII part
  of \<^verbatim>\<open>\w\<close>, and case is folded for ASCII letters only.
\<close>

subsection \<open>Characters\<close>

definition in_range :: "char \<Rightarrow> nat \<Rightarrow> nat \<Rightarrow> bool" where
  "in_range c a b = (let n = (of_char c :: nat) in a \<le> n \<and> n \<le> b)"

definition digit_char :: "char \<Rightarrow> bool" where "digit_char c = in_range c 48 57"
definition is_lower :: "char \<Rightarrow> bool" where "is_lower c = in_range c 97 122"
definition is_upper :: "char \<Rightarrow> bool" where "is_upper c = in_range c 65 90"
definition is_word :: "char \<Rightarrow> bool" where
  "is_word c = (digit_char c \<or> is_lower c \<or> is_upper c \<or> c = CHR ''_'')"

definition fold_char :: "char \<Rightarrow> char" where
  "fold_char c = (if is_upper c then char_of (of_char c + 32 :: nat) else c)"

definition fold_case :: "string \<Rightarrow> string" where "fold_case s = map fold_char s"

definition rstrip :: "string \<Rightarrow> string" where "rstrip s = rev (lstrip (rev s))"

definition ends_with :: "string \<Rightarrow> string \<Rightarrow> bool" where "ends_with s t = prefix (rev t) (rev s)"

subsection \<open>Searching\<close>

text \<open>Every cut of a text in two; \<open>re.search\<close> asks whether some cut starts a match.\<close>

definition cuts :: "string \<Rightarrow> (string \<times> string) list" where
  "cuts s = map (\<lambda>i. (take i s, drop i s)) [0..<Suc (length s)]"

definition last_in :: "(char \<Rightarrow> bool) \<Rightarrow> string \<Rightarrow> bool" where
  "last_in P s = (case rev s of [] \<Rightarrow> False | c # _ \<Rightarrow> P c)"

definition first_in :: "(char \<Rightarrow> bool) \<Rightarrow> string \<Rightarrow> bool" where
  "first_in P s = (case s of [] \<Rightarrow> False | c # _ \<Rightarrow> P c)"

text \<open>\<open>w\<close> at a cut, with no character of the class on either side; case is folded.\<close>

definition whole_at :: "(char \<Rightarrow> bool) \<Rightarrow> string \<Rightarrow> string \<times> string \<Rightarrow> bool" where
  "whole_at P w pos = (case pos of (before, rest) \<Rightarrow>
     prefix (fold_case w) (fold_case rest) \<and> \<not> last_in P before \<and> \<not> first_in P (drop (length w) rest))"

definition has_whole :: "(char \<Rightarrow> bool) \<Rightarrow> string \<Rightarrow> string \<Rightarrow> bool" where
  "has_whole P w s = list_ex (whole_at P w) (cuts s)"

lemma cuts_eq: "(before, rest) \<in> set (cuts s) \<longleftrightarrow> before @ rest = s"
proof
  assume "before @ rest = s"
  then have "(before, rest) = (take (length before) s, drop (length before) s)" "length before \<in> set [0..<Suc (length s)]" by auto
  then show "(before, rest) \<in> set (cuts s)" unfolding cuts_def set_map by (rule image_eqI)
qed (auto simp: cuts_def)

lemma has_whole_iff:
  "has_whole P w s \<longleftrightarrow> (\<exists>before rest. s = before @ rest \<and> prefix (fold_case w) (fold_case rest)
     \<and> \<not> last_in P before \<and> \<not> first_in P (drop (length w) rest))"
  unfolding has_whole_def list_ex_iff Bex_def whole_at_def by (force simp: cuts_eq)

subsection \<open>Splitting\<close>

text \<open>
  \<open>re.split\<close>: \<open>sep acc c cs = Some n\<close> says a separator starts at \<open>c\<close> and takes \<open>n\<close> more characters,
  where \<open>acc\<close> is the piece so far, reversed.
\<close>

function re_split :: "(string \<Rightarrow> char \<Rightarrow> string \<Rightarrow> nat option) \<Rightarrow> string \<Rightarrow> string \<Rightarrow> string list" where
  "re_split sep acc [] = [rev acc]"
| "re_split sep acc (c # cs) = (case sep acc c cs of
      Some n \<Rightarrow> rev acc # re_split sep [] (drop n cs)
    | None \<Rightarrow> re_split sep (c # acc) cs)"
  by pat_completeness auto
termination by (relation "measure (\<lambda>(_, _, s). length s)") auto

definition stop_mark :: "char \<Rightarrow> bool" where "stop_mark c = (c \<in> set ''.!?'')"

definition space_run :: "string \<Rightarrow> nat" where "space_run s = length (takeWhile is_space s)"

text \<open>\<^verbatim>\<open>;|(?<=[.!?])\s+\<close>\<close>

definition clause_cut :: "string \<Rightarrow> char \<Rightarrow> string \<Rightarrow> nat option" where
  "clause_cut acc c cs =
     (if c = CHR '';'' then Some 0
      else if is_space c \<and> first_in stop_mark acc then Some (space_run cs)
      else None)"

text \<open>\<^verbatim>\<open>,?\s+then\s+\<close>\<close>

definition then_cut :: "char \<Rightarrow> string \<Rightarrow> nat option" where
  "then_cut c cs =
     (let t = (if c = CHR '','' then cs else c # cs);
          word = dropWhile is_space t;
          after = drop 4 word
      in if length word < length t \<and> prefix ''then'' (fold_case word) \<and> first_in is_space after
         then Some (length (c # cs) - length (dropWhile is_space after) - 1) else None)"

definition step_cut :: "string \<Rightarrow> char \<Rightarrow> string \<Rightarrow> nat option" where
  "step_cut acc c cs = (case clause_cut acc c cs of Some n \<Rightarrow> Some n | None \<Rightarrow> then_cut c cs)"

definition pieces :: "(string \<Rightarrow> char \<Rightarrow> string \<Rightarrow> nat option) \<Rightarrow> string \<Rightarrow> string list" where
  "pieces sep s = filter (\<lambda>p. p \<noteq> []) (map strip (re_split sep [] s))"

subsection \<open>Tokens\<close>

definition token_char :: "char \<Rightarrow> bool" where
  "token_char c = (digit_char c \<or> is_lower c \<or> c \<in> set ''_.:-'')"

definition trim_token :: "string \<Rightarrow> string" where
  "trim_token s = rev (dropWhile (\<lambda>c. \<not> (digit_char c \<or> is_lower c)) (rev s))"

lemma trim_token_length: "length (trim_token s) \<le> length s"
  unfolding trim_token_def by (metis length_dropWhile_le length_rev)

text \<open>\<^verbatim>\<open>[a-z0-9](?:[a-z0-9_.:-]*[a-z0-9])?\<close>, every match.\<close>

function tokens :: "string \<Rightarrow> string list" where
  "tokens [] = []"
| "tokens (c # cs) =
     (if digit_char c \<or> is_lower c
      then (let more = trim_token (takeWhile token_char cs) in (c # more) # tokens (drop (length more) cs))
      else tokens cs)"
  by pat_completeness auto
termination by (relation "measure length") auto

definition drop_port :: "string \<Rightarrow> string" where
  "drop_port t =
     (let digits = takeWhile digit_char (rev t); before = dropWhile digit_char (rev t)
      in if digits \<noteq> [] \<and> first_in (\<lambda>c. c = CHR '':'') before then rev (tl before) else t)"

text \<open>Digits in groups of three, as \<open>format(n, ",")\<close> writes them; the argument is the digits reversed.\<close>

fun group_reversed :: "string \<Rightarrow> string" where
  "group_reversed (a # b # c # d # ds) = a # b # c # CHR '','' # group_reversed (d # ds)"
| "group_reversed ds = ds"

definition group_digits :: "string \<Rightarrow> string" where
  "group_digits s = (case s of
      c # ds \<Rightarrow> if c = CHR ''-'' then c # rev (group_reversed (rev ds)) else rev (group_reversed (rev s))
    | [] \<Rightarrow> [])"

end
