(* ===== verification/Briefing.thy ===== *)
theory Briefing
  imports Root_Cause Remediation
begin

text \<open>
  The handoff of \<^verbatim>\<open>agent/briefing.py\<close>: what a human is shown when a run ends, built from the run's
  record alone, with the attempt block of \<^verbatim>\<open>agent/planner_context.py\<close> and the context
  \<^verbatim>\<open>agent/briefing_enrichment.py\<close> shows the briefing writer. \<open>str_of\<close> and \<open>repr_of\<close> are Python's
  \<open>str\<close> and \<open>repr\<close> on a value.
\<close>

subsection \<open>The trail\<close>

record probe_summary =
  ps_tool :: string
  ps_text :: summary
  ps_arguments :: dict

definition trail_of :: "evidence_entry list \<Rightarrow> probe_summary list" where
  "trail_of es =
     map (\<lambda>e. \<lparr>ps_tool = tool_name e, ps_text = result_summary e, ps_arguments = arguments e\<rparr>)
       (filter (\<lambda>e. \<not> is_marker (tool_name e)) es)"

definition render_arguments :: "(val \<Rightarrow> string) \<Rightarrow> dict \<Rightarrow> summary" where
  "render_arguments repr_of args =
     Say '', '' (map (\<lambda>(k, v). Say ''{}={!r}'' [Word k, Word (repr_of v)]) args)"

definition render_probe :: "(val \<Rightarrow> string) \<Rightarrow> probe_summary \<Rightarrow> summary" where
  "render_probe repr_of p =
     Say ''  - {}({}) -> {}'' [Word (ps_tool p), render_arguments repr_of (ps_arguments p), ps_text p]"

definition trail_heading :: summary where "trail_heading = Word ''Investigation trail:''"
definition no_trail_line :: summary where "no_trail_line = Word ''No probes were run before escalation.''"

definition render_trail :: "(val \<Rightarrow> string) \<Rightarrow> probe_summary list \<Rightarrow> summary list" where
  "render_trail repr_of ps = (if ps = [] then [no_trail_line] else trail_heading # map (render_probe repr_of) ps)"

subsection \<open>The causes and the attribution, as both readers are shown them\<close>

definition incidents_heading :: summary where "incidents_heading = Word ''Incidents this run named:''"
definition remainder_heading :: summary where
  "remainder_heading = Word ''Remaining (not addressed by this run):''"

definition named_slot :: "incident_slot \<Rightarrow> summary" where
  "named_slot s = Say ''{} / {} (confidence {:.2f})''
     [Word (category_value (slot_category s)), Word (slot_name s), Frac (slot_confidence s)]"

definition slot_line :: "string \<Rightarrow> incident_slot \<Rightarrow> summary" where
  "slot_line which_slot s = Say ''  - {}: {} -- {}''
     [Word which_slot, named_slot s,
      Word (if addressed s then ''an action in this run targeted this cause''
            else ''no action in this run targeted this cause'')]"

definition render_incidents :: "incident_slots \<Rightarrow> summary list" where
  "render_incidents s = (case primary s of
      None \<Rightarrow> []
    | Some p \<Rightarrow>
        [incidents_heading, slot_line ''PRIMARY'' p] @ map (slot_line ''SECONDARY'') (secondary s)
        @ (if unresolved_extra s = [] then []
           else remainder_heading # map (\<lambda>x. Say ''  - {}'' [named_slot x]) (unresolved_extra s)))"

definition attribution_heading :: summary where
  "attribution_heading = Word ''Recovery attribution (from this run's own readings):''"

fun attribution_value :: "attribution_verdict \<Rightarrow> string" where
  "attribution_value ATTRIBUTED = ''attributed''"
| "attribution_value CLEARED_ON_ITS_OWN = ''cleared_on_its_own''"
| "attribution_value CANNOT_ATTRIBUTE = ''cannot_attribute''"

definition render_attribution :: "attribution_read option \<Rightarrow> summary list" where
  "render_attribution r = (case r of
      None \<Rightarrow> []
    | Some read \<Rightarrow>
        [attribution_heading,
         Say ''  - VERDICT: {} -- {} read through {}''
           [Word (attribution_value (attr_verdict read)), Word (attr_resource read), Word (attr_probe read)],
         Say ''  - WHY: {}.'' [attr_detail read]]
        @ (if verdict_sentence (attr_verdict read) = [] then []
           else [Say ''  - REPORT IT AS: {}.'' [Word (verdict_sentence (attr_verdict read))]]))"

subsection \<open>The earlier attempts\<close>

definition already_attempted_heading :: summary where
  "already_attempted_heading = Word ''Already attempted in this incident -- do NOT repeat:''"

text \<open>\<open>None\<close> is the empty text.\<close>

definition render_already_attempted :: "evidence_entry list \<Rightarrow> summary option" where
  "render_already_attempted es =
     (let attempts = filter (\<lambda>e. tool_name e = attempt_failed_marker) es in
      if attempts = [] then None
      else Some (Say ''lines'' (already_attempted_heading # map (\<lambda>e. Say ''  - {}'' [result_summary e]) attempts)))"

subsection \<open>The briefing\<close>

record attempted_action =
  attempted_tool :: string
  attempted_args :: dict

record escalation_briefing =
  br_incident_id :: string
  br_final_state :: incident_state
  alert_summary :: summary
  escalation_reason :: "summary option"
  attempted_action :: "attempted_action option"
  br_incidents :: incident_slots
  br_attribution :: "attribution_read option"
  investigation_trail :: "probe_summary list"
  findings :: string
  recommendation :: string
  budget_used :: "(string \<times> val) list"

definition terminal_marker :: "run_state \<Rightarrow> evidence_entry option" where
  "terminal_marker rs =
     (if \<not> is_terminal (state rs) \<or> state rs = RESOLVED then None
      else if evidence rs = [] then None
      else if is_marker (tool_name (last (evidence rs))) then Some (last (evidence rs)) else None)"

definition escalation_reason_of :: "evidence_entry option \<Rightarrow> evidence_entry list \<Rightarrow> summary option" where
  "escalation_reason_of marker es =
     (let reason = (case marker of None \<Rightarrow> None | Some m \<Rightarrow> if result_summary m = Word [] then None else Some (result_summary m))
      in case render_already_attempted es of
           None \<Rightarrow> reason
         | Some attempted \<Rightarrow> (case reason of None \<Rightarrow> Some attempted | Some r \<Rightarrow> Some (Say ''paragraphs'' [r, attempted])))"

definition attempted_action_of :: "evidence_entry option \<Rightarrow> attempted_action option" where
  "attempted_action_of marker = (case marker of
      None \<Rightarrow> None
    | Some m \<Rightarrow>
        (case get (arguments m) ''attempted_tool'' of
           Some (VStr tool) \<Rightarrow> Some \<lparr>attempted_tool = tool,
               attempted_args = (case get (arguments m) ''attempted_arguments'' of Some (VDict d) \<Rightarrow> d | _ \<Rightarrow> [])\<rparr>
         | _ \<Rightarrow> None))"

text \<open>\<open>a or b\<close> on two optional values: the first unless it is falsy.\<close>

definition or_else :: "val option \<Rightarrow> val option \<Rightarrow> val option" where
  "or_else a b = (case a of Some v \<Rightarrow> if truthy (Some v) then Some v else b | None \<Rightarrow> b)"

definition render_alert_summary :: "(val \<Rightarrow> string) \<Rightarrow> run_state \<Rightarrow> summary" where
  "render_alert_summary str_of rs =
     (let a = alert rs;
          field = (\<lambda>k d. case get a k of None \<Rightarrow> d | Some v \<Rightarrow> str_of v);
          shown = (\<lambda>label v. case v of None \<Rightarrow> [] | Some VNull \<Rightarrow> [] | Some x \<Rightarrow> [Say label [Word (str_of x)]])
      in Say '' ''
           ([Say ''source={}'' [Word (field ''source'' ''unknown'')], Say ''severity={}'' [Word (field ''severity'' ''unknown'')]]
            @ shown ''fingerprint={}'' (get a ''fingerprint'')
            @ shown ''group={}'' (or_else (get a ''consumer_group'') (get a ''group''))))"

definition render_briefing :: "(val \<Rightarrow> string) \<Rightarrow> (rat \<Rightarrow> string) \<Rightarrow> run_state \<Rightarrow> escalation_briefing" where
  "render_briefing str_of str_decimal rs =
     \<lparr>br_incident_id = incident_id rs, br_final_state = state rs, alert_summary = render_alert_summary str_of rs,
      escalation_reason = escalation_reason_of (terminal_marker rs) (evidence rs),
      attempted_action = attempted_action_of (terminal_marker rs), br_incidents = incidents_of str_of rs,
      br_attribution = attribution_of rs, investigation_trail = trail_of (evidence rs), findings = [],
      recommendation = [],
      budget_used = [(''tool_calls'', VInt (tool_calls_used (budget rs))), (''tokens'', VInt (tokens_used (budget rs))),
                     (''wall_seconds'', VFloat (of_int (wall_us_used (budget rs)) / 1000000)),
                     (''usd'', VStr (str_decimal (usd_used (budget rs))))]\<rparr>"

subsection \<open>What the briefing writer is shown\<close>

definition format_context :: "(val \<Rightarrow> string) \<Rightarrow> escalation_briefing \<Rightarrow> summary list" where
  "format_context repr_of b =
     [Say ''Incident {}'' [Word (br_incident_id b)], Say ''Final state: {}'' [Word (state_value (br_final_state b))],
      Say ''Alert: {}'' [alert_summary b]]
     @ (case escalation_reason b of None \<Rightarrow> [] | Some r \<Rightarrow> [Say ''Why the run ended: {}'' [r]])
     @ (case attempted_action b of None \<Rightarrow> []
        | Some a \<Rightarrow> [Say ''Tier-1 action ALREADY ATTEMPTED: {} {}'' [Word (attempted_tool a), Word (repr_of (VDict (attempted_args a)))]])
     @ render_incidents (br_incidents b) @ render_attribution (br_attribution b)
     @ render_trail repr_of (investigation_trail b)
     @ [Say ''Budget used: {}'' [Word (repr_of (VDict (budget_used b)))]]"

text \<open>Every line the deterministic half of a briefing gives both readers: what it leaves out of a run.\<close>

lemma trail_leaves_out_the_markers:
  "p \<in> set (trail_of es) \<longleftrightarrow>
     (\<exists>e\<in>set es. \<not> is_marker (tool_name e) \<and> ps_tool p = tool_name e \<and> ps_text p = result_summary e
        \<and> ps_arguments p = arguments e)"
  by (cases p) (auto simp: trail_of_def)

lemma attempts_reach_the_reader:
  assumes "e \<in> set es" and "tool_name e = attempt_failed_marker"
  shows "\<exists>ls. Say ''  - {}'' [result_summary e] \<in> set ls
    \<and> escalation_reason_of marker es \<in> {Some (Say ''lines'' ls)} \<union> (\<lambda>x. Some (Say ''paragraphs'' [x, Say ''lines'' ls])) ` UNIV"
proof -
  let ?ls = "already_attempted_heading # map (\<lambda>e. Say ''  - {}'' [result_summary e])
      (filter (\<lambda>e. tool_name e = attempt_failed_marker) es)"
  from assms have "render_already_attempted es = Some (Say ''lines'' ?ls)"
    by (auto simp: render_already_attempted_def Let_def filter_empty_conv)
  then have "escalation_reason_of marker es \<in> {Some (Say ''lines'' ?ls)} \<union> (\<lambda>x. Some (Say ''paragraphs'' [x, Say ''lines'' ?ls])) ` UNIV"
    by (simp add: escalation_reason_of_def split: option.split)
  then show ?thesis by (rule exI[where x = ?ls, OF conjI[rotated]]) (use assms in auto)
qed

end
