(* ===== verification/Expectation.thy ===== *)
theory Expectation
  imports Briefing_Grader
begin

text \<open>
  What a scenario may assert of a run (\<^verbatim>\<open>evals/graders/deterministic.py\<close>): the comparators, the path
  walker, the evidence and argument claims, and the validators that refuse a claim which could not
  fail or could not hold. \<open>text_lib\<close> is the text the model leaves abstract. The field names of the
  registry's output models, which no theory models, are the parameter \<open>output_names\<close>.
\<close>

subsection \<open>Paths\<close>

fun split_dots :: "string \<Rightarrow> string list" where
  "split_dots [] = [[]]"
| "split_dots (c # cs) =
     (if c = CHR ''.'' then [] # split_dots cs
      else case split_dots cs of [] \<Rightarrow> [[c]] | s # ss \<Rightarrow> (c # s) # ss)"

definition descends :: "string \<Rightarrow> bool" where "descends segment = ends_with segment ''[]''"

definition segment_key :: "string \<Rightarrow> string" where
  "segment_key segment = (if descends segment then take (length segment - 2) segment else segment)"

definition path_step :: "val list \<Rightarrow> string \<Rightarrow> val list" where
  "path_step vs segment =
     (let found = List.map_filter (\<lambda>v. case v of VDict d \<Rightarrow> get d (segment_key segment) | _ \<Rightarrow> None) vs
      in if descends segment then concat (map (\<lambda>v. case v of VList xs \<Rightarrow> xs | _ \<Rightarrow> []) found) else found)"

definition resolve_segments :: "dict \<Rightarrow> string list \<Rightarrow> val list" where
  "resolve_segments payload segments = foldl path_step [VDict payload] segments"

definition resolve_path :: "dict \<Rightarrow> string \<Rightarrow> val list" where
  "resolve_path payload path = resolve_segments payload (split_dots path)"

subsection \<open>Comparators\<close>

definition is_bool :: "val \<Rightarrow> bool" where "is_bool v = (case v of VBool _ \<Rightarrow> True | _ \<Rightarrow> False)"

definition values_match :: "val \<Rightarrow> val \<Rightarrow> bool" where
  "values_match operand v = (if is_bool operand \<or> is_bool v then operand = v else py_eq operand v)"

record comparator =
  equals :: "val option"
  not_equals :: "val option"
  at_least :: "rat option"
  at_most :: "rat option"
  is_null :: "bool option"

definition comparators_set :: "'a comparator_scheme \<Rightarrow> nat" where
  "comparators_set c =
     length (filter id [equals c \<noteq> None, not_equals c \<noteq> None, at_least c \<noteq> None, at_most c \<noteq> None, is_null c \<noteq> None])"

definition exactly_one_comparator :: "'a comparator_scheme \<Rightarrow> bool" where
  "exactly_one_comparator c = (comparators_set c = 1)"

definition satisfied_by :: "'a comparator_scheme \<Rightarrow> val \<Rightarrow> bool" where
  "satisfied_by c v =
     (case is_null c of
        Some b \<Rightarrow> (v = VNull) = b
      | None \<Rightarrow> (case at_least c of
          Some floor_value \<Rightarrow> (case json_number v of None \<Rightarrow> False | Some q \<Rightarrow> floor_value \<le> q)
        | None \<Rightarrow> (case at_most c of
            Some ceil_value \<Rightarrow> (case json_number v of None \<Rightarrow> False | Some q \<Rightarrow> q \<le> ceil_value)
          | None \<Rightarrow> (case not_equals c of
              Some x \<Rightarrow> \<not> values_match x v
            | None \<Rightarrow> values_match (case equals c of None \<Rightarrow> VNull | Some x \<Rightarrow> x) v))))"

definition describe_comparator :: "'a comparator_scheme \<Rightarrow> summary" where
  "describe_comparator c =
     (case is_null c of
        Some b \<Rightarrow> Say ''is_null {}'' [Reading (VBool b)]
      | None \<Rightarrow> (case at_least c of
          Some q \<Rightarrow> Say ''at_least {}'' [Frac q]
        | None \<Rightarrow> (case at_most c of
            Some q \<Rightarrow> Say ''at_most {}'' [Frac q]
          | None \<Rightarrow> (case not_equals c of
              Some x \<Rightarrow> Say ''not_equals {!r}'' [Reading x]
            | None \<Rightarrow> Say ''equals {!r}'' [Reading (case equals c of None \<Rightarrow> VNull | Some x \<Rightarrow> x)]))))"

subsection \<open>Claims\<close>

record row_selector = comparator +
  row_field :: string

datatype which_entries = Any_entry | Last_entry | Sum_entries
datatype which_rows = Any_row | All_rows

record field_claim = comparator +
  claim_tools :: "string list"
  claim_field :: string
  which_entries :: which_entries
  which_rows :: which_rows
  where_row :: "row_selector option"
  before_tools :: "string list"
  after_tools :: "string list"
  call_arguments :: "dict option"

datatype evidence_claim = Field_claim field_claim | Any_of "field_claim list"

record argument_claim = comparator +
  arg_tools :: "string list"
  arg_path :: string

definition where_path_errors :: "string \<Rightarrow> row_selector option \<Rightarrow> string option" where
  "where_path_errors field_path sel =
     (case sel of
        None \<Rightarrow> None
      | Some _ \<Rightarrow>
          (let segments = split_dots field_path in
           if \<not> list_ex descends segments then Some ''where needs a row path''
           else if descends (last segments) then Some ''where selects and grades the same value''
           else None))"

text \<open>The validators, field by field and then in the order they are declared.\<close>

definition boundary_problem :: "string list \<Rightarrow> string option" where
  "boundary_problem tools =
     (case find (\<lambda>t. is_marker t \<or> \<not> registered t) tools of
        None \<Rightarrow> None
      | Some t \<Rightarrow> Some (if is_marker t then ''a bookkeeping marker'' else ''not a registered tool''))"

definition accepted_arguments :: "string list \<Rightarrow> string list" where
  "accepted_arguments tools = concat (map (\<lambda>t. map field_name (input_model t)) (filter registered tools))"

definition make_row_selector :: "row_selector \<Rightarrow> row_selector result" where
  "make_row_selector s =
     (if row_field s = [] then Inl (ValueError ''min_length'')
      else if \<not> exactly_one_comparator s then Inl (ValueError ''needs exactly one comparator'')
      else Inr s)"

definition make_field_claim :: "field_claim \<Rightarrow> field_claim result" where
  "make_field_claim c =
     (if claim_tools c = [] \<or> claim_field c = [] then Inl (ValueError ''min_length'')
      else case (boundary_problem (before_tools c), boundary_problem (after_tools c)) of
        (Some e, _) \<Rightarrow> Inl (ValueError e)
      | (None, Some e) \<Rightarrow> Inl (ValueError e)
      | (None, None) \<Rightarrow>
          if \<not> exactly_one_comparator c then Inl (ValueError ''needs exactly one comparator'')
          else if which_entries c = Sum_entries \<and> which_rows c \<noteq> Any_row then Inl (ValueError ''sum has no rows to quantify'')
          else if which_entries c = Sum_entries \<and> is_null c \<noteq> None then Inl (ValueError ''sum needs a numeric comparator'')
          else (case where_path_errors (claim_field c) (where_row c) of
              Some e \<Rightarrow> Inl (ValueError e)
            | None \<Rightarrow>
                if before_tools c \<noteq> [] \<and> after_tools c \<noteq> [] then Inl (ValueError ''one ordering boundary at a time'')
                else if set (claim_tools c) \<inter> set (after_tools c) \<noteq> {} then Inl (ValueError ''boundary is the observation'')
                else if (case call_arguments c of None \<Rightarrow> False | Some args \<Rightarrow> args = []) then Inl (ValueError ''empty call_arguments'')
                else if (case call_arguments c of None \<Rightarrow> False
                    | Some args \<Rightarrow> \<not> set (map fst args) \<subseteq> set (accepted_arguments (claim_tools c)))
                then Inl (ValueError ''call_arguments no tool accepts'')
                else if set (claim_tools c) \<inter> set (before_tools c) \<noteq> {} then Inl (ValueError ''boundary is the observation'')
                else Inr c))"

definition make_any_of :: "field_claim list \<Rightarrow> evidence_claim result" where
  "make_any_of members =
     (if length members < 2 then Inl (ValueError ''min_length'')
      else if list_ex (\<lambda>m. which_entries m = Sum_entries) members then Inl (ValueError ''a volume claim in a disjunction'')
      else Inr (Any_of members))"

fun leaf_claims :: "evidence_claim list \<Rightarrow> field_claim list" where
  "leaf_claims [] = []"
| "leaf_claims (Field_claim c # cs) = c # leaf_claims cs"
| "leaf_claims (Any_of members # cs) = members @ leaf_claims cs"

definition make_argument_claim :: "argument_claim \<Rightarrow> argument_claim result" where
  "make_argument_claim c =
     (if arg_tools c = [] \<or> arg_path c = [] then Inl (ValueError ''min_length'')
      else case boundary_problem (arg_tools c) of
        Some e \<Rightarrow> Inl (ValueError e)
      | None \<Rightarrow> if \<not> exactly_one_comparator c then Inl (ValueError ''needs exactly one comparator'') else Inr c)"

subsection \<open>The scenario's expectation\<close>

record scenario_expectation =
  ex_name :: string
  expected_terminal_state :: incident_state
  expected_evidence_contains :: "string list"
  expected_evidence_fields :: "evidence_claim list"
  ex_max_tool_calls :: "int option"
  expected_action_tools :: "string list"
  ex_forbidden_job_ids :: "string list"
  ex_forbidden_categories :: "string list"
  expected_action_arguments :: "argument_claim list"
  ex_forbidden_tools :: "string list"
  forbidden_evidence_contains :: "string list"
  expect_briefing_contains :: "string list"

definition replay_categories :: "string list" where
  "replay_categories = [''replay_safe'', ''wait_and_replay'']"

text \<open>\<^verbatim>\<open>^"[^"]+":\<close>\<close>

definition serialized_fragment :: "string \<Rightarrow> bool" where
  "serialized_fragment s = (case s of
      [] \<Rightarrow> False
    | c # cs \<Rightarrow> c = CHR 0x22 \<and> takeWhile (\<lambda>x. x \<noteq> CHR 0x22) cs \<noteq> []
        \<and> prefix [CHR 0x22, CHR '':''] (dropWhile (\<lambda>x. x \<noteq> CHR 0x22) cs))"

definition presence_problem :: "string list \<Rightarrow> string \<Rightarrow> string option" where
  "presence_problem output_names item =
     (if strip item = [] then Some ''empty evidence substring''
      else if item = ''verified'' then Some ''fake-green''
      else if serialized_fragment item then Some ''a serialized-JSON fragment''
      else if list_ex (\<lambda>n. sublist item n) output_names then Some ''key text''
      else None)"

definition negative_problem :: "string \<Rightarrow> string option" where
  "negative_problem item =
     (if strip item = [] then Some ''empty substring''
      else if serialized_fragment item then Some ''a serialized-JSON fragment''
      else None)"

definition category_problem :: "string \<Rightarrow> string option" where
  "category_problem c =
     (if c = ''human_required'' then Some ''already refused''
      else if c \<notin> set replay_categories then Some ''not a replay category'' else None)"

definition first_problem :: "('a \<Rightarrow> string option) \<Rightarrow> 'a list \<Rightarrow> string option" where
  "first_problem problem xs = (case List.map_filter problem xs of [] \<Rightarrow> None | p # _ \<Rightarrow> Some p)"

definition expectation_problems :: "string list \<Rightarrow> scenario_expectation \<Rightarrow> string option list" where
  "expectation_problems output_names x =
     [first_problem (presence_problem output_names) (expected_evidence_contains x),
      first_problem category_problem (ex_forbidden_categories x),
      first_problem (\<lambda>t. boundary_problem [t]) (ex_forbidden_tools x),
      first_problem negative_problem (forbidden_evidence_contains x),
      first_problem negative_problem (expect_briefing_contains x),
      (if set (expected_action_tools x) \<inter> set (ex_forbidden_tools x) \<noteq> {}
       then Some ''expected and forbidden'' else None)]"

definition make_expectation :: "string list \<Rightarrow> scenario_expectation \<Rightarrow> scenario_expectation result" where
  "make_expectation output_names x =
     (case List.map_filter id (expectation_problems output_names x) of
        [] \<Rightarrow> Inr x | e # _ \<Rightarrow> Inl (ValueError e))"

subsection \<open>Rows and values\<close>

definition split_row_path :: "string \<Rightarrow> string list \<times> string list" where
  "split_row_path path =
     (let segments = split_dots path;
          tail_rev = takeWhile (\<lambda>s. \<not> descends s) (rev segments)
      in (take (length segments - length tail_rev) segments, rev tail_rev))"

definition selected_values :: "dict \<Rightarrow> string \<Rightarrow> row_selector option \<Rightarrow> val list" where
  "selected_values payload path sel =
     (case sel of
        None \<Rightarrow> resolve_path payload path
      | Some s \<Rightarrow>
          (case split_row_path path of (rows_path, in_row) \<Rightarrow>
             concat (map (\<lambda>row. case row of
                 VDict d \<Rightarrow>
                   if list_ex (satisfied_by s) (resolve_path d (row_field s)) then resolve_segments d (if in_row = [] then [[]] else in_row) else []
               | _ \<Rightarrow> []) (resolve_segments payload rows_path))))"

subsection \<open>What the walker and the comparators decide\<close>

lemma split_dots_not_Nil [simp]: "split_dots s \<noteq> []"
  by (cases s) (auto split: list.split)

lemma split_row_path_append: "case split_row_path path of (rows, in_row) \<Rightarrow> rows @ in_row = split_dots path"
  unfolding split_row_path_def Let_def prod.case
  by (metis append_take_drop_id drop_rev length_rev rev_rev_ident takeWhile_eq_take append_eq_conv_conj
      length_append length_takeWhile_le rev_take)

text \<open>A validated comparator asks one question.\<close>

lemma satisfied_by_one:
  assumes "exactly_one_comparator c"
  shows "equals c = Some x \<Longrightarrow> satisfied_by c v = values_match x v"
    and "not_equals c = Some x \<Longrightarrow> satisfied_by c v = (\<not> values_match x v)"
    and "at_least c = Some q \<Longrightarrow> satisfied_by c v = (\<exists>n. json_number v = Some n \<and> q \<le> n)"
    and "at_most c = Some q \<Longrightarrow> satisfied_by c v = (\<exists>n. json_number v = Some n \<and> n \<le> q)"
    and "is_null c = Some b \<Longrightarrow> satisfied_by c v = ((v = VNull) = b)"
  using assms
  by (auto simp: exactly_one_comparator_def comparators_set_def satisfied_by_def split: option.splits if_splits)

lemma values_match_bool [simp]:
  "values_match (VBool b) v \<longleftrightarrow> v = VBool b" "values_match v (VBool b) \<longleftrightarrow> v = VBool b"
  by (auto simp: values_match_def is_bool_def)

end
