(* ===== verification/Graded_Run.thy ===== *)
theory Graded_Run
  imports Grader Live_Run
begin

text \<open>
  The grader over the agent's own runs. A live run keeps \<open>aimed_inv\<close>: from PLANNING on its top
  hypothesis stands at the acting bar, and from REMEDIATING on the ledger names the cause its stored
  plan aims at. With what a RESOLVED run shows, that is what the grader's resolve rules ask.
\<close>

subsection \<open>Planning keeps the ranking\<close>

lemma escalation_hypotheses [simp]:
  "hypotheses (mark rs now tool args s) = hypotheses rs"
  "hypotheses (escalate_remediation rs now r a x) = hypotheses rs"
  "hypotheses (record_plan rs now p) = hypotheses rs"
  by (simp_all add: mark_def record_row_def escalate_remediation_def Let_def record_plan_def with_state_def)

lemma check_output_hypotheses: "check_output L rs now p = Plan_escalates rs' \<Longrightarrow> hypotheses rs' = hypotheses rs"
  by (auto simp: check_output_def Let_def split: if_splits)

lemma plan_once_hypotheses:
  assumes "plan_once P w rs now target = (w', rs1, out)"
  shows "hypotheses rs1 = hypotheses rs" and "out = Plan_escalates rs2 \<Longrightarrow> hypotheses rs2 = hypotheses rs"
  using assms
  by (auto simp: plan_once_def Let_def split: prod.splits sum.splits repair_error.splits dest!: check_output_hypotheses)

definition step_run :: "plan_step \<Rightarrow> run_state option" where
  "step_run out = (case out of Ask_again r _ \<Rightarrow> Some r | Planned r _ \<Rightarrow> Some r | Plan_over r \<Rightarrow> Some r | Plan_threw _ \<Rightarrow> None)"

lemma refusals_keep_hypotheses [simp]:
  "hypotheses (refuse_arguments rs now r) = hypotheses rs"
  "hypotheses (refuse_subject_target rs now p m) = hypotheses rs"
  "hypotheses (refuse_unread_rows rs now p s u) = hypotheses rs"
  "hypotheses (refuse_unlisted_category rs now p l y) = hypotheses rs"
  "hypotheses (refuse_plan rs now p ps) = hypotheses rs"
  "hypotheses (refuse_cleared_before_action rs now p k) = hypotheses rs"
  by (simp_all add: refuse_arguments_def refuse_subject_target_def refuse_unread_rows_def
      refuse_unlisted_category_def refuse_plan_def refuse_cleared_before_action_def)

lemma ask_again_hypotheses:
  "step_run (ask_again_or_stop rs now what v) = Some r \<Longrightarrow> hypotheses r = hypotheses rs"
  by (auto simp: ask_again_or_stop_def step_run_def split: if_splits)

lemma plan_over_hypotheses: "step_run (Plan_over r') = Some r \<Longrightarrow> r = r'"
  by (simp add: step_run_def)

lemma judge_plan_hypotheses: "step_run (judge_plan L rs now p v) = Some r \<Longrightarrow> hypotheses r = hypotheses rs"
  by (auto simp: judge_plan_def Let_def split: option.splits prod.splits if_splits
      dest!: ask_again_hypotheses plan_over_hypotheses) (simp add: step_run_def)

lemma plan_pass_hypotheses:
  assumes "plan_pass P w rs now target v = (w', out)" and "step_run out = Some r"
  shows "hypotheses r = hypotheses rs"
proof -
  obtain w1 rs1 o1 where once: "plan_once P w rs now target = (w1, rs1, o1)" by (metis prod_cases3)
  note h = plan_once_hypotheses[OF once]
  show ?thesis
  proof (cases o1)
    case (Plan_stands p)
    with once assms have "step_run (judge_plan (rem_libs P) rs1 now p v) = Some r" by (auto simp: plan_pass_def)
    from judge_plan_hypotheses[OF this] h(1) show ?thesis by simp
  next
    case (Plan_escalates rs2)
    with once assms h(2) show ?thesis by (auto simp: plan_pass_def step_run_def)
  next
    case (Plan_arguments q)
    with once assms have "step_run (argument_step rs1 now q v) = Some r" by (auto simp: plan_pass_def)
    then have "hypotheses r = hypotheses rs1"
      by (auto simp: argument_step_def split: if_splits dest!: ask_again_hypotheses plan_over_hypotheses)
    with h(1) show ?thesis by simp
  next
    case (Plan_raises err)
    with once assms show ?thesis by (auto simp: plan_pass_def step_run_def)
  qed
qed

lemma plan_loop_recorded:
  "plan_loop P n w rs now target v = Some (w', Inr rs') \<Longrightarrow> state rs' = REMEDIATING \<Longrightarrow> state rs \<noteq> REMEDIATING \<Longrightarrow>
     \<exists>rs1 p. hypotheses rs1 = hypotheses rs \<and> valid_plan p \<and> rs' = record_plan rs1 now p"
proof (induction n arbitrary: w rs v)
  case (Suc n)
  show ?case
  proof (cases "plan_pass P w rs now target v")
    case (Pair w1 out)
    note ok = plan_pass_ok[OF Pair] and h = plan_pass_hypotheses[OF Pair]
    show ?thesis
    proof (cases out)
      case (Ask_again rs1 v1)
      with ok h have s: "state rs1 \<noteq> REMEDIATING" "hypotheses rs1 = hypotheses rs"
        using Suc.prems(3) by (auto simp: plan_step_ok_def step_run_def)
      from Ask_again Pair Suc.prems have "plan_loop P n w1 rs1 now target v1 = Some (w', Inr rs')" by simp
      from Suc.IH[OF this Suc.prems(2) s(1)] s(2) show ?thesis by simp
    next
      case (Planned rs1 p)
      with ok h Pair Suc.prems have "hypotheses rs1 = hypotheses rs" "valid_plan p" "rs' = record_plan rs1 now p"
        by (auto simp: plan_step_ok_def step_run_def)
      then show ?thesis by blast
    qed (use Suc.prems Pair ok in \<open>auto simp: plan_step_ok_def\<close>)
  qed
qed simp

lemma transition_plan_recorded:
  assumes "transition_plan P w rs now = (w', Inr rs')" and "state rs' = REMEDIATING" and "state rs = PLANNING"
  shows "\<exists>rs1 p. hypotheses rs1 = hypotheses rs \<and> valid_plan p \<and> rs' = record_plan rs1 now p"
proof -
  have "\<exists>target. plan_loop P max_plan_calls w rs now target initial_plan_vars = Some (w', Inr rs')"
    using assms(1,2) plan_calls_enough[of P w rs now]
    by (auto simp: transition_plan_def Let_def split: list.splits if_splits option.splits)
  with plan_loop_recorded[OF _ assms(2)] assms(3) show ?thesis by force
qed

subsection \<open>What a live run keeps\<close>

definition top_at_bar :: "run_state \<Rightarrow> bool" where
  "top_at_bar rs = (case hypotheses rs of [] \<Rightarrow> False | h # _ \<Rightarrow> remediate_confidence_threshold \<le> confidence h)"

definition plan_on_ledger :: "run_state \<Rightarrow> bool" where
  "plan_on_ledger rs =
     (\<exists>p. load_plan rs = Loaded p
        \<and> (\<exists>e\<in>set (evidence rs). tool_name e = ''_planner_plan''
             \<and> get (arguments e) ''target_hypothesis'' = Some (VStr (target_hypothesis p))))"

definition aimed_inv :: "run_state \<Rightarrow> bool" where
  "aimed_inv rs =
     ((state rs = PLANNING \<longrightarrow> top_at_bar rs)
      \<and> (state rs \<in> {REMEDIATING, VERIFYING, RESOLVED} \<longrightarrow> top_at_bar rs \<and> plan_on_ledger rs))"

lemma top_at_bar_cong: "hypotheses rs' = hypotheses rs \<Longrightarrow> top_at_bar rs' = top_at_bar rs"
  by (simp add: top_at_bar_def)

lemma plan_on_ledger_mono:
  "plan_on_ledger rs \<Longrightarrow> remediation_plan rs' = remediation_plan rs \<Longrightarrow> set (evidence rs) \<subseteq> set (evidence rs')
   \<Longrightarrow> plan_on_ledger rs'"
  unfolding plan_on_ledger_def load_plan_def by (elim exE conjE bexE) (auto simp: subset_iff)

lemma stamped_plan_on_ledger: "plan_on_ledger rs \<Longrightarrow> plan_on_ledger (stamp_entered rs d t n)"
proof (rule stamp_entered_rows[of rs d t n])
  assume "plan_on_ledger rs" "evidence (stamp_entered rs d t n) = evidence rs"
  then show ?thesis by (auto intro: plan_on_ledger_mono)
next
  fix es e
  assume p: "plan_on_ledger rs" and ev: "evidence rs = es @ [e]"
    "evidence (stamp_entered rs d t n) = es @ [e\<lparr>timestamp := t\<rparr>]"
  have "load_plan (stamp_entered rs d t n) = load_plan rs" by (rule load_plan_cong) simp
  with p ev show ?thesis unfolding plan_on_ledger_def by auto
qed

lemma aimed_accrue: "aimed_inv rs \<Longrightarrow> aimed_inv (accrue_wall_time rs now)"
  by (auto simp: aimed_inv_def accrue_wall_time_def Let_def top_at_bar_def plan_on_ledger_def load_plan_def)

lemma aimed_escalate: "aimed_inv (escalate rs r now)"
  by (simp add: aimed_inv_def)

lemma aimed_stamp: "aimed_inv rs \<Longrightarrow> aimed_inv (stamp_entered rs d t n)"
  using top_at_bar_cong[of "stamp_entered rs d t n" rs] stamped_plan_on_ledger[of rs d t n]
  by (auto simp: aimed_inv_def)

lemma planned_aimed:
  assumes "transition_plan P w rs now = (w', Inr rs')" and "aimed_inv rs" and "state rs = PLANNING"
  shows "aimed_inv rs'"
proof (cases "state rs' = REMEDIATING")
  case True
  from transition_plan_recorded[OF assms(1) True assms(3)] obtain rs1 p
    where p: "hypotheses rs1 = hypotheses rs" "valid_plan p" "rs' = record_plan rs1 now p" by blast
  have "top_at_bar rs'" using assms(2,3) p by (simp add: aimed_inv_def top_at_bar_def)
  moreover have "plan_on_ledger rs'"
    using p(2) by (simp add: plan_on_ledger_def p(3) load_plan_def validate_dump_plan)
      (simp add: record_plan_def mark_def)
  ultimately show ?thesis using True by (simp add: aimed_inv_def)
qed (use transition_plan_cases[OF assms(1)] in \<open>auto simp: aimed_inv_def\<close>)

lemma remediated_aimed:
  assumes "transition_remediate P w rs now = (w', Inr rs')" and "aimed_inv rs" and "state rs = REMEDIATING"
  shows "aimed_inv rs'"
proof (cases "state rs' = VERIFYING")
  case True
  with transition_remediate_cases[OF assms(1)] obtain tool args v where e: "rs' = executed rs now tool args v"
    by (auto split: option.splits)
  have h: "hypotheses rs' = hypotheses rs" "remediation_plan rs' = remediation_plan rs"
    "set (evidence rs) \<subseteq> set (evidence rs')"
    by (auto simp: e executed_def record_reading_def)
  from assms(2,3) have "top_at_bar rs" "plan_on_ledger rs" by (simp_all add: aimed_inv_def)
  with h True show ?thesis using top_at_bar_cong[OF h(1)] plan_on_ledger_mono[OF _ h(2,3)] by (simp add: aimed_inv_def)
qed (use transition_remediate_frame(2)[OF assms(1)] in \<open>auto simp: aimed_inv_def\<close>)

lemma verified_aimed:
  assumes "transition_verify P w rs now = (w', Inr rs')" and "aimed_inv rs" and "state rs = VERIFYING"
  shows "aimed_inv rs'"
proof (cases "state rs' = RESOLVED")
  case True
  have f: "verify_frame rs rs'" by (rule transition_verify_frame[OF assms(1)])
  then have h: "hypotheses rs' = hypotheses rs" and e: "set (evidence rs) \<subseteq> set (evidence rs')"
    by (auto simp: verify_frame_def dest: run_le_evidence)
  from assms(2,3) have "top_at_bar rs" "plan_on_ledger rs" by (simp_all add: aimed_inv_def)
  with top_at_bar_cong[OF h] plan_on_ledger_mono[OF _ transition_verify_plan[OF assms(1) True] e] True
  show ?thesis by (simp add: aimed_inv_def)
qed (use transition_verify_ok[OF assms(1)] in \<open>auto simp: aimed_inv_def poll_ok_def\<close>)

interpretation graded_live: guarded_registry "live_registry str_of digest I ask model P"
    "\<lambda>rs. live_inv P rs \<and> aimed_inv rs"
proof unfold_locales
  fix rs t w now w' rs'
  assume a: "live_registry str_of digest I ask model P (state rs) = Some t" "live_inv P rs \<and> aimed_inv rs"
    "t w rs now = (w', Inr rs')"
  have "live_inv P rs'" using live.inv_transition[OF a(1) _ a(3)] a(2) by blast
  moreover have "aimed_inv rs'"
    using a(1,3)
  proof (cases rule: live_registry_cases)
    case 1 then show ?thesis by (simp add: transition_triage_def Let_def aimed_inv_def)
  next
    case 2
    from live_investigation[OF 2(2,1)] show ?thesis
      by (auto simp: aimed_inv_def planning_gate_def top_at_bar_def split: list.splits)
  qed (use a(2) in \<open>auto intro: planned_aimed remediated_aimed verified_aimed\<close>)
  ultimately show "live_inv P rs' \<and> aimed_inv rs'" by blast
qed (auto intro: live_inv_accrue live_inv_escalate live_inv_stamp aimed_accrue aimed_escalate aimed_stamp)

interpretation graded_live_pg: durable_run pg_load pg_write pg_history
  "live_registry str_of digest I ask model P" "\<lambda>rs. live_inv P rs \<and> aimed_inv rs" ..

lemma aimed_inv_start: "aimed_inv (start_run al cfg now i calls)"
  by (simp add: aimed_inv_def start_run_def)

subsection \<open>The grader's resolve rules\<close>

text \<open>\<open>str\<close> of a string is the string.\<close>

definition str_keeps_strings :: "(val \<Rightarrow> string) \<Rightarrow> bool" where
  "str_keeps_strings str_of = (\<forall>s. str_of (VStr s) = s)"

lemma addressed_targets_iff:
  "t \<in> set (addressed_targets str_of rows) \<longleftrightarrow>
     (\<exists>e\<in>set rows. tool_name e \<in> {''_planner_plan'', ''_remediation_attempt_failed''}
        \<and> (case get (arguments e) ''target_hypothesis'' of None \<Rightarrow> False | Some v \<Rightarrow> t = str_of v))"
proof -
  have row: "t \<in> set (if P then (case v of None \<Rightarrow> [] | Some v \<Rightarrow> [str_of v]) else [])
      \<longleftrightarrow> P \<and> (case v of None \<Rightarrow> False | Some v \<Rightarrow> t = str_of v)" for P v
    by (cases v; cases P; simp)
  have mem: "t \<in> set (concat (map f xs)) \<longleftrightarrow> (\<exists>e\<in>set xs. t \<in> set (f e))" for f and xs :: "evidence_entry list" by auto
  show ?thesis unfolding addressed_targets_def by (simp only: mem row)
qed

lemma attempted_is_addressed:
  assumes "str_keeps_strings str_of" and "load_plan rs = Loaded p" and "plan_on_ledger rs"
    and "is_attempted h (attempted_targets rs p)"
  shows "is_addressed h (addressed_targets str_of (evidence rs))"
proof -
  have "set (attempted_targets rs p) \<subseteq> set (addressed_targets str_of (evidence rs))"
  proof
    fix t assume "t \<in> set (attempted_targets rs p)"
    then consider "t = target_hypothesis p"
      | e where "e \<in> set (evidence rs)" "tool_name e = ''_remediation_attempt_failed''"
        "str_field (arguments e) ''target_hypothesis'' = Some t"
      by (auto simp: attempted_targets_def attempt_failed_marker_def split: if_splits option.splits)
    then show "t \<in> set (addressed_targets str_of (evidence rs))"
    proof cases
      case 1
      with assms(1,2,3) show ?thesis unfolding plan_on_ledger_def addressed_targets_iff str_keeps_strings_def by auto
    next
      case 2
      then have "get (arguments e) ''target_hypothesis'' = Some (VStr t)"
        by (auto simp: str_field_def split: option.splits val.splits)
      with 2 assms(1) show ?thesis unfolding addressed_targets_iff str_keeps_strings_def by force
    qed
  qed
  with assms(4) show ?thesis by (auto simp: is_attempted_def is_addressed_def)
qed

lemma resolved_run_is_admissible:
  assumes "live_inv P rs" and "aimed_inv rs" and "state rs = RESOLVED" and "str_keeps_strings str_of"
  shows "inadmissible_resolution str_of rs = None" and "fst (post_action_reading (iso_datetime P) rs) = None"
proof -
  from assms(1,3) obtain p where p: "load_plan rs = Loaded p" "standing_causes rs p = []"
    "case metric_expectation (alert rs) of None \<Rightarrow> True | Some x \<Rightarrow> gate_miss (iso_datetime P) rs x = None"
    by (auto simp: live_inv_def resolution_shown_def)
  from assms(2,3) have top: "top_at_bar rs" "plan_on_ledger rs" by (simp_all add: aimed_inv_def)
  have "addressed s" if "s \<in> set (asserted (incidents_of str_of rs))" for s
  proof -
    from that obtain h where h: "h \<in> set (hypotheses rs)" "s = slot_of (addressed_targets str_of (evidence rs)) h"
      "h = hd (hypotheses rs) \<or> remediate_confidence_threshold \<le> confidence h" by (auto simp: asserted_of_run)
    then have "remediate_confidence_threshold \<le> confidence h"
      using top(1) by (auto simp: top_at_bar_def split: list.splits)
    with h(1) p(2) have "is_attempted h (attempted_targets rs p)"
      by (auto simp: standing_causes_def filter_empty_conv)
    from attempted_is_addressed[OF assms(4) p(1) top(2) this] show ?thesis by (simp add: h(2) slot_of_def)
  qed
  then have "unresolved_extra (incidents_of str_of rs) = []"
    by (simp add: incidents_of_def unresolved_extra_eq filter_empty_conv)
  then show "inadmissible_resolution str_of rs = None" by (simp add: inadmissible_resolution_def Let_def)
  show "fst (post_action_reading (iso_datetime P) rs) = None"
    using p(3) by (auto simp: post_action_reading_def split: option.splits)
qed

end
