(* ===== verification/Run_Report.thy ===== *)
theory Run_Report
  imports Grader Config
begin

text \<open>
  The report an evaluation writes and the gate that compares two of them: the rows of
  \<^verbatim>\<open>evals/runner.py\<close> a reader groups by, which dimensions a recorded run makes no claim about, whether
  a report may close a phase, how a red run is filed, and \<^verbatim>\<open>evals/regression.py\<close>.
\<close>

subsection \<open>Rows\<close>

record run_provenance =
  pv_agent_model :: string
  pv_model_role :: model_role
  pv_strategy :: string
  pv_execution_mode :: string
  pv_rehearsal :: bool

record scenario_outcome =
  so_scenario :: string
  template_id :: "string option"
  family :: "string option"
  difficulty :: "string option"
  benchmark_split :: "string option"
  so_report :: grade_report
  so_provenance :: "run_provenance option"

record run_report =
  only_patterns :: "string list"
  closing :: "bool option"
  outcomes :: "scenario_outcome list"

definition unknown_group :: string where "unknown_group = ''unknown''"

definition group_value :: "string option \<Rightarrow> string" where
  "group_value v = (case v of None \<Rightarrow> unknown_group | Some s \<Rightarrow> if s = [] then unknown_group else s)"

definition grouping_values :: "scenario_outcome \<Rightarrow> (string \<times> string) list" where
  "grouping_values x =
     [(''strategy'', group_value (map_option pv_strategy (so_provenance x))),
      (''scenario'', group_value (Some (so_scenario x))), (''template_id'', group_value (template_id x)),
      (''family'', group_value (family x)), (''difficulty'', group_value (difficulty x)),
      (''benchmark_split'', group_value (benchmark_split x)),
      (''execution_mode'', group_value (map_option pv_execution_mode (so_provenance x)))]"

definition group_key :: "scenario_outcome \<Rightarrow> string list" where
  "group_key x = map snd (grouping_values x)"

subsection \<open>May this report close a phase?\<close>

definition development_scenarios :: "run_report \<Rightarrow> string list" where
  "development_scenarios R =
     map so_scenario (filter (\<lambda>x. case so_provenance x of None \<Rightarrow> False | Some p \<Rightarrow> pv_model_role p = DEVELOPMENT)
       (outcomes R))"

definition rehearsal_scenarios :: "run_report \<Rightarrow> string list" where
  "rehearsal_scenarios R =
     map so_scenario (filter (\<lambda>x. case so_provenance x of None \<Rightarrow> False | Some p \<Rightarrow> pv_rehearsal p) (outcomes R))"

datatype non_closing = Predates_roles | Rehearsed "string list" | Under_development "string list" | Marked_non_closing

definition non_closing_reason :: "run_report \<Rightarrow> non_closing option" where
  "non_closing_reason R = (case closing R of
      None \<Rightarrow> Some Predates_roles
    | Some True \<Rightarrow> None
    | Some False \<Rightarrow>
        Some (if rehearsal_scenarios R \<noteq> [] then Rehearsed (rehearsal_scenarios R)
              else if development_scenarios R \<noteq> [] then Under_development (development_scenarios R)
              else Marked_non_closing))"

definition make_run_report :: "run_report \<Rightarrow> run_report result" where
  "make_run_report R =
     (if closing R = Some True \<and> rehearsal_scenarios R \<noteq> [] then Inl (ValueError ''closing over a rehearsal'')
      else if closing R = Some True \<and> development_scenarios R \<noteq> [] then Inl (ValueError ''closing over a development run'')
      else Inr R)"

subsection \<open>What a recorded run makes no claim about\<close>

definition not_applicable_detail :: "string \<Rightarrow> string \<Rightarrow> summary" where
  "not_applicable_detail mode saying = Say ''not applicable in {} mode: {}'' [Word mode, Word saying]"

definition recorded_not_applicable :: "bool \<Rightarrow> (grade_dimension \<times> summary) list" where
  "recorded_not_applicable truncated =
     [(OUTCOME, not_applicable_detail ''recorded'' ''the run is stopped by the harness at the handoff''),
      (ACTION, not_applicable_detail ''recorded'' ''no action is executed against a recording''),
      (SAFETY, not_applicable_detail ''recorded'' ''safety is graded from the platform audit log'')]
     @ (if truncated
        then [(EVIDENCE, not_applicable_detail ''recorded'' ''the action tool's own response was never produced'')] else [])"

text \<open>\<open>RecordedHandoff\<close>: both acting successors of a recorded run end it.\<close>

definition recorded_handoff :: "run_state \<Rightarrow> datetime \<Rightarrow> run_state" where
  "recorded_handoff rs now =
     rs\<lparr>state := ESCALATED, updated_at := now,
        evidence := evidence rs @ [entry ''_recorded_handoff'' [] (Word ''the recorded run ends at the plan'') now]\<rparr>"

subsection \<open>Filing a red run\<close>

datatype failure_class =
    Passed_class | Planner_output_invalid | Transport | Shared_env | Eventual_consistency | Llm_variance
  | Grader_brittleness | False_attribution | Unclassified

definition failing_dimensions :: "grade_report \<Rightarrow> grade_dimension list" where
  "failing_dimensions R = map dimension (filter (\<lambda>d. \<not> passed d) (dimensions R))"

definition classify_failure ::
    "text_lib \<Rightarrow> string list \<Rightarrow> grade_report \<Rightarrow> evidence_entry list \<Rightarrow> failure_class" where
  "classify_failure T invalid_prefixes R es =
     (let texts = map (\<lambda>e. plain T (result_summary e)) es; failing = set (failing_dimensions R) in
      if all_passed R then Passed_class
      else if list_ex (\<lambda>s. list_ex (\<lambda>p. prefix p s) invalid_prefixes) texts then Planner_output_invalid
      else if list_ex (\<lambda>s. sublist ''MCP error'' s \<or> sublist ''MCPError'' s \<or> sublist ''LLM'' s \<and> sublist ''invalid'' s) texts
      then Transport
      else if list_ex (\<lambda>s. sublist ''is_error=True'' s) texts then Shared_env
      else if list_ex (\<lambda>d. dimension d = ACTION \<and> passed d) (dimensions R)
          \<and> list_ex (\<lambda>e. tool_name e = ''_verify_judge'' \<and> prefix ''not_verified'' (plain T (result_summary e))) es
      then Eventual_consistency
      else if failing = {BUDGET} then Llm_variance
      else if failing = {EVIDENCE} then Grader_brittleness
      else if ATTRIBUTION \<in> failing then False_attribution
      else Unclassified)"

subsection \<open>The regression gate\<close>

definition is_vacuous_detail :: "string \<Rightarrow> bool" where
  "is_vacuous_detail d =
     (prefix ''no '' d \<and> ends_with d '' set'' \<or> prefix ''not graded:'' d \<or> prefix ''not applicable in '' d)"

record comparison_result =
  regressions :: "string list"
  improvements :: "string list"
  new_scenarios :: "string list"
  dropped_scenarios :: "string list"
  dropped_dimensions :: "(string \<times> grade_dimension) list"
  vacated_assertions :: "(string \<times> grade_dimension) list"

text \<open>A dict comprehension keeps the last row of a name.\<close>

definition row_named :: "run_report \<Rightarrow> string \<Rightarrow> scenario_outcome option" where
  "row_named R name = find (\<lambda>x. so_scenario x = name) (rev (outcomes R))"

definition row_dimension :: "scenario_outcome \<Rightarrow> grade_dimension \<Rightarrow> dimension_result option" where
  "row_dimension x d = find (\<lambda>r. dimension r = d) (rev (dimensions (so_report x)))"

definition names_in :: "run_report \<Rightarrow> string list" where
  "names_in R = sort (remdups (map so_scenario (outcomes R)))"

definition passed_in :: "run_report \<Rightarrow> string list" where
  "passed_in R = map so_scenario (filter (\<lambda>x. all_passed (so_report x)) (outcomes R))"

definition all_dimensions :: "grade_dimension list" where
  "all_dimensions = [ACTION, ATTRIBUTION, BRIEFING, BUDGET, EVIDENCE, OUTCOME, ROOT_CAUSE, SAFETY]"

definition passes_in :: "run_report \<Rightarrow> string \<Rightarrow> bool" where
  "passes_in R name = (case row_named R name of None \<Rightarrow> False | Some x \<Rightarrow> all_passed (so_report x))"

definition lost_dimensions :: "run_report \<Rightarrow> run_report \<Rightarrow> string \<Rightarrow> (string \<times> grade_dimension) list" where
  "lost_dimensions base new name = (case (row_named base name, row_named new name) of
      (Some x, Some y) \<Rightarrow>
        map (\<lambda>d. (name, d)) (filter (\<lambda>d. row_dimension x d \<noteq> None \<and> row_dimension y d = None) all_dimensions)
    | _ \<Rightarrow> [])"

definition vacated_dimensions ::
    "text_lib \<Rightarrow> run_report \<Rightarrow> run_report \<Rightarrow> string \<Rightarrow> (string \<times> grade_dimension) list" where
  "vacated_dimensions T base new name = (case (row_named base name, row_named new name) of
      (Some x, Some y) \<Rightarrow>
        map (\<lambda>d. (name, d)) (filter (\<lambda>d. case (row_dimension x d, row_dimension y d) of
            (Some before, Some after) \<Rightarrow>
              \<not> is_vacuous_detail (plain T (detail before)) \<and> is_vacuous_detail (plain T (detail after))
          | _ \<Rightarrow> False) all_dimensions)
    | _ \<Rightarrow> [])"

definition compare :: "text_lib \<Rightarrow> run_report \<Rightarrow> run_report \<Rightarrow> comparison_result" where
  "compare T base new =
     (let both = filter (\<lambda>n. n \<in> set (names_in new)) (names_in base);
          was_green = (\<lambda>n. n \<in> set (passed_in base))
      in \<lparr>regressions = filter (\<lambda>n. was_green n \<and> \<not> passes_in new n) both,
          improvements = filter (\<lambda>n. \<not> was_green n \<and> passes_in new n) both,
          new_scenarios = filter (\<lambda>n. n \<notin> set (names_in base)) (names_in new),
          dropped_scenarios = filter (\<lambda>n. n \<notin> set (names_in new)) (names_in base),
          dropped_dimensions = concat (map (lost_dimensions base new) both),
          vacated_assertions = concat (map (vacated_dimensions T base new) both)\<rparr>)"

definition has_coverage_loss :: "comparison_result \<Rightarrow> bool" where
  "has_coverage_loss c = (dropped_scenarios c \<noteq> [] \<or> dropped_dimensions c \<noteq> [] \<or> vacated_assertions c \<noteq> [])"

definition gate_failed :: "comparison_result \<Rightarrow> bool" where
  "gate_failed c = (regressions c \<noteq> [] \<or> has_coverage_loss c)"

definition models_in :: "run_report \<Rightarrow> string list" where
  "models_in R = filter (\<lambda>m. m \<noteq> []) (List.map_filter (\<lambda>x. map_option pv_agent_model (so_provenance x)) (outcomes R))"

definition model_refusal :: "string list list \<Rightarrow> bool" where
  "model_refusal sides = (2 \<le> length (remdups (concat sides)))"

definition cross_model_refusal :: "run_report \<Rightarrow> run_report \<Rightarrow> bool" where
  "cross_model_refusal base new = model_refusal [models_in base, models_in new]"

text \<open>\<open>main\<close>: the exit code, given the two reports when they exist.\<close>

definition gate_exit :: "text_lib \<Rightarrow> run_report option \<Rightarrow> run_report option \<Rightarrow> nat" where
  "gate_exit T base latest = (case (base, latest) of
      (Some b, Some l) \<Rightarrow>
        if only_patterns l \<noteq> [] then 2
        else if cross_model_refusal b l then 2
        else if gate_failed (compare T b l) then 1 else 0
    | _ \<Rightarrow> 2)"

subsection \<open>What a clean gate says\<close>

lemma row_named_Some:
  assumes "distinct (map so_scenario (outcomes R))" and "x \<in> set (outcomes R)"
  shows "row_named R (so_scenario x) = Some x"
proof -
  have "find (\<lambda>y. so_scenario y = so_scenario x) xs = Some x" if "x \<in> set xs" "distinct (map so_scenario xs)" for xs
    using that by (induction xs) auto
  from this[of "rev (outcomes R)"] show ?thesis using assms by (simp add: row_named_def rev_map[symmetric])
qed

lemma row_namedD: "row_named R name = Some x \<Longrightarrow> x \<in> set (outcomes R) \<and> so_scenario x = name"
  by (auto simp: row_named_def find_Some_iff) (metis length_rev nth_mem set_rev)

lemma row_named_None: "row_named R name = None \<longleftrightarrow> name \<notin> set (names_in R)"
  by (auto simp: row_named_def names_in_def find_None_iff)

lemma all_dimensions_all [simp]: "d \<in> set all_dimensions"
  by (cases d) (simp_all add: all_dimensions_def)

lemma compare_clean:
  assumes "\<not> gate_failed (compare T base new)" and "x \<in> set (outcomes base)"
    and "distinct (map so_scenario (outcomes base))"
  shows "\<exists>y. row_named new (so_scenario x) = Some y
    \<and> (all_passed (so_report x) \<longrightarrow> all_passed (so_report y))
    \<and> (\<forall>d r. row_dimension x d = Some r \<longrightarrow> (\<exists>r'. row_dimension y d = Some r'
         \<and> (is_vacuous_detail (plain T (detail r')) \<longrightarrow> is_vacuous_detail (plain T (detail r)))))"
proof -
  let ?n = "so_scenario x"
  have base: "?n \<in> set (names_in base)" and x: "row_named base ?n = Some x"
    using assms(2) row_named_Some[OF assms(3,2)] by (auto simp: names_in_def)
  from assms(1) base have new: "?n \<in> set (names_in new)"
    by (auto simp: gate_failed_def has_coverage_loss_def compare_def Let_def filter_empty_conv)
  then obtain y where y: "row_named new ?n = Some y" by (cases "row_named new ?n") (auto simp: row_named_None)
  have "?n \<in> set (passed_in base) \<longrightarrow> passes_in new ?n"
    using assms(1) base new by (auto simp: gate_failed_def compare_def Let_def filter_empty_conv)
  then have green: "all_passed (so_report x) \<longrightarrow> all_passed (so_report y)"
    using assms(2) y by (auto simp: passed_in_def passes_in_def)
  have lost: "lost_dimensions base new ?n = []" and vac: "vacated_dimensions T base new ?n = []"
    using assms(1) base new
    by (auto simp: gate_failed_def has_coverage_loss_def compare_def Let_def concat_eq_Nil_conv)
  have "\<exists>r'. row_dimension y d = Some r' \<and> (is_vacuous_detail (plain T (detail r')) \<longrightarrow> is_vacuous_detail (plain T (detail r)))"
    if r: "row_dimension x d = Some r" for d r
  proof -
    from lost r have "row_dimension y d \<noteq> None"
      by (auto simp: lost_dimensions_def x y filter_empty_conv dest!: bspec[of _ _ d])
    then obtain r' where r': "row_dimension y d = Some r'" by auto
    with vac r show ?thesis
      by (auto simp: vacated_dimensions_def x y filter_empty_conv dest!: bspec[of _ _ d])
  qed
  with y green show ?thesis by blast
qed

end
