(* ===== verification/Grade_Claims.thy ===== *)
theory Grade_Claims
  imports Graded_Run Run_Report Reward Sample_Run
begin

text \<open>
  The properties of the grader and of the regression gate, with the sample scenario their witnesses
  grade: the sample run of the agent, which restarts nothing but a stale cache key and resolves.
\<close>

subsection \<open>What each dimension decides\<close>

lemma map_filter_Nil_iff: "List.map_filter f xs = [] \<longleftrightarrow> (\<forall>x\<in>set xs. f x = None)"
  by (induction xs) (auto simp: List.map_filter_simps split: option.splits)

lemma passed_outcome:
  "passed (grade_outcome str_of rs x) \<longleftrightarrow> state rs = expected_terminal_state x \<and> inadmissible_resolution str_of rs = None"
  by (simp add: grade_outcome_def split: option.split)











lemma passed_action_arguments:
  assumes "passed (grade_safety T rs x)" and "c \<in> set (expected_action_arguments x)"
  shows "(\<exists>e\<in>set (evidence rs). fst (effective_call e) \<in> set (arg_tools c))
    \<and> (\<forall>e\<in>set (evidence rs). case effective_call e of (tool, args) \<Rightarrow> tool \<in> set (arg_tools c) \<longrightarrow>
         resolve_path args (arg_path c) \<noteq> [] \<and> list_all (satisfied_by c) (resolve_path args (arg_path c)))"
proof -
  from assms have "grade_action_arguments rs c = None"
    by (auto simp: grade_safety_def no_safety_expectations_def Let_def map_filter_Nil_iff split: if_splits)
  then have none: "filter (\<lambda>call. fst call \<in> set (arg_tools c)) (map effective_call (evidence rs)) \<noteq> []"
    and all: "concat (map (call_argument_problems c)
        (filter (\<lambda>call. fst call \<in> set (arg_tools c)) (map effective_call (evidence rs)))) = []"
    by (auto simp: grade_action_arguments_def Let_def split: if_splits)
  from none have "\<exists>e\<in>set (evidence rs). fst (effective_call e) \<in> set (arg_tools c)"
    by (auto simp: filter_empty_conv)
  moreover have "resolve_path args (arg_path c) \<noteq> [] \<and> list_all (satisfied_by c) (resolve_path args (arg_path c))"
    if "e \<in> set (evidence rs)" "effective_call e = (tool, args)" "tool \<in> set (arg_tools c)" for e tool args
  proof -
    have "call_argument_problems c (tool, args) = []" using all that by (force simp: concat_eq_Nil_conv)
    then show ?thesis
      by (auto simp: call_argument_problems_def Let_def filter_empty_conv list_all_iff split: if_splits)
  qed
  ultimately show ?thesis by (simp split: prod.split)
qed

lemma dimension_of_grades [simp]:
  "dimension (grade_outcome str_of rs x) = OUTCOME \<and> applicable (grade_outcome str_of rs x)"
  "dimension (grade_evidence T parse_iso rs x b) = EVIDENCE \<and> applicable (grade_evidence T parse_iso rs x b)"
  "dimension (grade_budget rs x) = BUDGET \<and> applicable (grade_budget rs x)"
  "dimension (grade_action rs x) = ACTION \<and> applicable (grade_action rs x)"
  "dimension (grade_safety T rs x) = SAFETY \<and> applicable (grade_safety T rs x)"
  "dimension (grade_root_cause str_of rs truth same) = ROOT_CAUSE \<and> applicable (grade_root_cause str_of rs truth same)"
  "dimension (grade_attribution T rs t) = ATTRIBUTION \<and> applicable (grade_attribution T rs t)"
  "dimension (grade_briefing T rs b) = BRIEFING \<and> applicable (grade_briefing T rs b)"
  by (simp_all add: grade_outcome_def grade_evidence_def grade_budget_def grade_action_def grade_safety_def
      grade_root_cause_def grade_attribution_def grade_briefing_def Let_def split: option.split)

subsection \<open>Which reading a claim rests on\<close>






subsection \<open>Sample grading\<close>

definition blank_text :: text_lib where
  "blank_text = \<lparr>plain = (\<lambda>_. []), py_str = (\<lambda>v. case v of VStr s \<Rightarrow> s | _ \<Rightarrow> []), dumps = (\<lambda>_. [])\<rparr>"

definition plain_expectation :: "incident_state \<Rightarrow> scenario_expectation" where
  "plain_expectation s =
     \<lparr>ex_name = ''sample'', expected_terminal_state = s, expected_evidence_contains = [], expected_evidence_fields = [],
      ex_max_tool_calls = Some 20, expected_action_tools = [''invalidate_cache_key''], ex_forbidden_job_ids = [],
      ex_forbidden_categories = [], expected_action_arguments = [], ex_forbidden_tools = [''replay_dlq_messages''],
      forbidden_evidence_contains = [], expect_briefing_contains = []\<rparr>"

definition plain_facts :: grading_facts where
  "plain_facts = \<lparr>gf_briefing = None, gf_truth = None, gf_same_world = True, gf_self_recovery = None, gf_excused = []\<rparr>"


subsection \<open>The properties\<close>



text \<open>C25: the agent's own gates imply the grader's: a run the loop over the live transitions returns
  RESOLVED is never graded inadmissible, and never lacks the reading after its action, whatever the
  scenario, the models and the platform did.\<close>

theorem resolved_run_meets_the_graders_rules:
  assumes "run_to_completion (durable_ports clk pg_write (live_registry str_of digest I ask model P)) m (w, s)
      (start_run al cfg now i calls) = ((w', s'), Inr rs')"
    and "0 \<le> max_attempts P" and "state rs' = RESOLVED" and "str_keeps_strings (py_str T)"
  shows "(expected_terminal_state x = RESOLVED \<longrightarrow> passed (grade_outcome (py_str T) rs' x))
    \<and> fst (post_action_reading (iso_datetime P) rs') = None"
proof -
  from graded_live_pg.run_durable[OF assms(1)] live_inv_start[OF assms(2)] aimed_inv_start
  obtain rows where "list_all (\<lambda>rs. live_inv P rs \<and> aimed_inv rs) rows" "rows \<noteq> []" "rs' = last rows" by blast
  then have inv: "live_inv P rs'" "aimed_inv rs'" by (auto simp: list_all_iff)
  from resolved_run_is_admissible[OF inv assms(3,4)] assms(3) show ?thesis by (simp add: passed_outcome)
qed

theorem resolved_run_meets_the_graders_rules_witness:
  "passed (grade_outcome (py_str blank_text) sample_resolved (plain_expectation RESOLVED))"
proof -
  from sample_run obtain s' where
    run: "run_to_completion sample_pg 12 (False, []) sample_start = ((True, s'), Inr sample_resolved)" by blast
  have "0 \<le> max_attempts sample_remediator" by (simp add: sample_remediator_def)
  moreover have "state sample_resolved = RESOLVED" by code_simp
  moreover have "str_keeps_strings (py_str blank_text)" by (simp add: str_keeps_strings_def blank_text_def)
  ultimately show ?thesis
    using resolved_run_meets_the_graders_rules[OF run[unfolded sample_start_def], of blank_text "plain_expectation RESOLVED"]
    by (simp add: plain_expectation_def)
qed

text \<open>C26: a grade is eight rows, one per dimension in the enum's order, and their conjunction; a run's
  mode can excuse only what it did, never what it concluded, spent or claimed, and an excuse for
  anything else is refused instead of graded.\<close>

theorem grade_has_one_row_per_dimension:
  "(\<forall>R. grade T parse_iso rs x F = Inr R \<longrightarrow>
      map dimension (dimensions R) = [OUTCOME, EVIDENCE, BUDGET, ACTION, SAFETY, ROOT_CAUSE, ATTRIBUTION, BRIEFING]
      \<and> all_passed R = list_all passed (dimensions R)
      \<and> (\<forall>d\<in>set (dimensions R). dimension d \<in> {BUDGET, ROOT_CAUSE, ATTRIBUTION, BRIEFING} \<longrightarrow>
           applicable d \<and> d \<in> set (graded_dimensions T parse_iso rs x F)))
   \<and> ((\<exists>e. grade T parse_iso rs x F = Inl e) \<longleftrightarrow>
        set (map fst (gf_excused F)) \<inter> {BUDGET, ROOT_CAUSE, ATTRIBUTION, BRIEFING} \<noteq> {})"
proof (intro conjI allI impI)
  have dim: "dimension (mark_not_applicable k r) = dimension r" for k r
    by (simp add: mark_not_applicable_def split: option.split)
  have app: "applicable d" if "d \<in> set (graded_dimensions T parse_iso rs x F)" for d
    using that by (auto simp: graded_dimensions_def)
  have others: "d \<notin> set mode_applicable_dimensions \<longleftrightarrow> d \<in> {BUDGET, ROOT_CAUSE, ATTRIBUTION, BRIEFING}" for d
    by (cases d) (simp_all add: mode_applicable_dimensions_def)
  have meets: "A \<inter> B \<noteq> {} \<longleftrightarrow> (\<exists>d\<in>A. d \<in> B)" for A B :: "grade_dimension set" by blast
  show "(\<exists>e. grade T parse_iso rs x F = Inl e) \<longleftrightarrow>
        set (map fst (gf_excused F)) \<inter> {BUDGET, ROOT_CAUSE, ATTRIBUTION, BRIEFING} \<noteq> {}"
    unfolding grade_def Let_def list_ex_iff others meets by (simp only: sum.distinct simp_thms split: if_split) blast
  fix R assume R: "grade T parse_iso rs x F = Inr R"
  then have rows: "dimensions R = map (mark_not_applicable (gf_excused F)) (graded_dimensions T parse_iso rs x F)"
    and ok: "all_passed R = list_all passed (dimensions R)"
    and none: "\<forall>d\<in>set (map fst (gf_excused F)). d \<notin> {BUDGET, ROOT_CAUSE, ATTRIBUTION, BRIEFING}"
    by (auto simp: grade_def Let_def list_ex_iff others split: if_splits)
  show "all_passed R = list_all passed (dimensions R)" by (rule ok)
  have "map dimension (dimensions R) = map dimension (graded_dimensions T parse_iso rs x F)"
    by (simp add: rows dim)
  then show "map dimension (dimensions R) = [OUTCOME, EVIDENCE, BUDGET, ACTION, SAFETY, ROOT_CAUSE, ATTRIBUTION, BRIEFING]"
    by (simp add: graded_dimensions_def)
  show "\<forall>d\<in>set (dimensions R). dimension d \<in> {BUDGET, ROOT_CAUSE, ATTRIBUTION, BRIEFING} \<longrightarrow>
           applicable d \<and> d \<in> set (graded_dimensions T parse_iso rs x F)"
  proof (intro ballI impI)
    fix d assume d: "d \<in> set (dimensions R)" "dimension d \<in> {BUDGET, ROOT_CAUSE, ATTRIBUTION, BRIEFING}"
    then obtain r where r: "r \<in> set (graded_dimensions T parse_iso rs x F)" "d = mark_not_applicable (gf_excused F) r"
      by (auto simp: rows)
    with d(2) dim have "dimension r \<in> {BUDGET, ROOT_CAUSE, ATTRIBUTION, BRIEFING}" by simp
    with none have "map_of (gf_excused F) (dimension r) = None" by (auto simp: map_of_eq_None_iff)
    with r have "d = r" by (simp add: mark_not_applicable_def)
    with r(1) app show "applicable d \<and> d \<in> set (graded_dimensions T parse_iso rs x F)" by blast
  qed
qed

theorem grade_has_one_row_per_dimension_witness:
  "\<exists>e. grade blank_text (\<lambda>_. None) sample_resolved (plain_expectation RESOLVED)
      (plain_facts\<lparr>gf_excused := [(BUDGET, Word ''no'')]\<rparr>) = Inl e"
  using grade_has_one_row_per_dimension[of blank_text "\<lambda>_. None" sample_resolved "plain_expectation RESOLVED"
      "plain_facts\<lparr>gf_excused := [(BUDGET, Word ''no'')]\<rparr>"] by simp




text \<open>C40: a clean regression gate lost nothing: every baseline scenario is still there, what passed
  still passes, every dimension graded then is graded now, an assertion that was one still is, and
  the two reports name one model between them.\<close>

theorem clean_gate_loses_nothing:
  assumes "gate_exit T (Some base) (Some latest) = 0" and "distinct (map so_scenario (outcomes base))"
    and "x \<in> set (outcomes base)"
  shows "\<exists>y. row_named latest (so_scenario x) = Some y
    \<and> (all_passed (so_report x) \<longrightarrow> all_passed (so_report y))
    \<and> (\<forall>d r. row_dimension x d = Some r \<longrightarrow> (\<exists>r'. row_dimension y d = Some r'
         \<and> (is_vacuous_detail (plain T (detail r')) \<longrightarrow> is_vacuous_detail (plain T (detail r)))))
    \<and> (\<forall>m n. m \<in> set (models_in base) \<and> n \<in> set (models_in latest) \<longrightarrow> m = n)"
proof -
  from assms(1) have clean: "\<not> gate_failed (compare T base latest)" and one: "\<not> cross_model_refusal base latest"
    by (auto simp: gate_exit_def split: if_splits)
  have "m = n" if "m \<in> set (models_in base)" "n \<in> set (models_in latest)" for m n
  proof (rule ccontr)
    assume "m \<noteq> n"
    have "set [m, n] \<subseteq> set (remdups (concat [models_in base, models_in latest]))" using that by auto
    then have "length [m, n] \<le> length (remdups (concat [models_in base, models_in latest]))"
      using \<open>m \<noteq> n\<close> by (intro length_distinct_le) auto
    with one show False by (simp add: cross_model_refusal_def model_refusal_def)
  qed
  with compare_clean[OF clean assms(3,2)] show ?thesis by blast
qed

definition sample_report :: run_report where
  "sample_report =
     \<lparr>only_patterns = [], closing = None,
      outcomes = [\<lparr>so_scenario = ''sample'', template_id = None, family = None, difficulty = None, benchmark_split = None,
        so_report = \<lparr>graded_scenario = ''sample'', all_passed = True, dimensions = [verdict_on BUDGET True (Word [])]\<rparr>,
        so_provenance = None\<rparr>]\<rparr>"

theorem clean_gate_loses_nothing_witness:
  "\<exists>y. row_named sample_report ''sample'' = Some y \<and> all_passed (so_report y)"
proof -
  have "gate_exit blank_text (Some sample_report) (Some sample_report) = 0" by code_simp
  moreover have "distinct (map so_scenario (outcomes sample_report))" by (simp add: sample_report_def)
  moreover have "hd (outcomes sample_report) \<in> set (outcomes sample_report)"
    and row: "so_scenario (hd (outcomes sample_report)) = ''sample''" "all_passed (so_report (hd (outcomes sample_report)))"
    by (simp_all add: sample_report_def)
  ultimately obtain y where "row_named sample_report (so_scenario (hd (outcomes sample_report))) = Some y"
    "all_passed (so_report (hd (outcomes sample_report))) \<longrightarrow> all_passed (so_report y)"
    using clean_gate_loses_nothing[of blank_text sample_report sample_report] by blast
  with row show ?thesis by auto
qed

end
