(* ===== verification/Thinking.thy ===== *)
theory Thinking
  imports Run_State
begin

text \<open>
  \<^verbatim>\<open>agent/thinking.py\<close>: the reasoning a run publishes the moment its loop accepts it, and the log that
  hands it to one subscriber. A headline or a sentence is built text (\<open>summary\<close>); the platform's
  ellipsis is one character, kept as one here (\<open>CHR 0x85\<close>), so every length is the source's.
\<close>

subsection \<open>Cutting a reason\<close>

definition ellipsis :: string where "ellipsis = [CHR 0x85]"

text \<open>\<open>text if len(text) <= limit else f"{text[: limit - 1]}..."\<close>.\<close>

definition capped :: "string \<Rightarrow> nat \<Rightarrow> string" where
  "capped s limit = (if length s \<le> limit then s else take (limit - 1) s @ ellipsis)"

text \<open>\<open>text.split()\<close>: the maximal runs of characters that are not spaces.\<close>

fun split_onto :: "string \<Rightarrow> string \<Rightarrow> string list" where
  "split_onto word_rev [] = (if word_rev = [] then [] else [rev word_rev])"
| "split_onto word_rev (c # cs) =
     (if is_space c then (if word_rev = [] then [] else [rev word_rev]) @ split_onto [] cs
      else split_onto (c # word_rev) cs)"

definition split_words :: "string \<Rightarrow> string list" where "split_words s = split_onto [] s"

fun join_with :: "string \<Rightarrow> string list \<Rightarrow> string" where
  "join_with sep [] = []"
| "join_with sep [x] = x"
| "join_with sep (x # y # zs) = x @ sep @ join_with sep (y # zs)"

definition max_reason_chars :: nat where "max_reason_chars = 280"

definition trimmed_reason :: "string option \<Rightarrow> string option" where
  "trimmed_reason given = (case given of
      None \<Rightarrow> None
    | Some s \<Rightarrow> (let collapsed = join_with '' '' (split_words s) in
        if collapsed = [] then None else Some (capped collapsed max_reason_chars)))"

lemma length_capped: "0 < limit \<Longrightarrow> length (capped s limit) \<le> limit"
  by (simp add: capped_def ellipsis_def)

lemma length_trimmed_reason: "trimmed_reason given = Some s \<Longrightarrow> length s \<le> max_reason_chars"
  using length_capped[of max_reason_chars] by (auto simp: trimmed_reason_def Let_def max_reason_chars_def split: option.splits if_splits)

subsection \<open>What was thought\<close>

definition planner_tool :: string where "planner_tool = ''investigation_planner''"
definition reflection_tool :: string where "reflection_tool = ''reflection''"
definition verify_judge_tool :: string where "verify_judge_tool = ''verify_judge''"
definition verdict_gate_tool :: string where "verdict_gate_tool = ''verdict_gate''"

definition thinking_tools :: "string list" where
  "thinking_tools = [planner_tool, reflection_tool, verify_judge_tool, verdict_gate_tool]"

definition ranking_entries :: nat where "ranking_entries = 5"

record thinking_action =
  ta_kind :: string
  ta_tool :: "string option"

record observed_verdict =
  ov_verdict :: string
  ov_reasoning :: "string option"
  ov_attempt :: int
  ov_of :: int

record observed_thinking =
  th_tool :: string
  th_hypotheses :: "hypothesis list"
  th_next_action :: "thinking_action option"
  th_reason :: "string option"
  th_at :: datetime
  th_headline :: "summary option"
  th_verification :: "observed_verdict option"

definition thought_ranking :: "observed_thinking \<Rightarrow> val" where
  "thought_ranking t = VList (map (\<lambda>h. VDict
     [(''name'', VStr (hyp_name h)), (''category'', VStr (category_value (category h))),
      (''confidence'', VFloat (confidence h))]) (take ranking_entries (th_hypotheses t)))"

definition or_null :: "string option \<Rightarrow> val" where
  "or_null given = (case given of None \<Rightarrow> VNull | Some s \<Rightarrow> VStr s)"

definition thought_action :: "observed_thinking \<Rightarrow> val" where
  "thought_action t = (case th_next_action t of
      None \<Rightarrow> VNull
    | Some a \<Rightarrow> VDict [(''kind'', VStr (ta_kind a)), (''tool'', or_null (ta_tool a))])"

definition thought_move :: "observed_thinking \<Rightarrow> summary" where
  "thought_move t = (case th_next_action t of
      None \<Rightarrow> Word ''no next move named''
    | Some a \<Rightarrow> (case ta_tool a of
        Some (c # cs) \<Rightarrow> Say ''{} {}'' [Word (ta_kind a), Word (c # cs)]
      | _ \<Rightarrow> Word (ta_kind a)))"

definition thought_sentence :: "observed_thinking \<Rightarrow> summary" where
  "thought_sentence t =
     (let lead = (case th_hypotheses t of
                    [] \<Rightarrow> Word ''no ranking yet''
                  | h # _ \<Rightarrow> Say ''top {} {:.2f}'' [Word (category_value (category h)), Frac (confidence h)]);
          move = (case th_headline t of Some headline \<Rightarrow> headline | None \<Rightarrow> thought_move t);
          tail = (case th_reason t of Some (c # cs) \<Rightarrow> [Word '': '', Word (c # cs)] | _ \<Rightarrow> [])
      in Say ''{} -> {}{}'' ([lead, move] @ tail))"

subsection \<open>The log\<close>

record planner_log_state =
  observed :: nat
  dropped :: nat

definition ranking_thought ::
    "string \<Rightarrow> hypothesis list \<Rightarrow> thinking_action option \<Rightarrow> string option \<Rightarrow> datetime \<Rightarrow> observed_thinking" where
  "ranking_thought tool hs next_move given now =
     \<lparr>th_tool = tool, th_hypotheses = hs, th_next_action = next_move, th_reason = trimmed_reason given,
      th_at = now, th_headline = None, th_verification = None\<rparr>"

definition verdict_thought ::
    "hypothesis list \<Rightarrow> string \<Rightarrow> string option \<Rightarrow> int \<Rightarrow> int \<Rightarrow> datetime \<Rightarrow> observed_thinking" where
  "verdict_thought hs verdict given attempt polls now =
     \<lparr>th_tool = verify_judge_tool, th_hypotheses = hs, th_next_action = None, th_reason = trimmed_reason given,
      th_at = now,
      th_headline = Some (Say ''verify {}/{} {}'' [Count attempt, Count polls, Word verdict]),
      th_verification = Some \<lparr>ov_verdict = verdict, ov_reasoning = trimmed_reason given,
                              ov_attempt = attempt, ov_of = polls\<rparr>\<rparr>"

definition refusal_thought ::
    "hypothesis list \<Rightarrow> string \<Rightarrow> string list \<Rightarrow> string \<Rightarrow> datetime \<Rightarrow> observed_thinking" where
  "refusal_thought hs refused missing given now =
     \<lparr>th_tool = verdict_gate_tool, th_hypotheses = hs,
      th_next_action = Some \<lparr>ta_kind = refused, ta_tool = None\<rparr>, th_reason = trimmed_reason (Some given),
      th_at = now,
      th_headline = Some (Say ''{} refused, read first: {}'' [Word refused, words missing]),
      th_verification = None\<rparr>"

text \<open>
  \<open>PlannerLog.observe\<close>: the subscriber answers whether it sent the observation, and \<open>None\<close> stands for
  an exception, which is logged and counts as not sent.
\<close>

definition observe_thinking ::
    "('w \<Rightarrow> observed_thinking \<Rightarrow> 'w \<times> bool option) option \<Rightarrow> 'w \<Rightarrow> planner_log_state \<Rightarrow> observed_thinking
     \<Rightarrow> 'w \<times> planner_log_state" where
  "observe_thinking sink w log_state t =
     (let seen = log_state\<lparr>observed := observed log_state + 1\<rparr>;
          (w', sent) = (case sink of None \<Rightarrow> (w, False)
                        | Some tell \<Rightarrow> (case tell w t of (w1, answer) \<Rightarrow> (w1, answer = Some True)))
      in (w', if sent then seen else seen\<lparr>dropped := dropped seen + 1\<rparr>))"

lemma observe_thinking_counts:
  assumes "observe_thinking sink w l t = (w', l')"
  shows "observed l' = observed l + 1" and "dropped l \<le> dropped l'" and "dropped l' \<le> dropped l + 1"
  using assms by (auto simp: observe_thinking_def Let_def split: prod.splits option.splits if_splits)

end
