(* ===== verification/Run_Reporting.thy ===== *)
theory Run_Reporting
  imports Thinking Run_Loop Tool_Policy Briefing
begin

text \<open>
  \<^verbatim>\<open>agent/run_reporting.py\<close>: the reporter that shows a run to the platform's console. It is fail-open:
  every refusal is noted and swallowed. A report is the typed record \<open>run_report_body\<close>; a field the
  code leaves out and a field it sends as \<open>null\<close> are both \<open>None\<close>, as the platform's schema reads them.
  The platform's two report tools are the parameter \<open>ask\<close>, over a world of its own.
\<close>

subsection \<open>The report\<close>

datatype step_kind = Read_step | Action_step | Report_step

record hypothesis_card =
  hc_name :: string
  hc_category :: string
  hc_confidence :: rat
  hc_excerpt :: "string option"

record last_step_card =
  ls_kind :: step_kind
  ls_tool :: string
  ls_at :: datetime

record step_row =
  sr_seq :: nat
  sr_kind :: step_kind
  sr_tool :: string
  sr_arguments :: dict
  sr_excerpt :: "string option"
  sr_outcome :: string
  sr_latency_ms :: "int option"
  sr_at :: datetime

record plan_card =
  pc_action_tool :: string
  pc_action_arguments :: dict
  pc_target :: "string option"
  pc_rationale :: "string option"

record verdict_row =
  vr_verdict :: string
  vr_excerpt :: "string option"
  vr_attempt :: "int option"
  vr_of :: "int option"

record budget_card =
  bc_calls_used :: int
  bc_calls_max :: int
  bc_tokens :: int
  bc_usd :: rat
  bc_wall_seconds :: rat

record run_report_body =
  rb_run_id :: string
  rb_state :: string
  rb_at :: datetime
  rb_alert_id :: "string option"
  rb_run_label :: "string option"
  rb_current_hypothesis :: "hypothesis_card option"
  rb_last_step :: "last_step_card option"
  rb_hypotheses :: "hypothesis_card list option"
  rb_plan :: "plan_card option"
  rb_verification :: "verdict_row option"
  rb_step :: "step_row option"
  rb_budget :: "budget_card option"

definition max_excerpt_chars :: nat where "max_excerpt_chars = 280"
definition max_result_excerpt_chars :: nat where "max_result_excerpt_chars = 400"
definition max_name_chars :: nat where "max_name_chars = 128"
definition max_category_chars :: nat where "max_category_chars = 64"
definition max_verdict_chars :: nat where "max_verdict_chars = 64"
definition max_outcome_chars :: nat where "max_outcome_chars = 64"
definition max_prose_chars :: nat where "max_prose_chars = 20000"

lemmas report_limits = max_excerpt_chars_def max_result_excerpt_chars_def max_name_chars_def
  max_category_chars_def max_verdict_chars_def max_outcome_chars_def

text \<open>The local mirror of the platform's input schema (\<open>_RunReport\<close> and the models it nests).\<close>

definition fits :: "nat \<Rightarrow> string option \<Rightarrow> bool" where
  "fits limit given = pred_option (\<lambda>s. length s \<le> limit) given"

definition valid_hypothesis_card :: "hypothesis_card \<Rightarrow> bool" where
  "valid_hypothesis_card h =
     (length (hc_name h) \<le> 128 \<and> length (hc_category h) \<le> 64 \<and> 0 \<le> hc_confidence h \<and> hc_confidence h \<le> 1
      \<and> fits max_excerpt_chars (hc_excerpt h))"

definition valid_last_step :: "last_step_card \<Rightarrow> bool" where
  "valid_last_step s = (ls_kind s \<noteq> Report_step \<and> length (ls_tool s) \<le> 128)"

definition valid_step :: "step_row \<Rightarrow> bool" where
  "valid_step s =
     (length (sr_tool s) \<le> 128 \<and> fits max_result_excerpt_chars (sr_excerpt s)
      \<and> length (sr_outcome s) \<le> max_outcome_chars \<and> pred_option (\<lambda>ms. 0 \<le> ms) (sr_latency_ms s))"

definition valid_plan_card :: "plan_card \<Rightarrow> bool" where
  "valid_plan_card p =
     (length (pc_action_tool p) \<le> 128 \<and> fits 128 (pc_target p) \<and> fits max_excerpt_chars (pc_rationale p))"

definition valid_verdict_row :: "verdict_row \<Rightarrow> bool" where
  "valid_verdict_row v =
     (length (vr_verdict v) \<le> 64 \<and> fits max_excerpt_chars (vr_excerpt v)
      \<and> pred_option (\<lambda>n. 1 \<le> n) (vr_attempt v) \<and> pred_option (\<lambda>n. 1 \<le> n) (vr_of v))"

definition valid_budget_card :: "budget_card \<Rightarrow> bool" where
  "valid_budget_card b =
     (0 \<le> bc_calls_used b \<and> 0 \<le> bc_calls_max b \<and> 0 \<le> bc_tokens b \<and> 0 \<le> bc_usd b \<and> 0 \<le> bc_wall_seconds b)"

definition valid_report :: "run_report_body \<Rightarrow> bool" where
  "valid_report b =
     (fits 128 (rb_run_label b)
      \<and> pred_option (\<lambda>h. valid_hypothesis_card h \<and> hc_excerpt h = None) (rb_current_hypothesis b)
      \<and> pred_option valid_last_step (rb_last_step b)
      \<and> pred_option (list_all valid_hypothesis_card) (rb_hypotheses b)
      \<and> pred_option valid_plan_card (rb_plan b)
      \<and> pred_option valid_verdict_row (rb_verification b)
      \<and> pred_option valid_step (rb_step b)
      \<and> pred_option valid_budget_card (rb_budget b))"

text \<open>\<open>NARROW_FIELDS\<close>: what the oldest supported platform declares.\<close>

definition narrow_payload :: "run_report_body \<Rightarrow> run_report_body" where
  "narrow_payload b = b\<lparr>rb_hypotheses := None, rb_plan := None, rb_verification := None,
                        rb_step := None, rb_budget := None\<rparr>"

subsection \<open>What the console is shown\<close>

definition excerpt :: "string option \<Rightarrow> nat \<Rightarrow> string option" where
  "excerpt given limit = (case given of
      None \<Rightarrow> None
    | Some s \<Rightarrow> if strip s = [] then None else Some (capped (strip s) limit))"

definition top_of_ranking :: "hypothesis list \<Rightarrow> hypothesis_card option" where
  "top_of_ranking hs = (case hs of
      [] \<Rightarrow> None
    | h # _ \<Rightarrow> Some \<lparr>hc_name = capped (hyp_name h) max_name_chars,
                     hc_category = capped (category_value (category h)) max_category_chars,
                     hc_confidence = confidence h, hc_excerpt = None\<rparr>)"

definition ranked_of :: "hypothesis list \<Rightarrow> hypothesis_card list option" where
  "ranked_of hs = (if hs = [] then None else Some (map (\<lambda>h.
     \<lparr>hc_name = capped (hyp_name h) max_name_chars,
      hc_category = capped (category_value (category h)) max_category_chars,
      hc_confidence = confidence h, hc_excerpt = excerpt (Some (reasoning h)) max_excerpt_chars\<rparr>) hs))"

definition step_kind_of :: "string \<Rightarrow> step_kind" where
  "step_kind_of tool = (if tier_of tool = Inr READ then Read_step else Action_step)"

definition last_step_of :: "run_state \<Rightarrow> last_step_card option" where
  "last_step_of rs = map_option
     (\<lambda>e. \<lparr>ls_kind = step_kind_of (tool_name e), ls_tool = tool_name e, ls_at = timestamp e\<rparr>)
     (find_last (\<lambda>e. \<not> is_marker (tool_name e)) (evidence rs))"

text \<open>A value that is a \<open>str\<close>; built text is rendered by \<open>plain\<close>.\<close>

definition as_text :: "(summary \<Rightarrow> string) \<Rightarrow> val option \<Rightarrow> string option" where
  "as_text render v = (case v of Some (VStr s) \<Rightarrow> Some s | Some (VText t) \<Rightarrow> Some (render t) | _ \<Rightarrow> None)"

definition plan_payload :: "(summary \<Rightarrow> string) \<Rightarrow> run_state \<Rightarrow> plan_card option" where
  "plan_payload render rs = (case remediation_plan rs of
      None \<Rightarrow> None
    | Some p \<Rightarrow> map_option (\<lambda>tool.
        \<lparr>pc_action_tool = capped tool max_name_chars,
         pc_action_arguments = (case get p ''action_arguments'' of Some (VDict d) \<Rightarrow> d | _ \<Rightarrow> []),
         pc_target = map_option (\<lambda>s. capped s max_name_chars) (as_text render (get p ''target_hypothesis'')),
         pc_rationale = excerpt (as_text render (get p ''action_rationale'')) max_excerpt_chars\<rparr>)
        (as_text render (get p ''action_tool'')))"

text \<open>\<open>round(x, digits)\<close>: to the nearest, a tie to the even neighbour.\<close>

definition py_round :: "nat \<Rightarrow> rat \<Rightarrow> rat" where
  "py_round digits x =
     (let y = x * 10 ^ digits; low = \<lfloor>y\<rfloor>; rest = y - of_int low
      in of_int (if rest < 1 / 2 \<or> rest = 1 / 2 \<and> even low then low else low + 1) / 10 ^ digits)"

definition budget_payload :: "run_state \<Rightarrow> budget_card" where
  "budget_payload rs =
     \<lparr>bc_calls_used = tool_calls_used (budget rs), bc_calls_max = max_tool_calls (budget rs),
      bc_tokens = tokens_used (budget rs), bc_usd = py_round 6 (usd_used (budget rs)),
      bc_wall_seconds = py_round 3 (of_int (wall_us_used (budget rs)) / 1000000)\<rparr>"

definition ordinal :: "val option \<Rightarrow> int option" where
  "ordinal v = (case v of Some (VInt n) \<Rightarrow> if 1 \<le> n then Some n else None | _ \<Rightarrow> None)"

text \<open>\<open>text.partition(": ")\<close>, with whether the separator was there.\<close>

fun partition_colon :: "string \<Rightarrow> string \<times> bool \<times> string" where
  "partition_colon (a # b # rest) =
     (if a = CHR '':'' \<and> b = CHR '' '' then ([], True, rest)
      else case partition_colon (b # rest) of (before, found, after) \<Rightarrow> (a # before, found, after))"
| "partition_colon s = (s, False, [])"

definition verification_from_judge :: "(summary \<Rightarrow> string) \<Rightarrow> evidence_entry \<Rightarrow> verdict_row" where
  "verification_from_judge render e =
     (case partition_colon (render (result_summary e)) of (verdict, found, why_given) \<Rightarrow>
       \<lparr>vr_verdict = (if found then capped verdict max_verdict_chars else ''unknown''),
        vr_excerpt = excerpt (Some (if why_given = [] then render (result_summary e) else why_given)) max_excerpt_chars,
        vr_attempt = ordinal (get (arguments e) ''attempt''), vr_of = ordinal (get (arguments e) ''of'')\<rparr>)"

definition verification_from_attempt :: "(summary \<Rightarrow> string) \<Rightarrow> evidence_entry \<Rightarrow> verdict_row" where
  "verification_from_attempt render e =
     \<lparr>vr_verdict = (case as_text render (get (arguments e) ''verdict'') of
                      Some v \<Rightarrow> capped v max_verdict_chars | None \<Rightarrow> ''not_verified''),
      vr_excerpt = excerpt (Some (render (result_summary e))) max_excerpt_chars,
      vr_attempt = ordinal (get (arguments e) ''attempt''), vr_of = ordinal (get (arguments e) ''of'')\<rparr>"

definition verification_from_thinking :: "observed_thinking \<Rightarrow> verdict_row option" where
  "verification_from_thinking t = map_option (\<lambda>v.
     \<lparr>vr_verdict = capped (ov_verdict v) max_verdict_chars,
      vr_excerpt = excerpt (ov_reasoning v) max_excerpt_chars,
      vr_attempt = ordinal (Some (VInt (ov_attempt v))), vr_of = ordinal (Some (VInt (ov_of v)))\<rparr>)
     (th_verification t)"

subsection \<open>The calls the client saw\<close>

record observed_call =
  oc_tool :: string
  oc_arguments :: dict
  oc_excerpt :: "string option"
  oc_outcome :: string
  oc_latency_ms :: "int option"
  oc_at :: datetime

text \<open>The tracer's record of one call: the error text, or the result's \<open>is_error\<close> and blocks.\<close>

record traced_call =
  tc_tool :: "string option"
  tc_arguments :: "dict option"
  tc_error :: "string option"
  tc_result :: "(bool \<times> val list) option"
  tc_duration :: "rat option"

definition report_run_tool :: string where "report_run_tool = ''report_agent_run''"
definition report_briefing_tool :: string where "report_briefing_tool = ''report_agent_briefing''"
definition report_tools :: "string list" where "report_tools = [report_run_tool, report_briefing_tool]"

definition first_text_block :: "(val \<Rightarrow> string) \<Rightarrow> (bool \<times> val list) option \<Rightarrow> string option" where
  "first_text_block dump r = (case r of
      Some (_, VDict d # _) \<Rightarrow>
        (case get d ''text'' of Some (VStr s) \<Rightarrow> Some s | _ \<Rightarrow> Some (dump (VDict d)))
    | _ \<Rightarrow> None)"

definition latency_ms :: "rat option \<Rightarrow> int option" where
  "latency_ms given = map_option (\<lambda>d. max (if 0 \<le> d then \<lfloor>d * 1000\<rfloor> else \<lceil>d * 1000\<rceil>) 0) given"

text \<open>\<open>ToolCallLog.observe\<close> up to the subscriber: the call to report, unless it is skipped.\<close>

definition observed_call_of :: "(val \<Rightarrow> string) \<Rightarrow> datetime \<Rightarrow> traced_call \<Rightarrow> observed_call option" where
  "observed_call_of dump now r = (case tc_tool r of
      None \<Rightarrow> None
    | Some tool \<Rightarrow> if tool \<in> set report_tools then None
        else (let failed = (case tc_error r of Some (c # cs) \<Rightarrow> Some (c # cs) | _ \<Rightarrow> None)
          in Some \<lparr>oc_tool = tool, oc_arguments = (case tc_arguments r of None \<Rightarrow> [] | Some d \<Rightarrow> d),
               oc_excerpt = (if failed = None then excerpt (first_text_block dump (tc_result r)) max_result_excerpt_chars else None),
               oc_outcome = (case failed of
                   Some err \<Rightarrow> capped (''error: '' @ err) max_outcome_chars
                 | None \<Rightarrow> if (case tc_result r of Some (is_err, _) \<Rightarrow> is_err | None \<Rightarrow> False) then ''refused'' else ''ok''),
               oc_latency_ms = latency_ms (tc_duration r), oc_at = now\<rparr>))"

end
