(* ===== verification/Reporter.thy ===== *)
theory Reporter
  imports Run_Reporting
begin

text \<open>
  The \<open>RunReporter\<close> of \<^verbatim>\<open>agent/run_reporting.py\<close> with the \<open>ToolCallLog\<close> and \<open>PlannerLog\<close> it subscribes to,
  and the \<open>ReportingCheckpointer\<close> that hangs it off the loop's checkpoints. \<open>ask\<close> is the platform: a
  result with its \<open>is_error\<close> flag and blocks, a JSON-RPC error, or another exception.
\<close>

subsection \<open>The platform's answer\<close>

datatype report_request =
    Run_report run_report_body
  | Briefing_report string escalation_briefing "string option"

datatype report_answer =
    Answered bool "val list"
  | Mcp_error int string
  | Call_raised string

record delivery =
  delivered :: bool
  refusal :: "string option"
  shape_refusal :: bool

definition invalid_params :: int where "invalid_params = -32602"

definition run_level_refusals :: "string list" where
  "run_level_refusals =
     [''agent_run_already_finished'', ''agent_run_not_found'', ''agent_run_briefing_already_recorded'']"

definition is_shape_refusal :: "string \<Rightarrow> bool" where
  "is_shape_refusal said = (\<not> list_ex (\<lambda>code. sublist code (map lower_char said)) run_level_refusals)"

definition error_text :: "val list \<Rightarrow> string" where
  "error_text blocks =
     (let parts = concat (map (\<lambda>b. case b of
                    VDict d \<Rightarrow> (case get d ''text'' of Some (VStr s) \<Rightarrow> [s] | _ \<Rightarrow> []) | _ \<Rightarrow> []) blocks);
          said = take 400 (join_with '' '' parts)
      in if said = [] then ''<no content>'' else said)"

definition judged :: "report_answer \<Rightarrow> delivery" where
  "judged a = (case a of
      Answered False _ \<Rightarrow> \<lparr>delivered = True, refusal = None, shape_refusal = False\<rparr>
    | Answered True blocks \<Rightarrow> \<lparr>delivered = False, refusal = Some (error_text blocks),
                              shape_refusal = is_shape_refusal (error_text blocks)\<rparr>
    | Mcp_error code said \<Rightarrow> \<lparr>delivered = False, refusal = Some said, shape_refusal = (code = invalid_params)\<rparr>
    | Call_raised _ \<Rightarrow> \<lparr>delivered = False, refusal = None, shape_refusal = False\<rparr>)"

subsection \<open>The reporter's state\<close>

record report_lib =
  render :: "summary \<Rightarrow> string"
  dump_json :: "val \<Rightarrow> string"

record reporter =
  rp_run_id :: string
  rp_label :: "string option"
  rp_alert_id :: "string option"
  has_tool_log :: bool
  live_verdicts :: bool
  buffered :: "observed_call list"
  last_state :: "run_state option"
  widened :: bool
  next_seq :: nat
  reported_entries :: nat
  state_reported :: "string option"
  plan_sent :: "string option"
  verdict_to_send :: "verdict_row option"
  report_failures :: "summary list"
  narrowed_because :: "summary option"
  reports_sent :: nat
  steps_sent :: nat
  thinking_sent :: nat
  verifications_sent :: nat
  briefing_sent :: bool

definition new_reporter :: "string \<Rightarrow> string option \<Rightarrow> string option \<Rightarrow> bool \<Rightarrow> bool \<Rightarrow> reporter" where
  "new_reporter run_id label_given alert_id_given tool_log verdict_source =
     \<lparr>rp_run_id = run_id, rp_label = label_given, rp_alert_id = alert_id_given, has_tool_log = tool_log,
      live_verdicts = verdict_source, buffered = [], last_state = None, widened = True, next_seq = 0,
      reported_entries = 0, state_reported = None, plan_sent = None, verdict_to_send = None,
      report_failures = [], narrowed_because = None, reports_sent = 0, steps_sent = 0, thinking_sent = 0,
      verifications_sent = 0, briefing_sent = False\<rparr>"

definition note_failure :: "summary \<Rightarrow> reporter \<Rightarrow> reporter" where
  "note_failure what r = r\<lparr>report_failures := report_failures r @ [what]\<rparr>"

definition plan_value :: "plan_card \<Rightarrow> val" where
  "plan_value p = VDict
     [(''action_tool'', VStr (pc_action_tool p)), (''action_arguments'', VDict (pc_action_arguments p)),
      (''target_hypothesis'', or_null (pc_target p)), (''rationale_excerpt'', or_null (pc_rationale p))]"

subsection \<open>Sending one report\<close>

definition failure_text :: "string \<Rightarrow> report_answer \<Rightarrow> summary" where
  "failure_text tool a = (case a of
      Answered _ blocks \<Rightarrow> Say ''{}: platform refused the report: {}'' [Word tool, Word (error_text blocks)]
    | Mcp_error _ said \<Rightarrow> Say ''{}: MCPError: {}'' [Word tool, Word said]
    | Call_raised said \<Rightarrow> Say ''{}: {}'' [Word tool, Word said])"

definition request_tool :: "report_request \<Rightarrow> string" where
  "request_tool q = (case q of Run_report _ \<Rightarrow> report_run_tool | Briefing_report _ _ _ \<Rightarrow> report_briefing_tool)"

definition call_platform ::
    "('w \<Rightarrow> report_request \<Rightarrow> 'w \<times> report_answer) \<Rightarrow> 'w \<Rightarrow> reporter \<Rightarrow> report_request \<Rightarrow> 'w \<times> reporter \<times> delivery" where
  "call_platform ask w r q = (case ask w q of (w', a) \<Rightarrow>
     (w', if delivered (judged a) then r else note_failure (failure_text (request_tool q) a) r, judged a))"

definition accept_report :: "report_lib \<Rightarrow> run_report_body \<Rightarrow> reporter \<Rightarrow> reporter" where
  "accept_report L b r =
     (let r1 = r\<lparr>reports_sent := reports_sent r + 1, state_reported := Some (rb_state b)\<rparr>;
          r2 = (case rb_step b of
                  None \<Rightarrow> r1
                | Some s \<Rightarrow> if sr_kind s = Report_step then r1\<lparr>thinking_sent := thinking_sent r1 + 1\<rparr>
                           else r1\<lparr>steps_sent := steps_sent r1 + 1\<rparr>);
          r3 = (if rb_verification b = None then r2
                else r2\<lparr>verifications_sent := verifications_sent r2 + 1, verdict_to_send := None\<rparr>)
      in case rb_plan b of None \<Rightarrow> r3 | Some p \<Rightarrow> r3\<lparr>plan_sent := Some (dump_json L (plan_value p))\<rparr>)"

definition narrow :: "summary \<Rightarrow> reporter \<Rightarrow> reporter" where
  "narrow why_given r = (if widened r then r\<lparr>widened := False, narrowed_because := Some why_given\<rparr> else r)"

definition invalid_payload :: summary where
  "invalid_payload = Say ''{}: the reporter built an invalid payload'' [Word report_run_tool]"

text \<open>Step 3 of \<open>_deliver\<close>: the older, smaller report.\<close>

definition deliver_narrow ::
    "report_lib \<Rightarrow> ('w \<Rightarrow> report_request \<Rightarrow> 'w \<times> report_answer) \<Rightarrow> 'w \<Rightarrow> reporter \<Rightarrow> run_report_body \<Rightarrow> 'w \<times> reporter" where
  "deliver_narrow L ask w r b =
     (if \<not> valid_report (narrow_payload b) then (w, note_failure invalid_payload r)
      else case call_platform ask w r (Run_report (narrow_payload b)) of (w', r', d) \<Rightarrow>
        (w', if delivered d then accept_report L (narrow_payload b) r' else r'))"

definition deliver ::
    "report_lib \<Rightarrow> ('w \<Rightarrow> report_request \<Rightarrow> 'w \<times> report_answer) \<Rightarrow> bool \<Rightarrow> bool \<Rightarrow> 'w \<Rightarrow> reporter \<Rightarrow> run_report_body
     \<Rightarrow> 'w \<times> reporter" where
  "deliver L ask narrow_retry may_narrow w r b =
     (if \<not> widened r then deliver_narrow L ask w r b
      else if \<not> valid_report b then
        (let r1 = note_failure invalid_payload r in
         if \<not> may_narrow then (w, r1)
         else (let r2 = narrow (Word ''the reporter's own widened payload failed local validation'') r1 in
               if narrow_retry then deliver_narrow L ask w r2 b else (w, r2)))
      else case call_platform ask w r (Run_report b) of (w1, r1, d) \<Rightarrow>
        (if delivered d then (w1, accept_report L b r1)
         else if \<not> shape_refusal d \<or> \<not> may_narrow then (w1, r1)
         else (let r2 = narrow (Say ''the platform refused the widened report: {}''
                                  (case refusal d of None \<Rightarrow> [] | Some said \<Rightarrow> [Word said])) r1 in
               if narrow_retry then deliver_narrow L ask w1 r2 b else (w1, r2))))"

subsection \<open>Assembling one report\<close>

datatype pending_item = Step_item step_row datetime | Verdict_item verdict_row datetime

fun item_at :: "pending_item \<Rightarrow> datetime" where
  "item_at (Step_item _ t) = t"
| "item_at (Verdict_item _ t) = t"

text \<open>\<open>_new_step\<close>: the next number of the run's own counter.\<close>

definition new_step ::
    "reporter \<Rightarrow> step_kind \<Rightarrow> string \<Rightarrow> dict \<Rightarrow> string option \<Rightarrow> string \<Rightarrow> int option \<Rightarrow> datetime \<Rightarrow> reporter \<times> pending_item" where
  "new_step r kind tool args text_given what_happened latency now =
     (r\<lparr>next_seq := next_seq r + 1\<rparr>,
      Step_item \<lparr>sr_seq = next_seq r + 1, sr_kind = kind, sr_tool = capped tool max_name_chars, sr_arguments = args,
                 sr_excerpt = text_given, sr_outcome = what_happened, sr_latency_ms = latency, sr_at = now\<rparr> now)"

definition step_of_call :: "reporter \<Rightarrow> observed_call \<Rightarrow> reporter \<times> pending_item" where
  "step_of_call r c = new_step r (step_kind_of (oc_tool c)) (oc_tool c) (oc_arguments c) (oc_excerpt c)
     (oc_outcome c) (oc_latency_ms c) (oc_at c)"

definition step_of_entry :: "report_lib \<Rightarrow> reporter \<Rightarrow> evidence_entry \<Rightarrow> reporter \<times> pending_item" where
  "step_of_entry L r e = new_step r (step_kind_of (tool_name e)) (tool_name e) (arguments e)
     (excerpt (Some (render L (result_summary e))) max_result_excerpt_chars) ''ok'' None (timestamp e)"

definition thinking_step :: "report_lib \<Rightarrow> reporter \<Rightarrow> observed_thinking \<Rightarrow> reporter \<times> pending_item" where
  "thinking_step L r t = new_step r Report_step (th_tool t)
     [(''ranking'', thought_ranking t), (''next_action'', thought_action t), (''reason'', or_null (th_reason t))]
     (excerpt (Some (render L (thought_sentence t))) max_result_excerpt_chars) ''ok'' None (th_at t)"

text \<open>
  \<open>_pending\<close> step 2, one new row at a time. With a tool log a call was reported the moment it returned,
  so its row is passed over; without one nothing was observed and the row itself becomes the step.
\<close>

fun pending_rows :: "report_lib \<Rightarrow> reporter \<Rightarrow> evidence_entry list \<Rightarrow> reporter \<times> pending_item list" where
  "pending_rows L r [] = (r, [])"
| "pending_rows L r (e # es) =
     (if tool_name e = ''_verify_judge'' then
        (if live_verdicts r then pending_rows L r es
         else case pending_rows L r es of (r', items) \<Rightarrow>
           (r', Verdict_item (verification_from_judge (render L) e) (timestamp e) # items))
      else if tool_name e = attempt_failed_marker then
        (case pending_rows L r es of (r', items) \<Rightarrow>
           (r', Verdict_item (verification_from_attempt (render L) e) (timestamp e) # items))
      else if is_marker (tool_name e) \<or> has_tool_log r then pending_rows L r es
      else case step_of_entry L r e of (r1, item) \<Rightarrow>
        (case pending_rows L r1 es of (r', items) \<Rightarrow> (r', item # items)))"

fun pending_calls :: "reporter \<Rightarrow> observed_call list \<Rightarrow> reporter \<times> pending_item list" where
  "pending_calls r [] = (r, [])"
| "pending_calls r (c # cs) = (case step_of_call r c of (r1, item) \<Rightarrow>
     (case pending_calls r1 cs of (r', items) \<Rightarrow> (r', item # items)))"

definition pending :: "report_lib \<Rightarrow> reporter \<Rightarrow> run_state \<Rightarrow> reporter \<times> pending_item list" where
  "pending L r rs =
     (let entries = drop (reported_entries r) (evidence rs);
          calls = buffered r;
          r1 = r\<lparr>reported_entries := length (evidence rs), buffered := []\<rparr>;
          (r2, rows) = pending_rows L r1 entries;
          (r3, late) = pending_calls r2 calls
      in (r3, rows @ late))"

definition payload :: "report_lib \<Rightarrow> reporter \<Rightarrow> run_state \<Rightarrow> pending_item option \<Rightarrow> bool \<Rightarrow> run_report_body" where
  "payload L r rs item final =
     (let where_it_was = (case state_reported r of Some s \<Rightarrow> if final then state_value (state rs) else s
                          | None \<Rightarrow> state_value (state rs));
          base = \<lparr>rb_run_id = rp_run_id r, rb_state = where_it_was,
                  rb_at = (case item of Some i \<Rightarrow> if final then updated_at rs else item_at i | None \<Rightarrow> updated_at rs),
                  rb_alert_id = rp_alert_id r,
                  rb_run_label = map_option (\<lambda>s. capped s max_name_chars) (rp_label r),
                  rb_current_hypothesis = top_of_ranking (hypotheses rs), rb_last_step = last_step_of rs,
                  rb_hypotheses = ranked_of (hypotheses rs), rb_plan = None, rb_verification = None,
                  rb_step = None, rb_budget = Some (budget_payload rs)\<rparr>;
          with_item = (case item of
              None \<Rightarrow> base
            | Some (Verdict_item v _) \<Rightarrow> base\<lparr>rb_verification := Some v\<rparr>
            | Some (Step_item s _) \<Rightarrow>
                (if sr_kind s = Report_step then base\<lparr>rb_step := Some s\<rparr>
                 else base\<lparr>rb_step := Some s,
                           rb_last_step := Some \<lparr>ls_kind = sr_kind s, ls_tool = sr_tool s, ls_at = sr_at s\<rparr>\<rparr>));
          with_plan = (case plan_payload (render L) rs of
              Some p \<Rightarrow> if final \<and> Some (dump_json L (plan_value p)) \<noteq> plan_sent r
                        then with_item\<lparr>rb_plan := Some p\<rparr> else with_item
            | None \<Rightarrow> with_item)
      in if final \<and> is_terminal (state rs) \<and> rb_verification with_plan = None
         then with_plan\<lparr>rb_verification := verdict_to_send r\<rparr> else with_plan)"

subsection \<open>Reporting\<close>

fun deliver_items ::
    "report_lib \<Rightarrow> ('w \<Rightarrow> report_request \<Rightarrow> 'w \<times> report_answer) \<Rightarrow> run_state \<Rightarrow> 'w \<Rightarrow> reporter \<Rightarrow> pending_item list
     \<Rightarrow> 'w \<times> reporter" where
  "deliver_items L ask rs w r [] = (w, r)"
| "deliver_items L ask rs w r (item # items) =
     (let final = (items = []) in
      if \<not> widened r \<and> \<not> final then deliver_items L ask rs w r items
      else case deliver L ask final True w r (payload L r rs (Some item) final) of (w', r') \<Rightarrow>
        deliver_items L ask rs w' r' items)"

definition report ::
    "report_lib \<Rightarrow> ('w \<Rightarrow> report_request \<Rightarrow> 'w \<times> report_answer) \<Rightarrow> 'w \<Rightarrow> reporter \<Rightarrow> run_state \<Rightarrow> 'w \<times> reporter" where
  "report L ask w r rs =
     (let (r1, items) = pending L (r\<lparr>last_state := Some rs\<rparr>) rs;
          kept = (if widened r1 \<or> items = [] then items else [last items])
      in if kept = [] then deliver L ask True True w r1 (payload L r1 rs None True)
         else deliver_items L ask rs w r1 kept)"

definition report_briefing ::
    "('w \<Rightarrow> report_request \<Rightarrow> 'w \<times> report_answer) \<Rightarrow> 'w \<Rightarrow> reporter \<Rightarrow> escalation_briefing \<Rightarrow> string option
     \<Rightarrow> 'w \<times> reporter" where
  "report_briefing ask w r b prose =
     (if briefing_sent r then (w, r)
      else let cut = (case prose of Some (c # cs) \<Rightarrow> Some (take max_prose_chars (c # cs)) | _ \<Rightarrow> None) in
        case call_platform ask w r (Briefing_report (rp_run_id r) b cut) of (w', r', d) \<Rightarrow>
          (w', if delivered d then r'\<lparr>briefing_sent := True\<rparr> else r'))"

text \<open>\<open>_report_call\<close>: whether the call was taken, or stays in the log for the next report.\<close>

definition report_call ::
    "report_lib \<Rightarrow> ('w \<Rightarrow> report_request \<Rightarrow> 'w \<times> report_answer) \<Rightarrow> 'w \<Rightarrow> reporter \<Rightarrow> observed_call \<Rightarrow> 'w \<times> reporter \<times> bool" where
  "report_call L ask w r c = (case last_state r of
      None \<Rightarrow> (w, r, False)
    | Some rs \<Rightarrow> if \<not> widened r then (w, r, False)
        else case step_of_call r c of (r1, item) \<Rightarrow>
          (case deliver L ask False True w r1 (payload L r1 rs (Some item) False) of (w', r') \<Rightarrow> (w', r', True)))"

definition report_thinking ::
    "report_lib \<Rightarrow> ('w \<Rightarrow> report_request \<Rightarrow> 'w \<times> report_answer) \<Rightarrow> 'w \<Rightarrow> reporter \<Rightarrow> observed_thinking \<Rightarrow> 'w \<times> reporter \<times> bool" where
  "report_thinking L ask w r t =
     (let verdict = verification_from_thinking t;
          r0 = (if verdict = None then r else r\<lparr>verdict_to_send := verdict\<rparr>)
      in case last_state r0 of
           None \<Rightarrow> (w, r0, False)
         | Some rs \<Rightarrow> if \<not> widened r0 then (w, r0, False)
             else case thinking_step L r0 t of (r1, item) \<Rightarrow>
               (let b = (payload L r1 rs (Some item) False)
                          \<lparr>rb_hypotheses := ranked_of (th_hypotheses t),
                           rb_current_hypothesis := top_of_ranking (th_hypotheses t)\<rparr>;
                    b' = (if verdict = None then b else b\<lparr>rb_verification := verdict\<rparr>)
                in case deliver L ask False False w r1 b' of (w', r') \<Rightarrow> (w', r', True)))"

text \<open>\<open>ToolCallLog.observe\<close> with this reporter subscribed, and \<open>forget\<close>.\<close>

definition observe_call ::
    "report_lib \<Rightarrow> ('w \<Rightarrow> report_request \<Rightarrow> 'w \<times> report_answer) \<Rightarrow> 'w \<Rightarrow> reporter \<Rightarrow> traced_call \<Rightarrow> datetime \<Rightarrow> 'w \<times> reporter" where
  "observe_call L ask w r tc now =
     (if \<not> has_tool_log r then (w, r)
      else case observed_call_of (dump_json L) now tc of
          None \<Rightarrow> (w, r)
        | Some c \<Rightarrow> (case report_call L ask w r c of (w', r', taken) \<Rightarrow>
            (w', if taken then r' else r'\<lparr>buffered := buffered r' @ [c]\<rparr>)))"

definition forget_calls :: "reporter \<Rightarrow> reporter" where
  "forget_calls r = r\<lparr>buffered := []\<rparr>"

text \<open>\<open>ReportingCheckpointer.write\<close>: the checkpoint first, the report second.\<close>

definition reporting_write ::
    "report_lib \<Rightarrow> ('v \<Rightarrow> report_request \<Rightarrow> 'v \<times> report_answer) \<Rightarrow> ('s \<Rightarrow> run_state \<Rightarrow> 's \<times> unit result)
     \<Rightarrow> 's \<times> 'v \<times> reporter \<Rightarrow> run_state \<Rightarrow> ('s \<times> 'v \<times> reporter) \<times> unit result" where
  "reporting_write L ask put st rs = (case st of (s, v, r) \<Rightarrow>
     (case put s rs of
        (s', Inl err) \<Rightarrow> ((s', v, r), Inl err)
      | (s', Inr u) \<Rightarrow> (case report L ask v r rs of (v', r') \<Rightarrow> ((s', v', r'), Inr u))))"

definition reporting_load :: "('s \<Rightarrow> string \<Rightarrow> run_state option) \<Rightarrow> 's \<times> 'v \<times> reporter \<Rightarrow> string \<Rightarrow> run_state option" where
  "reporting_load load st i = load (fst st) i"

definition summarize :: "reporter option \<Rightarrow> summary" where
  "summarize given = (case given of
      None \<Rightarrow> Word ''agent-run reporting: off''
    | Some r \<Rightarrow> Say '', ''
        ([Say ''agent-run reporting: run {}'' [Word (rp_run_id r)],
          Say ''{} report(s) accepted'' [Count (int (reports_sent r))],
          Say ''{} step(s)'' [Count (int (steps_sent r))],
          Say ''{} thinking step(s)'' [Count (int (thinking_sent r))],
          Say ''{} verification(s)'' [Count (int (verifications_sent r))],
          Say ''briefing {}'' [Word (if briefing_sent r then ''sent'' else ''NOT sent'')]]
         @ (if widened r then [] else [Word ''NARROWED to the pre-v0.6.16 fields (see the log)''])
         @ (if report_failures r = [] then []
            else [Say ''{} FAILED (first: {})'' [Count (int (length (report_failures r))), hd (report_failures r)]])))"

end
