(* ===== verification/Reporter_Facts.thy ===== *)
theory Reporter_Facts
  imports Reporter Durable_Run
begin

text \<open>
  What the reporter can have sent, over any platform: a console run is any interleaving of checkpoints,
  returned calls, published thoughts and a handoff, and a recording platform keeps every request with
  its answer. \<open>console_inv\<close> is the invariant of that record and the reporter's own books.
\<close>

subsection \<open>Bounds on what is shown\<close>

named_theorems fit_simps \<open>what fits the platform's limits\<close>

lemma length_capped_le [fit_simps]: "0 < limit \<Longrightarrow> length (capped s limit) \<le> limit"
  by (rule length_capped)

lemma fits_None [simp]: "fits n None" by (simp add: fits_def)

lemma fits_excerpt [fit_simps]: "0 < limit \<Longrightarrow> fits limit (excerpt given limit)"
  by (auto simp: fits_def excerpt_def length_capped split: option.split)

lemma fits_capped [fit_simps]: "0 < limit \<Longrightarrow> fits limit (map_option (\<lambda>s. capped s limit) given)"
  by (cases given) (simp_all add: fits_def length_capped)

lemma py_round_nonneg: "0 \<le> x \<Longrightarrow> 0 \<le> py_round n x"
proof -
  assume "0 \<le> x"
  then have "0 \<le> \<lfloor>x * 10 ^ n\<rfloor>" by simp
  then show ?thesis by (simp add: py_round_def Let_def)
qed

definition ranked_ok :: "hypothesis list \<Rightarrow> bool" where
  "ranked_ok hs = list_all (\<lambda>h. 0 \<le> confidence h \<and> confidence h \<le> 1) hs"

text \<open>What the run's own models guarantee, and that no tool has a name over the platform's limit.\<close>

definition reportable :: "run_state \<Rightarrow> bool" where
  "reportable rs = (ranked_ok (hypotheses rs) \<and> budget_wf (budget rs)
     \<and> list_all (\<lambda>e. length (tool_name e) \<le> 128) (evidence rs))"

lemma valid_top [fit_simps]:
  "ranked_ok hs \<Longrightarrow> pred_option (\<lambda>h. valid_hypothesis_card h \<and> hc_excerpt h = None) (top_of_ranking hs)"
  using length_capped_le[of 128] length_capped_le[of 64]
  by (cases hs) (simp_all add: top_of_ranking_def ranked_ok_def valid_hypothesis_card_def report_limits)

lemma valid_ranked [fit_simps]: "ranked_ok hs \<Longrightarrow> pred_option (list_all valid_hypothesis_card) (ranked_of hs)"
  using length_capped_le[of 128] length_capped_le[of 64]
  by (auto simp: ranked_of_def ranked_ok_def list_all_iff valid_hypothesis_card_def report_limits intro!: fits_excerpt)

lemma step_kind_not_report [simp]: "step_kind_of t \<noteq> Report_step"
  by (simp add: step_kind_of_def)

lemma valid_last_step_of [fit_simps]: "reportable rs \<Longrightarrow> pred_option valid_last_step (last_step_of rs)"
  by (auto simp: last_step_of_def option.pred_map reportable_def list_all_iff valid_last_step_def pred_option_def
      dest: find_last_Some)

lemma valid_plan_payload [fit_simps]: "pred_option valid_plan_card (plan_payload rend rs)"
  using length_capped_le[of 128] fits_capped[of 128]
  by (auto simp: plan_payload_def option.pred_map pred_option_def valid_plan_card_def report_limits
      intro!: fits_excerpt split: option.split)

lemma ordinal_ge [fit_simps]: "pred_option (\<lambda>n. 1 \<le> n) (ordinal v)"
  by (auto simp: ordinal_def pred_option_def split: option.splits val.splits if_splits)

lemma valid_verdicts [fit_simps]:
  "valid_verdict_row (verification_from_judge rend e)"
  "valid_verdict_row (verification_from_attempt rend e)"
  using length_capped_le[of 64]
  by (auto simp: verification_from_judge_def verification_from_attempt_def valid_verdict_row_def report_limits ordinal_ge
      intro!: fits_excerpt split: prod.split option.split)

lemma valid_thought_verdict [fit_simps]: "pred_option valid_verdict_row (verification_from_thinking t)"
  using length_capped_le[of 64]
  by (cases "th_verification t")
    (auto simp: verification_from_thinking_def valid_verdict_row_def report_limits ordinal_ge intro!: fits_excerpt)

lemma valid_budget_payload [fit_simps]: "reportable rs \<Longrightarrow> valid_budget_card (budget_payload rs)"
  by (simp add: reportable_def budget_wf_def budget_payload_def valid_budget_card_def py_round_nonneg)

lemma valid_observed_call:
  assumes "observed_call_of dump now tc = Some c"
  shows "fits max_result_excerpt_chars (oc_excerpt c)" "length (oc_outcome c) \<le> max_outcome_chars"
    "pred_option (\<lambda>ms. 0 \<le> ms) (oc_latency_ms c)"
  using assms length_capped_le[of 64]
  by (auto simp: observed_call_of_def Let_def report_limits latency_ms_def option.pred_map pred_option_def
      intro!: fits_excerpt split: option.splits if_splits list.splits)

lemma valid_narrow: "valid_report b \<Longrightarrow> valid_report (narrow_payload b)"
  by (simp add: valid_report_def narrow_payload_def)

subsection \<open>A recording platform\<close>

type_synonym console_log = "(report_request \<times> report_answer) list"

definition recorded ::
    "('w \<Rightarrow> report_request \<Rightarrow> 'w \<times> report_answer) \<Rightarrow> 'w \<times> console_log \<Rightarrow> report_request \<Rightarrow> ('w \<times> console_log) \<times> report_answer" where
  "recorded ask st q = (case st of (w, l) \<Rightarrow> (case ask w q of (w', a) \<Rightarrow> ((w', l @ [(q, a)]), a)))"

definition bodies :: "console_log \<Rightarrow> run_report_body list" where
  "bodies l = concat (map (\<lambda>(q, a). case q of Run_report b \<Rightarrow> [b] | _ \<Rightarrow> []) l)"

definition accepted :: "console_log \<Rightarrow> run_report_body list" where
  "accepted l = bodies (filter (\<lambda>(q, a). delivered (judged a)) l)"

definition refused :: "console_log \<Rightarrow> console_log" where
  "refused l = filter (\<lambda>(q, a). \<not> delivered (judged a)) l"

definition handoffs :: "console_log \<Rightarrow> nat" where
  "handoffs l = length (filter (\<lambda>(q, a). delivered (judged a) \<and> (case q of Briefing_report _ _ _ \<Rightarrow> True | _ \<Rightarrow> False)) l)"

definition body_numbers :: "run_report_body \<Rightarrow> nat list" where
  "body_numbers b = (case rb_step b of None \<Rightarrow> [] | Some s \<Rightarrow> [sr_seq s])"

definition step_numbers :: "console_log \<Rightarrow> nat list" where
  "step_numbers l = concat (map body_numbers (bodies l))"

definition is_narrow :: "run_report_body \<Rightarrow> bool" where
  "is_narrow b = (narrow_payload b = b)"

definition tool_step :: "run_report_body \<Rightarrow> bool" where
  "tool_step b = pred_option (\<lambda>s. sr_kind s \<noteq> Report_step) (rb_step b)"

lemma log_append [simp]:
  "bodies (l @ l') = bodies l @ bodies l'" "accepted (l @ l') = accepted l @ accepted l'"
  "refused (l @ l') = refused l @ refused l'" "step_numbers (l @ l') = step_numbers l @ step_numbers l'"
  "handoffs (l @ l') = handoffs l + handoffs l'"
  by (simp_all add: bodies_def accepted_def refused_def step_numbers_def handoffs_def)

lemma log_single [simp]:
  "bodies [(Run_report b, a)] = [b]" "bodies [(Briefing_report i x p, a)] = []"
  "accepted [(Run_report b, a)] = (if delivered (judged a) then [b] else [])"
  "accepted [(Briefing_report i x p, a)] = []"
  "refused [(q, a)] = (if delivered (judged a) then [] else [(q, a)])"
  "handoffs [(Run_report b, a)] = 0"
  "handoffs [(Briefing_report i x p, a)] = (if delivered (judged a) then 1 else 0)"
  "step_numbers [(Run_report b, a)] = body_numbers b" "step_numbers [(Briefing_report i x p, a)] = []"
  by (simp_all add: bodies_def accepted_def refused_def step_numbers_def handoffs_def)

lemma log_Nil [simp]: "bodies [] = []" "accepted [] = []" "refused [] = []" "step_numbers [] = []" "handoffs [] = 0"
  by (simp_all add: bodies_def accepted_def refused_def step_numbers_def handoffs_def)

lemma narrow_payload_narrow [simp]: "is_narrow (narrow_payload b)" "body_numbers (narrow_payload b) = []"
  by (simp_all add: is_narrow_def narrow_payload_def body_numbers_def)

lemma budget_not_narrow: "rb_budget b \<noteq> None \<Longrightarrow> \<not> is_narrow b"
  by (cases b) (auto simp: is_narrow_def narrow_payload_def)

subsection \<open>The invariant\<close>

definition console_inv :: "console_log \<Rightarrow> reporter \<Rightarrow> bool" where
  "console_inv l r =
     (list_all valid_report (bodies l)
      \<and> sorted_wrt (\<lambda>a b. is_narrow a \<longrightarrow> is_narrow b) (bodies l)
      \<and> (widened r \<longrightarrow> list_all (\<lambda>b. \<not> is_narrow b) (bodies l))
      \<and> reports_sent r = length (accepted l)
      \<and> steps_sent r = length (filter (\<lambda>b. rb_step b \<noteq> None \<and> tool_step b) (accepted l))
      \<and> thinking_sent r = length (filter (\<lambda>b. \<not> tool_step b) (accepted l))
      \<and> verifications_sent r = length (filter (\<lambda>b. rb_verification b \<noteq> None) (accepted l))
      \<and> state_reported r = (if accepted l = [] then None else Some (rb_state (last (accepted l))))
      \<and> handoffs l = (if briefing_sent r then 1 else 0)
      \<and> length (report_failures r) = length (refused l))"

lemma console_inv_new: "console_inv [] (new_reporter i lab al logged told)"
  by (simp add: console_inv_def new_reporter_def)

text \<open>What sending leaves alone.\<close>

definition same_books :: "reporter \<Rightarrow> reporter \<Rightarrow> bool" where
  "same_books r r' = (next_seq r' = next_seq r \<and> buffered r' = buffered r \<and> last_state r' = last_state r
     \<and> has_tool_log r' = has_tool_log r \<and> live_verdicts r' = live_verdicts r \<and> rp_label r' = rp_label r
     \<and> (verdict_to_send r' = verdict_to_send r \<or> verdict_to_send r' = None))"

lemma same_books_simps [simp]:
  "same_books r r" "same_books r (note_failure t r)" "same_books r (narrow t r)" "same_books r (accept_report L b r)"
  "same_books r (r\<lparr>briefing_sent := x\<rparr>)"
  by (simp_all add: same_books_def note_failure_def narrow_def accept_report_def Let_def split: option.split)

lemma same_books_trans: "same_books a b \<Longrightarrow> same_books b c \<Longrightarrow> same_books a c"
  by (auto simp: same_books_def)

lemma inv_accept:
  assumes "console_inv l r" and "valid_report b" and "is_narrow b = (\<not> widened r)" and "delivered (judged a)"
  shows "console_inv (l @ [(Run_report b, a)]) (accept_report L b r)"
  using assms
  by (auto simp: console_inv_def accept_report_def Let_def sorted_wrt_append list_all_iff tool_step_def
      split: option.split)

lemma inv_refused:
  assumes "console_inv l r" and "valid_report b" and "is_narrow b = (\<not> widened r)" and "\<not> delivered (judged a)"
  shows "console_inv (l @ [(Run_report b, a)]) (note_failure t r)"
  using assms by (auto simp: console_inv_def note_failure_def sorted_wrt_append list_all_iff)

lemma inv_narrow: "console_inv l r \<Longrightarrow> console_inv l (narrow t r)"
  by (auto simp: console_inv_def narrow_def)

lemma widened_simps [simp]:
  "widened (note_failure t r) = widened r" "widened (accept_report L b r) = widened r" "\<not> widened (narrow t r)"
  by (simp_all add: note_failure_def accept_report_def narrow_def Let_def split: option.split)

lemma call_recorded:
  assumes "call_platform (recorded ask) (w, l) r q = (st, r', d)"
  obtains w' a where "st = (w', l @ [(q, a)])" "d = judged a"
    "r' = (if delivered (judged a) then r else note_failure (failure_text (request_tool q) a) r)"
  using assms by (auto simp: call_platform_def recorded_def split: prod.splits)

text \<open>
  Sending with the step numbers \<open>ns\<close> at hand: what it appends to the record, at most those numbers in
  their order, and the invariant survives it.
\<close>

definition appended :: "console_log \<Rightarrow> reporter \<Rightarrow> nat list \<Rightarrow> console_log \<Rightarrow> reporter \<Rightarrow> bool" where
  "appended l r ns l' r' =
     (\<exists>ext. l' = l @ ext \<and> subseq (step_numbers ext) ns \<and> console_inv l' r' \<and> same_books r r')"

lemma appended_refl: "console_inv l r' \<Longrightarrow> same_books r r' \<Longrightarrow> appended l r ns l r'"
  by (auto simp: appended_def)

lemma appended_one:
  "console_inv (l @ [(q, a)]) r' \<Longrightarrow> same_books r r' \<Longrightarrow> step_numbers [(q, a)] = ns \<Longrightarrow>
     appended l r ns (l @ [(q, a)]) r'"
  by (auto simp: appended_def)

lemma appended_trans: "appended l r ns l1 r1 \<Longrightarrow> appended l1 r1 ms l2 r2 \<Longrightarrow> appended l r (ns @ ms) l2 r2"
  unfolding appended_def
proof (elim exE conjE)
  fix e1 e2
  assume a: "l1 = l @ e1" "subseq (step_numbers e1) ns" "same_books r r1"
    "l2 = l1 @ e2" "subseq (step_numbers e2) ms" "console_inv l2 r2" "same_books r1 r2"
  show "\<exists>ext. l2 = l @ ext \<and> subseq (step_numbers ext) (ns @ ms) \<and> console_inv l2 r2 \<and> same_books r r2"
    using a same_books_trans[OF a(3,7)] list_emb_append_mono[OF a(2,5)] by (intro exI[of _ "e1 @ e2"]) simp
qed

lemma appended_weaken: "appended l r ns l' r' \<Longrightarrow> subseq ns ms \<Longrightarrow> appended l r ms l' r'"
  unfolding appended_def by (blast intro: subseq_order.trans)

lemma appended_inv: "appended l r ns l' r' \<Longrightarrow> console_inv l' r'"
  and appended_books: "appended l r ns l' r' \<Longrightarrow> same_books r r'"
  by (auto simp: appended_def)

lemma deliver_narrow_records:
  assumes "deliver_narrow L (recorded ask) (w, l) r b = ((w', l'), r')"
    and "console_inv l r" and "valid_report b" and "\<not> widened r"
  shows "appended l r [] l' r'"
proof -
  from assms(1) valid_narrow[OF assms(3)] obtain d r1 where
    "call_platform (recorded ask) (w, l) r (Run_report (narrow_payload b)) = ((w', l'), r1, d)"
    and r': "r' = (if delivered d then accept_report L (narrow_payload b) r1 else r1)"
    by (auto simp: deliver_narrow_def split: prod.splits if_splits)
  from this(1) show ?thesis
  proof (cases rule: call_recorded)
    case (1 w2 a)
    with r' inv_accept[OF assms(2) valid_narrow[OF assms(3)], of a L] inv_refused[OF assms(2) valid_narrow[OF assms(3)], of a]
      assms(4)
    show ?thesis by (auto intro!: appended_one split: if_splits)
  qed
qed

lemma deliver_records:
  assumes "deliver L (recorded ask) nr mn (w, l) r b = ((w', l'), r')"
    and "console_inv l r" and "valid_report b" and "\<not> is_narrow b"
  shows "appended l r (body_numbers b) l' r'"
proof (cases "widened r")
  case False
  with assms have "deliver_narrow L (recorded ask) (w, l) r b = ((w', l'), r')" by (simp add: deliver_def)
  from deliver_narrow_records[OF this assms(2,3) False] show ?thesis by (rule appended_weaken) simp
next
  case True
  obtain st r1 d where call: "call_platform (recorded ask) (w, l) r (Run_report b) = (st, r1, d)" by (metis prod_cases3)
  from this show ?thesis
  proof (cases rule: call_recorded)
    case (1 w1 a)
    let ?l = "l @ [(Run_report b, a)]"
    show ?thesis
    proof (cases "delivered (judged a)")
      case yes: True
      with assms(1,3) True call 1 have "l' = ?l" "r' = accept_report L b r" by (auto simp: deliver_def)
      with inv_accept[OF assms(2,3) _ yes, of L] True assms(4) show ?thesis by (auto intro: appended_one)
    next
      case no: False
      then have inv: "console_inv ?l r1" "same_books r r1" using inv_refused[OF assms(2,3)] True assms(4) 1 by auto
      show ?thesis
      proof (cases "shape_refusal (judged a) \<and> mn")
        case False
        with assms(1,3) True call 1 no have "l' = ?l" "r' = r1" by (auto simp: deliver_def split: if_splits)
        with inv show ?thesis by (auto intro: appended_one)
      next
        case narrowing: True
        define t where "t = Say ''the platform refused the widened report: {}''
                                  (case refusal d of None \<Rightarrow> [] | Some said \<Rightarrow> [Word said])"
        have one: "appended l r (body_numbers b) ?l (narrow t r1)"
          using inv(1) inv_narrow same_books_trans[OF inv(2) same_books_simps(3)] by (auto intro: appended_one)
        show ?thesis
        proof (cases nr)
          case False
          with assms(1,3) True call 1 no narrowing have "l' = ?l" "r' = narrow t r1"
            by (auto simp: deliver_def t_def Let_def)
          with one show ?thesis by simp
        next
          case again: True
          with assms(1,3) True call 1 no narrowing
          have "deliver_narrow L (recorded ask) (w1, ?l) (narrow t r1) b = ((w', l'), r')"
            by (auto simp: deliver_def t_def Let_def)
          from deliver_narrow_records[OF this appended_inv[OF one] assms(3)]
          show ?thesis using appended_trans[OF one, of "[]"] by simp
        qed
      qed
    qed
  qed
qed

subsection \<open>What is pending\<close>

fun item_numbers :: "pending_item \<Rightarrow> nat list" where
  "item_numbers (Step_item s _) = [sr_seq s]"
| "item_numbers (Verdict_item _ _) = []"

fun valid_item :: "pending_item \<Rightarrow> bool" where
  "valid_item (Step_item s _) = valid_step s"
| "valid_item (Verdict_item v _) = valid_verdict_row v"

definition valid_call :: "observed_call \<Rightarrow> bool" where
  "valid_call c = (fits max_result_excerpt_chars (oc_excerpt c) \<and> length (oc_outcome c) \<le> max_outcome_chars
     \<and> pred_option (\<lambda>ms. 0 \<le> ms) (oc_latency_ms c))"

lemma new_step_valid:
  assumes "new_step r kind tool args given what_happened latency now = (r', item)"
    and "fits max_result_excerpt_chars given" and "length what_happened \<le> max_outcome_chars"
    and "pred_option (\<lambda>ms. 0 \<le> ms) latency"
  shows "r' = r\<lparr>next_seq := Suc (next_seq r)\<rparr>" and "valid_item item" and "item_numbers item = [Suc (next_seq r)]"
  using assms length_capped_le[of 128] by (auto simp: new_step_def valid_step_def report_limits)

lemma step_of_entry_valid:
  assumes "step_of_entry L r e = (r', item)"
  shows "r' = r\<lparr>next_seq := Suc (next_seq r)\<rparr>" and "valid_item item" and "item_numbers item = [Suc (next_seq r)]"
  using new_step_valid[OF assms[unfolded step_of_entry_def] fits_excerpt] by (simp_all add: report_limits)

lemma step_of_call_valid:
  assumes "step_of_call r c = (r', item)" and "valid_call c"
  shows "r' = r\<lparr>next_seq := Suc (next_seq r)\<rparr>" and "valid_item item" and "item_numbers item = [Suc (next_seq r)]"
  using new_step_valid[OF assms(1)[unfolded step_of_call_def]] assms(2) by (simp_all add: valid_call_def)

lemma thinking_step_valid:
  assumes "thinking_step L r t = (r', item)"
  shows "r' = r\<lparr>next_seq := Suc (next_seq r)\<rparr>" and "valid_item item" and "item_numbers item = [Suc (next_seq r)]"
  using new_step_valid[OF assms[unfolded thinking_step_def] fits_excerpt] by (simp_all add: report_limits)

abbreviation numbers_of :: "pending_item list \<Rightarrow> nat list" where
  "numbers_of items \<equiv> concat (map item_numbers items)"

text \<open>Pending items are numbered from the counter on, without a gap, and nothing else moves.\<close>

definition drawn :: "reporter \<Rightarrow> reporter \<Rightarrow> pending_item list \<Rightarrow> bool" where
  "drawn r r' items = (r' = r\<lparr>next_seq := next_seq r'\<rparr> \<and> next_seq r \<le> next_seq r'
     \<and> list_all valid_item items \<and> numbers_of items = [Suc (next_seq r)..<Suc (next_seq r')])"

lemma drawn_Nil: "drawn r r []" by (simp add: drawn_def)

lemma drawn_step:
  assumes "r1 = r\<lparr>next_seq := Suc (next_seq r)\<rparr>" "valid_item item" "item_numbers item = [Suc (next_seq r)]"
    and "drawn r1 r' items"
  shows "drawn r r' (item # items)"
  using assms by (auto simp: drawn_def upt_conv_Cons)

lemma drawn_verdict: "valid_verdict_row v \<Longrightarrow> drawn r r' items \<Longrightarrow> drawn r r' (Verdict_item v t # items)"
  by (simp add: drawn_def)

lemma drawn_append:
  assumes "drawn r r1 xs" and "drawn r1 r2 ys" shows "drawn r r2 (xs @ ys)"
proof -
  have "[Suc (next_seq r)..<Suc (next_seq r2)] = [Suc (next_seq r)..<Suc (next_seq r1)] @ [Suc (next_seq r1)..<Suc (next_seq r2)]"
    using assms upt_add_eq_append[of "Suc (next_seq r)" "Suc (next_seq r1)" "next_seq r2 - next_seq r1"]
    by (simp add: drawn_def del: upt_Suc)
  moreover from assms have "r2 = r\<lparr>next_seq := next_seq r2\<rparr>" 
    by (cases r; cases r1; cases r2) (simp add: drawn_def)
  ultimately show ?thesis using assms by (simp add: drawn_def del: upt_Suc)
qed

lemma pending_rows_drawn: "pending_rows L r es = (r', items) \<Longrightarrow> drawn r r' items"
proof (induction es arbitrary: r r' items)
  case Nil
  then show ?case by (simp add: drawn_Nil)
next
  case (Cons e es)
  then show ?case
    by (auto split: if_splits prod.splits intro: drawn_verdict valid_verdicts drawn_step[OF step_of_entry_valid])
qed

lemma pending_calls_drawn: "pending_calls r cs = (r', items) \<Longrightarrow> list_all valid_call cs \<Longrightarrow> drawn r r' items"
proof (induction cs arbitrary: r r' items)
  case Nil
  then show ?case by (simp add: drawn_Nil)
next
  case (Cons c cs)
  then show ?case by (auto split: prod.splits intro: drawn_step[OF step_of_call_valid])
qed

lemma pending_drawn:
  assumes "pending L r rs = (r', items)" and "list_all valid_call (buffered r)"
  shows "drawn (r\<lparr>reported_entries := length (evidence rs), buffered := []\<rparr>) r' items"
  using assms by (auto simp: pending_def Let_def split: prod.splits
      intro: drawn_append pending_rows_drawn pending_calls_drawn)

subsection \<open>Payloads\<close>

lemma payload_not_narrow: "\<not> is_narrow (payload L r rs item final)"
  by (rule budget_not_narrow) (simp add: payload_def Let_def split: option.split pending_item.split)

lemma payload_numbers:
  "body_numbers (payload L r rs item final) = (case item of None \<Rightarrow> [] | Some i \<Rightarrow> item_numbers i)"
  by (simp add: payload_def Let_def body_numbers_def split: option.split pending_item.split)

lemma payload_valid:
  assumes "reportable rs" and "pred_option valid_item item" and "pred_option valid_verdict_row (verdict_to_send r)"
  shows "valid_report (payload L r rs item final)"
proof -
  have "ranked_ok (hypotheses rs)" using assms(1) by (simp add: reportable_def)
  note base = valid_top[OF this] valid_ranked[OF this] valid_last_step_of[OF assms(1)] valid_budget_payload[OF assms(1)]
    fits_capped[of 128 "rp_label r"] valid_plan_payload[of "render L" rs]
  show ?thesis
    using base assms(2,3)
    by (auto simp: payload_def Let_def valid_report_def valid_step_def valid_last_step_def report_limits
        split: option.split pending_item.split)
qed

subsection \<open>Events\<close>

datatype console_event =
    Checkpointed run_state
  | Returned traced_call datetime
  | Thought observed_thinking
  | Handed_off escalation_briefing "string option"
  | Forgotten

fun console_step ::
    "report_lib \<Rightarrow> ('w \<Rightarrow> report_request \<Rightarrow> 'w \<times> report_answer) \<Rightarrow> 'w \<times> reporter \<Rightarrow> console_event \<Rightarrow> 'w \<times> reporter" where
  "console_step L ask (w, r) (Checkpointed rs) = report L ask w r rs"
| "console_step L ask (w, r) (Returned tc now) = observe_call L ask w r tc now"
| "console_step L ask (w, r) (Thought t) = (case report_thinking L ask w r t of (w', r', _) \<Rightarrow> (w', r'))"
| "console_step L ask (w, r) (Handed_off b prose) = report_briefing ask w r b prose"
| "console_step L ask (w, r) Forgotten = (w, forget_calls r)"

definition console_run ::
    "report_lib \<Rightarrow> ('w \<Rightarrow> report_request \<Rightarrow> 'w \<times> report_answer) \<Rightarrow> 'w \<times> reporter \<Rightarrow> console_event list \<Rightarrow> 'w \<times> reporter" where
  "console_run L ask st events = fold (\<lambda>e st. console_step L ask st e) events st"

fun reportable_event :: "console_event \<Rightarrow> bool" where
  "reportable_event (Checkpointed rs) = reportable rs"
| "reportable_event (Thought t) = ranked_ok (th_hypotheses t)"
| "reportable_event _ = True"

definition reporter_ok :: "reporter \<Rightarrow> bool" where
  "reporter_ok r = (list_all valid_call (buffered r) \<and> pred_option valid_verdict_row (verdict_to_send r)
     \<and> pred_option reportable (last_state r))"

definition numbered :: "console_log \<Rightarrow> nat \<Rightarrow> bool" where
  "numbered l n = (sorted_wrt (<) (step_numbers l) \<and> list_all (\<lambda>k. k \<le> n) (step_numbers l))"

definition console_ok :: "console_log \<Rightarrow> reporter \<Rightarrow> bool" where
  "console_ok l r = (console_inv l r \<and> reporter_ok r \<and> numbered l (next_seq r))"

lemma console_ok_new: "console_ok [] (new_reporter i lab al logged told)"
  using console_inv_new[of i lab al logged told]
  by (simp add: console_ok_def reporter_ok_def numbered_def new_reporter_def)

lemma subseq_subset: "subseq xs ys \<Longrightarrow> set xs \<subseteq> set ys"
  by (induction rule: list_emb.induct) auto

lemma subseq_sorted_wrt: "subseq xs ys \<Longrightarrow> sorted_wrt P ys \<Longrightarrow> sorted_wrt P xs"
proof (induction rule: list_emb.induct)
  case (list_emb_Cons2 x y xs ys)
  then have "set xs \<subseteq> set ys" by (auto dest: subseq_subset)
  with list_emb_Cons2 show ?case by auto
qed simp_all

lemma reporter_ok_books: "reporter_ok r \<Longrightarrow> same_books r r' \<Longrightarrow> reporter_ok r'"
  by (auto simp: reporter_ok_def same_books_def)

lemma numbered_appended:
  assumes "appended l r ns l' r'" and "numbered l n" and "sorted_wrt (<) ns" and "list_all (\<lambda>k. n < k \<and> k \<le> m) ns" and "n \<le> m"
  shows "numbered l' m"
proof -
  from assms(1) obtain ext where l': "l' = l @ ext" and sub: "subseq (step_numbers ext) ns" by (auto simp: appended_def)
  from sub have "set (step_numbers ext) \<subseteq> set ns" by (auto dest: subseq_subset)
  with assms(2-5) l' subseq_sorted_wrt[OF sub assms(3)] show ?thesis
    by (auto simp: numbered_def sorted_wrt_append list_all_iff) (meson le_less_trans order.trans subsetD)+
qed

text \<open>Sending what was drawn from the counter keeps the whole invariant.\<close>

lemma console_ok_drawn:
  assumes "console_ok l r" and "next_seq r \<le> next_seq r1" and "reporter_ok r1"
    and "appended l r1 ns l' r'" and "subseq ns [Suc (next_seq r)..<Suc (next_seq r1)]"
  shows "console_ok l' r'"
proof -
  have "appended l r1 [Suc (next_seq r)..<Suc (next_seq r1)] l' r'" using assms(4,5) by (rule appended_weaken)
  from numbered_appended[OF this, of "next_seq r" "next_seq r1"] assms(1,2)
  have "numbered l' (next_seq r1)" by (simp add: console_ok_def list_all_iff del: upt_Suc)
  with appended_inv[OF assms(4)] reporter_ok_books[OF assms(3) appended_books[OF assms(4)]] appended_books[OF assms(4)]
  show ?thesis by (simp add: console_ok_def same_books_def)
qed

lemma deliver_items_records:
  assumes "deliver_items L (recorded ask) rs (w, l) r items = ((w', l'), r')"
    and "console_inv l r" and "list_all valid_item items" and "reportable rs"
    and "pred_option valid_verdict_row (verdict_to_send r)"
  shows "appended l r (numbers_of items) l' r'"
  using assms
proof (induction items arbitrary: w l r)
  case Nil
  then show ?case by (simp add: appended_refl)
next
  case (Cons item items)
  show ?case
  proof (cases "\<not> widened r \<and> items \<noteq> []")
    case True
    with Cons have "appended l r (numbers_of items) l' r'" by simp
    then show ?thesis by (rule appended_weaken) (simp add: list_emb_append2)
  next
    case False
    obtain w1 l1 r1 where d: "deliver L (recorded ask) (items = []) True (w, l) r (payload L r rs (Some item) (items = [])) = ((w1, l1), r1)"
      by (metis surj_pair)
    have one: "appended l r (item_numbers item) l1 r1"
      using deliver_records[OF d Cons.prems(2) payload_valid payload_not_narrow] Cons.prems(3-5) by (simp add: payload_numbers)
    from d False Cons.prems(1) have rest: "deliver_items L (recorded ask) rs (w1, l1) r1 items = ((w', l'), r')"
      by (auto simp: Let_def)
    have "appended l1 r1 (numbers_of items) l' r'"
      using Cons.IH[OF rest appended_inv[OF one] _ Cons.prems(4)] Cons.prems(3,5) appended_books[OF one]
      by (auto simp: same_books_def)
    with one show ?thesis by (auto dest: appended_trans)
  qed
qed

lemma inv_frame:
  "console_inv l r \<Longrightarrow> console_inv l (r\<lparr>next_seq := n\<rparr>)" "console_inv l r \<Longrightarrow> console_inv l (r\<lparr>buffered := b\<rparr>)"
  "console_inv l r \<Longrightarrow> console_inv l (r\<lparr>last_state := x\<rparr>)" "console_inv l r \<Longrightarrow> console_inv l (r\<lparr>verdict_to_send := v\<rparr>)"
  "console_inv l r \<Longrightarrow> console_inv l (r\<lparr>reported_entries := k\<rparr>)"
  by (simp_all add: console_inv_def)

lemma report_ok:
  assumes "report L (recorded ask) (w, l) r rs = ((w', l'), r')" and "console_ok l r" and "reportable rs"
  shows "console_ok l' r'"
proof -
  obtain r1 items where p: "pending L (r\<lparr>last_state := Some rs\<rparr>) rs = (r1, items)" by fastforce
  define kept where "kept = (if widened r1 \<or> items = [] then items else [last items])"
  have ok: "console_inv l r" "list_all valid_call (buffered r)" "pred_option valid_verdict_row (verdict_to_send r)"
    using assms(2) by (auto simp: console_ok_def reporter_ok_def)
  have "drawn ((r\<lparr>last_state := Some rs\<rparr>)\<lparr>reported_entries := length (evidence rs), buffered := []\<rparr>) r1 items"
    using pending_drawn[OF p] ok(2) by simp
  then have r1: "r1 = r\<lparr>last_state := Some rs, reported_entries := length (evidence rs), buffered := [], next_seq := next_seq r1\<rparr>"
    and n: "next_seq r \<le> next_seq r1" and items: "list_all valid_item items"
      "numbers_of items = [Suc (next_seq r)..<Suc (next_seq r1)]"
    by (auto simp: drawn_def simp del: upt_Suc)
  have books: "console_inv l r1" "reporter_ok r1" "verdict_to_send r1 = verdict_to_send r"
    using ok assms(3) by (subst r1, auto simp: console_inv_def reporter_ok_def)+
  have kept: "list_all valid_item kept" "subseq (numbers_of kept) [Suc (next_seq r)..<Suc (next_seq r1)]"
  proof -
    show "list_all valid_item kept" using items(1) by (auto simp: kept_def list_all_iff)
    have "subseq [last items] items" if "items \<noteq> []" using that by (simp add: subseq_singleton_left)
    then have "subseq (numbers_of [last items]) (numbers_of items)" if "items \<noteq> []"
      using that append_butlast_last_id[OF that] by (metis concat_append list_emb_append2 map_append subseq_order.refl)
    then show "subseq (numbers_of kept) [Suc (next_seq r)..<Suc (next_seq r1)]"
      by (auto simp: kept_def items(2)[symmetric] simp del: upt_Suc)
  qed
  have "appended l r1 (numbers_of kept) l' r'"
  proof (cases "kept = []")
    case True
    with assms(1) p have "deliver L (recorded ask) True True (w, l) r1 (payload L r1 rs None True) = ((w', l'), r')"
      by (simp add: report_def kept_def Let_def)
    from deliver_records[OF this books(1) payload_valid payload_not_narrow] assms(3) ok(3) books(3) True
    show ?thesis by (simp add: payload_numbers)
  next
    case False
    with assms(1) p have "deliver_items L (recorded ask) rs (w, l) r1 kept = ((w', l'), r')"
      by (simp add: report_def kept_def Let_def)
    from deliver_items_records[OF this books(1) kept(1) assms(3)] ok(3) books(3) show ?thesis by simp
  qed
  from console_ok_drawn[OF assms(2) n books(2) this kept(2)] show ?thesis .
qed

text \<open>One step reported at once, with the body \<open>b\<close> built from it.\<close>

lemma sent_at_once_ok:
  assumes "deliver L (recorded ask) nr mn (w, l) r1 b = ((w', l'), r')" and "console_ok l r"
    and "r1 = r\<lparr>next_seq := Suc (next_seq r)\<rparr>" and "valid_report b" and "\<not> is_narrow b"
    and "body_numbers b = [Suc (next_seq r)]"
  shows "console_ok l' r'"
proof -
  have inv: "console_inv l r1" "reporter_ok r1"
    using assms(2,3) by (auto simp: console_ok_def reporter_ok_def intro: inv_frame)
  show ?thesis
    by (rule console_ok_drawn[OF assms(2) _ inv(2) deliver_records[OF assms(1) inv(1) assms(4,5)]])
      (use assms(3,6) in simp_all)
qed

lemma report_call_ok:
  assumes "report_call L (recorded ask) (w, l) r c = ((w', l'), r', taken)" and "console_ok l r" and "valid_call c"
  shows "console_ok l' r'"
proof (cases "\<exists>rs. last_state r = Some rs \<and> widened r")
  case True
  then obtain rs where rs: "last_state r = Some rs" and w: "widened r" by blast
  obtain r1 item where s: "step_of_call r c = (r1, item)" by fastforce
  note step = step_of_call_valid[OF s assms(3)]
  from assms(1) rs w s have
    d: "deliver L (recorded ask) False True (w, l) r1 (payload L r1 rs (Some item) False) = ((w', l'), r')"
    by (auto simp: report_call_def split: prod.splits)
  have "valid_report (payload L r1 rs (Some item) False)"
    using assms(2) rs step(1,2) by (intro payload_valid) (auto simp: console_ok_def reporter_ok_def)
  from sent_at_once_ok[OF d assms(2) step(1) this payload_not_narrow] step(3) show ?thesis by (simp add: payload_numbers)
next
  case False
  with assms(1) have "l' = l" "r' = r" by (auto simp: report_call_def split: option.splits if_splits)
  with assms(2) show ?thesis by simp
qed

lemma observe_call_ok:
  assumes "observe_call L (recorded ask) (w, l) r tc now = ((w', l'), r')" and "console_ok l r"
  shows "console_ok l' r'"
proof (cases "if has_tool_log r then observed_call_of (dump_json L) now tc else None")
  case None
  with assms show ?thesis by (auto simp: observe_call_def split: if_splits)
next
  case (Some c)
  then have c: "valid_call c" using valid_observed_call by (auto simp: valid_call_def split: if_splits)
  obtain w1 l1 r1 taken where call: "report_call L (recorded ask) (w, l) r c = ((w1, l1), r1, taken)" by (metis surj_pair)
  from report_call_ok[OF this assms(2) c] have ok: "console_ok l1 r1" .
  moreover from this c have "console_ok l1 (r1\<lparr>buffered := buffered r1 @ [c]\<rparr>)"
    by (auto simp: console_ok_def reporter_ok_def intro: inv_frame)
  moreover have "l' = l1" "r' = r1 \<or> r' = r1\<lparr>buffered := buffered r1 @ [c]\<rparr>"
    using assms(1) Some call by (auto simp: observe_call_def split: if_splits)
  ultimately show ?thesis by auto
qed

lemma report_thinking_ok:
  assumes "report_thinking L (recorded ask) (w, l) r t = ((w', l'), r', taken)" and "console_ok l r"
    and "ranked_ok (th_hypotheses t)"
  shows "console_ok l' r'"
proof -
  define v where "v = verification_from_thinking t"
  define r0 where "r0 = (if v = None then r else r\<lparr>verdict_to_send := v\<rparr>)"
  have v: "pred_option valid_verdict_row v" using valid_thought_verdict by (simp add: v_def)
  have ok: "console_ok l r0"
    using assms(2) v by (auto simp: r0_def console_ok_def reporter_ok_def intro: inv_frame)
  show ?thesis
  proof (cases "\<exists>rs. last_state r0 = Some rs \<and> widened r0")
    case True
    then obtain rs where rs: "last_state r0 = Some rs" and w: "widened r0" by blast
    obtain r1 item where s: "thinking_step L r0 t = (r1, item)" by fastforce
    note step = thinking_step_valid[OF s]
    define b where "b = (payload L r1 rs (Some item) False)
      \<lparr>rb_hypotheses := ranked_of (th_hypotheses t), rb_current_hypothesis := top_of_ranking (th_hypotheses t)\<rparr>"
    define b' where "b' = (if v = None then b else b\<lparr>rb_verification := v\<rparr>)"
    from assms(1) rs w s have d: "deliver L (recorded ask) False False (w, l) r1 b' = ((w', l'), r')"
      by (auto simp: report_thinking_def b'_def b_def r0_def[symmetric] v_def[symmetric] Let_def split: prod.splits)
    have "valid_report (payload L r1 rs (Some item) False)"
      using ok rs step(1,2) by (intro payload_valid) (auto simp: console_ok_def reporter_ok_def)
    then have "valid_report b'"
      using valid_top[OF assms(3)] valid_ranked[OF assms(3)] v by (auto simp: b'_def b_def valid_report_def)
    moreover have "\<not> is_narrow b'"
      by (rule budget_not_narrow) (simp add: b'_def b_def payload_def Let_def split: option.split pending_item.split)
    moreover have "body_numbers b' = [Suc (next_seq r0)]"
      using payload_numbers[of L r1 rs "Some item" False] step(3) by (simp add: b'_def b_def body_numbers_def)
    ultimately show ?thesis by (rule sent_at_once_ok[OF d ok step(1)])
  next
    case False
    with assms(1) have "l' = l" "r' = r0"
      by (auto simp: report_thinking_def r0_def v_def Let_def split: option.splits if_splits)
    with ok show ?thesis by simp
  qed
qed

lemma report_briefing_ok:
  assumes "report_briefing (recorded ask) (w, l) r b prose = ((w', l'), r')" and "console_ok l r"
  shows "console_ok l' r'"
proof (cases "briefing_sent r")
  case True
  with assms show ?thesis by (simp add: report_briefing_def)
next
  case False
  define cut where "cut = (case prose of Some (c # cs) \<Rightarrow> Some (take max_prose_chars (c # cs)) | _ \<Rightarrow> None)"
  obtain st r1 d where call: "call_platform (recorded ask) (w, l) r (Briefing_report (rp_run_id r) b cut) = (st, r1, d)"
    by (metis prod_cases3)
  from this show ?thesis
  proof (cases rule: call_recorded)
    case (1 w1 a)
    with call False assms(1) have "l' = l @ [(Briefing_report (rp_run_id r) b cut, a)]"
      "r' = (if delivered (judged a) then r\<lparr>briefing_sent := True\<rparr> else note_failure (failure_text report_briefing_tool a) r)"
      by (auto simp: report_briefing_def cut_def Let_def request_tool_def)
    with assms(2) False show ?thesis
      by (auto simp: console_ok_def console_inv_def reporter_ok_def numbered_def note_failure_def)
  qed
qed

lemma console_step_ok:
  assumes "console_step L (recorded ask) ((w, l), r) e = ((w', l'), r')" and "console_ok l r" and "reportable_event e"
  shows "console_ok l' r'"
proof (cases e)
  case (Thought t)
  with assms show ?thesis by (auto split: prod.splits dest!: report_thinking_ok)
next
  case Forgotten
  with assms show ?thesis by (auto simp: forget_calls_def console_ok_def reporter_ok_def intro: inv_frame)
qed (use assms in \<open>auto dest: report_ok observe_call_ok report_briefing_ok\<close>)

lemma console_run_ok:
  assumes "console_run L (recorded ask) ((w, l), r) events = ((w', l'), r')" and "console_ok l r"
    and "list_all reportable_event events"
  shows "console_ok l' r'"
  using assms
proof (induction events arbitrary: w l r)
  case Nil
  then show ?case by (simp add: console_run_def)
next
  case (Cons e es)
  obtain w1 l1 r1 where step: "console_step L (recorded ask) ((w, l), r) e = ((w1, l1), r1)" by (metis surj_pair)
  with Cons.prems have rest: "console_run L (recorded ask) ((w1, l1), r1) es = ((w', l'), r')" by (simp add: console_run_def)
  have "console_ok l1 r1" using console_step_ok[OF step Cons.prems(2)] Cons.prems(3) by simp
  with Cons.IH[OF rest] Cons.prems(3) show ?case by simp
qed

subsection \<open>Hanging the reporter off the checkpoints\<close>

text \<open>The reporting checkpointer is a checkpointer: it keeps every law of the one it decorates.\<close>

definition reporting_history :: "('s \<Rightarrow> string \<Rightarrow> run_state list) \<Rightarrow> 's \<times> 'v \<times> reporter \<Rightarrow> string \<Rightarrow> run_state list" where
  "reporting_history history st i = history (fst st) i"

lemma reporting_write_store:
  "reporting_write L ask put (s, vr) rs = ((s', vr'), res) \<Longrightarrow> put s rs = (s', res)"
  by (auto simp: reporting_write_def split: prod.splits sum.splits)

lemma reporting_checkpointer:
  assumes "checkpointer load put history"
  shows "checkpointer (reporting_load load) (reporting_write L ask put) (reporting_history history)"
proof -
  note laws = checkpointer.load_history[OF assms] checkpointer.history_write[OF assms] checkpointer.history_failed[OF assms]
  show ?thesis
    by unfold_locales
      (auto simp: reporting_load_def reporting_history_def laws dest!: reporting_write_store
        simp del: split_paired_All split: prod.splits)
qed

end
