(* ===== verification/Reporter_Claims.thy ===== *)
theory Reporter_Claims
  imports Reporter_Facts Live_Run Sample_Run
begin

text \<open>
  The two promises of \<^verbatim>\<open>agent/run_reporting.py\<close>: a run is the same run with the reporter hung off its
  checkpoints, and what the console receives is well formed, numbered and narrowed at most once.
\<close>

subsection \<open>The decorated checkpointer\<close>

interpretation reported_pg: checkpointer "reporting_load pg_load" "reporting_write L ask pg_write" "reporting_history pg_history"
  by (rule reporting_checkpointer) (rule pg.checkpointer_axioms)

interpretation reported_live_pg: durable_run "reporting_load pg_load" "reporting_write L ask' pg_write"
    "reporting_history pg_history" "live_registry str_of digest I ask model P" "live_inv P" ..

subsection \<open>A simulation of the loop\<close>













end
