(* ===== verification/Mcp_Client.thy ===== *)
theory Mcp_Client
  imports Tool_Policy
begin

text \<open>
  \<^verbatim>\<open>tools/mcp_client.py\<close>: the JSON-RPC transport under every tool call. \<open>post\<close> is \<open>httpx.Client.post\<close>: an
  answered request with its status, headers and body, or a \<open>RequestError\<close> with its text. Python's
  \<open>float()\<close> and \<open>int()\<close> on what the server sent are parameters with all their outcomes; the retry delays
  are shared with the model client of \<^verbatim>\<open>llm/client.py\<close>.
\<close>

subsection \<open>Backing off\<close>

datatype py_float = Finite rat | Pos_inf | Neg_inf | Not_a_number

definition max_retry_after_seconds :: rat where "max_retry_after_seconds = 60"

text \<open>
  The doubling backoff, or the server's \<open>Retry-After\<close> when that asks for longer, capped. \<open>None\<close> is a
  header that is missing or that \<open>float()\<close> refuses; \<open>max(delay, min(nan, 60))\<close> is \<open>delay\<close>.
\<close>

definition retry_delay :: "rat \<Rightarrow> nat \<Rightarrow> py_float option \<Rightarrow> rat" where
  "retry_delay base_delay attempt hint =
     (let delay = base_delay * 2 ^ attempt in
      case hint of
        Some (Finite q) \<Rightarrow> max delay (min q max_retry_after_seconds)
      | Some Pos_inf \<Rightarrow> max delay max_retry_after_seconds
      | _ \<Rightarrow> delay)"

lemma retry_delay_bounds:
  "base_delay * 2 ^ attempt \<le> retry_delay base_delay attempt hint"
  "retry_delay base_delay attempt hint \<le> max (base_delay * 2 ^ attempt) max_retry_after_seconds"
  by (auto simp: retry_delay_def Let_def split: option.split py_float.split)

subsection \<open>Errors\<close>

datatype int_outcome = Is_int int | Not_int | Int_overflow

datatype client_error =
    Mcp_failed int summary "val option"
  | Lab_probe_refused int summary "val option"
  | Raised exn

record client_lib =
  to_float :: "string \<Rightarrow> py_float option"
  to_int :: "val \<Rightarrow> int_outcome"
  to_bool :: "val \<Rightarrow> bool option" \<comment> \<open>Pydantic's \<open>bool\<close>\<close>
  str_of_val :: "val \<Rightarrow> string"

definition internal_error :: int where "internal_error = -32603"
definition json_rpc_invalid_params :: int where "json_rpc_invalid_params = -32602"
definition lab_probe_refused_error_code :: string where "lab_probe_refused_error_code = ''lab_probe_refused''"
definition lab_probe_param :: string where "lab_probe_param = ''_lab_probe''"
definition lab_principal_header :: string where "lab_principal_header = ''X-Lab-Principal''"
definition lab_probe_reason_max_chars :: nat where "lab_probe_reason_max_chars = 200"

definition reason_code :: "client_lib \<Rightarrow> val option \<Rightarrow> string" where
  "reason_code L data = (case data of
      Some (VDict d) \<Rightarrow> (case get d ''reason_code'' of Some v \<Rightarrow> str_of_val L v | None \<Rightarrow> ''unknown'')
    | _ \<Rightarrow> ''unknown'')"

text \<open>
  \<open>_error_from_member\<close>. Its \<open>except\<close> names \<open>TypeError\<close> and \<open>ValueError\<close>, so the \<open>OverflowError\<close> of
  \<open>int(float("inf"))\<close> passes through.
\<close>

definition error_from_member :: "client_lib \<Rightarrow> val \<Rightarrow> client_error" where
  "error_from_member L m = (case m of
      VDict d \<Rightarrow>
        (let raw = (case get d ''code'' of Some v \<Rightarrow> v | None \<Rightarrow> VInt internal_error);
             said = (case get d ''message'' of Some v \<Rightarrow> str_of_val L v | None \<Rightarrow> ''unknown error'');
             data = get d ''data'';
             built = (\<lambda>code.
               let text = (if py_eq (VInt code) raw then Word said
                           else Say ''{} (uncoercible error code {!r:.100})'' [Word said, Reading raw]) in
               if code = json_rpc_invalid_params
                  \<and> (case data of Some (VDict e) \<Rightarrow> get e ''error_code'' = Some (VStr lab_probe_refused_error_code) | _ \<Rightarrow> False)
               then Lab_probe_refused code text data else Mcp_failed code text data)
         in case to_int L raw of
              Is_int code \<Rightarrow> built code
            | Not_int \<Rightarrow> built internal_error
            | Int_overflow \<Rightarrow> Raised (Foreign ''OverflowError''))
    | v \<Rightarrow> Mcp_failed internal_error (Say ''non-object JSON-RPC error member: {!r:.200}'' [Reading v]) None)"

text \<open>\<open>_lab_probe_envelope\<close>: the header the credential travels in, or why the pair is refused here.\<close>

definition lab_probe_envelope :: "string option \<Rightarrow> string option \<Rightarrow> (string \<times> string) result" where
  "lab_probe_envelope why_given token = (case (why_given, token) of
      (Some saying, Some credential) \<Rightarrow>
        (if \<not> (1 \<le> length saying \<and> length saying \<le> lab_probe_reason_max_chars)
         then Inl (ValueError ''lab probe: reason length'')
         else if strip credential = [] then Inl (ValueError ''lab probe: the lab credential is empty'')
         else Inr (lab_principal_header, ''Bearer '' @ credential))
    | _ \<Rightarrow> Inl (ValueError ''lab probe: pass both lab_probe and lab_principal_token or neither''))"

subsection \<open>One round trip\<close>

record http_reply =
  http_status :: int
  http_retry_after :: "string option"
  http_text :: string
  http_json :: "val option"

datatype post_outcome = Http http_reply | No_answer summary

record rpc_request =
  rpc_id :: nat
  rpc_method :: string
  rpc_params :: dict
  rpc_headers :: "(string \<times> string) list"
  rpc_timeout :: "rat option"

record 'w transport =
  post :: "'w \<Rightarrow> rpc_request \<Rightarrow> 'w \<times> post_outcome"
  pause :: "'w \<Rightarrow> rat \<Rightarrow> 'w"
  monotonic :: "'w \<Rightarrow> 'w \<times> rat"

record mcp_config =
  mcp_headers :: "(string \<times> string) list"
  mcp_max_attempts :: nat
  mcp_base_delay :: rat

definition retryable_status :: "int \<Rightarrow> bool" where
  "retryable_status status = (500 \<le> status \<or> status = 429)"

text \<open>Steps 6 to 9 of \<open>_call\<close>.\<close>

definition read_reply :: "client_lib \<Rightarrow> http_reply \<Rightarrow> client_error + dict" where
  "read_reply L r =
     (if 400 \<le> http_status r
      then Inl (Mcp_failed (-32000) (Say ''HTTP {} from MCP endpoint: {}'' [Count (http_status r), Word (take 200 (http_text r))]) None)
      else case http_json r of
          None \<Rightarrow> Inl (Mcp_failed (-32700) (Word ''non-JSON response body'') None)
        | Some (VDict d) \<Rightarrow>
            (case get d ''error'' of
               Some m \<Rightarrow> Inl (error_from_member L m)
             | None \<Rightarrow> Inr (case get d ''result'' of Some (VDict res) \<Rightarrow> res | _ \<Rightarrow> []))
        | Some v \<Rightarrow> Inl (Mcp_failed (-32700) (Say ''non-object JSON response: {}'' [Reading v]) None))"

text \<open>Steps 3 to 5: \<open>left\<close> attempts are still to be made, \<open>attempt\<close> are behind.\<close>

fun rpc_attempts ::
    "client_lib \<Rightarrow> mcp_config \<Rightarrow> 'w transport \<Rightarrow> 'w \<Rightarrow> rpc_request \<Rightarrow> nat \<Rightarrow> nat \<Rightarrow> 'w \<times> (client_error + dict)" where
  "rpc_attempts L C T w q attempt 0 =
     (w, Inl (Raised (Foreign ''RuntimeError: unreachable: retry loop exited without response'')))"
| "rpc_attempts L C T w q attempt (Suc left) =
     (case post T w q of
        (w1, No_answer saying) \<Rightarrow>
          (if left = 0
           then (w1, Inl (Mcp_failed (-32000) (Say ''transport error after {} attempts: {}''
                                                 [Count (int (mcp_max_attempts C)), saying]) None))
           else rpc_attempts L C T (pause T w1 (mcp_base_delay C * 2 ^ attempt)) q (attempt + 1) left)
      | (w1, Http r) \<Rightarrow>
          (if retryable_status (http_status r) \<and> left \<noteq> 0
           then rpc_attempts L C T
                  (pause T w1 (retry_delay (mcp_base_delay C) attempt (Option.bind (http_retry_after r) (to_float L))))
                  q (attempt + 1) left
           else (w1, read_reply L r)))"

record client_state =
  next_id :: nat

definition rpc_call ::
    "client_lib \<Rightarrow> mcp_config \<Rightarrow> 'w transport \<Rightarrow> 'w \<times> client_state \<Rightarrow> string \<Rightarrow> dict \<Rightarrow> rat option
     \<Rightarrow> (string \<times> string) option \<Rightarrow> ('w \<times> client_state) \<times> (client_error + dict)" where
  "rpc_call L C T st rpc params timeout extra = (case st of (w, c) \<Rightarrow>
     (let q = \<lparr>rpc_id = next_id c, rpc_method = rpc, rpc_params = params,
               rpc_headers = (case extra of None \<Rightarrow> mcp_headers C | Some (k, v) \<Rightarrow> AList.update k v (mcp_headers C)),
               rpc_timeout = timeout\<rparr>
      in case rpc_attempts L C T w q 0 (mcp_max_attempts C) of
           (w', r) \<Rightarrow> ((w', c\<lparr>next_id := next_id c + 1\<rparr>), r)))"

subsection \<open>Tool calls\<close>

record tool_result =
  result_content :: "dict list"
  result_is_error :: bool

definition dicts_of :: "val list \<Rightarrow> dict list option" where
  "dicts_of vs = (if list_all (\<lambda>v. case v of VDict _ \<Rightarrow> True | _ \<Rightarrow> False) vs
     then Some (map (\<lambda>v. case v of VDict d \<Rightarrow> d | _ \<Rightarrow> []) vs) else None)"

text \<open>\<open>ToolResult.model_validate\<close>: \<open>isError\<close> is read before \<open>is_error\<close>.\<close>

definition validate_tool_result :: "client_lib \<Rightarrow> dict \<Rightarrow> tool_result option" where
  "validate_tool_result L d =
     (let blocks = (case get d ''content'' of None \<Rightarrow> Some [] | Some (VList vs) \<Rightarrow> dicts_of vs | Some _ \<Rightarrow> None);
          flag = (case get d ''isError'' of
                    Some v \<Rightarrow> to_bool L v
                  | None \<Rightarrow> (case get d ''is_error'' of Some v \<Rightarrow> to_bool L v | None \<Rightarrow> Some False))
      in case (blocks, flag) of
           (Some bs, Some is_err) \<Rightarrow> Some \<lparr>result_content = bs, result_is_error = is_err\<rparr>
         | _ \<Rightarrow> None)"

record call_trace =
  ct_tool :: string
  ct_arguments :: dict
  ct_outcome :: "client_error + tool_result"
  ct_duration :: rat

definition client_call_tool ::
    "client_lib \<Rightarrow> mcp_config \<Rightarrow> 'w transport \<Rightarrow> ('w \<Rightarrow> call_trace \<Rightarrow> 'w) option \<Rightarrow> 'w \<times> client_state
     \<Rightarrow> string \<Rightarrow> dict \<Rightarrow> rat option \<Rightarrow> string option \<Rightarrow> string option
     \<Rightarrow> ('w \<times> client_state) \<times> (client_error + tool_result)" where
  "client_call_tool L C T tracer st tool args timeout lab_reason lab_token = (case st of (w, c) \<Rightarrow>
     (let (w0, started) = monotonic T w;
          labelled = lab_reason \<noteq> None \<or> lab_token \<noteq> None
      in case (if labelled then map_sum id Some (lab_probe_envelope lab_reason lab_token) else Inr None) of
           Inl err \<Rightarrow> ((w0, c), Inl (Raised err))
         | Inr extra \<Rightarrow>
             (let params = [(''name'', VStr tool), (''arguments'', VDict args)]
                           @ (case lab_reason of Some saying \<Rightarrow> [(lab_probe_param, VStr saying)] | None \<Rightarrow> []);
                  ((w1, c1), answer) = rpc_call L C T (w0, c) ''tools/call'' params timeout extra;
                  out = (case answer of
                      Inl err \<Rightarrow> Inl err
                    | Inr d \<Rightarrow> (case validate_tool_result L d of
                        None \<Rightarrow> Inl (Mcp_failed (-32700) (Word ''malformed tools/call result envelope'') None)
                      | Some res \<Rightarrow> Inr res))
              in case tracer of
                   None \<Rightarrow> ((w1, c1), out)
                 | Some trace \<Rightarrow>
                     (let (w2, stopped) = monotonic T w1 in
                      ((trace w2 \<lparr>ct_tool = tool, ct_arguments = args, ct_outcome = out, ct_duration = stopped - started\<rparr>, c1), out)))))"

definition list_tools ::
    "client_lib \<Rightarrow> mcp_config \<Rightarrow> 'w transport \<Rightarrow> 'w \<times> client_state \<Rightarrow> ('w \<times> client_state) \<times> (client_error + val list)" where
  "list_tools L C T st = (case rpc_call L C T st ''tools/list'' [] None None of
      (st', Inl err) \<Rightarrow> (st', Inl err)
    | (st', Inr d) \<Rightarrow> (st', Inr (case get d ''tools'' of Some (VList ts) \<Rightarrow> ts | _ \<Rightarrow> [])))"

definition default_max_attempts :: nat where "default_max_attempts = 3"
definition default_retry_base_delay :: rat where "default_retry_base_delay = 1"

text \<open>\<open>make_client\<close>: an explicit blank token is refused, never replaced by the agent's own.\<close>

definition make_client :: "string \<Rightarrow> string option \<Rightarrow> mcp_config result" where
  "make_client platform_token token =
     (if (case token of Some t \<Rightarrow> strip t = [] | None \<Rightarrow> False)
      then Inl (ValueError ''make_client: explicit token is empty'')
      else Inr \<lparr>mcp_headers = [(''Authorization'', ''Bearer '' @ (case token of Some t \<Rightarrow> t | None \<Rightarrow> platform_token)),
                              (''Content-Type'', ''application/json'')],
                mcp_max_attempts = default_max_attempts, mcp_base_delay = default_retry_base_delay\<rparr>)"

record lab_client =
  lab_reason :: string
  lab_token :: string

definition make_lab_client :: "string \<Rightarrow> string \<Rightarrow> lab_client result" where
  "make_lab_client saying token =
     map_sum id (\<lambda>_. \<lparr>lab_reason = saying, lab_token = token\<rparr>) (lab_probe_envelope (Some saying) (Some token))"

definition lab_call_tool ::
    "client_lib \<Rightarrow> mcp_config \<Rightarrow> 'w transport \<Rightarrow> ('w \<Rightarrow> call_trace \<Rightarrow> 'w) option \<Rightarrow> lab_client \<Rightarrow> 'w \<times> client_state
     \<Rightarrow> string \<Rightarrow> dict \<Rightarrow> rat option \<Rightarrow> ('w \<times> client_state) \<times> (client_error + tool_result)" where
  "lab_call_tool L C T tracer lab st tool args timeout =
     client_call_tool L C T tracer st tool args timeout (Some (lab_reason lab)) (Some (lab_token lab))"

end
