(* ===== verification/Llm_Client.thy ===== *)
theory Llm_Client
  imports Mcp_Client Accounting
begin

text \<open>
  \<^verbatim>\<open>llm/client.py\<close>: one structured-output call to the Messages API, with its retries and what every way
  out of them bills, and the decoding rules of \<^verbatim>\<open>llm/structured.py\<close>. The SDK is the parameter \<open>create\<close>; the
  caller's Pydantic model is \<open>validate\<close>. The retry delay is the one of \<open>Mcp_Client\<close>.
\<close>

subsection \<open>Requests and answers\<close>

record llm_request =
  rq_model :: string
  rq_max_tokens :: nat
  rq_system :: string
  rq_user :: string
  rq_cache_question :: bool
  rq_schema :: val
  rq_temperature :: "rat option"

record content_block =
  block_type :: string
  block_name :: string
  block_input :: val

record llm_message =
  msg_blocks :: "content_block list"
  msg_stop_reason :: "string option"
  msg_input_tokens :: nat
  msg_output_tokens :: nat
  msg_cache_creation :: "nat option"
  msg_cache_read :: "nat option"

datatype api_outcome =
    Api_answer llm_message
  | Api_connection_error string
  | Api_status_error int "string option" string \<comment> \<open>status, \<open>Retry-After\<close>, text\<close>
  | Api_other_error string

datatype llm_failure =
    Llm_error summary "llm_usage option" "string option"
  | Llm_output_error summary "llm_usage option" "string option"

record 'o llm_result =
  lr_output :: 'o
  lr_stop_reason :: string
  lr_record_id :: string
  lr_elapsed_ms :: "int option"
  lr_usage :: llm_usage

record llm_trace =
  lt_request :: dict
  lt_record_id :: string
  lt_repair_of :: "string option"
  lt_failed_attempt :: "(nat \<times> bool) option" \<comment> \<open>\<open>attempt\<close> and \<open>terminal\<close>, of a row without a response\<close>
  lt_outcome :: api_outcome
  lt_parse_failed :: bool
  lt_duration :: rat

record 'w llm_port =
  create :: "'w \<Rightarrow> dict \<Rightarrow> 'w \<times> api_outcome"
  llm_sleep :: "'w \<Rightarrow> rat \<Rightarrow> 'w"
  llm_clock :: "'w \<Rightarrow> 'w \<times> rat"
  fresh_record_id :: "'w \<Rightarrow> 'w \<times> string"
  llm_tracer :: "('w \<Rightarrow> llm_trace \<Rightarrow> 'w) option"

definition structured_tool_name :: string where "structured_tool_name = ''record_output''"

definition cache_control :: val where
  "cache_control = VDict [(''type'', VStr ''ephemeral'')]"

definition text_block :: "string \<Rightarrow> val" where
  "text_block s = VDict [(''type'', VStr ''text''), (''text'', VStr s), (''cache_control'', cache_control)]"

definition user_content :: "string \<Rightarrow> bool \<Rightarrow> val" where
  "user_content said cached = (if cached then VList [text_block said] else VStr said)"

text \<open>Steps 2 and 3: every attempt sends these bytes; a temperature is a key only when one was passed.\<close>

definition messages_body :: "llm_request \<Rightarrow> dict" where
  "messages_body q =
     [(''model'', VStr (rq_model q)), (''max_tokens'', VInt (int (rq_max_tokens q))),
      (''system'', VList [text_block (rq_system q)]),
      (''messages'', VList [VDict [(''role'', VStr ''user''), (''content'', user_content (rq_user q) (rq_cache_question q))]]),
      (''tools'', VList [VDict [(''name'', VStr structured_tool_name),
                              (''description'', VStr ''Record the structured output for this call.''),
                              (''input_schema'', rq_schema q)]]),
      (''tool_choice'', VDict [(''type'', VStr ''tool''), (''name'', VStr structured_tool_name)])]
     @ (case rq_temperature q of Some t \<Rightarrow> [(''temperature'', VFloat t)] | None \<Rightarrow> [])"

text \<open>\<open>round\<close> to the nearest even on a tie.\<close>

definition elapsed_ms_of :: "rat \<Rightarrow> int" where
  "elapsed_ms_of seconds =
     (let y = seconds * 1000; low = \<lfloor>y\<rfloor>; rest = y - of_int low
      in max (if rest < 1 / 2 \<or> rest = 1 / 2 \<and> even low then low else low + 1) 0)"

definition discarded_usage :: "nat \<Rightarrow> nat \<Rightarrow> llm_usage" where
  "discarded_usage attempts max_tok =
     \<lparr>input_tokens = 0, output_tokens = 0, cache_creation_tokens = 0, cache_read_tokens = 0,
      discarded_attempts = attempts, discarded_max_tokens = max_tok\<rparr>"

definition usage_of_message :: "llm_message \<Rightarrow> llm_usage \<Rightarrow> llm_usage" where
  "usage_of_message m d =
     \<lparr>input_tokens = msg_input_tokens m, output_tokens = msg_output_tokens m,
      cache_creation_tokens = (case msg_cache_creation m of Some n \<Rightarrow> n | None \<Rightarrow> 0),
      cache_read_tokens = (case msg_cache_read m of Some n \<Rightarrow> n | None \<Rightarrow> 0),
      discarded_attempts = discarded_attempts d, discarded_max_tokens = discarded_max_tokens d\<rparr>"

text \<open>\<open>_parse\<close>: the first forced tool call decides.\<close>

definition parse_message ::
    "(val \<Rightarrow> 'o option) \<Rightarrow> llm_message \<Rightarrow> llm_usage \<Rightarrow> string \<Rightarrow> int option \<Rightarrow> llm_failure + 'o llm_result" where
  "parse_message validate m u rid elapsed =
     (case find (\<lambda>b. block_type b = ''tool_use'' \<and> block_name b = structured_tool_name) (msg_blocks m) of
        None \<Rightarrow> Inl (Llm_output_error (Say ''no record_output tool_use in response; stop_reason={}''
                  [Word (case msg_stop_reason m of Some s \<Rightarrow> s | None \<Rightarrow> ''None'')]) (Some u) (Some rid))
      | Some b \<Rightarrow> (case validate (block_input b) of
            None \<Rightarrow> Inl (Llm_output_error (Word ''output failed schema validation'') (Some u) (Some rid))
          | Some out \<Rightarrow> Inr \<lparr>lr_output = out,
                lr_stop_reason = (case msg_stop_reason m of Some (c # cs) \<Rightarrow> c # cs | _ \<Rightarrow> ''unknown''),
                lr_record_id = rid, lr_elapsed_ms = elapsed, lr_usage = u\<rparr>))"

text \<open>A trace row is written only when a tracer is given, and only then is the clock read for it.\<close>

definition trace_stop :: "'w llm_port \<Rightarrow> 'w \<Rightarrow> rat \<Rightarrow> 'w \<times> rat option" where
  "trace_stop P w started = (if llm_tracer P = None then (w, None)
     else case llm_clock P w of (w', now) \<Rightarrow> (w', Some (now - started)))"

definition trace_row :: "'w llm_port \<Rightarrow> 'w \<Rightarrow> (rat \<Rightarrow> llm_trace) \<Rightarrow> rat option \<Rightarrow> 'w" where
  "trace_row P w row took = (case (llm_tracer P, took) of
      (Some trace, Some d) \<Rightarrow> trace w (row d)
    | _ \<Rightarrow> w)"

definition traced :: "'w llm_port \<Rightarrow> 'w \<Rightarrow> (rat \<Rightarrow> llm_trace) \<Rightarrow> rat \<Rightarrow> 'w" where
  "traced P w row started = (case trace_stop P w started of (w', took) \<Rightarrow> trace_row P w' row took)"

subsection \<open>The retry loop\<close>

definition client_error_status :: "int \<Rightarrow> bool" where
  "client_error_status status = (status \<noteq> 429 \<and> status < 500)"

text \<open>
  Steps 5 to 11: \<open>attempt\<close> attempts are behind, \<open>left\<close> are still to be made, and \<open>last\<close> is what the
  newest of them failed with. \<open>max_attempts\<close> = 0 trips the source's \<open>assert last_exc is not None\<close>.
\<close>

fun llm_attempts ::
    "(string \<Rightarrow> py_float option) \<Rightarrow> 'w llm_port \<Rightarrow> (val \<Rightarrow> 'o option) \<Rightarrow> rat \<Rightarrow> llm_request \<Rightarrow> string option \<Rightarrow> rat
     \<Rightarrow> nat \<Rightarrow> nat \<Rightarrow> (string \<times> string) option \<Rightarrow> 'w \<Rightarrow> 'w \<times> (exn + (llm_failure + 'o llm_result))" where
  "llm_attempts fl P validate base_delay q repair_of call_started attempt 0 newest w = (case newest of
      None \<Rightarrow> (w, Inl (Foreign ''AssertionError''))
    | Some (why_failed, rid) \<Rightarrow> (w, Inr (Inl (Llm_error
        (Say ''LLM transport failure after {} attempts: {}'' [Count (int attempt), Word why_failed])
        (Some (discarded_usage attempt (rq_max_tokens q))) (Some rid)))))"
| "llm_attempts fl P validate base_delay q repair_of call_started attempt (Suc left) newest w =
     (let (w1, started) = llm_clock P w;
          (w2, rid) = fresh_record_id P w1;
          (w3, answer) = create P w2 (messages_body q);
          row = (\<lambda>failed garbled d. \<lparr>lt_request = messages_body q, lt_record_id = rid, lt_repair_of = repair_of,
                   lt_failed_attempt = map_option (Pair attempt) failed, lt_outcome = answer,
                   lt_parse_failed = garbled, lt_duration = d\<rparr>);
          again = (\<lambda>w hint why_failed.
             llm_attempts fl P validate base_delay q repair_of call_started (attempt + 1) left (Some (why_failed, rid))
               (if left = 0 then w else llm_sleep P w (retry_delay base_delay attempt hint)))
      in case answer of
           Api_connection_error why_failed \<Rightarrow> again (traced P w3 (row (Some (left = 0)) False) started) None why_failed
         | Api_status_error status hint why_failed \<Rightarrow>
             (let w4 = traced P w3 (row (Some (client_error_status status \<or> left = 0)) False) started in
              if client_error_status status
              then (w4, Inr (Inl (Llm_error (Say ''LLM API error {}: {}'' [Count status, Word why_failed])
                                 (Some (discarded_usage attempt (rq_max_tokens q))) (Some rid))))
              else again w4 (Option.bind hint fl) why_failed)
         | Api_other_error why_failed \<Rightarrow>
             (traced P w3 (row (Some True) False) started,
              Inr (Inl (Llm_error (Say ''LLM API error: {}'' [Word why_failed])
                          (Some (discarded_usage (attempt + 1) (rq_max_tokens q))) (Some rid))))
         | Api_answer m \<Rightarrow>
             (let (w4, took) = trace_stop P w3 started;
                  (w5, now) = llm_clock P w4
              in case parse_message validate m (usage_of_message m (discarded_usage attempt (rq_max_tokens q))) rid
                        (Some (elapsed_ms_of (now - call_started))) of
                   Inl err \<Rightarrow> (trace_row P w5 (row None True) took, Inr (Inl err))
                 | Inr res \<Rightarrow> (trace_row P w5 (row None False) took, Inr (Inr res))))"

definition llm_call ::
    "(string \<Rightarrow> py_float option) \<Rightarrow> 'w llm_port \<Rightarrow> (val \<Rightarrow> 'o option) \<Rightarrow> nat \<Rightarrow> rat \<Rightarrow> llm_request \<Rightarrow> string option \<Rightarrow> 'w
     \<Rightarrow> 'w \<times> (exn + (llm_failure + 'o llm_result))" where
  "llm_call fl P validate max_tries base_delay q repair_of w = (case llm_clock P w of (w', call_started) \<Rightarrow>
     llm_attempts fl P validate base_delay q repair_of call_started 0 max_tries None w')"

text \<open>\<open>preflight_auth\<close>: \<open>list_models\<close> is the SDK's one cheap call, what it raised if anything; every refusal leaves as an \<open>LLMError\<close>.\<close>

definition preflight_auth :: "('w \<Rightarrow> 'w \<times> api_outcome option) \<Rightarrow> 'w \<Rightarrow> 'w \<times> llm_failure option" where
  "preflight_auth list_models w = (case list_models w of
      (w', None) \<Rightarrow> (w', None)
    | (w', Some (Api_answer _)) \<Rightarrow> (w', None)
    | (w', Some (Api_status_error status _ why_failed)) \<Rightarrow>
        (w', Some (Llm_error (Say ''auth preflight failed: HTTP {}: {}'' [Count status, Word why_failed]) None None))
    | (w', Some (Api_connection_error why_failed)) \<Rightarrow>
        (w', Some (Llm_error (Say ''auth preflight failed: connection error: {}'' [Word why_failed]) None None))
    | (w', Some (Api_other_error why_failed)) \<Rightarrow>
        (w', Some (Llm_error (Say ''auth preflight failed: {}'' [Word why_failed]) None None)))"

text \<open>
  What the repair loop of \<^verbatim>\<open>llm/repair.py\<close> is handed: this client's result in the terms of
  \<open>Accounting\<close>. \<open>refused\<close> is the schema's own \<open>output_refused\<close>.
\<close>

definition as_role_client ::
    "(llm_failure \<Rightarrow> bool) \<Rightarrow> 'w \<times> (exn + (llm_failure + 'o llm_result)) \<Rightarrow> 'w \<times> (call_failure + 'o \<times> llm_usage)" where
  "as_role_client refused answered = (case answered of
      (w, Inl err) \<Rightarrow> (w, Inl (Crashed err))
    | (w, Inr (Inl (Llm_error t u rid))) \<Rightarrow> (w, Inl (Unreachable u))
    | (w, Inr (Inl (Llm_output_error t u rid))) \<Rightarrow> (w, Inl (Unreadable u (refused (Llm_output_error t u rid))))
    | (w, Inr (Inr res)) \<Rightarrow> (w, Inr (lr_output res, lr_usage res)))"

subsection \<open>Decoding a container sent as a string\<close>

text \<open>A field's annotation, as far as \<open>expected_container\<close> looks.\<close>

datatype annotation =
    A_model
  | A_mapping
  | A_sequence
  | A_literal
  | A_scalar
  | A_none
  | A_union "annotation list"

datatype container = A_dict | A_list

fun expected_container :: "annotation \<Rightarrow> container option" where
  "expected_container A_model = Some A_dict"
| "expected_container A_mapping = Some A_dict"
| "expected_container A_sequence = Some A_list"
| "expected_container A_literal = None"
| "expected_container A_scalar = None"
| "expected_container A_none = None"
| "expected_container (A_union args) =
     (case dedup (map expected_container (filter (\<lambda>a. a \<noteq> A_none) args)) of
        [c] \<Rightarrow> c
      | _ \<Rightarrow> None)"

record json_reader =
  loads :: "string \<Rightarrow> val option"
  raw_decode :: "string \<Rightarrow> (val \<times> nat) option"

definition trailing_ok :: "char \<Rightarrow> bool" where
  "trailing_ok c = (c \<in> set ''] }'' \<or> of_char c \<in> {9, 10, 13 :: nat})"

definition decode_leading_value :: "json_reader \<Rightarrow> string \<Rightarrow> val option" where
  "decode_leading_value J s = (case raw_decode J s of
      None \<Rightarrow> None
    | Some (v, end_at) \<Rightarrow> if list_all trailing_ok (drop end_at s) then Some v else None)"

fun is_container :: "container \<Rightarrow> val \<Rightarrow> bool" where
  "is_container A_dict (VDict _) = True"
| "is_container A_list (VList _) = True"
| "is_container _ _ = False"

definition decode_stringified :: "json_reader \<Rightarrow> string \<Rightarrow> container \<Rightarrow> val option" where
  "decode_stringified J s want =
     (let t = strip s in
      if t = [] then None
      else case (case loads J t of Some v \<Rightarrow> Some v | None \<Rightarrow> decode_leading_value J t) of
          Some v \<Rightarrow> if is_container want v then Some v else None
        | None \<Rightarrow> None)"

text \<open>The \<open>mode="before"\<close> validator: fields are visited in declaration order, each at its own key.\<close>

definition decode_field :: "json_reader \<Rightarrow> string \<times> annotation \<Rightarrow> dict \<Rightarrow> dict" where
  "decode_field J f d = (case (get d (fst f), expected_container (snd f)) of
      (Some (VStr s), Some want) \<Rightarrow>
        (case decode_stringified J s want of Some v \<Rightarrow> dict_set (fst f) v d | None \<Rightarrow> d)
    | _ \<Rightarrow> d)"

definition decode_containers :: "json_reader \<Rightarrow> (string \<times> annotation) list \<Rightarrow> val \<Rightarrow> val" where
  "decode_containers J model data = (case data of
      VDict d \<Rightarrow> VDict (fold (decode_field J) model d)
    | _ \<Rightarrow> data)"

end
