(* ===== verification/Client_Facts.thy ===== *)
theory Client_Facts
  imports Llm_Client
begin

text \<open>
  What the two clients owe their callers, proved over transports that record what passes through them:
  how many requests leave, what each carries, how long the pauses are, what is traced and what is billed.
\<close>

subsection \<open>A transport that keeps a record\<close>

type_synonym wire = "(rpc_request \<times> post_outcome) list \<times> rat list \<times> call_trace list"

definition recording :: "'w transport \<Rightarrow> ('w \<times> wire) transport" where
  "recording T = \<lparr>
     post = (\<lambda>(w, sent, kept) q. case post T w q of (w', a) \<Rightarrow> ((w', sent @ [(q, a)], kept), a)),
     pause = (\<lambda>(w, sent, slept, rows) s. (pause T w s, sent, slept @ [s], rows)),
     monotonic = (\<lambda>(w, k). case monotonic T w of (w', now) \<Rightarrow> ((w', k), now))\<rparr>"

lemma recording_simps [simp]:
  "post (recording T) (w, sent, kept) q = ((fst (post T w q), sent @ [(q, snd (post T w q))], kept), snd (post T w q))"
  "pause (recording T) (w, sent, slept, rows) s = (pause T w s, sent, slept @ [s], rows)"
  "monotonic (recording T) (w, k) = ((fst (monotonic T w), k), snd (monotonic T w))"
  by (simp_all add: recording_def split: prod.split)

definition longest_pause :: "rat \<Rightarrow> nat \<Rightarrow> rat" where
  "longest_pause base_delay n = max (base_delay * 2 ^ n) max_retry_after_seconds"

lemma doubling_mono: "0 \<le> (b :: rat) \<Longrightarrow> m \<le> n \<Longrightarrow> b * 2 ^ m \<le> b * 2 ^ n"
  by (rule mult_left_mono) (auto intro: power_increasing)

lemma pause_bounded:
  assumes "0 \<le> base_delay" "k \<le> n"
  shows "base_delay * 2 ^ k \<le> longest_pause base_delay n" "retry_delay base_delay k hint \<le> longest_pause base_delay n"
  using doubling_mono[OF assms] retry_delay_bounds(2)[of base_delay k hint]
  by (auto simp: longest_pause_def intro: max.coboundedI1)

text \<open>What one round trip adds to the record.\<close>

definition tries_of :: "rpc_request \<Rightarrow> nat \<Rightarrow> rat \<Rightarrow> wire \<Rightarrow> bool" where
  "tries_of q n longest k = (case k of (sent, slept, _) \<Rightarrow>
     length sent \<le> n \<and> list_all (\<lambda>p. fst p = q) sent \<and> length slept < n \<and> Suc (length slept) = length sent
     \<and> list_all (\<lambda>s. s \<le> longest) slept)"

text \<open>The client's failures are MCP errors, but for the one \<open>int()\<close> lets through.\<close>

fun told_error :: "client_error \<Rightarrow> bool" where
  "told_error (Raised e) = (e = Foreign ''OverflowError'')"
| "told_error _ = True"

fun told :: "client_error + 'a \<Rightarrow> bool" where
  "told (Inl e) = told_error e"
| "told (Inr _) = True"

lemma told_error_from_member: "told (Inl (error_from_member L m))"
  by (auto simp: error_from_member_def Let_def split: val.split int_outcome.split)

lemma told_read_reply: "told (read_reply L r)"
  using told_error_from_member[of L]
  by (auto simp: read_reply_def Let_def split: option.split val.split)

lemma rpc_attempts_record:
  assumes "0 \<le> mcp_base_delay C" "rpc_attempts L C (recording T) (w, sent, slept, rows) q attempt (Suc left) = ((w', k'), r)"
  shows "\<exists>sent' slept'. k' = (sent @ sent', slept @ slept', rows) \<and> told r
           \<and> tries_of q (Suc left) (longest_pause (mcp_base_delay C) (attempt + left)) (sent', slept', rows)"
  using assms(2)
proof (induction left arbitrary: w sent slept attempt)
  case 0
  then show ?case
    using told_read_reply[of L]
    by (cases "snd (post T w q)") (auto simp: tries_of_def)
next
  case (Suc n)
  let ?w = "fst (post T w q)" and ?long = "longest_pause (mcp_base_delay C) (attempt + Suc n)"
  show ?case
  proof (cases "case snd (post T w q) of No_answer _ \<Rightarrow> True | Http r \<Rightarrow> retryable_status (http_status r)")
    case False
    then show ?thesis
      using Suc.prems told_read_reply[of L]
      by (cases "snd (post T w q)") (auto simp: tries_of_def)
  next
    case True
    then obtain d where d: "d \<le> ?long"
      and r: "rpc_attempts L C (recording T) (pause T ?w d, sent @ [(q, snd (post T w q))], slept @ [d], rows) q (attempt + 1) (Suc n)
              = ((w', k'), r)"
      using Suc.prems pause_bounded[OF assms(1), of attempt "attempt + Suc n"]
      by (cases "snd (post T w q)") (auto simp del: rpc_attempts.simps(2) simp: rpc_attempts.simps(2)[of _ _ "recording T"])
    from Suc.IH[OF r] d show ?thesis
      by (auto simp: tries_of_def)
  qed
qed

text \<open>What the agent sends for a tool call, and what the lab sends.\<close>

definition tool_request :: "mcp_config \<Rightarrow> nat \<Rightarrow> string \<Rightarrow> dict \<Rightarrow> rat option \<Rightarrow> (string \<times> string) option \<Rightarrow> rpc_request" where
  "tool_request C i tool args timeout lab = \<lparr>rpc_id = i, rpc_method = ''tools/call'',
     rpc_params = [(''name'', VStr tool), (''arguments'', VDict args)]
       @ (case lab of Some (saying, _) \<Rightarrow> [(lab_probe_param, VStr saying)] | None \<Rightarrow> []),
     rpc_headers = (case lab of
         Some (_, credential) \<Rightarrow> AList.update lab_principal_header (''Bearer '' @ credential) (mcp_headers C)
       | None \<Rightarrow> mcp_headers C),
     rpc_timeout = timeout\<rparr>"

definition keep_trace :: "('w \<Rightarrow> call_trace \<Rightarrow> 'w) \<Rightarrow> 'w \<times> wire \<Rightarrow> call_trace \<Rightarrow> 'w \<times> wire" where
  "keep_trace trace st row = (case st of (w, sent, slept, rows) \<Rightarrow> (trace w row, sent, slept, rows @ [row]))"

text \<open>One call as it shows on the wire: \<open>lab\<close> is the label it carries, if any.\<close>

definition on_the_wire :: "mcp_config \<Rightarrow> nat \<Rightarrow> string \<Rightarrow> dict \<Rightarrow> rat option \<Rightarrow> (string \<times> string) option
    \<Rightarrow> client_error + tool_result \<Rightarrow> wire \<Rightarrow> bool" where
  "on_the_wire C i tool args timeout lab out k =
     (tries_of (tool_request C i tool args timeout lab) (mcp_max_attempts C)
        (longest_pause (mcp_base_delay C) (mcp_max_attempts C - 1)) k
      \<and> (\<exists>took. snd (snd k) = [\<lparr>ct_tool = tool, ct_arguments = args, ct_outcome = out, ct_duration = took\<rparr>])
      \<and> told out)"

lemma labelled_call_on_the_wire:
  assumes "0 \<le> mcp_base_delay C" "0 < mcp_max_attempts C"
    and lab: "case lab of None \<Rightarrow> saying = None \<and> credential = None
       | Some (a, b) \<Rightarrow> saying = Some a \<and> credential = Some b \<and> lab_probe_envelope saying credential = Inr (lab_principal_header, ''Bearer '' @ b)"
    and call: "client_call_tool L C (recording T) (Some (keep_trace trace)) ((w, [], [], []), c) tool args timeout saying credential
                 = (((w', k), c'), out)"
  shows "on_the_wire C (next_id c) tool args timeout lab out k \<and> next_id c' = next_id c + 1"
proof -
  let ?q = "tool_request C (next_id c) tool args timeout lab"
  obtain n where n: "mcp_max_attempts C = Suc n" using assms(2) by (cases "mcp_max_attempts C") auto
  obtain w1 k1 r where at: "rpc_attempts L C (recording T) (fst (monotonic T w), [], [], []) ?q 0 (Suc n) = ((w1, k1), r)"
    by (metis surj_pair)
  from rpc_attempts_record[OF assms(1) at] obtain sent slept where
    k1: "k1 = (sent, slept, [])" "told r" "tries_of ?q (Suc n) (longest_pause (mcp_base_delay C) n) (sent, slept, [])"
    by auto
  show ?thesis
    using call at k1 n lab
    by (cases r; cases lab)
      (auto simp: client_call_tool_def rpc_call_def Let_def keep_trace_def on_the_wire_def tool_request_def tries_of_def
        simp del: rpc_attempts.simps split: option.splits)
qed

subsection \<open>A model port that keeps a record\<close>

type_synonym calls = "(dict \<times> api_outcome) list \<times> rat list"

definition logged :: "'w llm_port \<Rightarrow> ('w \<times> calls) llm_port" where
  "logged P = \<lparr>
     create = (\<lambda>(w, sent, slept) q. case create P w q of (w', a) \<Rightarrow> ((w', sent @ [(q, a)], slept), a)),
     llm_sleep = (\<lambda>(w, sent, slept) s. (llm_sleep P w s, sent, slept @ [s])),
     llm_clock = (\<lambda>(w, k). case llm_clock P w of (w', now) \<Rightarrow> ((w', k), now)),
     fresh_record_id = (\<lambda>(w, k). case fresh_record_id P w of (w', i) \<Rightarrow> ((w', k), i)),
     llm_tracer = map_option (\<lambda>trace (w, k) row. (trace w row, k)) (llm_tracer P)\<rparr>"

lemma logged_simps [simp]:
  "create (logged P) (w, sent, slept) q = ((fst (create P w q), sent @ [(q, snd (create P w q))], slept), snd (create P w q))"
  "llm_sleep (logged P) (w, sent, slept) s = (llm_sleep P w s, sent, slept @ [s])"
  "llm_clock (logged P) (w, k) = ((fst (llm_clock P w), k), snd (llm_clock P w))"
  "fresh_record_id (logged P) (w, k) = ((fst (fresh_record_id P w), k), snd (fresh_record_id P w))"
  by (simp_all add: logged_def split: prod.split)

lemma trace_stop_logged: "\<exists>w' took. trace_stop (logged P) (w, k) t = ((w', k), took)"
  by (auto simp: trace_stop_def split: prod.split)

lemma trace_row_logged: "\<exists>w'. trace_row (logged P) (w, k) row took = (w', k)"
  by (cases "llm_tracer P"; cases took) (auto simp: trace_row_def logged_def)

lemma traced_logged: "\<exists>w'. traced (logged P) (w, k) row t = (w', k)"
  using trace_stop_logged[of P w k t] trace_row_logged by (fastforce simp: traced_def)

text \<open>
  An attempt that may have been billed and left no usage to read: all but an answer and an error that
  asking again could not cure.
\<close>

fun unseen_bill :: "api_outcome \<Rightarrow> bool" where
  "unseen_bill (Api_answer _) = False"
| "unseen_bill (Api_status_error status _ _) = (\<not> client_error_status status)"
| "unseen_bill _ = True"

definition unseen_bills :: "(dict \<times> api_outcome) list \<Rightarrow> nat" where
  "unseen_bills sent = length (filter (\<lambda>p. unseen_bill (snd p)) sent)"

lemma unseen_bills_append [simp]: "unseen_bills (xs @ ys) = unseen_bills xs + unseen_bills ys"
  by (simp add: unseen_bills_def)

lemma unseen_bills_simps [simp]: "unseen_bills [] = 0" "unseen_bills [(q, a)] = (if unseen_bill a then 1 else 0)"
  by (simp_all add: unseen_bills_def)

definition usage_reported :: "llm_failure + 'o llm_result \<Rightarrow> llm_usage option" where
  "usage_reported r = (case r of Inl (Llm_error _ u _) \<Rightarrow> u | Inl (Llm_output_error _ u _) \<Rightarrow> u | Inr res \<Rightarrow> Some (lr_usage res))"

definition answer_tokens :: "(dict \<times> api_outcome) list \<Rightarrow> nat \<times> nat" where
  "answer_tokens sent = (case map snd sent of
      [] \<Rightarrow> (0, 0)
    | as \<Rightarrow> (case last as of Api_answer m \<Rightarrow> (msg_input_tokens m, msg_output_tokens m) | _ \<Rightarrow> (0, 0)))"

text \<open>What a call reports against what it sent: \<open>u\<close> is the usage on the way out.\<close>

definition billed_in_full :: "llm_request \<Rightarrow> (dict \<times> api_outcome) list \<Rightarrow> llm_usage option \<Rightarrow> bool" where
  "billed_in_full q sent reported = (case reported of
      None \<Rightarrow> False
    | Some u \<Rightarrow> discarded_attempts u = unseen_bills sent \<and> discarded_max_tokens u = rq_max_tokens q
        \<and> (input_tokens u, output_tokens u) = answer_tokens sent)"

lemma answer_tokens_snoc [simp]:
  "answer_tokens (sent @ [(q, a)]) = (case a of Api_answer m \<Rightarrow> (msg_input_tokens m, msg_output_tokens m) | _ \<Rightarrow> (0, 0))"
  by (cases "map snd sent") (auto simp: answer_tokens_def split: list.split)

lemma parse_message_usage: "usage_reported (parse_message validate m u rid e) = Some u"
  by (auto simp: parse_message_def usage_reported_def split: option.split list.split)

text \<open>Between two attempts, and on the way out.\<close>

definition mid_call :: "llm_request \<Rightarrow> rat \<Rightarrow> nat \<Rightarrow> nat \<Rightarrow> (string \<times> string) option \<Rightarrow> calls \<Rightarrow> bool" where
  "mid_call q longest attempt left newest k = (case k of (sent, slept) \<Rightarrow>
     unseen_bills sent = attempt \<and> length sent = attempt \<and> length slept + (if left = 0 then 1 else 0) \<le> attempt
     \<and> list_all (\<lambda>p. fst p = messages_body q) sent \<and> list_all (\<lambda>s. s \<le> longest) slept
     \<and> (if left = 0 then newest \<noteq> None \<and> answer_tokens sent = (0, 0) else True))"

definition call_settled :: "llm_request \<Rightarrow> rat \<Rightarrow> nat \<Rightarrow> calls \<Rightarrow> llm_usage option \<Rightarrow> bool" where
  "call_settled q longest n k reported = (case k of (sent, slept) \<Rightarrow>
     0 < length sent \<and> length sent \<le> n \<and> length slept < n
     \<and> list_all (\<lambda>p. fst p = messages_body q) sent \<and> list_all (\<lambda>s. s \<le> longest) slept
     \<and> billed_in_full q sent reported)"

fun worth_a_retry :: "api_outcome \<Rightarrow> bool" where
  "worth_a_retry (Api_connection_error _) = True"
| "worth_a_retry (Api_status_error status _ _) = (\<not> client_error_status status)"
| "worth_a_retry _ = False"

lemma llm_attempt_step:
  fixes P :: "'w llm_port"
  assumes "0 \<le> base_delay" "attempt \<le> n" "unseen_bills sent = attempt"
    and r: "llm_attempts fl (logged P) validate base_delay q ro t attempt (Suc left) newest (w, sent, slept) = ((w', k'), r)"
  obtains (again) a w2 d nw where "worth_a_retry a" "d \<le> longest_pause base_delay n"
      "llm_attempts fl (logged P) validate base_delay q ro t (attempt + 1) left (Some nw)
         (w2, sent @ [(messages_body q, a)], if left = 0 then slept else slept @ [d]) = ((w', k'), r)"
    | (out) a res where "k' = (sent @ [(messages_body q, a)], slept)" "r = Inr res"
      "billed_in_full q (sent @ [(messages_body q, a)]) (usage_reported res)"
proof -
  obtain w1 started where s1: "llm_clock P w = (w1, started)" by fastforce
  obtain wi rid where s2: "fresh_record_id P w1 = (wi, rid)" by fastforce
  obtain w2 a where s3: "create P wi (messages_body q) = (w2, a)" by fastforce
  note s = s1 s2 s3
  let ?k = "(sent @ [(messages_body q, a)], slept)"
  define f where "f row = fst (traced (logged P) (w2, ?k) row started)" for row
  have f: "traced (logged P) (w2, ?k) row started = (f row, ?k)" for row
    unfolding f_def using traced_logged[of P w2 "?k" row started] by (metis fst_conv)
  show ?thesis
  proof (cases "worth_a_retry a")
    case True
    then have "\<exists>hint nw w3. llm_attempts fl (logged P) validate base_delay q ro t (attempt + 1) left (Some nw)
        (if left = 0 then (w3, ?k) else (llm_sleep P w3 (retry_delay base_delay attempt hint),
           sent @ [(messages_body q, a)], slept @ [retry_delay base_delay attempt hint])) = ((w', k'), r)"
      using r s f by (cases a) (auto simp: Let_def split: if_splits)
    then obtain hint nw w3 where go: "llm_attempts fl (logged P) validate base_delay q ro t (attempt + 1) left (Some nw)
        (if left = 0 then (w3, ?k) else (llm_sleep P w3 (retry_delay base_delay attempt hint),
           sent @ [(messages_body q, a)], slept @ [retry_delay base_delay attempt hint])) = ((w', k'), r)"
      by blast
    show ?thesis
      by (rule again[OF True pause_bounded(2)[OF assms(1,2)], of nw "if left = 0 then w3 else llm_sleep P w3 (retry_delay base_delay attempt hint)" hint])
        (use go in \<open>simp split: if_splits\<close>)
  next
    case False
    show ?thesis
    proof (cases a)
      case (Api_answer m)
      obtain w4 took where ts: "trace_stop (logged P) (w2, ?k) started = ((w4, ?k), took)"
        using trace_stop_logged[of P w2 "?k" started] by auto
      define g where "g x row = fst (trace_row (logged P) (x, ?k) row took)" for x row
      have g: "trace_row (logged P) (x, ?k) row took = (g x row, ?k)" for x row
        unfolding g_def using trace_row_logged[of P x "?k" row took] by (metis fst_conv)
      let ?u = "usage_of_message m (discarded_usage attempt (rq_max_tokens q))"
      let ?res = "parse_message validate m ?u rid (Some (elapsed_ms_of (snd (llm_clock P w4) - t)))"
      have "k' = ?k \<and> r = Inr ?res"
        using r s ts g Api_answer
        by (cases ?res) (auto simp: Let_def)
      moreover have "billed_in_full q (sent @ [(messages_body q, a)]) (usage_reported ?res)"
        using Api_answer assms(3)
        by (simp add: parse_message_usage billed_in_full_def usage_of_message_def discarded_usage_def)
      ultimately show ?thesis using out by blast
    qed (use False r s f assms(3) out in \<open>auto simp: Let_def billed_in_full_def usage_reported_def discarded_usage_def\<close>)
  qed
qed

lemma llm_attempts_record:
  assumes "0 \<le> base_delay" "attempt + left \<le> n" "mid_call q (longest_pause base_delay n) attempt left newest k"
    and "llm_attempts fl (logged P) validate base_delay q ro t attempt left newest (w, k) = ((w', k'), r)"
  shows "\<exists>res. r = Inr res \<and> call_settled q (longest_pause base_delay n) (attempt + left) k' (usage_reported res)"
  using assms(2-)
proof (induction left arbitrary: w k attempt newest)
  case 0
  then show ?case
    by (cases k)
      (auto simp: mid_call_def call_settled_def billed_in_full_def usage_reported_def discarded_usage_def)
next
  case (Suc left)
  obtain sent slept where k: "k = (sent, slept)" by fastforce
  have bills: "unseen_bills sent = attempt" using Suc.prems(2) k by (simp add: mid_call_def)
  show ?case
  proof (rule llm_attempt_step[OF assms(1) _ bills Suc.prems(3)[unfolded k], of n])
    show "attempt \<le> n" using Suc.prems(1) by simp
  next
    fix a w2 d nw
    assume a: "worth_a_retry a" "d \<le> longest_pause base_delay n"
      and r: "llm_attempts fl (logged P) validate base_delay q ro t (attempt + 1) left (Some nw)
         (w2, sent @ [(messages_body q, a)], if left = 0 then slept else slept @ [d]) = ((w', k'), r)"
    have "mid_call q (longest_pause base_delay n) (attempt + 1) left (Some nw)
            (sent @ [(messages_body q, a)], if left = 0 then slept else slept @ [d])"
      using Suc.prems(2) k a by (cases a) (auto simp: mid_call_def)
    from Suc.IH[OF _ this r] Suc.prems(1) show ?case by simp
  next
    fix a res
    assume "k' = (sent @ [(messages_body q, a)], slept)" "r = Inr res"
      "billed_in_full q (sent @ [(messages_body q, a)]) (usage_reported res)"
    then show ?case
      using Suc.prems(2) k by (auto simp: mid_call_def call_settled_def)
  qed
qed

end
