(* ===== verification/Client_Claims.thy ===== *)
theory Client_Claims
  imports Client_Facts
begin

text \<open>
  The contracts of the two clients: what leaves over the wire for a tool call, who can label one, what a
  model call bills, and that a container the model sent as text is read back as it was meant.
\<close>

subsection \<open>Containers sent as text\<close>

definition stringify :: "(val \<Rightarrow> string) \<Rightarrow> string list \<Rightarrow> dict \<Rightarrow> dict" where
  "stringify dump fs d = map (\<lambda>(k, v). (k, if k \<in> set fs then VStr (dump v) else v)) d"

lemma keys_stringify [simp]: "map fst (stringify dump fs d) = map fst d"
  by (induction d) (auto simp: stringify_def)

lemma get_stringify: "get (stringify dump fs d) k = map_option (\<lambda>v. if k \<in> set fs then VStr (dump v) else v) (get d k)"
  by (induction d) (auto simp: stringify_def)

lemma stringify_cong: "(\<And>k. k \<in> fst ` set d \<Longrightarrow> k \<in> set fs \<longleftrightarrow> k \<in> set gs) \<Longrightarrow> stringify dump fs d = stringify dump gs d"
  unfolding stringify_def by (rule map_cong) (force split: prod.split)+

lemma stringify_Nil [simp]: "stringify dump [] d = d"
  by (induction d) (auto simp: stringify_def)

lemma update_stringify:
  "distinct (map fst d) \<Longrightarrow> get d f = Some v \<Longrightarrow>
   AList.update f v (stringify dump fs d) = stringify dump (removeAll f fs) d"
proof (induction d)
  case (Cons p d)
  then show ?case
    using stringify_cong[of d fs "removeAll f fs" dump]
    by (cases p) (auto simp: stringify_def image_iff split: if_splits dest!: map_of_SomeD)
qed simp

text \<open>
  The answer fits_model its model: a container field that is present holds its container, or nothing. The
  fields sent as text hold a container whose text the reader gives back.
\<close>

definition fits_model :: "(string \<times> annotation) list \<Rightarrow> dict \<Rightarrow> bool" where
  "fits_model model d = list_all (\<lambda>(f, ann). case (expected_container ann, get d f) of
      (Some want, Some v) \<Rightarrow> v = VNull \<or> is_container want v
    | _ \<Rightarrow> True) model"

definition sent_as_text :: "json_reader \<Rightarrow> (val \<Rightarrow> string) \<Rightarrow> (string \<times> annotation) list \<Rightarrow> dict \<Rightarrow> string \<Rightarrow> bool" where
  "sent_as_text J dump model d f = (case (map_of model f, get d f) of
      (Some ann, Some v) \<Rightarrow>
        (case expected_container ann of
           Some want \<Rightarrow> is_container want v \<and> strip (dump v) \<noteq> [] \<and> loads J (strip (dump v)) = Some v
         | None \<Rightarrow> False)
    | _ \<Rightarrow> False)"

lemma decode_field_stringify:
  assumes "(f, ann) \<in> set model" "distinct (map fst model)" "distinct (map fst d)" "fits_model model d"
    and "list_all (sent_as_text J dump model d) fs"
  shows "decode_field J (f, ann) (stringify dump fs d) = stringify dump (removeAll f fs) d"
proof (cases "f \<in> set fs")
  case True
  have "map_of model f = Some ann" using assms(1,2) by simp
  moreover have "sent_as_text J dump model d f" using True assms(5) by (simp add: list_all_iff)
  ultimately obtain v want where "get d f = Some v" "expected_container ann = Some want" "is_container want v"
    "strip (dump v) \<noteq> []" "loads J (strip (dump v)) = Some v"
    by (auto simp: sent_as_text_def split: option.splits)
  with True assms(3) show ?thesis
    by (simp add: decode_field_def get_stringify decode_stringified_def Let_def update_stringify)
next
  case False
  from assms(1,4) have "case (expected_container ann, get d f) of
      (Some want, Some v) \<Rightarrow> v = VNull \<or> is_container want v | _ \<Rightarrow> True"
    by (auto simp: fits_model_def list_all_iff)
  with False show ?thesis
    by (auto simp: decode_field_def get_stringify split: option.split val.split container.split)
qed

lemma fold_decode_stringify:
  assumes "set ms \<subseteq> set model" "distinct (map fst model)" "distinct (map fst d)" "fits_model model d"
  shows "list_all (sent_as_text J dump model d) fs \<Longrightarrow>
    fold (decode_field J) ms (stringify dump fs d) = stringify dump (filter (\<lambda>f. f \<notin> fst ` set ms) fs) d"
  using assms(1)
proof (induction ms arbitrary: fs)
  case (Cons m ms)
  obtain f ann where m: "m = (f, ann)" by fastforce
  have *: "list_all (sent_as_text J dump model d) (removeAll f fs)"
    using Cons.prems(1) by (auto simp: list_all_iff)
  have "decode_field J m (stringify dump fs d) = stringify dump (removeAll f fs) d"
    using decode_field_stringify[of f ann model d J dump fs] Cons.prems assms m by simp
  then show ?case
    using Cons.IH[OF *] Cons.prems(2) m
    by (auto intro!: stringify_cong)
qed simp

text \<open>Whichever container fields of an answer the model sends as JSON text, the validator gives
  back the answer itself, key for key.\<close>

theorem stringified_containers_are_read_back:
  assumes "distinct (map fst model)" "distinct (map fst d)" "fits_model model d"
    and "list_all (sent_as_text J dump model d) fs"
  shows "decode_containers J model (VDict (stringify dump fs d)) = VDict d"
proof -
  have "filter (\<lambda>f. f \<notin> fst ` set model) fs = []"
    using assms(4) by (force simp: filter_empty_conv list_all_iff sent_as_text_def split: option.splits dest: map_of_SomeD)
  then show ?thesis
    using fold_decode_stringify[OF subset_refl assms(1-3) assms(4)] by (simp add: decode_containers_def)
qed

lemma strip_brackets: "strip ''[1]'' = ''[1]''"
  by code_simp

theorem stringified_containers_are_read_back_witness:
  "decode_containers
     \<lparr>loads = (\<lambda>s. if s = ''[1]'' then Some (VList [VInt 1]) else None), raw_decode = (\<lambda>_. None)\<rparr>
     [(''evidence'', A_union [A_sequence, A_none]), (''summary'', A_scalar)]
     (VDict (stringify (\<lambda>_. ''[1]'') [''evidence''] [(''summary'', VStr ''[1]''), (''evidence'', VList [VInt 1])]))
   = VDict [(''summary'', VStr ''[1]''), (''evidence'', VList [VInt 1])]"
  by (rule stringified_containers_are_read_back)
    (simp_all add: fits_model_def sent_as_text_def strip_brackets)

subsection \<open>A tool call on the wire\<close>


definition sample_transport :: "nat transport" where
  "sample_transport = \<lparr>
     post = (\<lambda>n q. (n + 1, if n = 0 then No_answer (Word ''ConnectError'') else
        Http \<lparr>http_status = (if n = 1 then 503 else 200), http_retry_after = Some ''7'', http_text = [],
              http_json = Some (VDict [(''error'', VDict [(''code'', VInt (-32600))])])\<rparr>)),
     pause = (\<lambda>n _. n),
     monotonic = (\<lambda>n. (n, rat_of_nat n))\<rparr>"

definition sample_lib :: client_lib where
  "sample_lib = \<lparr>to_float = (\<lambda>_. Some (Finite 7)), to_int = (\<lambda>_. Is_int (-32600)), to_bool = (\<lambda>_. None), str_of_val = (\<lambda>_. [])\<rparr>"




definition sample_agent :: mcp_config where
  "sample_agent = \<lparr>mcp_headers = [(''Authorization'', ''Bearer agent''), (''Content-Type'', ''application/json'')],
     mcp_max_attempts = 3, mcp_base_delay = 1\<rparr>"

subsection \<open>The lab's label\<close>

definition requests_of :: "(('w \<times> wire) \<times> client_state) \<times> 'r \<Rightarrow> rpc_request list" where
  "requests_of answered = (case answered of (((_, sent, _), _), _) \<Rightarrow> map fst sent)"

definition label_of :: "rpc_request \<Rightarrow> val option \<times> string option" where
  "label_of q = (get (rpc_params q) lab_probe_param, map_of (rpc_headers q) lab_principal_header)"

lemma label_of_tool_request:
  "map_of (mcp_headers C) lab_principal_header = None \<Longrightarrow>
   label_of (tool_request C i tool args timeout lab) = (case lab of None \<Rightarrow> (None, None)
     | Some (saying, credential) \<Rightarrow> (Some (VStr saying), Some (''Bearer '' @ credential)))"
  by (auto simp: label_of_def tool_request_def lab_probe_param_def update_conv' split: option.split)

lemma make_client_headers:
  assumes "make_client platform_token tok = Inr C"
  shows "map_of (mcp_headers C) lab_principal_header = None" "0 \<le> mcp_base_delay C" "0 < mcp_max_attempts C"
  using assms by (auto simp: make_client_def lab_principal_header_def default_max_attempts_def
      default_retry_base_delay_def split: if_splits)

lemma on_the_wire_requests:
  "on_the_wire C i tool args timeout lab out (sent, kept) \<Longrightarrow> map fst sent \<noteq> [] \<and> set (map fst sent) = {tool_request C i tool args timeout lab}"
  by (cases sent) (auto simp: on_the_wire_def tries_of_def list_all_iff)

lemma lab_probe_envelope_cases:
  assumes "lab_probe_envelope (Some a) (Some b) = Inr h"
  shows "h = (lab_principal_header, ''Bearer '' @ b)"
  using assms by (auto simp: lab_probe_envelope_def split: if_splits)

text \<open>C31: a call over a client of \<open>make_client\<close> that names no label carries neither the label's parameter
  nor the lab's credential, whatever the platform answers; every request of a \<open>LabProbeClient\<close>
  carries both; and a reason or credential the lab client refuses sends nothing, writes no trace and
  spends no request id when it is passed to a call.\<close>

theorem only_the_lab_labels_a_call:
  assumes "make_client platform_token tok = Inr C"
  shows "label_of ` set (requests_of (client_call_tool L C (recording T) (Some (keep_trace trace)) ((w, [], [], []), c) tool args timeout None None))
      = {(None, None)}
    \<and> (case make_lab_client a b of
         Inr lab \<Rightarrow> label_of ` set (requests_of (lab_call_tool L C (recording T) (Some (keep_trace trace)) lab ((w, [], [], []), c) tool args timeout))
                      = {(Some (VStr a), Some (''Bearer '' @ b))}
       | Inl err \<Rightarrow> client_call_tool L C (recording T) (Some (keep_trace trace)) ((w, [], [], []), c) tool args timeout (Some a) (Some b)
                      = (((fst (monotonic T w), [], [], []), c), Inl (Raised err)))"
proof -
  note C = make_client_headers[OF assms]
  have sent: "label_of ` set (requests_of (client_call_tool L C (recording T) (Some (keep_trace trace)) ((w, [], [], []), c) tool args timeout
      (map_option fst lab) (map_option snd lab))) = {case lab of None \<Rightarrow> (None, None)
        | Some (x, y) \<Rightarrow> (Some (VStr x), Some (''Bearer '' @ y))}"
    if ok: "case lab of None \<Rightarrow> True | Some (x, y) \<Rightarrow> lab_probe_envelope (Some x) (Some y) = Inr (lab_principal_header, ''Bearer '' @ y)" for lab
  proof -
    obtain w' sent kept c' out where call: "client_call_tool L C (recording T) (Some (keep_trace trace)) ((w, [], [], []), c) tool args timeout
        (map_option fst lab) (map_option snd lab) = (((w', sent, kept), c'), out)"
      by (metis surj_pair)
    have "on_the_wire C (next_id c) tool args timeout lab out (sent, kept)"
      using labelled_call_on_the_wire[OF C(2,3) _ call, of lab] ok by (cases lab) (auto split: prod.splits)
    from on_the_wire_requests[OF this] show ?thesis
      unfolding call requests_of_def by (simp add: label_of_tool_request[OF C(1)])
  qed
  show ?thesis
  proof (cases "lab_probe_envelope (Some a) (Some b)")
    case (Inl err)
    then show ?thesis
      using sent[of None] by (simp add: make_lab_client_def client_call_tool_def Let_def split: prod.split)
  next
    case (Inr h)
    then show ?thesis
      using sent[of None] sent[of "Some (a, b)"] lab_probe_envelope_cases[OF Inr]
      by (simp add: make_lab_client_def lab_call_tool_def)
  qed
qed

theorem only_the_lab_labels_a_call_witness:
  "make_client ''agent'' None = Inr sample_agent
   \<and> label_of ` set (requests_of (client_call_tool sample_lib sample_agent (recording sample_transport) (Some (keep_trace (\<lambda>n _. n)))
        ((0, [], [], []), \<lparr>next_id = 1\<rparr>) ''get_incident'' [] None None None)) = {(None, None)}
   \<and> label_of ` set (requests_of (lab_call_tool sample_lib sample_agent (recording sample_transport) (Some (keep_trace (\<lambda>n _. n)))
        \<lparr>lab_reason = ''audit'', lab_token = ''lab''\<rparr> ((0, [], [], []), \<lparr>next_id = 1\<rparr>) ''get_incident'' [] None))
      = {(Some (VStr ''audit''), Some (''Bearer '' @ ''lab''))}"
proof -
  have agent: "make_client ''agent'' None = Inr sample_agent"
    by (simp add: make_client_def sample_agent_def default_max_attempts_def default_retry_base_delay_def)
  have lab: "make_lab_client ''audit'' ''lab'' = Inr \<lparr>lab_reason = ''audit'', lab_token = ''lab''\<rparr>"
    by code_simp
  show ?thesis
    using only_the_lab_labels_a_call[OF agent, where a="''audit''" and b="''lab''"] agent by (simp only: lab sum.case simp_thms)
qed

subsection \<open>What a model call bills\<close>






end
