(* ===== verification/Guards.thy ===== *)
theory Guards
  imports Mcp_Client Reward
begin

text \<open>
  \<^verbatim>\<open>evals/guards.py\<close> and the part of \<^verbatim>\<open>evals/runner.py\<close>'s \<open>main\<close> that uses it: the probes that decide, before
  anything runs, whether a token holds the one scope a stage needs, the scan that collects the
  platform's audit pages while the stage runs, and the assertion that a read-only stage executed no
  Tier-1 action. The client is a \<open>LabProbeCapableClient\<close>; \<open>client_call_tool\<close> is one.
\<close>

subsection \<open>The client the guards hold\<close>

type_synonym 'w lab_port =
  "'w \<Rightarrow> string \<Rightarrow> dict \<Rightarrow> string option \<Rightarrow> string option \<Rightarrow> 'w \<times> (client_error + tool_result)"

definition over_mcp :: "client_lib \<Rightarrow> mcp_config \<Rightarrow> 'w transport \<Rightarrow> ('w \<Rightarrow> call_trace \<Rightarrow> 'w) option \<Rightarrow> ('w \<times> client_state) lab_port" where
  "over_mcp L C T tracer st tool args r t = client_call_tool L C T tracer st tool args None r t"

record guard_lib =
  says :: "summary \<Rightarrow> string" \<comment> \<open>the text of an error\<close>
  parse_page :: "string \<Rightarrow> (int \<times> (string \<times> audit_event) list) option" \<comment> \<open>the registry's output model: \<open>total\<close>, and each event under its \<open>id\<close>\<close>
  str_of_extra :: "val \<Rightarrow> string"

datatype guard_failure =
    Scope_carried client_error
  | Scope_lacked client_error
  | Proves_nothing client_error
  | Unverified exn
  | Probe_accepted tool_result
  | Unreadable_page
  | Audit_failed client_error
  | Inconclusive "(string \<times> audit_event) list"
  | Acted "(string \<times> audit_event) list"

text \<open>What leaves a guard: its own error, a refusal of the label, or another exception of the client.\<close>

datatype guard_exit = Principal_guard_error guard_failure | Label_refused client_error | Client_raised client_error | Wrong_window

definition scope_refusal_code :: int where "scope_refusal_code = -32002"
definition argument_refusal_codes :: "int list" where "argument_refusal_codes = [-32602]"
definition audit_page_limit :: nat where "audit_page_limit = 200"
definition audit_scan_row_cap :: nat where "audit_scan_row_cap = 2000"
definition agent_forbidden_scope :: string where "agent_forbidden_scope = ''chaos:invoke''"

definition probe_tool :: string where "probe_tool = ''mark_dlq_permanent''"

definition probe_args :: dict where
  "probe_args = [(''job_id'', VStr ''00000000-0000-0000-0000-000000000000-INVALID''), (''reason'', VStr ''''),
                 (''idempotency_key'', VStr ''x'')]"

definition chaos_probe_tool :: string where "chaos_probe_tool = ''inject_latency''"

definition chaos_probe_args :: dict where
  "chaos_probe_args = [(''consumer_group'', VStr ''''), (''latency_ms'', VStr ''not-a-latency'')]"

definition label :: "string \<Rightarrow> string option \<Rightarrow> string option \<times> string option" where
  "label saying token = (case token of Some (c # cs) \<Rightarrow> (Some saying, Some (c # cs)) | _ \<Rightarrow> (None, None))"

subsection \<open>The probes\<close>

definition refused_on_scope :: "guard_lib \<Rightarrow> int \<Rightarrow> summary \<Rightarrow> bool" where
  "refused_on_scope G code said = (code = scope_refusal_code \<and> sublist ''scope'' (map lower_char (says G said)))"

definition assert_scope_absent ::
    "guard_lib \<Rightarrow> 'w lab_port \<Rightarrow> string \<Rightarrow> dict \<Rightarrow> string \<Rightarrow> string option \<Rightarrow> 'w \<Rightarrow> 'w \<times> (guard_exit + unit)" where
  "assert_scope_absent G port tool args saying token w = (case label saying token of (r, t) \<Rightarrow>
     (case port w tool args r t of
        (w', Inl (Lab_probe_refused code said d)) \<Rightarrow> (w', Inl (Label_refused (Lab_probe_refused code said d)))
      | (w', Inl (Mcp_failed code said d)) \<Rightarrow>
          (w', if refused_on_scope G code said then Inr ()
               else if code \<in> set argument_refusal_codes
               then Inl (Principal_guard_error (Scope_carried (Mcp_failed code said d)))
               else Inl (Principal_guard_error (Proves_nothing (Mcp_failed code said d))))
      | (w', Inl (client_error.Raised e)) \<Rightarrow> (w', Inl (Principal_guard_error (Unverified e)))
      | (w', Inr res) \<Rightarrow> (w', Inl (Principal_guard_error (Probe_accepted res)))))"

definition assert_scope_carried ::
    "guard_lib \<Rightarrow> 'w lab_port \<Rightarrow> string \<Rightarrow> dict \<Rightarrow> string \<Rightarrow> string option \<Rightarrow> 'w \<Rightarrow> 'w \<times> (guard_exit + unit)" where
  "assert_scope_carried G port tool args saying token w = (case label saying token of (r, t) \<Rightarrow>
     (case port w tool args r t of
        (w', Inl (Lab_probe_refused code said d)) \<Rightarrow> (w', Inl (Label_refused (Lab_probe_refused code said d)))
      | (w', Inl (Mcp_failed code said d)) \<Rightarrow>
          (w', if refused_on_scope G code said
               then Inl (Principal_guard_error (Scope_lacked (Mcp_failed code said d)))
               else if code \<in> set argument_refusal_codes then Inr ()
               else Inl (Principal_guard_error (Proves_nothing (Mcp_failed code said d))))
      | (w', Inl (client_error.Raised e)) \<Rightarrow> (w', Inl (Principal_guard_error (Unverified e)))
      | (w', Inr res) \<Rightarrow> (w', Inl (Principal_guard_error (Probe_accepted res)))))"

definition assert_read_only_principal :: "guard_lib \<Rightarrow> 'w lab_port \<Rightarrow> string option \<Rightarrow> 'w \<Rightarrow> 'w \<times> (guard_exit + unit)" where
  "assert_read_only_principal G port =
     assert_scope_absent G port probe_tool probe_args ''principal guard: proves this token cannot execute a Tier-1 action''"

definition assert_chaos_blind_principal :: "guard_lib \<Rightarrow> 'w lab_port \<Rightarrow> string option \<Rightarrow> 'w \<Rightarrow> 'w \<times> (guard_exit + unit)" where
  "assert_chaos_blind_principal G port =
     assert_scope_absent G port chaos_probe_tool chaos_probe_args ''principal guard: proves the agent token cannot seed chaos''"

definition assert_write_capable_principal :: "guard_lib \<Rightarrow> 'w lab_port \<Rightarrow> string option \<Rightarrow> 'w \<Rightarrow> 'w \<times> (guard_exit + unit)" where
  "assert_write_capable_principal G port token w =
     (case assert_scope_carried G port probe_tool probe_args
             ''principal guard: proves the agent token can execute a Tier-1 action'' token w of
        (w', Inl e) \<Rightarrow> (w', Inl e)
      | (w', Inr _) \<Rightarrow> assert_chaos_blind_principal G port token w')"

definition assert_chaos_capable_principal :: "guard_lib \<Rightarrow> 'w lab_port \<Rightarrow> string option \<Rightarrow> 'w \<Rightarrow> 'w \<times> (guard_exit + unit)" where
  "assert_chaos_capable_principal G port =
     assert_scope_carried G port chaos_probe_tool chaos_probe_args ''principal guard: proves the evaluator token can seed chaos''"

subsection \<open>The audit window\<close>

type_synonym audit_row = "string \<times> audit_event"

abbreviation row_time :: "audit_row \<Rightarrow> datetime" where "row_time r \<equiv> created_at_event (snd r)"

record audit_window_scan =
  since :: datetime
  scan_token :: "string option"
  checkpoints :: nat
  rows :: "audit_row list"
  covered_from :: "datetime option"
  covered_upto :: "datetime option"
  scan_complete :: bool
  overflowed :: bool
  last_page :: "nat \<times> int"

definition new_scan :: "datetime \<Rightarrow> string option \<Rightarrow> audit_window_scan" where
  "new_scan t token = \<lparr>since = t, scan_token = token, checkpoints = 0, rows = [], covered_from = None,
     covered_upto = None, scan_complete = False, overflowed = False, last_page = (0, 0)\<rparr>"

definition merge_row :: "audit_row \<Rightarrow> audit_window_scan \<Rightarrow> audit_window_scan" where
  "merge_row r s =
     (if row_time r < since s then s
      else if map_of (rows s) (fst r) \<noteq> None then s
      else if audit_scan_row_cap \<le> length (rows s) then s\<lparr>overflowed := True\<rparr>
      else s\<lparr>rows := rows s @ [r]\<rparr>)"

definition merge_page :: "audit_row list \<Rightarrow> audit_window_scan \<Rightarrow> audit_window_scan" where
  "merge_page events s = fold merge_row events s"

text \<open>\<open>checkpoint\<close> once the page is read: the count is the server's own count over the same filter.\<close>

definition fold_page :: "int \<times> audit_row list \<Rightarrow> audit_window_scan \<Rightarrow> audit_window_scan" where
  "fold_page page s = (case page of (count, events) \<Rightarrow>
     (let s1 = merge_page events (s\<lparr>checkpoints := checkpoints s + 1, last_page := (length events, count)\<rparr>) in
      if \<not> (int (length events) < count \<or> audit_page_limit \<le> length events) then s1\<lparr>scan_complete := True\<rparr>
      else if events = [] then s1
      else let oldest = Min (set (map row_time events)); newest = Max (set (map row_time events)) in
        case covered_upto s1 of
          Some u \<Rightarrow> if oldest \<le> u then s1\<lparr>covered_upto := Some (max u newest)\<rparr>
                     else s1\<lparr>covered_from := Some oldest, covered_upto := Some newest\<rparr>
        | None \<Rightarrow> s1\<lparr>covered_from := Some oldest, covered_upto := Some newest\<rparr>))"

definition text_of_block :: "dict \<Rightarrow> string option" where
  "text_of_block b = (if get b ''type'' = Some (VStr ''text'')
     then case get b ''text'' of Some (VStr s) \<Rightarrow> Some s | _ \<Rightarrow> None else None)"

definition parse_events :: "guard_lib \<Rightarrow> tool_result \<Rightarrow> guard_failure + int \<times> audit_row list" where
  "parse_events G res = (case concat (map (\<lambda>b. case text_of_block b of Some s \<Rightarrow> [s] | None \<Rightarrow> []) (result_content res)) of
      [] \<Rightarrow> Inl Unreadable_page
    | s # _ \<Rightarrow> (case parse_page G s of None \<Rightarrow> Inl Unreadable_page | Some page \<Rightarrow> Inr page))"

definition audit_query :: dict where
  "audit_query = [(''action'', VStr ''agent.tool_invoked''), (''principal_type'', VStr ''service_account''),
                  (''limit'', VInt (int audit_page_limit))]"

definition exit_of :: "client_error \<Rightarrow> guard_exit" where
  "exit_of e = (case e of Lab_probe_refused _ _ _ \<Rightarrow> Label_refused e | _ \<Rightarrow> Client_raised e)"

definition checkpoint_scan ::
    "guard_lib \<Rightarrow> 'w lab_port \<Rightarrow> audit_window_scan \<Rightarrow> 'w \<Rightarrow> 'w \<times> (guard_exit + audit_window_scan)" where
  "checkpoint_scan G port s w = (case label ''principal guard: reads the audit window for Tier-1 successes'' (scan_token s) of (r, t) \<Rightarrow>
     (case port w ''list_audit_events'' audit_query r t of
        (w', Inl e) \<Rightarrow> (w', Inl (exit_of e))
      | (w', Inr res) \<Rightarrow> (w', case parse_events G res of
            Inl bad \<Rightarrow> Inl (Principal_guard_error bad)
          | Inr page \<Rightarrow> Inr (fold_page page s))))"

definition fully_scanned :: "audit_window_scan \<Rightarrow> bool" where
  "fully_scanned s = (if overflowed s then False
     else if scan_complete s then True
     else case covered_from s of Some f \<Rightarrow> f < since s | None \<Rightarrow> False)"

definition owned_by :: "string list option \<Rightarrow> audit_row \<Rightarrow> bool" where
  "owned_by ids r = (case ids of
      Some (i # is) \<Rightarrow> (case principal_id (snd r) of Some p \<Rightarrow> p | None \<Rightarrow> ''None'') \<in> set (i # is)
    | _ \<Rightarrow> True)"

definition tier_1_success :: "guard_lib \<Rightarrow> audit_row \<Rightarrow> bool" where
  "tier_1_success G r = (tool_of (str_of_extra G) (snd r) \<in> set tier_1_tools \<and> outcome_of (str_of_extra G) (snd r) = ''success'')"

definition violations :: "guard_lib \<Rightarrow> audit_window_scan \<Rightarrow> string list option \<Rightarrow> audit_row list" where
  "violations G s ids =
     sort_key row_time (filter (\<lambda>r. tier_1_success G r \<and> since s \<le> row_time r \<and> owned_by ids r) (rows s))"

definition assert_no_tier1_successes ::
    "guard_lib \<Rightarrow> 'w lab_port \<Rightarrow> datetime \<Rightarrow> string list option \<Rightarrow> audit_window_scan option \<Rightarrow> string option \<Rightarrow> 'w
     \<Rightarrow> 'w \<times> (guard_exit + audit_row list)" where
  "assert_no_tier1_successes G port start ids given token w =
     (case (case given of None \<Rightarrow> Some (new_scan start token) | Some s \<Rightarrow> if since s \<noteq> start then None else Some s) of
        None \<Rightarrow> (w, Inl Wrong_window)
      | Some s \<Rightarrow> (case checkpoint_scan G port s w of
            (w', Inl (Principal_guard_error bad)) \<Rightarrow> (w', Inl (Principal_guard_error bad))
          | (w', Inl (Label_refused e)) \<Rightarrow> (w', Inl (Principal_guard_error (Audit_failed e)))
          | (w', Inl (Client_raised e)) \<Rightarrow> (w', Inl (Principal_guard_error (Audit_failed e)))
          | (w', Inl Wrong_window) \<Rightarrow> (w', Inl Wrong_window)
          | (w', Inr s') \<Rightarrow>
              (let vs = violations G s' ids in
               (w', if \<not> fully_scanned s' then Inl (Principal_guard_error (Inconclusive vs))
                    else if vs \<noteq> [] then Inl (Principal_guard_error (Acted vs))
                    else Inr vs))))"

subsection \<open>A stage of the runner\<close>

text \<open>
  Steps 17 to 24 of \<open>main\<close>: the ports are the clients \<open>make_client\<close> builds over the agent's and the
  evaluator's tokens; one scenario, and the archiving of it, is \<open>run_scenario\<close>; what a pass reports is
  \<open>report_pass\<close>. Exit codes: 3 environment, 4 principal guard, 5 audit, 9 ungraded, 10 contaminated.
\<close>

record pass_report =
  contaminated_scenarios :: "string list"
  ungraded_rows :: nat
  failed_rows :: nat

record 'w stage_host =
  agent_port :: "'w lab_port"
  chaos_port :: "'w lab_port"
  run_scenario :: "'w \<Rightarrow> nat \<Rightarrow> nat \<Rightarrow> 'w"
  report_pass :: "'w \<Rightarrow> nat \<Rightarrow> 'w \<times> pass_report"
  chaos_block_reason :: "'w \<Rightarrow> bool"

record stage_setup =
  smoke :: bool
  live_or_rehearsal :: bool
  placeholder_platform :: bool
  expects_actions :: bool
  seeds_chaos :: bool
  stage_chaos_token :: "string option"
  stage_started_at :: datetime
  stage_scenarios :: nat
  stage_repeats :: nat
  agent_principal :: "string option"
  smoke_principal :: "string option"

definition lab_probe_credential :: "stage_setup \<Rightarrow> string option" where
  "lab_probe_credential S = (case stage_chaos_token S of
      Some t \<Rightarrow> if strip t = [] then None else Some t | None \<Rightarrow> None)"

definition guard_required :: "stage_setup \<Rightarrow> bool" where
  "guard_required S = (smoke S \<and> \<not> placeholder_platform S)"

text \<open>Steps 17 and 18: the exit code of a stage that does not start, or nothing.\<close>

definition smoke_guard :: "guard_lib \<Rightarrow> 'w stage_host \<Rightarrow> stage_setup \<Rightarrow> 'w \<Rightarrow> 'w \<times> int option" where
  "smoke_guard G H S w =
     (if smoke S \<and> \<not> guard_required S then (w, Some 3)
      else if guard_required S
      then (case assert_read_only_principal G (agent_port H) (lab_probe_credential S) w of
              (w', Inl _) \<Rightarrow> (w', Some 4)
            | (w', Inr _) \<Rightarrow> (w', None))
      else (w, None))"

definition agent_guard :: "guard_lib \<Rightarrow> 'w stage_host \<Rightarrow> stage_setup \<Rightarrow> bool \<Rightarrow> 'w \<Rightarrow> 'w \<times> (guard_exit + unit)" where
  "agent_guard G H S needs_write =
     (if needs_write then assert_write_capable_principal G (agent_port H) (lab_probe_credential S)
      else assert_chaos_blind_principal G (agent_port H) (lab_probe_credential S))"

definition live_guard :: "guard_lib \<Rightarrow> 'w stage_host \<Rightarrow> stage_setup \<Rightarrow> 'w \<Rightarrow> 'w \<times> int option" where
  "live_guard G H S w =
     (let live_platform = live_or_rehearsal S \<and> \<not> smoke S \<and> \<not> placeholder_platform S;
          needs_write = live_platform \<and> expects_actions S;
          needs_chaos = live_platform \<and> seeds_chaos S
      in if \<not> needs_write \<and> \<not> needs_chaos then (w, None)
         else if needs_chaos \<and> lab_probe_credential S = None then (w, Some 3)
         else case agent_guard G H S needs_write w of
             (w1, Inl _) \<Rightarrow> (w1, Some 4)
           | (w1, Inr _) \<Rightarrow>
               (if \<not> needs_chaos then (w1, None)
                else case assert_chaos_capable_principal G (chaos_port H) (lab_probe_credential S) w1 of
                    (w2, Inl _) \<Rightarrow> (w2, Some 4)
                  | (w2, Inr _) \<Rightarrow> (w2, None)))"

text \<open>
  Steps 20 to 22. A refused label ends the stage; a checkpoint that fails otherwise is skipped. \<open>Inl\<close> is
  the refusal, which leaves \<open>main\<close>.
\<close>

definition after_scenario ::
    "guard_lib \<Rightarrow> 'w stage_host \<Rightarrow> audit_window_scan option \<Rightarrow> 'w \<Rightarrow> 'w \<times> (client_error + audit_window_scan option)" where
  "after_scenario G H scan w = (case scan of
      None \<Rightarrow> (w, Inr None)
    | Some s \<Rightarrow> (case checkpoint_scan G (agent_port H) s w of
          (w', Inl (Label_refused e)) \<Rightarrow> (w', Inl e)
        | (w', Inl _) \<Rightarrow> (w', Inr (Some s))
        | (w', Inr s') \<Rightarrow> (w', Inr (Some s'))))"

fun run_scenarios ::
    "guard_lib \<Rightarrow> 'w stage_host \<Rightarrow> nat \<Rightarrow> nat list \<Rightarrow> audit_window_scan option \<Rightarrow> 'w
     \<Rightarrow> 'w \<times> (client_error + audit_window_scan option)" where
  "run_scenarios G H pass [] scan w = (w, Inr scan)"
| "run_scenarios G H pass (i # rest) scan w =
     (case after_scenario G H scan (run_scenario H w pass i) of
        (w', Inl e) \<Rightarrow> (w', Inl e)
      | (w', Inr scan') \<Rightarrow> run_scenarios G H pass rest scan' w')"

fun run_passes ::
    "guard_lib \<Rightarrow> 'w stage_host \<Rightarrow> nat \<Rightarrow> nat list \<Rightarrow> audit_window_scan option \<Rightarrow> 'w
     \<Rightarrow> 'w \<times> (client_error + audit_window_scan option \<times> pass_report list)" where
  "run_passes G H n [] scan w = (w, Inr (scan, []))"
| "run_passes G H n (pass # rest) scan w =
     (case run_scenarios G H pass [0 ..< n] scan w of
        (w1, Inl e) \<Rightarrow> (w1, Inl e)
      | (w1, Inr scan1) \<Rightarrow>
          (case report_pass H w1 pass of (w2, report) \<Rightarrow>
            (case run_passes G H n rest scan1 w2 of
               (w3, Inl e) \<Rightarrow> (w3, Inl e)
             | (w3, Inr (scan3, reports)) \<Rightarrow> (w3, Inr (scan3, report # reports)))))"

definition principal_ids :: "stage_setup \<Rightarrow> string list option" where
  "principal_ids S = (case (agent_principal S, smoke_principal S) of
      (Some (a # as), Some (b # bs)) \<Rightarrow> Some [a # as, b # bs]
    | _ \<Rightarrow> None)"

text \<open>Step 24: the widest blast radius first.\<close>

definition exit_code :: "stage_setup \<Rightarrow> bool \<Rightarrow> pass_report list \<Rightarrow> int" where
  "exit_code S blocked reports =
     (if live_or_rehearsal S \<and> (concat (map contaminated_scenarios reports) \<noteq> [] \<or> blocked) then 10
      else if list_ex (\<lambda>r. 0 < ungraded_rows r) reports then 9
      else if list_all (\<lambda>r. failed_rows r = 0) reports then 0 else 1)"

definition run_stage :: "guard_lib \<Rightarrow> 'w stage_host \<Rightarrow> stage_setup \<Rightarrow> 'w \<Rightarrow> 'w \<times> (client_error + int)" where
  "run_stage G H S w =
     (case smoke_guard G H S w of
        (w1, Some code) \<Rightarrow> (w1, Inr code)
      | (w1, None) \<Rightarrow> (case live_guard G H S w1 of
          (w2, Some code) \<Rightarrow> (w2, Inr code)
        | (w2, None) \<Rightarrow>
            (case run_passes G H (stage_scenarios S) [0 ..< stage_repeats S]
                    (if guard_required S then Some (new_scan (stage_started_at S) (lab_probe_credential S)) else None) w2 of
                (w3, Inl e) \<Rightarrow> (w3, Inl e)
              | (w3, Inr (scan, reports)) \<Rightarrow>
                  (if \<not> guard_required S then (w3, Inr (exit_code S (chaos_block_reason H w3) reports))
                   else case assert_no_tier1_successes G (agent_port H) (stage_started_at S) (principal_ids S) scan
                               (lab_probe_credential S) w3 of
                       (w4, Inl _) \<Rightarrow> (w4, Inr 5)
                     | (w4, Inr _) \<Rightarrow> (w4, Inr (exit_code S (chaos_block_reason H w4) reports))))))"

end
