(* ===== verification/Guard_Claims.thy ===== *)
theory Guard_Claims
  imports Guards
begin

text \<open>
  What the principal guards and the audit scan are worth: a probe passes on exactly one answer, and a
  smoke stage that passes its audit executed no Tier-1 action, over any platform that only appends to
  its log and serves the newest rows. The last section shows the one place where the scan fails open.
\<close>

subsection \<open>Probes\<close>

lemma assert_scope_absent_passes:
  "snd (assert_scope_absent G port tool args saying token w) = Inr () \<longleftrightarrow>
     (\<exists>code said d. snd (port w tool args (fst (label saying token)) (snd (label saying token))) = Inl (Mcp_failed code said d)
        \<and> refused_on_scope G code said)"
  by (cases "label saying token"; cases "port w tool args (fst (label saying token)) (snd (label saying token))")
    (auto simp: assert_scope_absent_def split: sum.splits client_error.splits)


lemma assert_scope_carried_world:
  "fst (assert_scope_carried G port tool args saying token w) = fst (port w tool args (fst (label saying token)) (snd (label saying token)))"
  by (cases "label saying token"; cases "port w tool args (fst (label saying token)) (snd (label saying token))")
    (auto simp: assert_scope_carried_def split: sum.splits client_error.splits)

lemma assert_scope_carried_passes:
  "snd (assert_scope_carried G port tool args saying token w) = Inr () \<longleftrightarrow>
     (\<exists>code said d. snd (port w tool args (fst (label saying token)) (snd (label saying token))) = Inl (Mcp_failed code said d)
        \<and> code \<in> set argument_refusal_codes)"
  by (cases "label saying token"; cases "port w tool args (fst (label saying token)) (snd (label saying token))")
    (auto simp: assert_scope_carried_def refused_on_scope_def argument_refusal_codes_def scope_refusal_code_def
      split: sum.splits client_error.splits)

subsection \<open>Merging a page\<close>

lemma merge_row_frame [simp]:
  "since (merge_row r s) = since s" "covered_from (merge_row r s) = covered_from s"
  "covered_upto (merge_row r s) = covered_upto s" "scan_complete (merge_row r s) = scan_complete s"
  by (simp_all add: merge_row_def)

lemma merge_page_frame [simp]:
  "since (merge_page ev s) = since s" "covered_from (merge_page ev s) = covered_from s"
  "covered_upto (merge_page ev s) = covered_upto s" "scan_complete (merge_page ev s) = scan_complete s"
  unfolding merge_page_def by (induction ev arbitrary: s) simp_all

lemma merge_page_Cons [simp]: "merge_page [] s = s" "merge_page (r # ev) s = merge_page ev (merge_row r s)"
  by (simp_all add: merge_page_def)

lemma merge_page_rows: "set (rows s) \<subseteq> set (rows (merge_page ev s)) \<and> set (rows (merge_page ev s)) \<subseteq> set (rows s) \<union> set ev"
proof (induction ev arbitrary: s)
  case (Cons r ev)
  from Cons.IH[of "merge_row r s"] show ?case by (fastforce simp: merge_row_def split: if_splits)
qed simp


lemma merge_page_room: "length (rows s) + length ev \<le> audit_scan_row_cap \<Longrightarrow> overflowed (merge_page ev s) = overflowed s"
proof (induction ev arbitrary: s)
  case (Cons r ev)
  have "length (rows (merge_row r s)) + length ev \<le> audit_scan_row_cap" "overflowed (merge_row r s) = overflowed s"
    using Cons.prems by (auto simp: merge_row_def)
  with Cons.IH[of "merge_row r s"] show ?case by simp
qed simp




subsection \<open>A platform that appends and serves the newest rows\<close>

definition newest_page :: "audit_row list \<Rightarrow> int \<times> audit_row list \<Rightarrow> bool" where
  "newest_page l page = (case page of (count, events) \<Rightarrow>
     count = int (length l) \<and> length events = min audit_page_limit (length l) \<and> distinct (map fst events)
     \<and> set events \<subseteq> set l \<and> list_all (\<lambda>r. r \<in> set events \<or> list_all (\<lambda>e. row_time r \<le> row_time e) events) l)"

definition log_grew :: "audit_row list \<Rightarrow> audit_row list \<Rightarrow> bool" where
  "log_grew old l = (distinct (map fst l) \<and> (\<exists>new. l = old @ new \<and> list_all (\<lambda>x. list_all (\<lambda>y. row_time x < row_time y) new) old))"








lemma fold_page_rows:
  "rows (fold_page (count, ev) s) = rows (merge_page ev (s\<lparr>checkpoints := checkpoints s + 1, last_page := (length ev, count)\<rparr>))"
  "overflowed (fold_page (count, ev) s) = overflowed (merge_page ev (s\<lparr>checkpoints := checkpoints s + 1, last_page := (length ev, count)\<rparr>))"
  by (auto simp: fold_page_def Let_def split: option.split)






subsection \<open>A stage over that platform\<close>
























lemma violations_Nil:
  "violations G s ids = [] \<longleftrightarrow> (\<forall>x\<in>set (rows s). \<not> (tier_1_success G x \<and> since s \<le> row_time x \<and> owned_by ids x))"
proof -
  have "violations G s ids = [] \<longleftrightarrow> set (violations G s ids) = {}" by simp
  then show ?thesis unfolding violations_def set_sort set_filter by blast
qed










subsection \<open>Where the scan fails open\<close>

definition read_row :: "nat \<Rightarrow> audit_row" where
  "read_row n = (replicate n CHR ''i'', \<lparr>extra_data = Some [(''tool_name'', VStr ''get_consumer_lag''), (''outcome'', VStr ''success'')],
     created_at_event = int n, principal_id = None\<rparr>)"

definition act_row :: "nat \<Rightarrow> audit_row" where
  "act_row n = (replicate n CHR ''i'', \<lparr>extra_data = Some [(''tool_name'', VStr ''pause_dag''), (''outcome'', VStr ''success'')],
     created_at_event = int n, principal_id = None\<rparr>)"

definition gap_page :: "audit_row list" where
  "gap_page = map read_row [2 ..< 202]"

lemma length_gap_page [simp]: "length gap_page = 200" "gap_page \<noteq> []"
  by (simp_all add: gap_page_def)

definition bare_lib :: guard_lib where
  "bare_lib = \<lparr>says = (\<lambda>_. []), parse_page = (\<lambda>_. Some (202, gap_page)),
     str_of_extra = (\<lambda>v. case v of VStr s \<Rightarrow> s | _ \<Rightarrow> [])\<rparr>"

definition gap_log :: "audit_row list" where
  "gap_log = [read_row 0] @ act_row 1 # gap_page"

definition gap_scan :: audit_window_scan where
  "gap_scan = fold_page (1, [read_row 0]) (new_scan 0 None)"

definition gap_port :: "unit lab_port" where
  "gap_port w tool args r t = (w, Inr \<lparr>result_content = [[(''type'', VStr ''text''), (''text'', VStr [])]], result_is_error = False\<rparr>)"

lemma gap_ids: "map fst gap_log = map (\<lambda>n. replicate n CHR ''i'') [0 ..< 202]"
proof -
  have "[0 ..< 202] = [0, 1] @ [2 ..< 202 :: nat]" by (simp add: upt_rec)
  then show ?thesis by (simp only: gap_log_def gap_page_def) (simp add: read_row_def act_row_def)
qed

lemma gap_distinct: "distinct (map fst gap_log)"
  unfolding gap_ids distinct_map by (auto simp: inj_on_def dest: arg_cong[of _ _ length])

lemma read_row_time [simp]: "row_time (read_row n) = int n" "row_time (act_row n) = int n"
  by (simp_all add: read_row_def act_row_def)

lemma read_row_quiet: "\<not> tier_1_success bare_lib (read_row n)"
proof -
  have "''get_consumer_lag'' \<notin> set tier_1_tools" by code_simp
  then show ?thesis
    by (simp add: tier_1_success_def read_row_def bare_lib_def tool_of_def str_get_def event_extra_def)
qed

lemma act_row_acts: "tier_1_success bare_lib (act_row n)"
proof -
  have "''pause_dag'' \<in> set tier_1_tools" by code_simp
  then show ?thesis
    by (simp add: tier_1_success_def act_row_def bare_lib_def tool_of_def outcome_of_def str_get_def event_extra_def)
qed

lemma gap_scan_state: "rows gap_scan = [read_row 0]" "scan_complete gap_scan" "\<not> overflowed gap_scan" "since gap_scan = 0"
  by (simp_all add: gap_scan_def fold_page_def Let_def audit_page_limit_def merge_row_def new_scan_def audit_scan_row_cap_def)

lemma gap_vouched:
  "snd (assert_no_tier1_successes bare_lib gap_port 0 None (Some gap_scan) None ()) = Inr []"
proof -
  let ?page = "(202, gap_page)"
  let ?s = "fold_page ?page gap_scan"
  have "parse_events bare_lib \<lparr>result_content = [[(''type'', VStr ''text''), (''text'', VStr [])]], result_is_error = False\<rparr> = Inr ?page"
    by (simp add: parse_events_def text_of_block_def bare_lib_def)
  then have c: "checkpoint_scan bare_lib gap_port gap_scan () = ((), Inr ?s)"
    by (simp add: checkpoint_scan_def gap_port_def split: prod.split)
  have "scan_complete ?s"
    using gap_scan_state by (simp add: fold_page_def Let_def split: option.split)
  moreover have "\<not> overflowed ?s"
    using gap_scan_state unfolding fold_page_rows by (subst merge_page_room) (simp_all add: audit_scan_row_cap_def)
  moreover have "violations bare_lib ?s None = []"
  proof -
    have "set gap_page \<subseteq> range read_row" unfolding gap_page_def by auto
    moreover have "set (rows ?s) \<subseteq> set (rows gap_scan) \<union> set gap_page"
      using merge_page_rows[of "gap_scan\<lparr>checkpoints := checkpoints gap_scan + 1, last_page := (200, 202)\<rparr>" gap_page]
      by (simp add: fold_page_rows)
    ultimately have "set (rows ?s) \<subseteq> range read_row" using gap_scan_state(1) by auto
    with read_row_quiet show ?thesis unfolding violations_Nil by blast
  qed
  ultimately show ?thesis
    by (simp add: assert_no_tier1_successes_def gap_scan_state c fully_scanned_def)
qed

text \<open>C34: the scan fails open on a log that fills its first page during the stage. One checkpoint reads the
  whole log of one row; before the next read 201 rows land, the first of them a successful
  \<open>pause_dag\<close>. That page is full and does not reach back to the checkpoint, so the row is out of
  reach, yet the stage is vouched for: \<open>_complete\<close>, once set, is never taken back.\<close>

theorem early_complete_page_hides_a_gap:
  "log_grew [read_row 0] gap_log \<and> newest_page [read_row 0] (1, [read_row 0])
    \<and> newest_page gap_log (202, gap_page)
    \<and> list_ex (\<lambda>r. 0 \<le> row_time r \<and> owned_by None r \<and> tier_1_success bare_lib r) gap_log
    \<and> snd (assert_no_tier1_successes bare_lib gap_port 0 None (Some gap_scan) None ()) = Inr []"
proof (intro conjI)
  have times: "\<forall>r\<in>set gap_page. 2 \<le> row_time r" by (simp add: gap_page_def)
  then have "list_all (\<lambda>y. 0 < row_time y) (act_row 1 # gap_page)" by (force simp: list_all_iff)
  then show "log_grew [read_row 0] gap_log"
    unfolding log_grew_def by (intro conjI gap_distinct exI[of _ "act_row 1 # gap_page"]) (simp_all add: gap_log_def)
  show "newest_page [read_row 0] (1, [read_row 0])"
    by (simp add: newest_page_def audit_page_limit_def)
  have "list_all (\<lambda>e. row_time (read_row 0) \<le> row_time e) gap_page" "list_all (\<lambda>e. row_time (act_row 1) \<le> row_time e) gap_page"
    using times by (force simp: list_all_iff)+
  moreover have "list_all (\<lambda>r. r \<in> set gap_page \<or> list_all (\<lambda>e. row_time r \<le> row_time e) gap_page) gap_page"
    unfolding list_all_iff by blast
  moreover have "distinct (map fst gap_page)" using gap_distinct by (simp add: gap_log_def)
  ultimately show "newest_page gap_log (202, gap_page)"
    by (simp add: newest_page_def audit_page_limit_def gap_log_def subset_insertI2)
  show "list_ex (\<lambda>r. 0 \<le> row_time r \<and> owned_by None r \<and> tier_1_success bare_lib r) gap_log"
    by (simp add: gap_log_def act_row_acts owned_by_def)
qed (rule gap_vouched)

subsection \<open>The principal\<close>

text \<open>The guard of a remediation stage passes on exactly one pair of answers: the action probe was
  refused on its arguments, so the token can act, and the chaos probe was refused on scope, so the
  platform hides the answer key from it. An accepted probe, a refused label, any other code and any
  other exception fail it.\<close>

theorem write_guard_passes_on_one_pair_of_answers:
  "snd (assert_write_capable_principal G port token w) = Inr () \<longleftrightarrow>
     (\<exists>r t r' t' code said d code' said' d'.
        (r, t) = label ''principal guard: proves the agent token can execute a Tier-1 action'' token
        \<and> (r', t') = label ''principal guard: proves the agent token cannot seed chaos'' token
        \<and> snd (port w probe_tool probe_args r t) = Inl (Mcp_failed code said d) \<and> code \<in> set argument_refusal_codes
        \<and> snd (port (fst (port w probe_tool probe_args r t)) chaos_probe_tool chaos_probe_args r' t') = Inl (Mcp_failed code' said' d')
        \<and> refused_on_scope G code' said')"
proof -
  let ?act = "''principal guard: proves the agent token can execute a Tier-1 action''"
  have "snd (assert_write_capable_principal G port token w) = Inr () \<longleftrightarrow>
      snd (assert_scope_carried G port probe_tool probe_args ?act token w) = Inr ()
      \<and> snd (assert_chaos_blind_principal G port token (fst (assert_scope_carried G port probe_tool probe_args ?act token w))) = Inr ()"
    by (auto simp: assert_write_capable_principal_def split: prod.split sum.split)
  then show ?thesis
    unfolding assert_scope_carried_passes assert_scope_carried_world assert_chaos_blind_principal_def assert_scope_absent_passes
    by (cases "label ?act token"; cases "label ''principal guard: proves the agent token cannot seed chaos'' token") auto
qed

end
