(* ===== verification/Scenario_World.thy ===== *)
theory Scenario_World
  imports Expectation Config Mcp_Client Alert_Subject
begin

text \<open>
  The fault a scenario manufactures (\<^verbatim>\<open>evals/scenarios/schema.py\<close>, \<^verbatim>\<open>evals/chaos_hooks.py\<close>,
  \<^verbatim>\<open>evals/preconditions.py\<close>): the chaos hooks checked against the platform's recorded input schemas, the
  derived TTL of a self-recovering fault, the plan that seeds and compensates it, the probes that
  check its premise, and the scenario's own validators. \<open>str_of\<close> is Python's \<open>str\<close> on a JSON value.
\<close>

subsection \<open>The recorded input schemas\<close>

definition starts_with :: "string \<Rightarrow> string \<Rightarrow> bool" where "starts_with s p = prefix p s"

definition chaos_prefix :: string where "chaos_prefix = ''[chaos:''"

definition dict_or_empty :: "val option \<Rightarrow> dict" where
  "dict_or_empty v = (case v of Some (VDict d) \<Rightarrow> d | _ \<Rightarrow> [])"

definition chaos_schemas_from_snapshot :: "(val \<Rightarrow> string) \<Rightarrow> val \<Rightarrow> (string \<times> dict) list" where
  "chaos_schemas_from_snapshot str_of payload = (case payload of
      VDict p \<Rightarrow> (case get p ''tools'' of
          Some (VList tools) \<Rightarrow>
            fold (\<lambda>t schemas. case t of
                VDict tool \<Rightarrow> (case get tool ''name'' of
                    Some (VStr tool_named) \<Rightarrow>
                      (if starts_with (case get tool ''description'' of Some v \<Rightarrow> str_of v | None \<Rightarrow> []) chaos_prefix
                       then AList.update tool_named (dict_or_empty (get tool ''inputSchema'')) schemas
                       else schemas)
                  | _ \<Rightarrow> schemas)
              | _ \<Rightarrow> schemas) tools []
        | _ \<Rightarrow> [])
    | _ \<Rightarrow> [])"

text \<open>One hop of \<open>$ref\<close>, also inside every \<open>anyOf\<close> branch.\<close>

definition defs_prefix :: string where "defs_prefix = ''#/$defs/''"

definition follow_ref :: "dict \<Rightarrow> dict \<Rightarrow> val" where
  "follow_ref schema d = (case get d ''$ref'' of
      Some (VStr r) \<Rightarrow>
        (if starts_with r defs_prefix
         then (case get schema ''$defs'' of
             Some (VDict definitions) \<Rightarrow> (case get definitions (drop (length defs_prefix) r) of
                 Some (VDict target) \<Rightarrow>
                   VDict (fold (\<lambda>(k, v) t. dict_set k v t) (filter (\<lambda>kv. fst kv \<noteq> ''$ref'') d) target)
               | _ \<Rightarrow> VDict d)
           | _ \<Rightarrow> VDict d)
         else VDict d)
    | _ \<Rightarrow> VDict d)"

lemma size_get: "get d k = Some v \<Longrightarrow> size v < size (VDict d)"
proof (induction d)
  case (Cons p d)
  then show ?case by (cases p) (auto split: if_splits)
qed simp

function resolve_schema_ref :: "dict \<Rightarrow> val \<Rightarrow> val" where
  "resolve_schema_ref schema prop = (case prop of
      VDict d \<Rightarrow>
        (case get d ''anyOf'' of
           Some (VList branches) \<Rightarrow>
             (let merged = dict_set ''anyOf'' (VList (map (resolve_schema_ref schema) branches)) d in
              if get merged ''$ref'' = None then VDict merged else follow_ref schema merged)
         | _ \<Rightarrow> follow_ref schema d)
    | v \<Rightarrow> v)"
  by pat_completeness auto

termination
proof (relation "measure (size \<circ> snd)")
  fix schema prp d anyof branches and z :: val
  assume a: "prp = VDict d" "get d ''anyOf'' = Some anyof" "anyof = VList branches" "z \<in> set branches"
  then have "size z < size (VList branches)" by (auto simp: size_list_estimation' less_Suc_eq_le)
  with size_get[OF a(2)] a(1,3) show "((schema, z), schema, prp) \<in> measure (size \<circ> snd)" by simp
qed simp

declare resolve_schema_ref.simps [simp del]

definition json_types_for :: "(val \<Rightarrow> string) \<Rightarrow> val \<Rightarrow> string list" where
  "json_types_for str_of prop = (case prop of
      VDict d \<Rightarrow> (case get d ''type'' of
          Some t \<Rightarrow> [str_of t]
        | None \<Rightarrow> concat (map (\<lambda>b. case b of VDict e \<Rightarrow> (case get e ''type'' of Some t \<Rightarrow> [str_of t] | None \<Rightarrow> []) | _ \<Rightarrow> [])
            (case get d ''anyOf'' of Some (VList bs) \<Rightarrow> bs | _ \<Rightarrow> [])))
    | _ \<Rightarrow> [])"

fun branch_values :: "val list \<Rightarrow> val list option" where
  "branch_values [] = Some []"
| "branch_values (VDict e # bs) =
     (case get e ''enum'' of
        Some (VList vs) \<Rightarrow> map_option ((@) vs) (branch_values bs)
      | _ \<Rightarrow> if get e ''type'' = Some (VStr ''null'') then map_option ((#) VNull) (branch_values bs) else None)"
| "branch_values (_ # bs) = None"

definition enum_values_for :: "val \<Rightarrow> val list option" where
  "enum_values_for prop = (case prop of
      VDict d \<Rightarrow> (case get d ''enum'' of
          Some (VList vs) \<Rightarrow> Some vs
        | _ \<Rightarrow> (case get d ''anyOf'' of
            Some (VList bs) \<Rightarrow> (case (bs, branch_values bs) of
                ([], _) \<Rightarrow> None
              | (_, Some (v # vs)) \<Rightarrow> Some (v # vs)
              | _ \<Rightarrow> None)
          | _ \<Rightarrow> None))
    | _ \<Rightarrow> None)"

definition value_compatible :: "val \<Rightarrow> string list \<Rightarrow> bool" where
  "value_compatible v admitted =
     (if admitted = [] then True
      else case v of
          VNull \<Rightarrow> ''null'' \<in> set admitted
        | VBool _ \<Rightarrow> ''boolean'' \<in> set admitted
        | VInt _ \<Rightarrow> ''integer'' \<in> set admitted \<or> ''number'' \<in> set admitted
        | VFloat _ \<Rightarrow> ''number'' \<in> set admitted
        | VStr _ \<Rightarrow> ''string'' \<in> set admitted
        | VText _ \<Rightarrow> ''string'' \<in> set admitted
        | VDict _ \<Rightarrow> ''object'' \<in> set admitted
        | VList _ \<Rightarrow> ''array'' \<in> set admitted
        | _ \<Rightarrow> True)"

datatype argument_error =
    Unknown_arguments "string list"
  | Missing_arguments "string list"
  | Wrong_json_type string val
  | Not_in_closed_set string val
  | Below_minimum int
  | Above_maximum int

type_synonym snapshot = "(string \<times> dict) list"

definition schema_properties :: "dict \<Rightarrow> dict" where
  "schema_properties schema = dict_or_empty (get schema ''properties'')"

definition argument_errors_of :: "(val \<Rightarrow> string) \<Rightarrow> dict \<Rightarrow> string \<times> val \<Rightarrow> argument_error list" where
  "argument_errors_of str_of schema kv = (case kv of (k, v) \<Rightarrow>
     (case get (schema_properties schema) k of
        None \<Rightarrow> []
      | Some prop \<Rightarrow>
          (let resolved = resolve_schema_ref schema prop in
           (if value_compatible v (json_types_for str_of resolved) then [] else [Wrong_json_type k v])
           @ (case enum_values_for resolved of
                Some admitted \<Rightarrow> if list_ex (\<lambda>a. py_eq a v) admitted then [] else [Not_in_closed_set k v]
              | None \<Rightarrow> []))))"

definition chaos_argument_errors :: "(val \<Rightarrow> string) \<Rightarrow> snapshot \<Rightarrow> string \<Rightarrow> dict \<Rightarrow> argument_error list" where
  "chaos_argument_errors str_of snap hook args = (case map_of snap hook of
      None \<Rightarrow> []
    | Some schema \<Rightarrow>
        (let properties = schema_properties schema;
             unknown = sort (remdups (filter (\<lambda>k. get properties k = None) (map fst args)));
             required = (case get schema ''required'' of Some (VList rs) \<Rightarrow> map str_of rs | _ \<Rightarrow> []);
             missing = sort (remdups (filter (\<lambda>k. get args k = None) required))
         in if properties = [] then []
            else (if unknown = [] then [] else [Unknown_arguments unknown])
              @ (if missing = [] then [] else [Missing_arguments missing])
              @ concat (map (argument_errors_of str_of schema) (sort_key fst args))))"

definition ttl_argument :: string where "ttl_argument = ''ttl_seconds''"

definition ttl_bound_errors :: "snapshot \<Rightarrow> string \<Rightarrow> int \<Rightarrow> argument_error list" where
  "ttl_bound_errors snap hook resolved =
     (let schema = (case map_of snap hook of Some s \<Rightarrow> s | None \<Rightarrow> []) in
      case get (schema_properties schema) ttl_argument of
        None \<Rightarrow> []
      | Some prop \<Rightarrow> (case resolve_schema_ref schema prop of
            VDict d \<Rightarrow>
              (case Option.bind (get d ''minimum'') py_number of Some m \<Rightarrow> if of_int resolved < m then [Below_minimum resolved] else [] | None \<Rightarrow> [])
              @ (case Option.bind (get d ''maximum'') py_number of Some m \<Rightarrow> if m < of_int resolved then [Above_maximum resolved] else [] | None \<Rightarrow> [])
          | _ \<Rightarrow> []))"

subsection \<open>A fault that recovers on its own\<close>

record ttl_from_windows =
  investigation_multiple :: rat
  verify_multiple :: rat
  floor_seconds :: rat
  floor_reason :: string

definition make_ttl_from_windows :: "ttl_from_windows \<Rightarrow> ttl_from_windows result" where
  "make_ttl_from_windows t =
     (if 0 \<le> investigation_multiple t \<and> investigation_multiple t \<le> 10 \<and> 0 \<le> verify_multiple t \<and> verify_multiple t \<le> 10
        \<and> 1 \<le> floor_seconds t \<and> floor_seconds t \<le> 3600 \<and> 20 \<le> length (floor_reason t)
      then Inr t else Inl (ValueError ''TtlFromWindows field bounds''))"

text \<open>The windows a run's knobs give: what the preconditions may spend, the re-probes, the polls.\<close>

record run_windows =
  precondition_window :: rat
  investigation_window :: rat
  verify_window :: rat

definition ttl_seconds_of :: "ttl_from_windows \<Rightarrow> run_windows \<Rightarrow> int" where
  "ttl_seconds_of t W =
     \<lceil>max (precondition_window W + investigation_window W * investigation_multiple t + verify_window W * verify_multiple t)
          (floor_seconds t)\<rceil>"

record chaos_hook =
  hook_name :: string
  hook_arguments :: dict
  ttl_derivation :: "ttl_from_windows option"

definition make_chaos_hook :: "(val \<Rightarrow> string) \<Rightarrow> snapshot \<Rightarrow> chaos_hook \<Rightarrow> chaos_hook result" where
  "make_chaos_hook str_of snap h =
     (if hook_name h = [] \<or> map_of snap (hook_name h) = None then Inl (ValueError ''not a chaos tool'')
      else if chaos_argument_errors str_of snap (hook_name h) (hook_arguments h) \<noteq> []
      then Inl (ValueError ''chaos hook arguments disagree with the snapshot'')
      else case ttl_derivation h of
          None \<Rightarrow> Inr h
        | Some t \<Rightarrow>
            (if get (hook_arguments h) ttl_argument \<noteq> None then Inl (ValueError ''both ttl_from_windows and a written TTL'')
             else if get (schema_properties (case map_of snap (hook_name h) of Some schema \<Rightarrow> schema | None \<Rightarrow> [])) ttl_argument = None
             then Inl (ValueError ''the snapshot gives the hook no TTL argument'')
             else Inr h))"

definition seeded_arguments :: "(val \<Rightarrow> string) \<Rightarrow> snapshot \<Rightarrow> run_windows \<Rightarrow> chaos_hook \<Rightarrow> dict result" where
  "seeded_arguments str_of snap W h = (case ttl_derivation h of
      None \<Rightarrow> Inr (hook_arguments h)
    | Some t \<Rightarrow>
        (let resolved = ttl_seconds_of t W;
             args = dict_set ttl_argument (VInt resolved) (hook_arguments h)
         in if chaos_argument_errors str_of snap (hook_name h) args @ ttl_bound_errors snap (hook_name h) resolved \<noteq> []
            then Inl (ValueError ''the snapshot refuses the resolved TTL'')
            else Inr args))"

record chaos_plan =
  plan_setup :: "chaos_hook list"
  plan_teardown :: "chaos_hook list"
  settle_seconds :: rat

definition make_chaos_plan :: "chaos_plan \<Rightarrow> chaos_plan result" where
  "make_chaos_plan p = (if 0 \<le> settle_seconds p \<and> settle_seconds p \<le> 300 then Inr p else Inl (ValueError ''settle_seconds''))"

definition self_recovering :: "chaos_plan \<Rightarrow> bool" where
  "self_recovering p = list_ex (\<lambda>h. ttl_derivation h \<noteq> None) (plan_setup p)"

definition hook_names :: "chaos_plan \<Rightarrow> string list" where
  "hook_names p = map hook_name (plan_setup p @ plan_teardown p)"

subsection \<open>The premise\<close>

record precondition_field = comparator +
  pf_path :: string
  pf_where :: "row_selector option"

definition make_precondition_field :: "precondition_field \<Rightarrow> precondition_field result" where
  "make_precondition_field f =
     (if pf_path f = [] then Inl (ValueError ''min_length'')
      else if \<not> exactly_one_comparator f then Inl (ValueError ''needs exactly one comparator'')
      else case where_path_errors (pf_path f) (pf_where f) of Some e \<Rightarrow> Inl (ValueError e) | None \<Rightarrow> Inr f)"

definition read_only_registered_tool :: "string \<Rightarrow> unit result" where
  "read_only_registered_tool tool =
     (if \<not> registered tool then Inl (ValueError ''not a registered tool'')
      else if tier_of tool \<noteq> Inr READ then Inl (ValueError ''may only read'')
      else Inr ())"

record precondition_probe =
  probe_tool_name :: string
  probe_arguments :: dict
  probe_expect :: "precondition_field list"
  declared_attempts :: nat
  probe_delay :: rat

definition make_precondition_probe :: "precondition_probe \<Rightarrow> precondition_probe result" where
  "make_precondition_probe p =
     (if probe_tool_name p = [] \<or> probe_expect p = [] \<or> \<not> (1 \<le> declared_attempts p \<and> declared_attempts p \<le> 30)
         \<or> \<not> (0 \<le> probe_delay p \<and> probe_delay p \<le> 60)
      then Inl (ValueError ''PreconditionProbe field bounds'')
      else case read_only_registered_tool (probe_tool_name p) of Inl e \<Rightarrow> Inl e | Inr _ \<Rightarrow> Inr p)"

definition unmet_field :: "precondition_probe \<Rightarrow> dict \<Rightarrow> precondition_field \<Rightarrow> summary list" where
  "unmet_field p payload f =
     (let observed = selected_values payload (pf_path f) (pf_where f);
          clause = (case pf_where f of None \<Rightarrow> Word [] | Some sel \<Rightarrow> Say '' for a row whose {!r} {}'' [Word (row_field sel), describe_comparator sel])
      in if observed = []
         then [Say ''{}: nothing at {!r}{} (expected {})'' [Word (probe_tool_name p), Word (pf_path f), clause, describe_comparator f]]
         else if list_ex (satisfied_by f) observed then []
         else [Say ''{}: {}{} expected {}, observed {!r}'' [Word (probe_tool_name p), Word (pf_path f), clause,
                  describe_comparator f, Reading (VList observed)]])"

definition unmet :: "precondition_probe \<Rightarrow> dict \<Rightarrow> summary list" where
  "unmet p payload = concat (map (unmet_field p payload) (probe_expect p))"

text \<open>\<open>_first_json_object\<close>: unreadable blocks are passed over.\<close>

fun first_json_object :: "(string \<Rightarrow> val option) \<Rightarrow> dict list \<Rightarrow> dict option" where
  "first_json_object loads_text [] = None"
| "first_json_object loads_text (b # bs) =
     (case (get b ''type'', get b ''text'') of
        (Some (VStr kind), Some (VStr s)) \<Rightarrow>
          (if kind = ''text'' then (case loads_text s of Some (VDict d) \<Rightarrow> Some d | _ \<Rightarrow> first_json_object loads_text bs)
           else first_json_object loads_text bs)
      | _ \<Rightarrow> first_json_object loads_text bs)"

subsection \<open>The answer key\<close>

record answer_key =
  incident_count :: nat
  key_causes :: "hypothesis_category list"
  affected_components :: "string list"
  causal_chain :: "string list"

definition make_ground_truth :: "answer_key \<Rightarrow> answer_key result" where
  "make_ground_truth g =
     (let no_fault = (NO_FAULT \<in> set (key_causes g)) in
      if key_causes g = [] then Inl (ValueError ''min_length'')
      else if \<not> distinct (key_causes g) then Inl (ValueError ''root_causes repeats a label'')
      else if list_ex (\<lambda>e. strip e = []) (affected_components g @ causal_chain g) then Inl (ValueError ''a blank entry'')
      else if no_fault \<and> 1 < length (key_causes g) then Inl (ValueError ''no_fault is the whole answer'')
      else if no_fault \<and> incident_count g \<noteq> 0 then Inl (ValueError ''no_fault with incidents'')
      else if \<not> no_fault \<and> incident_count g = 0 then Inl (ValueError ''no incidents with a root cause'')
      else Inr g)"

record volatile_field =
  vf_tool :: string
  vf_path :: string
  vf_why :: string

definition make_volatile_field :: "volatile_field \<Rightarrow> volatile_field result" where
  "make_volatile_field v =
     (if vf_tool v = [] \<or> vf_path v = [] \<or> length (vf_why v) < 20 then Inl (ValueError ''min_length'')
      else case read_only_registered_tool (vf_tool v) of
          Inl e \<Rightarrow> Inl e
        | Inr _ \<Rightarrow> if sublist ''[]'' (vf_path v) then Inl (ValueError ''list markers'') else Inr v)"

subsection \<open>The scenario\<close>

text \<open>The reads a verdict owes: declared, or the default of the family.\<close>

definition family_required_before_verdict :: "string \<Rightarrow> required_reading list option" where
  "family_required_before_verdict family =
     (let sweep = (\<lambda>when. map (\<lambda>t. \<lparr>req_tool = t, req_when = when, req_arguments = []\<rparr>)) in
      if family = ''api_latency''
      then Some (sweep WHEN_NO_FAULT [''get_slo_status'', ''get_postgres_health'', ''get_redis_health'', ''get_circuit_breakers''])
      else if family = ''workflow_stuck''
      then Some (sweep WHEN_STUCK_CHAIN [''list_dlq_messages'']
                 @ [\<lparr>req_tool = ''get_consumer_lag'', req_when = WHEN_STUCK_CHAIN,
                     req_arguments = [(''consumer_group'', ''dependency-resolver'')]\<rparr>]
                 @ sweep WHEN_STUCK_CHAIN [''get_control_loops''])
      else None)"

definition required_reads_default :: "string option \<Rightarrow> required_reading list option \<Rightarrow> required_reading list" where
  "required_reads_default family declared = (case declared of
      Some rs \<Rightarrow> rs
    | None \<Rightarrow> (case Option.bind family family_required_before_verdict of Some rs \<Rightarrow> rs | None \<Rightarrow> []))"

record scenario =
  sc_name :: string
  sc_template_id :: string
  sc_family :: "string option"
  sc_difficulty :: "string option"
  sc_split :: string
  sc_alert :: dict
  sc_expectation :: scenario_expectation
  sc_use_live_mcp :: bool
  sc_use_live_llm :: bool
  sc_canned_verify_polls :: nat
  sc_required_before_verdict :: "required_reading list"
  sc_chaos_setup :: "chaos_hook option"
  sc_chaos_plan :: "chaos_plan option"
  sc_expected_precondition :: "precondition_probe list"
  sc_smoke_exclusion :: "string option"
  sc_ground_truth :: "answer_key option"
  sc_volatile :: "volatile_field list"

definition chaos :: "scenario \<Rightarrow> chaos_plan" where
  "chaos s = (case sc_chaos_plan s of
      Some p \<Rightarrow> p
    | None \<Rightarrow> (case sc_chaos_setup s of
        Some h \<Rightarrow> \<lparr>plan_setup = [h], plan_teardown = [], settle_seconds = 0\<rparr>
      | None \<Rightarrow> \<lparr>plan_setup = [], plan_teardown = [], settle_seconds = 0\<rparr>))"

definition scenario_seeds_chaos :: "scenario \<Rightarrow> bool" where
  "scenario_seeds_chaos s = (plan_setup (chaos s) \<noteq> [])"

definition is_temporal :: "scenario \<Rightarrow> bool" where "is_temporal s = self_recovering (chaos s)"

definition precondition_window_seconds :: "scenario \<Rightarrow> rat" where
  "precondition_window_seconds s =
     sum_list (map (\<lambda>p. polling_window_seconds (int (declared_attempts p)) (probe_delay p)) (sc_expected_precondition s))"

definition recorded_refusal :: "scenario \<Rightarrow> string option" where
  "recorded_refusal s = (if is_temporal s then Some ''a temporal template cannot be replayed'' else None)"

definition smoke_eligible :: "scenario \<Rightarrow> bool" where
  "smoke_eligible s = (\<not> scenario_seeds_chaos s \<and> expected_action_tools (sc_expectation s) = [])"

definition in_smoke_pass :: "scenario \<Rightarrow> bool" where
  "in_smoke_pass s = (smoke_eligible s \<and> sc_smoke_exclusion s = None)"

definition canned_only :: "scenario \<Rightarrow> bool" where
  "canned_only s = (\<not> (sc_use_live_mcp s \<or> sc_use_live_llm s))"

definition volatile_paths :: "scenario \<Rightarrow> string \<Rightarrow> string list" where
  "volatile_paths s tool = remdups (map vf_path (filter (\<lambda>v. vf_tool v = tool) (sc_volatile s)))"

text \<open>\<open>Scenario(...)\<close>: the field bounds, then the validators in the order they are declared.\<close>

definition make_scenario :: "scenario \<Rightarrow> scenario result" where
  "make_scenario s0 =
     (let s = (if sc_template_id s0 = [] then s0\<lparr>sc_template_id := sc_name s0\<rparr> else s0) in
      if sc_name s = [] \<or> \<not> (1 \<le> sc_canned_verify_polls s \<and> sc_canned_verify_polls s \<le> 10)
         \<or> (case sc_smoke_exclusion s of Some e \<Rightarrow> length e < 20 | None \<Rightarrow> False)
      then Inl (ValueError ''Scenario field bounds'')
      else if \<not> distinct (map (\<lambda>v. (vf_tool v, vf_path v)) (sc_volatile s)) then Inl (ValueError ''declared volatile twice'')
      else if is_temporal s \<and> sc_expected_precondition s = [] then Inl (ValueError ''a timed fault needs a precondition'')
      else if sc_template_id s = [] then Inl (ValueError ''empty template_id'')
      else if sc_chaos_setup s \<noteq> None \<and> sc_chaos_plan s \<noteq> None then Inl (ValueError ''both chaos_setup and chaos_plan'')
      else if (case sc_chaos_plan s of Some p \<Rightarrow> plan_setup p = [] | None \<Rightarrow> False) then Inl (ValueError ''a chaos_plan with no setup hooks'')
      else if sc_smoke_exclusion s \<noteq> None \<and> \<not> smoke_eligible s then Inl (ValueError ''redundant smoke_exclusion'')
      else Inr s)"

record agent_visible_scenario =
  visible_alert :: dict
  visible_max_tool_calls :: "int option"
  visible_required :: "required_reading list"

definition agent_visible :: "scenario \<Rightarrow> agent_visible_scenario" where
  "agent_visible s = \<lparr>visible_alert = sc_alert s, visible_max_tool_calls = ex_max_tool_calls (sc_expectation s),
     visible_required = sc_required_before_verdict s\<rparr>"

subsection \<open>Firing a hook\<close>

text \<open>\<open>ChaosClient.call\<close>: every failure is a \<open>ChaosInvocationError\<close>, here its text.\<close>

definition refusal_code :: "dict \<Rightarrow> string option" where
  "refusal_code body = (case get body ''data'' of
      Some (VDict d) \<Rightarrow> (case get d ''error_code'' of Some (VStr (c # cs)) \<Rightarrow> Some (c # cs) | _ \<Rightarrow> None)
    | _ \<Rightarrow> None)"

definition py_truthy :: "val option \<Rightarrow> bool" where
  "py_truthy v = (case v of
      None \<Rightarrow> False | Some VNull \<Rightarrow> False | Some (VBool b) \<Rightarrow> b | Some (VInt i) \<Rightarrow> i \<noteq> 0 | Some (VFloat q) \<Rightarrow> q \<noteq> 0
    | Some (VStr s) \<Rightarrow> s \<noteq> [] | Some (VList xs) \<Rightarrow> xs \<noteq> [] | Some (VDict d) \<Rightarrow> d \<noteq> [] | Some _ \<Rightarrow> True)"

fun first_result_object :: "(string \<Rightarrow> val option) \<Rightarrow> val list \<Rightarrow> summary + dict" where
  "first_result_object loads_text [] = Inr []"
| "first_result_object loads_text (VDict b # bs) =
     (case (get b ''type'', get b ''text'') of
        (Some (VStr kind), Some (VStr s)) \<Rightarrow>
          (if kind \<noteq> ''text'' then first_result_object loads_text bs
           else case loads_text s of
               None \<Rightarrow> Inl (Word ''result content was not JSON'')
             | Some (VDict d) \<Rightarrow> Inr d
             | Some _ \<Rightarrow> first_result_object loads_text bs)
      | _ \<Rightarrow> first_result_object loads_text bs)"
| "first_result_object loads_text (_ # bs) = first_result_object loads_text bs"

definition read_hook_reply :: "(string \<Rightarrow> val option) \<Rightarrow> http_reply \<Rightarrow> summary + dict" where
  "read_hook_reply loads_text r =
     (if \<not> (200 \<le> http_status r \<and> http_status r < 300) then Inl (Say ''platform returned HTTP {}: {}'' [Count (http_status r), Word (take 200 (http_text r))])
      else case http_json r of
          None \<Rightarrow> Inl (Word ''response was not JSON'')
        | Some (VDict payload) \<Rightarrow>
            (case get payload ''error'' of
               Some (VDict body) \<Rightarrow> Inl (Say ''platform returned MCP error {}''
                 [case refusal_code body of Some c \<Rightarrow> Say ''{} ({})'' [Word c, Reading (VDict body)] | None \<Rightarrow> Reading (VDict body)])
             | Some other \<Rightarrow> Inl (Say ''platform returned MCP error {}'' [Reading other])
             | None \<Rightarrow> (case (case get payload ''result'' of Some v \<Rightarrow> v | None \<Rightarrow> VDict []) of
                 VDict res \<Rightarrow>
                   (if py_truthy (get res ''isError'') \<or> py_truthy (get res ''is_error'')
                    then Inl (Word ''hook failed at the tool level (isError)'')
                    else first_result_object loads_text (case get res ''content'' of Some (VList bs) \<Rightarrow> bs | _ \<Rightarrow> []))
               | _ \<Rightarrow> Inr []))
        | Some other \<Rightarrow> Inl (Say ''non-object JSON response: {}'' [Reading other]))"

definition invoke_chaos_hook ::
    "(string \<Rightarrow> val option) \<Rightarrow> ('w \<Rightarrow> string \<Rightarrow> dict \<Rightarrow> 'w \<times> post_outcome) \<Rightarrow> 'w \<Rightarrow> string \<Rightarrow> dict \<Rightarrow> 'w \<times> (summary + dict)" where
  "invoke_chaos_hook loads_text fire w hook args = (case fire w hook args of
      (w', No_answer saying) \<Rightarrow> (w', Inl (Say ''{}: transport failure: {}'' [Word hook, saying]))
    | (w', Http r) \<Rightarrow> (w', map_sum (\<lambda>e. Say ''{}: {}'' [Word hook, e]) id (read_hook_reply loads_text r)))"

end
