(* ===== verification/World_Lifecycle.thy ===== *)
theory World_Lifecycle
  imports Scenario_World Guards
begin

text \<open>
  A live scenario's world, around the agent's run (\<^verbatim>\<open>evals/runner.py\<close>): the hooks that seed the fault and
  the ones that compensate it, the latch a failed teardown leaves for the next invocation, the
  premise checked before the agent starts and the alert the platform raises. \<open>lab_world\<close> is what
  these functions change: the world outside, \<open>chaos_records\<close> of \<open>run_scenario\<close>, the latch file and the
  run's trace. \<open>lab_ports\<close> is what they call out to.
\<close>

subsection \<open>State and ports\<close>

record hook_record =
  hr_phase :: string
  hr_name :: string
  hr_arguments :: dict
  hr_ok :: bool
  hr_result :: dict
  hr_error :: "summary option"
  hr_fired_at :: "datetime option"
  hr_ttl_seconds :: "int option"
  hr_expires_at :: "datetime option"

datatype lab_line =
    Hook_line string hook_record
  | Premise_line string string dict bool bool bool "summary list"
  | Scenario_end string

text \<open>The latch file: absent, there but not JSON, or JSON.\<close>

datatype latch_file = No_latch | Unreadable_latch | Latch val

record 'w lab_world =
  outside :: 'w
  chaos_records :: "hook_record list"
  latch :: latch_file
  lab_trace :: "lab_line list"

record 'w lab_ports =
  fire_hook :: "string \<Rightarrow> 'w \<Rightarrow> string \<Rightarrow> dict \<Rightarrow> 'w \<times> post_outcome" \<comment> \<open>\<open>httpx.post\<close> under a token\<close>
  client_for :: "mcp_config \<Rightarrow> 'w lab_port"
  sleep_for :: "'w \<Rightarrow> rat \<Rightarrow> 'w"
  utc_now :: "'w \<Rightarrow> 'w \<times> datetime"
  steady_clock :: "'w \<Rightarrow> 'w \<times> rat"

record lab_lib =
  loads_text :: "string \<Rightarrow> val option"
  str_json :: "val \<Rightarrow> string"
  says_text :: "summary \<Rightarrow> string"
  iso_text :: "datetime \<Rightarrow> string"
  snapshot_of :: snapshot

text \<open>What \<open>run_scenario\<close> is called with, and the environment it reads.\<close>

record run_mode =
  mode_settings :: settings
  platform_token :: string
  mode_mcp_token :: "string option"
  invocation_id_of :: string
  mode_recorded :: bool
  mode_rehearsal :: bool
  world_already_faulted :: bool
  alert_from_platform :: bool
  strategy_is_search :: bool
  offline_platform :: bool
  offline_model :: bool
  tracing :: bool

datatype run_exn =
    Setup_failed summary
  | Not_met "summary list"
  | Unverifiable "summary list" "summary list"
  | Chaos_token_missing
  | Client_error client_error
  | Exn exn

definition trace_line :: "run_mode \<Rightarrow> lab_line \<Rightarrow> 'w lab_world \<Rightarrow> 'w lab_world" where
  "trace_line M l lw = (if tracing M then lw\<lparr>lab_trace := lab_trace lw @ [l]\<rparr> else lw)"

subsection \<open>The timeline\<close>

definition chaos_setup_phase :: string where "chaos_setup_phase = ''setup''"

definition windows_of :: "run_mode \<Rightarrow> scenario \<Rightarrow> run_windows" where
  "windows_of M s =
     \<lparr>precondition_window = precondition_window_seconds s,
      investigation_window = investigation_reprobe_window_seconds (mode_settings M),
      verify_window = verify_polling_window_seconds (mode_settings M)\<rparr>"

definition seeded_chaos :: "hook_record list \<Rightarrow> bool" where
  "seeded_chaos rs = list_ex (\<lambda>r. hr_phase r = chaos_setup_phase \<and> hr_ok r) rs"

definition self_recovery_at :: "hook_record list \<Rightarrow> datetime option" where
  "self_recovery_at rs =
     (let expiries = List.map_filter hr_expires_at (filter (\<lambda>r. hr_phase r = chaos_setup_phase \<and> hr_ok r) rs)
      in if expiries = [] then None else Some (Min (set expiries)))"

text \<open>\<open>_timeline_of\<close>, with the clock read after the call returned.\<close>

definition timeline_of ::
    "'w lab_ports \<Rightarrow> chaos_hook \<Rightarrow> dict \<Rightarrow> string \<Rightarrow> 'w \<Rightarrow> hook_record \<Rightarrow> 'w \<times> hook_record" where
  "timeline_of P h args phase w r =
     (if ttl_derivation h = None \<or> phase \<noteq> chaos_setup_phase then (w, r)
      else case get args ttl_argument of
          Some (VInt ttl) \<Rightarrow>
            (let (w', now) = utc_now P w in
             (w', r\<lparr>hr_fired_at := Some now, hr_ttl_seconds := Some ttl, hr_expires_at := Some (now + ttl * 1000000)\<rparr>))
        | _ \<Rightarrow> (w, r))"

definition collapsed_windows :: "ttl_from_windows \<Rightarrow> run_windows \<Rightarrow> string list" where
  "collapsed_windows t W =
     (if 0 < investigation_multiple t \<and> investigation_window W \<le> 0 then [''investigation''] else [])
     @ (if 0 < verify_multiple t \<and> verify_window W \<le> 0 then [''verify''] else [])"

fun hook_timing_refusal :: "run_windows \<Rightarrow> rat \<Rightarrow> chaos_hook list \<Rightarrow> summary option" where
  "hook_timing_refusal W spent [] = None"
| "hook_timing_refusal W spent (h # hs) = (case ttl_derivation h of
      None \<Rightarrow> hook_timing_refusal W spent hs
    | Some t \<Rightarrow>
        (if collapsed_windows t W \<noteq> []
         then Some (Say ''hook {!r} positions its expiry inside a collapsed window'' [Word (hook_name h), words (collapsed_windows t W)])
         else if spent < of_int (ttl_seconds_of t W) then hook_timing_refusal W spent hs
         else Some (Say ''hook {!r} resolves to ttl_seconds={} and the run spends {}s before the agent's first probe''
                      [Word (hook_name h), Count (ttl_seconds_of t W), Frac spent])))"

definition pre_agent_seconds :: "scenario \<Rightarrow> rat" where
  "pre_agent_seconds s = settle_seconds (chaos s) + precondition_window_seconds s"

definition temporal_timing_refusal :: "run_mode \<Rightarrow> scenario \<Rightarrow> summary option" where
  "temporal_timing_refusal M s =
     (if \<not> is_temporal s then None
      else hook_timing_refusal (windows_of M s) (pre_agent_seconds s) (plan_setup (chaos s)))"

subsection \<open>Seeding and putting back\<close>

text \<open>
  \<open>_invoke_plan_hook\<close>: the arguments are resolved before the credential is read, and a refused hook is
  recorded rather than raised.
\<close>

definition invoke_plan_hook ::
    "'w lab_ports \<Rightarrow> lab_lib \<Rightarrow> run_mode \<Rightarrow> scenario \<Rightarrow> string \<Rightarrow> 'w lab_world \<Rightarrow> chaos_hook
     \<Rightarrow> 'w lab_world \<times> (run_exn + hook_record)" where
  "invoke_plan_hook P L M s phase lw h =
     (case seeded_arguments (str_json L) (snapshot_of L) (windows_of M s) h of
        Inl e \<Rightarrow> (lw, Inl (Exn e))
      | Inr args \<Rightarrow> (case require_chaos_token (mode_settings M) of
            Inl _ \<Rightarrow> (lw, Inl Chaos_token_missing)
          | Inr token \<Rightarrow>
              (let r0 = \<lparr>hr_phase = phase, hr_name = hook_name h, hr_arguments = args, hr_ok = True, hr_result = [],
                         hr_error = None, hr_fired_at = None, hr_ttl_seconds = None, hr_expires_at = None\<rparr>;
                   (w1, answer) = invoke_chaos_hook (loads_text L) (fire_hook P token) (outside lw) (hook_name h) args;
                   (w2, r) = (case answer of
                      Inl saying \<Rightarrow> (w1, r0\<lparr>hr_ok := False, hr_error := Some saying\<rparr>)
                    | Inr res \<Rightarrow> timeline_of P h args phase w1 (r0\<lparr>hr_result := res\<rparr>))
               in (trace_line M (Hook_line (sc_name s) r) (lw\<lparr>outside := w2\<rparr>), Inr r))))"

fun seed_hooks ::
    "'w lab_ports \<Rightarrow> lab_lib \<Rightarrow> run_mode \<Rightarrow> scenario \<Rightarrow> hook_record list \<Rightarrow> chaos_hook list \<Rightarrow> 'w lab_world
     \<Rightarrow> 'w lab_world \<times> (run_exn + hook_record list)" where
  "seed_hooks P L M s done [] lw = (lw, Inr done)"
| "seed_hooks P L M s done (h # hs) lw =
     (case invoke_plan_hook P L M s chaos_setup_phase lw h of
        (lw', Inl e) \<Rightarrow> (lw', Inl e)
      | (lw', Inr r) \<Rightarrow>
          (if hr_ok r then seed_hooks P L M s (done @ [r]) hs lw'
           else (lw', Inl (Setup_failed (Say ''scenario {!r} chaos_setup {!r} failed: {}''
                   [Word (sc_name s), Word (hook_name h), case hr_error r of Some e \<Rightarrow> e | None \<Rightarrow> Word ''None''])))))"

definition seed_chaos_plan ::
    "'w lab_ports \<Rightarrow> lab_lib \<Rightarrow> run_mode \<Rightarrow> scenario \<Rightarrow> 'w lab_world \<Rightarrow> 'w lab_world \<times> (run_exn + hook_record list)" where
  "seed_chaos_plan P L M s = seed_hooks P L M s [] (plan_setup (chaos s))"

text \<open>Only the missing credential is turned into a failure; any other exception of a hook leaves here.\<close>

fun teardown_hooks ::
    "'w lab_ports \<Rightarrow> lab_lib \<Rightarrow> run_mode \<Rightarrow> scenario \<Rightarrow> hook_record list \<Rightarrow> summary list \<Rightarrow> chaos_hook list \<Rightarrow> 'w lab_world
     \<Rightarrow> 'w lab_world \<times> (run_exn + hook_record list \<times> summary list)" where
  "teardown_hooks P L M s done bad [] lw = (lw, Inr (done, bad))"
| "teardown_hooks P L M s done bad (h # hs) lw =
     (case invoke_plan_hook P L M s ''teardown'' lw h of
        (lw', Inl Chaos_token_missing) \<Rightarrow>
          teardown_hooks P L M s done (bad @ [Say ''{}: {}'' [Word (hook_name h), Word ''ChaosTokenNotConfigured'']]) hs lw'
      | (lw', Inl e) \<Rightarrow> (lw', Inl e)
      | (lw', Inr r) \<Rightarrow>
          teardown_hooks P L M s (done @ [r])
            (if hr_ok r then bad
             else bad @ [Say ''{}: {}'' [Word (hook_name h), case hr_error r of Some e \<Rightarrow> e | None \<Rightarrow> Word ''None'']]) hs lw')"

definition teardown_chaos_plan ::
    "'w lab_ports \<Rightarrow> lab_lib \<Rightarrow> run_mode \<Rightarrow> scenario \<Rightarrow> 'w lab_world
     \<Rightarrow> 'w lab_world \<times> (run_exn + hook_record list \<times> summary option)" where
  "teardown_chaos_plan P L M s lw = (case teardown_hooks P L M s [] [] (plan_teardown (chaos s)) lw of
      (lw', Inl e) \<Rightarrow> (lw', Inl e)
    | (lw', Inr (records, bad)) \<Rightarrow>
        (lw', Inr (records, if bad = [] then None
                            else Some (Say ''scenario {!r} chaos teardown failed for {} of {} hook(s): {}''
                              [Word (sc_name s), Count (int (length bad)), Count (int (length (plan_teardown (chaos s)))), Say '''' bad]))))"

subsection \<open>The latch\<close>

definition write_chaos_block :: "lab_lib \<Rightarrow> string \<Rightarrow> summary \<Rightarrow> string \<Rightarrow> datetime \<Rightarrow> 'w lab_world \<Rightarrow> 'w lab_world" where
  "write_chaos_block L scenario_named saying invocation now lw =
     lw\<lparr>latch := Latch (VDict [(''scenario'', VStr scenario_named), (''invocation_id'', VStr invocation),
                               (''recorded_at'', VStr (iso_text L now)), (''reason'', VStr (says_text L saying))])\<rparr>"

definition chaos_block_reason :: "'w lab_world \<Rightarrow> summary option" where
  "chaos_block_reason lw = (case latch lw of
      No_latch \<Rightarrow> None
    | Unreadable_latch \<Rightarrow> Some (Word ''the latch exists but could not be read'')
    | Latch (VDict d) \<Rightarrow> (case get d ''reason'' of
          Some (VStr saying) \<Rightarrow> Some (case get d ''scenario'' of
              Some (VStr who) \<Rightarrow> Say ''{} at {}: {}'' [Word who, case get d ''recorded_at'' of Some v \<Rightarrow> Reading v | None \<Rightarrow> Word ''None'', Word saying]
            | _ \<Rightarrow> Word saying)
        | _ \<Rightarrow> Some (Word ''the latch exists''))
    | Latch _ \<Rightarrow> Some (Word ''the latch exists''))"

definition clear_chaos_block :: "'w lab_world \<Rightarrow> 'w lab_world \<times> summary option" where
  "clear_chaos_block lw = (case chaos_block_reason lw of None \<Rightarrow> (lw, None) | Some saying \<Rightarrow> (lw\<lparr>latch := No_latch\<rparr>, Some saying))"

text \<open>The closure \<open>_tear_down\<close> of \<open>run_scenario\<close>.\<close>

definition tear_down ::
    "'w lab_ports \<Rightarrow> lab_lib \<Rightarrow> run_mode \<Rightarrow> bool \<Rightarrow> scenario \<Rightarrow> 'w lab_world \<Rightarrow> 'w lab_world \<times> (run_exn + summary option)" where
  "tear_down P L M live s lw =
     (if \<not> live \<or> world_already_faulted M then (lw, Inr None)
      else case teardown_chaos_plan P L M s lw of
          (lw', Inl e) \<Rightarrow> (lw', Inl e)
        | (lw', Inr (records, err)) \<Rightarrow>
            (let lw'' = lw'\<lparr>chaos_records := chaos_records lw' @ records\<rparr> in
             case err of
               None \<Rightarrow> (lw'', Inr None)
             | Some saying \<Rightarrow>
                 (let (w, now) = utc_now P (outside lw'') in
                  (write_chaos_block L (sc_name s) saying (invocation_id_of M) now (lw''\<lparr>outside := w\<rparr>), Inr (Some saying)))))"

subsection \<open>The premise\<close>

text \<open>\<open>probe_label\<close>; the last character stands for the ellipsis.\<close>

definition probe_label :: "lab_lib \<Rightarrow> precondition_probe \<Rightarrow> string" where
  "probe_label L p =
     (let text_shown = says_text L (Say ''precondition: {} proves {}''
            [Word (probe_tool_name p), Say ''; '' (map (\<lambda>f. Say ''{} {}'' [Word (pf_path f), describe_comparator f]) (probe_expect p))])
      in if length text_shown \<le> lab_probe_reason_max_chars then text_shown
         else take (lab_probe_reason_max_chars - 1) text_shown @ ''~'')"

definition probe_credential :: "settings \<Rightarrow> string option" where
  "probe_credential cfg = (case platform_chaos_token cfg of
      Some t \<Rightarrow> if strip t = [] then None else Some t | None \<Rightarrow> None)"

text \<open>\<open>_precondition_reader\<close>: the agent's client, its reads labelled as the lab's where there is a credential.\<close>

definition precondition_reader ::
    "lab_lib \<Rightarrow> settings \<Rightarrow> 'w lab_port \<Rightarrow> precondition_probe \<Rightarrow> ('w \<Rightarrow> string \<Rightarrow> dict \<Rightarrow> 'w \<times> (client_error + tool_result)) result" where
  "precondition_reader L cfg port p = (case probe_credential cfg of
      None \<Rightarrow> Inr (\<lambda>w tool args. port w tool args None None)
    | Some token \<Rightarrow> (case make_lab_client (probe_label L p) token of
          Inl e \<Rightarrow> Inl e
        | Inr lab \<Rightarrow> Inr (\<lambda>w tool args. port w tool args (Some (lab_reason lab)) (Some (lab_token lab)))))"

text \<open>One attempt: an exception that is not an \<open>MCPError\<close>, an answer with no readable object, or a reading.\<close>

datatype probe_answer = Probe_raised exn | No_reading summary | Probe_reading "summary list"

definition read_probe :: "lab_lib \<Rightarrow> precondition_probe \<Rightarrow> client_error + tool_result \<Rightarrow> probe_answer" where
  "read_probe L p answer = (case answer of
      Inl (client_error.Raised e) \<Rightarrow> Probe_raised e
    | Inl (Mcp_failed code said d) \<Rightarrow> No_reading (Say ''{}: probe failed: {}'' [Word (probe_tool_name p), said])
    | Inl (Lab_probe_refused code said d) \<Rightarrow> No_reading (Say ''{}: probe failed: {}'' [Word (probe_tool_name p), said])
    | Inr res \<Rightarrow>
        (if result_is_error res then No_reading (Say ''{}: probe returned is_error=True'' [Word (probe_tool_name p)])
         else case first_json_object (loads_text L) (result_content res) of
             None \<Rightarrow> No_reading (Say ''{}: probe returned no readable JSON object'' [Word (probe_tool_name p)])
           | Some payload \<Rightarrow> Probe_reading (unmet p payload)))"

record probe_poll =
  poll_reading :: "summary list option"
  poll_unreadable :: "summary list"
  poll_stale :: "summary list"

text \<open>Step 2 of \<open>_assert_preconditions\<close>: \<open>left\<close> attempts to go, a wait before every attempt but the first.\<close>

fun poll_probe ::
    "'w lab_ports \<Rightarrow> lab_lib \<Rightarrow> precondition_probe \<Rightarrow> ('w \<Rightarrow> string \<Rightarrow> dict \<Rightarrow> 'w \<times> (client_error + tool_result))
     \<Rightarrow> nat \<Rightarrow> bool \<Rightarrow> 'w \<Rightarrow> probe_poll \<Rightarrow> 'w \<times> (exn + probe_poll)" where
  "poll_probe P L p read 0 started w v = (w, Inr v)"
| "poll_probe P L p read (Suc left) started w v =
     (let w1 = (if started then sleep_for P w (probe_delay p) else w) in
      case read w1 (probe_tool_name p) (probe_arguments p) of (w2, answer) \<Rightarrow>
        (case read_probe L p answer of
           Probe_raised e \<Rightarrow> (w2, Inl e)
         | No_reading saying \<Rightarrow>
             poll_probe P L p read left True w2 (v\<lparr>poll_reading := None, poll_unreadable := [saying]\<rparr>)
         | Probe_reading bad \<Rightarrow>
             (if bad = [] then (w2, Inr (v\<lparr>poll_reading := Some [], poll_unreadable := []\<rparr>))
              else poll_probe P L p read left True w2
                     (v\<lparr>poll_reading := Some bad, poll_unreadable := [], poll_stale := bad\<rparr>))))"

definition fresh_poll :: probe_poll where
  "fresh_poll = \<lparr>poll_reading = None, poll_unreadable = [], poll_stale = []\<rparr>"

definition assert_precondition ::
    "'w lab_ports \<Rightarrow> lab_lib \<Rightarrow> run_mode \<Rightarrow> scenario \<Rightarrow> 'w lab_port \<Rightarrow> precondition_probe \<Rightarrow> 'w lab_world
     \<Rightarrow> 'w lab_world \<times> (run_exn + unit)" where
  "assert_precondition P L M s port p lw =
     (case precondition_reader L (mode_settings M) port p of
        Inl e \<Rightarrow> (lw, Inl (Exn e))
      | Inr read \<Rightarrow> (case poll_probe P L p read (declared_attempts p) False (outside lw) fresh_poll of
          (w, Inl e) \<Rightarrow> (lw\<lparr>outside := w\<rparr>, Inl (Exn e))
        | (w, Inr v) \<Rightarrow>
            (let answered = poll_reading v \<noteq> None;
                 bad = (case poll_reading v of Some r \<Rightarrow> r | None \<Rightarrow> poll_unreadable v);
                 lw' = trace_line M (Premise_line (sc_name s) (probe_tool_name p) (probe_arguments p) (bad = []) answered
                                  (answered \<or> poll_stale v \<noteq> []) bad) (lw\<lparr>outside := w\<rparr>)
             in (lw', if bad = [] then Inr ()
                      else if \<not> answered then Inl (Unverifiable bad (poll_stale v))
                      else Inl (Not_met bad)))))"

fun assert_preconditions ::
    "'w lab_ports \<Rightarrow> lab_lib \<Rightarrow> run_mode \<Rightarrow> scenario \<Rightarrow> 'w lab_port \<Rightarrow> precondition_probe list \<Rightarrow> 'w lab_world
     \<Rightarrow> 'w lab_world \<times> (run_exn + unit)" where
  "assert_preconditions P L M s port [] lw = (lw, Inr ())"
| "assert_preconditions P L M s port (p # ps) lw =
     (case assert_precondition P L M s port p lw of
        (lw', Inl e) \<Rightarrow> (lw', Inl e)
      | (lw', Inr _) \<Rightarrow> assert_preconditions P L M s port ps lw')"

subsection \<open>The platform's own alert\<close>

record platform_alert =
  pa_id :: string
  pa_fired_at :: string
  pa_payload :: dict

definition fingerprint_in :: "dict \<Rightarrow> string option" where
  "fingerprint_in d = (case get d ''fingerprint'' of
      Some (VStr raw) \<Rightarrow> if strip raw = [] then None else Some (strip raw) | _ \<Rightarrow> None)"

definition alert_fingerprint :: "dict \<Rightarrow> string option" where
  "alert_fingerprint al = (case fingerprint_in al of
      Some f \<Rightarrow> Some f
    | None \<Rightarrow> (case get al ''extra_data'' of Some (VDict d) \<Rightarrow> fingerprint_in d | _ \<Rightarrow> None))"

text \<open>The resource two subjects name, not the field that spelled it.\<close>

definition same_subject :: "alert_subject \<Rightarrow> alert_subject \<Rightarrow> bool" where
  "same_subject a b =
     (subject_tool a = subject_tool b \<and> argument_field a = argument_field b
      \<and> subject_value a = subject_value b \<and> subject_matching a = subject_matching b)"

definition matches_scenario_alert :: "dict \<Rightarrow> dict \<Rightarrow> bool" where
  "matches_scenario_alert candidate declared =
     (alert_fingerprint candidate = alert_fingerprint declared
      \<and> (case alert_subject declared of
           None \<Rightarrow> True
         | Some wanted \<Rightarrow> (case alert_subject candidate of None \<Rightarrow> False | Some found \<Rightarrow> same_subject found wanted)))"

definition platform_alert_probe_reason :: string where
  "platform_alert_probe_reason = ''demo: has the platform raised this scenario's alert yet''"

text \<open>\<open>_platform_alerts\<close>: a failed read is no alert yet.\<close>

definition platform_alerts ::
    "lab_lib \<Rightarrow> ('w \<Rightarrow> string \<Rightarrow> dict \<Rightarrow> 'w \<times> (client_error + tool_result)) \<Rightarrow> 'w \<Rightarrow> 'w \<times> (exn + dict list)" where
  "platform_alerts L read w = (case read w ''list_active_alerts'' [(''limit'', VInt 50)] of
      (w', Inl (client_error.Raised e)) \<Rightarrow> (w', Inl e)
    | (w', Inl _) \<Rightarrow> (w', Inr [])
    | (w', Inr res) \<Rightarrow>
        (let payload = (case first_json_object (loads_text L) (result_content res) of Some d \<Rightarrow> d | None \<Rightarrow> []) in
         (w', Inr (case get payload ''alerts'' of
              Some (VList active) \<Rightarrow> List.map_filter (\<lambda>v. case v of VDict d \<Rightarrow> Some d | _ \<Rightarrow> None) active
            | _ \<Rightarrow> []))))"

definition text_of_field :: "lab_lib \<Rightarrow> dict \<Rightarrow> string \<Rightarrow> string" where
  "text_of_field L d k = (case get d k of Some v \<Rightarrow> str_json L v | None \<Rightarrow> [])"

definition take_alert :: "lab_lib \<Rightarrow> dict \<Rightarrow> dict list \<Rightarrow> (run_exn + platform_alert) option" where
  "take_alert L declared active = (case find (\<lambda>c. matches_scenario_alert c declared) active of
      None \<Rightarrow> None
    | Some c \<Rightarrow> Some (case get c ''extra_data'' of
          Some (VDict (e # es)) \<Rightarrow>
            Inr \<lparr>pa_id = text_of_field L c ''id'', pa_fired_at = text_of_field L c ''fired_at'', pa_payload = e # es\<rparr>
        | _ \<Rightarrow> Inl (Setup_failed (Word ''the platform's alert carries no payload''))))"

definition platform_alert_timeout :: rat where "platform_alert_timeout = 120"
definition platform_alert_poll :: rat where "platform_alert_poll = 3"

text \<open>
  The \<open>while True\<close> of \<open>_await_platform_alert\<close>, which the deadline ends: \<open>None\<close> says that the fuel did not
  reach it.
\<close>

fun await_rows ::
    "nat \<Rightarrow> 'w lab_ports \<Rightarrow> lab_lib \<Rightarrow> dict \<Rightarrow> ('w \<Rightarrow> string \<Rightarrow> dict \<Rightarrow> 'w \<times> (client_error + tool_result)) \<Rightarrow> rat \<Rightarrow> 'w
     \<Rightarrow> ('w \<times> (run_exn + platform_alert)) option" where
  "await_rows 0 P L declared read deadline w = None"
| "await_rows (Suc fuel) P L declared read deadline w =
     (case platform_alerts L read w of
        (w1, Inl e) \<Rightarrow> Some (w1, Inl (Exn e))
      | (w1, Inr active) \<Rightarrow> (case take_alert L declared active of
            Some out \<Rightarrow> Some (w1, out)
          | None \<Rightarrow> (case steady_clock P w1 of (w2, now) \<Rightarrow>
              (if deadline \<le> now
               then Some (w2, Inl (Setup_failed (Say ''the platform did not raise the alert within {}s ({} active)''
                      [Frac platform_alert_timeout, Count (int (length active))])))
               else await_rows fuel P L declared read deadline (sleep_for P w2 platform_alert_poll)))))"

definition await_platform_alert ::
    "nat \<Rightarrow> 'w lab_ports \<Rightarrow> lab_lib \<Rightarrow> run_mode \<Rightarrow> scenario \<Rightarrow> 'w \<Rightarrow> ('w \<times> (run_exn + platform_alert)) option" where
  "await_platform_alert fuel P L M s w = (case alert_fingerprint (sc_alert s) of
      None \<Rightarrow> Some (w, Inl (Setup_failed (Word ''the scenario declares no alert fingerprint'')))
    | Some _ \<Rightarrow> (case require_smoke_token (mode_settings M) of
        Inl _ \<Rightarrow> Some (w, Inl (Setup_failed (Word ''the smoke token is not configured'')))
      | Inr credential \<Rightarrow> (case make_client (platform_token M) (Some credential) of
          Inl e \<Rightarrow> Some (w, Inl (Exn e))
        | Inr C \<Rightarrow> (case make_lab_client platform_alert_probe_reason credential of
            Inl e \<Rightarrow> Some (w, Inl (Exn e))
          | Inr lab \<Rightarrow>
              (let read = (\<lambda>w tool args. client_for P C w tool args (Some (lab_reason lab)) (Some (lab_token lab)));
                   (w1, t0) = steady_clock P w
               in await_rows fuel P L (sc_alert s) read (t0 + platform_alert_timeout) w1)))))"

end
