(* ===== verification/Scenario_Run.thy ===== *)
theory Scenario_Run
  imports World_Lifecycle Run_Loop Run_Report Root_Cause Checkpoint
begin

text \<open>
  \<open>run_scenario\<close> and \<open>run_all\<close> of \<^verbatim>\<open>evals/runner.py\<close>: the refusals that come before anything is touched, the
  region in which a live world is seeded, checked and paged, the run, its grade, the teardown at each
  exit and the row each scenario contributes. What steps 7 to 10 build out of the model clients and the
  strategy is the record \<open>agent_side\<close>: the transitions (modelled in the theories of the agent), the briefing
  writer and the judge. A \<open>KeyboardInterrupt\<close> is not in the model.
\<close>

subsection \<open>The mode\<close>

definition execution_mode :: "bool \<Rightarrow> bool \<Rightarrow> bool \<Rightarrow> string" where
  "execution_mode rec reh live_leg =
     (if rec then ''recorded'' else if reh then ''rehearsal'' else if live_leg then ''live'' else ''canned'')"

definition search_mode_refusal :: "run_mode \<Rightarrow> bool \<Rightarrow> exn option" where
  "search_mode_refusal M rec =
     (if strategy_is_search M \<and> \<not> rec then Some (ValueError ''search runs in recorded mode only'') else None)"

definition live_mcp_available :: "run_mode \<Rightarrow> scenario \<Rightarrow> bool" where
  "live_mcp_available M s = (\<not> mode_recorded M \<and> sc_use_live_mcp s \<and> \<not> offline_platform M)"

definition live_llm_available :: "run_mode \<Rightarrow> scenario \<Rightarrow> bool" where
  "live_llm_available M s = (\<not> mode_rehearsal M \<and> sc_use_live_llm s \<and> \<not> offline_model M)"

definition mode_of :: "run_mode \<Rightarrow> scenario \<Rightarrow> string" where
  "mode_of M s = execution_mode (mode_recorded M) (mode_rehearsal M) (live_mcp_available M s \<or> live_llm_available M s)"

text \<open>Steps 2 and 3: the combinations with no honest reading.\<close>

definition mode_refusal :: "run_mode \<Rightarrow> scenario \<Rightarrow> run_exn option" where
  "mode_refusal M s =
     (if mode_recorded M \<and> mode_rehearsal M then Some (Exn (ValueError ''both recorded and rehearsal''))
      else case search_mode_refusal M (mode_recorded M) of
          Some e \<Rightarrow> Some (Exn e)
        | None \<Rightarrow>
            (if alert_from_platform M \<and> mode_recorded M then Some (Exn (ValueError ''no alert stream in a recording''))
             else case (if mode_recorded M then recorded_refusal s else None) of
                 Some saying \<Rightarrow> Some (Setup_failed (Word saying))
               | None \<Rightarrow>
                   (if alert_from_platform M \<and> \<not> live_mcp_available M s
                    then Some (Exn (ValueError ''no platform to be paged by'')) else None)))"

subsection \<open>What the run is wired to\<close>

record 'w agent_side =
  load_recording :: "exn + bool \<times> bool" \<comment> \<open>\<open>RecordedMCPClient.from_path\<close>: its world's label\<close>
  wire_agent :: "exn + 'w run_ports" \<comment> \<open>steps 7 to 10\<close>
  enrich :: "'w \<Rightarrow> escalation_briefing \<Rightarrow> 'w \<times> escalation_briefing result"
  judge :: "'w \<Rightarrow> escalation_briefing \<Rightarrow> 'w \<times> unit result"
  checkpoints_of :: "'w \<Rightarrow> string \<Rightarrow> run_state list"
  texts :: text_lib
  parse_moment :: "string \<Rightarrow> datetime option"
  decimal_text :: "rat \<Rightarrow> string"
  invalid_prefixes :: "string list"

definition default_max_steps :: nat where "default_max_steps = 100"

text \<open>The handoff replaces both acting transitions of a recorded run.\<close>

definition with_handoff :: "bool \<Rightarrow> 'w run_ports \<Rightarrow> 'w run_ports" where
  "with_handoff rec ports =
     (if rec
      then ports\<lparr>registry := (registry ports)(REMEDIATING \<mapsto> (\<lambda>w rs now. (w, Inr (recorded_handoff rs now))),
                                              AWAITING_APPROVAL \<mapsto> (\<lambda>w rs now. (w, Inr (recorded_handoff rs now))))\<rparr>
      else ports)"

definition handoff_fired :: "run_state \<Rightarrow> bool" where
  "handoff_fired rs = list_ex (\<lambda>e. tool_name e = ''_recorded_handoff'') (evidence rs)"

subsection \<open>The live region\<close>

text \<open>
  Step 6 on a live platform: the world is seeded or declared seeded, the client built, the premise
  checked and the alert awaited, in that order. \<open>None\<close>: the fuel of the wait did not reach its deadline.
\<close>

definition seed_world :: "'w lab_ports \<Rightarrow> lab_lib \<Rightarrow> run_mode \<Rightarrow> scenario \<Rightarrow> 'w lab_world \<Rightarrow> 'w lab_world \<times> (run_exn + unit)" where
  "seed_world P L M s lw =
     (case temporal_timing_refusal M s of
        Some saying \<Rightarrow> (lw, Inl (Setup_failed saying))
      | None \<Rightarrow>
          (if world_already_faulted M \<and> self_recovering (chaos s)
           then (lw, Inl (Setup_failed (Word ''a derived TTL has to be fired by the run that grades it'')))
           else if world_already_faulted M then (lw, Inr ())
           else case seed_chaos_plan P L M s lw of
               (lw', Inl e) \<Rightarrow> (lw', Inl e)
             | (lw', Inr records) \<Rightarrow>
                 (lw'\<lparr>chaos_records := records,
                      outside := (if settle_seconds (chaos s) = 0 then outside lw'
                                  else sleep_for P (outside lw') (settle_seconds (chaos s)))\<rparr>, Inr ())))"

definition check_premise :: "'w lab_ports \<Rightarrow> lab_lib \<Rightarrow> run_mode \<Rightarrow> scenario \<Rightarrow> 'w lab_world \<Rightarrow> 'w lab_world \<times> (run_exn + unit)" where
  "check_premise P L M s lw =
     (case make_client (platform_token M) (mode_mcp_token M) of
        Inl e \<Rightarrow> (lw, Inl (Exn e))
      | Inr C \<Rightarrow> assert_preconditions P L M s (client_for P C) (sc_expected_precondition s) lw)"

definition await_page ::
    "nat \<Rightarrow> 'w lab_ports \<Rightarrow> lab_lib \<Rightarrow> run_mode \<Rightarrow> scenario \<Rightarrow> 'w lab_world
     \<Rightarrow> ('w lab_world \<times> (run_exn + platform_alert option)) option" where
  "await_page fuel P L M s lw =
     (if alert_from_platform M
      then map_option (\<lambda>(w, r). (lw\<lparr>outside := w\<rparr>, map_sum id Some r)) (await_platform_alert fuel P L M s (outside lw))
      else Some (lw, Inr None))"

definition open_live_world ::
    "nat \<Rightarrow> 'w lab_ports \<Rightarrow> lab_lib \<Rightarrow> run_mode \<Rightarrow> scenario \<Rightarrow> 'w lab_world
     \<Rightarrow> ('w lab_world \<times> (run_exn + platform_alert option)) option" where
  "open_live_world fuel P L M s lw =
     (case seed_world P L M s lw of
        (lw1, Inl e) \<Rightarrow> Some (lw1, Inl e)
      | (lw1, Inr _) \<Rightarrow> (case check_premise P L M s lw1 of
          (lw2, Inl e) \<Rightarrow> Some (lw2, Inl e)
        | (lw2, Inr _) \<Rightarrow> await_page fuel P L M s lw2))"

subsection \<open>The run and its grade\<close>

definition grading_facts_of ::
    "'w agent_side \<Rightarrow> run_mode \<Rightarrow> scenario \<Rightarrow> (bool \<times> bool) option \<Rightarrow> hook_record list \<Rightarrow> run_state \<Rightarrow> escalation_briefing \<Rightarrow> grading_facts" where
  "grading_facts_of A M s replay records final b =
     \<lparr>gf_briefing = Some b, gf_truth = map_option key_causes (sc_ground_truth s),
      gf_same_world = (case replay of
          Some (live_mcp, seeded) \<Rightarrow> label_describes_this_world live_mcp seeded
        | None \<Rightarrow> label_describes_this_world (live_mcp_available M s) (seeded_chaos records \<or> world_already_faulted M)),
      gf_self_recovery = self_recovery_at records,
      gf_excused = (if mode_recorded M then recorded_not_applicable (handoff_fired final) else [])\<rparr>"

text \<open>
  Steps 11 to 15. \<open>enrich\<close> keeps the deterministic briefing when the model call fails, and a failed judge
  call is recorded beside a decided grade; neither is an exception here.
\<close>

definition run_and_grade ::
    "'w agent_side \<Rightarrow> run_mode \<Rightarrow> scenario \<Rightarrow> (bool \<times> bool) option \<Rightarrow> hook_record list \<Rightarrow> dict \<Rightarrow> datetime \<Rightarrow> string
     \<Rightarrow> 'w run_ports \<Rightarrow> 'w \<Rightarrow> 'w \<times> (run_state \<times> grade_report) result" where
  "run_and_grade A M s replay records brief now incident ports w =
     (case run_to_completion (with_handoff (mode_recorded M) ports) default_max_steps w
             (start_run brief (mode_settings M) now incident (visible_max_tool_calls (agent_visible s))) of
        (w1, Inl e) \<Rightarrow> (w1, Inl e)
      | (w1, Inr final) \<Rightarrow>
          (case enrich A w1 (render_briefing (py_str (texts A)) (decimal_text A) final) of
             (w2, Inl e) \<Rightarrow> (w2, Inl e)
           | (w2, Inr b) \<Rightarrow>
               (case grade (texts A) (parse_moment A) final (sc_expectation s) (grading_facts_of A M s replay records final b) of
                  Inl e \<Rightarrow> (w2, Inl e)
                | Inr report \<Rightarrow> (case judge A w2 b of
                    (w3, Inl e) \<Rightarrow> (w3, Inl e)
                  | (w3, Inr _) \<Rightarrow> (w3, Inr (final, report))))))"

subsection \<open>The row\<close>

record run_row = scenario_outcome +
  row_state :: incident_state
  row_tool_calls :: int
  row_class :: failure_class
  row_precondition_class :: bool
  row_chaos :: "hook_record list"
  row_teardown_error :: "summary option"
  row_live_mcp :: bool
  row_live_llm :: bool
  row_degraded :: bool
  row_seeded_externally :: bool
  row_alert_id :: "string option"

definition provenance_of :: "run_mode \<Rightarrow> model_role \<Rightarrow> string \<Rightarrow> string \<Rightarrow> run_provenance" where
  "provenance_of M role_of strategy_named executed =
     \<lparr>pv_agent_model = agent_model (mode_settings M), pv_model_role = role_of, pv_strategy = strategy_named,
      pv_execution_mode = executed, pv_rehearsal = (executed = ''rehearsal'')\<rparr>"

definition graded_row ::
    "'w agent_side \<Rightarrow> run_mode \<Rightarrow> model_role \<Rightarrow> string \<Rightarrow> scenario \<Rightarrow> hook_record list \<Rightarrow> summary option \<Rightarrow> platform_alert option
     \<Rightarrow> bool \<Rightarrow> run_state \<Rightarrow> grade_report \<Rightarrow> run_row" where
  "graded_row A M role_of strategy_named s records torn page replay_degraded final report =
     \<lparr>so_scenario = sc_name s, template_id = Some (sc_template_id s), family = sc_family s, difficulty = sc_difficulty s,
      benchmark_split = Some (sc_split s), so_report = report,
      so_provenance = Some (provenance_of M role_of strategy_named (mode_of M s)),
      row_state = state final, row_tool_calls = tool_calls_used (budget final),
      row_class = classify_failure (texts A) (invalid_prefixes A) report (evidence final), row_precondition_class = False,
      row_chaos = records, row_teardown_error = torn,
      row_live_mcp = live_mcp_available M s, row_live_llm = live_llm_available M s,
      row_degraded = (mode_rehearsal M \<or> sc_use_live_mcp s \<and> \<not> live_mcp_available M s \<and> \<not> mode_recorded M
                      \<or> sc_use_live_llm s \<and> \<not> live_llm_available M s \<or> mode_recorded M \<and> replay_degraded),
      row_seeded_externally = world_already_faulted M, row_alert_id = map_option pa_id page\<rparr>"

subsection \<open>One scenario\<close>

text \<open>
  The constructors name the exit. \<open>Refused\<close>: steps 2 and 3, or the recording did not load. \<open>Not_started\<close>: the
  live region raised. \<open>Unwired\<close>: building the clients, the strategy and the transitions raised, which no
  handler is around. \<open>Scenario_crash\<close>: a \<open>ScenarioCrash\<close>. An exception of the teardown itself replaces the one
  in flight: \<open>Teardown_raised\<close>.
\<close>

datatype crash = Crash_of exn "run_state list" "summary option" "platform_alert option"

datatype run_exit =
    Refused run_exn
  | Not_started run_exn
  | Unwired exn
  | Scenario_crash crash
  | Teardown_raised run_exn
  | Graded run_row

definition run_wired ::
    "'w lab_ports \<Rightarrow> lab_lib \<Rightarrow> 'w agent_side \<Rightarrow> run_mode \<Rightarrow> model_role \<Rightarrow> string \<Rightarrow> bool \<Rightarrow> scenario \<Rightarrow> (bool \<times> bool) option
     \<Rightarrow> platform_alert option \<Rightarrow> datetime \<Rightarrow> string \<Rightarrow> 'w lab_world \<Rightarrow> 'w lab_world \<times> run_exit" where
  "run_wired P L A M role_of strategy_named replay_degraded s replay page now incident lw =
     (let live = live_mcp_available M s in
      case wire_agent A of
        Inl e \<Rightarrow> (lw, Unwired e)
      | Inr ports \<Rightarrow>
          (case run_and_grade A M s replay (chaos_records lw)
                  (case page of None \<Rightarrow> visible_alert (agent_visible s) | Some a \<Rightarrow> pa_payload a) now incident ports (outside lw) of
             (w, Inl e) \<Rightarrow>
               (case tear_down P L M live s (trace_line M (Scenario_end (sc_name s)) (lw\<lparr>outside := w\<rparr>)) of
                  (lw', Inl e') \<Rightarrow> (lw', Teardown_raised e')
                | (lw', Inr torn) \<Rightarrow> (lw', Scenario_crash (Crash_of e (checkpoints_of A w incident) torn page)))
           | (w, Inr (final, report)) \<Rightarrow>
               (case tear_down P L M live s (lw\<lparr>outside := w\<rparr>) of
                  (lw', Inl e') \<Rightarrow> (lw', Teardown_raised e')
                | (lw', Inr torn) \<Rightarrow>
                    (trace_line M (Scenario_end (sc_name s)) lw',
                     Graded (graded_row A M role_of strategy_named s (chaos_records lw') torn page replay_degraded final report)))))"

definition run_scenario ::
    "nat \<Rightarrow> 'w lab_ports \<Rightarrow> lab_lib \<Rightarrow> 'w agent_side \<Rightarrow> run_mode \<Rightarrow> model_role \<Rightarrow> string \<Rightarrow> bool \<Rightarrow> scenario \<Rightarrow> datetime \<Rightarrow> string
     \<Rightarrow> 'w lab_world \<Rightarrow> ('w lab_world \<times> run_exit) option" where
  "run_scenario fuel P L A M role_of strategy_named replay_degraded s now incident lw0 =
     (let lw = lw0\<lparr>chaos_records := []\<rparr>;
          go = run_wired P L A M role_of strategy_named replay_degraded s
      in case mode_refusal M s of
          Some e \<Rightarrow> Some (lw, Refused e)
        | None \<Rightarrow>
            (if mode_recorded M
             then (case load_recording A of
                 Inl e \<Rightarrow> Some (lw, Refused (Exn e))
               | Inr lbl \<Rightarrow> Some (go (Some lbl) None now incident lw))
             else if live_mcp_available M s
             then (case open_live_world fuel P L M s lw of
                 None \<Rightarrow> None
               | Some (lw1, Inl e) \<Rightarrow>
                   Some (case tear_down P L M True s lw1 of
                       (lw2, Inl e') \<Rightarrow> (lw2, Teardown_raised e')
                     | (lw2, Inr _) \<Rightarrow> (lw2, Not_started e))
               | Some (lw1, Inr page) \<Rightarrow> Some (go None page now incident lw1))
             else Some (go None None now incident lw)))"

subsection \<open>A crash row, and the suite\<close>

definition exit_exn :: "run_exit \<Rightarrow> run_exn option" where
  "exit_exn x = (case x of
      Refused e \<Rightarrow> Some e | Not_started e \<Rightarrow> Some e | Unwired e \<Rightarrow> Some (Exn e) | Teardown_raised e \<Rightarrow> Some e
    | Scenario_crash (Crash_of e _ _ _) \<Rightarrow> Some (Exn e) | Graded _ \<Rightarrow> None)"

text \<open>\<open>_crashed_result\<close>: the bucket reads the cause, and the state is that of the last checkpoint.\<close>

definition crashed_row :: "run_mode \<Rightarrow> model_role \<Rightarrow> string \<Rightarrow> scenario \<Rightarrow> run_exit \<Rightarrow> run_row" where
  "crashed_row M role_of strategy_named s x =
     (let (checkpoints, torn, page) = (case x of Scenario_crash (Crash_of _ cps t a) \<Rightarrow> (cps, t, a) | _ \<Rightarrow> ([], None, None));
          partial = (if checkpoints = [] then None else Some (List.last checkpoints))
      in \<lparr>so_scenario = sc_name s, template_id = Some (sc_template_id s), family = sc_family s, difficulty = sc_difficulty s,
          benchmark_split = Some (sc_split s),
          so_report = \<lparr>graded_scenario = sc_name s, all_passed = False,
                       dimensions = [\<lparr>dimension = OUTCOME, passed = False, detail = Word ''scenario crashed'', applicable = True\<rparr>]\<rparr>,
          so_provenance = Some (provenance_of M role_of strategy_named
                            (execution_mode (mode_recorded M) (mode_rehearsal M) (sc_use_live_mcp s \<or> sc_use_live_llm s))),
          row_state = (case partial of None \<Rightarrow> TRIAGE | Some rs \<Rightarrow> state rs),
          row_tool_calls = (case partial of None \<Rightarrow> 0 | Some rs \<Rightarrow> tool_calls_used (budget rs)),
          row_class = (case exit_exn x of Some (Setup_failed _) \<Rightarrow> Shared_env | _ \<Rightarrow> Transport),
          row_precondition_class = (case exit_exn x of Some (Not_met _) \<Rightarrow> True | _ \<Rightarrow> False),
          row_chaos = [], row_teardown_error = torn,
          row_live_mcp = (sc_use_live_mcp s \<and> \<not> mode_recorded M), row_live_llm = (sc_use_live_llm s \<and> \<not> mode_rehearsal M),
          row_degraded = mode_rehearsal M, row_seeded_externally = world_already_faulted M, row_alert_id = map_option pa_id page\<rparr>)"

text \<open>
  The loop of \<open>run_all\<close>, over the exit of each scenario: \<open>run_one\<close> is \<open>run_scenario\<close> under the
  invocation's arguments, and \<open>recorded_for\<close> the worlds it replays.
\<close>

fun run_suite ::
    "('w \<Rightarrow> scenario \<Rightarrow> 'w \<times> run_exit) \<Rightarrow> (scenario \<Rightarrow> run_exit \<Rightarrow> run_row) \<Rightarrow> scenario list \<Rightarrow> 'w
     \<Rightarrow> 'w \<times> run_row list \<times> string list" where
  "run_suite run_one crash_row [] w = (w, [], [])"
| "run_suite run_one crash_row (s # ss) w =
     (case run_one w s of (w1, x) \<Rightarrow>
        (case run_suite run_one crash_row ss w1 of (w2, done, ungraded) \<Rightarrow>
           (case x of
              Graded r \<Rightarrow> (w2, r # done, ungraded)
            | _ \<Rightarrow> (case exit_exn x of
                Some (Setup_failed _) \<Rightarrow> (w2, done, sc_name s # ungraded)
              | _ \<Rightarrow> (w2, crash_row s x # done, ungraded)))))"

end
