(* ===== verification/World_Facts.thy ===== *)
theory World_Facts
  imports Scenario_Run
begin

text \<open>
  Facts about the lifecycle of a scenario's world: what firing a hook leaves alone, what a finished
  teardown has done, what a seeded timed fault outlasts, which answer decides a premise and where the
  platform's alert comes from.
\<close>

subsection \<open>Firing a hook\<close>

lemma trace_line_simps [simp]:
  "chaos_records (trace_line M l lw) = chaos_records lw" "latch (trace_line M l lw) = latch lw" "outside (trace_line M l lw) = outside lw"
  by (simp_all add: trace_line_def)

lemma invoke_plan_hook_keeps:
  "invoke_plan_hook P L M s phase lw h = (lw', r) \<Longrightarrow> chaos_records lw' = chaos_records lw \<and> latch lw' = latch lw"
  by (auto simp: invoke_plan_hook_def Let_def split: sum.splits prod.splits)

lemma timeline_of_keeps:
  assumes "timeline_of P h args phase w r = (w', r')"
  shows "hr_name r' = hr_name r" "hr_phase r' = hr_phase r" "hr_ok r' = hr_ok r" "hr_arguments r' = hr_arguments r"
    "hr_result r' = hr_result r" "hr_error r' = hr_error r"
  using assms by (auto simp: timeline_of_def Let_def split: if_splits option.splits val.splits prod.splits)

lemma invoke_plan_hook_InrD:
  assumes "invoke_plan_hook P L M s phase lw h = (lw', Inr r)"
  shows "hr_name r = hook_name h" "hr_phase r = phase"
    "seeded_arguments (str_json L) (snapshot_of L) (windows_of M s) h = Inr (hr_arguments r)"
  using assms by (auto simp: invoke_plan_hook_def Let_def split: sum.splits prod.splits dest: timeline_of_keeps)

text \<open>A hook whose TTL is written down is fired, or its credential is missing: no other exception leaves it.\<close>

lemma invoke_plan_hook_no_derivation:
  assumes "invoke_plan_hook P L M s phase lw h = (lw', Inl e)" and "ttl_derivation h = None"
  shows "e = Chaos_token_missing"
  using assms by (auto simp: invoke_plan_hook_def Let_def seeded_arguments_def split: sum.splits prod.splits)

lemma invoke_plan_hook_timeline:
  assumes "invoke_plan_hook P L M s chaos_setup_phase lw h = (lw', Inr r)" and "hr_ok r" and "ttl_derivation h = Some t"
  shows "\<exists>now. hr_fired_at r = Some now \<and> hr_ttl_seconds r = Some (ttl_seconds_of t (windows_of M s))
           \<and> hr_expires_at r = Some (now + ttl_seconds_of t (windows_of M s) * 1000000)"
  using assms
  by (auto simp: invoke_plan_hook_def Let_def seeded_arguments_def timeline_of_def update_conv'
           split: sum.splits prod.splits if_splits option.splits)

subsection \<open>Putting back\<close>

definition compensated :: "chaos_hook list \<Rightarrow> hook_record list \<Rightarrow> bool" where
  "compensated hs rs = (map hr_name rs = map hook_name hs \<and> list_all (\<lambda>r. hr_phase r = ''teardown'' \<and> hr_ok r) rs)"

definition put_back :: "scenario \<Rightarrow> 'w lab_world \<Rightarrow> bool" where
  "put_back s lw = (\<exists>before rs. chaos_records lw = before @ rs \<and> compensated (plan_teardown (chaos s)) rs)"

lemma teardown_hooks_keeps:
  "teardown_hooks P L M s acc bad hs lw = (lw', r) \<Longrightarrow> chaos_records lw' = chaos_records lw \<and> latch lw' = latch lw"
proof (induction hs arbitrary: acc bad lw)
  case (Cons h hs)
  then show ?case by (fastforce split: prod.splits sum.splits run_exn.splits dest: invoke_plan_hook_keeps)
qed simp

lemma teardown_hooks_done:
  assumes "list_all (\<lambda>h. ttl_derivation h = None) hs" and "teardown_hooks P L M s acc bad hs lw = (lw', r)"
  shows "\<exists>rs bad'. r = Inr (acc @ rs, bad @ bad') \<and> (bad' = [] \<longrightarrow> compensated hs rs)"
  using assms
proof (induction hs arbitrary: acc bad lw)
  case Nil
  then show ?case by (auto simp: compensated_def)
next
  case (Cons h hs)
  from Cons.prems(1) have d: "ttl_derivation h = None" and ds: "list_all (\<lambda>h. ttl_derivation h = None) hs" by auto
  obtain lw1 r1 where i: "invoke_plan_hook P L M s ''teardown'' lw h = (lw1, r1)" by (metis surj_pair)
  show ?case
  proof (cases r1)
    case (Inl e)
    with invoke_plan_hook_no_derivation[OF _ d] i have "e = Chaos_token_missing" by blast
    with Cons.prems(2) i Inl
    have "teardown_hooks P L M s acc (bad @ [Say ''{}: {}'' [Word (hook_name h), Word ''ChaosTokenNotConfigured'']]) hs lw1 = (lw', r)"
      by simp
    from Cons.IH[OF ds this] show ?thesis by auto
  next
    case (Inr x)
    note x = invoke_plan_hook_InrD[OF i[unfolded Inr]]
    define b where "b = (if hr_ok x then [] else [Say ''{}: {}'' [Word (hook_name h), case hr_error x of Some e \<Rightarrow> e | None \<Rightarrow> Word ''None'']])"
    from Cons.prems(2) i Inr have "teardown_hooks P L M s (acc @ [x]) (bad @ b) hs lw1 = (lw', r)"
      by (auto simp: b_def split: if_splits)
    from Cons.IH[OF ds this] obtain rs bad' where "r = Inr ((acc @ [x]) @ rs, (bad @ b) @ bad')" and c: "bad' = [] \<longrightarrow> compensated hs rs"
      by blast
    then have "r = Inr (acc @ x # rs, bad @ (b @ bad'))" by simp
    moreover have "b @ bad' = [] \<longrightarrow> compensated (h # hs) (x # rs)"
      using c x by (auto simp: b_def compensated_def split: if_splits)
    ultimately show ?thesis by blast
  qed
qed

text \<open>What a teardown that came back leaves: every compensator fired, or the latch.\<close>

lemma tear_down_settles:
  assumes "list_all (\<lambda>h. ttl_derivation h = None) (plan_teardown (chaos s))" and "\<not> world_already_faulted M"
    and "tear_down P L M True s lw = (lw', r)"
  shows "(\<exists>torn. r = Inr torn
            \<and> (torn = None \<longrightarrow> put_back s lw' \<and> latch lw' = latch lw)
            \<and> (torn \<noteq> None \<longrightarrow> chaos_block_reason lw' \<noteq> None))"
proof -
  obtain lw1 r1 where t: "teardown_hooks P L M s [] [] (plan_teardown (chaos s)) lw = (lw1, r1)" by (metis surj_pair)
  from teardown_hooks_done[OF assms(1) t] obtain rs bad where r1: "r1 = Inr (rs, bad)"
    and c: "bad = [] \<longrightarrow> compensated (plan_teardown (chaos s)) rs" by auto
  note k = teardown_hooks_keeps[OF t]
  show ?thesis
  proof (cases "bad = []")
    case True
    with assms(2,3) t r1 have "lw' = lw1\<lparr>chaos_records := chaos_records lw1 @ rs\<rparr>" "r = Inr None"
      by (auto simp: tear_down_def teardown_chaos_plan_def Let_def)
    with True c k show ?thesis by (auto simp: put_back_def)
  next
    case False
    obtain w now where u: "utc_now P (outside lw1) = (w, now)" by (metis surj_pair)
    from False assms(2,3) t r1 u show ?thesis
      by (auto simp: tear_down_def teardown_chaos_plan_def Let_def chaos_block_reason_def write_chaos_block_def)
  qed
qed

lemma tear_down_keeps_prefix:
  "tear_down P L M live s lw = (lw', r) \<Longrightarrow> \<exists>rs. chaos_records lw' = chaos_records lw @ rs"
  by (auto simp: tear_down_def teardown_chaos_plan_def Let_def write_chaos_block_def
           split: if_splits prod.splits sum.splits option.splits dest!: teardown_hooks_keeps)

subsection \<open>Seeding and the premise leave the latch alone\<close>

lemma seed_hooks_keeps:
  "seed_hooks P L M s acc hs lw = (lw', r) \<Longrightarrow> chaos_records lw' = chaos_records lw \<and> latch lw' = latch lw"
proof (induction hs arbitrary: acc lw)
  case (Cons h hs)
  then show ?case by (fastforce split: prod.splits sum.splits if_splits dest: invoke_plan_hook_keeps)
qed simp

lemma seed_world_keeps: "seed_world P L M s lw = (lw', r) \<Longrightarrow> latch lw' = latch lw"
  by (auto simp: seed_world_def seed_chaos_plan_def split: option.splits if_splits prod.splits sum.splits dest!: seed_hooks_keeps)

lemma assert_precondition_keeps:
  "assert_precondition P L M s port p lw = (lw', r) \<Longrightarrow> chaos_records lw' = chaos_records lw \<and> latch lw' = latch lw"
  by (auto simp: assert_precondition_def Let_def split: sum.splits prod.splits)

lemma assert_preconditions_keeps:
  "assert_preconditions P L M s port ps lw = (lw', r) \<Longrightarrow> chaos_records lw' = chaos_records lw \<and> latch lw' = latch lw"
  by (induction ps arbitrary: lw) (auto split: prod.splits sum.splits dest!: assert_precondition_keeps)

lemma check_premise_keeps:
  "check_premise P L M s lw = (lw', r) \<Longrightarrow> chaos_records lw' = chaos_records lw \<and> latch lw' = latch lw"
  by (auto simp: check_premise_def split: sum.splits dest: assert_preconditions_keeps)

lemma await_page_keeps:
  "await_page fuel P L M s lw = Some (lw', r) \<Longrightarrow> chaos_records lw' = chaos_records lw \<and> latch lw' = latch lw"
  by (auto simp: await_page_def split: if_splits)

lemma open_live_world_keeps: "open_live_world fuel P L M s lw = Some (lw', r) \<Longrightarrow> latch lw' = latch lw"
  by (auto simp: open_live_world_def split: prod.splits sum.splits
           dest!: seed_world_keeps check_premise_keeps await_page_keeps)

subsection \<open>Every exit of a live run\<close>

definition world_settled :: "scenario \<Rightarrow> 'w lab_world \<Rightarrow> 'w lab_world \<Rightarrow> bool" where
  "world_settled s lw lw' = (put_back s lw' \<and> latch lw' = latch lw \<or> chaos_block_reason lw' \<noteq> None)"

definition exit_settles :: "scenario \<Rightarrow> 'w lab_world \<Rightarrow> 'w lab_world \<Rightarrow> run_exit \<Rightarrow> bool" where
  "exit_settles s lw lw' x = (case x of
      Refused _ \<Rightarrow> outside lw' = outside lw \<and> latch lw' = latch lw
    | Unwired _ \<Rightarrow> latch lw' = latch lw
    | Teardown_raised _ \<Rightarrow> False
    | Graded r \<Rightarrow> world_settled s lw lw' \<and> (row_teardown_error r = None \<longrightarrow> put_back s lw')
    | Not_started _ \<Rightarrow> world_settled s lw lw'
    | Scenario_crash (Crash_of _ _ torn _) \<Rightarrow> world_settled s lw lw' \<and> (torn = None \<longrightarrow> put_back s lw'))"

lemma put_back_trace_line [simp]: "put_back s (trace_line M l lw) = put_back s lw"
  and block_trace_line [simp]: "chaos_block_reason (trace_line M l lw) = chaos_block_reason lw"
  by (simp_all add: put_back_def chaos_block_reason_def)

lemma run_wired_settles:
  assumes "list_all (\<lambda>h. ttl_derivation h = None) (plan_teardown (chaos s))" and "\<not> world_already_faulted M"
    and "live_mcp_available M s" and "latch lw = latch lw0"
    and "run_wired P L A M role_of nm deg s replay page now incident lw = (lw', x)"
  shows "exit_settles s lw0 lw' x"
proof (cases "wire_agent A")
  case (Inl e)
  with assms(4,5) show ?thesis by (auto simp: run_wired_def exit_settles_def Let_def)
next
  case (Inr ports)
  obtain w r where g: "run_and_grade A M s replay (chaos_records lw)
      (case page of None \<Rightarrow> visible_alert (agent_visible s) | Some a \<Rightarrow> pa_payload a) now incident ports (outside lw) = (w, r)"
    by (metis surj_pair)
  show ?thesis
  proof (cases r)
    case (Inl e)
    obtain lw1 r1 where t: "tear_down P L M True s (trace_line M (Scenario_end (sc_name s)) (lw\<lparr>outside := w\<rparr>)) = (lw1, r1)" by (metis surj_pair)
    from tear_down_settles[OF assms(1,2) t] Inl Inr g t assms(3,4,5) show ?thesis
      by (auto simp: run_wired_def exit_settles_def world_settled_def Let_def)
  next
    case (Inr fr)
    obtain final report where fr: "fr = (final, report)" by (metis surj_pair)
    obtain lw1 r1 where t: "tear_down P L M True s (lw\<lparr>outside := w\<rparr>) = (lw1, r1)" by (metis surj_pair)
    from tear_down_settles[OF assms(1,2) t] Inr fr \<open>wire_agent A = Inr ports\<close> g t assms(3,4,5) show ?thesis
      by (auto simp: run_wired_def exit_settles_def world_settled_def Let_def graded_row_def)
  qed
qed

lemma run_scenario_settles:
  assumes "live_mcp_available M s" and "\<not> world_already_faulted M"
    and "list_all (\<lambda>h. ttl_derivation h = None) (plan_teardown (chaos s))"
    and "run_scenario fuel P L A M role_of nm deg s now incident lw = Some (lw', x)"
  shows "exit_settles s lw lw' x"
proof -
  have live: "\<not> mode_recorded M" using assms(1) by (simp add: live_mcp_available_def)
  let ?lw = "lw\<lparr>chaos_records := []\<rparr>"
  show ?thesis
  proof (cases "mode_refusal M s")
    case (Some e)
    with assms(4) show ?thesis by (auto simp: run_scenario_def Let_def exit_settles_def)
  next
    case None
    with assms(1,4) live obtain lw1 r where o: "open_live_world fuel P L M s ?lw = Some (lw1, r)"
      by (auto simp: run_scenario_def Let_def split: option.splits)
    note k = open_live_world_keeps[OF o]
    show ?thesis
    proof (cases r)
      case (Inl e)
      obtain lw2 r2 where t: "tear_down P L M True s lw1 = (lw2, r2)" by (metis surj_pair)
      from tear_down_settles[OF assms(3,2) t] Inl None o t k assms(1,4) live show ?thesis
        by (auto simp: run_scenario_def Let_def exit_settles_def world_settled_def)
    next
      case (Inr page)
      with None o assms(1,4) live have "run_wired P L A M role_of nm deg s None page now incident lw1 = (lw', x)"
        by (auto simp: run_scenario_def Let_def)
      from run_wired_settles[OF assms(3,2,1) _ this] k show ?thesis by simp
    qed
  qed
qed

subsection \<open>A timed fault\<close>

lemma hook_timing_refusal_NoneD:
  assumes "hook_timing_refusal W spent hs = None" and "h \<in> set hs" and "ttl_derivation h = Some t"
  shows "spent < of_int (ttl_seconds_of t W)" "collapsed_windows t W = []"
  using assms by (induction hs) (auto split: option.splits if_splits)

lemma ttl_above_floor: "floor_seconds t \<le> of_int (ttl_seconds_of t W)"
proof -
  have "floor_seconds t \<le> max (precondition_window W + investigation_window W * investigation_multiple t
                               + verify_window W * verify_multiple t) (floor_seconds t)" by simp
  also have "\<dots> \<le> of_int (ttl_seconds_of t W)" unfolding ttl_seconds_of_def by (rule le_of_int_ceiling)
  finally show ?thesis .
qed

text \<open>What the seeding of one hook leaves on record.\<close>

definition seeded_as :: "lab_lib \<Rightarrow> run_windows \<Rightarrow> chaos_hook \<Rightarrow> hook_record \<Rightarrow> bool" where
  "seeded_as L W h r =
     (hr_name r = hook_name h \<and> hr_phase r = chaos_setup_phase \<and> hr_ok r
      \<and> seeded_arguments (str_json L) (snapshot_of L) W h = Inr (hr_arguments r)
      \<and> (case ttl_derivation h of
           None \<Rightarrow> True
         | Some t \<Rightarrow> (case hr_fired_at r of
             None \<Rightarrow> False
           | Some now \<Rightarrow> hr_ttl_seconds r = Some (ttl_seconds_of t W) \<and> hr_expires_at r = Some (now + ttl_seconds_of t W * 1000000))))"

lemma seed_hooks_seeded:
  assumes "seed_hooks P L M s acc hs lw = (lw', Inr rs)"
  shows "\<exists>new. rs = acc @ new \<and> list_all2 (seeded_as L (windows_of M s)) hs new"
  using assms
proof (induction hs arbitrary: acc lw)
  case (Cons h hs)
  obtain lw1 r1 where i: "invoke_plan_hook P L M s chaos_setup_phase lw h = (lw1, r1)" by (metis surj_pair)
  with Cons.prems obtain r where r1: "r1 = Inr r" and ok: "hr_ok r" and rest: "seed_hooks P L M s (acc @ [r]) hs lw1 = (lw', Inr rs)"
    by (auto split: sum.splits if_splits)
  note i = i[unfolded r1]
  have "seeded_as L (windows_of M s) h r"
    using invoke_plan_hook_InrD[OF i] invoke_plan_hook_timeline[OF i ok] ok
    by (auto simp: seeded_as_def split: option.splits)
  with Cons.IH[OF rest] show ?case by auto
qed simp

lemma seed_world_seeded:
  assumes "seed_world P L M s lw = (lw', Inr u)" and "\<not> world_already_faulted M"
  shows "list_all2 (seeded_as L (windows_of M s)) (plan_setup (chaos s)) (chaos_records lw')"
    "temporal_timing_refusal M s = None"
  using assms by (auto simp: seed_world_def seed_chaos_plan_def split: option.splits prod.splits sum.splits dest!: seed_hooks_seeded)

lemma seeded_arguments_derived:
  assumes "seeded_arguments str schemas W h = Inr args" and "ttl_derivation h = Some t"
  shows "get args ttl_argument = Some (VInt (ttl_seconds_of t W))" "ttl_bound_errors schemas (hook_name h) (ttl_seconds_of t W) = []"
    "chaos_argument_errors str schemas (hook_name h) args = []"
  using assms by (auto simp: seeded_arguments_def Let_def update_conv' split: if_splits)

lemma self_recovery_at_le:
  assumes "r \<in> set rs" and "hr_phase r = chaos_setup_phase" and "hr_ok r" and "hr_expires_at r = Some e"
  shows "\<exists>t. self_recovery_at rs = Some t \<and> t \<le> e"
proof -
  let ?xs = "List.map_filter hr_expires_at (filter (\<lambda>r. hr_phase r = chaos_setup_phase \<and> hr_ok r) rs)"
  from assms have "e \<in> set ?xs" by (force simp: map_filter_def)
  then have "?xs \<noteq> []" "Min (set ?xs) \<le> e" by auto
  then show ?thesis by (simp add: self_recovery_at_def Let_def)
qed

subsection \<open>The answer that decides a premise\<close>

text \<open>The reference: the answers a probe gives, up to the first reading it meets.\<close>

fun probe_answers ::
    "'w lab_ports \<Rightarrow> lab_lib \<Rightarrow> precondition_probe \<Rightarrow> ('w \<Rightarrow> string \<Rightarrow> dict \<Rightarrow> 'w \<times> (client_error + tool_result))
     \<Rightarrow> nat \<Rightarrow> bool \<Rightarrow> 'w \<Rightarrow> probe_answer list" where
  "probe_answers P L p read 0 started w = []"
| "probe_answers P L p read (Suc left) started w =
     (case read (if started then sleep_for P w (probe_delay p) else w) (probe_tool_name p) (probe_arguments p) of
        (w2, answer) \<Rightarrow>
          (let a = read_probe L p answer in
           a # (case a of
                  Probe_raised _ \<Rightarrow> []
                | Probe_reading [] \<Rightarrow> []
                | _ \<Rightarrow> probe_answers P L p read left True w2)))"

definition stale_of :: "summary list \<Rightarrow> probe_answer list \<Rightarrow> summary list" where
  "stale_of before answers = fold (\<lambda>a acc. case a of Probe_reading (b # bs) \<Rightarrow> b # bs | _ \<Rightarrow> acc) answers before"

definition decided_by :: "probe_poll \<Rightarrow> probe_answer list \<Rightarrow> exn + probe_poll" where
  "decided_by v answers =
     (if answers = [] then Inr v
      else case List.last answers of
          Probe_raised e \<Rightarrow> Inl e
        | No_reading saying \<Rightarrow> Inr (v\<lparr>poll_reading := None, poll_unreadable := [saying], poll_stale := stale_of (poll_stale v) answers\<rparr>)
        | Probe_reading bad \<Rightarrow> Inr (v\<lparr>poll_reading := Some bad, poll_unreadable := [], poll_stale := stale_of (poll_stale v) answers\<rparr>))"

lemma poll_probe_decided:
  "snd (poll_probe P L p read n started w v) = decided_by v (probe_answers P L p read n started w)"
proof (induction n arbitrary: started w v)
  case 0
  show ?case by (simp add: decided_by_def)
next
  case (Suc n)
  obtain w2 ans where r: "read (if started then sleep_for P w (probe_delay p) else w) (probe_tool_name p) (probe_arguments p) = (w2, ans)"
    by (metis surj_pair)
  show ?case
  proof (cases "read_probe L p ans")
    case (Probe_raised e)
    with r show ?thesis by (simp add: decided_by_def Let_def)
  next
    case (No_reading m)
    with r Suc.IH show ?thesis
      by (auto simp: Let_def decided_by_def stale_of_def split: probe_answer.splits)
  next
    case (Probe_reading bad)
    show ?thesis
    proof (cases bad)
      case Nil
      with Probe_reading r show ?thesis by (simp add: Let_def decided_by_def stale_of_def)
    next
      case (Cons b bs)
      with Probe_reading r Suc.IH show ?thesis
        by (auto simp: Let_def decided_by_def stale_of_def split: probe_answer.splits)
    qed
  qed
qed

lemma probe_answers_nonempty: "0 < n \<Longrightarrow> probe_answers P L p read n started w \<noteq> []"
  by (cases n) (auto simp: Let_def split: prod.splits)

lemma length_probe_answers: "length (probe_answers P L p read n started w) \<le> n"
  by (induction n arbitrary: started w) (auto simp: Let_def split: prod.splits probe_answer.splits list.splits)

definition seen_met :: "lab_lib \<Rightarrow> precondition_probe \<Rightarrow> ('w \<Rightarrow> string \<Rightarrow> dict \<Rightarrow> 'w \<times> (client_error + tool_result)) \<Rightarrow> bool" where
  "seen_met L p read =
     (\<exists>w w' res d. read w (probe_tool_name p) (probe_arguments p) = (w', Inr res) \<and> \<not> result_is_error res
        \<and> first_json_object (loads_text L) (result_content res) = Some d \<and> unmet p d = [])"

lemma probe_answers_met:
  "Probe_reading [] \<in> set (probe_answers P L p read n started w) \<Longrightarrow> seen_met L p read"
proof (induction n arbitrary: started w)
  case (Suc n)
  let ?w = "if started then sleep_for P w (probe_delay p) else w"
  obtain w2 ans where r: "read ?w (probe_tool_name p) (probe_arguments p) = (w2, ans)" by (metis surj_pair)
  show ?case
  proof (cases "read_probe L p ans = Probe_reading []")
    case True
    then obtain res d where "ans = Inr res" "\<not> result_is_error res" "first_json_object (loads_text L) (result_content res) = Some d" "unmet p d = []"
      by (auto simp: read_probe_def split: sum.splits client_error.splits if_splits option.splits)
    with r show ?thesis unfolding seen_met_def by blast
  next
    case False
    with Suc r show ?thesis by (auto simp: Let_def split: probe_answer.splits list.splits)
  qed
qed simp

lemma decided_met:
  assumes "answers \<noteq> []" and "decided_by fresh_poll answers = Inr v"
    and "(case poll_reading v of Some r \<Rightarrow> r | None \<Rightarrow> poll_unreadable v) = []"
  shows "Probe_reading [] \<in> set answers"
proof -
  from assms have "List.last answers = Probe_reading []" by (auto simp: decided_by_def split: probe_answer.splits)
  with assms(1) show ?thesis by (metis last_in_set)
qed

lemma assert_precondition_met:
  assumes "assert_precondition P L M s port p lw = (lw', Inr u)" and "1 \<le> declared_attempts p"
  shows "\<exists>read. precondition_reader L (mode_settings M) port p = Inr read \<and> seen_met L p read"
proof -
  from assms(1) obtain read w v where r: "precondition_reader L (mode_settings M) port p = Inr read"
    and q: "poll_probe P L p read (declared_attempts p) False (outside lw) fresh_poll = (w, Inr v)"
    and met: "(case poll_reading v of Some r \<Rightarrow> r | None \<Rightarrow> poll_unreadable v) = []"
    by (auto simp: assert_precondition_def Let_def split: sum.splits prod.splits if_splits)
  let ?as = "probe_answers P L p read (declared_attempts p) False (outside lw)"
  from poll_probe_decided[of P L p read "declared_attempts p" False "outside lw" fresh_poll] q
  have "decided_by fresh_poll ?as = Inr v" by simp
  moreover have "?as \<noteq> []" using assms(2) by (intro probe_answers_nonempty) simp
  ultimately have "Probe_reading [] \<in> set ?as" using met by (intro decided_met)
  then have "seen_met L p read" by (rule probe_answers_met)
  with r show ?thesis by (intro exI conjI)
qed

lemma assert_preconditions_met:
  assumes "assert_preconditions P L M s port ps lw = (lw', Inr u)" and "list_all (\<lambda>p. 1 \<le> declared_attempts p) ps" and "p \<in> set ps"
  shows "\<exists>read. precondition_reader L (mode_settings M) port p = Inr read \<and> seen_met L p read"
  using assms
  by (induction ps arbitrary: lw) (auto split: prod.splits sum.splits dest: assert_precondition_met)

lemma open_live_world_met:
  assumes "open_live_world fuel P L M s lw = Some (lw', Inr page)" and "list_all (\<lambda>p. 1 \<le> declared_attempts p) (sc_expected_precondition s)"
    and "p \<in> set (sc_expected_precondition s)"
  shows "\<exists>C read. make_client (platform_token M) (mode_mcp_token M) = Inr C
           \<and> precondition_reader L (mode_settings M) (client_for P C) p = Inr read \<and> seen_met L p read"
  using assms
  by (auto simp: open_live_world_def check_premise_def split: prod.splits sum.splits dest: assert_preconditions_met)

subsection \<open>The platform's alert\<close>

definition is_the_page :: "lab_lib \<Rightarrow> dict \<Rightarrow> dict list \<Rightarrow> platform_alert \<Rightarrow> bool" where
  "is_the_page L declared active a =
     list_ex (\<lambda>c. matches_scenario_alert c declared \<and> get c ''extra_data'' = Some (VDict (pa_payload a)) \<and> pa_payload a \<noteq> []
                 \<and> pa_id a = text_of_field L c ''id'') active"

lemma take_alert_page: "take_alert L declared active = Some (Inr a) \<Longrightarrow> is_the_page L declared active a"
  unfolding take_alert_def is_the_page_def list_ex_iff
  by (auto simp: find_Some_iff split: option.splits val.splits list.splits)

lemma await_rows_page:
  "await_rows fuel P L declared read deadline w = Some (w', Inr a) \<Longrightarrow>
     \<exists>w1 w2 active. platform_alerts L read w1 = (w2, Inr active) \<and> is_the_page L declared active a"
  by (induction fuel arbitrary: w)
     (force split: prod.splits sum.splits option.splits if_splits dest: take_alert_page)+

text \<open>The wait ends: with a clock that its own sleeps advance, the deadline is at most fuel polls away.\<close>

lemma await_rows_ends:
  assumes "\<And>w. fst (steady_clock P w) = w" and "\<And>w d. snd (steady_clock P (sleep_for P w d)) = snd (steady_clock P w) + d"
    and "\<And>w. snd (steady_clock P w) \<le> snd (steady_clock P (fst (platform_alerts L read w)))"
  shows "deadline \<le> snd (steady_clock P w) + of_nat fuel * platform_alert_poll \<Longrightarrow>
    await_rows (Suc fuel) P L declared read deadline w \<noteq> None"
proof (induction fuel arbitrary: w)
  case 0
  obtain w1 r where p: "platform_alerts L read w = (w1, r)" by (metis surj_pair)
  with assms(3)[of w] 0 have "deadline \<le> snd (steady_clock P w1)" by simp
  with p show ?case by (auto split: sum.splits option.splits prod.splits)
next
  case (Suc fuel)
  obtain w1 r where p: "platform_alerts L read w = (w1, r)" by (metis surj_pair)
  have c: "steady_clock P w1 = (w1, snd (steady_clock P w1))" using assms(1)[of w1] by (metis prod.collapse)
  have "snd (steady_clock P w) + platform_alert_poll \<le> snd (steady_clock P (sleep_for P w1 platform_alert_poll))"
    using assms(3)[of w] p by (simp add: assms(2))
  with Suc.prems have "deadline \<le> snd (steady_clock P (sleep_for P w1 platform_alert_poll)) + of_nat fuel * platform_alert_poll"
    by (simp add: algebra_simps)
  note ih = Suc.IH[OF this]
  show ?case
    by (subst await_rows.simps) (use p c ih in \<open>auto simp del: await_rows.simps split: sum.splits option.splits prod.splits\<close>)
qed

end
