(* ===== verification/World_Claims.thy ===== *)
theory World_Claims
  imports World_Facts Sample_Run "HOL-Library.Multiset"
begin

text \<open>
  The properties of a live scenario's lifecycle, with the sample world their witnesses run in: a clock
  that only sleeping moves, a platform that accepts every hook and reads a lag of 500, a scenario whose
  fault recovers on its own, and an agent whose first dispatch raises.
\<close>

subsection \<open>The sample world\<close>

definition sample_lab :: "nat lab_ports" where
  "sample_lab =
     \<lparr>fire_hook = (\<lambda>token w hook args. (w, Http \<lparr>http_status = 200, http_retry_after = None, http_text = [],
                                              http_json = Some (VDict [(''result'', VDict [])])\<rparr>)),
      client_for = (\<lambda>C w tool args r t. (w, Inr \<lparr>result_content = [[(''type'', VStr ''text''), (''text'', VStr tool)]],
                                                result_is_error = False\<rparr>)),
      sleep_for = (\<lambda>w d. w + nat \<lfloor>d\<rfloor>), utc_now = (\<lambda>w. (w, int w * 1000000)), steady_clock = (\<lambda>w. (w, of_nat w))\<rparr>"

definition ttl_schema :: dict where
  "ttl_schema = [(''properties'', VDict [(''ttl_seconds'', VDict [(''type'', VStr ''integer''), (''minimum'', VInt 1), (''maximum'', VInt 3600)])])]"

definition sample_lab_lib :: lab_lib where
  "sample_lab_lib =
     \<lparr>loads_text = (\<lambda>_. Some (VDict [(''lag'', VInt 500)])), str_json = (\<lambda>v. case v of VStr s \<Rightarrow> s | _ \<Rightarrow> []),
      says_text = (\<lambda>_. ''x''), iso_text = (\<lambda>_. ''t''), snapshot_of = [(''saturate'', ttl_schema), (''restore'', [])]\<rparr>"

definition sample_derivation :: ttl_from_windows where
  "sample_derivation = \<lparr>investigation_multiple = 1, verify_multiple = 0, floor_seconds = 60,
     floor_reason = ''the shortest fault the agent can still observe''\<rparr>"

definition sample_fault :: chaos_hook where
  "sample_fault = \<lparr>hook_name = ''saturate'', hook_arguments = [], ttl_derivation = Some sample_derivation\<rparr>"

definition sample_probe :: precondition_probe where
  "sample_probe =
     \<lparr>probe_tool_name = ''get_consumer_lag'', probe_arguments = [],
      probe_expect = [\<lparr>equals = None, not_equals = None, at_least = Some 100, at_most = None, is_null = None,
                       pf_path = ''lag'', pf_where = None\<rparr>],
      declared_attempts = 3, probe_delay = 5\<rparr>"

definition sample_expectation :: scenario_expectation where
  "sample_expectation =
     \<lparr>ex_name = ''lag'', expected_terminal_state = RESOLVED, expected_evidence_contains = [], expected_evidence_fields = [],
      ex_max_tool_calls = None, expected_action_tools = [], ex_forbidden_job_ids = [], ex_forbidden_categories = [],
      expected_action_arguments = [], ex_forbidden_tools = [], forbidden_evidence_contains = [], expect_briefing_contains = []\<rparr>"

definition sample_scenario :: scenario where
  "sample_scenario =
     \<lparr>sc_name = ''lag'', sc_template_id = ''lag'', sc_family = None, sc_difficulty = None, sc_split = ''dev'', sc_alert = sample_alert,
      sc_expectation = sample_expectation, sc_use_live_mcp = True, sc_use_live_llm = True, sc_canned_verify_polls = 1,
      sc_required_before_verdict = [], sc_chaos_setup = None,
      sc_chaos_plan = Some \<lparr>plan_setup = [sample_fault],
        plan_teardown = [\<lparr>hook_name = ''restore'', hook_arguments = [], ttl_derivation = None\<rparr>], settle_seconds = 10\<rparr>,
      sc_expected_precondition = [sample_probe], sc_smoke_exclusion = None, sc_ground_truth = None, sc_volatile = []\<rparr>"

definition sample_mode :: run_mode where
  "sample_mode =
     \<lparr>mode_settings = sample_settings\<lparr>platform_chaos_token := Some ''lab'', investigate_reprobe_attempts := 2\<rparr>, platform_token = ''p'',
      mode_mcp_token = None, invocation_id_of = ''run'', mode_recorded = False, mode_rehearsal = False,
      world_already_faulted = False, alert_from_platform = False, strategy_is_search = False,
      offline_platform = False, offline_model = False, tracing = True\<rparr>"

definition sample_side :: "nat agent_side" where
  "sample_side =
     \<lparr>load_recording = Inr (True, True),
      wire_agent = Inr \<lparr>clock = (\<lambda>w. (w, int w * 1000000)), checkpoint_write = None, registry = (\<lambda>_. None)\<rparr>,
      enrich = (\<lambda>w b. (w, Inr b)), judge = (\<lambda>w b. (w, Inr ())), checkpoints_of = (\<lambda>w i. []),
      texts = \<lparr>plain = (\<lambda>_. []), py_str = (\<lambda>_. []), dumps = (\<lambda>_. [])\<rparr>, parse_moment = (\<lambda>_. None),
      decimal_text = (\<lambda>_. []), invalid_prefixes = []\<rparr>"

definition sample_world :: "nat lab_world" where
  "sample_world = \<lparr>outside = 0, chaos_records = [], latch = No_latch, lab_trace = []\<rparr>"

definition sample_exit :: "(nat lab_world \<times> run_exit) option" where
  "sample_exit = run_scenario 0 sample_lab sample_lab_lib sample_side sample_mode DEVELOPMENT ''baseline'' False sample_scenario 0 ''i'' sample_world"

lemma sample_exit_crash:
  "case sample_exit of
     Some (lw, Scenario_crash (Crash_of e cps torn page)) \<Rightarrow> torn = None \<and> map hr_name (chaos_records lw) = [''saturate'', ''restore'']
   | _ \<Rightarrow> False"
  by code_simp

lemma sample_seed:
  "case seed_world sample_lab sample_lab_lib sample_mode sample_scenario sample_world of
     (lw, Inr u) \<Rightarrow> map hr_ttl_seconds (chaos_records lw) = [Some 60] | _ \<Rightarrow> False"
  by code_simp

subsection \<open>The world is put back\<close>



text \<open>The exit no handler is around: the seeded world is left as it is.\<close>

lemma unwired_run_is_not_put_back:
  assumes "mode_refusal M s = None" and "live_mcp_available M s" and "wire_agent A = Inl e"
    and "open_live_world fuel P L M s (lw\<lparr>chaos_records := []\<rparr>) = Some (lw1, Inr page)"
  shows "run_scenario fuel P L A M role_of nm deg s now incident lw = Some (lw1, Unwired e)"
  using assms by (simp add: run_scenario_def run_wired_def live_mcp_available_def Let_def)

subsection \<open>A timed fault outlasts the harness\<close>

text \<open>C36: when the seeding of a live run succeeds, each setup hook whose TTL is derived from the run's
  windows was recorded with the moment it fired and the moment its fault expires, and the time between
  them is longer than what the harness spends before the agent's first call (settling and
  preconditions), not below the derivation's floor, and a TTL the platform's recorded schema admits; the recovery the
  run is graded against is no later than that expiry.
\<close>

theorem timed_fault_outlasts_the_harness:
  assumes "seed_world P L M s lw = (lw', Inr u)" and "\<not> world_already_faulted M"
    and "h \<in> set (plan_setup (chaos s))" and "ttl_derivation h = Some t"
  shows "\<exists>r fired expires first_recovery ttl. r \<in> set (chaos_records lw') \<and> hr_name r = hook_name h
           \<and> hr_fired_at r = Some fired \<and> hr_expires_at r = Some expires \<and> expires = fired + ttl * 1000000
           \<and> pre_agent_seconds s < of_int ttl \<and> floor_seconds t \<le> of_int ttl
           \<and> get (hr_arguments r) ttl_argument = Some (VInt ttl)
           \<and> ttl_bound_errors (snapshot_of L) (hook_name h) ttl = []
           \<and> self_recovery_at (chaos_records lw') = Some first_recovery \<and> first_recovery \<le> expires"
proof -
  let ?W = "windows_of M s" and ?ttl = "ttl_seconds_of t (windows_of M s)"
  from assms(3,4) have timed: "is_temporal s" by (auto simp: is_temporal_def self_recovering_def list_ex_iff)
  from seed_world_seeded(1)[OF assms(1,2)] assms(3) obtain r where r: "r \<in> set (chaos_records lw')" and sd: "seeded_as L ?W h r"
    by (metis list_all2_conv_all_nth in_set_conv_nth)
  from sd assms(4) obtain fired where f: "hr_fired_at r = Some fired" and e: "hr_expires_at r = Some (fired + ?ttl * 1000000)"
    and a: "seeded_arguments (str_json L) (snapshot_of L) ?W h = Inr (hr_arguments r)"
    and n: "hr_name r = hook_name h" "hr_phase r = chaos_setup_phase" "hr_ok r"
    by (auto simp: seeded_as_def split: option.splits)
  have "pre_agent_seconds s < of_int ?ttl"
    using seed_world_seeded(2)[OF assms(1,2)] timed assms(3,4)
    by (auto simp: temporal_timing_refusal_def dest: hook_timing_refusal_NoneD(1))
  with r f e n seeded_arguments_derived[OF a assms(4)] self_recovery_at_le[OF r n(2,3) e] ttl_above_floor show ?thesis by blast
qed

theorem timed_fault_outlasts_the_harness_witness:
  "\<exists>lw r ttl. seed_world sample_lab sample_lab_lib sample_mode sample_scenario sample_world = (lw, Inr ())
     \<and> r \<in> set (chaos_records lw) \<and> pre_agent_seconds sample_scenario < of_int ttl
     \<and> get (hr_arguments r) ttl_argument = Some (VInt ttl)"
proof -
  from sample_seed obtain lw where s: "seed_world sample_lab sample_lab_lib sample_mode sample_scenario sample_world = (lw, Inr ())"
    by (auto split: prod.splits sum.splits)
  have h: "sample_fault \<in> set (plan_setup (chaos sample_scenario))" "\<not> world_already_faulted sample_mode"
    "ttl_derivation sample_fault = Some sample_derivation"
    by (simp_all add: sample_scenario_def chaos_def sample_mode_def sample_fault_def)
  from timed_fault_outlasts_the_harness[OF s h(2,1,3)] s show ?thesis by blast
qed

subsection \<open>The premise\<close>

text \<open>The polling of one precondition is decided by its last answer alone. With the answers a probe gives,
  up to the first that meets it, as the reference, the check succeeds exactly when the last one met
  every field, says the premise is false when the last one was a reading that did not, and says it is
  unknown when the last one could not be read, keeping an earlier reading only as a note; at least one and at most the
  declared number of attempts are made.
\<close>

theorem premise_is_decided_by_the_last_answer:
  assumes "precondition_reader L (mode_settings M) port p = Inr read" and "make_precondition_probe p = Inr p"
  shows "let answers = probe_answers P L p read (declared_attempts p) False (outside lw) in
         answers \<noteq> [] \<and> length answers \<le> declared_attempts p
         \<and> snd (assert_precondition P L M s port p lw) =
             (case List.last answers of
                Probe_raised e \<Rightarrow> Inl (Exn e)
              | No_reading saying \<Rightarrow> Inl (Unverifiable [saying] (stale_of [] answers))
              | Probe_reading bad \<Rightarrow> if bad = [] then Inr () else Inl (Not_met bad))"
proof -
  let ?as = "probe_answers P L p read (declared_attempts p) False (outside lw)"
  from assms(2) have "1 \<le> declared_attempts p" by (auto simp: make_precondition_probe_def split: if_splits)
  then have ne: "?as \<noteq> []" by (intro probe_answers_nonempty) simp
  obtain w v where q: "poll_probe P L p read (declared_attempts p) False (outside lw) fresh_poll = (w, v)" by (metis surj_pair)
  with poll_probe_decided[of P L p read "declared_attempts p" False "outside lw" fresh_poll] have v: "v = decided_by fresh_poll ?as" by simp
  from ne q v assms(1) length_probe_answers[of P L p read "declared_attempts p" False "outside lw"] show ?thesis
    by (auto simp: assert_precondition_def Let_def decided_by_def fresh_poll_def split: probe_answer.splits)
qed

definition sample_read :: "nat \<Rightarrow> string \<Rightarrow> dict \<Rightarrow> nat \<times> (client_error + tool_result)" where
  "sample_read w tool args = client_for sample_lab \<lparr>mcp_headers = [], mcp_max_attempts = 3, mcp_base_delay = 1\<rparr> w tool args (Some ''x'') (Some ''lab'')"

theorem premise_is_decided_by_the_last_answer_witness:
  "probe_answers sample_lab sample_lab_lib sample_probe sample_read 3 False 0 \<noteq> []"
proof -
  have c: "probe_credential (mode_settings sample_mode) = Some ''lab''" by code_simp
  have l: "make_lab_client (probe_label sample_lab_lib sample_probe) ''lab'' = Inr \<lparr>lab_reason = ''x'', lab_token = ''lab''\<rparr>" by code_simp
  have r: "precondition_reader sample_lab_lib (mode_settings sample_mode)
       (client_for sample_lab \<lparr>mcp_headers = [], mcp_max_attempts = 3, mcp_base_delay = 1\<rparr>) sample_probe = Inr sample_read"
    by (simp add: precondition_reader_def c l sample_read_def fun_eq_iff)
  have p: "make_precondition_probe sample_probe = Inr sample_probe" by code_simp
  from premise_is_decided_by_the_last_answer[OF r p, of sample_lab sample_world sample_scenario] show ?thesis
    by (simp add: Let_def sample_world_def sample_probe_def)
qed

text \<open>C1: no agent starts on a premise nobody saw. When a live run gets past its seeding region, so that it ends in a
  row, a crash or a failure to build the agent, every precondition of the scenario was read, on the agent's own
  client under the lab's label, in an answer whose object meets all its fields.
\<close>

definition agent_reached :: "run_exit \<Rightarrow> bool" where
  "agent_reached x = (case x of Graded _ \<Rightarrow> True | Scenario_crash _ \<Rightarrow> True | Unwired _ \<Rightarrow> True | _ \<Rightarrow> False)"

theorem agent_starts_only_on_a_met_premise:
  assumes "live_mcp_available M s" and "run_scenario fuel P L A M role_of nm deg s now incident lw = Some (lw', x)" and "agent_reached x"
    and "p \<in> set (sc_expected_precondition s)" and "list_all (\<lambda>p. make_precondition_probe p = Inr p) (sc_expected_precondition s)"
  shows "\<exists>C read. make_client (platform_token M) (mode_mcp_token M) = Inr C
           \<and> precondition_reader L (mode_settings M) (client_for P C) p = Inr read \<and> seen_met L p read"
proof -
  have "list_all (\<lambda>p. 1 \<le> declared_attempts p) (sc_expected_precondition s)"
    using assms(5) by (rule list.pred_mono_strong) (auto simp: make_precondition_probe_def split: if_splits)
  moreover from assms(1-3) obtain lw1 page where "open_live_world fuel P L M s (lw\<lparr>chaos_records := []\<rparr>) = Some (lw1, Inr page)"
    by (auto simp: run_scenario_def Let_def agent_reached_def live_mcp_available_def
             split: option.splits prod.splits sum.splits if_splits)
  ultimately show ?thesis using assms(4) by (intro open_live_world_met)
qed

theorem agent_starts_only_on_a_met_premise_witness:
  "\<exists>C read. make_client (platform_token sample_mode) (mode_mcp_token sample_mode) = Inr C
     \<and> precondition_reader sample_lab_lib (mode_settings sample_mode) (client_for sample_lab C) sample_probe = Inr read
     \<and> seen_met sample_lab_lib sample_probe read"
proof -
  from sample_exit_crash obtain lw y where x: "sample_exit = Some (lw, Scenario_crash y)"
    by (auto split: option.splits prod.splits run_exit.splits crash.splits)
  have p: "sample_probe \<in> set (sc_expected_precondition sample_scenario)" by (simp add: sample_scenario_def)
  have a: "agent_reached (Scenario_crash y)" by (simp add: agent_reached_def)
  show ?thesis
    by (rule agent_starts_only_on_a_met_premise[OF _ x[unfolded sample_exit_def] a p]) code_simp+
qed

subsection \<open>The platform's page\<close>

text \<open>The alert a run is paged with is a row the platform served under the smoke token, its payload untouched.\<close>

lemma make_lab_client_InrD: "make_lab_client saying token = Inr lab \<Longrightarrow> lab_reason lab = saying \<and> lab_token lab = token"
  by (cases "lab_probe_envelope (Some saying) (Some token)") (auto simp: make_lab_client_def)

lemma platform_alert_is_verbatim:
  assumes "await_platform_alert fuel P L M s w = Some (w', Inr a)"
  shows "\<exists>credential C w1 w2 active. require_smoke_token (mode_settings M) = Inr credential
           \<and> make_client (platform_token M) (Some credential) = Inr C
           \<and> platform_alerts L (\<lambda>w tool args. client_for P C w tool args (Some platform_alert_probe_reason) (Some credential)) w1
               = (w2, Inr active)
           \<and> is_the_page L (sc_alert s) active a"
  using assms
  by (auto simp: await_platform_alert_def Let_def split: option.splits sum.splits prod.splits
           dest!: await_rows_page make_lab_client_InrD) blast

text \<open>The wait for it ends within forty-one looks on a clock that only its sleeps and reads move.\<close>

lemma platform_wait_ends:
  assumes "\<And>w. fst (steady_clock P w) = w" and "\<And>w d. snd (steady_clock P (sleep_for P w d)) = snd (steady_clock P w) + d"
    and "\<And>C w tool args r t. snd (steady_clock P w) \<le> snd (steady_clock P (fst (client_for P C w tool args r t)))"
  shows "await_platform_alert 41 P L M s w \<noteq> None"
proof -
  have reads: "snd (steady_clock P w) \<le> snd (steady_clock P (fst (platform_alerts L (\<lambda>w tool args. client_for P C w tool args r t) w)))"
    for C r t w
  proof -
    obtain w1 ans where c: "client_for P C w ''list_active_alerts'' [(''limit'', VInt 50)] r t = (w1, ans)" by (metis surj_pair)
    with assms(3)[of w C "''list_active_alerts''" "[(''limit'', VInt 50)]" r t] show ?thesis
      by (auto simp: platform_alerts_def Let_def split: sum.splits client_error.splits)
  qed
  obtain t0 where c: "steady_clock P w = (w, t0)" using assms(1)[of w] by (metis prod.collapse)
  have "await_rows (Suc 40) P L d (\<lambda>w tool args. client_for P C w tool args r t) (t0 + platform_alert_timeout) w \<noteq> None" for d C r t
    by (rule await_rows_ends[OF assms(1,2) reads]) (simp add: c platform_alert_timeout_def platform_alert_poll_def)
  with c show ?thesis
    by (auto simp: await_platform_alert_def Let_def simp del: await_rows.simps split: option.splits sum.splits prod.splits)
qed

subsection \<open>The suite\<close>

text \<open>Every planned scenario is in the report once: as a row, or as ungraded.\<close>

lemma suite_accounts_for_every_scenario:
  assumes "\<And>w s w' r. run_one w s = (w', Graded r) \<Longrightarrow> so_scenario r = sc_name s" and "\<And>s x. so_scenario (crash_row s x) = sc_name s"
  shows "run_suite run_one crash_row ss w = (w', rs, ungraded) \<Longrightarrow>
     mset (map so_scenario rs) + mset ungraded = mset (map sc_name ss)"
proof (induction ss arbitrary: w w' rs ungraded)
  case (Cons s ss)
  obtain w1 x where o: "run_one w s = (w1, x)" by (metis surj_pair)
  obtain w2 rs' un where r: "run_suite run_one crash_row ss w1 = (w2, rs', un)" by (metis surj_pair)
  note ih = Cons.IH[OF r]
  show ?case
  proof (cases "\<exists>r. x = Graded r")
    case True
    with Cons.prems o r ih assms(1) show ?thesis by auto
  next
    case False
    then have "rs = crash_row s x # rs' \<and> ungraded = un \<or> rs = rs' \<and> ungraded = sc_name s # un"
      using Cons.prems o r by (auto split: run_exit.splits option.splits run_exn.splits)
    with ih assms(2)[of s x] show ?thesis by auto
  qed
qed simp

end
