(* ===== verification/Recorded_World.thy ===== *)
theory Recorded_World
  imports Scenario_World
begin

text \<open>
  A world read once and replayed (\<^verbatim>\<open>evals/recorder.py\<close>, \<^verbatim>\<open>evals/recorded_client.py\<close>, the shared read of
  \<^verbatim>\<open>evals/world_audit.py\<close>): the wired probes, the calls they make and the keys they are stored under, the
  lookup of a recording, the re-basing of its clocks onto the replay's and the client that answers an agent
  from it. A moment is its instant and the UTC offset it is written with. A stored result is the
  \<open>ToolResult\<close> itself, since dumping and validating one give it back.
\<close>

record replay_lib =
  rl_libs :: libs
  rl_loads :: "string \<Rightarrow> val option"
  rl_dumps :: "val \<Rightarrow> string" \<comment> \<open>\<open>json.dumps\<close> with the compact separators\<close>
  from_iso :: "string \<Rightarrow> (datetime \<times> string) option"
  to_iso :: "datetime \<times> string \<Rightarrow> string"

subsection \<open>Probes\<close>

record lab_probe =
  lp_tool :: string
  lp_arguments :: dict
  lp_origins :: "string list"

definition make_probe :: "string \<Rightarrow> dict \<Rightarrow> string \<Rightarrow> lab_probe" where
  "make_probe tool args origin = \<lparr>lp_tool = tool, lp_arguments = sort_key fst args, lp_origins = [origin]\<rparr>"

definition probe_id :: "lab_probe \<Rightarrow> string \<times> dict" where "probe_id p = (lp_tool p, lp_arguments p)"

definition merge_one :: "((string \<times> dict) \<times> lab_probe) list \<Rightarrow> lab_probe \<Rightarrow> ((string \<times> dict) \<times> lab_probe) list" where
  "merge_one merged p = (case map_of merged (probe_id p) of
      None \<Rightarrow> merged @ [(probe_id p, p)]
    | Some e \<Rightarrow> AList.update (probe_id p)
        (e\<lparr>lp_origins := lp_origins e @ filter (\<lambda>x. x \<notin> set (lp_origins e)) (lp_origins p)\<rparr>) merged)"

definition merge_probes :: "lab_probe list \<Rightarrow> lab_probe list" where
  "merge_probes ps = map snd (fold (\<lambda>p merged. merge_one merged p) ps [])"

definition wire_probe :: "libs \<Rightarrow> lab_probe \<Rightarrow> lab_probe option" where
  "wire_probe L p =
     (if \<not> registered (lp_tool p) then None
      else map_option (\<lambda>wired. p\<lparr>lp_arguments := sort_key fst wired\<rparr>) (wire_arguments L (lp_tool p) (lp_arguments p)))"

text \<open>A probe that cannot be wired becomes a note, here the tool it names.\<close>

definition wire_probes :: "libs \<Rightarrow> lab_probe list \<Rightarrow> lab_probe list \<times> string list" where
  "wire_probes L ps =
     (merge_probes (List.map_filter (wire_probe L) ps), map lp_tool (filter (\<lambda>p. wire_probe L p = None) ps))"

subsection \<open>Reading the world\<close>

definition call_key :: "libs \<Rightarrow> string \<Rightarrow> dict \<Rightarrow> string" where
  "call_key L tool wired = tool @ '' '' @ arguments_hash L wired"

record reading =
  rd_payload :: "dict option"
  rd_error :: "summary option"

definition reading_ok :: "reading \<Rightarrow> bool" where "reading_ok r = (rd_error r = None)"

text \<open>\<open>_payload_of\<close>: the first block whose text parses as an object; unreadable blocks are passed over.\<close>

fun payload_of :: "(string \<Rightarrow> val option) \<Rightarrow> dict list \<Rightarrow> dict option" where
  "payload_of loads_text [] = None"
| "payload_of loads_text (b # bs) = (case get b ''text'' of
      Some (VStr s) \<Rightarrow> (case loads_text s of Some (VDict d) \<Rightarrow> Some d | _ \<Rightarrow> payload_of loads_text bs)
    | _ \<Rightarrow> payload_of loads_text bs)"

definition read_result ::
    "(string \<Rightarrow> val option) \<Rightarrow> ('w \<Rightarrow> string \<Rightarrow> dict \<Rightarrow> 'w \<times> (client_error + tool_result)) \<Rightarrow> 'w \<Rightarrow> string \<Rightarrow> dict
     \<Rightarrow> 'w \<times> (exn + reading \<times> tool_result option)" where
  "read_result loads_text port w tool args = (case port w tool args of
      (w', Inl (client_error.Raised e)) \<Rightarrow> (w', Inl e)
    | (w', Inl (Mcp_failed code said d)) \<Rightarrow> (w', Inr (\<lparr>rd_payload = None, rd_error = Some (Say ''MCPError: {}'' [said])\<rparr>, None))
    | (w', Inl (Lab_probe_refused code said d)) \<Rightarrow> (w', Inr (\<lparr>rd_payload = None, rd_error = Some (Say ''MCPError: {}'' [said])\<rparr>, None))
    | (w', Inr res) \<Rightarrow>
        (let payload = payload_of loads_text (result_content res) in
         (w', Inr (\<lparr>rd_payload = payload,
                    rd_error = (if result_is_error res then Some (Word ''the tool reported is_error=True'')
                                else if payload = None then Some (Word ''no readable JSON object in the result'') else None)\<rparr>, Some res))))"

record recorded_call =
  rc_tool :: string
  rc_arguments :: dict
  rc_key :: string
  rc_result :: tool_result
  rc_started :: datetime
  rc_completed :: datetime
  rc_duration :: int
  rc_origins :: "string list"

record recorded_failure =
  rf_tool :: string
  rf_arguments :: dict
  rf_detail :: summary

record 'w recording_ports =
  ask_platform :: "'w \<Rightarrow> string \<Rightarrow> dict \<Rightarrow> 'w \<times> (client_error + tool_result)"
  clock_now :: "'w \<Rightarrow> 'w \<times> datetime"
  stopwatch :: "'w \<Rightarrow> 'w \<times> rat"

text \<open>One probe of \<open>record_calls\<close>, with its four clock readings.\<close>

definition record_call ::
    "replay_lib \<Rightarrow> 'w recording_ports \<Rightarrow> 'w \<Rightarrow> lab_probe \<Rightarrow> 'w \<times> (exn + reading \<times> (recorded_failure + recorded_call))" where
  "record_call L P w p =
     (let (w1, started) = clock_now P w; (w2, began) = stopwatch P w1 in
      case read_result (rl_loads L) (ask_platform P) w2 (lp_tool p) (lp_arguments p) of
        (w3, Inl e) \<Rightarrow> (w3, Inl e)
      | (w3, Inr (rd, answer)) \<Rightarrow>
          (let (w4, ended) = stopwatch P w3; (w5, completed) = clock_now P w4 in
           (w5, Inr (rd, case answer of
              None \<Rightarrow> Inl \<lparr>rf_tool = lp_tool p, rf_arguments = lp_arguments p,
                          rf_detail = (case rd_error rd of Some e \<Rightarrow> e | None \<Rightarrow> Word ''the call did not reach the platform'')\<rparr>
            | Some res \<Rightarrow> Inr \<lparr>rc_tool = lp_tool p, rc_arguments = lp_arguments p,
                              rc_key = call_key (rl_libs L) (lp_tool p) (lp_arguments p), rc_result = res,
                              rc_started = started, rc_completed = completed, rc_duration = \<lfloor>(ended - began) * 1000\<rfloor>,
                              rc_origins = lp_origins p\<rparr>))))"

fun record_each ::
    "replay_lib \<Rightarrow> 'w recording_ports \<Rightarrow> 'w \<Rightarrow> lab_probe list
     \<Rightarrow> 'w \<times> (exn + recorded_call list \<times> reading list \<times> recorded_failure list)" where
  "record_each L P w [] = (w, Inr ([], [], []))"
| "record_each L P w (p # ps) = (case record_call L P w p of
      (w1, Inl e) \<Rightarrow> (w1, Inl e)
    | (w1, Inr (rd, made)) \<Rightarrow> (case record_each L P w1 ps of
        (w2, Inl e) \<Rightarrow> (w2, Inl e)
      | (w2, Inr (cs, rds, fs)) \<Rightarrow>
          (w2, Inr (case made of Inr c \<Rightarrow> (c # cs, rd # rds, fs) | Inl f \<Rightarrow> (cs, rd # rds, f # fs)))))"

text \<open>Both sorts are stable, so the failures end up ordered by the pair.\<close>

definition record_calls ::
    "replay_lib \<Rightarrow> 'w recording_ports \<Rightarrow> 'w \<Rightarrow> lab_probe list
     \<Rightarrow> 'w \<times> (exn + recorded_call list \<times> reading list \<times> recorded_failure list)" where
  "record_calls L P w ps = (case record_each L P w ps of
      (w', Inl e) \<Rightarrow> (w', Inl e)
    | (w', Inr (cs, rds, fs)) \<Rightarrow>
        (w', Inr (sort_key rc_key cs, rds, sort_key rf_tool (sort_key (\<lambda>f. dumps_canonical (rl_libs L) (rf_arguments f)) fs))))"

subsection \<open>The document\<close>

record recorded_label =
  label_live_mcp :: bool
  label_chaos_seeded :: bool
  label_hooks :: "string list"
  label_settle :: rat

definition world_label :: "scenario \<Rightarrow> bool \<Rightarrow> recorded_label" where
  "world_label s seeded =
     \<lparr>label_live_mcp = True, label_chaos_seeded = seeded, label_hooks = map hook_name (plan_setup (chaos s)),
      label_settle = settle_seconds (chaos s)\<rparr>"

record recorded_world =
  rw_scenario :: string
  rw_label :: recorded_label
  rw_calls :: "recorded_call list"
  rw_failures :: "recorded_failure list"
  rw_recorded_at :: datetime

text \<open>\<open>RecordedWorld.answer\<close>.\<close>

definition replay_key :: "libs \<Rightarrow> string \<Rightarrow> dict \<Rightarrow> string option" where
  "replay_key L tool args =
     (if registered tool then map_option (call_key L tool) (wire_arguments L tool args) else None)"

definition recorded_answer :: "libs \<Rightarrow> recorded_world \<Rightarrow> string \<Rightarrow> dict \<Rightarrow> tool_result option" where
  "recorded_answer L W tool args = (case replay_key L tool args of
      None \<Rightarrow> None | Some wanted \<Rightarrow> map_option rc_result (find (\<lambda>c. rc_key c = wanted) (rw_calls W)))"

definition lab_vocabulary_terms :: "snapshot \<Rightarrow> string list" where
  "lab_vocabulary_terms schemas = sort (remdups (''chaos'' # map fst schemas))"

definition result_value :: "tool_result \<Rightarrow> val" where
  "result_value r = VDict [(''content'', VList (map VDict (result_content r))), (''is_error'', VBool (result_is_error r))]"

definition lint_agent_visible_vocabulary :: "replay_lib \<Rightarrow> snapshot \<Rightarrow> recorded_call list \<Rightarrow> (string \<times> string list) list" where
  "lint_agent_visible_vocabulary L schemas calls =
     List.map_filter (\<lambda>c.
       (let blob = map lower_char (rl_dumps L (result_value (rc_result c)));
            hit = filter (\<lambda>t. sublist t blob) (lab_vocabulary_terms schemas)
        in if hit = [] then None else Some (rc_tool c, hit))) calls"

subsection \<open>Re-basing\<close>

definition shifted_clock_fields :: "(string \<times> string list) list" where
  "shifted_clock_fields =
     [(''get_consumer_lag'', [''last_poll_at'', ''measured_at'', ''recent_samples.measured_at'']),
      (''get_control_loops'', [''loops.last_run_at'', ''measured_at'']),
      (''get_dag_state'', [''nodes.created_at'']),
      (''get_deploy_history'', [''entries.deployed_at'']),
      (''get_incident'', [''fired_at'', ''resolved_at'']),
      (''get_trace'', [''audit_events.created_at'', ''jobs.created_at'', ''jobs.updated_at'']),
      (''list_active_alerts'', [''alerts.fired_at'']),
      (''list_audit_events'', [''events.created_at'']),
      (''list_dlq_messages'', [''items.created_at'', ''items.dead_lettered_at'', ''items.fenced_at'', ''items.updated_at'']),
      (''list_incidents'', [''incidents.fired_at'', ''incidents.resolved_at'']),
      (''get_outbox_status'', [''last_publish_at'', ''measured_at'', ''newest_unpublished_at'', ''oldest_unpublished_at'', ''relay_last_tick_at'']),
      (''get_circuit_breakers'', [''breakers.last_failure_at'', ''breakers.last_state_change_at'', ''breakers.recorded_at'', ''measured_at'']),
      (''get_postgres_health'', [''pools.written_at'']),
      (''get_slo_status'', [''measured_at'']),
      (''search_traces'', [''matches.created_at''])]"

definition clock_paths :: "string \<Rightarrow> string list list" where
  "clock_paths tool = (case map_of shifted_clock_fields tool of Some ps \<Rightarrow> map split_dots ps | None \<Rightarrow> [])"

definition ends_with_z :: "string \<Rightarrow> bool" where "ends_with_z s = (s \<noteq> [] \<and> List.last s = CHR ''Z'')"

definition utc_suffix :: string where "utc_suffix = ''+00:00''"

definition shift_timestamp :: "replay_lib \<Rightarrow> int \<Rightarrow> val \<Rightarrow> val" where
  "shift_timestamp L delta v = (case v of
      VStr s \<Rightarrow> (case from_iso L s of
          None \<Rightarrow> v
        | Some (moment, zone) \<Rightarrow>
            (let text_shown = to_iso L (moment + delta, zone) in
             VStr (if ends_with_z s \<and> suffix utc_suffix text_shown
                   then take (length text_shown - length utc_suffix) text_shown @ ''Z'' else text_shown)))
    | _ \<Rightarrow> v)"

text \<open>
  \<open>_shift_at_path\<close> returns the moved value in place of mutating it; whether anything moved is whether it
  differs.
\<close>

function shift_at_path :: "replay_lib \<Rightarrow> int \<Rightarrow> string list \<Rightarrow> val \<Rightarrow> val" where
  "shift_at_path L delta parts v = (case v of
      VList xs \<Rightarrow> VList (map (shift_at_path L delta parts) xs)
    | VDict d \<Rightarrow>
        (case parts of
           [] \<Rightarrow> v
         | head # rest \<Rightarrow> (case get d head of
             None \<Rightarrow> v
           | Some x \<Rightarrow> VDict (dict_set head (if rest = [] then shift_timestamp L delta x else shift_at_path L delta rest x) d)))
    | _ \<Rightarrow> v)"
  by pat_completeness auto

termination
proof (relation "measure (\<lambda>(L, delta, parts, v). size v)")
  fix L :: replay_lib and delta :: int and parts :: "string list" and v xs and z :: val
  assume "v = VList xs" "z \<in> set xs"
  then show "((L, delta, parts, z), L, delta, parts, v) \<in> measure (\<lambda>(L, delta, parts, v). size v)"
    by (auto simp: size_list_estimation' less_Suc_eq_le)
next
  fix L :: replay_lib and delta :: int and parts v d and x21 :: string and x22 x
  assume "v = VDict d" "get d x21 = Some x"
  then show "((L, delta, x22, x), L, delta, parts, v) \<in> measure (\<lambda>(L, delta, parts, v). size v)"
    using size_get[of d x21 x] by simp
qed simp

declare shift_at_path.simps [simp del]

definition rebase_block :: "replay_lib \<Rightarrow> string \<Rightarrow> int \<Rightarrow> dict \<Rightarrow> dict" where
  "rebase_block L tool delta b = (case (get b ''type'', get b ''text'') of
      (Some (VStr kind), Some (VStr s)) \<Rightarrow>
        (if kind \<noteq> ''text'' then b
         else case rl_loads L s of
             Some (VDict d) \<Rightarrow>
               (let moved = fold (shift_at_path L delta) (clock_paths tool) (VDict d) in
                if moved = VDict d then b else dict_set ''text'' (VStr (rl_dumps L moved)) b)
           | _ \<Rightarrow> b)
    | _ \<Rightarrow> b)"

definition rebase_result :: "replay_lib \<Rightarrow> string \<Rightarrow> int \<Rightarrow> tool_result \<Rightarrow> tool_result" where
  "rebase_result L tool delta r =
     (if clock_paths tool = [] \<or> delta = 0 then r
      else r\<lparr>result_content := map (rebase_block L tool delta) (result_content r)\<rparr>)"

text \<open>Python's \<open>round\<close> takes a half to the even second.\<close>

definition whole_seconds :: "int \<Rightarrow> int" where
  "whole_seconds us =
     (let s = us div 1000000; rest = us mod 1000000 in
      if 2 * rest < 1000000 then s else if 1000000 < 2 * rest then s + 1 else if even s then s else s + 1)"

definition replay_offset :: "recorded_world \<Rightarrow> datetime \<Rightarrow> int" where
  "replay_offset W clock = whole_seconds (clock - rw_recorded_at W) * 1000000"

fun replay_answers :: "replay_lib \<Rightarrow> int \<Rightarrow> recorded_call list \<Rightarrow> (string \<times> tool_result) list \<Rightarrow> (string \<times> tool_result) list result" where
  "replay_answers L delta [] answers = Inr answers"
| "replay_answers L delta (c # cs) answers =
     (if call_key (rl_libs L) (rc_tool c) (rc_arguments c) \<noteq> rc_key c
      then Inl (ValueError ''this recording has been edited since it was written'')
      else replay_answers L delta cs (AList.update (rc_key c) (rebase_result L (rc_tool c) delta (rc_result c)) answers))"

subsection \<open>The client\<close>

record replay_miss =
  miss_tool :: string
  miss_key :: string
  miss_arguments :: dict

record replay_client =
  rp_world :: recorded_world
  rp_answers :: "(string \<times> tool_result) list"
  rp_calls :: "(string \<times> dict) list"
  rp_misses :: "replay_miss list"
  rp_refusals :: "(string \<times> string) list"
  rp_answered :: nat

definition make_replay_client :: "replay_lib \<Rightarrow> recorded_world \<Rightarrow> datetime \<Rightarrow> replay_client result" where
  "make_replay_client L W clock =
     (if rw_calls W = [] then Inl (ValueError ''the recording holds no calls'')
      else map_sum id (\<lambda>answers. \<lparr>rp_world = W, rp_answers = answers, rp_calls = [], rp_misses = [], rp_refusals = [], rp_answered = 0\<rparr>)
             (replay_answers L (replay_offset W clock) (rw_calls W) []))"

definition not_recorded_result :: "replay_lib \<Rightarrow> string \<Rightarrow> tool_result" where
  "not_recorded_result L tool =
     \<lparr>result_content = [[(''type'', VStr ''text''),
        (''text'', VStr (rl_dumps L (VDict [(''detail'', VStr ''the recording holds no answer for this call''),
                                           (''error'', VStr ''not_recorded''), (''tool'', VStr tool)])))]],
      result_is_error = True\<rparr>"

datatype replay_refusal = Replay_refused string string | Uncovered exn

fun tier_value :: "tier \<Rightarrow> string" where
  "tier_value READ = ''read''" | "tier_value TIER_1 = ''tier_1''" | "tier_value TIER_2 = ''tier_2''"

definition replay_call_tool :: "replay_lib \<Rightarrow> replay_client \<Rightarrow> string \<Rightarrow> dict \<Rightarrow> replay_client \<times> (replay_refusal + tool_result)" where
  "replay_call_tool L c0 tool args =
     (let c = c0\<lparr>rp_calls := rp_calls c0 @ [(tool, args)]\<rparr>;
          refuse = (\<lambda>t. (c\<lparr>rp_refusals := rp_refusals c @ [(tool, t)]\<rparr>, Inl (Replay_refused tool t)));
          miss = (\<lambda>k. (c\<lparr>rp_misses := rp_misses c @ [\<lparr>miss_tool = tool, miss_key = k, miss_arguments = args\<rparr>]\<rparr>,
                       Inr (not_recorded_result L tool)))
      in case tier_of tool of
           Inl (KeyError _) \<Rightarrow> refuse ''unclassifiable''
         | Inl e \<Rightarrow> (c, Inl (Uncovered e))
         | Inr t \<Rightarrow>
             (if t \<noteq> READ then refuse (tier_value t)
              else case replay_key (rl_libs L) tool args of
                  None \<Rightarrow> miss ''''
                | Some k \<Rightarrow> (case map_of (rp_answers c) k of
                    None \<Rightarrow> miss k
                  | Some answer \<Rightarrow> (c\<lparr>rp_answered := rp_answered c + 1\<rparr>, Inr answer))))"

definition replay_degraded :: "replay_client \<Rightarrow> bool" where
  "replay_degraded c = (rp_misses c \<noteq> [] \<or> rp_refusals c \<noteq> [])"

end
