(* ===== verification/Replay_Claims.thy ===== *)
theory Replay_Claims
  imports Recorded_World Sample_Run
begin

text \<open>
  What a replayed agent may rely on: the answers of a recording are the platform's, only the listed clocks
  of an answer move, and every call is counted as answered, missed or refused.
\<close>

subsection \<open>What was recorded\<close>





subsection \<open>The lookup\<close>


lemma rebase_result_0 [simp]: "rebase_result L tool 0 r = r"
  by (simp add: rebase_result_def)

lemma replay_offset_recorded [simp]: "replay_offset W (rw_recorded_at W) = 0"
  by (simp add: replay_offset_def whole_seconds_def)

lemma replay_call_answers: "rp_answers (fst (replay_call_tool L c tool args)) = rp_answers c"
  by (auto simp: replay_call_tool_def Let_def split: sum.splits exn.splits option.splits)

fun replay_run :: "replay_lib \<Rightarrow> replay_client \<Rightarrow> (string \<times> dict) list \<Rightarrow> replay_client \<times> (replay_refusal + tool_result) list" where
  "replay_run L c [] = (c, [])"
| "replay_run L c ((tool, args) # rest) =
     (case replay_call_tool L c tool args of (c1, r) \<Rightarrow> (case replay_run L c1 rest of (c2, rs) \<Rightarrow> (c2, r # rs)))"

subsection \<open>Counting\<close>

definition calls_counted :: "replay_client \<Rightarrow> bool" where
  "calls_counted c = (length (rp_calls c) = rp_answered c + length (rp_misses c) + length (rp_refusals c))"

lemma tier_of_not_uncovered: "tier_of tool = Inl e \<Longrightarrow> \<exists>k. e = KeyError k"
  using tier_of_registered[of tool] by (auto simp: tier_of_def split: if_splits)

lemma replay_call_counted: "calls_counted c \<Longrightarrow> calls_counted (fst (replay_call_tool L c tool args))"
  by (auto simp: calls_counted_def replay_call_tool_def Let_def split: sum.splits exn.splits option.splits
           dest: tier_of_not_uncovered)

lemma replay_run_counted: "calls_counted c \<Longrightarrow> calls_counted (fst (replay_run L c reqs))"
proof (induction reqs arbitrary: c)
  case (Cons q reqs)
  obtain tool args where q: "q = (tool, args)" by (metis surj_pair)
  obtain c1 r where s: "replay_call_tool L c tool args = (c1, r)" by (metis surj_pair)
  with replay_call_counted[OF Cons.prems, of L tool args] have "calls_counted c1" by simp
  from Cons.IH[OF this] s q show ?case by (cases "replay_run L c1 reqs") simp
qed simp

subsection \<open>Clocks\<close>

text \<open>A JSON value with everything at the given paths blanked, looking through lists.\<close>

definition below :: "string \<Rightarrow> string list list \<Rightarrow> string list list" where
  "below k paths = List.map_filter (\<lambda>p. case p of h # t \<Rightarrow> if h = k \<and> t \<noteq> [] then Some t else None | [] \<Rightarrow> None) paths"

lemma size_member: "kv \<in> set d \<Longrightarrow> size (snd kv) < size (VDict d)"
proof (induction d)
  case (Cons p d)
  then show ?case by (cases p; cases kv) auto
qed simp

function blank_at :: "string list list \<Rightarrow> val \<Rightarrow> val" where
  "blank_at paths v = (case v of
      VList xs \<Rightarrow> VList (map (blank_at paths) xs)
    | VDict d \<Rightarrow> VDict (map (\<lambda>kv. (fst kv, if [fst kv] \<in> set paths then VNull else blank_at (below (fst kv) paths) (snd kv))) d)
    | _ \<Rightarrow> v)"
  by pat_completeness auto

termination
proof (relation "measure (\<lambda>(paths, v). size v)")
  fix paths :: "string list list" and v xs and z :: val
  assume "v = VList xs" "z \<in> set xs"
  then show "((paths, z), paths, v) \<in> measure (\<lambda>(paths, v). size v)"
    by (auto simp: size_list_estimation' less_Suc_eq_le)
next
  fix paths :: "string list list" and v d and kv :: "string \<times> val"
  assume "v = VDict d" "kv \<in> set d"
  then show "((below (fst kv) paths, snd kv), paths, v) \<in> measure (\<lambda>(paths, v). size v)"
    using size_member[of kv d] by simp
qed (rule wf_measure)

declare blank_at.simps [simp del]

lemma blank_at_simps [simp]:
  "blank_at ps (VList xs) = VList (map (blank_at ps) xs)"
  "blank_at ps (VDict d) = VDict (map (\<lambda>kv. (fst kv, if [fst kv] \<in> set ps then VNull else blank_at (below (fst kv) ps) (snd kv))) d)"
  by (subst blank_at.simps, simp)+









lemma length_rebase [simp]: "length (result_content (rebase_result L tool delta r)) = length (result_content r)"
  by (simp add: rebase_result_def)

subsection \<open>The sample recording\<close>









subsection \<open>A recording replays what the platform said\<close>





text \<open>Every call an agent makes is counted once, and only a read is ever answered.\<close>

lemma replay_counts_every_call:
  assumes "make_replay_client L W now = Inr c0" and "replay_run L c0 reqs = (c, rs)"
  shows "length (rp_calls c) = rp_answered c + length (rp_misses c) + length (rp_refusals c)"
proof -
  have "calls_counted c0" using assms(1)
    by (cases "replay_answers L (replay_offset W now) (rw_calls W) []")
       (auto simp: make_replay_client_def calls_counted_def split: if_splits)
  from replay_run_counted[OF this, of L reqs] assms(2) show ?thesis by (simp add: calls_counted_def)
qed

lemma replay_answers_reads_only:
  "replay_call_tool L c tool args = (c', Inr r) \<Longrightarrow> tool \<in> set read_tools"
  by (auto simp: replay_call_tool_def Let_def tier_of_READ_iff split: sum.splits exn.splits if_splits)

end
