(* ===== verification/Step_Records.thy ===== *)
theory Step_Records
  imports Root_Cause Planner_Step
begin

text \<open>
  The research record of one planner step (\<^verbatim>\<open>agent/strategies/records.py\<close>) and the JSON document
  a trace holds it as. Tuples become JSON lists, an enum its value, and a \<open>Decimal\<close> the text of it.
\<close>

definition null_or :: "('a \<Rightarrow> val) \<Rightarrow> 'a option \<Rightarrow> val" where
  "null_or f x = (case x of None \<Rightarrow> VNull | Some a \<Rightarrow> f a)"

lemma null_or_simps [simp]: "null_or f None = VNull" "null_or f (Some a) = f a"
  by (simp_all add: null_or_def)

text \<open>\<open>str(amount)\<close>, which keeps a \<open>Decimal\<close> exact.\<close>

definition decimal_text :: "rat \<Rightarrow> val" where "decimal_text q = VText (Frac q)"

subsection \<open>What a step is made of\<close>

text \<open>\<open>model_dump(mode="json")\<close> of the step the loop was handed and of what it ranks.\<close>

definition dump_hypothesis :: "hypothesis \<Rightarrow> dict" where
  "dump_hypothesis h =
     [(''category'', VStr (category_value (category h))), (''name'', VStr (hyp_name h)),
      (''confidence'', VFloat (confidence h)), (''reasoning'', VStr (reasoning h))]"

fun dump_action :: "next_action \<Rightarrow> dict" where
  "dump_action (Probe tool args) = [(''kind'', VStr ''probe''), (''tool_name'', VStr tool), (''arguments'', VDict args)]"
| "dump_action (Stop reason) = [(''kind'', VStr ''stop''), (''reason'', VStr reason)]"
| "dump_action (Remediate reason) = [(''kind'', VStr ''remediate''), (''reason'', VStr reason)]"

definition dump_step :: "investigation_step \<Rightarrow> dict" where
  "dump_step s =
     [(''hypotheses'', VList (map (VDict \<circ> dump_hypothesis) (ranked s))), (''next_action'', VDict (dump_action (move s)))]"

definition dump_slot :: "incident_slot \<Rightarrow> val" where
  "dump_slot s = VDict
     [(''category'', VStr (category_value (slot_category s))), (''name'', VStr (slot_name s)),
      (''confidence'', VFloat (slot_confidence s)), (''addressed'', VBool (addressed s))]"

definition dump_slots :: "incident_slots \<Rightarrow> val" where
  "dump_slots s = VDict
     [(''primary'', null_or dump_slot (primary s)), (''secondary'', VList (map dump_slot (secondary s))),
      (''unresolved_extra'', VList (map dump_slot (unresolved_extra s)))]"

record candidate_record =
  cnd_id :: string
  cnd_category :: hypothesis_category
  cnd_name :: string
  cnd_confidence :: rat
  cnd_for :: "string list"
  cnd_against :: "string list"
  cnd_probe :: "string option"
  cnd_call_id :: string

definition candidate_as_record :: "candidate_record \<Rightarrow> dict" where
  "candidate_as_record c =
     [(''candidate_id'', VStr (cnd_id c)), (''category'', VStr (category_value (cnd_category c))),
      (''name'', VStr (cnd_name c)), (''confidence'', VFloat (cnd_confidence c)),
      (''evidence_for'', strs (cnd_for c)), (''evidence_against'', strs (cnd_against c)),
      (''proposed_probe'', null_or VStr (cnd_probe c)), (''generation_call_id'', VStr (cnd_call_id c))]"

record selector_record =
  slc_selected :: "string option"
  slc_scores :: "(string \<times> rat) list"
  slc_uncertainty :: "rat option"
  slc_decision :: string
  slc_call_id :: string

definition float_dict :: "(string \<times> rat) list \<Rightarrow> val" where
  "float_dict d = VDict (map (\<lambda>(k, q). (k, VFloat q)) d)"

definition selector_as_record :: "selector_record \<Rightarrow> dict" where
  "selector_as_record s =
     [(''selected_candidate_id'', null_or VStr (slc_selected s)), (''scores'', float_dict (slc_scores s)),
      (''uncertainty'', null_or VFloat (slc_uncertainty s)), (''decision'', VStr (slc_decision s)),
      (''call_id'', VStr (slc_call_id s))]"

record revision_record =
  rvn_initial :: investigation_step
  rvn_verdict :: string
  rvn_findings :: "string list"
  rvn_contradicted :: "string list"
  rvn_revised :: bool
  rvn_passes_used :: int
  rvn_passes_allowed :: int
  rvn_critic_call :: string
  rvn_revision_call :: string

definition revision_as_record :: "revision_record \<Rightarrow> dict" where
  "revision_as_record r =
     [(''initial_step'', VDict (dump_step (rvn_initial r))), (''verdict'', VStr (rvn_verdict r)),
      (''findings'', strs (rvn_findings r)), (''contradicted_evidence_ids'', strs (rvn_contradicted r)),
      (''revised'', VBool (rvn_revised r)), (''passes_used'', VInt (rvn_passes_used r)),
      (''passes_allowed'', VInt (rvn_passes_allowed r)), (''critic_call_id'', VStr (rvn_critic_call r)),
      (''revision_call_id'', VStr (rvn_revision_call r))]"

subsection \<open>The walk and the ladder\<close>

record branch_record =
  brn_id :: string
  brn_parent :: string
  brn_depth :: int
  brn_snapshot :: string
  brn_candidate :: string
  brn_probe :: "string option"
  brn_arguments :: dict
  brn_proposed :: "string option"
  brn_score :: rat
  brn_confidence :: rat
  brn_tool_cost :: rat
  brn_token_cost :: rat
  brn_risk :: rat
  brn_tool_calls :: int
  brn_tokens :: int
  brn_usd :: rat
  brn_chosen :: bool
  brn_refused :: "string option"

definition branch_as_record :: "branch_record \<Rightarrow> dict" where
  "branch_as_record b =
     [(''branch_id'', VStr (brn_id b)), (''parent_id'', VStr (brn_parent b)), (''depth'', VInt (brn_depth b)),
      (''evidence_snapshot_ref'', VStr (brn_snapshot b)), (''candidate_id'', VStr (brn_candidate b)),
      (''probe'', null_or VStr (brn_probe b)), (''probe_arguments'', VDict (brn_arguments b)),
      (''proposed_probe'', null_or VStr (brn_proposed b)), (''score'', VFloat (brn_score b)),
      (''selector_confidence'', VFloat (brn_confidence b)), (''tool_cost'', VFloat (brn_tool_cost b)),
      (''token_cost'', VFloat (brn_token_cost b)), (''safety_risk'', VFloat (brn_risk b)),
      (''tool_calls_used'', VInt (brn_tool_calls b)), (''tokens_used'', VInt (brn_tokens b)),
      (''usd_used'', decimal_text (brn_usd b)), (''chosen'', VBool (brn_chosen b)),
      (''refused'', null_or VStr (brn_refused b))]"

record search_record =
  srh_depth_allowed :: int
  srh_depth_used :: int
  srh_branch_allowed :: int
  srh_taken :: int
  srh_refused :: int
  srh_pruned :: int
  srh_nodes :: "branch_record list"
  srh_chosen :: string
  srh_tool_calls :: int
  srh_tokens :: int

definition search_as_record :: "search_record \<Rightarrow> dict" where
  "search_as_record s =
     [(''depth_allowed'', VInt (srh_depth_allowed s)), (''depth_used'', VInt (srh_depth_used s)),
      (''branch_allowed'', VInt (srh_branch_allowed s)), (''branches_taken'', VInt (srh_taken s)),
      (''branches_refused'', VInt (srh_refused s)), (''pruned_by_ledger'', VInt (srh_pruned s)),
      (''nodes'', VList (map (VDict \<circ> branch_as_record) (srh_nodes s))), (''chosen_branch_id'', VStr (srh_chosen s)),
      (''tool_calls_used'', VInt (srh_tool_calls s)), (''tokens_used'', VInt (srh_tokens s))]"

record rung_record =
  rng_rung :: string
  rng_index :: int
  rng_entered_because :: "string list"
  rng_fired :: "string list"
  rng_unmeasured :: "string list"
  rng_reasons :: "string list"
  rng_llm_calls :: int
  rng_tokens :: int
  rng_usd :: rat
  rng_tool_calls :: int
  rng_climbed :: bool
  rng_emitted :: bool

definition rung_as_record :: "rung_record \<Rightarrow> dict" where
  "rung_as_record r =
     [(''rung'', VStr (rng_rung r)), (''index'', VInt (rng_index r)), (''entered_because'', strs (rng_entered_because r)),
      (''fired'', strs (rng_fired r)), (''unmeasured'', strs (rng_unmeasured r)), (''reasons'', strs (rng_reasons r)),
      (''llm_calls'', VInt (rng_llm_calls r)), (''tokens_used'', VInt (rng_tokens r)),
      (''usd_used'', decimal_text (rng_usd r)), (''tool_calls_used'', VInt (rng_tool_calls r)),
      (''climbed'', VBool (rng_climbed r)), (''emitted'', VBool (rng_emitted r))]"

record ladder_record =
  ldr_ladder :: "string list"
  ldr_terminated_on :: string
  ldr_rungs_used :: int
  ldr_extra_calls :: int
  ldr_search_available :: bool
  ldr_unclearable :: "string list"
  ldr_thresholds :: "(string \<times> rat) list"
  ldr_rungs :: "rung_record list"

definition ladder_as_record :: "ladder_record \<Rightarrow> dict" where
  "ladder_as_record l =
     [(''ladder'', strs (ldr_ladder l)), (''terminated_on'', VStr (ldr_terminated_on l)),
      (''rungs_used'', VInt (ldr_rungs_used l)), (''extra_llm_calls'', VInt (ldr_extra_calls l)),
      (''search_available'', VBool (ldr_search_available l)), (''unclearable'', strs (ldr_unclearable l)),
      (''thresholds'', float_dict (ldr_thresholds l)), (''rungs'', VList (map (VDict \<circ> rung_as_record) (ldr_rungs l)))]"

subsection \<open>The step record\<close>

record llm_call_record =
  lcr_role :: string
  lcr_model :: string
  lcr_tokens :: int
  lcr_usd :: rat
  lcr_input :: int
  lcr_output :: int
  lcr_cache_read :: int
  lcr_cache_creation :: int
  lcr_call_id :: string
  lcr_elapsed :: "int option"

definition call_as_record :: "llm_call_record \<Rightarrow> dict" where
  "call_as_record c =
     [(''role'', VStr (lcr_role c)), (''model'', VStr (lcr_model c)), (''tokens_used'', VInt (lcr_tokens c)),
      (''usd_used'', decimal_text (lcr_usd c)), (''input_tokens'', VInt (lcr_input c)),
      (''output_tokens'', VInt (lcr_output c)), (''cache_read_tokens'', VInt (lcr_cache_read c)),
      (''cache_creation_tokens'', VInt (lcr_cache_creation c)), (''call_id'', VStr (lcr_call_id c)),
      (''elapsed_ms'', null_or VInt (lcr_elapsed c))]"

record step_record =
  stp_id :: string
  stp_run_id :: string
  stp_iteration :: int
  stp_strategy :: string
  stp_model :: string
  stp_candidates :: "candidate_record list"
  stp_selector :: "selector_record option"
  stp_revision :: "revision_record option"
  stp_search :: "search_record option"
  stp_ladder :: "ladder_record option"
  stp_emitted :: investigation_step
  stp_before :: "hypothesis list"
  stp_after :: "hypothesis list"
  stp_incidents :: "incident_slots option"
  stp_calls :: "llm_call_record list"
  stp_input_tokens :: "int option"
  stp_context_chars :: "int option"
  stp_rejections :: "string list"

definition as_trace_record :: "step_record \<Rightarrow> dict" where
  "as_trace_record r =
     [(''step_id'', VStr (stp_id r)), (''run_id'', VStr (stp_run_id r)), (''iteration'', VInt (stp_iteration r)),
      (''strategy'', VStr (stp_strategy r)), (''model'', VStr (stp_model r)),
      (''candidate_set'', VList (map (VDict \<circ> candidate_as_record) (stp_candidates r))),
      (''selector'', null_or (VDict \<circ> selector_as_record) (stp_selector r)),
      (''revision'', null_or (VDict \<circ> revision_as_record) (stp_revision r)),
      (''search'', null_or (VDict \<circ> search_as_record) (stp_search r)),
      (''ladder'', null_or (VDict \<circ> ladder_as_record) (stp_ladder r)),
      (''emitted_step'', VDict (dump_step (stp_emitted r))),
      (''hypothesis_state_before'', VList (map (VDict \<circ> dump_hypothesis) (stp_before r))),
      (''hypothesis_state_after'', VList (map (VDict \<circ> dump_hypothesis) (stp_after r))),
      (''incidents'', null_or dump_slots (stp_incidents r)),
      (''llm_calls'', VList (map (VDict \<circ> call_as_record) (stp_calls r))),
      (''planner_input_tokens'', null_or VInt (stp_input_tokens r)),
      (''planner_context_chars'', null_or VInt (stp_context_chars r)),
      (''generation_rejections'', strs (stp_rejections r))]"

lemma as_trace_record_reads:
  "get (as_trace_record r) ''iteration'' = Some (VInt (stp_iteration r))"
  "get (as_trace_record r) ''strategy'' = Some (VStr (stp_strategy r))"
  "get (as_trace_record r) ''candidate_set'' = Some (VList (map (VDict \<circ> candidate_as_record) (stp_candidates r)))"
  "get (as_trace_record r) ''selector'' = Some (null_or (VDict \<circ> selector_as_record) (stp_selector r))"
  "get (as_trace_record r) ''emitted_step'' = Some (VDict (dump_step (stp_emitted r)))"
  "get (as_trace_record r) ''generation_rejections'' = Some (strs (stp_rejections r))"
  by (simp_all add: as_trace_record_def)

lemma dump_action_kind: "get (dump_action mv) ''kind'' = Some (VStr (action_kind mv))"
  by (cases mv) simp_all

end
