(* ===== verification/Candidate_Metrics.thy ===== *)
theory Candidate_Metrics
  imports Step_Records Investigation
begin

text \<open>
  The numbers a research run is reported by (\<^verbatim>\<open>evals/candidate_metrics.py\<close>): a step record or the JSON
  a trace holds it as reduced to the step the metrics read, pass@k, the duplicate and rejection rates, and
  selected@k with the oracle gap over one world. Rates are exact rationals.
\<close>

text \<open>What Python makes of a JSON value that is not already of the type asked for.\<close>

record json_casts =
  int_of_text :: "string \<Rightarrow> int option"
  float_of_text :: "string \<Rightarrow> rat option"
  str_of_json :: "val \<Rightarrow> string"

subsection \<open>Steps\<close>

record metric_candidate =
  mc_category :: hypothesis_category
  mc_name :: string
  mc_rank :: nat
  mc_id :: string

record metric_selection =
  sn_decision :: string
  sn_selected :: "string option"
  sn_uncertainty :: "rat option"
  sn_scores :: "(string \<times> rat) list"

definition select_value :: string where "select_value = ''select''"

definition committed :: "metric_selection \<Rightarrow> bool" where
  "committed s = (sn_decision s = select_value \<and> sn_selected s \<noteq> None)"

record metric_step =
  ms_iteration :: int
  ms_strategy :: string
  ms_candidates :: "metric_candidate list"
  ms_action :: string
  ms_rejections :: "string list"
  ms_selection :: "metric_selection option"

definition deciding_actions :: "string set" where "deciding_actions = {''remediate'', ''stop''}"

definition is_deciding :: "metric_step \<Rightarrow> bool" where "is_deciding s = (ms_action s \<in> deciding_actions)"

definition python_int :: "json_casts \<Rightarrow> val \<Rightarrow> int result" where
  "python_int J v = (case v of
      VInt i \<Rightarrow> Inr i
    | VBool b \<Rightarrow> Inr (if b then 1 else 0)
    | VFloat q \<Rightarrow> Inr (if q < 0 then \<lceil>q\<rceil> else \<lfloor>q\<rfloor>)
    | VStr s \<Rightarrow> (case int_of_text J s of Some i \<Rightarrow> Inr i | None \<Rightarrow> Inl (ValueError ''int''))
    | _ \<Rightarrow> Inl (Foreign ''TypeError''))"

definition python_float :: "json_casts \<Rightarrow> val \<Rightarrow> rat result" where
  "python_float J v = (case v of
      VInt i \<Rightarrow> Inr (of_int i)
    | VBool b \<Rightarrow> Inr (if b then 1 else 0)
    | VFloat q \<Rightarrow> Inr q
    | VStr s \<Rightarrow> (case float_of_text J s of Some q \<Rightarrow> Inr q | None \<Rightarrow> Inl (ValueError ''float''))
    | _ \<Rightarrow> Inl (Foreign ''TypeError''))"

definition python_str :: "json_casts \<Rightarrow> val \<Rightarrow> string" where
  "python_str J v = (case v of VStr s \<Rightarrow> s | _ \<Rightarrow> str_of_json J v)"

definition str_at :: "json_casts \<Rightarrow> dict \<Rightarrow> string \<Rightarrow> string" where
  "str_at J d k = (case get d k of None \<Rightarrow> [] | Some v \<Rightarrow> python_str J v)"

text \<open>\<open>value or {}\<close> before a \<open>.get\<close>, and what \<open>value or ()\<close> iterates over.\<close>

definition object_or_empty :: "val option \<Rightarrow> dict result" where
  "object_or_empty v =
     (if \<not> truthy v then Inr [] else case v of Some (VDict d) \<Rightarrow> Inr d | _ \<Rightarrow> Inl (Foreign ''AttributeError''))"

definition elements_or_empty :: "val option \<Rightarrow> val list result" where
  "elements_or_empty v =
     (if \<not> truthy v then Inr [] else case v of
        Some (VList xs) \<Rightarrow> Inr xs
      | Some (VStr s) \<Rightarrow> Inr (map (\<lambda>c. VStr [c]) s)
      | Some (VDict d) \<Rightarrow> Inr (map (VStr \<circ> fst) d)
      | _ \<Rightarrow> Inl (Foreign ''TypeError''))"

definition category_of_json :: "val \<Rightarrow> hypothesis_category result" where
  "category_of_json v =
     (case find (\<lambda>c. v = VStr (category_value c))
        [CONSUMER_SATURATION, POISON_MESSAGE, STALE_CACHE, RUNAWAY_SAGA, TRANSIENT_DEPENDENCY, PERSISTENT_DATA_BUG,
         DEPLOY_REGRESSION, UNKNOWN, NO_FAULT, OUTBOX_STALL, RESOLVER_STALL, SAGA_COORDINATOR_STALL, DB_QUERY_LATENCY,
         DB_POOL_SATURATION, DOWNSTREAM_DEPENDENCY, REDIS_SATURATION, READ_MODEL_DRIFT, RESOURCE_EXHAUSTION, DAG_PAUSED]
      of Some c \<Rightarrow> Inr c | None \<Rightarrow> Inl (ValueError ''HypothesisCategory''))"

definition candidate_of_json :: "json_casts \<Rightarrow> nat \<Rightarrow> val \<Rightarrow> metric_candidate result" where
  "candidate_of_json J rank v = (case v of
      VDict d \<Rightarrow> (case get d ''category'' of
          None \<Rightarrow> Inl (KeyError ''category'')
        | Some c \<Rightarrow> bind_result (category_of_json c) (\<lambda>cat. Inr
            \<lparr>mc_category = cat, mc_name = str_at J d ''name'', mc_rank = rank, mc_id = str_at J d ''candidate_id''\<rparr>))
    | _ \<Rightarrow> Inl (Foreign ''TypeError''))"

fun candidates_of_json :: "json_casts \<Rightarrow> nat \<Rightarrow> val list \<Rightarrow> metric_candidate list result" where
  "candidates_of_json J rank [] = Inr []"
| "candidates_of_json J rank (v # vs) =
     bind_result (candidate_of_json J rank v) (\<lambda>c.
       bind_result (candidates_of_json J (Suc rank) vs) (\<lambda>cs. Inr (c # cs)))"

fun scores_of_json :: "json_casts \<Rightarrow> dict \<Rightarrow> (string \<times> rat) list result" where
  "scores_of_json J [] = Inr []"
| "scores_of_json J ((k, v) # d) =
     bind_result (python_float J v) (\<lambda>q. bind_result (scores_of_json J d) (\<lambda>qs. Inr ((k, q) # qs)))"

text \<open>\<open>_selection_of\<close>: an absent block and a \<open>null\<close> one both mean that no selector ran.\<close>

definition selection_of :: "json_casts \<Rightarrow> val option \<Rightarrow> metric_selection option result" where
  "selection_of J block = (case block of
      Some (VDict b) \<Rightarrow>
        (let unsure = (case get b ''uncertainty'' of
                None \<Rightarrow> Inr None | Some VNull \<Rightarrow> Inr None
              | Some v \<Rightarrow> bind_result (python_float J v) (\<lambda>q. Inr (Some q)));
             selected = (case get b ''selected_candidate_id'' of
                None \<Rightarrow> None | Some VNull \<Rightarrow> None | Some v \<Rightarrow> Some (python_str J v))
         in bind_result unsure (\<lambda>u.
              bind_result (object_or_empty (get b ''scores'')) (\<lambda>sc.
                bind_result (scores_of_json J sc) (\<lambda>qs. Inr (Some
                  \<lparr>sn_decision = str_at J b ''decision'', sn_selected = selected, sn_uncertainty = u, sn_scores = qs\<rparr>)))))
    | _ \<Rightarrow> Inr None)"

datatype trace_input = Live_record step_record | Trace_json dict

definition rank_candidates :: "candidate_record list \<Rightarrow> metric_candidate list" where
  "rank_candidates cs =
     map (\<lambda>(rank, c). \<lparr>mc_category = cnd_category c, mc_name = cnd_name c, mc_rank = rank, mc_id = cnd_id c\<rparr>)
       (enumerate 0 cs)"

definition step_of_record :: "step_record \<Rightarrow> metric_step" where
  "step_of_record r =
     \<lparr>ms_iteration = stp_iteration r, ms_strategy = stp_strategy r,
      ms_candidates = rank_candidates (stp_candidates r),
      ms_action = action_kind (move (stp_emitted r)), ms_rejections = stp_rejections r,
      ms_selection = map_option (\<lambda>s. \<lparr>sn_decision = slc_decision s, sn_selected = slc_selected s,
                                     sn_uncertainty = slc_uncertainty s, sn_scores = slc_scores s\<rparr>) (stp_selector r)\<rparr>"

definition step_of_json :: "json_casts \<Rightarrow> dict \<Rightarrow> metric_step result" where
  "step_of_json J d =
     bind_result (object_or_empty (get d ''emitted_step'')) (\<lambda>emitted.
     bind_result (case get d ''iteration'' of None \<Rightarrow> Inr 0 | Some v \<Rightarrow> python_int J v) (\<lambda>i.
     bind_result (elements_or_empty (get d ''candidate_set'')) (\<lambda>vs.
     bind_result (candidates_of_json J 0 vs) (\<lambda>cs.
     bind_result (object_or_empty (get emitted ''next_action'')) (\<lambda>action.
     bind_result (elements_or_empty (get d ''generation_rejections'')) (\<lambda>rejected.
     bind_result (selection_of J (get d ''selector'')) (\<lambda>sel. Inr
       \<lparr>ms_iteration = i, ms_strategy = str_at J d ''strategy'', ms_candidates = cs,
        ms_action = str_at J action ''kind'', ms_rejections = map (python_str J) rejected,
        ms_selection = sel\<rparr>)))))))"

definition step_of :: "json_casts \<Rightarrow> trace_input \<Rightarrow> metric_step result" where
  "step_of J r = (case r of Live_record s \<Rightarrow> Inr (step_of_record s) | Trace_json d \<Rightarrow> step_of_json J d)"

fun metric_steps_of :: "json_casts \<Rightarrow> trace_input list \<Rightarrow> metric_step list result" where
  "metric_steps_of J [] = Inr []"
| "metric_steps_of J (r # rs) = bind_result (step_of J r) (\<lambda>s. bind_result (metric_steps_of J rs) (\<lambda>ss. Inr (s # ss)))"

text \<open>The last step that ended the loop, else the last step of any kind.\<close>

definition deciding_step :: "metric_step list \<Rightarrow> metric_step option" where
  "deciding_step steps =
     (if steps = [] then None
      else let deciding = filter is_deciding steps
           in Some (if deciding \<noteq> [] then List.last deciding else List.last steps))"

subsection \<open>Generation\<close>

record pass_at_k_result =
  pk_k :: int
  pk_effective :: int
  pk_hit :: "bool option"

definition describe_at :: "string \<Rightarrow> int \<Rightarrow> int \<Rightarrow> bool option \<Rightarrow> string \<Rightarrow> summary" where
  "describe_at measured k effective hit because = (case hit of
      None \<Rightarrow> Say ''{}{}: not scored - {}'' [Word (measured @ ''@''), Count k, Word because]
    | Some h \<Rightarrow> Say ''{}{}: {}{}'' [Word (measured @ ''@''), Count k, Word (if h then ''hit'' else ''miss''),
        if effective = k then Word [] else Say '' (capped at {})'' [Count effective]])"

definition no_set :: string where "no_set = ''the run produced no candidate set''"

definition describe_pass :: "pass_at_k_result \<Rightarrow> summary" where
  "describe_pass p = describe_at ''pass'' (pk_k p) (pk_effective p) (pk_hit p) no_set"

definition in_top :: "int \<Rightarrow> metric_candidate \<Rightarrow> bool" where "in_top effective c = (int (mc_rank c) < effective)"

definition pass_at_k :: "metric_step list \<Rightarrow> hypothesis_category list \<Rightarrow> int \<Rightarrow> pass_at_k_result" where
  "pass_at_k steps truth k = (case deciding_step steps of
      None \<Rightarrow> \<lparr>pk_k = k, pk_effective = 0, pk_hit = None\<rparr>
    | Some s \<Rightarrow>
        (if ms_candidates s = [] then \<lparr>pk_k = k, pk_effective = 0, pk_hit = None\<rparr>
         else let effective = min k (int (length (ms_candidates s)))
              in \<lparr>pk_k = k, pk_effective = effective,
                  pk_hit = Some (list_ex (\<lambda>c. mc_category c \<in> set truth) (filter (in_top effective) (ms_candidates s)))\<rparr>))"

fun first_appearance :: "metric_step list \<Rightarrow> hypothesis_category list \<Rightarrow> int option" where
  "first_appearance [] truth = None"
| "first_appearance (s # steps) truth =
     (if list_ex (\<lambda>c. mc_category c \<in> set truth) (ms_candidates s) then Some (ms_iteration s)
      else first_appearance steps truth)"

definition cross_step_duplicate_rate :: "metric_step list \<Rightarrow> rat option" where
  "cross_step_duplicate_rate steps =
     (let labels = concat (map (\<lambda>s. map (\<lambda>c. (mc_category c, mc_name c)) (ms_candidates s)) steps)
      in if labels = [] then None
         else Some (1 - of_nat (length (remdups labels)) / of_nat (length labels)))"

definition within_step_rejection_rate :: "metric_step list \<Rightarrow> rat option" where
  "within_step_rejection_rate steps =
     (if steps = [] then None
      else let rejected = sum_list (map (length \<circ> ms_rejections) steps)
           in Some (of_nat rejected / of_nat (rejected + length steps)))"

definition count_reason :: "string \<Rightarrow> (string \<times> nat) list \<Rightarrow> (string \<times> nat) list" where
  "count_reason reason counted =
     AList.update reason ((case map_of counted reason of None \<Rightarrow> 0 | Some n \<Rightarrow> n) + 1) counted"

definition rejections_by_class :: "metric_step list \<Rightarrow> (string \<times> nat) list" where
  "rejections_by_class steps = sort_key fst (fold count_reason (concat (map ms_rejections steps)) [])"

record candidate_metrics =
  cm_strategy :: string
  cm_steps :: nat
  cm_generated :: nat
  cm_pass :: "pass_at_k_result list"
  cm_appeared :: "bool option"
  cm_first :: "int option"
  cm_duplicates :: "rat option"
  cm_rejection_rate :: "rat option"
  cm_rejections :: "(string \<times> nat) list"

definition reported_ks :: "int list" where "reported_ks = [1, 2, 4, 8]"

definition pass_at :: "candidate_metrics \<Rightarrow> int \<Rightarrow> pass_at_k_result result" where
  "pass_at m k = (case find (\<lambda>p. pk_k p = k) (cm_pass m) of Some p \<Rightarrow> Inr p | None \<Rightarrow> Inl (KeyError ''pass@k''))"

definition strategy_of :: "metric_step list \<Rightarrow> string" where
  "strategy_of steps = (case steps of [] \<Rightarrow> [] | s # _ \<Rightarrow> ms_strategy s)"

definition metrics_of :: "metric_step list \<Rightarrow> hypothesis_category list \<Rightarrow> int list \<Rightarrow> candidate_metrics" where
  "metrics_of steps truth ks =
     (let generated = sum_list (map (length \<circ> ms_candidates) steps);
          appeared = first_appearance steps truth
      in \<lparr>cm_strategy = strategy_of steps, cm_steps = length steps, cm_generated = generated,
          cm_pass = map (pass_at_k steps truth) ks,
          cm_appeared = (if generated = 0 then None else Some (appeared \<noteq> None)), cm_first = appeared,
          cm_duplicates = cross_step_duplicate_rate steps, cm_rejection_rate = within_step_rejection_rate steps,
          cm_rejections = rejections_by_class steps\<rparr>)"

definition measure_generation :: "json_casts \<Rightarrow> trace_input list \<Rightarrow> hypothesis_category list \<Rightarrow> int list \<Rightarrow> candidate_metrics result" where
  "measure_generation J records truth ks =
     bind_result (metric_steps_of J records) (\<lambda>steps. Inr (metrics_of steps truth ks))"

subsection \<open>Worlds\<close>

record world_id =
  wk_scenario :: string
  wk_mode :: string
  wk_instance :: string

definition world_key :: "string \<Rightarrow> string \<Rightarrow> string \<Rightarrow> string option \<Rightarrow> world_id result" where
  "world_key scenario execution_mode archive fingerprint =
     (if execution_mode = ''canned''
        then Inr \<lparr>wk_scenario = scenario, wk_mode = execution_mode, wk_instance = ''fixtures''\<rparr>
      else if execution_mode = ''live''
        then Inr \<lparr>wk_scenario = scenario, wk_mode = execution_mode, wk_instance = archive\<rparr>
      else if execution_mode = ''recorded''
        then (case fingerprint of
            Some (c # cs) \<Rightarrow> Inr \<lparr>wk_scenario = scenario, wk_mode = execution_mode, wk_instance = c # cs\<rparr>
          | _ \<Rightarrow> Inl (ValueError ''no world fingerprint''))
      else Inl (ValueError ''unknown execution mode''))"

subsection \<open>Selection\<close>

record selected_at_k_result =
  sk_k :: int
  sk_effective :: int
  sk_hit :: "bool option"
  sk_because :: string

definition describe_selected :: "selected_at_k_result \<Rightarrow> summary" where
  "describe_selected s = describe_at ''selected'' (sk_k s) (sk_effective s) (sk_hit s) (sk_because s)"

definition candidate_taken :: "metric_step \<Rightarrow> metric_selection \<Rightarrow> metric_candidate option" where
  "candidate_taken s sel = find (\<lambda>c. Some (mc_id c) = sn_selected sel) (ms_candidates s)"

definition selected_at_k :: "metric_step list \<Rightarrow> hypothesis_category list \<Rightarrow> int \<Rightarrow> selected_at_k_result" where
  "selected_at_k steps truth k = (case deciding_step steps of
      None \<Rightarrow> \<lparr>sk_k = k, sk_effective = 0, sk_hit = None, sk_because = no_set\<rparr>
    | Some s \<Rightarrow>
        (if ms_candidates s = [] then \<lparr>sk_k = k, sk_effective = 0, sk_hit = None, sk_because = no_set\<rparr>
         else let effective = min k (int (length (ms_candidates s)));
                  answer = (\<lambda>hit because. \<lparr>sk_k = k, sk_effective = effective, sk_hit = hit, sk_because = because\<rparr>)
              in case ms_selection s of
                   None \<Rightarrow> answer None ''no candidate_selector ran on this step''
                 | Some sel \<Rightarrow>
                     (if \<not> committed sel then answer (Some False) []
                      else case candidate_taken s sel of
                             None \<Rightarrow> answer (Some False) []
                           | Some c \<Rightarrow> answer (Some (in_top effective c \<and> mc_category c \<in> set truth)) [])))"

record oracle_gap =
  og_k :: int
  og_world :: world_id
  og_pass :: "bool option"
  og_selected :: "bool option"
  og_gap :: "int option"
  og_because :: string

definition oracle_gap_at_k ::
    "metric_step list \<Rightarrow> hypothesis_category list \<Rightarrow> int \<Rightarrow> world_id \<Rightarrow> world_id option \<Rightarrow> oracle_gap result" where
  "oracle_gap_at_k steps truth k world against =
     (if against \<noteq> None \<and> against \<noteq> Some world then Inl (ValueError ''oracle gap across two worlds'')
      else let available = pass_at_k steps truth k; taken = selected_at_k steps truth k
           in case (pk_hit available, sk_hit taken) of
                (Some p, Some s) \<Rightarrow>
                  (let gap = of_bool p - of_bool s :: int
                   in if gap < 0 then Inl (ValueError ''selected@k hit while pass@k missed'')
                      else Inr \<lparr>og_k = k, og_world = world, og_pass = Some p, og_selected = Some s,
                                og_gap = Some gap, og_because = []\<rparr>)
              | (p, s) \<Rightarrow> Inr \<lparr>og_k = k, og_world = world, og_pass = p, og_selected = s, og_gap = None,
                             og_because = (if sk_because taken \<noteq> [] then sk_because taken else no_set)\<rparr>)"

record selection_metrics =
  sm_world :: world_id
  sm_strategy :: string
  sm_calls :: nat
  sm_selected :: "selected_at_k_result list"
  sm_gaps :: "oracle_gap list"
  sm_uncertainty :: "rat option"
  sm_was_right :: "bool option"
  sm_decision :: string

definition selected_at :: "selection_metrics \<Rightarrow> int \<Rightarrow> selected_at_k_result result" where
  "selected_at m k = (case find (\<lambda>s. sk_k s = k) (sm_selected m) of
      Some s \<Rightarrow> Inr s | None \<Rightarrow> Inl (KeyError ''selected@k''))"

fun gaps_at :: "metric_step list \<Rightarrow> hypothesis_category list \<Rightarrow> world_id \<Rightarrow> int list \<Rightarrow> oracle_gap list result" where
  "gaps_at steps truth world [] = Inr []"
| "gaps_at steps truth world (k # ks) =
     bind_result (oracle_gap_at_k steps truth k world None) (\<lambda>g.
       bind_result (gaps_at steps truth world ks) (\<lambda>gs. Inr (g # gs)))"

definition selection_metrics_of ::
    "metric_step list \<Rightarrow> hypothesis_category list \<Rightarrow> world_id \<Rightarrow> int list \<Rightarrow> selection_metrics result" where
  "selection_metrics_of steps truth world ks =
     (let selection = (case deciding_step steps of None \<Rightarrow> None | Some s \<Rightarrow> ms_selection s);
          taken = selected_at_k steps truth 1
      in bind_result (gaps_at steps truth world ks) (\<lambda>gs. Inr
           \<lparr>sm_world = world, sm_strategy = strategy_of steps,
            sm_calls = length (filter (\<lambda>s. ms_selection s \<noteq> None) steps),
            sm_selected = map (selected_at_k steps truth) ks, sm_gaps = gs,
            sm_uncertainty = (case selection of None \<Rightarrow> None | Some sel \<Rightarrow> sn_uncertainty sel),
            sm_was_right = sk_hit taken,
            sm_decision = (case selection of None \<Rightarrow> [] | Some sel \<Rightarrow> sn_decision sel)\<rparr>))"

definition measure_selection ::
    "json_casts \<Rightarrow> trace_input list \<Rightarrow> hypothesis_category list \<Rightarrow> world_id \<Rightarrow> int list \<Rightarrow> selection_metrics result" where
  "measure_selection J records truth world ks =
     bind_result (metric_steps_of J records) (\<lambda>steps. selection_metrics_of steps truth world ks)"

end
