(* ===== verification/Metric_Claims.thy ===== *)
theory Metric_Claims
  imports Candidate_Metrics
begin

text \<open>
  What the research numbers mean: reading the archive gives what the live records gave, ranks are
  positions, a hit only improves with k, and the oracle gap is exactly a correct candidate in reach that
  the selector did not take.
\<close>

subsection \<open>The archive\<close>

lemma category_of_value [simp]: "category_of_json (VStr (category_value c)) = Inr c"
  by (cases c) (simp_all add: category_of_json_def)

lemma candidate_of_record [simp]:
  "candidate_of_json J rank (VDict (candidate_as_record c)) =
     Inr \<lparr>mc_category = cnd_category c, mc_name = cnd_name c, mc_rank = rank, mc_id = cnd_id c\<rparr>"
  by (simp add: candidate_of_json_def candidate_as_record_def str_at_def python_str_def)

lemma candidates_of_records:
  "candidates_of_json J rank (map (VDict \<circ> candidate_as_record) cs) =
     Inr (map (\<lambda>(i, c). \<lparr>mc_category = cnd_category c, mc_name = cnd_name c, mc_rank = i, mc_id = cnd_id c\<rparr>)
            (enumerate rank cs))"
  by (induction cs arbitrary: rank) simp_all

lemma scores_of_float_dict: "scores_of_json J (map (\<lambda>(k, q). (k, VFloat q)) d) = Inr d"
  by (induction d) (auto simp: python_float_def)

lemma elements_of_list [simp]: "elements_or_empty (Some (VList vs)) = Inr vs"
  by (simp add: elements_or_empty_def)

lemma object_of_dict [simp]: "object_or_empty (Some (VDict d)) = Inr d"
  by (simp add: object_or_empty_def)

lemma selection_of_record:
  "selection_of J (Some (null_or (VDict \<circ> selector_as_record) sel)) =
     Inr (map_option (\<lambda>s. \<lparr>sn_decision = slc_decision s, sn_selected = slc_selected s,
                         sn_uncertainty = slc_uncertainty s, sn_scores = slc_scores s\<rparr>) sel)"
proof (cases sel)
  case (Some s)
  then show ?thesis
    by (cases "slc_uncertainty s"; cases "slc_selected s")
      (simp_all add: selection_of_def selector_as_record_def float_dict_def scores_of_float_dict python_float_def
        str_at_def python_str_def)
qed (simp add: selection_of_def)

lemma step_of_trace_record: "step_of_json J (as_trace_record r) = Inr (step_of_record r)"
proof -
  have kind: "str_at J (dump_action mv) ''kind'' = action_kind mv" for mv
    by (simp add: str_at_def dump_action_kind python_str_def)
  have act: "get (dump_step st) ''next_action'' = Some (VDict (dump_action (move st)))" for st
    by (simp add: dump_step_def)
  have strategy: "str_at J (as_trace_record r) ''strategy'' = stp_strategy r"
    by (simp add: str_at_def as_trace_record_reads python_str_def)
  have strs: "map (python_str J) (map VStr xs) = xs" for xs
    by (simp add: python_str_def comp_def)
  show ?thesis
    by (simp only: step_of_json_def as_trace_record_reads object_of_dict elements_of_list bind_result_simps act
        candidates_of_records selection_of_record option.case)
      (simp add: python_int_def kind strategy strs step_of_record_def rank_candidates_def del: map_map)
qed

lemma metric_steps_of_live: "metric_steps_of J (map Live_record rs) = Inr (map step_of_record rs)"
  by (induction rs) (simp_all add: step_of_def)

lemma metric_steps_of_trace: "metric_steps_of J (map (\<lambda>r. Trace_json (as_trace_record r)) rs) = Inr (map step_of_record rs)"
  by (induction rs) (simp_all add: step_of_def step_of_trace_record)

subsection \<open>Ranks are positions\<close>

definition ranks_are_positions :: "metric_step \<Rightarrow> bool" where
  "ranks_are_positions s = (map mc_rank (ms_candidates s) = [0..<length (ms_candidates s)])"

lemma candidates_of_json_ranks:
  "candidates_of_json J rank vs = Inr cs \<Longrightarrow> map mc_rank cs = [rank..<rank + length cs]"
proof (induction vs arbitrary: rank cs)
  case (Cons v vs)
  from Cons.prems obtain c ds where
    c: "candidate_of_json J rank v = Inr c" and ds: "candidates_of_json J (Suc rank) vs = Inr ds" and cs: "cs = c # ds"
    by (auto simp: bind_result_Inr_iff)
  from c have "mc_rank c = rank"
    by (auto simp: candidate_of_json_def bind_result_Inr_iff split: val.splits option.splits)
  with Cons.IH[OF ds] cs show ?case by (simp add: upt_conv_Cons del: upt_Suc)
qed simp

lemma step_of_ranks: "step_of J r = Inr s \<Longrightarrow> ranks_are_positions s"
proof (cases r)
  case (Live_record x)
  assume "step_of J r = Inr s"
  with Live_record have s: "s = step_of_record x" by (simp add: step_of_def)
  have "map mc_rank (rank_candidates cs) = [0..<length cs]" for cs
    by (simp add: rank_candidates_def comp_def case_prod_beta)
  with s show ?thesis by (simp add: ranks_are_positions_def step_of_record_def rank_candidates_def)
next
  case (Trace_json d)
  assume "step_of J r = Inr s"
  with Trace_json obtain vs cs where "candidates_of_json J 0 vs = Inr cs" "ms_candidates s = cs"
    by (auto simp: step_of_def step_of_json_def bind_result_Inr_iff)
  with candidates_of_json_ranks[of J 0 vs cs] show ?thesis by (simp add: ranks_are_positions_def)
qed

lemma metric_steps_of_ranks: "metric_steps_of J rs = Inr steps \<Longrightarrow> s \<in> set steps \<Longrightarrow> ranks_are_positions s"
  by (induction rs arbitrary: steps) (auto simp: bind_result_Inr_iff dest: step_of_ranks)

lemma deciding_step_in: "deciding_step steps = Some s \<Longrightarrow> s \<in> set steps"
proof -
  assume d: "deciding_step steps = Some s"
  have "filter is_deciding steps \<noteq> [] \<Longrightarrow> List.last (filter is_deciding steps) \<in> set steps"
    using last_in_set[of "filter is_deciding steps"] by auto
  with d show ?thesis by (auto simp: deciding_step_def Let_def split: if_splits)
qed

lemma top_of_ranked:
  assumes "ranks_are_positions s"
  shows "c \<in> set (ms_candidates s) \<and> in_top (min k (int (length (ms_candidates s)))) c \<longleftrightarrow> c \<in> set (take (nat k) (ms_candidates s))"
proof -
  let ?cs = "ms_candidates s"
  have at: "mc_rank (?cs ! i) = i" if "i < length ?cs" for i
    using assms that nth_map[of i ?cs mc_rank] by (simp add: ranks_are_positions_def)
  show ?thesis
  proof
    assume l: "c \<in> set ?cs \<and> in_top (min k (int (length ?cs))) c"
    then obtain i where i: "i < length ?cs" "?cs ! i = c" by (auto simp: in_set_conv_nth)
    with l at[of i] have "i < nat k" by (auto simp: in_top_def)
    with i show "c \<in> set (take (nat k) ?cs)" by (auto simp: in_set_conv_nth intro!: exI[of _ i])
  next
    assume "c \<in> set (take (nat k) ?cs)"
    then obtain i where i: "i < length ?cs" "i < nat k" "?cs ! i = c" by (auto simp: in_set_conv_nth)
    then have "c \<in> set ?cs" by auto
    with i at[of i] show "c \<in> set ?cs \<and> in_top (min k (int (length ?cs))) c" by (auto simp: in_top_def)
  qed
qed

subsection \<open>Hits\<close>

lemma pass_hit_iff:
  "pk_hit (pass_at_k steps truth k) = Some True \<longleftrightarrow>
     (\<exists>s c. deciding_step steps = Some s \<and> c \<in> set (ms_candidates s) \<and> mc_category c \<in> set truth
        \<and> in_top (min k (int (length (ms_candidates s)))) c)"
  by (cases "deciding_step steps") (auto simp: pass_at_k_def Let_def list_ex_iff)

lemma candidate_taken_in: "candidate_taken s sel = Some c \<Longrightarrow> c \<in> set (ms_candidates s)"
  by (auto simp: candidate_taken_def find_Some_iff)

lemma selected_hit_iff:
  "sk_hit (selected_at_k steps truth k) = Some True \<longleftrightarrow>
     (\<exists>s sel c. deciding_step steps = Some s \<and> ms_selection s = Some sel \<and> committed sel
        \<and> candidate_taken s sel = Some c \<and> c \<in> set (ms_candidates s)
        \<and> in_top (min k (int (length (ms_candidates s)))) c \<and> mc_category c \<in> set truth)"
proof (cases "deciding_step steps")
  case (Some s)
  then show ?thesis
    by (cases "ms_selection s")
      (auto simp: selected_at_k_def Let_def split: option.splits dest: candidate_taken_in)
qed (simp add: selected_at_k_def)

lemma in_top_mono: "in_top (min j n) c \<Longrightarrow> j \<le> k \<Longrightarrow> in_top (min k n) c"
  by (simp add: in_top_def)

lemma first_appearance_iff:
  "first_appearance steps truth = None \<longleftrightarrow> (\<forall>s\<in>set steps. \<forall>c\<in>set (ms_candidates s). mc_category c \<notin> set truth)"
  by (induction steps) (auto simp: list_ex_iff)

lemma selected_scored_iff:
  "sk_hit (selected_at_k steps truth k) = None \<longleftrightarrow>
     (case deciding_step steps of None \<Rightarrow> True | Some s \<Rightarrow> ms_candidates s = [] \<or> ms_selection s = None)"
  by (auto simp: selected_at_k_def Let_def split: option.splits)

lemma pass_scored_iff:
  "pk_hit (pass_at_k steps truth k) = None \<longleftrightarrow> (case deciding_step steps of None \<Rightarrow> True | Some s \<Rightarrow> ms_candidates s = [])"
  by (auto simp: pass_at_k_def Let_def split: option.splits)

lemma selection_is_available:
  "sk_hit (selected_at_k steps truth k) = Some True \<Longrightarrow> pk_hit (pass_at_k steps truth k) = Some True"
  unfolding pass_hit_iff selected_hit_iff by blast

text \<open>So the refusal of a negative gap is never taken.\<close>

lemma paired_gap_is_computed:
  "against = None \<or> against = Some world \<Longrightarrow> \<exists>g. oracle_gap_at_k steps truth k world against = Inr g"
  using selection_is_available[of steps truth k]
  by (auto simp: oracle_gap_at_k_def Let_def split: option.splits)


subsection \<open>The claims\<close>

definition sample_metric_candidate :: "hypothesis_category \<Rightarrow> string \<Rightarrow> candidate_record" where
  "sample_metric_candidate cat i =
     \<lparr>cnd_id = i, cnd_category = cat, cnd_name = i, cnd_confidence = 1 / 2, cnd_for = [], cnd_against = [],
      cnd_probe = None, cnd_call_id = []\<rparr>"

text \<open>A stopped step whose selector took \<open>taken\<close> out of a wrong first and a right second candidate.\<close>

definition sample_step_record :: "string \<Rightarrow> step_record" where
  "sample_step_record taken =
     \<lparr>stp_id = ''s'', stp_run_id = ''r'', stp_iteration = 3, stp_strategy = ''best_of_n_selector'', stp_model = ''m'',
      stp_candidates = [sample_metric_candidate STALE_CACHE ''c1'', sample_metric_candidate CONSUMER_SATURATION ''c2''],
      stp_selector = Some \<lparr>slc_selected = Some taken, slc_scores = [(''c1'', 1 / 4), (''c2'', 3 / 4)],
                           slc_uncertainty = Some (1 / 10), slc_decision = ''select'', slc_call_id = []\<rparr>,
      stp_revision = None, stp_search = None, stp_ladder = None,
      stp_emitted = \<lparr>ranked = [], move = Stop ''known''\<rparr>, stp_before = [], stp_after = [], stp_incidents = None,
      stp_calls = [], stp_input_tokens = None, stp_context_chars = None, stp_rejections = [''duplicate_candidate'']\<rparr>"

definition sample_metric_step :: "string \<Rightarrow> metric_step" where
  "sample_metric_step taken = step_of_record (sample_step_record taken)"

definition sample_casts :: json_casts where
  "sample_casts = \<lparr>int_of_text = (\<lambda>_. None), float_of_text = (\<lambda>_. None), str_of_json = (\<lambda>_. [])\<rparr>"

definition sample_metric_world :: world_id where
  "sample_metric_world = \<lparr>wk_scenario = ''lag'', wk_mode = ''canned'', wk_instance = ''fixtures''\<rparr>"

lemmas sample_metric_defs =
  sample_metric_step_def sample_step_record_def sample_metric_candidate_def step_of_record_def rank_candidates_def
  deciding_step_def is_deciding_def deciding_actions_def committed_def select_value_def candidate_taken_def

lemma sample_metric_steps:
  "metric_steps_of sample_casts [Live_record (sample_step_record taken)] = Inr [sample_metric_step taken]"
  by (simp add: step_of_def sample_metric_step_def)

text \<open>
  A run's numbers can be recomputed from its evidence: measured over the JSON its trace holds, every
  generation metric and every selection metric of a run, refusals included, is the one measured over the live
  step records, and the generation metrics are always produced.
\<close>

lemma metrics_survive_the_archive:
  "measure_generation J (map (\<lambda>r. Trace_json (as_trace_record r)) rs) truth ks = Inr (metrics_of (map step_of_record rs) truth ks)
   \<and> measure_generation J (map Live_record rs) truth ks = Inr (metrics_of (map step_of_record rs) truth ks)
   \<and> measure_selection J (map (\<lambda>r. Trace_json (as_trace_record r)) rs) truth world ks
     = measure_selection J (map Live_record rs) truth world ks"
  by (simp add: measure_generation_def measure_selection_def metric_steps_of_live metric_steps_of_trace)

text \<open>C37: for a run whose deciding step held candidates and a selection, the oracle gap at k is computed,
  never refused as negative, and it is 1 exactly when a correct cause was among the first k candidates
  and the selector did not commit to a correct one among them; otherwise it is 0.\<close>

theorem oracle_gap_is_a_missed_choice:
  assumes steps: "metric_steps_of J records = Inr steps" and decides: "deciding_step steps = Some s"
    and set: "ms_candidates s \<noteq> []" and sel: "ms_selection s = Some sel"
  shows "\<exists>g. oracle_gap_at_k steps truth k world None = Inr g
    \<and> og_gap g = Some (of_bool
        ((\<exists>c \<in> set (take (nat k) (ms_candidates s)). mc_category c \<in> set truth)
         \<and> \<not> (committed sel \<and> (\<exists>c \<in> set (take (nat k) (ms_candidates s)).
               candidate_taken s sel = Some c \<and> mc_category c \<in> set truth))))"
proof -
  let ?top = "set (take (nat k) (ms_candidates s))"
  have pos: "ranks_are_positions s" using metric_steps_of_ranks[OF steps deciding_step_in[OF decides]] .
  from set sel decides obtain p t where
    p: "pk_hit (pass_at_k steps truth k) = Some p" and t: "sk_hit (selected_at_k steps truth k) = Some t"
    using pass_scored_iff[of steps truth k] selected_scored_iff[of steps truth k] by fastforce
  have p_iff: "p = (\<exists>c \<in> ?top. mc_category c \<in> set truth)"
    using pass_hit_iff[of steps truth k] p decides top_of_ranked[OF pos, of _ k] by auto
  have t_iff: "t = (committed sel \<and> (\<exists>c \<in> ?top. candidate_taken s sel = Some c \<and> mc_category c \<in> set truth))"
    using selected_hit_iff[of steps truth k] t decides sel top_of_ranked[OF pos, of _ k] by auto
  have "t \<Longrightarrow> p" using p_iff t_iff by blast
  then have "\<exists>g. oracle_gap_at_k steps truth k world None = Inr g \<and> og_gap g = Some (of_bool (p \<and> \<not> t))"
    by (auto simp: oracle_gap_at_k_def p t)
  with p_iff t_iff show ?thesis by simp
qed

theorem oracle_gap_is_a_missed_choice_witness:
  "\<exists>g. oracle_gap_at_k [sample_metric_step ''c1''] [CONSUMER_SATURATION] 2 sample_metric_world None = Inr g \<and> og_gap g = Some 1"
  using oracle_gap_is_a_missed_choice[of sample_casts _ "[sample_metric_step ''c1'']" "sample_metric_step ''c1''"
      "the (ms_selection (sample_metric_step ''c1''))" "[CONSUMER_SATURATION]" 2 sample_metric_world, OF sample_metric_steps]
  by (simp add: sample_metric_defs numeral_2_eq_2)

text \<open>
  A hit only improves with k: a selection that hits at j also hits at every larger k, a correct cause was then
  available in the first j and in the first k candidates, and the run reports that one appeared.
\<close>

lemma hits_improve_with_k:
  assumes "sk_hit (selected_at_k steps truth j) = Some True" and "j \<le> k"
  shows "sk_hit (selected_at_k steps truth k) = Some True"
    and "pk_hit (pass_at_k steps truth j) = Some True" and "pk_hit (pass_at_k steps truth k) = Some True"
    and "cm_appeared (metrics_of steps truth ks) = Some True"
proof -
  show k: "sk_hit (selected_at_k steps truth k) = Some True"
    using assms in_top_mono[of j _ _ k] unfolding selected_hit_iff by blast
  show "pk_hit (pass_at_k steps truth j) = Some True" "pk_hit (pass_at_k steps truth k) = Some True"
    using assms(1) k by (simp_all add: selection_is_available)
  from k obtain s c where s: "s \<in> set steps" "c \<in> set (ms_candidates s)" "mc_category c \<in> set truth"
    unfolding selected_hit_iff by (blast dest: deciding_step_in)
  then have appeared: "first_appearance steps truth \<noteq> None" by (auto simp: first_appearance_iff)
  have "\<exists>n\<in>set steps. ms_candidates n \<noteq> []" using s by (auto intro!: bexI[of _ s])
  then have "sum_list (map (length \<circ> ms_candidates) steps) \<noteq> 0" by simp
  with appeared show "cm_appeared (metrics_of steps truth ks) = Some True"
    by (simp add: metrics_of_def Let_def)
qed

lemma hits_improve_with_k_witness:
  "pk_hit (pass_at_k [sample_metric_step ''c2''] [CONSUMER_SATURATION] 4) = Some True
   \<and> cm_appeared (metrics_of [sample_metric_step ''c2''] [CONSUMER_SATURATION] reported_ks) = Some True"
proof -
  have "sk_hit (selected_at_k [sample_metric_step ''c2''] [CONSUMER_SATURATION] 2) = Some True" by code_simp
  from hits_improve_with_k(3,4)[OF this, of 4] show ?thesis by simp
qed

text \<open>
  The verdict a selector's stated uncertainty is calibrated against is its choice at k = 1: it is right
  exactly when the selector committed to the first-ranked candidate and that candidate is correct, so
  committing to a correct candidate ranked lower is recorded as wrong.
\<close>

lemma calibration_reads_the_first_choice:
  assumes steps: "metric_steps_of J records = Inr steps" and decides: "deciding_step steps = Some s"
    and set: "ms_candidates s \<noteq> []" and sel: "ms_selection s = Some sel"
    and m: "measure_selection J records truth world ks = Inr m"
  shows "sm_uncertainty m = sn_uncertainty sel"
    and "sm_was_right m = Some (committed sel \<and> candidate_taken s sel = Some (hd (ms_candidates s))
           \<and> mc_category (hd (ms_candidates s)) \<in> set truth)"
proof -
  from m steps decides sel show "sm_uncertainty m = sn_uncertainty sel"
    by (auto simp: measure_selection_def selection_metrics_of_def Let_def bind_result_Inr_iff)
  have pos: "ranks_are_positions s" using metric_steps_of_ranks[OF steps deciding_step_in[OF decides]] .
  from set obtain c cs where cs: "ms_candidates s = c # cs" by (cases "ms_candidates s") auto
  have "sm_was_right m = sk_hit (selected_at_k steps truth 1)"
    using m steps by (auto simp: measure_selection_def selection_metrics_of_def Let_def bind_result_Inr_iff)
  moreover obtain t where t: "sk_hit (selected_at_k steps truth 1) = Some t"
    using set sel decides selected_scored_iff[of steps truth 1] by fastforce
  moreover have "t = (committed sel \<and> candidate_taken s sel = Some c \<and> mc_category c \<in> set truth)"
  proof -
    have first: "x \<in> set (ms_candidates s) \<and> in_top (min 1 (int (length (ms_candidates s)))) x \<longleftrightarrow> x = c" for x
      using top_of_ranked[OF pos, of x 1] by (simp add: cs)
    have hit: "t = (committed sel \<and> (\<exists>x. candidate_taken s sel = Some x \<and> (x \<in> set (ms_candidates s)
        \<and> in_top (min 1 (int (length (ms_candidates s)))) x) \<and> mc_category x \<in> set truth))"
      using selected_hit_iff[of steps truth 1] by (simp add: t decides sel)
    show ?thesis using hit unfolding first by blast
  qed
  ultimately show "sm_was_right m = Some (committed sel \<and> candidate_taken s sel = Some (hd (ms_candidates s))
      \<and> mc_category (hd (ms_candidates s)) \<in> set truth)"
    by (simp add: cs)
qed

lemma calibration_reads_the_first_choice_witness:
  "\<exists>m. measure_selection sample_casts [Live_record (sample_step_record ''c2'')] [CONSUMER_SATURATION] sample_metric_world [2] = Inr m
    \<and> sk_hit (hd (sm_selected m)) = Some True \<and> sm_was_right m = Some False"
proof -
  let ?s = "sample_metric_step ''c2''"
  obtain m where m: "measure_selection sample_casts [Live_record (sample_step_record ''c2'')] [CONSUMER_SATURATION]
      sample_metric_world [2] = Inr m" and hit: "sk_hit (hd (sm_selected m)) = Some True"
  proof -
    have "case measure_selection sample_casts [Live_record (sample_step_record ''c2'')] [CONSUMER_SATURATION]
        sample_metric_world [2] of Inl _ \<Rightarrow> False | Inr m \<Rightarrow> sk_hit (hd (sm_selected m)) = Some True"
      by code_simp
    then show thesis using that by (auto split: sum.splits)
  qed
  have "sm_was_right m = Some False"
    using calibration_reads_the_first_choice(2)[OF sample_metric_steps _ _ _ m, of ?s "the (ms_selection ?s)"]
    by (simp add: sample_metric_defs)
  with m hit show ?thesis by blast
qed

end
