(* ===== verification/Spec2Isabelle.thy ===== *)
theory Spec2Isabelle
  imports Sample_Run Webhook_Claims Strategy_Claims Reward_Claims Grade_Claims Reporter_Claims Client_Claims Guard_Claims World_Claims Replay_Claims Metric_Claims
begin

text \<open>
  A verification library of the incident commander: the agent of \<^verbatim>\<open>src/src/incident_commander/\<close>
  that takes an alert from a webhook, investigates it with read-only tools, plans one remediation,
  executes it, verifies it and checkpoints every step.

  \<^bold>\<open>The program and its theories.\<close> An alert enters at \<^verbatim>\<open>api/app.py\<close>; a background worker drives
  one run of it through \<^verbatim>\<open>agent/loop.py\<close>, which dispatches on the run's state to a transition
  (triage, investigation, planning, remediation, verification), saves the result and goes on until a
  terminal state. Every theory models the files it names in its own opening text.

  \<^item> \<open>Prelude\<close>: JSON values, dictionaries, \<open>str.strip\<close>, exceptions and results, ledger texts.
  \<^item> \<open>Run_State\<close> (\<^verbatim>\<open>agent/state.py\<close>): the run, its budget, its ledger of evidence rows; the orders
    \<open>budget_le\<close> and \<open>run_le\<close> every step moves up.
  \<^item> \<open>Orchestrator\<close>, \<open>Run_Loop\<close> (\<^verbatim>\<open>agent/orchestrator.py\<close>, \<^verbatim>\<open>triage.py\<close>, \<^verbatim>\<open>loop.py\<close>): the state
    machine, its refinement \<open>machine_step\<close>, and the loop with budget exemption and crash path.
  \<^item> \<open>Accounting\<close> (\<^verbatim>\<open>llm/pricing.py\<close>, \<^verbatim>\<open>llm/repair.py\<close>, \<^verbatim>\<open>agent/accounting.py\<close>): prices, the one
    bounded re-ask, charging, and the split of the bill by role.
  \<^item> \<open>Config\<close>, \<open>Checkpoint\<close>, \<open>Durable_Run\<close> (\<^verbatim>\<open>config.py\<close>, \<^verbatim>\<open>persistence/\<close>, \<^verbatim>\<open>agent/factory.py\<close>): settings
    and their validators, both checkpointers, leases, run slots, and runs over a checkpointer.
  \<^item> \<open>Tool_Policy\<close> (\<^verbatim>\<open>tools/registry.py\<close>, \<^verbatim>\<open>policies.py\<close>, \<^verbatim>\<open>wire.py\<close>): input models, tiers, wiring.
  \<^item> \<open>Alert_Subject\<close>, \<open>Attribution\<close>, \<open>Post_Action\<close>: what an alert names, what readings say of it, and
    what a run may claim about a recovery.
  \<^item> \<open>Planner_Step\<close>, \<open>Investigation\<close> (\<^verbatim>\<open>agent/hypothesis.py\<close>, \<^verbatim>\<open>agent/investigation.py\<close>): one planner
    call and the investigation loop with its guards.
  \<^item> \<open>Candidates\<close>, \<open>Strategy_Arms\<close>, \<open>Search_Arm\<close>, \<open>Uncertainty\<close>, \<open>Adaptive_Arm\<close>
    (\<^verbatim>\<open>agent/candidates.py\<close>, \<^verbatim>\<open>selection.py\<close>, \<^verbatim>\<open>reflection.py\<close>, \<^verbatim>\<open>search.py\<close>, \<^verbatim>\<open>strategies/\<close>): the other
    inference arms and the registry that builds them.
  \<^item> \<open>Plan_Guards\<close>, \<open>Planning\<close>, \<open>Remediation\<close> (\<^verbatim>\<open>agent/remediation.py\<close>): the plan schema, its guards,
    planning with its refusal allowances, execution, and verification by polling.
  \<^item> \<open>Ingress\<close>, \<open>Worker\<close> (\<^verbatim>\<open>api/\<close>): signatures, skew, replay caches, the body cap, the ingress
    checkpoint, admission, resumption and the crash rail.
  \<^item> \<open>Thinking\<close>, \<open>Run_Reporting\<close>, \<open>Reporter\<close> (\<^verbatim>\<open>agent/thinking.py\<close>, \<^verbatim>\<open>agent/run_reporting.py\<close>): what a run
    publishes of its reasoning, and the fail-open reporter that shows it to the platform's console.
  \<^item> \<open>Mcp_Client\<close>, \<open>Llm_Client\<close> (\<^verbatim>\<open>tools/mcp_client.py\<close>, \<^verbatim>\<open>llm/client.py\<close>, \<^verbatim>\<open>llm/structured.py\<close>): the two
    clients over one HTTP post and one SDK call, with retries, the lab's label, tracing and billing.
  \<^item> \<open>Root_Cause\<close>, \<open>Briefing\<close> (\<^verbatim>\<open>agent/incidents.py\<close>, \<^verbatim>\<open>agent/briefing.py\<close>): the incidents a run asserts
    and the briefing it hands over.
  \<^item> \<open>Text_Scan\<close>, \<open>Briefing_Grader\<close>, \<open>Expectation\<close>, \<open>Grader\<close> (\<^verbatim>\<open>evals/graders/\<close>): the checks on a
    briefing's prose, what a scenario may expect, and the eight graded dimensions.
  \<^item> \<open>Reward\<close>, \<open>Run_Report\<close> (\<^verbatim>\<open>evals/reward.py\<close>, \<^verbatim>\<open>evals/runner.py\<close>, \<^verbatim>\<open>evals/regression.py\<close>): the reward of
    one trajectory, the report of a suite, and the regression gate over two reports.
  \<^item> \<open>Guards\<close> (\<^verbatim>\<open>evals/guards.py\<close>, \<^verbatim>\<open>evals/runner.py\<close>): the probes of the tokens a stage holds, the scan of
    the audit log while it runs, and the stage around them with its exit codes.
  \<^item> \<open>Scenario_World\<close>, \<open>World_Lifecycle\<close>, \<open>Scenario_Run\<close> (\<^verbatim>\<open>evals/scenarios/schema.py\<close>, \<^verbatim>\<open>evals/preconditions.py\<close>,
    \<^verbatim>\<open>evals/chaos_hooks.py\<close>, \<^verbatim>\<open>evals/runner.py\<close>): the fault a scenario manufactures, its premise and teardown, and one
    scenario from the refusals to its row.
  \<^item> \<open>Recorded_World\<close> (\<^verbatim>\<open>evals/recorder.py\<close>, \<^verbatim>\<open>evals/recorded_client.py\<close>): a world read once, and the client that
    replays it on a later clock.
  \<^item> \<open>Step_Records\<close>, \<open>Candidate_Metrics\<close> (\<^verbatim>\<open>agent/strategies/records.py\<close>, \<^verbatim>\<open>evals/candidate_metrics.py\<close>): the record of
    a planner step, its JSON form, and pass@k, selected@k and the oracle gap measured over either.

  The theories ending in \<open>_Facts\<close> and \<open>_Claims\<close>, \<open>Durable_Run\<close>, \<open>Live_Run\<close>, \<open>Graded_Run\<close> and this one hold the lemmas
  and properties; \<open>Sample_Run\<close> holds one concrete run for the witnesses. The properties are C1 to C40.

  \<^bold>\<open>Interfaces.\<close> Locales state what one component relies on another for: \<open>checkpointer\<close> (both
  implementations), \<open>lawful_registry\<close> and \<open>guarded_registry\<close> (transition tables whose steps keep an
  invariant), \<open>durable_run\<close> (a guarded registry over a checkpointer), \<open>investigation_strategy\<close> and
  \<open>narrowed_strategy\<close> (the arms), \<open>candidate_generator\<close>, \<open>branch_reader\<close> and the composed arms over
  them, \<open>recording_service\<close> and \<open>task_host\<close>. Each is interpreted on the code's own definitions.

  \<^bold>\<open>What the lemmas show.\<close> A run never loses a ledger row or moves a meter backwards; the investigation
  calls READ tools only and ends; PLANNING and REMEDIATING are entered only through their guards; a
  RESOLVED run carries its evidence; checkpointing does not change a run, and racing writers append;
  deliveries are authenticated and accepted once, up to a gap of under a millisecond; every inference arm keeps
  the contract the investigation's theorems rest on; a RESOLVED live run meets the grader's own rules,
  a passed grade and a positive reward have their readings and audited calls behind them, and a clean
  regression gate lost no scenario, dimension or assertion; a live scenario puts its world back or latches it; a recorded world
  answers as it was recorded, and the research numbers of a run can be recomputed from its trace.

  \<^bold>\<open>Bounds.\<close> The investigation's \<open>while True\<close> runs on fuel, and \<open>step_bound\<close> passes are always enough,
  since each pass that continues spends a counter or pays an owed read. The planning loop needs at
  most \<open>max_plan_calls\<close> = 6 passes. The run loop is a \<open>range\<close> in the source, hence structural. A write
  tries three times, as the source does. A search walk is at most two levels of three branches. The
  fuel of \<open>create_strategy\<close> is the interpreter's stack: running out is the \<open>RecursionError\<close> of the code.

  The wait for the platform's alert has a deadline of 120 seconds and polls every 3, so 41 looks are enough.

  \<^bold>\<open>Parameters.\<close> HMAC-SHA256, the JSON parser, UUIDs, digests and Pydantic's coercions (\<open>libs\<close>), the
  tools' output models, the models behind each role, the tool calls, clocks and sleeps are arguments.
  The world they act on is the type \<open>'w\<close>, threaded through every call.

  \<^bold>\<open>Abstractions.\<close> Finite floats are exact rationals, so sums and products carry no rounding. A row's
  text is its fixed wording with the values it interpolates (\<open>summary\<close>). An evidence id is a position
  on the ledger. Prompt text is not built: a port is asked with the values the prompt is rendered from.

  \<^bold>\<open>Not modelled.\<close> SQL, and HTTP and the SDK below one request (I/O); the rendered reports and command
  lines of the evaluation harness under \<^verbatim>\<open>evals/\<close>; migrations, scripts and tests.
\<close>

section \<open>Whole runs\<close>

lemma live_snapshot:
  assumes "run_to_completion (durable_ports clk pg_write (live_registry str_of digest I ask model P)) m (w, s)
      (start_run al cfg now i calls) = ((w', s'), r)"
    and "0 \<le> max_attempts P" and "pg_history s i = []" and "snap \<in> set (pg_history s' i)"
  shows "live_inv P snap"
proof -
  have id: "incident_id (start_run al cfg now i calls) = i" by (simp add: start_run_def)
  from live_pg.run_durable[OF assms(1) live_inv_start[OF assms(2)]] obtain rows
    where "pg_history s' i = rows" and "list_all (live_inv P) rows"
    using assms(3) id by fastforce
  with assms(4) show ?thesis by (simp add: list_all_iff)
qed

text \<open>C1: a run that the loop over the live transitions returns RESOLVED shows why: a loaded plan of
  a resolving action, its verify read and a judge row saying verified at the end of the ledger, no
  dead-letter row left unaddressed, no earlier stabilised attempt, no other cause ranked at the bar,
  and, for a metric alert, a reading that passes the ADR 0077 gate.\<close>

theorem resolved_run_is_shown:
  assumes "run_to_completion (durable_ports clk pg_write (live_registry str_of digest I ask model P)) m (w, s)
      (start_run al cfg now i calls) = ((w', s'), Inr rs')"
    and "0 \<le> max_attempts P" and "state rs' = RESOLVED"
  shows "resolution_shown P rs'"
proof -
  from live_pg.run_durable[OF assms(1) live_inv_start[OF assms(2)]] obtain rows
    where "list_all (live_inv P) rows" "rows \<noteq> []" "rs' = last rows" by blast
  then have "live_inv P rs'" by (simp add: list_all_iff)
  with assms(3) show ?thesis by (simp add: live_inv_def)
qed

theorem resolved_run_is_shown_witness: "resolution_shown sample_remediator sample_resolved"
proof -
  from sample_run obtain s' where
    run: "run_to_completion sample_pg 12 (False, []) sample_start = ((True, s'), Inr sample_resolved)" by blast
  from resolved_run_is_shown[OF this[unfolded sample_start_def]]
  show ?thesis by (simp add: sample_remediator_def)
qed

text \<open>C2: in every snapshot a live run ever checkpoints, whatever it returned or raised, the attempt
  counter bounds the Tier-1 actions on the ledger and never passes MAX_REMEDIATION_ATTEMPTS.\<close>

theorem tier_1_actions_bounded:
  assumes "run_to_completion (durable_ports clk pg_write (live_registry str_of digest I ask model P)) m (w, s)
      (start_run al cfg now i calls) = ((w', s'), r)"
    and "0 \<le> max_attempts P" and "pg_history s i = []" and "snap \<in> set (pg_history s' i)"
  shows "int (length (filter (\<lambda>e. tool_name e \<in> set tier_1_tools) (evidence snap))) \<le> remediation_attempts snap
    \<and> remediation_attempts snap \<le> max_attempts P"
  using live_snapshot[OF assms] by (simp add: live_inv_def tier_1_rows_def)

theorem tier_1_actions_bounded_witness:
  "int (length (filter (\<lambda>e. tool_name e \<in> set tier_1_tools) (evidence sample_resolved))) \<le> remediation_attempts sample_resolved
   \<and> remediation_attempts sample_resolved \<le> max_attempts sample_remediator"
proof -
  from sample_run obtain s' where
    run: "run_to_completion sample_pg 12 (False, []) sample_start = ((True, s'), Inr sample_resolved)"
    and snap: "sample_resolved \<in> set (pg_history s' ''i'')" by auto
  show ?thesis
    by (rule tier_1_actions_bounded[OF run[unfolded sample_start_def] _ _ snap])
      (simp_all add: sample_remediator_def sample_empty_history)
qed

text \<open>C3: every REMEDIATING snapshot a live run checkpoints, the only state a crash may be resumed into
  an action from, stores a plan that every guard of PLANNING admits on that very snapshot, with an
  attempt left to spend.\<close>

theorem remediating_checkpoint_is_admissible:
  assumes "run_to_completion (durable_ports clk pg_write (live_registry str_of digest I ask model P)) m (w, s)
      (start_run al cfg now i calls) = ((w', s'), r)"
    and "0 \<le> max_attempts P" and "pg_history s i = []" and "snap \<in> set (pg_history s' i)"
    and "state snap = REMEDIATING"
  shows "\<exists>p. load_plan snap = Loaded p \<and> plan_admissible (rem_libs P) p snap
    \<and> remediation_attempts snap < max_attempts P"
  using live_snapshot[OF assms(1-4)] assms(5) by (auto simp: live_inv_def ready_to_act_def)

theorem remediating_checkpoint_is_admissible_witness:
  "\<exists>p. load_plan sample_remediating = Loaded p
    \<and> plan_admissible (rem_libs sample_remediator) p sample_remediating
    \<and> remediation_attempts sample_remediating < max_attempts sample_remediator"
proof -
  from sample_run obtain s' where
    run: "run_to_completion sample_pg 12 (False, []) sample_start = ((True, s'), Inr sample_resolved)"
    and snap: "sample_remediating \<in> set (pg_history s' ''i'')" by auto
  show ?thesis
    by (rule remediating_checkpoint_is_admissible[OF run[unfolded sample_start_def] _ _ snap])
      (simp_all add: sample_remediator_def sample_empty_history)
qed

text \<open>C4: whatever a live run over Postgres returns or raises, and from whatever state it was handed,
  it only appends snapshots to its own incident: each extends the one before it (same incident and
  alert, append-only ledger, no meter back) and stays in its state or moves along the machine; a run
  it returns is terminal, is the last snapshot and is what a later load finds.\<close>

theorem run_leaves_a_trail:
  assumes "run_to_completion (durable_ports clk pg_write (live_registry str_of digest I ask model P)) m (w, s) rs
    = ((w', s'), r)"
  shows "\<exists>rows. (\<forall>i. pg_history s' i = pg_history s i @ (if i = incident_id rs then rows else []))
    \<and> trail rows
    \<and> (case r of Inr rs' \<Rightarrow> rows \<noteq> [] \<and> rs' = last rows \<and> is_terminal (state rs')
                         \<and> pg_load s' (incident_id rs) = Some rs'
       | Inl _ \<Rightarrow> True)"
proof -
  from live_any_pg.run_durable[OF assms] obtain rows where
    rows: "\<forall>i. pg_history s' i = pg_history s i @ (if i = incident_id rs then rows else [])" "trail rows"
    and r: "\<forall>rs'. r = Inr rs' \<longrightarrow> rows \<noteq> [] \<and> rs' = last rows \<and> is_terminal (state rs')" by blast
  have "pg_load s' (incident_id rs) = Some rs'" if "r = Inr rs'" for rs'
    using live_any_pg.run_durable_load[OF assms[unfolded that]] by simp
  with rows r show ?thesis by (intro exI[of _ rows]) (auto split: sum.split)
qed

theorem run_leaves_a_trail_witness:
  "\<exists>s' rows. (\<forall>i. pg_history s' i = pg_history [] i @ (if i = incident_id sample_start then rows else []))
    \<and> trail rows \<and> last rows = sample_resolved \<and> pg_load s' (incident_id sample_start) = Some sample_resolved"
proof -
  from sample_run obtain s' where
    run: "run_to_completion sample_pg 12 (False, []) sample_start = ((True, s'), Inr sample_resolved)" by blast
  from run_leaves_a_trail[OF run, unfolded sum.case] obtain rows where
    "\<forall>i. pg_history s' i = pg_history [] i @ (if i = incident_id sample_start then rows else [])"
    "trail rows" "sample_resolved = last rows" "pg_load s' (incident_id sample_start) = Some sample_resolved"
    by blast
  then show ?thesis by (intro exI[of _ s'] exI[of _ rows]) simp
qed

text \<open>C5: an investigation calls READ tools only. Two platforms that answer READ tools alike give the
  same run and the same world, whatever the model answers and whatever the other tools would do.\<close>

theorem investigation_calls_only_reads:
  assumes "\<forall>w args. \<forall>tool\<in>set read_tools. c w tool args = c' w tool args"
  shows "transition_llm_investigate (I\<lparr>call_tool := c\<rparr>) w rs now
    = transition_llm_investigate (I\<lparr>call_tool := c'\<rparr>) w rs now"
  using investigation_reads[of c c' I] assms by (simp add: agree_on_reads_def)

theorem investigation_calls_only_reads_witness:
  "transition_llm_investigate (sample_investigator\<lparr>call_tool := sample_call_tool\<rparr>) False sample_investigating 1000
   = transition_llm_investigate (sample_investigator\<lparr>call_tool := (\<lambda>w tool args.
       if tool \<in> set read_tools then sample_call_tool w tool args
       else (True, Mcp_crash (Foreign ''not a read'')))\<rparr>) False sample_investigating 1000"
  by (rule investigation_calls_only_reads) simp

text \<open>C6: a run that an investigation hands to PLANNING has a top hypothesis of a category with a
  Tier-1 fix at or above the confidence bar, has read the subject its alert names, has listed the
  whole dead-letter queue if its category acts on it, and has made every read required before a
  verdict; its ledger grew by markers and READ answers only, at least one charged call per answer.\<close>

theorem planning_is_entered_through_the_gates:
  assumes "transition_llm_investigate (I\<lparr>strategy := baseline ask model\<rparr>) w rs now = (w', Inr rs')"
    and "state rs = INVESTIGATING"
  shows "grew rs rs' \<and> (state rs' = ESCALATED \<or>
    state rs' = PLANNING \<and> planning_gate (required_before_verdict I) rs')"
  using live_investigation[OF assms] by blast

theorem planning_is_entered_through_the_gates_witness:
  "grew sample_investigating sample_planning \<and> planning_gate [] sample_planning"
  using planning_is_entered_through_the_gates[OF sample_transitions(1) sample_states(2)]
  by (simp add: sample_investigator_def)

text \<open>C7: the investigation's \<open>while True\<close> ends: within the stated number of passes it returns or
  raises, for every model, platform and alert, so the transition is that loop's result.\<close>

theorem investigation_terminates:
  "investigate_loop (I\<lparr>strategy := baseline ask model\<rparr>) (step_bound I) w rs now (alert_subject (alert rs)) initial_vars
   = Some (transition_llm_investigate (I\<lparr>strategy := baseline ask model\<rparr>) w rs now)"
  using baseline_arm.transition_llm_investigate_loop[of "I\<lparr>strategy := baseline ask model\<rparr>" ask model w rs now]
  by (simp add: step_bound_def)

text \<open>PLANNING ends escalated, or in REMEDIATING with a stored plan that loads back and that every
  guard admits on the ledger it leaves, with an attempt left; the attempt counter does not move.\<close>

theorem planned_run_is_admissible:
  assumes "transition_plan P w rs now = (w', Inr rs')"
  shows "remediation_attempts rs' = remediation_attempts rs
    \<and> (state rs' = ESCALATED \<or> state rs' = REMEDIATING \<and> remediation_attempts rs < max_attempts P
       \<and> (\<exists>p. load_plan rs' = Loaded p \<and> plan_admissible (rem_libs P) p rs'))"
  using transition_plan_cases[OF assms] by (auto simp: grew_def)

theorem planned_run_is_admissible_witness:
  "\<exists>p. load_plan sample_remediating = Loaded p \<and> plan_admissible (rem_libs sample_remediator) p sample_remediating"
  using planned_run_is_admissible[OF sample_transitions(2)] by simp

text \<open>Whatever the planner answers, PLANNING stops re-asking within six planner calls: one, and one
  per refusal allowance.\<close>

theorem planning_ends_within_six_calls:
  "plan_loop P 6 w rs now target initial_plan_vars \<noteq> None"
  using plan_calls_enough by (simp add: max_plan_calls_def)



text \<open>C9: once a call was executed and is on the ledger as it was wired, a plan that would make the
  same call again is refused, whatever key and defaulted arguments either was written with.\<close>

theorem identical_second_attempt_is_refused:
  assumes "validator_ok L" and "action_tool p \<in> set tier_1_tools"
    and "wire_arguments L (action_tool p) (dict_set ''idempotency_key'' key (action_arguments p)) = Some args"
    and "e \<in> set (evidence rs)" and "tool_name e = action_tool p" and "arguments e = args"
    and "wired_call_id L (action_tool p) (action_arguments p) \<noteq> None"
  shows "repeated_attempt L p rs \<noteq> None"
  using assms by (rule repeated_attempt_of_row)

theorem identical_second_attempt_is_refused_witness:
  "repeated_attempt sample_libs sample_plan sample_verifying \<noteq> None"
proof (rule identical_second_attempt_is_refused[OF sample_validator_ok, where e = action_row])
  show "wire_arguments sample_libs (action_tool sample_plan) (dict_set ''idempotency_key''
      (VStr ''i|invalidate_cache_key|key=user:'') (action_arguments sample_plan)) = Some (arguments action_row)"
    by code_simp
  show "wired_call_id sample_libs (action_tool sample_plan) (action_arguments sample_plan) \<noteq> None"
    by code_simp
qed (simp_all add: sample_plan_def tier_1_tools_def sample_verifying_def sample_at_def action_row_def)



text \<open>A verification charges at most one tool call per configured poll.\<close>

theorem verification_costs_at_most_its_polls:
  assumes "transition_verify P w rs now = (w', Inr rs')"
  shows "tool_calls_used (budget rs') \<le> tool_calls_used (budget rs) + int (probe_attempts P)"
  using assms by (rule transition_verify_calls)

theorem verification_costs_at_most_its_polls_witness:
  "tool_calls_used (budget sample_resolved) \<le> tool_calls_used (budget sample_verifying) + 1"
  using verification_costs_at_most_its_polls[OF sample_transitions(4)] by (simp add: sample_remediator_def)

text \<open>A run handed to the loop with an exhausted budget, in a state ADR 0006 does not exempt, is
  escalated and returned without any transition being called, whatever the registry holds.\<close>

theorem exhausted_run_calls_no_transition:
  assumes "is_exhausted (budget rs)" and "\<not> is_terminal (state rs)" and "state rs \<noteq> VERIFYING"
    and "state rs = REMEDIATING \<longrightarrow> remediation_plan rs = None" and "clk w = (w', now)" and "0 < m"
  shows "run_to_completion (plain_ports clk reg) m w rs
    = (w', Inr (escalate (accrue_wall_time rs now) ''budget exhausted'' now))"
proof -
  obtain n where m: "m = Suc n" using assms(6) by (cases m) auto
  have ex: "is_exhausted (budget (accrue_wall_time rs now))"
    by (rule is_exhausted_mono[OF run_le_budget[OF accrue_wall_time_frame] assms(1)])
  have c: "clock (plain_ports clk reg) w = (w', now)" using assms(5) by (simp add: plain_ports_def)
  have "budget_exemption (accrue_wall_time rs now) True = None"
    using assms(3,4) by (auto simp: budget_exemption_def)
  with ex have "loop_iteration (plain_ports clk reg) True w rs
      = (w', Inr (escalate (accrue_wall_time rs now) ''budget exhausted'' now))"
    using c by (simp add: loop_iteration_def save_plain)
  with assms(2) m show ?thesis
    by (cases n) (simp_all add: run_to_completion_def save_plain)
qed

theorem exhausted_run_calls_no_transition_witness:
  "run_to_completion (plain_ports sample_clock (\<lambda>_. None)) 1 False
     (sample_start\<lparr>budget := (budget sample_start)\<lparr>max_tool_calls := 0\<rparr>\<rparr>)
   = (False, Inr (escalate (accrue_wall_time
       (sample_start\<lparr>budget := (budget sample_start)\<lparr>max_tool_calls := 0\<rparr>\<rparr>) 1000) ''budget exhausted'' 1000))"
  by (rule exhausted_run_calls_no_transition) (simp_all add: is_exhausted_def sample_start_def start_run_def)

text \<open>\<open>dispatch\<close> refines the state machine: whatever the transitions return, a step that is let
  through is an edge of the table, so RESOLVED is entered from VERIFYING only and VERIFYING from
  REMEDIATING only.\<close>

theorem dispatch_follows_the_machine:
  assumes "dispatch reg w rs now = (w', Inr rs')"
  shows "machine_step (state rs) (state rs') \<and> \<not> is_terminal (state rs)
    \<and> (state rs' = RESOLVED \<longrightarrow> state rs = VERIFYING) \<and> (state rs' = VERIFYING \<longrightarrow> state rs = REMEDIATING)"
  using dispatch_refines_machine[OF assms] only_verifying_resolves only_remediating_verifies
    dispatch_InrD(1)[OF assms] by metis

theorem dispatch_follows_the_machine_witness: "machine_step (state sample_start) INVESTIGATING"
proof -
  have "dispatch (default_transitions show_str (\<lambda>s. s)) () sample_start 0
      = ((), Inr (transition_triage show_str (\<lambda>s. s) sample_start 0))"
    and t: "state (transition_triage show_str (\<lambda>s. s) sample_start 0) = INVESTIGATING"
    by code_simp+
  from dispatch_follows_the_machine[OF this(1)] t show ?thesis by simp
qed

text \<open>C11: checkpointing is transparent: over the in-memory store and over Postgres held alone, a run
  returns what it would have returned with no checkpointer, errors included.\<close>

theorem checkpointing_is_transparent:
  "map_prod fst id (run_to_completion (durable_ports clk mem_write reg) m (w, s) rs)
     = run_to_completion (plain_ports clk reg) m w rs
   \<and> map_prod fst id (run_to_completion (durable_ports clk pg_write reg) m (w, t) rs)
     = run_to_completion (plain_ports clk reg) m w rs"
  by (simp add: run_transparent mem_reliable pg_reliable)

text \<open>A Postgres write racing other writers keeps versions unique and never rewrites a row: the
  table grows by rows of the others and, exactly when the write reports success, this snapshot last;
  the only failure is the constraint's, after three tries.\<close>

theorem racing_write_appends:
  assumes "pg_write_racing others tbl rs = (tbl', r)" and "unique_versions tbl"
  shows "unique_versions tbl' \<and> (\<exists>rows. set rows \<subseteq> (\<Union>j\<in>{0..<3}. set (others j)) \<and>
     (case r of Inl err \<Rightarrow> err = IntegrityError \<and> tbl' = tbl @ rows
      | Inr _ \<Rightarrow> (\<exists>own. row_run own = rs \<and> row_incident own = incident_id rs \<and> tbl' = tbl @ rows @ [own])))"
  using pg_attempts_unique[OF assms(1)[unfolded pg_write_racing_def] assms(2)]
    pg_attempts_rows[OF assms(1)[unfolded pg_write_racing_def]] by simp

definition rival_row :: snapshot_row where
  "rival_row = \<lparr>row_incident = ''i'', row_version = 0, row_state = ''triage'', row_run = sample_start\<rparr>"

theorem racing_write_appends_witness:
  "unique_versions (fst (pg_write_racing (\<lambda>j. if j = 0 then [rival_row] else []) [] sample_start))"
proof -
  obtain tbl' r where w: "pg_write_racing (\<lambda>j. if j = 0 then [rival_row] else []) [] sample_start = (tbl', r)"
    by fastforce
  have "unique_versions []" by (simp add: unique_versions_def)
  from racing_write_appends[OF w this] w show ?thesis by simp
qed



text \<open>Wiring is idempotent: the arguments a call was sent with, defaults filled in, are accepted
  again and dumped to themselves, given a validator that accepts what it dumped.\<close>

theorem wiring_is_idempotent:
  assumes "validator_ok L" and "wire_arguments L tool raw = Some d"
  shows "wire_arguments L tool d = Some d"
  using assms by (rule wire_arguments_idem)

theorem wiring_is_idempotent_witness:
  "wire_arguments sample_libs ''get_consumer_lag'' [(''consumer_group'', VStr ''worker-dispatcher'')]
   = Some [(''consumer_group'', VStr ''worker-dispatcher'')]"
proof (rule wiring_is_idempotent[OF sample_validator_ok])
  show "wire_arguments sample_libs ''get_consumer_lag'' [] = Some [(''consumer_group'', VStr ''worker-dispatcher'')]"
    by code_simp
qed



text \<open>The policy tables cover the registry: \<open>ensure_covered\<close> passes, a tool is READ or Tier 1 and
  never both, and every Tier-1 tool has a resolution class while no READ tool has one.\<close>

theorem policy_covers_the_registry:
  "ensure_covered = Inr ()
   \<and> (registered tool \<longrightarrow> (tier_of tool = Inr READ) \<noteq> (tier_of tool = Inr TIER_1))
   \<and> (tier_of tool = Inr TIER_1 \<longleftrightarrow> (\<exists>c. resolution_class_of tool = Inr c))"
proof (intro conjI)
  show "ensure_covered = Inr ()" by code_simp
  show "registered tool \<longrightarrow> (tier_of tool = Inr READ) \<noteq> (tier_of tool = Inr TIER_1)"
    using tier_of_registered by fastforce
  show "tier_of tool = Inr TIER_1 \<longleftrightarrow> (\<exists>c. resolution_class_of tool = Inr c)"
  proof
    assume "tier_of tool = Inr TIER_1"
    then show "\<exists>c. resolution_class_of tool = Inr c"
      using resolution_class_of_tier_1[of tool] by (simp add: tier_of_TIER_1_iff)
  qed (auto simp: resolution_class_of_def split: if_splits sum.splits)
qed

theorem policy_covers_the_registry_witness:
  "(tier_of ''pause_dag'' = Inr READ) \<noteq> (tier_of ''pause_dag'' = Inr TIER_1)"
proof -
  have "registered ''pause_dag''" by code_simp
  with policy_covers_the_registry[of "''pause_dag''"] show ?thesis by blast
qed

text \<open>A model with no price row of its own is never billed below what any priced model would be
  for the same usage, and every bill is within half a micro-dollar of the exact product.\<close>

theorem unknown_model_is_never_underpriced:
  assumes "map_of pricing_table model = None" and "m \<in> set (map fst pricing_table)"
  shows "cost_of m u \<le> cost_of model u
    \<and> (\<exists>row. pricing_for model = Inr row \<and> \<bar>cost_of model u - raw_cost row u\<bar> \<le> 1/2000000)"
proof -
  from assms(2) obtain row where row: "map_of pricing_table m = Some row"
    by (metis map_of_eq_None_iff list.set_map option.exhaust)
  then have m: "pricing_for m = Inr row" "(m, row) \<in> set pricing_table"
    by (simp_all add: pricing_for_def map_of_SomeD)
  obtain c where c: "pricing_for model = Inr c" using pricing_for_total by blast
  with assms(1) have "class_ceiling pricing_table = Inr c" by (simp add: pricing_for_def)
  from class_ceiling_bounds[OF this m(2)] have "pricing_le row c" .
  then have "quantize (raw_cost row u) \<le> quantize (raw_cost c u)" by (intro quantize_mono raw_cost_mono)
  then have le: "cost_of m u \<le> cost_of model u" by (simp add: cost_of_eq[OF m(1)] cost_of_eq[OF c])
  have "\<bar>cost_of model u - raw_cost c u\<bar> \<le> 1/2000000"
    using quantize_error[of "raw_cost c u"] by (simp add: cost_of_eq[OF c] raw_cost_def)
  with le c show ?thesis by blast
qed

theorem unknown_model_is_never_underpriced_witness:
  "cost_of ''claude-haiku-4-5'' sample_usage \<le> cost_of ''unlisted'' sample_usage"
  using unknown_model_is_never_underpriced[of "''unlisted''" "''claude-haiku-4-5''" sample_usage]
  by (simp add: pricing_table_def)

text \<open>C15: a metered call that succeeds, after a re-ask or at once, keeps the split of the bill equal to
  the ledger: the recorded calls and the budget's meters agree to the token and the micro-dollar.\<close>

theorem accounting_reconciles_with_the_ledger:
  assumes "call_with_output_repair (metered_call inner r model True) (w, cs) = ((w', cs'), Inr call)"
    and "reconciles_with cs b"
  shows "reconciles_with cs' (accrue_structured_call b call model)"
  by (rule metered_ask_again[OF assms(1)[unfolded call_with_output_repair_def]]) (simp add: assms(2))

definition garbled_then_clear :: "(nat, string) llm_client" where
  "garbled_then_clear w quoted =
     (Suc w, if w = 0 then Inl (Unreadable (Some sample_usage) False) else Inr (''ok'', sample_usage))"

theorem accounting_reconciles_with_the_ledger_witness:
  "\<exists>cs' call. snd (call_with_output_repair (metered_call garbled_then_clear ''planner'' ''m'' True) (0, [])) = Inr call
     \<and> reconciles_with cs' (accrue_structured_call (budget sample_start) call ''m'')"
proof -
  obtain w' cs' res where run:
    "call_with_output_repair (metered_call garbled_then_clear ''planner'' ''m'' True) (0, []) = ((w', cs'), res)"
    by (metis surj_pair)
  then have "\<exists>call. res = Inr call"
    by (auto simp: call_with_output_repair_def max_output_repairs_def metered_call_def garbled_then_clear_def
        failure_usage_def)
  then obtain call where res: "res = Inr call" ..
  have "reconciles_with [] (budget sample_start)"
    by (simp add: reconciles_with_def charged_tokens_used_def charged_usd_used_def sample_start_def start_run_def)
  from accounting_reconciles_with_the_ledger[OF run[unfolded res] this] run res show ?thesis by auto
qed

text \<open>When both answers were unreadable, the one usage the raised failure carries is charged no
  less, in tokens and in exact dollars, than the bills it stands for.\<close>

theorem exhausted_repair_overstates:
  assumes "pricing_nonneg row" and "sum_usage us = Some bill"
  shows "(\<Sum>u\<leftarrow>us. case u of None \<Rightarrow> 0 | Some x \<Rightarrow> token_volume x) \<le> token_volume bill
    \<and> (\<Sum>u\<leftarrow>us. case u of None \<Rightarrow> 0 | Some x \<Rightarrow> raw_cost row x) \<le> raw_cost row bill"
proof -
  let ?some = "\<lambda>us. concat (map (\<lambda>u. case u of Some x \<Rightarrow> [x] | None \<Rightarrow> []) us)"
  have sums: "(\<Sum>u\<leftarrow>us. case u of None \<Rightarrow> 0 | Some x \<Rightarrow> f x) = sum_list (map f (?some us))"
    for f :: "llm_usage \<Rightarrow> 'a::comm_monoid_add" and us
    by (induction us) (auto split: option.splits)
  from assms(2) obtain u rest where s: "?some us = u # rest" "bill = foldl add_usage u rest"
    by (auto simp: sum_usage_def split: list.splits)
  from foldl_add_usage_over[OF assms(1), of u rest] s show ?thesis unfolding sums by simp
qed

theorem exhausted_repair_overstates_witness:
  "(\<Sum>u\<leftarrow>[Some sample_usage, None, Some sample_usage]. case u of None \<Rightarrow> 0 | Some x \<Rightarrow> token_volume x)
     \<le> token_volume (add_usage sample_usage sample_usage)"
  using exhausted_repair_overstates[of "\<lparr>input_usd_per_mtok = 1, output_usd_per_mtok = 1,
      cache_write_usd_per_mtok = 1, cache_read_usd_per_mtok = 1\<rparr>"
      "[Some sample_usage, None, Some sample_usage]" "add_usage sample_usage sample_usage"]
  by (simp add: pricing_nonneg_def sum_usage_def)

text \<open>The per-role totals add up to the run's totals, in calls, tokens and dollars.\<close>

theorem role_totals_add_up:
  "sum_list (map tot_tokens (roles cs)) = run_tokens_used cs
   \<and> sum_list (map tot_usd (roles cs)) = run_usd_used cs
   \<and> sum_list (map tot_calls (roles cs)) = length cs"
proof -
  let ?rs = "dedup (map role cs)"
  have d: "distinct ?rs" and sub: "set (map role cs) \<subseteq> set ?rs" by simp_all
  show ?thesis
    using sum_list_by_role[OF d sub, of acc_tokens_used] sum_list_by_role[OF d sub, of acc_usd_used]
      sum_list_by_role[OF d sub, of "\<lambda>_. 1 :: nat"]
    by (simp add: roles_def totals_of_def Let_def run_tokens_used_def run_usd_used_def comp_def sum_list_triv)
qed

text \<open>C16: a recovery is credited to an action only with the readings around it: a Tier-1 call on the
  ledger that named the resource, an earlier reading of that resource with the fault present and a
  later one with it gone.\<close>

theorem credited_recovery_has_its_readings:
  assumes "attribution_of rs = Some a" and "attr_verdict a = ATTRIBUTED"
  shows "\<exists>i j k reading tool args. j < i \<and> i < k \<and> k < length (evidence rs)
    \<and> effective_call (evidence rs ! i) = (tool, args) \<and> tool \<in> set tier_1_tools
    \<and> (\<exists>r\<in>set (stripped_resource_values tool args).
         (\<forall>e\<in>{evidence rs ! j, evidence rs ! k}. tool_name e = rr_tool reading
            \<and> named_resource (arguments e) (rr_argument reading) = Some r))
    \<and> reads_recovered (evidence rs ! j) reading = Some False
    \<and> reads_recovered (evidence rs ! k) reading = Some True"
proof -
  from assms obtain i r reading where s: "acted_subject (evidence rs) = Some (i, r, reading)"
    and v: "acted_verdict (evidence rs) i (r, reading) = Some a"
    by (auto simp: attribution_of_def split: option.splits if_splits dest: unacted_verdict_flags)
  from acted_subject_call(2)[OF s] obtain tool args where c: "effective_call (evidence rs ! i) = (tool, args)"
    "tool \<in> set tier_1_tools" "r \<in> set (stripped_resource_values tool args)" by blast
  from acted_verdict_ATTRIBUTED[OF v assms(2)] c show ?thesis by blast
qed

theorem credited_recovery_has_its_readings_witness:
  "\<exists>i j k. j < i \<and> i < k \<and> k < length (evidence sample_resolved)"
proof -
  have "map_option attr_verdict (attribution_of sample_resolved) = Some ATTRIBUTED" by code_simp
  then obtain a where "attribution_of sample_resolved = Some a" "attr_verdict a = ATTRIBUTED" by auto
  from credited_recovery_has_its_readings[OF this] show ?thesis by blast
qed







text \<open>The exception to the reconciliation above. When the first answer is unreadable and the second proposes a move
  that was not offered, \<open>OutputNotOffered\<close> carries the second answer's usage only: what the ledger is
  charged falls short of what was billed by the whole first call.\<close>

theorem refused_reask_drops_the_first_bill:
  assumes "client w None = (w1, Inl (Unreadable (Some u) False))"
    and "client w1 (Some (Some u)) = (w2, Inl (Unreadable (Some v) True))"
  shows "\<exists>err cs'. call_with_output_repair client w = (w2, Inl err)
    \<and> call_with_output_repair (metered_call client r model True) (w, []) = ((w2, cs'), Inl err)
    \<and> charged_tokens_used cs' = int (token_volume u) + int (token_volume v)
    \<and> tokens_used (accrue_llm_error b (repair_error_usage err) model) = tokens_used b + int (token_volume v)"
  using assms
  by (auto simp: call_with_output_repair_def max_output_repairs_def metered_call_def failure_usage_def
      call_accounting_of_def charged_tokens_used_def accrue_llm_error_def)

definition garbled_then_refused :: "(nat, string) llm_client" where
  "garbled_then_refused w quoted = (Suc w, Inl (Unreadable (Some sample_usage) (w \<noteq> 0)))"

theorem refused_reask_drops_the_first_bill_witness:
  "\<exists>err cs'. call_with_output_repair (metered_call garbled_then_refused ''planner'' ''m'' True) (0, []) = ((2, cs'), Inl err)
    \<and> charged_tokens_used cs' = 240
    \<and> tokens_used (accrue_llm_error (budget sample_start) (repair_error_usage err) ''m'') = 120"
proof -
  have "garbled_then_refused 0 None = (1, Inl (Unreadable (Some sample_usage) False))"
    "garbled_then_refused 1 (Some (Some sample_usage)) = (2, Inl (Unreadable (Some sample_usage) True))"
    by (simp_all add: garbled_then_refused_def)
  from refused_reask_drops_the_first_bill[OF this, of "''planner''" "''m''" "budget sample_start"]
  show ?thesis
    by (auto simp: sample_usage_def token_volume_def discarded_output_tokens_def sample_start_def start_run_def)
qed

end
